(* ===== verification/Prelude.thy ===== *)
theory Prelude
  imports Main "HOL-Library.Word" "HOL-Library.AList" "HOL-Library.Multiset"
    "HOL-Library.Code_Target_Nat"
begin

text \<open>
  Shared vocabulary of the development: the fragment of the Rust language and of its
  standard library that the modelled crates use, with the generic lemmas the component
  theories rest on.

  \<^item> Machine integers are words (\<open>u32\<close>, \<open>u64\<close>); arithmetic on them wraps, which is what
    the release profile of the workspace does.
  \<^item> A Rust \<^verbatim>\<open>str\<close> is a sequence of UTF-8 bytes, here a \<^typ>\<open>string\<close> whose characters are
    bytes: lengths and indices count bytes, as Rust's do. Trimming and case folding are
    those of ASCII; the workspace applies them to identifiers, header names and
    expressions only.
  \<^item> \<^verbatim>\<open>HashMap\<close> and \<^verbatim>\<open>BTreeMap\<close> are association lists with distinct keys, the latter sorted
    by key. The order of a hash map's list stands for its iteration order, which Rust
    leaves unspecified; no property of the development depends on it.
\<close>

named_theorems str_defs "definitions of the string functions of the standard library"

type_synonym u8 = "8 word"
type_synonym u16 = "16 word"
type_synonym u32 = "32 word"
type_synonym u64 = "64 word"

section \<open>Strings\<close>

definition starts_with :: "string \<Rightarrow> string \<Rightarrow> bool" where
  "starts_with s p \<longleftrightarrow> take (length p) s = p"

definition ends_with :: "string \<Rightarrow> string \<Rightarrow> bool" where
  "ends_with s p \<longleftrightarrow> length p \<le> length s \<and> drop (length s - length p) s = p"

definition strip_prefix :: "string \<Rightarrow> string \<Rightarrow> string option" where
  "strip_prefix s p = (if starts_with s p then Some (drop (length p) s) else None)"

text \<open>\<^verbatim>\<open>str::find\<close>: the byte offset of the first occurrence of the needle.\<close>

fun str_find :: "string \<Rightarrow> string \<Rightarrow> nat option" where
  "str_find [] p = (if p = [] then Some 0 else None)"
| "str_find (c # s) p =
     (if starts_with (c # s) p then Some 0 else map_option Suc (str_find s p))"

definition str_contains :: "string \<Rightarrow> string \<Rightarrow> bool" where
  "str_contains s p \<longleftrightarrow> str_find s p \<noteq> None"

fun split_char :: "char \<Rightarrow> string \<Rightarrow> string list" where
  "split_char d [] = [[]]"
| "split_char d (c # s) =
     (if c = d then [] # split_char d s
      else case split_char d s of [] \<Rightarrow> [[c]] | w # ws \<Rightarrow> (c # w) # ws)"

definition split_once :: "char \<Rightarrow> string \<Rightarrow> (string \<times> string) option" where
  "split_once d s =
     (case dropWhile (\<lambda>c. c \<noteq> d) s of
        [] \<Rightarrow> None
      | _ # b \<Rightarrow> Some (takeWhile (\<lambda>c. c \<noteq> d) s, b))"

fun splitn :: "nat \<Rightarrow> char \<Rightarrow> string \<Rightarrow> string list" where
  "splitn 0 d s = []"
| "splitn (Suc 0) d s = [s]"
| "splitn (Suc (Suc n)) d s =
     (case split_once d s of None \<Rightarrow> [s] | Some (a, b) \<Rightarrow> a # splitn (Suc n) d b)"

text \<open>\<^verbatim>\<open>s.rsplit(d).next()\<close>: what follows the last separator.\<close>

definition rsplit_first :: "char \<Rightarrow> string \<Rightarrow> string" where
  "rsplit_first d s = last (split_char d s)"

definition is_whitespace :: "char \<Rightarrow> bool" where
  "is_whitespace c \<longleftrightarrow> c = CHR '' '' \<or> (9 \<le> (of_char c :: nat) \<and> (of_char c :: nat) \<le> 13)"

definition trim_start :: "string \<Rightarrow> string" where
  "trim_start s = dropWhile is_whitespace s"

definition trim_end :: "string \<Rightarrow> string" where
  "trim_end s = rev (dropWhile is_whitespace (rev s))"

definition trim :: "string \<Rightarrow> string" where
  "trim s = trim_end (trim_start s)"

definition trim_start_matches :: "char \<Rightarrow> string \<Rightarrow> string" where
  "trim_start_matches d s = dropWhile (\<lambda>c. c = d) s"

definition trim_end_matches :: "char \<Rightarrow> string \<Rightarrow> string" where
  "trim_end_matches d s = rev (dropWhile (\<lambda>c. c = d) (rev s))"

definition is_ascii_uppercase :: "char \<Rightarrow> bool" where
  "is_ascii_uppercase c \<longleftrightarrow> 65 \<le> (of_char c :: nat) \<and> (of_char c :: nat) \<le> 90"

definition to_ascii_lowercase :: "string \<Rightarrow> string" where
  "to_ascii_lowercase s =
     map (\<lambda>c. if is_ascii_uppercase c then char_of ((of_char c :: nat) + 32) else c) s"

definition eq_ignore_ascii_case :: "string \<Rightarrow> string \<Rightarrow> bool" where
  "eq_ignore_ascii_case a b \<longleftrightarrow> to_ascii_lowercase a = to_ascii_lowercase b"

text \<open>\<^verbatim>\<open>s.replace(c, t)\<close> for a single ASCII character.\<close>

definition replace_char :: "char \<Rightarrow> string \<Rightarrow> string \<Rightarrow> string" where
  "replace_char d t s = concat (map (\<lambda>c. if c = d then t else [c]) s)"

fun join :: "string \<Rightarrow> string list \<Rightarrow> string" where
  "join sep [] = []"
| "join sep [x] = x"
| "join sep (x # y # xs) = x @ sep @ join sep (y # xs)"

definition bool_to_string :: "bool \<Rightarrow> string" where
  "bool_to_string b = (if b then ''true'' else ''false'')"

lemmas [str_defs] = starts_with_def ends_with_def strip_prefix_def str_contains_def
  split_once_def rsplit_first_def trim_def trim_start_def trim_end_def
  is_whitespace_def trim_start_matches_def trim_end_matches_def bool_to_string_def

subsection \<open>UTF-8\<close>

text \<open>\<^verbatim>\<open>b as char\<close> pushed on a string: the UTF-8 encoding of the Latin-1 character.\<close>

definition push_byte_as_char :: "char \<Rightarrow> string" where
  "push_byte_as_char c =
     (let b = (of_char c :: nat) in
      if b < 128 then [c] else [char_of (192 + b div 64), char_of (128 + b mod 64)])"

text \<open>\<^verbatim>\<open>str::is_char_boundary\<close>: a continuation byte \<open>10xxxxxx\<close> is not the start of a character.\<close>

definition is_cont_byte :: "char \<Rightarrow> bool" where
  "is_cont_byte c \<longleftrightarrow> 128 \<le> (of_char c :: nat) \<and> (of_char c :: nat) < 192"

definition is_char_boundary :: "string \<Rightarrow> nat \<Rightarrow> bool" where
  "is_char_boundary s i \<longleftrightarrow> i = 0 \<or> i = length s \<or> (i < length s \<and> \<not> is_cont_byte (s ! i))"

text \<open>
  \<^verbatim>\<open>std::str::from_utf8\<close>: the well-formed byte sequences of the Unicode standard, without
  overlong forms and surrogates.
\<close>

fun utf8_valid :: "nat list \<Rightarrow> bool" where
  "utf8_valid [] = True"
| "utf8_valid (a # s) =
     (if a < 128 then utf8_valid s
      else if 194 \<le> a \<and> a \<le> 223 then
        (case s of b # r \<Rightarrow> 128 \<le> b \<and> b \<le> 191 \<and> utf8_valid r | _ \<Rightarrow> False)
      else if 224 \<le> a \<and> a \<le> 239 then
        (case s of b # c # r \<Rightarrow>
             (if a = 224 then 160 else 128) \<le> b \<and> b \<le> (if a = 237 then 159 else 191) \<and>
             128 \<le> c \<and> c \<le> 191 \<and> utf8_valid r
         | _ \<Rightarrow> False)
      else if 240 \<le> a \<and> a \<le> 244 then
        (case s of b # c # d # r \<Rightarrow>
             (if a = 240 then 144 else 128) \<le> b \<and> b \<le> (if a = 244 then 143 else 191) \<and>
             128 \<le> c \<and> c \<le> 191 \<and> 128 \<le> d \<and> d \<le> 191 \<and> utf8_valid r
         | _ \<Rightarrow> False)
      else False)"

definition from_utf8 :: "string \<Rightarrow> string option" where
  "from_utf8 bs = (if utf8_valid (map of_char bs) then Some bs else None)"

section \<open>Formatting and parsing of integers\<close>

definition digit_char :: "nat \<Rightarrow> char" where
  "digit_char d = char_of (if d < 10 then 48 + d else 87 + d)"

definition digit_val :: "nat \<Rightarrow> char \<Rightarrow> nat option" where
  "digit_val radix c =
     (let n = (of_char c :: nat);
          d = (if 48 \<le> n \<and> n \<le> 57 then n - 48
               else if 97 \<le> n \<and> n \<le> 122 then n - 87
               else if 65 \<le> n \<and> n \<le> 90 then n - 55 else radix)
      in if d < radix then Some d else None)"

fun to_radix :: "nat \<Rightarrow> nat \<Rightarrow> string" where
  "to_radix b n =
     (if n < b \<or> b \<le> 1 then [digit_char n] else to_radix b (n div b) @ [digit_char (n mod b)])"

declare to_radix.simps [simp del]

abbreviation nat_to_string :: "nat \<Rightarrow> string" where
  "nat_to_string \<equiv> to_radix 10"

definition int_to_string :: "int \<Rightarrow> string" where
  "int_to_string i = (if i < 0 then CHR ''-'' # nat_to_string (nat (- i)) else nat_to_string (nat i))"

definition pad_zero :: "nat \<Rightarrow> string \<Rightarrow> string" where
  "pad_zero w s = replicate (w - length s) (CHR ''0'') @ s"

text \<open>\<^verbatim>\<open>{:0wx}\<close> and \<^verbatim>\<open>{:0w}\<close> of the format machinery.\<close>

definition hex_pad :: "nat \<Rightarrow> nat \<Rightarrow> string" where
  "hex_pad w n = pad_zero w (to_radix 16 n)"

definition dec_pad :: "nat \<Rightarrow> nat \<Rightarrow> string" where
  "dec_pad w n = pad_zero w (to_radix 10 n)"

fun digits_val :: "nat \<Rightarrow> nat \<Rightarrow> string \<Rightarrow> nat option" where
  "digits_val radix acc [] = Some acc"
| "digits_val radix acc (c # s) =
     (case digit_val radix c of
        None \<Rightarrow> None
      | Some d \<Rightarrow> digits_val radix (acc * radix + d) s)"

text \<open>
  \<^verbatim>\<open>from_str_radix\<close> of an unsigned type of the given width: an optional leading plus, at
  least one digit, an error when the value does not fit.
\<close>

definition parse_uint :: "nat \<Rightarrow> nat \<Rightarrow> string \<Rightarrow> nat option" where
  "parse_uint radix bits s =
     (let ds = (case s of c # r \<Rightarrow> if c = CHR ''+'' then r else s | [] \<Rightarrow> [])
      in if ds = [] then None
         else case digits_val radix 0 ds of
                None \<Rightarrow> None
              | Some n \<Rightarrow> if n < 2 ^ bits then Some n else None)"

definition parse_u32 :: "string \<Rightarrow> u32 option" where
  "parse_u32 s = map_option of_nat (parse_uint 10 32 s)"

definition parse_usize :: "string \<Rightarrow> nat option" where
  "parse_usize s = parse_uint 10 64 s"

section \<open>Generic lemmas\<close>

lemma starts_with_Nil [simp]: "starts_with s []"
  by (simp add: starts_with_def)

lemma starts_with_append [simp]: "starts_with (p @ s) p"
  by (simp add: starts_with_def)

lemma starts_withE: "starts_with s p \<Longrightarrow> \<exists>r. s = p @ r"
  unfolding starts_with_def by (metis append_take_drop_id)

lemma str_find_SomeD:
  "str_find s p = Some i \<Longrightarrow> \<exists>r. s = take i s @ p @ r \<and> i + length p \<le> length s"
proof (induction s p arbitrary: i rule: str_find.induct)
  case (1 p)
  then show ?case by (auto split: if_splits)
next
  case (2 c s p)
  show ?case
  proof (cases "starts_with (c # s) p")
    case True
    then have i: "i = 0" using 2(2) by simp
    from True obtain r where r: "c # s = p @ r" using starts_withE by blast
    have "length p \<le> length (c # s)" unfolding r by simp
    with i r show ?thesis by auto
  next
    case False
    with 2 show ?thesis by auto
  qed
qed

lemma split_char_not_Nil [simp]: "split_char d s \<noteq> []"
  by (induction s) (auto split: list.splits)

lemma split_char_no_sep: "d \<notin> set s \<Longrightarrow> split_char d s = [s]"
  by (induction s) auto

lemma split_char_append:
  "d \<notin> set a \<Longrightarrow> split_char d (a @ d # b) = a # split_char d b"
  by (induction a) auto

lemma rsplit_first_sep: "d \<notin> set b \<Longrightarrow> rsplit_first d (a @ d # b) = b"
proof -
  assume b: "d \<notin> set b"
  have "last (split_char d (a @ d # b)) = last (split_char d b)
      \<and> 2 \<le> length (split_char d (a @ d # b))"
  proof (induction a)
    case Nil
    then show ?case by (cases "split_char d b") auto
  next
    case (Cons x a)
    then show ?case
      by (cases "split_char d (a @ d # b)"; cases "tl (split_char d (a @ d # b))") auto
  qed
  then show ?thesis using b by (simp add: rsplit_first_def split_char_no_sep)
qed

lemma split_once_sep: "d \<notin> set a \<Longrightarrow> split_once d (a @ d # b) = Some (a, b)"
proof -
  assume a: "d \<notin> set a"
  then have "takeWhile (\<lambda>c. c \<noteq> d) (a @ d # b) = a" "dropWhile (\<lambda>c. c \<noteq> d) (a @ d # b) = d # b"
    by (induction a) auto
  then show ?thesis by (simp add: split_once_def)
qed

lemma sep_inject:
  fixes d :: char
  assumes "u @ d # v = u' @ d # v'" "d \<notin> set u" "d \<notin> set u'"
  shows "u = u' \<and> v = v'"
proof -
  have "Some (u, v) = split_once d (u @ d # v)" using assms(2) by (simp add: split_once_sep)
  also have "\<dots> = split_once d (u' @ d # v')" by (simp only: assms(1))
  also have "\<dots> = Some (u', v')" using assms(3) by (simp add: split_once_sep)
  finally show ?thesis by simp
qed

lemma split_once_None: "d \<notin> set a \<Longrightarrow> split_once d a = None"
proof -
  assume "d \<notin> set a"
  then have "dropWhile (\<lambda>c. c \<noteq> d) a = []" by (induction a) auto
  then show ?thesis unfolding split_once_def by (simp only: list.case)
qed

lemma length_trim_le [simp]: "length (trim s) \<le> length s"
  unfolding trim_def trim_start_def trim_end_def
  by (metis length_dropWhile_le length_rev order_trans)

lemma trim_id:
  "s = [] \<or> (\<not> is_whitespace (hd s) \<and> \<not> is_whitespace (last s)) \<Longrightarrow> trim s = s"
proof (cases "s = []")
  case False
  moreover assume "s = [] \<or> (\<not> is_whitespace (hd s) \<and> \<not> is_whitespace (last s))"
  ultimately have h: "\<not> is_whitespace (hd s)" "\<not> is_whitespace (hd (rev s))"
    by (auto simp: hd_rev)
  have "dropWhile is_whitespace s = s" using h(1) False by (cases s) auto
  moreover have "dropWhile is_whitespace (rev s) = rev s"
    using h(2) False by (cases "rev s") auto
  ultimately show ?thesis by (simp add: trim_def trim_start_def trim_end_def)
qed (simp add: trim_def trim_start_def trim_end_def)

lemma trim_trim [simp]: "trim (trim s) = trim s"
proof (cases "trim s = []")
  case True
  then show ?thesis by (simp add: trim_id)
next
  case False
  define t where "t = dropWhile is_whitespace s"
  have ts: "trim s = rev (dropWhile is_whitespace (rev t))"
    by (simp add: t_def trim_def trim_start_def trim_end_def)
  with False have ne: "dropWhile is_whitespace (rev t) \<noteq> []" by simp
  have l: "\<not> is_whitespace (last (trim s))"
    using hd_dropWhile [OF ne] ts by (simp add: last_rev)
  have "t \<noteq> []" using ne by auto
  then have ht: "\<not> is_whitespace (hd t)" unfolding t_def by (rule hd_dropWhile)
  obtain u where "t = trim s @ u"
    by (metis append_take_drop_id ts dropWhile_eq_drop rev_append rev_rev_ident rev_swap)
  then have "hd (trim s) = hd t" using False by simp
  with ht l False show ?thesis by (intro trim_id) simp
qed

lemma digit_val_digit_char: "d < b \<Longrightarrow> b \<le> 16 \<Longrightarrow> digit_val b (digit_char d) = Some d"
  by (auto simp: digit_val_def digit_char_def of_char_of Let_def)

lemma digits_val_append:
  "digits_val b a (s @ t) = (case digits_val b a s of None \<Rightarrow> None | Some n \<Rightarrow> digits_val b n t)"
  by (induction b a s rule: digits_val.induct) (auto split: option.splits)

lemma digits_val_to_radix:
  "2 \<le> b \<Longrightarrow> b \<le> 16 \<Longrightarrow> digits_val b 0 (to_radix b n) = Some n"
proof (induction b n rule: to_radix.induct)
  case (1 b n)
  show ?case
  proof (cases "n < b")
    case True
    with 1 show ?thesis by (simp add: to_radix.simps [of b n] digit_val_digit_char)
  next
    case False
    with 1 have "digits_val b 0 (to_radix b (n div b)) = Some (n div b)" by simp
    with False 1 show ?thesis
      by (simp add: to_radix.simps [of b n] digits_val_append digit_val_digit_char)
  qed
qed

lemma digits_val_zeros: "2 \<le> b \<Longrightarrow> digits_val b 0 (replicate k (CHR ''0'') @ s) = digits_val b 0 s"
  by (induction k) (auto simp: digit_val_def)

lemma digits_val_pad_zero:
  "2 \<le> b \<Longrightarrow> b \<le> 16 \<Longrightarrow> digits_val b 0 (pad_zero w (to_radix b n)) = Some n"
  by (simp add: pad_zero_def digits_val_zeros digits_val_to_radix)

lemma hex_pad_inject: "hex_pad w m = hex_pad w' n \<Longrightarrow> m = n"
  using digits_val_pad_zero [of 16 w m] digits_val_pad_zero [of 16 w' n] by (simp add: hex_pad_def)

lemma dec_pad_inject: "dec_pad w m = dec_pad w' n \<Longrightarrow> m = n"
  using digits_val_pad_zero [of 10 w m] digits_val_pad_zero [of 10 w' n] by (simp add: dec_pad_def)

lemma length_to_radix_le: "2 \<le> b \<Longrightarrow> n < b ^ w \<Longrightarrow> 0 < w \<Longrightarrow> length (to_radix b n) \<le> w"
proof (induction w arbitrary: n)
  case 0
  then show ?case by simp
next
  case (Suc w)
  show ?case
  proof (cases "n < b")
    case True
    then show ?thesis by (simp add: to_radix.simps [of b n])
  next
    case False
    with Suc have "w \<noteq> 0" by (intro notI) simp
    moreover from Suc have "n div b < b ^ w"
      by (metis less_mult_imp_div_less mult.commute power_Suc)
    ultimately show ?thesis using Suc False by (simp add: to_radix.simps [of b n])
  qed
qed

lemma length_hex_pad: "n < 16 ^ w \<Longrightarrow> 0 < w \<Longrightarrow> length (hex_pad w n) = w"
  using length_to_radix_le [of 16 n w] by (simp add: hex_pad_def pad_zero_def)

lemma length_dec_pad: "n < 10 ^ w \<Longrightarrow> 0 < w \<Longrightarrow> length (dec_pad w n) = w"
  using length_to_radix_le [of 10 n w] by (simp add: dec_pad_def pad_zero_def)

lemma to_radix_not_Nil [simp]: "to_radix b n \<noteq> []"
  by (subst to_radix.simps) simp

definition is_hex_digit :: "char \<Rightarrow> bool" where
  "is_hex_digit c \<longleftrightarrow>
     (48 \<le> (of_char c :: nat) \<and> (of_char c :: nat) \<le> 57) \<or>
     (97 \<le> (of_char c :: nat) \<and> (of_char c :: nat) \<le> 102)"

lemma is_hex_digit_digit_char: "d < 16 \<Longrightarrow> is_hex_digit (digit_char d)"
  by (auto simp: is_hex_digit_def digit_char_def of_char_of)

lemma to_radix_digits:
  "2 \<le> b \<Longrightarrow> b \<le> 16 \<Longrightarrow> c \<in> set (to_radix b n) \<Longrightarrow> is_hex_digit c"
proof (induction b n rule: to_radix.induct)
  case (1 b n)
  have "n mod b < b" using 1(2) by simp
  then have m: "is_hex_digit (digit_char (n mod b))"
    using 1(3) by (intro is_hex_digit_digit_char) linarith
  show ?case
  proof (cases "n < b")
    case True
    with m 1(4) show ?thesis by (simp add: to_radix.simps [of b n])
  next
    case False
    then show ?thesis using 1 m by (auto simp: to_radix.simps [of b n])
  qed
qed

lemma hex_pad_digits: "c \<in> set (hex_pad w n) \<Longrightarrow> is_hex_digit c"
  using to_radix_digits [of 16 c n]
  by (auto simp: hex_pad_def pad_zero_def is_hex_digit_def)

lemma parse_uint_to_string: "n < 2 ^ bits \<Longrightarrow> parse_uint 10 bits (nat_to_string n) = Some n"
proof -
  assume n: "n < 2 ^ bits"
  have "is_hex_digit (hd (nat_to_string n))"
    by (rule to_radix_digits [of 10 _ n]) (simp_all add: hd_in_set)
  then have "hd (nat_to_string n) \<noteq> CHR ''+''"
    by (auto simp: is_hex_digit_def)
  then show ?thesis using n digits_val_to_radix [of 10 n]
    by (auto simp: parse_uint_def Let_def split: list.splits)
qed

lemma parse_u32_to_string: "parse_u32 (nat_to_string (unat (w :: u32))) = Some w"
proof -
  have "unat w < 2 ^ 32" using unsigned_less [of w] by simp
  then have "parse_uint 10 32 (nat_to_string (unat w)) = Some (unat w)" by (rule parse_uint_to_string)
  then show ?thesis by (simp add: parse_u32_def)
qed

lemma unat_of_nat_u64: "n < 2 ^ 64 \<Longrightarrow> unat (of_nat n :: u64) = n"
  by (simp add: unsigned_of_nat take_bit_nat_eq_self)

end
