(* ===== verification/Rust_Collections.thy ===== *)
theory Rust_Collections
  imports Prelude "HOL-Library.List_Lexorder" "HOL-Library.Char_ord"
begin

text \<open>
  The collections of the Rust standard library: hash maps, ordered maps, and the stable
  sort \<^verbatim>\<open>slice::sort_by\<close>. The locale \<open>map_contract\<close> states what a client of a map may rely
  on; both kinds of map are interpretations of it. The locale \<open>total_comparator\<close> states
  what a comparison function must satisfy for \<^verbatim>\<open>sort_by\<close> to sort, and the locale
  \<open>invariant_machine\<close> what a step relation must satisfy to keep an invariant.
\<close>

section \<open>Maps\<close>

type_synonym ('k, 'v) hash_map = "('k \<times> 'v) list"
type_synonym ('k, 'v) btree_map = "('k \<times> 'v) list"

abbreviation hm_get :: "('k, 'v) hash_map \<Rightarrow> 'k \<Rightarrow> 'v option" where
  "hm_get \<equiv> map_of"

abbreviation hm_insert :: "'k \<Rightarrow> 'v \<Rightarrow> ('k, 'v) hash_map \<Rightarrow> ('k, 'v) hash_map" where
  "hm_insert \<equiv> AList.update"

abbreviation hm_remove :: "'k \<Rightarrow> ('k, 'v) hash_map \<Rightarrow> ('k, 'v) hash_map" where
  "hm_remove \<equiv> AList.delete"

definition contains_key :: "('k \<times> 'v) list \<Rightarrow> 'k \<Rightarrow> bool" where
  "contains_key m k \<longleftrightarrow> map_of m k \<noteq> None"

definition hm_values :: "('k \<times> 'v) list \<Rightarrow> 'v list" where
  "hm_values m = map snd m"

text \<open>\<^verbatim>\<open>for v in m.values_mut()\<close>: every value is rewritten in place.\<close>

definition map_values :: "('v \<Rightarrow> 'w) \<Rightarrow> ('k \<times> 'v) list \<Rightarrow> ('k \<times> 'w) list" where
  "map_values f m = map (\<lambda>(k, v). (k, f v)) m"

definition hm_wf :: "('k \<times> 'v) list \<Rightarrow> bool" where
  "hm_wf m \<longleftrightarrow> distinct (map fst m)"

text \<open>\<^verbatim>\<open>std::cmp::Ordering\<close> and the \<^verbatim>\<open>Ord\<close> of the totally ordered types.\<close>

datatype ordering = Less | Equal | Greater

fun reverse_ordering :: "ordering \<Rightarrow> ordering" where
  "reverse_ordering Less = Greater"
| "reverse_ordering Equal = Equal"
| "reverse_ordering Greater = Less"

definition cmp :: "'a::linorder \<Rightarrow> 'a \<Rightarrow> ordering" where
  "cmp a b = (if a < b then Less else if a = b then Equal else Greater)"

lemma reverse_reverse [simp]: "reverse_ordering (reverse_ordering r) = r"
  by (cases r) auto

lemma reverse_eq_iff [simp]:
  "reverse_ordering r = Less \<longleftrightarrow> r = Greater"
  "reverse_ordering r = Equal \<longleftrightarrow> r = Equal"
  "reverse_ordering r = Greater \<longleftrightarrow> r = Less"
  by (cases r; simp)+

lemma cmp_simps [simp]:
  "cmp a b = Less \<longleftrightarrow> a < b" "cmp a b = Equal \<longleftrightarrow> a = b" "cmp a b = Greater \<longleftrightarrow> b < a"
  by (auto simp: cmp_def)

lemma reverse_cmp: "reverse_ordering (cmp a b) = cmp b a"
  by (auto simp: cmp_def)

fun bt_insert :: "'k::linorder \<Rightarrow> 'v \<Rightarrow> ('k, 'v) btree_map \<Rightarrow> ('k, 'v) btree_map" where
  "bt_insert k v [] = [(k, v)]"
| "bt_insert k v (p # m) =
     (case cmp k (fst p) of
        Less \<Rightarrow> (k, v) # p # m
      | Equal \<Rightarrow> (k, v) # m
      | Greater \<Rightarrow> p # bt_insert k v m)"

abbreviation bt_get :: "('k, 'v) btree_map \<Rightarrow> 'k \<Rightarrow> 'v option" where
  "bt_get \<equiv> map_of"

abbreviation bt_remove :: "'k \<Rightarrow> ('k, 'v) btree_map \<Rightarrow> ('k, 'v) btree_map" where
  "bt_remove \<equiv> AList.delete"

definition bt_wf :: "('k::linorder \<times> 'v) list \<Rightarrow> bool" where
  "bt_wf m \<longleftrightarrow> sorted_wrt (<) (map fst m)"

locale map_contract =
  fixes get :: "'m \<Rightarrow> 'k \<Rightarrow> 'v option"
    and insert :: "'k \<Rightarrow> 'v \<Rightarrow> 'm \<Rightarrow> 'm"
    and remove :: "'k \<Rightarrow> 'm \<Rightarrow> 'm"
    and entries :: "'m \<Rightarrow> ('k \<times> 'v) list"
    and wf :: "'m \<Rightarrow> bool"
  assumes get_entries: "wf m \<Longrightarrow> get m k = map_of (entries m) k"
    and distinct_entries: "wf m \<Longrightarrow> distinct (map fst (entries m))"
    and get_insert: "wf m \<Longrightarrow> get (insert k v m) = (get m)(k \<mapsto> v)"
    and get_remove: "wf m \<Longrightarrow> get (remove k m) = (get m)(k := None)"
    and wf_insert: "wf m \<Longrightarrow> wf (insert k v m)"
    and wf_remove: "wf m \<Longrightarrow> wf (remove k m)"
begin

lemma entries_iff: "wf m \<Longrightarrow> (k, v) \<in> set (entries m) \<longleftrightarrow> get m k = Some v"
  by (simp add: get_entries distinct_entries)

lemma set_entries_insert:
  "wf m \<Longrightarrow> set (entries (insert k v m)) = Set.insert (k, v) {p \<in> set (entries m). fst p \<noteq> k}"
  by (auto simp: entries_iff get_insert wf_insert split: if_splits)

lemma set_entries_remove:
  "wf m \<Longrightarrow> set (entries (remove k m)) = {p \<in> set (entries m). fst p \<noteq> k}"
  by (auto simp: entries_iff get_remove wf_remove split: if_splits)

lemma sum_entries: "wf m \<Longrightarrow> sum_list (map f (entries m)) = sum f (set (entries m))"
  for f :: "'k \<times> 'v \<Rightarrow> nat"
  using distinct_entries by (simp add: sum_list_distinct_conv_sum_set distinct_map)

text \<open>The weight of a map after an insertion: the replaced entry's weight leaves it.\<close>

lemma sum_insert:
  fixes f :: "'k \<times> 'v \<Rightarrow> nat"
  assumes "wf m"
  shows "sum_list (map f (entries (insert k v m))) + (case get m k of None \<Rightarrow> 0 | Some w \<Rightarrow> f (k, w))
    = sum_list (map f (entries m)) + f (k, v)"
proof -
  let ?R = "{p \<in> set (entries m). fst p \<noteq> k}"
  have ins: "sum f (set (entries (insert k v m))) = f (k, v) + sum f ?R"
    using assms by (simp add: set_entries_insert)
  have "sum f (set (entries m)) = (case get m k of None \<Rightarrow> 0 | Some w \<Rightarrow> f (k, w)) + sum f ?R"
  proof (cases "get m k")
    case None
    then have "?R = set (entries m)" using assms entries_iff by fastforce
    then show ?thesis using None by simp
  next
    case (Some w)
    then have "set (entries m) = Set.insert (k, w) ?R" using assms by (auto simp: entries_iff)
    then have "sum f (set (entries m)) = sum f (Set.insert (k, w) ?R)" by simp
    also have "\<dots> = f (k, w) + sum f ?R" by (subst sum.insert) auto
    finally show ?thesis using Some by simp
  qed
  with ins show ?thesis using assms by (simp add: sum_entries wf_insert)
qed

lemma sum_remove:
  fixes f :: "'k \<times> 'v \<Rightarrow> nat"
  assumes "wf m"
  shows "sum_list (map f (entries (remove k m))) + (case get m k of None \<Rightarrow> 0 | Some w \<Rightarrow> f (k, w))
    = sum_list (map f (entries m))"
proof (cases "get m k")
  case None
  then have "{p \<in> set (entries m). fst p \<noteq> k} = set (entries m)"
    using assms entries_iff by fastforce
  with None show ?thesis using assms by (simp add: sum_entries wf_remove set_entries_remove)
next
  case (Some w)
  let ?R = "{p \<in> set (entries m). fst p \<noteq> k}"
  have "set (entries m) = Set.insert (k, w) ?R" using Some assms by (auto simp: entries_iff)
  then have "sum f (set (entries m)) = sum f (Set.insert (k, w) ?R)" by simp
  also have "\<dots> = f (k, w) + sum f ?R" by (subst sum.insert) auto
  finally show ?thesis using Some assms by (simp add: sum_entries wf_remove set_entries_remove)
qed

lemma length_insert:
  "wf m \<Longrightarrow> length (entries (insert k v m)) =
     (if get m k = None then Suc (length (entries m)) else length (entries m))"
  using sum_insert [of m "\<lambda>_. 1" k v] by (auto simp: sum_list_triv split: option.splits)

lemma length_remove:
  "wf m \<Longrightarrow> length (entries (remove k m)) =
     (if get m k = None then length (entries m) else length (entries m) - 1)"
  using sum_remove [of m "\<lambda>_. 1" k] by (auto simp: sum_list_triv split: option.splits)

end

interpretation hm: map_contract hm_get hm_insert hm_remove "\<lambda>m. m" hm_wf
  by unfold_locales
    (auto simp: hm_wf_def update_conv delete_conv fun_eq_iff distinct_update distinct_delete)

lemma hm_wf_Nil [simp]: "hm_wf []"
  by (simp add: hm_wf_def)

lemma bt_wf_Nil [simp]: "bt_wf []"
  by (simp add: bt_wf_def)

lemma map_of_less_first:
  "sorted_wrt (<) (map fst m) \<Longrightarrow> (\<And>x. x \<in> fst ` set m \<Longrightarrow> k < x) \<Longrightarrow> map_of m k = None"
  for k :: "'k::linorder"
  by (metis less_irrefl map_of_eq_None_iff)

lemma fst_set_bt_insert: "fst ` set (bt_insert k v m) = insert k (fst ` set m)"
  by (induction m) (auto split: ordering.splits)

lemma bt_wf_insert: "bt_wf m \<Longrightarrow> bt_wf (bt_insert k v m)"
  by (induction m)
     (auto simp: bt_wf_def fst_set_bt_insert split: ordering.splits)

lemma map_of_bt_insert: "bt_wf m \<Longrightarrow> map_of (bt_insert k v m) = (map_of m)(k \<mapsto> v)"
  by (induction m) (auto simp: bt_wf_def fun_eq_iff split: ordering.splits)

lemma delete_eq_filter_fst: "AList.delete k m = filter (\<lambda>p. fst p \<noteq> k) m"
  by (induction m) auto

lemma sorted_wrt_map_fst_delete:
  "sorted_wrt (<) (map fst m) \<Longrightarrow> sorted_wrt (<) (map fst (AList.delete k m))"
  for m :: "('k::linorder \<times> 'v) list"
  by (simp add: delete_eq_filter_fst sorted_wrt_map sorted_wrt_filter)

lemma bt_wf_distinct: "bt_wf m \<Longrightarrow> distinct (map fst m)"
  using strict_sorted_iff by (auto simp: bt_wf_def)

interpretation bt: map_contract bt_get bt_insert bt_remove "\<lambda>m. m" bt_wf
  by unfold_locales
    (auto simp: bt_wf_def [symmetric] map_of_bt_insert bt_wf_insert delete_conv
       bt_wf_distinct sorted_wrt_map_fst_delete [folded bt_wf_def])

lemma map_of_map_values [simp]: "map_of (map_values f m) k = map_option f (map_of m k)"
  by (induction m) (auto simp: map_values_def)

lemma hm_wf_map_values [simp]: "hm_wf (map_values f m) = hm_wf m"
  by (simp add: hm_wf_def map_values_def comp_def case_prod_unfold)

section \<open>Stable sorting\<close>

fun insert_by :: "('a \<Rightarrow> 'a \<Rightarrow> ordering) \<Rightarrow> 'a \<Rightarrow> 'a list \<Rightarrow> 'a list" where
  "insert_by c x [] = [x]"
| "insert_by c x (y # ys) = (if c x y = Greater then y # insert_by c x ys else x # y # ys)"

text \<open>
  \<^verbatim>\<open>slice::sort_by\<close> sorts stably with respect to a total preorder. Where the comparison
  function is not one, the library promises no particular order; this insertion sort is
  then one of the permutations it may return.
\<close>

definition sort_by :: "('a \<Rightarrow> 'a \<Rightarrow> ordering) \<Rightarrow> 'a list \<Rightarrow> 'a list" where
  "sort_by c xs = foldr (insert_by c) xs []"

lemma mset_insert_by [simp]: "mset (insert_by c x xs) = add_mset x (mset xs)"
  by (induction xs) auto

lemma sort_by_simps [simp]:
  "sort_by c [] = []" "sort_by c (x # xs) = insert_by c x (sort_by c xs)"
  by (simp_all add: sort_by_def)

lemma mset_sort_by [simp]: "mset (sort_by c xs) = mset xs"
  by (induction xs) auto

lemma set_sort_by [simp]: "set (sort_by c xs) = set xs"
  by (metis mset_sort_by set_mset_mset)

lemma set_insert_by [simp]: "set (insert_by c x xs) = insert x (set xs)"
  by (metis mset_insert_by set_mset_add_mset_insert set_mset_mset)

lemma length_sort_by [simp]: "length (sort_by c xs) = length xs"
  by (metis mset_sort_by size_mset)

locale total_comparator =
  fixes c :: "'a \<Rightarrow> 'a \<Rightarrow> ordering" and A :: "'a set"
  assumes antisym: "x \<in> A \<Longrightarrow> y \<in> A \<Longrightarrow> c y x = reverse_ordering (c x y)"
    and trans: "x \<in> A \<Longrightarrow> y \<in> A \<Longrightarrow> z \<in> A \<Longrightarrow> c x y \<noteq> Greater \<Longrightarrow> c y z \<noteq> Greater \<Longrightarrow> c x z \<noteq> Greater"
begin

lemma insert_by_sorted:
  assumes "x \<in> A" "set xs \<subseteq> A" "sorted_wrt (\<lambda>a b. c a b \<noteq> Greater) xs"
  shows "sorted_wrt (\<lambda>a b. c a b \<noteq> Greater) (insert_by c x xs)"
  using assms
proof (induction xs)
  case (Cons y ys)
  show ?case
  proof (cases "c x y = Greater")
    case True
    with Cons.prems have "c y x \<noteq> Greater" using antisym [of x y] by simp
    with True Cons show ?thesis by auto
  next
    case False
    then have "c x z \<noteq> Greater" if "z \<in> set ys" for z
      using trans [of x y z] Cons.prems that by auto
    with False Cons.prems show ?thesis by auto
  qed
qed simp

lemma sort_by_sorted: "set xs \<subseteq> A \<Longrightarrow> sorted_wrt (\<lambda>a b. c a b \<noteq> Greater) (sort_by c xs)"
proof (induction xs)
  case (Cons x xs)
  then show ?case using insert_by_sorted [of x "sort_by c xs"] by simp
qed simp

text \<open>Elements that compare equal to a given one keep their order.\<close>

lemma insert_by_filter:
  assumes "x \<in> A" "set xs \<subseteq> A" "z \<in> A"
  shows "filter (\<lambda>y. c y z = Equal) (insert_by c x xs) = filter (\<lambda>y. c y z = Equal) (x # xs)"
  using assms(2)
proof (induction xs)
  case (Cons y ys)
  have "\<not> (c x z = Equal \<and> c y z = Equal)" if g: "c x y = Greater"
  proof
    assume e: "c x z = Equal \<and> c y z = Equal"
    then have "c z y = Equal" using antisym [of y z] Cons.prems assms by simp
    then have "c x y \<noteq> Greater" using trans [of x z y] e Cons.prems assms by simp
    with g show False by simp
  qed
  then show ?case using Cons by auto
qed simp

lemma sort_by_stable:
  "set xs \<subseteq> A \<Longrightarrow> z \<in> A \<Longrightarrow> filter (\<lambda>y. c y z = Equal) (sort_by c xs) = filter (\<lambda>y. c y z = Equal) xs"
proof (induction xs)
  case (Cons x xs)
  then show ?case
    using insert_by_filter [of x "sort_by c xs" z] by simp
qed simp

end

section \<open>Step relations\<close>

locale invariant_machine =
  fixes init :: "'s \<Rightarrow> bool" and step :: "'s \<Rightarrow> 's \<Rightarrow> bool" and I :: "'s \<Rightarrow> bool"
  assumes init_inv: "init s \<Longrightarrow> I s"
    and step_inv: "I s \<Longrightarrow> step s t \<Longrightarrow> I t"
begin

lemma run_inv: "step\<^sup>*\<^sup>* s t \<Longrightarrow> I s \<Longrightarrow> I t"
  by (induction rule: rtranclp_induct) (auto intro: step_inv)

lemma reachable_inv: "init s \<Longrightarrow> step\<^sup>*\<^sup>* s t \<Longrightarrow> I t"
  by (rule run_inv) (auto intro: init_inv)

end

end
