(* ===== verification/Service_Framework.thy ===== *)
theory Service_Framework
  imports Rust_Collections
begin

text \<open>
  The crate \<^verbatim>\<open>service-framework\<close>: the request and response types every provider is written
  against (\<^verbatim>\<open>traits.rs\<close>), the helpers of \<^verbatim>\<open>skeleton.rs\<close>, \<^verbatim>\<open>xml.rs\<close> and \<^verbatim>\<open>arn.rs\<close>, and the
  contract that the workspace's three XML escaping routines share, as the locale
  \<open>xml_escaper\<close>. JSON documents are values of the type \<open>Value\<close>, the public enum of the
  library \<^verbatim>\<open>serde_json\<close>; its parser and printer, and the other third-party functions the
  providers call, are the fields of a record \<open>externs\<close> that the definitions take as an
  argument.
\<close>

section \<open>JSON values\<close>

datatype Number = PosInt u64 | NegInt int | Float string

datatype Value =
    JNull
  | JBool bool
  | JNumber Number
  | JString string
  | JArray "Value list"
  | JObject "(string \<times> Value) list"

fun value_get :: "Value \<Rightarrow> string \<Rightarrow> Value option" where
  "value_get (JObject m) k = map_of m k"
| "value_get _ k = None"

text \<open>\<^verbatim>\<open>v[k]\<close>: a missing key or a value that is no object reads as null.\<close>

definition value_index :: "Value \<Rightarrow> string \<Rightarrow> Value" where
  "value_index v k = (case value_get v k of None \<Rightarrow> JNull | Some x \<Rightarrow> x)"

fun as_str :: "Value \<Rightarrow> string option" where
  "as_str (JString s) = Some s"
| "as_str _ = None"

fun as_bool :: "Value \<Rightarrow> bool option" where
  "as_bool (JBool b) = Some b"
| "as_bool _ = None"

fun as_u64 :: "Value \<Rightarrow> u64 option" where
  "as_u64 (JNumber (PosInt n)) = Some n"
| "as_u64 _ = None"

fun as_array :: "Value \<Rightarrow> Value list option" where
  "as_array (JArray xs) = Some xs"
| "as_array _ = None"

fun as_object :: "Value \<Rightarrow> (string \<times> Value) list option" where
  "as_object (JObject m) = Some m"
| "as_object _ = None"

text \<open>
  An object built by \<^verbatim>\<open>json!\<close>: the library's map type is a \<^verbatim>\<open>BTreeMap\<close>, so the members are
  in the order of their keys.
\<close>

definition json_object :: "(string \<times> Value) list \<Rightarrow> Value" where
  "json_object kvs = JObject (fold (\<lambda>(k, v). bt_insert k v) kvs [])"

section \<open>Functions of other packages\<close>

text \<open>
  \<^item> \<open>md5_digest\<close> is \<^verbatim>\<open>md5::Md5::digest\<close>, \<open>hex_encode\<close> is \<^verbatim>\<open>hex::encode\<close>;
  \<^item> \<open>json_from_slice\<close> and \<open>json_to_string\<close> are the parser and the printer of \<^verbatim>\<open>serde_json\<close>;
  \<^item> \<open>header_to_str\<close> is \<^verbatim>\<open>HeaderValue::to_str(..).ok()\<close> of the package \<^verbatim>\<open>http\<close>.
\<close>

record externs =
  md5_digest :: "string \<Rightarrow> string"
  hex_encode :: "string \<Rightarrow> string"
  json_from_slice :: "string \<Rightarrow> Value option"
  json_to_string :: "Value \<Rightarrow> string"
  header_to_str :: "string \<Rightarrow> string option"

section \<open>Requests and responses\<close>

text \<open>
  The two body sources that bypass \<open>raw_body\<close> (\<open>ctx_spooled_body\<close>, \<open>ctx_body_reader\<close>) are
  carried as the bytes they yield.
\<close>

record RequestContext =
  ctx_service :: string
  ctx_operation :: string
  ctx_region :: string
  ctx_account_id :: string
  ctx_request_body :: Value
  ctx_raw_body :: "string option"
  ctx_headers :: "(string, string) hash_map"
  ctx_path :: string
  ctx_method :: string
  ctx_query_params :: "(string, string) hash_map"
  ctx_request_id :: string
  ctx_spooled_body :: "string option"
  ctx_body_reader :: "string option"

definition RequestContext_new ::
  "string \<Rightarrow> string \<Rightarrow> string \<Rightarrow> string \<Rightarrow> RequestContext" where
  "RequestContext_new svc op reg acc =
     \<lparr>ctx_service = svc, ctx_operation = op, ctx_region = reg, ctx_account_id = acc,
      ctx_request_body = JNull, ctx_raw_body = None, ctx_headers = [], ctx_path = [],
      ctx_method = [], ctx_query_params = [], ctx_request_id = [], ctx_spooled_body = None,
      ctx_body_reader = None\<rparr>"

definition raw_body_bytes :: "RequestContext \<Rightarrow> string" where
  "raw_body_bytes ctx = (case ctx_raw_body ctx of None \<Rightarrow> [] | Some b \<Rightarrow> b)"

datatype DispatchError =
    NotImplemented string
  | ServiceNotFound string
  | ServiceUnavailable string
  | ProviderError string
  | SerializationError string

text \<open>A stream is the sequence of the items it yields: a chunk, or an I/O error.\<close>

datatype ResponseBody =
    Buffered string
  | Streaming "(string + string) list" "nat option"

record DispatchResponse =
  status_code :: nat
  resp_body :: ResponseBody
  content_type :: string
  resp_headers :: "(string \<times> string) list"

text \<open>\<^verbatim>\<open>as_bytes\<close> panics on a streaming body, here \<^const>\<open>None\<close>.\<close>

fun as_bytes :: "ResponseBody \<Rightarrow> string option" where
  "as_bytes (Buffered b) = Some b"
| "as_bytes (Streaming _ _) = None"

fun collect_stream :: "string \<Rightarrow> (string + string) list \<Rightarrow> string + string" where
  "collect_stream buf [] = Inr buf"
| "collect_stream buf (Inr chunk # rest) = collect_stream (buf @ chunk) rest"
| "collect_stream buf (Inl e # rest) = Inl e"

fun into_bytes :: "ResponseBody \<Rightarrow> string + string" where
  "into_bytes (Buffered b) = Inr b"
| "into_bytes (Streaming items len) = collect_stream [] items"

definition ok_json :: "('a \<Rightarrow> string + string) \<Rightarrow> 'a \<Rightarrow> DispatchError + DispatchResponse" where
  "ok_json to_vec body =
     (case to_vec body of
        Inl e \<Rightarrow> Inl (SerializationError e)
      | Inr bytes \<Rightarrow> Inr \<lparr>status_code = 200, resp_body = Buffered bytes,
                        content_type = ''application/json'', resp_headers = []\<rparr>)"

definition ok_xml :: "string \<Rightarrow> DispatchResponse" where
  "ok_xml xml = \<lparr>status_code = 200, resp_body = Buffered xml,
                 content_type = ''text/xml'', resp_headers = []\<rparr>"

definition streaming ::
  "(string + string) list \<Rightarrow> nat option \<Rightarrow> string \<Rightarrow> DispatchResponse" where
  "streaming items len ctype =
     \<lparr>status_code = 200, resp_body = Streaming items len, content_type = ctype, resp_headers = []\<rparr>"

definition not_implemented :: "string \<Rightarrow> DispatchError + DispatchResponse" where
  "not_implemented operation =
     Inl (NotImplemented (''Operation '' @ [CHR 0x27] @ operation @ [CHR 0x27] @ '' is not yet implemented''))"

definition get_required_field :: "Value \<Rightarrow> string \<Rightarrow> DispatchError + Value" where
  "get_required_field body field =
     (case value_get body field of
        None \<Rightarrow> Inl (ProviderError (''Missing required field: '' @ field))
      | Some v \<Rightarrow> Inr v)"

definition get_string_field :: "Value \<Rightarrow> string \<Rightarrow> string option" where
  "get_string_field body field = Option.bind (value_get body field) as_str"

section \<open>Amazon resource names\<close>

definition make_arn :: "string \<Rightarrow> string \<Rightarrow> string \<Rightarrow> string \<Rightarrow> string" where
  "make_arn svc reg acc resource = ''arn:aws:'' @ svc @ '':'' @ reg @ '':'' @ acc @ '':'' @ resource"

definition make_arn_typed :: "string \<Rightarrow> string \<Rightarrow> string \<Rightarrow> string \<Rightarrow> string \<Rightarrow> string" where
  "make_arn_typed svc reg acc rtype rname =
     ''arn:aws:'' @ svc @ '':'' @ reg @ '':'' @ acc @ '':'' @ rtype @ '':'' @ rname"

definition arn_from_ctx :: "RequestContext \<Rightarrow> string \<Rightarrow> string" where
  "arn_from_ctx ctx resource = make_arn (ctx_service ctx) (ctx_region ctx) (ctx_account_id ctx) resource"

definition arn_typed_from_ctx :: "RequestContext \<Rightarrow> string \<Rightarrow> string \<Rightarrow> string" where
  "arn_typed_from_ctx ctx rtype rname =
     make_arn_typed (ctx_service ctx) (ctx_region ctx) (ctx_account_id ctx) rtype rname"

section \<open>Escaping\<close>

definition xml_escape_char :: "char \<Rightarrow> string" where
  "xml_escape_char c =
     (if c = CHR ''&'' then ''&amp;'' else if c = CHR ''<'' then ''&lt;''
      else if c = CHR ''>'' then ''&gt;'' else if c = CHR 0x22 then ''&quot;''
      else if c = CHR 0x27 then ''&apos;'' else [c])"

definition xml_escape :: "string \<Rightarrow> string" where
  "xml_escape s =
     (if \<not> list_ex (\<lambda>b. b \<in> {CHR ''&'', CHR ''<'', CHR ''>'', CHR 0x22, CHR 0x27}) s then s
      else concat (map xml_escape_char s))"

definition is_unreserved :: "char \<Rightarrow> bool" where
  "is_unreserved c \<longleftrightarrow>
     (let b = (of_char c :: nat) in
      (65 \<le> b \<and> b \<le> 90) \<or> (97 \<le> b \<and> b \<le> 122) \<or> (48 \<le> b \<and> b \<le> 57) \<or>
      c = CHR ''-'' \<or> c = CHR ''_'' \<or> c = CHR ''.'' \<or> c = CHR ''~'')"

text \<open>\<^verbatim>\<open>char::from_digit(d, 16).to_ascii_uppercase()\<close>\<close>

definition upper_hex_digit :: "nat \<Rightarrow> char" where
  "upper_hex_digit d = char_of (if d < 10 then 48 + d else 55 + d)"

definition url_encode_byte :: "char \<Rightarrow> string" where
  "url_encode_byte c =
     (if is_unreserved c then [c]
      else [CHR ''%'', upper_hex_digit ((of_char c :: nat) div 16),
            upper_hex_digit ((of_char c :: nat) mod 16)])"

definition url_encode :: "string \<Rightarrow> string" where
  "url_encode s = concat (map url_encode_byte s)"

section \<open>The escaping contract\<close>

text \<open>
  An escaping routine replaces each special character by a character entity and copies
  the others. Whatever its set of special characters, its output carries no markup and
  determines its input.
\<close>

locale xml_escaper =
  fixes esc :: "string \<Rightarrow> string" and specials :: "char set" and ent :: "char \<Rightarrow> string"
  assumes esc_Nil: "esc [] = []"
    and esc_Cons: "esc (c # s) = (if c \<in> specials then CHR ''&'' # ent c @ '';'' else [c]) @ esc s"
    and markup_special: "{CHR ''&'', CHR ''<'', CHR ''>'', CHR 0x22} \<subseteq> specials"
    and ent_clean: "c \<in> specials \<Longrightarrow> d \<in> set (ent c) \<Longrightarrow> d \<noteq> CHR '';'' \<and> d \<notin> specials"
    and semicolon: "CHR '';'' \<notin> specials"
    and ent_inj: "inj_on ent specials"
begin

lemma esc_append: "esc (s @ t) = esc s @ esc t"
  by (induction s) (auto simp: esc_Nil esc_Cons)

lemma no_markup: "c \<in> set (esc s) \<Longrightarrow> c \<notin> specials - {CHR ''&''}"
proof (induction s)
  case (Cons d s)
  then show ?case using semicolon ent_clean [of d c] by (auto simp: esc_Cons split: if_splits)
qed (simp add: esc_Nil)

lemma entity_split: "c \<in> specials \<Longrightarrow> takeWhile (\<lambda>x. x \<noteq> CHR '';'') (ent c @ CHR '';'' # r) = ent c"
  using ent_clean by (subst takeWhile_append2) auto

lemma esc_inject: "esc s = esc t \<Longrightarrow> s = t"
proof (induction s arbitrary: t)
  case Nil
  then show ?case by (cases t) (auto simp: esc_Nil esc_Cons split: if_splits)
next
  case (Cons c s)
  then obtain d u where t: "t = d # u" by (cases t) (auto simp: esc_Nil esc_Cons split: if_splits)
  have amp: "CHR ''&'' \<in> specials" using markup_special by simp
  show ?case
  proof (cases "c \<in> specials")
    case True
    with Cons.prems t amp have d: "d \<in> specials" by (auto simp: esc_Cons split: if_splits)
    with True Cons.prems t have eq: "ent c @ CHR '';'' # esc s = ent d @ CHR '';'' # esc u"
      by (simp add: esc_Cons)
    then have "ent c = ent d" using entity_split [OF True] entity_split [OF d] by metis
    with True d eq ent_inj have "c = d" "esc s = esc u" by (auto dest: inj_onD)
    with Cons.IH t show ?thesis by simp
  next
    case False
    with Cons.prems t amp have "c = d \<and> esc s = esc u" by (auto simp: esc_Cons split: if_splits)
    with Cons.IH t show ?thesis by simp
  qed
qed

end

text \<open>The entity names of the five predefined entities of XML.\<close>

definition xml_entity :: "char \<Rightarrow> string" where
  "xml_entity c =
     (if c = CHR ''&'' then ''amp'' else if c = CHR ''<'' then ''lt''
      else if c = CHR ''>'' then ''gt'' else if c = CHR 0x22 then ''quot'' else ''apos'')"

lemma concat_map_id: "\<not> list_ex P s \<Longrightarrow> (\<And>c. \<not> P c \<Longrightarrow> f c = [c]) \<Longrightarrow> concat (map f s) = s"
  by (induction s) auto

lemma xml_escape_eq: "xml_escape s = concat (map xml_escape_char s)"
  unfolding xml_escape_def by (auto intro!: concat_map_id [symmetric] simp: xml_escape_char_def split: if_splits)

interpretation fw_xml: xml_escaper xml_escape
  "{CHR ''&'', CHR ''<'', CHR ''>'', CHR 0x22, CHR 0x27}" xml_entity
  by unfold_locales
    (auto simp: xml_escape_eq xml_escape_char_def xml_entity_def inj_on_def split: if_splits)

section \<open>Facts about responses and resource names\<close>

lemma collect_stream_ok:
  "collect_stream buf (map Inr chunks) = Inr (buf @ concat chunks)"
  by (induction chunks arbitrary: buf) auto

lemma collect_stream_error:
  "collect_stream buf (map Inr chunks @ Inl e # rest) = Inl e"
  by (induction chunks arbitrary: buf) auto

lemma make_arn_inject:
  assumes "make_arn s r a x = make_arn s' r' a' x'"
    and "CHR '':'' \<notin> set s \<union> set r \<union> set a" "CHR '':'' \<notin> set s' \<union> set r' \<union> set a'"
  shows "s = s' \<and> r = r' \<and> a = a' \<and> x = x'"
proof -
  from assms(1) have "s @ CHR '':'' # r @ CHR '':'' # a @ CHR '':'' # x
      = s' @ CHR '':'' # r' @ CHR '':'' # a' @ CHR '':'' # x'"
    by (simp add: make_arn_def)
  then have "s = s' \<and> r @ CHR '':'' # a @ CHR '':'' # x = r' @ CHR '':'' # a' @ CHR '':'' # x'"
    using assms(2,3) by (intro sep_inject) auto
  moreover from this have "r = r' \<and> a @ CHR '':'' # x = a' @ CHR '':'' # x'"
    using assms(2,3) by (intro sep_inject) auto
  moreover from this have "a = a' \<and> x = x'" using assms(2,3) by (intro sep_inject) auto
  ultimately show ?thesis by blast
qed

end
