(* ===== verification/Aws_Protocol.thy ===== *)
theory Aws_Protocol
  imports Service_Framework
begin

text \<open>
  The crate \<^verbatim>\<open>aws-protocol\<close>: the five wire protocols, the parsers that turn a request body into an
  operation and a JSON document (\<^verbatim>\<open>query.rs\<close>, \<^verbatim>\<open>ec2.rs\<close>, \<^verbatim>\<open>json.rs\<close>, \<^verbatim>\<open>rest_json.rs\<close>, \<^verbatim>\<open>rest_xml.rs\<close>), the
  serializers of results and the serializer of errors (\<^verbatim>\<open>error.rs\<close>). The form decoder of the package
  \<^verbatim>\<open>serde_urlencoded\<close> and the JSON parser of \<^verbatim>\<open>serde_json\<close> are arguments; they answer the text of
  their error or the value.
\<close>

section \<open>Protocols\<close>

datatype AwsProtocol = Query | Json | RestJson | RestXml | Ec2

definition from_service :: "string \<Rightarrow> AwsProtocol" where
  "from_service svc =
     (if svc \<in> {''s3'', ''route53''} then RestXml
      else if svc \<in> {''sqs'', ''sns'', ''iam'', ''sts'', ''cloudformation'', ''redshift'', ''cloudwatch'',
                     ''ses'', ''elasticache'', ''rds''} then Query
      else if svc = ''ec2'' then Ec2
      else if svc \<in> {''dynamodb'', ''kinesis'', ''firehose'', ''secretsmanager'', ''ssm'', ''kms'', ''acm'',
                     ''ecr'', ''events'', ''states'', ''ecs'', ''cloudtrail'', ''cognito-idp''} then Json
      else RestJson)"

fun protocol_content_type :: "AwsProtocol \<Rightarrow> string" where
  "protocol_content_type Query = ''text/xml''"
| "protocol_content_type Ec2 = ''text/xml''"
| "protocol_content_type Json = ''application/x-amz-json-1.1''"
| "protocol_content_type RestJson = ''application/json''"
| "protocol_content_type RestXml = ''application/xml''"

record ParsedRequest =
  pr_service :: string
  pr_operation :: string
  pr_protocol :: AwsProtocol
  pr_params :: Value
  pr_raw_body :: string

record SerializedResponse =
  sr_status_code :: u16
  sr_body :: string
  sr_content_type :: string
  sr_headers :: "(string \<times> string) list"

definition SerializedResponse_ok :: "string \<Rightarrow> string \<Rightarrow> SerializedResponse" where
  "SerializedResponse_ok body ctype =
     \<lparr>sr_status_code = 200, sr_body = body, sr_content_type = ctype, sr_headers = []\<rparr>"

datatype ProtocolError =
    ParseError string string
  | SerializeError string string
  | UnsupportedProtocol string

fun protocol_error_text :: "ProtocolError \<Rightarrow> string" where
  "protocol_error_text (ParseError p m) = ''failed to parse '' @ p @ '' request: '' @ m"
| "protocol_error_text (SerializeError p m) = ''failed to serialize '' @ p @ '' response: '' @ m"
| "protocol_error_text (UnsupportedProtocol p) = ''unsupported protocol: '' @ p"

section \<open>Lossy decoding of UTF-8\<close>

text \<open>
  \<^verbatim>\<open>String::from_utf8_lossy\<close>: the longest prefix of a character that is not completed, or a byte that
  starts none, is replaced by the character U+FFFD. \<open>utf8_seq\<close> is the length of the next piece and
  whether it is a character.
\<close>

definition byte_at :: "nat list \<Rightarrow> nat \<Rightarrow> nat" where
  "byte_at bs i = (if i < length bs then bs ! i else 0)"

definition utf8_width :: "nat \<Rightarrow> nat" where
  "utf8_width a =
     (if a < 128 then 1 else if 194 \<le> a \<and> a \<le> 223 then 2 else if 224 \<le> a \<and> a \<le> 239 then 3
      else if 240 \<le> a \<and> a \<le> 244 then 4 else 0)"

definition utf8_second_ok :: "nat \<Rightarrow> nat \<Rightarrow> bool" where
  "utf8_second_ok a b \<longleftrightarrow>
     (if a = 224 then 160 else if a = 240 then 144 else 128) \<le> b \<and>
     b \<le> (if a = 237 then 159 else if a = 244 then 143 else 191)"

definition utf8_cont :: "nat \<Rightarrow> bool" where
  "utf8_cont b \<longleftrightarrow> 128 \<le> b \<and> b \<le> 191"

definition utf8_seq :: "nat list \<Rightarrow> nat \<times> bool" where
  "utf8_seq bs =
     (let a = byte_at bs 0; w = utf8_width a
      in if w = 1 then (1, True)
         else if w = 0 \<or> \<not> utf8_second_ok a (byte_at bs 1) then (1, False)
         else if w = 2 then (2, True)
         else if \<not> utf8_cont (byte_at bs 2) then (2, False)
         else if w = 3 then (3, True)
         else if \<not> utf8_cont (byte_at bs 3) then (3, False)
         else (4, True))"

lemma utf8_seq_pos: "0 < fst (utf8_seq bs)"
  by (simp add: utf8_seq_def Let_def)

function lossy_bytes :: "nat list \<Rightarrow> nat list" where
  "lossy_bytes bs =
     (if bs = [] then []
      else case utf8_seq bs of
             (n, ok) \<Rightarrow> (if ok then take n bs else [239, 191, 189]) @ lossy_bytes (drop n bs))"
  by auto
termination
proof (relation "measure length", goal_cases)
  case (2 bs n ok)
  then have "0 < n" using utf8_seq_pos [of bs] by (metis fst_conv)
  with 2(1) show ?case by (cases bs) auto
qed simp

declare lossy_bytes.simps [simp del]

definition from_utf8_lossy :: "string \<Rightarrow> string" where
  "from_utf8_lossy s = map char_of (lossy_bytes (map of_char s))"

lemma utf8_valid_seq:
  assumes "utf8_valid bs" "bs \<noteq> []"
  shows "snd (utf8_seq bs) \<and> utf8_valid (drop (fst (utf8_seq bs)) bs)"
proof -
  obtain a s where bs: "bs = a # s" using assms(2) by (cases bs) auto
  note defs = bs utf8_seq_def utf8_width_def utf8_second_ok_def utf8_cont_def byte_at_def Let_def
  consider "a < 128" | "194 \<le> a" "a \<le> 223" | "224 \<le> a" "a \<le> 239" | "240 \<le> a" "a \<le> 244"
    using assms(1) by (fastforce simp: bs split: if_splits)
  then show ?thesis
  proof cases
    case 2
    with assms(1) obtain b r where "s = b # r" by (cases s) (auto simp: bs)
    with 2 assms(1) show ?thesis by (simp add: defs)
  next
    case 3
    with assms(1) obtain b c r where "s = b # c # r" by (auto simp: bs split: list.splits)
    with 3 assms(1) show ?thesis by (simp add: defs numeral_2_eq_2 split: if_splits)
  next
    case 4
    with assms(1) obtain b c d r where "s = b # c # d # r" by (auto simp: bs split: list.splits)
    with 4 assms(1) show ?thesis by (simp add: defs numeral_2_eq_2 numeral_3_eq_3 split: if_splits)
  qed (use assms(1) in \<open>simp add: defs\<close>)
qed

lemma lossy_bytes_valid: "utf8_valid bs \<Longrightarrow> lossy_bytes bs = bs"
proof (induction bs rule: lossy_bytes.induct)
  case (1 bs)
  show ?case
  proof (cases "bs = []")
    case False
    obtain n ok where s: "utf8_seq bs = (n, ok)" by fastforce
    with utf8_valid_seq [OF 1(2) False] have "ok" "utf8_valid (drop n bs)" by auto
    with 1(1) [OF False s [symmetric]] s False show ?thesis by (subst lossy_bytes.simps) simp
  qed (simp add: lossy_bytes.simps)
qed

lemma from_utf8_lossy_valid: "from_utf8 s = Some s \<Longrightarrow> from_utf8_lossy s = s"
  by (auto simp: from_utf8_def from_utf8_lossy_def lossy_bytes_valid comp_def split: if_splits)

section \<open>Requests\<close>

text \<open>
  \<open>form_decode\<close> is \<^verbatim>\<open>serde_urlencoded::from_bytes\<close> at the type of pairs of strings, \<open>json_decode\<close> is
  \<^verbatim>\<open>serde_json::from_slice\<close> at the type of values.
\<close>

record codecs =
  form_decode :: "string \<Rightarrow> string + (string \<times> string) list"
  json_decode :: "string \<Rightarrow> string + Value"

definition missing_action_text :: string where
  "missing_action_text = ''Missing '' @ [CHR 0x27] @ ''Action'' @ [CHR 0x27] @ '' parameter''"

definition insert_nested :: "string \<Rightarrow> string \<Rightarrow> (string, Value) btree_map \<Rightarrow> (string, Value) btree_map" where
  "insert_nested key v m = bt_insert key (JString v) m"

definition parse_query_request :: "codecs \<Rightarrow> string \<Rightarrow> ProtocolError + string \<times> Value" where
  "parse_query_request cs body =
     (case form_decode cs body of
        Inl e \<Rightarrow> Inl (ParseError ''query'' e)
      | Inr params \<Rightarrow>
          (case find (\<lambda>(k, v). k = ''Action'') params of
             None \<Rightarrow> Inl (ParseError ''query'' missing_action_text)
           | Some (_, action) \<Rightarrow>
               Inr (action, JObject (fold
                 (\<lambda>(key, v) m. if key \<noteq> ''Action'' \<and> key \<noteq> ''Version'' then insert_nested key v m else m)
                 params []))))"

definition parse_ec2_request :: "codecs \<Rightarrow> string \<Rightarrow> ProtocolError + string \<times> Value" where
  "parse_ec2_request cs body =
     (case form_decode cs body of
        Inl e \<Rightarrow> Inl (ParseError ''ec2'' e)
      | Inr params \<Rightarrow>
          (case find (\<lambda>(k, v). eq_ignore_ascii_case k ''Action'') params of
             None \<Rightarrow> Inl (ParseError ''ec2'' missing_action_text)
           | Some (_, action) \<Rightarrow>
               Inr (action, JObject (fold
                 (\<lambda>(key, v) m.
                    if \<not> eq_ignore_ascii_case key ''Action'' \<and> \<not> eq_ignore_ascii_case key ''Version''
                    then bt_insert key (JString v) m else m)
                 params []))))"

definition parse_json_request :: "codecs \<Rightarrow> string \<Rightarrow> string option \<Rightarrow> ProtocolError + string \<times> Value" where
  "parse_json_request cs body target =
     (case (if body = [] then Inr (JObject []) else json_decode cs body) of
        Inl e \<Rightarrow> Inl (ParseError ''json'' e)
      | Inr params \<Rightarrow>
          (let operation = (case target of None \<Rightarrow> [] | Some t \<Rightarrow> last (split_char (CHR ''.'') t))
           in if operation = [] then Inl (ParseError ''json'' ''Missing X-Amz-Target header or invalid format'')
              else Inr (operation, params)))"

definition parse_rest_json_request ::
  "codecs \<Rightarrow> string \<Rightarrow> string \<Rightarrow> string \<Rightarrow> (string, string) hash_map \<Rightarrow> ProtocolError + Value" where
  "parse_rest_json_request cs method path body query_params =
     (case (if body = [] then Inr (JObject []) else json_decode cs body) of
        Inl e \<Rightarrow> Inl (ParseError ''rest-json'' e)
      | Inr (JObject m) \<Rightarrow>
          Inr (JObject (fold (\<lambda>(k, v) m. if contains_key m k then m else bt_insert k (JString v) m) query_params m))
      | Inr params \<Rightarrow> Inr params)"

definition parse_rest_xml_request ::
  "string \<Rightarrow> string \<Rightarrow> string \<Rightarrow> (string, string) hash_map \<Rightarrow> ProtocolError + Value" where
  "parse_rest_xml_request method path body query_params =
     (let m = fold (\<lambda>(k, v). bt_insert k v) [(''Method'', JString method), (''Path'', JString path)] [];
          m = fold (\<lambda>(k, v). bt_insert k (JString v)) query_params m;
          m = (if body = [] then m else bt_insert ''__xml_body'' (JString (from_utf8_lossy body)) m)
      in Inr (JObject m))"

section \<open>Responses\<close>

definition in_quotes :: "string \<Rightarrow> string" where
  "in_quotes s = CHR 0x22 # s @ [CHR 0x22]"

definition newline :: string where
  "newline = [CHR 0x0A]"

definition xml_prolog :: string where
  "xml_prolog = ''<?xml version='' @ in_quotes ''1.0'' @ '' encoding='' @ in_quotes ''UTF-8'' @ ''?>''"

fun number_text :: "Number \<Rightarrow> string" where
  "number_text (PosInt n) = nat_to_string (unat n)"
| "number_text (NegInt i) = int_to_string i"
| "number_text (Float s) = s"

definition query_escape_xml :: "string \<Rightarrow> string" where
  "query_escape_xml s =
     replace_char (CHR 0x27) ''&apos;'' (replace_char (CHR 0x22) ''&quot;'' (replace_char (CHR ''>'') ''&gt;''
       (replace_char (CHR ''<'') ''&lt;'' (replace_char (CHR ''&'') ''&amp;'' s))))"

definition xml_element :: "string \<Rightarrow> string \<Rightarrow> string" where
  "xml_element k inner = ''<'' @ k @ ''>'' @ inner @ ''</'' @ k @ ''>''"

fun json_to_xml :: "Value \<Rightarrow> string" where
  "json_to_xml (JObject m) = join newline (map (\<lambda>(k, v). xml_element k (json_to_xml v)) m)"
| "json_to_xml (JArray items) = join newline (map json_to_xml items)"
| "json_to_xml (JString s) = query_escape_xml s"
| "json_to_xml (JNumber n) = number_text n"
| "json_to_xml (JBool b) = bool_to_string b"
| "json_to_xml JNull = []"

fun json_to_ec2_xml :: "Value \<Rightarrow> string" where
  "json_to_ec2_xml (JObject m) = join (newline @ ''  '') (map (\<lambda>(k, v). xml_element k (json_to_ec2_xml v)) m)"
| "json_to_ec2_xml (JArray items) = join (newline @ ''  '') (map (\<lambda>v. xml_element ''item'' (json_to_ec2_xml v)) items)"
| "json_to_ec2_xml (JString s) = replace_char (CHR ''>'') ''&gt;'' (replace_char (CHR ''<'') ''&lt;'' s)"
| "json_to_ec2_xml (JNumber n) = number_text n"
| "json_to_ec2_xml (JBool b) = bool_to_string b"
| "json_to_ec2_xml JNull = []"

definition serialize_query_response :: "string \<Rightarrow> Value \<Rightarrow> string \<Rightarrow> string" where
  "serialize_query_response operation result request_id =
     xml_prolog @ newline @
     ''<'' @ operation @ ''Response xmlns='' @ in_quotes ''https://sqs.amazonaws.com/doc/2012-11-05/'' @ ''>'' @ newline @
     ''  <'' @ operation @ ''Result>'' @ newline @ json_to_xml result @ newline @
     ''  </'' @ operation @ ''Result>'' @ newline @
     ''  <ResponseMetadata>'' @ newline @
     ''    <RequestId>'' @ request_id @ ''</RequestId>'' @ newline @
     ''  </ResponseMetadata>'' @ newline @ ''</'' @ operation @ ''Response>''"

definition serialize_ec2_response :: "string \<Rightarrow> Value \<Rightarrow> string \<Rightarrow> string" where
  "serialize_ec2_response operation result request_id =
     xml_prolog @ newline @
     ''<'' @ operation @ ''Response xmlns='' @ in_quotes ''http://ec2.amazonaws.com/doc/2016-11-15/'' @ ''>'' @ newline @
     ''  <requestId>'' @ request_id @ ''</requestId>'' @ newline @ ''  '' @ json_to_ec2_xml result @ newline @
     ''</'' @ operation @ ''Response>''"

definition serialize_json_response :: "externs \<Rightarrow> Value \<Rightarrow> string" where
  "serialize_json_response ext result = json_to_string ext result"

definition serialize_rest_json_response :: "externs \<Rightarrow> Value \<Rightarrow> string" where
  "serialize_rest_json_response ext result = json_to_string ext result"

definition serialize_rest_xml_response :: "string \<Rightarrow> string" where
  "serialize_rest_xml_response xml = xml"

definition s3_error_xml :: "string \<Rightarrow> string \<Rightarrow> string \<Rightarrow> string" where
  "s3_error_xml code message request_id =
     xml_prolog @ newline @ ''<Error>'' @ newline @ ''  <Code>'' @ code @ ''</Code>'' @ newline @
     ''  <Message>'' @ message @ ''</Message>'' @ newline @
     ''  <RequestId>'' @ request_id @ ''</RequestId>'' @ newline @ ''</Error>''"

fun serialize_error :: "externs \<Rightarrow> AwsProtocol \<Rightarrow> string \<Rightarrow> string \<Rightarrow> nat \<Rightarrow> string \<Rightarrow> nat \<times> string \<times> string" where
  "serialize_error ext Json code message http_status request_id =
     (http_status, json_to_string ext (json_object [(''__type'', JString code), (''message'', JString message)]),
      ''application/x-amz-json-1.1'')"
| "serialize_error ext RestJson code message http_status request_id =
     (http_status, json_to_string ext (json_object [(''code'', JString code), (''message'', JString message)]),
      ''application/json'')"
| "serialize_error ext RestXml code message http_status request_id =
     (http_status, xml_prolog @ newline @ ''<Error>'' @ newline @ ''  <Code>'' @ code @ ''</Code>'' @ newline @
        ''  <Message>'' @ message @ ''</Message>'' @ newline @
        ''  <RequestId>'' @ request_id @ ''</RequestId>'' @ newline @ ''</Error>'', ''application/xml'')"
| "serialize_error ext p code message http_status request_id =
     (http_status, xml_prolog @ newline @ ''<ErrorResponse>'' @ newline @ ''  <Error>'' @ newline @
        ''    <Type>Sender</Type>'' @ newline @ ''    <Code>'' @ code @ ''</Code>'' @ newline @
        ''    <Message>'' @ message @ ''</Message>'' @ newline @ ''  </Error>'' @ newline @
        ''  <RequestId>'' @ request_id @ ''</RequestId>'' @ newline @ ''</ErrorResponse>'', ''text/xml'')"

definition error_http_status :: "string \<Rightarrow> nat" where
  "error_http_status code =
     (if code \<in> {''AccessDeniedException'', ''AccessDenied''} then 403
      else if code \<in> {''AuthFailure'', ''InvalidSignatureException''} then 403
      else if code \<in> {''InvalidParameterValue'', ''InvalidParameterException'', ''ValidationException'',
                      ''MalformedQueryString''} then 400
      else if code \<in> {''NotFoundException'', ''NoSuchBucket'', ''NoSuchKey'', ''QueueDoesNotExist'',
                      ''ResourceNotFoundException''} then 404
      else if code \<in> {''AlreadyExistsException'', ''BucketAlreadyOwnedByYou'', ''QueueAlreadyExists'',
                      ''ResourceInUseException''} then 409
      else if code \<in> {''ThrottlingException'', ''RequestLimitExceeded''} then 429
      else if code \<in> {''InternalError'', ''InternalFailure'', ''ServiceUnavailable''} then 500
      else if code \<in> {''NotImplemented'', ''UnsupportedOperation''} then 501
      else 400)"

end
