(* ===== verification/Gateway_Routing.thy ===== *)
theory Gateway_Routing
  imports Gateway_Auth Aws_Protocol
begin

text \<open>
  The crate \<^verbatim>\<open>gateway\<close>, \<^verbatim>\<open>server.rs\<close>: which service a request is for, the rewriting of virtual-hosted
  S3 paths, the operation and parameters of a request, and which requests carry the bytes of an S3
  object. Header names are in lower case, as the package \<^verbatim>\<open>http\<close> keeps them; a header whose value is no
  visible ASCII reads as absent.
\<close>

section \<open>Library functions\<close>

definition header_text :: "externs \<Rightarrow> (string, string) hash_map \<Rightarrow> string \<Rightarrow> string option" where
  "header_text ext headers name = Option.bind (hm_get headers name) (header_to_str ext)"

definition str_get_from :: "string \<Rightarrow> nat \<Rightarrow> string option" where
  "str_get_from s i = (if is_char_boundary s i \<and> i \<le> length s then Some (drop i s) else None)"

definition str_get_to :: "string \<Rightarrow> nat \<Rightarrow> string option" where
  "str_get_to s i = (if is_char_boundary s i \<and> i \<le> length s then Some (take i s) else None)"

definition first_piece :: "char \<Rightarrow> string \<Rightarrow> string" where
  "first_piece d s = hd (split_char d s)"

text \<open>\<^verbatim>\<open>s.trim_start_matches(p)\<close> for a text \<open>p\<close>: every leading copy goes.\<close>

function trim_start_text :: "string \<Rightarrow> string \<Rightarrow> string" where
  "trim_start_text p s =
     (if p \<noteq> [] \<and> starts_with s p then trim_start_text p (drop (length p) s) else s)"
  by auto
termination
proof (relation "measure (\<lambda>(p, s). length s)", goal_cases)
  case (2 p s)
  then obtain r where "s = p @ r" using starts_withE by blast
  with 2 show ?case by simp
qed simp

declare trim_start_text.simps [simp del]

definition is_ascii_lowercase :: "char \<Rightarrow> bool" where
  "is_ascii_lowercase c \<longleftrightarrow> 97 \<le> (of_char c :: nat) \<and> (of_char c :: nat) \<le> 122"

definition is_ascii_alphabetic :: "char \<Rightarrow> bool" where
  "is_ascii_alphabetic c \<longleftrightarrow> is_ascii_lowercase c \<or> is_ascii_uppercase c"

definition rfind_index :: "(char \<Rightarrow> bool) \<Rightarrow> string \<Rightarrow> nat option" where
  "rfind_index P s =
     (case dropWhile (\<lambda>c. \<not> P c) (rev s) of [] \<Rightarrow> None | _ # r \<Rightarrow> Some (length r))"

section \<open>Service names\<close>

definition known_service_static :: "string \<Rightarrow> string option" where
  "known_service_static = map_of
     [(''s3'', ''s3''), (''sqs'', ''sqs''), (''sns'', ''sns''), (''dynamodb'', ''dynamodb''),
      (''lambda'', ''lambda''), (''iam'', ''iam''), (''sts'', ''sts''), (''kms'', ''kms''),
      (''cloudformation'', ''cloudformation''), (''cloudwatch'', ''cloudwatch''), (''logs'', ''logs''), (''kinesis'', ''kinesis''),
      (''firehose'', ''firehose''), (''events'', ''events''), (''states'', ''states''), (''apigateway'', ''apigateway''),
      (''ec2'', ''ec2''), (''route53'', ''route53''), (''ses'', ''ses''), (''ssm'', ''ssm''),
      (''secretsmanager'', ''secretsmanager''), (''acm'', ''acm''), (''ecr'', ''ecr''), (''opensearch'', ''opensearch''),
      (''redshift'', ''redshift''), (''ecs'', ''ecs''), (''cloudtrail'', ''cloudtrail''), (''cognito'', ''cognito-idp''),
      (''cognito-idp'', ''cognito-idp''), (''elasticache'', ''elasticache''), (''rds'', ''rds'')]"

definition is_known_service :: "string \<Rightarrow> bool" where
  "is_known_service name \<longleftrightarrow> name \<in>
     {''s3'', ''sqs'', ''sns'', ''dynamodb'', ''lambda'', ''iam'', ''sts'', ''kms'',
      ''cloudformation'', ''cloudwatch'', ''logs'', ''kinesis'', ''firehose'', ''events'',
      ''states'', ''apigateway'', ''ec2'', ''route53'', ''ses'', ''ssm'', ''secretsmanager'',
      ''acm'', ''ecr'', ''opensearch'', ''redshift'', ''ecs'', ''cloudtrail'', ''cognito'',
      ''cognito-idp'', ''elasticache'', ''rds''}"

definition normalize_service_name :: "string \<Rightarrow> string" where
  "normalize_service_name svc =
     (if eq_ignore_ascii_case svc ''es'' then ''opensearch''
      else if eq_ignore_ascii_case svc ''cognito'' \<or> eq_ignore_ascii_case svc ''cognito-idp'' then ''cognito-idp''
      else if list_all (\<lambda>b. \<not> is_ascii_uppercase b) svc then
        (case known_service_static svc of Some s \<Rightarrow> s | None \<Rightarrow> svc)
      else to_ascii_lowercase svc)"

definition extract_action_value :: "string \<Rightarrow> string option" where
  "extract_action_value body =
     (case from_utf8 body of
        None \<Rightarrow> None
      | Some s \<Rightarrow> find_map (\<lambda>seg. strip_prefix seg ''Action='') (split_char (CHR ''&'') s))"

definition service_of_action :: "string \<Rightarrow> string option" where
  "service_of_action action =
     (if action \<in> {''CreateQueue'', ''DeleteQueue'', ''GetQueueUrl'', ''GetQueueAttributes'',
                    ''SetQueueAttributes'', ''SendMessage'', ''ReceiveMessage'', ''DeleteMessage'',
                    ''PurgeQueue'', ''ListQueues'', ''SendMessageBatch'', ''DeleteMessageBatch'',
                    ''ChangeMessageVisibility'', ''ChangeMessageVisibilityBatch''}
        then Some ''sqs''
      else if action \<in> {''GetCallerIdentity'', ''AssumeRole'', ''GetSessionToken'', ''GetAccessKeyInfo'',
                    ''DecodeAuthorizationMessage''}
        then Some ''sts''
      else if action \<in> {''CreateTopic'', ''DeleteTopic'', ''Publish'', ''Subscribe'', ''Unsubscribe'', ''ListTopics'',
                    ''SetTopicAttributes'', ''GetTopicAttributes'', ''ListSubscriptions'',
                    ''ListSubscriptionsByTopic'', ''GetSubscriptionAttributes''}
        then Some ''sns''
      else if action \<in> {''CreateRole'', ''DeleteRole'', ''ListRoles'', ''GetRole'', ''CreateUser'', ''DeleteUser'',
                    ''ListUsers'', ''GetUser''}
        then Some ''iam''
      else if action \<in> {''CreateStack'', ''DeleteStack'', ''DescribeStacks'', ''ListStacks'', ''GetTemplate'',
                    ''ValidateTemplate'', ''UpdateStack''}
        then Some ''cloudformation''
      else if action \<in> {''PutMetricData'', ''ListMetrics'', ''GetMetricStatistics'', ''DescribeAlarms'',
                    ''PutMetricAlarm'', ''DeleteAlarms'', ''SetAlarmState''}
        then Some ''cloudwatch''
      else if action \<in> {''DescribeVpcs'', ''CreateVpc'', ''DeleteVpc'', ''DescribeSubnets'', ''CreateSubnet'',
                    ''DescribeSecurityGroups'', ''CreateSecurityGroup'', ''AuthorizeSecurityGroupIngress'',
                    ''RunInstances'', ''DescribeInstances'', ''TerminateInstances''}
        then Some ''ec2''
      else if action \<in> {''CreateCluster'', ''DeleteCluster'', ''DescribeClusters'', ''ModifyCluster'',
                    ''RebootCluster''}
        then Some ''redshift''
      else if action \<in> {''VerifyEmailIdentity'', ''VerifyDomainIdentity'', ''ListIdentities'', ''SendEmail'',
                    ''SendRawEmail'', ''GetIdentityVerificationAttributes'', ''DeleteIdentity''}
        then Some ''ses''
      else None)"

definition service_from_query_action :: "(string, string) hash_map \<Rightarrow> string \<Rightarrow> string option" where
  "service_from_query_action query_params body =
     (case hm_get query_params ''Action'' of
        Some a \<Rightarrow> service_of_action a
      | None \<Rightarrow> Option.bind (extract_action_value body) service_of_action)"

definition has_cloudtrail_target_prefix :: "string \<Rightarrow> bool" where
  "has_cloudtrail_target_prefix target =
     (let p = ''com.amazonaws.cloudtrail''
      in case (str_get_from target (length p), str_get_to target (length p)) of
           (Some rest, Some prefix) \<Rightarrow>
             if eq_ignore_ascii_case prefix p then rest = [] \<or> hd rest = CHR ''.'' \<or> hd rest = CHR ''_''
             else starts_with (last (split_char (CHR ''.'') target)) ''CloudTrail_''
         | _ \<Rightarrow> starts_with (last (split_char (CHR ''.'') target)) ''CloudTrail_'')"

definition strip_version_suffix :: "string \<Rightarrow> string" where
  "strip_version_suffix prefix =
     (if length prefix \<le> 1 then prefix
      else case rfind_index (\<lambda>c. c = CHR ''V'' \<or> c = CHR ''v'') prefix of
             None \<Rightarrow> prefix
           | Some i \<Rightarrow>
               if 1 < length (drop i prefix) \<and> list_all is_ascii_digit (drop (i + 1) prefix) \<and>
                  take i prefix \<noteq> [] \<and> is_ascii_alphabetic (last (take i prefix))
               then take i prefix else prefix)"

definition service_from_target :: "string \<Rightarrow> string option" where
  "service_from_target target =
     (if has_cloudtrail_target_prefix target then Some ''cloudtrail''
      else let prefix = first_piece (CHR ''.'') target;
               prefix = first_piece (CHR ''_'') prefix;
               prefix = strip_version_suffix prefix
           in
         if eq_ignore_ascii_case prefix ''dynamodb'' then Some ''dynamodb''
         else if eq_ignore_ascii_case prefix ''certificatemanager'' then Some ''acm''
         else if eq_ignore_ascii_case prefix ''kinesis'' then Some ''kinesis''
         else if eq_ignore_ascii_case prefix ''firehose'' then Some ''firehose''
         else if eq_ignore_ascii_case prefix ''lambda'' then Some ''lambda''
         else if eq_ignore_ascii_case prefix ''awsstepfunctions'' then Some ''states''
         else if eq_ignore_ascii_case prefix ''logs'' then Some ''logs''
         else if eq_ignore_ascii_case prefix ''amazonssm'' then Some ''ssm''
         else if eq_ignore_ascii_case prefix ''kms'' \<or> eq_ignore_ascii_case prefix ''trentservice'' then Some ''kms''
         else if eq_ignore_ascii_case prefix ''secretsmanager'' then Some ''secretsmanager''
         else if eq_ignore_ascii_case prefix ''ssm'' then Some ''ssm''
         else if eq_ignore_ascii_case prefix ''cloudwatch'' then Some ''cloudwatch''
         else if eq_ignore_ascii_case prefix ''awsevents'' \<or> eq_ignore_ascii_case prefix ''events'' then Some ''events''
         else if eq_ignore_ascii_case prefix ''awscognitoidentityproviderservice'' then Some ''cognito-idp''
         else if eq_ignore_ascii_case prefix ''amazonec2containerservice'' then Some ''ecs''
         else if eq_ignore_ascii_case prefix ''cloudtrail'' then Some ''cloudtrail''
         else if eq_ignore_ascii_case prefix ''amazonec2containerregistry'' \<or> eq_ignore_ascii_case prefix ''ecr'' then Some ''ecr''
         else if eq_ignore_ascii_case prefix ''sns'' then Some ''sns''
         else if eq_ignore_ascii_case prefix ''amazonsqs'' \<or> eq_ignore_ascii_case prefix ''sqs'' then Some ''sqs''
         else if eq_ignore_ascii_case prefix ''awssecuritytokenservice'' \<or> eq_ignore_ascii_case prefix ''sts'' then Some ''sts''
         else None)"

definition service_from_path :: "string \<Rightarrow> string option" where
  "service_from_path p =
     (let path = trim_start_matches (CHR ''/'') p
      in if starts_with path ''restapis'' then Some ''apigateway''
         else if starts_with path ''2021-01-01/opensearch/domain'' \<or> path = ''2021-01-01/domain'' then Some ''opensearch''
         else if starts_with path ''2013-04-01/hostedzone'' then Some ''route53''
         else if starts_with path ''2015-03-31/functions'' \<or> starts_with path ''2015-03-31/event-source-mappings''
           then Some ''lambda''
         else if starts_with path ''2012-12-01/'' \<or> str_contains path ''elasticloadbalancing'' then Some ''elb''
         else None)"

definition service_from_host :: "string \<Rightarrow> string option" where
  "service_from_host host =
     (let parts = split_char (CHR ''.'') (first_piece (CHR '':'') host)
      in if 2 \<le> length parts then
           (let potential = normalize_service_name (hd parts)
            in if list_all (\<lambda>c. is_ascii_lowercase c \<or> is_ascii_digit c \<or> c = CHR ''-'') potential \<and>
                  is_known_service potential
               then Some potential else None)
         else None)"

definition detect_service ::
  "externs \<Rightarrow> string \<Rightarrow> (string, string) hash_map \<Rightarrow> (string, string) hash_map \<Rightarrow> string \<Rightarrow> string option \<Rightarrow> string" where
  "detect_service ext path query_params headers body service_from_auth =
     (case service_from_auth of
        Some svc \<Rightarrow> normalize_service_name svc
      | None \<Rightarrow>
          (case Option.bind (header_text ext headers ''host'') service_from_host of
             Some svc \<Rightarrow> svc
           | None \<Rightarrow>
               if path = ''/'' \<and> query_params = [] \<and> body = [] \<and> \<not> contains_key headers ''x-amz-target'' then ''s3''
               else case Option.bind (header_text ext headers ''x-amz-target'') service_from_target of
                      Some svc \<Rightarrow> svc
                    | None \<Rightarrow>
                        (case service_from_query_action query_params body of
                           Some svc \<Rightarrow> svc
                         | None \<Rightarrow>
                             (case service_from_path path of
                                Some svc \<Rightarrow> svc
                              | None \<Rightarrow>
                                  if trim_start_matches (CHR ''/'') path \<noteq> [] then ''s3'' else ''unknown''))))"

section \<open>Virtual-hosted S3 requests\<close>

definition extract_bucket_before_s3_region :: "string \<Rightarrow> string option" where
  "extract_bucket_before_s3_region host =
     (let parts = split_char (CHR ''.'') host
      in if length parts < 4 then None
         else if eq_ignore_ascii_case (parts ! 1) ''s3'' then Some (parts ! 0) else None)"

definition bucket_of_host :: "string \<Rightarrow> string \<Rightarrow> string option" where
  "bucket_of_host host localstack_host =
     (let host_no_port = first_piece (CHR '':'') host;
          localstack_host_no_port = first_piece (CHR '':'') localstack_host
      in case strip_suffix host_no_port ''.s3.amazonaws.com'' of
           Some rest \<Rightarrow> Some rest
         | None \<Rightarrow>
             (case extract_bucket_before_s3_region host_no_port of
                Some b \<Rightarrow> Some b
              | None \<Rightarrow>
                  (let rest = (case strip_suffix host_no_port (CHR ''.'' # localstack_host_no_port) of
                                 Some r \<Rightarrow> Some r
                               | None \<Rightarrow> strip_suffix host_no_port ''.localhost'')
                   in case rest of
                        Some r \<Rightarrow> if CHR ''.'' \<notin> set r \<and> r \<noteq> [] then Some r else None
                      | None \<Rightarrow> None)))"

definition rewrite_s3_virtual_hosted_path ::
  "externs \<Rightarrow> string \<Rightarrow> (string, string) hash_map \<Rightarrow> string \<Rightarrow> string" where
  "rewrite_s3_virtual_hosted_path ext path headers localstack_host =
     (case header_text ext headers ''host'' of
        None \<Rightarrow> path
      | Some host \<Rightarrow>
          (case bucket_of_host host localstack_host of
             None \<Rightarrow> path
           | Some b \<Rightarrow>
               if b = [] then path
               else let stripped = trim_start_matches (CHR ''/'') path
                    in if starts_with stripped b \<and>
                          (length stripped = length b \<or> (length b < length stripped \<and> stripped ! length b = CHR ''/''))
                       then path else CHR ''/'' # b @ path))"

section \<open>Operations and parameters\<close>

definition method_and_path :: "string \<Rightarrow> string \<Rightarrow> string" where
  "method_and_path method path = method @ '':'' @ path"

definition extract_rest_operation :: "string \<Rightarrow> string \<Rightarrow> string" where
  "extract_rest_operation method path =
     (let fallback = method_and_path method path
      in if path = ''/2015-03-31/functions/'' \<or> path = ''/2015-03-31/functions'' then
           (if method = ''GET'' then ''ListFunctions'' else if method = ''POST'' then ''CreateFunction'' else fallback)
         else if path = ''/2021-01-01/opensearch/domain'' then
           (if method = ''POST'' then ''CreateDomain'' else if method = ''GET'' then ''ListDomainNames'' else fallback)
         else if path = ''/2021-01-01/domain'' then
           (if method = ''GET'' then ''ListDomainNames'' else fallback)
         else if starts_with path ''/2021-01-01/opensearch/domain/'' then
           (if ends_with path ''/config'' then
              (if method = ''GET'' then ''DescribeDomainConfig''
               else if method = ''POST'' then ''UpdateDomainConfig'' else fallback)
            else if method = ''GET'' then ''DescribeDomain''
            else if method = ''DELETE'' then ''DeleteDomain'' else fallback)
         else if path = ''/2013-04-01/hostedzone'' then
           (if method = ''POST'' then ''CreateHostedZone'' else if method = ''GET'' then ''ListHostedZones'' else fallback)
         else if starts_with path ''/2013-04-01/hostedzone/'' then
           (if ends_with path ''/rrset'' then
              (if method = ''GET'' then ''ListResourceRecordSets''
               else if method = ''POST'' then ''ChangeResourceRecordSets'' else fallback)
            else if method = ''GET'' then ''GetHostedZone''
            else if method = ''DELETE'' then ''DeleteHostedZone'' else fallback)
         else if starts_with path ''/2013-04-01/change/'' then
           (if method = ''GET'' then ''GetChange'' else fallback)
         else if starts_with path ''/2015-03-31/functions/'' then
           (let suffix = trim_start_text ''/2015-03-31/functions/'' path
            in if ends_with suffix ''/code'' \<and> method = ''PUT'' then ''UpdateFunctionCode''
               else if ends_with suffix ''/invocations'' \<and> method = ''POST'' then ''Invoke''
               else if method = ''GET'' then ''GetFunction''
               else if method = ''DELETE'' then ''DeleteFunction''
               else if method = ''PUT'' then ''UpdateFunctionConfiguration''
               else fallback)
         else fallback)"

definition parse_query_mode ::
  "externs \<Rightarrow> codecs \<Rightarrow> (string, string) hash_map \<Rightarrow> string \<Rightarrow> string \<Rightarrow> string + string \<times> Value" where
  "parse_query_mode ext cs headers body e =
     (if str_contains e missing_action_text \<and> header_text ext headers ''x-amzn-query-mode'' = Some ''true'' then
        (case header_text ext headers ''x-amz-target'' of
           None \<Rightarrow> Inl e
         | Some target \<Rightarrow>
             (let parts = split_char (CHR ''.'') target
              in if length parts < 2 \<or> parts ! 1 = [] then Inl e
                 else case (if body = [] then Inr (JObject []) else json_decode cs body) of
                        Inl err \<Rightarrow> Inl err
                      | Inr params \<Rightarrow> Inr (parts ! 1, params)))
      else Inl e)"

definition parse_operation_and_params ::
  "externs \<Rightarrow> codecs \<Rightarrow> string \<Rightarrow> string \<Rightarrow> (string, string) hash_map \<Rightarrow> (string, string) hash_map \<Rightarrow> string \<Rightarrow>
   AwsProtocol \<Rightarrow> string + string \<times> Value" where
  "parse_operation_and_params ext cs method path query_params headers body protocol =
     (case protocol of
        Query \<Rightarrow>
          (case parse_query_request cs body of
             Inr r \<Rightarrow> Inr r
           | Inl e \<Rightarrow> parse_query_mode ext cs headers body (protocol_error_text e))
      | Ec2 \<Rightarrow> map_sum protocol_error_text id (parse_ec2_request cs body)
      | Json \<Rightarrow> map_sum protocol_error_text id (parse_json_request cs body (header_text ext headers ''x-amz-target''))
      | RestJson \<Rightarrow>
          (case parse_rest_json_request cs method path body query_params of
             Inl e \<Rightarrow> Inl (protocol_error_text e)
           | Inr params \<Rightarrow> Inr (extract_rest_operation method path, params))
      | RestXml \<Rightarrow>
          (case parse_rest_xml_request method path body query_params of
             Inl e \<Rightarrow> Inl (protocol_error_text e)
           | Inr params \<Rightarrow> Inr (extract_rest_operation method path, params)))"

section \<open>Bodies that are S3 objects\<close>

definition should_rewrite_s3_vhost_for_body_check ::
  "externs \<Rightarrow> (string, string) hash_map \<Rightarrow> (string, string) hash_map \<Rightarrow> bool" where
  "should_rewrite_s3_vhost_for_body_check ext headers query_params \<longleftrightarrow>
     (case Option.bind (header_text ext headers ''authorization'') parse_sigv4_auth of
        Some auth \<Rightarrow> eq_ignore_ascii_case (sa_service auth) ''s3''
      | None \<Rightarrow> False) \<or>
     (case (case hm_get query_params ''X-Amz-Credential'' of
              Some c \<Rightarrow> Some c
            | None \<Rightarrow> hm_get query_params ''x-amz-credential'') of
        Some cred \<Rightarrow>
          (let parts = split_char (CHR ''/'') cred in 3 < length parts \<and> parts ! 3 = ''s3'')
      | None \<Rightarrow> False)"

definition XML_BODY_SUBRESOURCES :: "string list" where
  "XML_BODY_SUBRESOURCES =
     [''acl'', ''tagging'', ''policy'', ''website'', ''cors'', ''lifecycle'', ''notification'', ''replication'',
      ''requestPayment'', ''versioning'', ''logging'', ''encryption'', ''object-lock'', ''ownershipControls'',
      ''accelerate'', ''inventory'', ''analytics'', ''metrics'']"

definition has_s3_hint :: "externs \<Rightarrow> (string, string) hash_map \<Rightarrow> bool" where
  "has_s3_hint ext headers \<longleftrightarrow>
     (case header_text ext headers ''host'' of
        None \<Rightarrow> False
      | Some h \<Rightarrow>
          (let host = first_piece (CHR '':'') h
           in eq_ignore_ascii_case host ''s3'' \<or> starts_with host ''s3.'' \<or> str_contains host ''.s3.'')) \<or>
     (case header_text ext headers ''authorization'' of
        None \<Rightarrow> False
      | Some auth \<Rightarrow> str_contains auth ''/s3/aws4_request'' \<or> str_contains auth ''/S3/aws4_request'') \<or>
     contains_key headers ''x-amz-content-sha256'' \<or> contains_key headers ''x-amz-storage-class''"

definition is_s3_object_body_request ::
  "externs \<Rightarrow> string \<Rightarrow> string \<Rightarrow> (string, string) hash_map \<Rightarrow> (string, string) hash_map \<Rightarrow> bool" where
  "is_s3_object_body_request ext method path headers query_params =
     (if method \<noteq> ''PUT'' \<and> method \<noteq> ''POST'' then False
      else let segments = filter (\<lambda>s. s \<noteq> [])
                 (split_char (CHR ''/'') (trim_start_matches (CHR ''/'') (first_piece (CHR ''?'') path)))
           in if length segments < 2 then False
              else if (case Option.bind (header_text ext headers ''authorization'') parse_sigv4_auth of
                         Some auth \<Rightarrow> \<not> eq_ignore_ascii_case (sa_service auth) ''s3''
                       | None \<Rightarrow> False) then False
              else if starts_with (hd segments) ''2015-03-31'' \<or> starts_with (hd segments) ''2012-12-01'' \<or>
                      starts_with (hd segments) ''2016-11-15'' then False
              else if method = ''POST'' \<and>
                      ((contains_key query_params ''uploadId'' \<and> \<not> contains_key query_params ''partNumber'') \<or>
                       (\<not> contains_key query_params ''uploadId'' \<and> \<not> contains_key query_params ''partNumber'')) then False
              else if list_ex (\<lambda>(key, v). List.member XML_BODY_SUBRESOURCES key) query_params then False
              else if \<not> has_s3_hint ext headers \<and> length segments \<noteq> 2 then False
              else True)"

section \<open>Routing lemmas\<close>

lemma lowercase_id: "list_all (\<lambda>c. \<not> is_ascii_uppercase c) s \<Longrightarrow> to_ascii_lowercase s = s"
  by (induction s) (auto simp: to_ascii_lowercase_def)

lemma lowercase_no_upper: "list_all (\<lambda>c. \<not> is_ascii_uppercase c) (to_ascii_lowercase s)"
  by (induction s) (auto simp: to_ascii_lowercase_def is_ascii_uppercase_def of_char_of)

lemma lowercase_idem [simp]: "to_ascii_lowercase (to_ascii_lowercase s) = to_ascii_lowercase s"
  by (simp add: lowercase_id lowercase_no_upper)

lemma known_service_static_self:
  "known_service_static s = Some t \<Longrightarrow> t = (if s = ''cognito'' then ''cognito-idp'' else s)"
  by (auto simp: known_service_static_def split: if_splits)

text \<open>The service names as AWS spells them, with the two aliases resolved.\<close>

definition canonical_service :: "string \<Rightarrow> string" where
  "canonical_service svc =
     (let s = to_ascii_lowercase svc
      in if s = ''es'' then ''opensearch'' else if s = ''cognito'' then ''cognito-idp'' else s)"

lemma lowercase_literals [simp]:
  "to_ascii_lowercase ''es'' = ''es''" "to_ascii_lowercase ''cognito'' = ''cognito''"
  "to_ascii_lowercase ''cognito-idp'' = ''cognito-idp''" "to_ascii_lowercase ''s3'' = ''s3''"
  "to_ascii_lowercase ''opensearch'' = ''opensearch''"
  by code_simp+

lemma normalize_service_name_eq: "normalize_service_name svc = canonical_service svc"
proof (cases "list_all (\<lambda>b. \<not> is_ascii_uppercase b) svc")
  case True
  then show ?thesis
    using lowercase_id [OF True]
    by (auto simp: normalize_service_name_def canonical_service_def eq_ignore_ascii_case_def Let_def
        dest: known_service_static_self split: option.splits)
next
  case False
  then show ?thesis by (auto simp: normalize_service_name_def canonical_service_def eq_ignore_ascii_case_def Let_def)
qed

lemma first_piece_sep: "d \<notin> set a \<Longrightarrow> first_piece d (a @ d # r) = a"
  by (simp add: first_piece_def split_char_append)

lemma first_piece_whole: "d \<notin> set a \<Longrightarrow> first_piece d a = a"
  by (simp add: first_piece_def split_char_no_sep)

lemma strip_suffix_append [simp]: "strip_suffix (a @ p) p = Some a"
  by (simp add: strip_suffix_def ends_with_def)

lemma first_piece_eq_iff:
  assumes "d \<notin> set b"
  shows "first_piece d s = b \<longleftrightarrow> starts_with s b \<and> (length s = length b \<or> (length b < length s \<and> s ! length b = d))"
    (is "?l \<longleftrightarrow> ?r")
proof
  assume l: ?l
  show ?r
  proof (cases "d \<in> set s")
    case True
    then obtain x y where s: "s = x @ d # y" "d \<notin> set x" by (meson split_list_first)
    with l have "b = x" by (simp add: first_piece_sep)
    with s show ?thesis by simp
  next
    case False
    then show ?thesis using l by (simp add: first_piece_whole starts_with_def)
  qed
next
  assume r: ?r
  then obtain t where t: "s = b @ t" using starts_withE by blast
  with r assms show ?l
    by (cases t) (auto simp: first_piece_sep first_piece_whole nth_append)
qed

lemma first_piece_clean: "d \<notin> set (first_piece d s)"
proof (cases "d \<in> set s")
  case True
  then obtain x y where "s = x @ d # y" "d \<notin> set x" by (meson split_list_first)
  then show ?thesis by (simp add: first_piece_sep)
qed (simp add: first_piece_whole)

text \<open>The three forms of a virtual host that clients use, with or without a port.\<close>

definition vhost :: "string \<Rightarrow> string \<Rightarrow> string \<Rightarrow> string set" where
  "vhost bucket region port =
     {bucket @ suffix @ p | suffix p.
        suffix \<in> {''.s3.amazonaws.com'', ''.s3.'' @ region @ ''.amazonaws.com'', ''.localhost''} \<and>
        p \<in> {[], '':'' @ port}}"

lemma ends_withE: "ends_with s p \<Longrightarrow> \<exists>u. s = u @ p"
  unfolding ends_with_def by (metis append_take_drop_id)

lemma ends_with_append: "length p \<le> length t \<Longrightarrow> ends_with (b @ t) p = ends_with t p"
  by (simp add: ends_with_def)

lemma regional_suffix:
  assumes "is_valid_region region"
  shows "{CHR ''.'', CHR '':''} \<inter> set region = {} \<and>
    \<not> ends_with (''.s3.'' @ region @ ''.amazonaws.com'') ''.s3.amazonaws.com''"
proof -
  have "list_all (\<lambda>r. {CHR ''.'', CHR '':''} \<inter> set r = {} \<and>
      \<not> ends_with (''.s3.'' @ r @ ''.amazonaws.com'') ''.s3.amazonaws.com'') VALID_REGIONS" by code_simp
  then show ?thesis using assms by (simp add: is_valid_region_def list_all_iff List.member_iff)
qed

lemma bucket_of_vhost:
  assumes "host \<in> vhost b region port" "{CHR ''.'', CHR '':''} \<inter> set b = {}" "b \<noteq> []" "is_valid_region region"
  shows "bucket_of_host host lh = Some b"
proof -
  obtain suffix p where h: "host = b @ suffix @ p" "p \<in> {[], '':'' @ port}"
    and suffix: "suffix \<in> {''.s3.amazonaws.com'', ''.s3.'' @ region @ ''.amazonaws.com'', ''.localhost''}"
    using assms(1) unfolding vhost_def by blast
  have reg: "{CHR ''.'', CHR '':''} \<inter> set region = {}"
    "\<not> ends_with (''.s3.'' @ region @ ''.amazonaws.com'') ''.s3.amazonaws.com''"
    using regional_suffix [OF assms(4)] by auto
  have "CHR '':'' \<notin> set (b @ suffix)" using suffix assms(2) reg(1) by auto
  then have np: "first_piece (CHR '':'') host = b @ suffix"
    using h first_piece_sep [of "CHR '':''" "b @ suffix" port] first_piece_whole [of "CHR '':''" "b @ suffix"] by auto
  have parts: "split_char (CHR ''.'') (b @ CHR ''.'' # r) = b # split_char (CHR ''.'') r" for r
    using assms(2) by (simp add: split_char_append)
  consider "suffix = ''.s3.amazonaws.com''" | "suffix = ''.s3.'' @ region @ ''.amazonaws.com''" | "suffix = ''.localhost''"
    using suffix by blast
  then show ?thesis
  proof cases
    case 1
    then show ?thesis unfolding bucket_of_host_def np by (simp only: Let_def strip_suffix_append option.case)
  next
    case 2
    have "split_char (CHR ''.'') (region @ ''.amazonaws.com'') = [region, ''amazonaws'', ''com'']"
      using reg(1) split_char_append [of "CHR ''.''" region "''amazonaws.com''"] by simp
    then have "extract_bucket_before_s3_region (b @ suffix) = Some b"
      using parts [of "''s3.'' @ region @ ''.amazonaws.com''"] 2
      by (simp add: extract_bucket_before_s3_region_def Let_def eq_ignore_ascii_case_def)
    moreover have "strip_suffix (b @ suffix) ''.s3.amazonaws.com'' = None"
      using reg(2) ends_with_append [of "''.s3.amazonaws.com''" suffix b] 2 by (simp add: strip_suffix_def)
    ultimately show ?thesis by (simp add: bucket_of_host_def np)
  next
    case 3
    have ex: "extract_bucket_before_s3_region (b @ suffix) = None"
      using parts [of "''localhost''"] 3 by (simp add: extract_bucket_before_s3_region_def)
    have "\<not> ends_with (b @ suffix) ''.s3.amazonaws.com''"
    proof
      assume "ends_with (b @ suffix) ''.s3.amazonaws.com''"
      then obtain u where "b @ suffix = u @ ''.s3.amazonaws.com''" using ends_withE by blast
      then have "last (b @ suffix) = CHR ''m''" by simp
      with 3 show False by simp
    qed
    then have no: "strip_suffix (b @ suffix) ''.s3.amazonaws.com'' = None" by (simp add: strip_suffix_def)
    have "strip_suffix (b @ suffix) (CHR ''.'' # l) \<in> {None, Some b}" for l
    proof (cases "ends_with (b @ suffix) (CHR ''.'' # l)")
      case True
      then obtain u where u: "b @ CHR ''.'' # ''localhost'' = u @ CHR ''.'' # l"
        using 3 by (metis append_take_drop_id ends_with_def)
      then have "u = b \<and> l = ''localhost''"
        using assms(2) append_Cons_eq_iff [of "CHR ''.''" b "''localhost''" u l] by auto
      then show ?thesis using 3 strip_suffix_append [of b "''.localhost''"] by simp
    qed (simp add: strip_suffix_def)
    from this [of "first_piece (CHR '':'') lh"] show ?thesis
      using ex no 3 strip_suffix_append [of b "''.localhost''"] assms(2,3) by (auto simp: bucket_of_host_def np Let_def)
  qed
qed


lemma rewrite_vhost:
  assumes "header_text ext headers ''host'' = Some host" "bucket_of_host host lh = Some b"
    and "b \<noteq> []" "CHR ''/'' \<notin> set b" "key = [] \<or> hd key \<noteq> CHR ''/''"
  shows "rewrite_s3_virtual_hosted_path ext (CHR ''/'' # key) headers lh =
    (if first_piece (CHR ''/'') key = b then CHR ''/'' # key else CHR ''/'' # b @ CHR ''/'' # key)"
proof -
  have "trim_start_matches (CHR ''/'') (CHR ''/'' # key) = key"
    using assms(5) by (cases key) (auto simp: trim_start_matches_def)
  then show ?thesis
    using assms(1-3) first_piece_eq_iff [OF assms(4), of key]
    by (simp add: rewrite_s3_virtual_hosted_path_def Let_def)
qed

section \<open>Properties\<close>

text \<open>C37: Every request is routed: a signed one to the service its credential names, spelled canonically
  (in lower case, with the aliases \<^verbatim>\<open>es\<close> and \<^verbatim>\<open>cognito\<close> resolved, so that spelling it differently makes no difference), an unsigned one to one of
  the known services, to \<^verbatim>\<open>elb\<close>, or to the name \<^verbatim>\<open>unknown\<close>.\<close>

theorem service_routing_total:
  "case auth of
     Some svc \<Rightarrow> detect_service ext path qs hs body auth = canonical_service svc \<and>
       normalize_service_name (canonical_service svc) = canonical_service svc
   | None \<Rightarrow> is_known_service (detect_service ext path qs hs body auth) \<or>
       detect_service ext path qs hs body auth \<in> {''elb'', ''unknown''}"
proof (cases auth)
  case (Some svc)
  have "canonical_service (canonical_service svc) = canonical_service svc"
    by (simp add: canonical_service_def Let_def)
  with Some show ?thesis by (simp add: detect_service_def normalize_service_name_eq)
next
  case None
  let ?r = "detect_service ext path qs hs body None"
  have host: "is_known_service s" if "Option.bind h service_from_host = Some s" for h s
    using that by (cases h) (auto simp: service_from_host_def Let_def split: if_splits)
  have target: "is_known_service s" if "Option.bind h service_from_target = Some s" for h s
    using that by (cases h) (auto simp: service_from_target_def is_known_service_def Let_def split: if_splits)
  have act: "is_known_service s" if "service_of_action h = Some s" for h s
    using that by (auto simp: service_of_action_def is_known_service_def split: if_splits)
  have action: "is_known_service s" if "service_from_query_action q h = Some s" for q h s
    using that act by (cases "extract_action_value h") (auto simp: service_from_query_action_def split: option.splits)
  have path: "is_known_service s \<or> s = ''elb''" if "service_from_path h = Some s" for h s
    using that by (auto simp: service_from_path_def is_known_service_def Let_def split: if_splits)
  have s3: "is_known_service ''s3''" by (simp add: is_known_service_def)
  define P where "P s \<longleftrightarrow> is_known_service s \<or> s \<in> {''elb'', ''unknown''}" for s
  have or_else: "P (case x of Some s \<Rightarrow> s | None \<Rightarrow> y)" if "\<And>s. x = Some s \<Longrightarrow> P s" "P y" for x y
    using that by (cases x) auto
  have if_cases: "P (if c then x else y)" if "P x" "P y" for c x y
    using that by simp
  have "P ?r"
    unfolding detect_service_def option.case
    by (intro or_else if_cases) (auto simp: P_def s3 dest: host target action path)
  then show ?thesis unfolding None by (simp add: P_def)
qed

text \<open>A virtual-hosted S3 request, whichever of the three host forms it uses, gets a path that starts with
  its bucket, and rewriting such a path again changes nothing; but an object whose key starts with the
  bucket's own name is not distinguished from a path-style request: the key \<open>b/k\<close> of bucket \<open>b\<close> gets the path of the key \<open>k\<close>.\<close>

theorem vhost_rewriting:
  assumes "header_text ext headers ''host'' = Some host" "host \<in> vhost b region port"
    and "b \<noteq> []" "{CHR ''.'', CHR '':'', CHR ''/''} \<inter> set b = {}" "is_valid_region region"
    and "key = [] \<or> hd key \<noteq> CHR ''/''"
  shows "(let p = rewrite_s3_virtual_hosted_path ext (CHR ''/'' # key) headers lh in
      p = (if first_piece (CHR ''/'') key = b then CHR ''/'' # key else CHR ''/'' # b @ CHR ''/'' # key) \<and>
      first_piece (CHR ''/'') (tl p) = b \<and>
      rewrite_s3_virtual_hosted_path ext p headers lh = p) \<and>
    (first_piece (CHR ''/'') key \<noteq> b \<longrightarrow>
      rewrite_s3_virtual_hosted_path ext (CHR ''/'' # b @ CHR ''/'' # key) headers lh =
      rewrite_s3_virtual_hosted_path ext (CHR ''/'' # key) headers lh)"
proof -
  have b: "bucket_of_host host lh = Some b" using assms(4) by (intro bucket_of_vhost [OF assms(2) _ assms(3,5)]) auto
  have slash: "CHR ''/'' \<notin> set b" using assms(4) by auto
  note rw = rewrite_vhost [OF assms(1) b assms(3) slash]
  have fp: "first_piece (CHR ''/'') (b @ CHR ''/'' # key) = b" by (rule first_piece_sep [OF slash])
  have "hd (b @ CHR ''/'' # key) \<noteq> CHR ''/''" using assms(3) slash by (cases b) auto
  then have again: "rewrite_s3_virtual_hosted_path ext (CHR ''/'' # b @ CHR ''/'' # key) headers lh = CHR ''/'' # b @ CHR ''/'' # key"
    using rw [of "b @ CHR ''/'' # key"] fp by simp
  then show ?thesis using rw [OF assms(6)] fp by (auto simp: Let_def)
qed

definition plain_externs :: externs where
  "plain_externs = \<lparr>md5_digest = id, hex_encode = id, json_from_slice = (\<lambda>_. None), json_to_string = (\<lambda>_. []),
     header_to_str = Some\<rparr>"

theorem vhost_rewriting_witness:
  "rewrite_s3_virtual_hosted_path plain_externs ''/photos/cat.png'' [(''host'', ''pets.s3.eu-west-1.amazonaws.com:4566'')] ''localhost''
     = ''/pets/photos/cat.png'' \<and>
   rewrite_s3_virtual_hosted_path plain_externs ''/pets/photos/cat.png'' [(''host'', ''pets.s3.eu-west-1.amazonaws.com:4566'')] ''localhost''
     = ''/pets/photos/cat.png''"
proof -
  let ?h = "''pets.s3.eu-west-1.amazonaws.com:4566''" and ?lh = "''localhost''"
  have h: "header_text plain_externs [(''host'', ?h)] ''host'' = Some ?h" by (simp add: header_text_def plain_externs_def)
  have v: "?h \<in> vhost ''pets'' ''eu-west-1'' ''4566''"
    unfolding vhost_def by (rule CollectI, rule exI [of _ "''.s3.eu-west-1.amazonaws.com''"], rule exI [of _ "'':4566''"]) simp
  have r: "is_valid_region ''eu-west-1''" by code_simp
  have n: "first_piece (CHR ''/'') ''photos/cat.png'' \<noteq> ''pets''" by code_simp
  show ?thesis
    using vhost_rewriting [OF h v _ _ r, of "''photos/cat.png''" ?lh] n by (simp add: Let_def)
qed

end
