(* ===== verification/Service_Container.thy ===== *)
theory Service_Container
  imports Service_Framework
begin

text \<open>
  The life cycle of a service, \<^verbatim>\<open>service-framework/src/lifecycle.rs\<close> and \<^verbatim>\<open>container.rs\<close>. The
  methods \<^verbatim>\<open>ensure_running\<close> and \<^verbatim>\<open>stop\<close> are asynchronous and any number of calls interleave,
  so each call is a task with a program counter and \<open>task_step\<close> is what a task does between
  two points where another one may observe it. A write of the state under its \<^verbatim>\<open>RwLock\<close> and a
  store of the atomic mirror under the same guard are one step: nobody reads the state in between,
  and a lock-free read of the mirror there returns what it returned before the step. A task that is
  suspended at an \<^verbatim>\<open>await\<close> may be dropped, which releases its guards.
\<close>

section \<open>States\<close>

datatype ServiceState = Available | Starting | Running | Stopping | Stopped | Error string

fun to_u8 :: "ServiceState \<Rightarrow> u8" where
  "to_u8 Available = 0"
| "to_u8 Starting = 1"
| "to_u8 Running = 2"
| "to_u8 Stopping = 3"
| "to_u8 Stopped = 4"
| "to_u8 (Error _) = 5"

fun state_as_str :: "ServiceState \<Rightarrow> string" where
  "state_as_str Available = ''available''"
| "state_as_str Starting = ''starting''"
| "state_as_str Running = ''running''"
| "state_as_str Stopping = ''stopping''"
| "state_as_str Stopped = ''stopped''"
| "state_as_str (Error _) = ''error''"

definition ATOMIC_AVAILABLE :: u8 where "ATOMIC_AVAILABLE = 0"
definition ATOMIC_STARTING :: u8 where "ATOMIC_STARTING = 1"
definition ATOMIC_RUNNING :: u8 where "ATOMIC_RUNNING = 2"
definition ATOMIC_STOPPING :: u8 where "ATOMIC_STOPPING = 3"
definition ATOMIC_STOPPED :: u8 where "ATOMIC_STOPPED = 4"
definition ATOMIC_ERROR :: u8 where "ATOMIC_ERROR = 5"

lemmas atomic_defs =
  ATOMIC_AVAILABLE_def ATOMIC_STARTING_def ATOMIC_RUNNING_def ATOMIC_STOPPING_def ATOMIC_STOPPED_def
  ATOMIC_ERROR_def

text \<open>The mutex is free, or held by the task with the given number.\<close>

record ServiceContainer =
  c_state :: ServiceState
  c_atomic_state :: u8
  c_init_lock :: "nat option"
  c_startup_attempts :: u64
  c_startup_wait_count :: u64
  c_last_startup_duration_ms :: u64

definition ServiceContainer_new :: ServiceContainer where
  "ServiceContainer_new =
     \<lparr>c_state = Available, c_atomic_state = ATOMIC_AVAILABLE, c_init_lock = None,
      c_startup_attempts = 0, c_startup_wait_count = 0, c_last_startup_duration_ms = 0\<rparr>"

record ServiceRuntimeMetrics =
  m_startup_attempts :: u64
  m_startup_wait_count :: u64
  m_last_startup_duration_ms :: u64

definition runtime_metrics :: "ServiceContainer \<Rightarrow> ServiceRuntimeMetrics" where
  "runtime_metrics c =
     \<lparr>m_startup_attempts = c_startup_attempts c, m_startup_wait_count = c_startup_wait_count c,
      m_last_startup_duration_ms = c_last_startup_duration_ms c\<rparr>"

definition current_state :: "ServiceContainer \<Rightarrow> ServiceState" where
  "current_state c = c_state c"

section \<open>Tasks\<close>

text \<open>
  The program counters of a call. \<open>E_\<close> counters belong to \<^verbatim>\<open>ensure_running\<close>, \<open>S_\<close> counters to
  \<^verbatim>\<open>stop\<close>; the counters from \<open>E_Recheck\<close> to \<open>E_Store_Error\<close> hold the init lock. \<open>E_Done\<close> and
  \<open>S_Done\<close> carry the result of the call, \<open>Dropped\<close> is a call whose future was dropped.
\<close>

datatype pc =
    E_Load | E_Check | E_Count | E_Lock | E_Recheck | E_Begin | E_Attempt | E_Start
  | E_Set_Running | E_Store_Running | E_Set_Error string | E_Store_Error string
  | E_Done "string + unit"
  | S_Stopping | S_Stop | S_Stopped | S_Done "string + unit"
  | Dropped

text \<open>What the provider's \<^verbatim>\<open>start\<close> or \<^verbatim>\<open>stop\<close> answers, and how many milliseconds it took.\<close>

type_synonym provider_answer = "(string + unit) \<times> u64"

definition stopped_message :: string where
  "stopped_message = ''Service has been stopped''"

definition ensure_load :: "ServiceContainer \<Rightarrow> pc" where
  "ensure_load c =
     (if c_atomic_state c = ATOMIC_RUNNING then E_Done (Inr ())
      else if c_atomic_state c = ATOMIC_ERROR then E_Check
      else if c_atomic_state c = ATOMIC_STOPPED then E_Done (Inl stopped_message)
      else E_Check)"

definition ensure_check :: "ServiceContainer \<Rightarrow> pc" where
  "ensure_check c =
     (case c_state c of
        Running \<Rightarrow> E_Done (Inr ())
      | Error msg \<Rightarrow> E_Done (Inl (''Service in error state: '' @ msg))
      | Stopped \<Rightarrow> E_Done (Inl stopped_message)
      | _ \<Rightarrow> E_Count)"

text \<open>
  One step of task \<open>i\<close> at a given counter: the container and the next counter, or \<^term>\<open>None\<close> when the
  task waits for the init lock or has nothing left to do. Returning releases the lock.
\<close>

fun task_step :: "provider_answer \<Rightarrow> nat \<Rightarrow> pc \<Rightarrow> ServiceContainer \<Rightarrow> (ServiceContainer \<times> pc) option" where
  "task_step a i E_Load c = Some (c, ensure_load c)"
| "task_step a i E_Check c = Some (c, ensure_check c)"
| "task_step a i E_Count c = Some (c\<lparr>c_startup_wait_count := c_startup_wait_count c + 1\<rparr>, E_Lock)"
| "task_step a i E_Lock c = (if c_init_lock c = None then Some (c\<lparr>c_init_lock := Some i\<rparr>, E_Recheck) else None)"
| "task_step a i E_Recheck c =
     (if c_state c = Running then Some (c\<lparr>c_init_lock := None\<rparr>, E_Done (Inr ())) else Some (c, E_Begin))"
| "task_step a i E_Begin c = Some (c\<lparr>c_state := Starting, c_atomic_state := ATOMIC_STARTING\<rparr>, E_Attempt)"
| "task_step a i E_Attempt c = Some (c\<lparr>c_startup_attempts := c_startup_attempts c + 1\<rparr>, E_Start)"
| "task_step a i E_Start c =
     (case a of
        (Inr _, ms) \<Rightarrow> Some (c\<lparr>c_last_startup_duration_ms := ms\<rparr>, E_Set_Running)
      | (Inl e, _) \<Rightarrow> Some (c, E_Set_Error e))"
| "task_step a i E_Set_Running c = Some (c\<lparr>c_state := Running\<rparr>, E_Store_Running)"
| "task_step a i E_Store_Running c =
     Some (c\<lparr>c_atomic_state := ATOMIC_RUNNING, c_init_lock := None\<rparr>, E_Done (Inr ()))"
| "task_step a i (E_Set_Error msg) c = Some (c\<lparr>c_state := Error msg\<rparr>, E_Store_Error msg)"
| "task_step a i (E_Store_Error msg) c =
     Some (c\<lparr>c_atomic_state := ATOMIC_ERROR, c_init_lock := None\<rparr>, E_Done (Inl msg))"
| "task_step a i S_Stopping c = Some (c\<lparr>c_state := Stopping, c_atomic_state := ATOMIC_STOPPING\<rparr>, S_Stop)"
| "task_step a i S_Stop c =
     (case a of
        (Inr _, _) \<Rightarrow> Some (c, S_Stopped)
      | (Inl e, _) \<Rightarrow> Some (c, S_Done (Inl e)))"
| "task_step a i S_Stopped c =
     Some (c\<lparr>c_state := Stopped, c_atomic_state := ATOMIC_STOPPED\<rparr>, S_Done (Inr ()))"
| "task_step a i (E_Done r) c = None"
| "task_step a i (S_Done r) c = None"
| "task_step a i Dropped c = None"

text \<open>The counters that hold the init lock, and those at which the call is suspended at an \<^verbatim>\<open>await\<close>.\<close>

fun critical :: "pc \<Rightarrow> bool" where
  "critical E_Recheck = True"
| "critical E_Begin = True"
| "critical E_Attempt = True"
| "critical E_Start = True"
| "critical E_Set_Running = True"
| "critical E_Store_Running = True"
| "critical (E_Set_Error _) = True"
| "critical (E_Store_Error _) = True"
| "critical _ = False"

fun awaiting :: "pc \<Rightarrow> bool" where
  "awaiting E_Check = True"
| "awaiting E_Lock = True"
| "awaiting E_Recheck = True"
| "awaiting E_Begin = True"
| "awaiting E_Start = True"
| "awaiting E_Set_Running = True"
| "awaiting (E_Set_Error _) = True"
| "awaiting S_Stopping = True"
| "awaiting S_Stop = True"
| "awaiting S_Stopped = True"
| "awaiting _ = False"

definition drop_task :: "pc \<Rightarrow> ServiceContainer \<Rightarrow> ServiceContainer" where
  "drop_task p c = (if critical p then c\<lparr>c_init_lock := None\<rparr> else c)"

section \<open>Interleavings\<close>

text \<open>
  A container with the calls made to it so far. The field \<open>sys_started\<close> counts the calls of the
  provider's \<^verbatim>\<open>start\<close> that succeeded; no definition of the code reads it.
\<close>

record system =
  sys_container :: ServiceContainer
  sys_tasks :: "pc list"
  sys_started :: nat

definition system_new :: system where
  "system_new = \<lparr>sys_container = ServiceContainer_new, sys_tasks = [], sys_started = 0\<rparr>"

datatype event = Call_Ensure | Call_Stop | Step nat provider_answer | Drop nat

definition start_succeeds :: "pc \<Rightarrow> provider_answer \<Rightarrow> bool" where
  "start_succeeds p a \<longleftrightarrow> p = E_Start \<and> (case fst a of Inr _ \<Rightarrow> True | Inl _ \<Rightarrow> False)"

fun exec_event :: "event \<Rightarrow> system \<Rightarrow> system option" where
  "exec_event Call_Ensure s = Some (s\<lparr>sys_tasks := sys_tasks s @ [E_Load]\<rparr>)"
| "exec_event Call_Stop s = Some (s\<lparr>sys_tasks := sys_tasks s @ [S_Stopping]\<rparr>)"
| "exec_event (Step i a) s =
     (if i < length (sys_tasks s)
      then (case task_step a i (sys_tasks s ! i) (sys_container s) of
              None \<Rightarrow> None
            | Some (c, p) \<Rightarrow>
                Some (s\<lparr>sys_container := c, sys_tasks := (sys_tasks s)[i := p],
                        sys_started := (if start_succeeds (sys_tasks s ! i) a then sys_started s + 1
                                        else sys_started s)\<rparr>))
      else None)"
| "exec_event (Drop i) s =
     (if i < length (sys_tasks s) \<and> awaiting (sys_tasks s ! i)
      then Some (s\<lparr>sys_container := drop_task (sys_tasks s ! i) (sys_container s),
                   sys_tasks := (sys_tasks s)[i := Dropped]\<rparr>)
      else None)"

fun exec_events :: "event list \<Rightarrow> system \<Rightarrow> system option" where
  "exec_events [] s = Some s"
| "exec_events (e # es) s = Option.bind (exec_event e s) (exec_events es)"

inductive system_step :: "system \<Rightarrow> system \<Rightarrow> bool" where
  "exec_event e s = Some t \<Longrightarrow> system_step s t"

end
