(* ===== verification/Container_Runs.thy ===== *)
theory Container_Runs
  imports Service_Container
begin

text \<open>
  What holds of a service container under every interleaving of calls, every answer of the
  provider and every cancellation: the invariants are interpretations of the locale
  \<open>invariant_machine\<close>, once for all runs and once for the runs in which nobody stops the service.
\<close>

section \<open>Invariants of all runs\<close>

definition lock_ok :: "system \<Rightarrow> bool" where
  "lock_ok s \<longleftrightarrow>
     (\<forall>i < length (sys_tasks s). critical (sys_tasks s ! i) \<longleftrightarrow> c_init_lock (sys_container s) = Some i) \<and>
     (\<forall>i. c_init_lock (sys_container s) = Some i \<longrightarrow> i < length (sys_tasks s))"

definition ready_pcs :: "pc set" where
  "ready_pcs = {E_Set_Running, E_Store_Running, E_Done (Inr ())}"

definition ready_ok :: "system \<Rightarrow> bool" where
  "ready_ok s \<longleftrightarrow>
     (sys_started s = 0 \<longrightarrow>
        c_state (sys_container s) \<noteq> Running \<and> c_atomic_state (sys_container s) \<noteq> ATOMIC_RUNNING \<and>
        set (sys_tasks s) \<inter> ready_pcs = {})"

text \<open>What one task step does to the lock.\<close>

lemma task_step_lock:
  assumes "task_step a i p c = Some (c', p')"
  shows "(c_init_lock c' = c_init_lock c \<and> critical p' = critical p) \<or>
         (c_init_lock c = None \<and> c_init_lock c' = Some i \<and> \<not> critical p \<and> critical p') \<or>
         (critical p \<and> \<not> critical p' \<and> c_init_lock c' = None)"
  using assms
  by (cases p) (auto simp: ensure_load_def ensure_check_def split: if_splits ServiceState.splits prod.splits sum.splits)

lemma task_step_ready:
  assumes "task_step a i p c = Some (c', p')" "\<not> start_succeeds p a"
    and "c_state c \<noteq> Running" "c_atomic_state c \<noteq> ATOMIC_RUNNING" "p \<notin> ready_pcs"
  shows "c_state c' \<noteq> Running \<and> c_atomic_state c' \<noteq> ATOMIC_RUNNING \<and> p' \<notin> ready_pcs"
  using assms
  by (cases p)
    (auto simp: ensure_load_def ensure_check_def start_succeeds_def ready_pcs_def atomic_defs
      split: if_splits ServiceState.splits prod.splits sum.splits)

lemma exec_step_cases:
  assumes "exec_event (Step i a) s = Some t"
  obtains c p where "i < length (sys_tasks s)" "task_step a i (sys_tasks s ! i) (sys_container s) = Some (c, p)"
    "sys_container t = c" "sys_tasks t = (sys_tasks s)[i := p]"
    "sys_started t = (if start_succeeds (sys_tasks s ! i) a then sys_started s + 1 else sys_started s)"
  using assms by (auto split: if_splits option.splits prod.splits)

lemma exec_drop_cases:
  assumes "exec_event (Drop i) s = Some t"
  obtains "i < length (sys_tasks s)" "awaiting (sys_tasks s ! i)"
    "sys_container t = drop_task (sys_tasks s ! i) (sys_container s)"
    "sys_tasks t = (sys_tasks s)[i := Dropped]" "sys_started t = sys_started s"
  using assms by (auto split: if_splits)

lemma lock_ok_step:
  assumes "exec_event (Step i a) s = Some t" "lock_ok s"
  shows "lock_ok t"
  using assms(1)
proof (cases rule: exec_step_cases)
  case (1 c p)
  then show ?thesis using assms(2) task_step_lock [OF 1(2)]
    unfolding lock_ok_def by (auto simp: nth_list_update)
qed

lemma lock_ok_drop:
  assumes "exec_event (Drop i) s = Some t" "lock_ok s"
  shows "lock_ok t"
  using assms(1)
proof (cases rule: exec_drop_cases)
  case 1
  then show ?thesis using assms(2)
    unfolding lock_ok_def drop_task_def by (auto simp: nth_list_update split: if_splits)
qed

lemma lock_ok_event: "exec_event e s = Some t \<Longrightarrow> lock_ok s \<Longrightarrow> lock_ok t"
proof (cases e)
  case Call_Ensure
  then show "exec_event e s = Some t \<Longrightarrow> lock_ok s \<Longrightarrow> lock_ok t"
    by (fastforce simp: lock_ok_def nth_append less_Suc_eq)
next
  case Call_Stop
  then show "exec_event e s = Some t \<Longrightarrow> lock_ok s \<Longrightarrow> lock_ok t"
    by (fastforce simp: lock_ok_def nth_append less_Suc_eq)
qed (auto intro: lock_ok_step lock_ok_drop simp del: exec_event.simps)

lemma set_update_disjoint: "set xs \<inter> A = {} \<Longrightarrow> x \<notin> A \<Longrightarrow> set (xs[i := x]) \<inter> A = {}"
  using set_update_subset_insert [of xs i x] by blast

lemma ready_ok_step:
  assumes "exec_event (Step i a) s = Some t" "ready_ok s"
  shows "ready_ok t"
  using assms(1)
proof (cases rule: exec_step_cases)
  case (1 c p)
  then have "sys_tasks s ! i \<in> set (sys_tasks s)" by simp
  then have "sys_tasks s ! i \<notin> ready_pcs" if "sys_started s = 0"
    using assms(2) that unfolding ready_ok_def by blast
  with 1 show ?thesis using assms(2) task_step_ready [OF 1(2)]
    unfolding ready_ok_def by (auto intro!: set_update_disjoint split: if_splits)
qed

lemma ready_ok_drop:
  assumes "exec_event (Drop i) s = Some t" "ready_ok s"
  shows "ready_ok t"
  using assms(1)
proof (cases rule: exec_drop_cases)
  case 1
  moreover have "Dropped \<notin> ready_pcs" by (simp add: ready_pcs_def)
  ultimately show ?thesis using assms(2)
    unfolding ready_ok_def drop_task_def by (simp add: set_update_disjoint)
qed

lemma ready_ok_call:
  "exec_event Call_Ensure s = Some t \<or> exec_event Call_Stop s = Some t \<Longrightarrow> ready_ok s \<Longrightarrow> ready_ok t"
  by (auto simp: ready_ok_def ready_pcs_def)

lemma ready_ok_event: "exec_event e s = Some t \<Longrightarrow> ready_ok s \<Longrightarrow> ready_ok t"
  using ready_ok_call ready_ok_step ready_ok_drop by (cases e) blast+

interpretation all_runs: invariant_machine "\<lambda>s. s = system_new" system_step "\<lambda>s. lock_ok s \<and> ready_ok s"
proof (unfold_locales, goal_cases)
  case (1 s)
  then show ?case
    by (simp add: lock_ok_def ready_ok_def system_new_def ServiceContainer_new_def atomic_defs)
next
  case (2 s t)
  then show ?case by (auto elim!: system_step.cases intro: lock_ok_event ready_ok_event)
qed

lemma exec_events_steps: "exec_events es s = Some t \<Longrightarrow> system_step\<^sup>*\<^sup>* s t"
proof (induction es arbitrary: s)
  case (Cons e es)
  then obtain u where "exec_event e s = Some u" "exec_events es u = Some t"
    by (auto split: bind_splits)
  with Cons.IH [of u] show ?case by (meson converse_rtranclp_into_rtranclp system_step.intros)
qed simp

lemmas reachable_ok = all_runs.reachable_inv [OF refl exec_events_steps]

section \<open>Every call returns\<close>

text \<open>The steps a call still has to take, at most.\<close>

fun task_rank :: "pc \<Rightarrow> nat" where
  "task_rank E_Load = 10"
| "task_rank E_Check = 9"
| "task_rank E_Count = 8"
| "task_rank E_Lock = 7"
| "task_rank E_Recheck = 6"
| "task_rank E_Begin = 5"
| "task_rank E_Attempt = 4"
| "task_rank E_Start = 3"
| "task_rank E_Set_Running = 2"
| "task_rank (E_Set_Error _) = 2"
| "task_rank E_Store_Running = 1"
| "task_rank (E_Store_Error _) = 1"
| "task_rank S_Stopping = 3"
| "task_rank S_Stop = 2"
| "task_rank S_Stopped = 1"
| "task_rank (E_Done _) = 0"
| "task_rank (S_Done _) = 0"
| "task_rank Dropped = 0"

definition system_rank :: "system \<Rightarrow> nat" where
  "system_rank s = sum_list (map task_rank (sys_tasks s))"

definition finished :: "pc \<Rightarrow> bool" where
  "finished p \<longleftrightarrow> task_rank p = 0"

definition is_call :: "event \<Rightarrow> bool" where
  "is_call e \<longleftrightarrow> e = Call_Ensure \<or> e = Call_Stop"

lemma task_rank_le: "task_rank p \<le> 10"
  by (cases p) auto

lemma system_rank_le: "system_rank s \<le> 10 * length (sys_tasks s)"
  using sum_list_mono [of "sys_tasks s" task_rank "\<lambda>_. 10"] task_rank_le
  by (simp add: system_rank_def sum_list_triv)

lemma task_step_rank: "task_step a i p c = Some (c', p') \<Longrightarrow> task_rank p' < task_rank p"
  by (cases p) (auto simp: ensure_load_def ensure_check_def split: if_splits ServiceState.splits prod.splits sum.splits)

lemma awaiting_rank: "awaiting p \<Longrightarrow> 0 < task_rank p"
  by (cases p) auto

lemma sum_list_update_less:
  fixes f :: "'a \<Rightarrow> nat"
  assumes "i < length xs" "f x < f (xs ! i)"
  shows "sum_list (map f (xs[i := x])) < sum_list (map f xs)"
proof -
  have "sum_list (map f xs) = sum_list (map f (take i xs)) + f (xs ! i) + sum_list (map f (drop (Suc i) xs))"
    using id_take_nth_drop [OF assms(1)] by (metis append_Cons map_append list.simps(9) sum_list.Cons sum_list.append add.assoc)
  then show ?thesis using assms by (simp add: upd_conv_take_nth_drop)
qed

lemma event_rank:
  assumes "exec_event e s = Some t" "\<not> is_call e"
  shows "system_rank t < system_rank s"
proof (cases e)
  case (Step i a)
  with assms(1) have "exec_event (Step i a) s = Some t" by simp
  then show ?thesis
    by (cases rule: exec_step_cases)
      (auto simp: system_rank_def intro!: sum_list_update_less elim: task_step_rank)
next
  case (Drop i)
  with assms(1) have "exec_event (Drop i) s = Some t" by simp
  then show ?thesis
    by (cases rule: exec_drop_cases)
      (use awaiting_rank in \<open>auto simp: system_rank_def intro!: sum_list_update_less\<close>)
qed (use assms in \<open>auto simp: is_call_def\<close>)

lemma events_rank:
  "exec_events es s = Some t \<Longrightarrow> \<forall>e \<in> set es. \<not> is_call e \<Longrightarrow> system_rank t + length es \<le> system_rank s"
proof (induction es arbitrary: s)
  case (Cons e es)
  then obtain u where u: "exec_event e s = Some u" "exec_events es u = Some t"
    by (auto split: bind_splits)
  then show ?case using Cons.IH [OF u(2)] event_rank [OF u(1)] Cons.prems by simp
qed simp

lemma task_step_enabled:
  "\<not> finished p \<Longrightarrow> p = E_Lock \<longrightarrow> c_init_lock c = None \<Longrightarrow> task_step a i p c \<noteq> None"
  by (cases p) (auto simp: finished_def split: prod.splits sum.splits)

lemma critical_not_finished: "critical p \<Longrightarrow> \<not> finished p \<and> p \<noteq> E_Lock"
  by (cases p) (auto simp: finished_def)

text \<open>When a task waits for the lock, the holder can go on.\<close>

lemma some_task_enabled:
  assumes "lock_ok s" "p \<in> set (sys_tasks s)" "\<not> finished p"
  shows "\<exists>i. \<forall>a. exec_event (Step i a) s \<noteq> None"
proof -
  obtain i where i: "i < length (sys_tasks s)" "sys_tasks s ! i = p"
    using assms(2) by (auto simp: in_set_conv_nth)
  obtain j where "j < length (sys_tasks s)" "\<not> finished (sys_tasks s ! j)"
    "sys_tasks s ! j = E_Lock \<longrightarrow> c_init_lock (sys_container s) = None"
  proof (cases "c_init_lock (sys_container s)")
    case None
    then show ?thesis using that i assms(3) by auto
  next
    case (Some k)
    with assms(1) have "k < length (sys_tasks s)" "critical (sys_tasks s ! k)" by (auto simp: lock_ok_def)
    then show ?thesis using that critical_not_finished by blast
  qed
  then have "exec_event (Step j a) s \<noteq> None" for a
    using task_step_enabled [of "sys_tasks s ! j" "sys_container s" a j] by auto
  then show ?thesis by blast
qed

section \<open>Runs in which nobody stops the service\<close>

text \<open>The counter of the task that holds the init lock, \<^term>\<open>Dropped\<close> when it is free.\<close>

definition lock_pc :: "system \<Rightarrow> pc" where
  "lock_pc s = (case c_init_lock (sys_container s) of None \<Rightarrow> Dropped | Some i \<Rightarrow> sys_tasks s ! i)"

lemma lock_pc_inside:
  assumes "exec_event (Step i a) s = Some t" "lock_ok s" "critical (sys_tasks s ! i)"
  shows "lock_pc s = sys_tasks s ! i"
    and "lock_pc t = (if critical (sys_tasks t ! i) then sys_tasks t ! i else Dropped)"
proof -
  from assms(1) obtain c p where *: "i < length (sys_tasks s)"
    "task_step a i (sys_tasks s ! i) (sys_container s) = Some (c, p)"
    "sys_container t = c" "sys_tasks t = (sys_tasks s)[i := p]" by (rule exec_step_cases)
  with assms(2,3) have l: "c_init_lock (sys_container s) = Some i" by (simp add: lock_ok_def)
  then show "lock_pc s = sys_tasks s ! i" by (simp add: lock_pc_def)
  show "lock_pc t = (if critical (sys_tasks t ! i) then sys_tasks t ! i else Dropped)"
    using * l assms(3) task_step_lock [OF *(2)] by (auto simp: lock_pc_def)
qed

lemma lock_pc_outside:
  assumes "exec_event (Step i a) s = Some t" "lock_ok s" "\<not> critical (sys_tasks s ! i)"
  shows "lock_pc t = (if critical (sys_tasks t ! i) then sys_tasks t ! i else lock_pc s)"
    and "critical (sys_tasks t ! i) \<Longrightarrow> lock_pc s = Dropped"
proof -
  from assms(1) obtain c p where *: "i < length (sys_tasks s)"
    "task_step a i (sys_tasks s ! i) (sys_container s) = Some (c, p)"
    "sys_container t = c" "sys_tasks t = (sys_tasks s)[i := p]" by (rule exec_step_cases)
  with assms(2,3) have l: "c_init_lock (sys_container s) \<noteq> Some i" by (simp add: lock_ok_def)
  show "lock_pc t = (if critical (sys_tasks t ! i) then sys_tasks t ! i else lock_pc s)"
    using * l assms(3) task_step_lock [OF *(2)] by (auto simp: lock_pc_def split: option.splits)
  show "critical (sys_tasks t ! i) \<Longrightarrow> lock_pc s = Dropped"
    using * assms(3) task_step_lock [OF *(2)] by (auto simp: lock_pc_def)
qed

lemma lock_pc_drop:
  assumes "exec_event (Drop i) s = Some t" "lock_ok s"
  shows "if critical (sys_tasks s ! i) then lock_pc s = sys_tasks s ! i \<and> lock_pc t = Dropped
         else lock_pc t = lock_pc s"
  using assms(1)
proof (cases rule: exec_drop_cases)
  case 1
  then have "c_init_lock (sys_container s) = Some i \<longleftrightarrow> critical (sys_tasks s ! i)"
    using assms(2) by (auto simp: lock_ok_def)
  with 1 show ?thesis by (auto simp: lock_pc_def drop_task_def split: option.splits)
qed

lemma lock_pc_call:
  "lock_ok s \<Longrightarrow> lock_pc (s\<lparr>sys_tasks := sys_tasks s @ [p]\<rparr>) = lock_pc s"
  by (auto simp: lock_pc_def lock_ok_def nth_append split: option.splits)

text \<open>
  The shape of a container by the counter of the lock's holder: while the lock is free the mirror
  agrees with the state, and the holder's own writes are the only exception.
\<close>

fun stopping :: "pc \<Rightarrow> bool" where
  "stopping S_Stopping = True"
| "stopping S_Stop = True"
| "stopping S_Stopped = True"
| "stopping (S_Done _) = True"
| "stopping _ = False"

fun holder_mirror :: "pc \<Rightarrow> ServiceContainer \<Rightarrow> bool" where
  "holder_mirror E_Begin c \<longleftrightarrow> c_atomic_state c = to_u8 (c_state c) \<and> c_state c \<noteq> Running"
| "holder_mirror E_Attempt c \<longleftrightarrow> c_state c = Starting \<and> c_atomic_state c = ATOMIC_STARTING"
| "holder_mirror E_Start c \<longleftrightarrow> c_state c = Starting \<and> c_atomic_state c = ATOMIC_STARTING"
| "holder_mirror E_Set_Running c \<longleftrightarrow> c_state c = Starting \<and> c_atomic_state c = ATOMIC_STARTING"
| "holder_mirror (E_Set_Error m) c \<longleftrightarrow> c_state c = Starting \<and> c_atomic_state c = ATOMIC_STARTING"
| "holder_mirror E_Store_Running c \<longleftrightarrow> c_state c = Running"
| "holder_mirror (E_Store_Error m) c \<longleftrightarrow> c_state c = Error m"
| "holder_mirror _ c \<longleftrightarrow> c_atomic_state c = to_u8 (c_state c)"

fun holder_count :: "pc \<Rightarrow> ServiceContainer \<Rightarrow> nat" where
  "holder_count E_Set_Running c = 1"
| "holder_count _ c = (if c_state c = Running then 1 else 0)"

fun holder_attempts :: "pc \<Rightarrow> ServiceContainer \<Rightarrow> u64" where
  "holder_attempts E_Start c = 1"
| "holder_attempts E_Set_Running c = 1"
| "holder_attempts _ c = (if c_state c = Running then 1 else 0)"

lemma step_outside:
  assumes "task_step a i p c = Some (c', p')" "\<not> critical p" "\<not> stopping p"
  shows "c_state c' = c_state c" "c_atomic_state c' = c_atomic_state c"
    "c_startup_attempts c' = c_startup_attempts c" "\<not> stopping p'" "\<not> start_succeeds p a"
    "critical p' \<Longrightarrow> p' = E_Recheck"
  using assms
  by (cases p; auto simp: ensure_load_def ensure_check_def start_succeeds_def split: if_splits ServiceState.splits)+

lemma step_inside:
  assumes "task_step a i p c = Some (c', p')" "critical p" "holder_mirror p c"
  shows "\<not> stopping p'" "critical p' \<Longrightarrow> holder_mirror p' c'"
    "\<not> critical p' \<Longrightarrow> c_atomic_state c' = to_u8 (c_state c')"
    "holder_count (if critical p' then p' else Dropped) c' =
       holder_count p c + (if start_succeeds p a then 1 else 0)"
  using assms
  by (cases p; auto simp: atomic_defs start_succeeds_def split: if_splits prod.splits sum.splits)+

lemma holder_mirror_cong:
  "c_state c' = c_state c \<Longrightarrow> c_atomic_state c' = c_atomic_state c \<Longrightarrow> holder_mirror p c' = holder_mirror p c"
  by (cases p) auto

lemma holder_count_cong: "c_state c' = c_state c \<Longrightarrow> holder_count p c' = holder_count p c"
  by (cases p) auto

definition mirror_ok :: "system \<Rightarrow> bool" where
  "mirror_ok s \<longleftrightarrow> lock_ok s \<and> (\<forall>p \<in> set (sys_tasks s). \<not> stopping p) \<and> holder_mirror (lock_pc s) (sys_container s)"

lemma not_stopping_update:
  "\<forall>p \<in> set xs. \<not> stopping p \<Longrightarrow> \<not> stopping q \<Longrightarrow> \<forall>p \<in> set (xs[i := q]). \<not> stopping p"
  using set_update_subset_insert [of xs i q] by blast

lemma mirror_ok_step:
  assumes "exec_event (Step i a) s = Some t" "mirror_ok s"
  shows "mirror_ok t"
  using assms(1)
proof (cases rule: exec_step_cases)
  case (1 c p)
  have ok: "lock_ok s" "\<forall>p \<in> set (sys_tasks s). \<not> stopping p" "holder_mirror (lock_pc s) (sys_container s)"
    using assms(2) by (simp_all add: mirror_ok_def)
  note l = lock_ok_event [OF assms(1) ok(1)]
  have q: "\<not> stopping (sys_tasks s ! i)" using ok(2) 1(1) by simp
  have t: "sys_tasks t ! i = p" using 1 by simp
  show ?thesis
  proof (cases "critical (sys_tasks s ! i)")
    case True
    note pc = lock_pc_inside [OF assms(1) ok(1) True]
    note st = step_inside [OF 1(2) True ok(3) [unfolded pc(1)]]
    show ?thesis using st(2,3) l not_stopping_update [OF ok(2) st(1)] 1 pc(2) t by (simp add: mirror_ok_def)
  next
    case False
    note pc = lock_pc_outside [OF assms(1) ok(1) False]
    note st = step_outside [OF 1(2) False q]
    show ?thesis
      using st(1,2,6) l not_stopping_update [OF ok(2) st(4)] 1 pc t ok(3)
        holder_mirror_cong [OF st(1,2), of "lock_pc s"]
      by (auto simp: mirror_ok_def split: if_splits)
  qed
qed

lemma mirror_ok_drop:
  assumes "exec_event (Drop i) s = Some t" "mirror_ok s"
  shows "mirror_ok t"
  using assms(1)
proof (cases rule: exec_drop_cases)
  case 1
  have ok: "lock_ok s" "\<forall>p \<in> set (sys_tasks s). \<not> stopping p" "holder_mirror (lock_pc s) (sys_container s)"
    using assms(2) by (simp_all add: mirror_ok_def)
  note l = lock_ok_event [OF assms(1) ok(1)]
  have d: "holder_mirror q c \<Longrightarrow> awaiting q \<Longrightarrow> critical q \<Longrightarrow> c_atomic_state c = to_u8 (c_state c)" for q c
    by (cases q) (auto simp: atomic_defs)
  show ?thesis
    using lock_pc_drop [OF assms(1) ok(1)] 1 l ok not_stopping_update [OF ok(2), of Dropped i]
      d [of "sys_tasks s ! i" "sys_container s"]
    by (auto simp: mirror_ok_def drop_task_def split: if_splits)
qed

lemma mirror_ok_call: "exec_event Call_Ensure s = Some t \<Longrightarrow> mirror_ok s \<Longrightarrow> mirror_ok t"
  using lock_ok_event [of Call_Ensure s t] lock_pc_call [of s E_Load] by (auto simp: mirror_ok_def)

lemma mirror_ok_event: "exec_event e s = Some t \<Longrightarrow> e \<noteq> Call_Stop \<Longrightarrow> mirror_ok s \<Longrightarrow> mirror_ok t"
  using mirror_ok_call mirror_ok_step mirror_ok_drop by (cases e) blast+

inductive unstopped_step :: "system \<Rightarrow> system \<Rightarrow> bool" where
  "exec_event e s = Some t \<Longrightarrow> e \<noteq> Call_Stop \<Longrightarrow> unstopped_step s t"

interpretation unstopped: invariant_machine "\<lambda>s. s = system_new" unstopped_step mirror_ok
proof (unfold_locales, goal_cases)
  case (1 s)
  then show ?case
    by (simp add: mirror_ok_def lock_ok_def lock_pc_def system_new_def ServiceContainer_new_def atomic_defs)
next
  case (2 s t)
  then show ?case by (auto elim!: unstopped_step.cases intro: mirror_ok_event)
qed

section \<open>Runs without stops and cancellations\<close>

definition once_ok :: "system \<Rightarrow> bool" where
  "once_ok s \<longleftrightarrow> mirror_ok s \<and> sys_started s = holder_count (lock_pc s) (sys_container s)"

lemma once_ok_step:
  assumes "exec_event (Step i a) s = Some t" "once_ok s"
  shows "once_ok t"
  using assms(1)
proof (cases rule: exec_step_cases)
  case (1 c p)
  have ok: "lock_ok s" "\<forall>p \<in> set (sys_tasks s). \<not> stopping p" "holder_mirror (lock_pc s) (sys_container s)"
    using assms(2) by (simp_all add: once_ok_def mirror_ok_def)
  have m: "mirror_ok t" using mirror_ok_step [OF assms(1)] assms(2) by (simp add: once_ok_def)
  have q: "\<not> stopping (sys_tasks s ! i)" using ok(2) 1(1) by simp
  have t: "sys_tasks t ! i = p" using 1 by simp
  show ?thesis
  proof (cases "critical (sys_tasks s ! i)")
    case True
    note pc = lock_pc_inside [OF assms(1) ok(1) True]
    show ?thesis
      using step_inside(4) [OF 1(2) True ok(3) [unfolded pc(1)]] assms(2) 1 pc t m
      by (auto simp: once_ok_def split: if_splits)
  next
    case False
    note pc = lock_pc_outside [OF assms(1) ok(1) False]
    note st = step_outside [OF 1(2) False q]
    show ?thesis
      using st(1,5,6) assms(2) 1 pc t m holder_count_cong [OF st(1), of "lock_pc s"]
      by (auto simp: once_ok_def split: if_splits)
  qed
qed

lemma once_ok_call: "exec_event Call_Ensure s = Some t \<Longrightarrow> once_ok s \<Longrightarrow> once_ok t"
  using mirror_ok_call [of s t] lock_pc_call [of s E_Load] by (auto simp: once_ok_def mirror_ok_def)

definition uninterrupted :: "event \<Rightarrow> bool" where
  "uninterrupted e \<longleftrightarrow> (case e of Call_Ensure \<Rightarrow> True | Step _ _ \<Rightarrow> True | _ \<Rightarrow> False)"

inductive uninterrupted_step :: "system \<Rightarrow> system \<Rightarrow> bool" where
  "exec_event e s = Some t \<Longrightarrow> uninterrupted e \<Longrightarrow> uninterrupted_step s t"

interpretation uninterrupted: invariant_machine "\<lambda>s. s = system_new" uninterrupted_step once_ok
proof (unfold_locales, goal_cases)
  case (1 s)
  then show ?case using unstopped.init_inv [OF 1]
    by (simp add: once_ok_def lock_pc_def system_new_def ServiceContainer_new_def)
next
  case (2 s t)
  then obtain e where e: "exec_event e s = Some t" "uninterrupted e" by (auto elim: uninterrupted_step.cases)
  with 2(1) show ?case
    by (cases e) (auto simp: uninterrupted_def intro: once_ok_step once_ok_call simp del: exec_event.simps)
qed

text \<open>When the provider's start never fails, it is called at most once and every call answers Ok.\<close>

fun failing :: "pc \<Rightarrow> bool" where
  "failing (E_Set_Error _) = True"
| "failing (E_Store_Error _) = True"
| "failing (E_Done (Inl _)) = True"
| "failing _ = False"

definition healthy :: "ServiceContainer \<Rightarrow> bool" where
  "healthy c \<longleftrightarrow> c_state c \<in> {Available, Starting, Running} \<and>
     c_atomic_state c \<in> {ATOMIC_AVAILABLE, ATOMIC_STARTING, ATOMIC_RUNNING}"

definition smooth_ok :: "system \<Rightarrow> bool" where
  "smooth_ok s \<longleftrightarrow> once_ok s \<and> healthy (sys_container s) \<and> (\<forall>p \<in> set (sys_tasks s). \<not> failing p) \<and>
     c_startup_attempts (sys_container s) = holder_attempts (lock_pc s) (sys_container s)"

lemma smooth_step:
  assumes "task_step a i p c = Some (c', p')" "healthy c" "\<not> failing p" "\<not> stopping p" "fst a = Inr ()"
  shows "healthy c'" "\<not> failing p'"
  using assms
  by (cases p; auto simp: healthy_def ensure_load_def ensure_check_def atomic_defs
        split: if_splits ServiceState.splits prod.splits sum.splits)+

lemma attempts_inside:
  assumes "task_step a i p c = Some (c', p')" "critical p" "holder_mirror p c" "\<not> failing p" "fst a = Inr ()"
    and "c_startup_attempts c = holder_attempts p c"
  shows "c_startup_attempts c' = holder_attempts (if critical p' then p' else Dropped) c'"
  using assms by (cases p) (auto simp: atomic_defs split: if_splits prod.splits sum.splits)

lemma holder_attempts_cong: "c_state c' = c_state c \<Longrightarrow> holder_attempts p c' = holder_attempts p c"
  by (cases p) auto

lemma not_failing_update:
  "\<forall>p \<in> set xs. \<not> failing p \<Longrightarrow> \<not> failing q \<Longrightarrow> \<forall>p \<in> set (xs[i := q]). \<not> failing p"
  using set_update_subset_insert [of xs i q] by blast

lemma smooth_ok_step:
  assumes "exec_event (Step i a) s = Some t" "smooth_ok s" "fst a = Inr ()"
  shows "smooth_ok t"
  using assms(1)
proof (cases rule: exec_step_cases)
  case (1 c p)
  have ok: "lock_ok s" "\<forall>p \<in> set (sys_tasks s). \<not> stopping p" "holder_mirror (lock_pc s) (sys_container s)"
    "\<forall>p \<in> set (sys_tasks s). \<not> failing p" "healthy (sys_container s)"
    using assms(2) by (simp_all add: smooth_ok_def once_ok_def mirror_ok_def)
  have m: "once_ok t" using once_ok_step [OF assms(1)] assms(2) by (simp add: smooth_ok_def)
  have q: "\<not> stopping (sys_tasks s ! i)" "\<not> failing (sys_tasks s ! i)" using ok(2,4) 1(1) by simp_all
  have t: "sys_tasks t ! i = p" using 1 by simp
  note h = smooth_step [OF 1(2) ok(5) q(2,1) assms(3)]
  have "c_startup_attempts c = holder_attempts (lock_pc t) c"
  proof (cases "critical (sys_tasks s ! i)")
    case True
    note pc = lock_pc_inside [OF assms(1) ok(1) True]
    show ?thesis
      using attempts_inside [OF 1(2) True ok(3) [unfolded pc(1)] q(2) assms(3)] assms(2) pc t
      by (simp add: smooth_ok_def)
  next
    case False
    note pc = lock_pc_outside [OF assms(1) ok(1) False]
    note st = step_outside [OF 1(2) False q(1)]
    show ?thesis
      using st(1,3,6) assms(2) pc t holder_attempts_cong [OF st(1), of "lock_pc s"]
      by (auto simp: smooth_ok_def split: if_splits)
  qed
  with m h not_failing_update [OF ok(4) h(2)] 1 show ?thesis by (simp add: smooth_ok_def)
qed

lemma smooth_ok_call: "exec_event Call_Ensure s = Some t \<Longrightarrow> smooth_ok s \<Longrightarrow> smooth_ok t"
  using once_ok_call [of s t] lock_pc_call [of s E_Load]
  by (auto simp: smooth_ok_def once_ok_def mirror_ok_def)

definition smooth :: "event \<Rightarrow> bool" where
  "smooth e \<longleftrightarrow> (case e of Call_Ensure \<Rightarrow> True | Step _ a \<Rightarrow> fst a = Inr () | _ \<Rightarrow> False)"

inductive smooth_step_rel :: "system \<Rightarrow> system \<Rightarrow> bool" where
  "exec_event e s = Some t \<Longrightarrow> smooth e \<Longrightarrow> smooth_step_rel s t"

interpretation smooth: invariant_machine "\<lambda>s. s = system_new" smooth_step_rel smooth_ok
proof (unfold_locales, goal_cases)
  case (1 s)
  then show ?case using uninterrupted.init_inv [OF 1]
    by (simp add: smooth_ok_def healthy_def lock_pc_def system_new_def ServiceContainer_new_def)
next
  case (2 s t)
  then obtain e where e: "exec_event e s = Some t" "smooth e" by (auto elim: smooth_step_rel.cases)
  with 2(1) show ?case
    by (cases e) (auto simp: smooth_def intro: smooth_ok_step smooth_ok_call simp del: exec_event.simps)
qed

lemma exec_events_smooth:
  "exec_events es s = Some t \<Longrightarrow> \<forall>e \<in> set es. smooth e \<Longrightarrow> smooth_step_rel\<^sup>*\<^sup>* s t"
proof (induction es arbitrary: s)
  case (Cons e es)
  then obtain u where "exec_event e s = Some u" "exec_events es u = Some t"
    by (auto split: bind_splits)
  with Cons show ?case by (meson converse_rtranclp_into_rtranclp smooth_step_rel.intros list.set_intros)
qed simp

lemma exec_events_uninterrupted:
  "exec_events es s = Some t \<Longrightarrow> \<forall>e \<in> set es. uninterrupted e \<Longrightarrow> uninterrupted_step\<^sup>*\<^sup>* s t"
proof (induction es arbitrary: s)
  case (Cons e es)
  then obtain u where "exec_event e s = Some u" "exec_events es u = Some t"
    by (auto split: bind_splits)
  with Cons show ?case by (meson converse_rtranclp_into_rtranclp uninterrupted_step.intros list.set_intros)
qed simp

lemma exec_events_unstopped:
  "exec_events es s = Some t \<Longrightarrow> Call_Stop \<notin> set es \<Longrightarrow> unstopped_step\<^sup>*\<^sup>* s t"
proof (induction es arbitrary: s)
  case (Cons e es)
  then obtain u where "exec_event e s = Some u" "exec_events es u = Some t" "e \<noteq> Call_Stop"
    by (auto split: bind_splits)
  moreover from this Cons have "unstopped_step\<^sup>*\<^sup>* u t" by simp
  ultimately show ?case by (meson converse_rtranclp_into_rtranclp unstopped_step.intros)
qed simp

section \<open>Properties\<close>

text \<open>C28: Whatever calls of ensure_running and stop interleave, whatever the provider answers and
  whichever calls are cancelled, at most one call is between taking and releasing the init lock, so
  no two run the provider's start at the same time; and a call of ensure_running answers Ok, or the
  service shows as running, only after a start that succeeded.\<close>

theorem container_start_exclusive:
  assumes "exec_events es system_new = Some s"
  shows "(\<forall>i < length (sys_tasks s). \<forall>j < length (sys_tasks s).
            critical (sys_tasks s ! i) \<and> critical (sys_tasks s ! j) \<longrightarrow> i = j) \<and>
         (E_Done (Inr ()) \<in> set (sys_tasks s) \<or> current_state (sys_container s) = Running \<or>
          c_atomic_state (sys_container s) = ATOMIC_RUNNING \<longrightarrow> sys_started s \<ge> 1)"
proof -
  have "lock_ok s" "ready_ok s" using reachable_ok [OF assms] by simp_all
  then show ?thesis
    by (auto simp: lock_ok_def ready_ok_def ready_pcs_def current_state_def)
qed


text \<open>As long as nobody stops the service, the atomic mirror agrees with the state whenever the init
  lock is free. If no call is cancelled either, the provider's start succeeds at most once; and if it
  never fails, it is called at most once and every call that returned answered Ok.\<close>

theorem container_starts_once:
  assumes "exec_events es system_new = Some s" "Call_Stop \<notin> set es"
  shows "(c_init_lock (sys_container s) = None \<longrightarrow>
            c_atomic_state (sys_container s) = to_u8 (current_state (sys_container s))) \<and>
         ((\<forall>e \<in> set es. uninterrupted e) \<longrightarrow> sys_started s \<le> 1) \<and>
         ((\<forall>e \<in> set es. smooth e) \<longrightarrow>
            m_startup_attempts (runtime_metrics (sys_container s)) \<le> 1 \<and>
            (\<forall>r. E_Done r \<in> set (sys_tasks s) \<longrightarrow> r = Inr ()))"
proof (intro conjI impI)
  assume l: "c_init_lock (sys_container s) = None"
  have "mirror_ok s" using unstopped.reachable_inv [OF refl exec_events_unstopped [OF assms]] .
  with l show "c_atomic_state (sys_container s) = to_u8 (current_state (sys_container s))"
    by (simp add: mirror_ok_def lock_pc_def current_state_def)
next
  assume u: "\<forall>e \<in> set es. uninterrupted e"
  have "once_ok s" using uninterrupted.reachable_inv [OF refl exec_events_uninterrupted [OF assms(1) u]] .
  then show "sys_started s \<le> 1"
    by (cases "lock_pc s") (auto simp: once_ok_def)
next
  assume u: "\<forall>e \<in> set es. smooth e"
  have ok: "smooth_ok s" using smooth.reachable_inv [OF refl exec_events_smooth [OF assms(1) u]] .
  then show "m_startup_attempts (runtime_metrics (sys_container s)) \<le> 1"
    by (cases "lock_pc s") (auto simp: smooth_ok_def runtime_metrics_def)
  have "\<forall>p \<in> set (sys_tasks s). \<not> failing p" using ok by (simp add: smooth_ok_def)
  then show "\<forall>r. E_Done r \<in> set (sys_tasks s) \<longrightarrow> r = Inr ()"
    by (metis failing.simps(3) old.sum.exhaust old.unit.exhaust)
qed

text \<open>A stop that runs between a starting call's two last writes ends with the state Stopped and the
  mirror Running: the next ensure_running answers Ok for a stopped service.\<close>

theorem stop_race_leaves_running:
  "let start = [Call_Ensure] @ replicate 9 (Step 0 (Inr (), 0));
       stop = [Call_Stop] @ replicate 3 (Step 1 (Inr (), 0));
       late = [Step 0 (Inr (), 0), Call_Ensure, Step 2 (Inr (), 0)]
   in case exec_events (start @ stop @ late) system_new of
        None \<Rightarrow> False
      | Some s \<Rightarrow>
          current_state (sys_container s) = Stopped \<and> c_atomic_state (sys_container s) = ATOMIC_RUNNING \<and>
          sys_tasks s = [E_Done (Inr ()), S_Done (Inr ()), E_Done (Inr ())]"
  by code_simp

definition demo_two_calls :: "event list" where
  "demo_two_calls = [Call_Ensure, Call_Ensure] @ replicate 4 (Step 0 (Inr (), 5)) @ replicate 3 (Step 1 (Inr (), 5))"

definition demo_two_state :: system where
  "demo_two_state = the (exec_events demo_two_calls system_new)"

lemma demo_two: "exec_events demo_two_calls system_new = Some demo_two_state"
  by code_simp

theorem container_start_exclusive_witness:
  "critical (sys_tasks demo_two_state ! 0) \<and> \<not> critical (sys_tasks demo_two_state ! 1)"
proof -
  have "critical (sys_tasks demo_two_state ! 0)" "length (sys_tasks demo_two_state) = 2" by code_simp+
  moreover from this have "critical (sys_tasks demo_two_state ! 1) \<longrightarrow> (0::nat) = 1"
    using container_start_exclusive [OF demo_two] by (metis one_less_numeral_iff semiring_norm(76) zero_less_numeral)
  ultimately show ?thesis by simp
qed


theorem container_starts_once_witness:
  "m_startup_attempts (runtime_metrics (sys_container demo_two_state)) \<le> 1 \<and> sys_started demo_two_state \<le> 1"
proof -
  have "Call_Stop \<notin> set demo_two_calls" "\<forall>e \<in> set demo_two_calls. uninterrupted e" "\<forall>e \<in> set demo_two_calls. smooth e"
    by code_simp+
  then show ?thesis using container_starts_once [OF demo_two] by simp
qed

end
