(* ===== verification/Service_Manager.thy ===== *)
theory Service_Manager
  imports Container_Runs
begin

text \<open>
  The registry of services, \<^verbatim>\<open>service-framework/src/manager.rs\<close>, and the trait of the providers it
  holds (\<^verbatim>\<open>traits.rs\<close>). A provider is a record of its methods over a state of type \<open>'s\<close>; a method
  that panics answers \<^term>\<open>None\<close>, since the release profile aborts the process. A request is served here
  without concurrent calls on its container; the interleavings of \<^verbatim>\<open>ensure_running\<close> itself are in
  \<open>Container_Runs\<close>.
\<close>

section \<open>Providers\<close>

record 's ServiceProvider =
  sp_service_name :: string
  sp_provider_name :: string
  sp_start :: "'s \<Rightarrow> (string + unit) \<times> 's"
  sp_stop :: "'s \<Rightarrow> (string + unit) \<times> 's"
  sp_check :: "'s \<Rightarrow> string + unit"
  sp_dispatch :: "RequestContext \<Rightarrow> 's \<Rightarrow> ((DispatchError + DispatchResponse) \<times> 's) option"
  sp_derive_operation :: "RequestContext \<Rightarrow> 's \<Rightarrow> string option"
  sp_storage_snapshot :: "'s \<Rightarrow> Value option"

text \<open>The methods a provider that overrides nothing has.\<close>

definition provider_defaults ::
  "string \<Rightarrow> (RequestContext \<Rightarrow> 's \<Rightarrow> ((DispatchError + DispatchResponse) \<times> 's) option) \<Rightarrow> 's ServiceProvider" where
  "provider_defaults name disp =
     \<lparr>sp_service_name = name, sp_provider_name = ''default'',
      sp_start = (\<lambda>s. (Inr (), s)), sp_stop = (\<lambda>s. (Inr (), s)), sp_check = (\<lambda>_. Inr ()),
      sp_dispatch = disp, sp_derive_operation = (\<lambda>_ _. None), sp_storage_snapshot = (\<lambda>_. None)\<rparr>"

section \<open>A call that runs alone\<close>

fun run_task :: "nat \<Rightarrow> provider_answer \<Rightarrow> pc \<Rightarrow> ServiceContainer \<Rightarrow> ServiceContainer \<times> pc" where
  "run_task 0 a p c = (c, p)"
| "run_task (Suc n) a p c =
     (case task_step a 0 p c of None \<Rightarrow> (c, p) | Some (c, p) \<Rightarrow> run_task n a p c)"

definition ensure_running :: "provider_answer \<Rightarrow> ServiceContainer \<Rightarrow> ServiceContainer \<times> pc" where
  "ensure_running a c = run_task (task_rank E_Load) a E_Load c"

definition stop :: "provider_answer \<Rightarrow> ServiceContainer \<Rightarrow> ServiceContainer \<times> pc" where
  "stop a c = run_task (task_rank S_Stopping) a S_Stopping c"

text \<open>Whether the call reaches the provider's start.\<close>

definition needs_start :: "ServiceContainer \<Rightarrow> bool" where
  "needs_start c \<longleftrightarrow> ensure_load c = E_Check \<and> ensure_check c = E_Count"

section \<open>The manager\<close>

type_synonym 's registered = "ServiceContainer \<times> 's ServiceProvider \<times> 's"

record 's ServicePluginManager =
  containers :: "(string, 's registered) hash_map"

definition manager_new :: "'s ServicePluginManager" where
  "manager_new = \<lparr>containers = []\<rparr>"

text \<open>
  \<^verbatim>\<open>register\<close> lower-cases with the Unicode table; the names are ASCII literals, on which both agree.
  An override of the provider in the configuration is only reported.
\<close>

definition register :: "string \<Rightarrow> 's ServiceProvider \<Rightarrow> 's \<Rightarrow> 's ServicePluginManager \<Rightarrow> 's ServicePluginManager" where
  "register service_name provider s m =
     m\<lparr>containers := hm_insert (to_ascii_lowercase service_name) (ServiceContainer_new, provider, s) (containers m)\<rparr>"

definition service_key :: "string \<Rightarrow> string" where
  "service_key svc =
     (if list_all (\<lambda>b. \<not> is_ascii_uppercase b) svc then svc else to_ascii_lowercase svc)"

definition manager_dispatch ::
  "u64 \<Rightarrow> RequestContext \<Rightarrow> 's ServicePluginManager \<Rightarrow> ((DispatchError + DispatchResponse) \<times> 's ServicePluginManager) option" where
  "manager_dispatch ms ctx m =
     (let key = service_key (ctx_service ctx);
          put = (\<lambda>r. m\<lparr>containers := hm_insert key r (containers m)\<rparr>)
      in case hm_get (containers m) key of
           None \<Rightarrow> Some (Inl (ServiceNotFound (ctx_service ctx)), m)
         | Some (c, p, s) \<Rightarrow>
             (let (answer, s) = (if needs_start c then sp_start p s else (Inr (), s));
                  (c, result) = ensure_running (answer, ms) c
              in case result of
                   E_Done (Inl e) \<Rightarrow> Some (Inl (ServiceUnavailable e), put (c, p, s))
                 | E_Done (Inr _) \<Rightarrow>
                     (case sp_dispatch p ctx s of
                        None \<Rightarrow> None
                      | Some (r, s) \<Rightarrow> Some (r, put (c, p, s)))
                 | _ \<Rightarrow> None))"

definition derive_operation :: "RequestContext \<Rightarrow> 's ServicePluginManager \<Rightarrow> string option" where
  "derive_operation ctx m =
     (case hm_get (containers m) (to_ascii_lowercase (ctx_service ctx)) of
        None \<Rightarrow> None
      | Some (c, p, s) \<Rightarrow> sp_derive_operation p ctx s)"

definition service_states :: "'s ServicePluginManager \<Rightarrow> (string \<times> ServiceState) list" where
  "service_states m = map (\<lambda>(name, c, p, s). (name, current_state c)) (containers m)"

definition start_registered :: "u64 \<Rightarrow> 's registered \<Rightarrow> 's registered" where
  "start_registered ms = (\<lambda>(c, p, s).
     let (answer, s) = (if needs_start c then sp_start p s else (Inr (), s))
     in (fst (ensure_running (answer, ms) c), p, s))"

definition start_all :: "u64 \<Rightarrow> 's ServicePluginManager \<Rightarrow> 's ServicePluginManager" where
  "start_all ms m = m\<lparr>containers := map_values (start_registered ms) (containers m)\<rparr>"

record ServiceManagerMetrics =
  mm_service :: string
  mm_state :: ServiceState
  mm_startup_attempts :: u64
  mm_startup_wait_count :: u64
  mm_last_startup_duration_ms :: u64

definition service_runtime_metrics :: "'s ServicePluginManager \<Rightarrow> ServiceManagerMetrics list" where
  "service_runtime_metrics m =
     map (\<lambda>(name, c, p, s).
       let runtime = runtime_metrics c
       in \<lparr>mm_service = name, mm_state = current_state c, mm_startup_attempts = m_startup_attempts runtime,
           mm_startup_wait_count = m_startup_wait_count runtime,
           mm_last_startup_duration_ms = m_last_startup_duration_ms runtime\<rparr>) (containers m)"

definition stop_registered :: "'s registered \<Rightarrow> 's registered" where
  "stop_registered = (\<lambda>(c, p, s). let (answer, s) = sp_stop p s in (fst (stop (answer, 0) c), p, s))"

definition stop_all :: "'s ServicePluginManager \<Rightarrow> 's ServicePluginManager" where
  "stop_all m = m\<lparr>containers := map_values stop_registered (containers m)\<rparr>"

definition storage_snapshots :: "'s ServicePluginManager \<Rightarrow> (string \<times> Value) list" where
  "storage_snapshots m =
     List.map_filter (\<lambda>(name, c, p, s). map_option (Pair name) (sp_storage_snapshot p s)) (containers m)"

definition dispatch_to ::
  "u64 \<Rightarrow> RequestContext \<Rightarrow> 's ServicePluginManager \<Rightarrow> ((DispatchError + DispatchResponse) \<times> 's ServicePluginManager) option" where
  "dispatch_to ms ctx m = manager_dispatch ms ctx m"

section \<open>A call that runs alone returns\<close>

lemma ensure_running_starts:
  assumes "needs_start c" "c_init_lock c = None"
  shows "ensure_running (Inr (), ms) c =
      (c\<lparr>c_startup_wait_count := c_startup_wait_count c + 1, c_startup_attempts := c_startup_attempts c + 1,
         c_last_startup_duration_ms := ms, c_state := Running, c_atomic_state := ATOMIC_RUNNING\<rparr>, E_Done (Inr ()))"
    and "ensure_running (Inl e, ms) c =
      (c\<lparr>c_startup_wait_count := c_startup_wait_count c + 1, c_startup_attempts := c_startup_attempts c + 1,
         c_state := Error e, c_atomic_state := ATOMIC_ERROR\<rparr>, E_Done (Inl e))"
proof -
  have "c_state c \<noteq> Running" "ensure_load c = E_Check" "ensure_check c = E_Count"
    using assms(1) by (auto simp: needs_start_def ensure_check_def)
  with assms(2) show "ensure_running (Inr (), ms) c =
      (c\<lparr>c_startup_wait_count := c_startup_wait_count c + 1, c_startup_attempts := c_startup_attempts c + 1,
         c_last_startup_duration_ms := ms, c_state := Running, c_atomic_state := ATOMIC_RUNNING\<rparr>, E_Done (Inr ()))"
    "ensure_running (Inl e, ms) c =
      (c\<lparr>c_startup_wait_count := c_startup_wait_count c + 1, c_startup_attempts := c_startup_attempts c + 1,
         c_state := Error e, c_atomic_state := ATOMIC_ERROR\<rparr>, E_Done (Inl e))"
    by (simp_all add: ensure_running_def numeral_eq_Suc)
qed

lemma ensure_running_settled:
  assumes "\<not> needs_start c"
  shows "\<exists>r. ensure_running a c = (c, E_Done r)"
proof (cases "ensure_load c = E_Check")
  case True
  with assms obtain r where "ensure_check c = E_Done r"
    by (auto simp: needs_start_def ensure_check_def split: ServiceState.splits)
  with True show ?thesis by (simp add: ensure_running_def numeral_eq_Suc)
next
  case False
  then obtain r where "ensure_load c = E_Done r" by (auto simp: ensure_load_def split: if_splits)
  then show ?thesis by (simp add: ensure_running_def numeral_eq_Suc)
qed

lemma ensure_running_lock:
  "c_init_lock c = None \<Longrightarrow> \<exists>r. snd (ensure_running a c) = E_Done r \<and> c_init_lock (fst (ensure_running a c)) = None"
proof (cases "needs_start c")
  case True
  assume "c_init_lock c = None"
  then show ?thesis
    using ensure_running_starts [OF True] by (cases a; cases "fst a") auto
next
  case False
  assume "c_init_lock c = None"
  then show ?thesis using ensure_running_settled [OF False, of a] by auto
qed

section \<open>Dispatch through the manager\<close>

lemma service_key_eq: "service_key svc = to_ascii_lowercase svc"
  by (auto simp: service_key_def to_ascii_lowercase_def list_all_iff intro!: map_idI [symmetric])

lemma manager_dispatch_other:
  assumes "manager_dispatch ms ctx m = Some (r, m')" "k \<noteq> service_key (ctx_service ctx)"
  shows "hm_get (containers m') k = hm_get (containers m) k"
  using assms
  by (auto simp: manager_dispatch_def Let_def update_conv'
      split: option.splits prod.splits pc.splits sum.splits if_splits)

definition idle_at :: "string \<Rightarrow> 's ServiceProvider \<Rightarrow> 's \<Rightarrow> 's ServicePluginManager \<Rightarrow> bool" where
  "idle_at k p s m \<longleftrightarrow> (\<exists>c. hm_get (containers m) k = Some (c, p, s) \<and> c_init_lock c = None)"

text \<open>
  What the manager relies on in a provider whose states satisfy an invariant: \<open>I n s\<close> says that \<open>s\<close> is
  a good state with a budget of \<open>n\<close> left, and \<open>cost\<close> bounds what a request takes from the budget.
\<close>

locale provider_invariant =
  fixes p :: "'s ServiceProvider" and I :: "nat \<Rightarrow> 's \<Rightarrow> bool" and cost :: "RequestContext \<Rightarrow> nat"
  assumes start_keeps: "I n s \<Longrightarrow> I n (snd (sp_start p s))"
    and dispatch_budget: "I (n + cost ctx) s \<Longrightarrow> sp_dispatch p ctx s = Some (r, s') \<Longrightarrow> I n s'"
    and budget: "I (n + k) s \<Longrightarrow> I n s"
begin

lemma manager_step_same:
  assumes "manager_dispatch ms ctx m = Some (r, m')" "idle_at (service_key (ctx_service ctx)) p s m"
    and "I (n + cost ctx) s"
  shows "\<exists>s'. idle_at (service_key (ctx_service ctx)) p s' m' \<and> I n s'"
proof -
  let ?k = "service_key (ctx_service ctx)"
  obtain c where c: "hm_get (containers m) ?k = Some (c, p, s)" "c_init_lock c = None"
    using assms(2) by (auto simp: idle_at_def)
  obtain ans s1 where d: "(ans, s1) = (if needs_start c then sp_start p s else (Inr (), s))"
    by (metis surj_pair)
  have i: "I (n + cost ctx) s1"
    using start_keeps [OF assms(3)] assms(3) d by (auto split: if_splits simp: prod_eq_iff)
  obtain c1 q where e: "ensure_running (ans, ms) c = (c1, E_Done q)" "c_init_lock c1 = None"
    using ensure_running_lock [OF c(2), of "(ans, ms)"] by (metis prod.collapse)
  show ?thesis
  proof (cases q)
    case (Inl x)
    then have "m' = m\<lparr>containers := hm_insert ?k (c1, p, s1) (containers m)\<rparr>"
      using assms(1) c d [symmetric] e by (simp add: manager_dispatch_def Let_def)
    then show ?thesis using e i budget by (auto simp: idle_at_def update_conv')
  next
    case (Inr x)
    then obtain s2 where "sp_dispatch p ctx s1 = Some (r, s2)"
      "m' = m\<lparr>containers := hm_insert ?k (c1, p, s2) (containers m)\<rparr>"
      using assms(1) c d [symmetric] e by (auto simp: manager_dispatch_def Let_def split: option.splits)
    then show ?thesis using dispatch_budget [OF i] e by (auto simp: idle_at_def update_conv')
  qed
qed

lemma manager_step:
  assumes "manager_dispatch ms ctx m = Some (r, m')" "idle_at k p s m" "I (n + cost ctx) s"
  shows "\<exists>s'. idle_at k p s' m' \<and> I n s'"
proof (cases "k = service_key (ctx_service ctx)")
  case True
  then show ?thesis using manager_step_same assms by blast
next
  case False
  then have "idle_at k p s m'" using manager_dispatch_other [OF assms(1) False] assms(2) by (simp add: idle_at_def)
  then show ?thesis using budget [OF assms(3)] by blast
qed

end

text \<open>A sequence of requests, each with the time its start would take.\<close>

fun manager_run :: "(u64 \<times> RequestContext) list \<Rightarrow> 's ServicePluginManager \<Rightarrow> 's ServicePluginManager option" where
  "manager_run [] m = Some m"
| "manager_run ((ms, ctx) # rest) m =
     (case manager_dispatch ms ctx m of None \<Rightarrow> None | Some (_, m) \<Rightarrow> manager_run rest m)"

context provider_invariant
begin

lemma manager_run_keeps:
  assumes "manager_run reqs m = Some m'" "idle_at k p s m" "I (sum_list (map (\<lambda>req. cost (snd req)) reqs)) s"
  shows "\<exists>s'. idle_at k p s' m' \<and> I 0 s'"
  using assms
proof (induction reqs arbitrary: m s)
  case Nil
  then show ?case by auto
next
  case (Cons req reqs)
  obtain ms ctx where req: "req = (ms, ctx)" by (cases req)
  then obtain r m1 where d: "manager_dispatch ms ctx m = Some (r, m1)" "manager_run reqs m1 = Some m'"
    using Cons.prems(1) by (auto split: option.splits)
  have "I (sum_list (map (\<lambda>req. cost (snd req)) reqs) + cost ctx) s"
    using Cons.prems(3) req by (simp add: add.commute comp_def)
  from manager_step [OF d(1) Cons.prems(2) this] Cons.IH [OF d(2)] show ?case by blast
qed

end

end
