(* ===== verification/Sqs_Store.thy ===== *)
theory Sqs_Store
  imports Service_Framework
begin

unbundle bit_operations_syntax

text \<open>
  The SQS message store, \<^verbatim>\<open>services/sqs/src/store.rs\<close>: messages, queues and the store of
  queues. What the code reads from its surroundings is a record \<open>world\<close> that every
  operation threads: the process-wide counter of message identifiers, the counter of
  request identifiers, and the clock, whose successive readings (in nanoseconds) are an
  arbitrary sequence.
\<close>

section \<open>The surroundings\<close>

record world =
  message_id_counter :: u64
  request_id_counter :: u64
  clock :: "nat \<Rightarrow> int"
  clock_reads :: nat

definition utc_now :: "world \<Rightarrow> int \<times> world" where
  "utc_now w = (clock w (clock_reads w), w\<lparr>clock_reads := Suc (clock_reads w)\<rparr>)"

definition duration_seconds :: "u32 \<Rightarrow> int" where
  "duration_seconds s = uint s * 1000000000"

definition timestamp_millis :: "int \<Rightarrow> int" where
  "timestamp_millis t = t div 1000000"

definition timestamp :: "int \<Rightarrow> int" where
  "timestamp t = t div 1000000000"

section \<open>Identifiers\<close>

definition message_uuid_like :: "u64 \<Rightarrow> string" where
  "message_uuid_like n =
     hex_pad 8 (unat (ucast (drop_bit 32 n) :: u32)) @ ''-'' @
     hex_pad 4 (unat (ucast (drop_bit 16 n) :: u16)) @ ''-4'' @
     hex_pad 3 (unat ((ucast n :: u16) AND 0x0fff)) @ ''-8'' @
     hex_pad 3 (unat ((ucast (drop_bit 12 n) :: u16) AND 0x0fff)) @ ''-'' @
     hex_pad 12 (unat (n AND 0x0000ffffffffffff))"

definition fetch_add_message_id :: "world \<Rightarrow> u64 \<times> world" where
  "fetch_add_message_id w =
     (message_id_counter w, w\<lparr>message_id_counter := message_id_counter w + 1\<rparr>)"

definition next_message_id :: "world \<Rightarrow> string \<times> world" where
  "next_message_id w = (let (n, w) = fetch_add_message_id w in (message_uuid_like n, w))"

definition receipt_handle_of :: "u64 \<Rightarrow> string" where
  "receipt_handle_of n = ''rh-'' @ hex_pad 16 (unat n)"

definition next_receipt_handle :: "world \<Rightarrow> string \<times> world" where
  "next_receipt_handle w = (let (n, w) = fetch_add_message_id w in (receipt_handle_of n, w))"

definition md5_hex :: "externs \<Rightarrow> string \<Rightarrow> string" where
  "md5_hex ext data = hex_encode ext (md5_digest ext data)"

section \<open>Messages\<close>

record MessageAttributeValue =
  data_type :: string
  string_value :: "string option"
  binary_value :: "string option"

record SqsMessage =
  m_message_id :: string
  m_receipt_handle :: string
  m_body :: string
  m_md5_of_body :: string
  m_attributes :: "(string, string) hash_map"
  m_message_attributes :: "(string, MessageAttributeValue) hash_map"
  m_sent_at :: int
  m_visible_after :: "int option"
  m_receive_count :: u32
  m_delay_seconds :: u32
  m_message_group_id :: "string option"
  m_message_deduplication_id :: "string option"
  m_sequence_number :: u64

record SendMessageResult =
  r_message_id :: string
  r_md5_of_body :: string
  r_sequence_number :: u64

definition SqsMessage_new ::
  "externs \<Rightarrow> world \<Rightarrow> string \<Rightarrow> u32 \<Rightarrow> (string, MessageAttributeValue) hash_map \<Rightarrow>
   string option \<Rightarrow> string option \<Rightarrow> u64 \<Rightarrow> SqsMessage \<times> world" where
  "SqsMessage_new ext w body delay_seconds message_attributes message_group_id dedup_id seq =
     (let md5 = md5_hex ext body;
          (message_id, w) = next_message_id w;
          (receipt_handle, w) = next_receipt_handle w;
          (sent_at, w) = utc_now w;
          visible_after = (if delay_seconds > 0 then Some (sent_at + duration_seconds delay_seconds)
                           else None);
          attributes = [];
          attributes = hm_insert ''ApproximateFirstReceiveTimestamp'' ''0'' attributes;
          attributes = hm_insert ''ApproximateReceiveCount'' ''0'' attributes;
          attributes = hm_insert ''SentTimestamp'' (int_to_string (timestamp_millis sent_at)) attributes
      in (\<lparr>m_message_id = message_id, m_receipt_handle = receipt_handle, m_body = body,
           m_md5_of_body = md5, m_attributes = attributes,
           m_message_attributes = message_attributes, m_sent_at = sent_at,
           m_visible_after = visible_after, m_receive_count = 0,
           m_delay_seconds = delay_seconds, m_message_group_id = message_group_id,
           m_message_deduplication_id = dedup_id, m_sequence_number = seq\<rparr>, w))"

definition is_visible_at :: "SqsMessage \<Rightarrow> int \<Rightarrow> bool" where
  "is_visible_at m now = (case m_visible_after m of None \<Rightarrow> True | Some t \<Rightarrow> now \<ge> t)"

definition is_visible :: "SqsMessage \<Rightarrow> world \<Rightarrow> bool \<times> world" where
  "is_visible m w = (let (now, w) = utc_now w in (is_visible_at m now, w))"

text \<open>
  Both branches of the source's test on the attribute \<^verbatim>\<open>ApproximateReceiveCount\<close> leave it
  holding the new count, which is what inserting into the map does.
\<close>

definition begin_receive :: "SqsMessage \<Rightarrow> u32 \<Rightarrow> int \<Rightarrow> world \<Rightarrow> SqsMessage \<times> world" where
  "begin_receive m visibility_timeout_secs now w =
     (let (nxt, w) = fetch_add_message_id w;
          m = m\<lparr>m_receipt_handle := receipt_handle_of nxt\<rparr>;
          m = m\<lparr>m_receive_count := m_receive_count m + 1\<rparr>;
          m = m\<lparr>m_attributes := hm_insert ''ApproximateReceiveCount''
                   (nat_to_string (unat (m_receive_count m))) (m_attributes m)\<rparr>;
          m = (if visibility_timeout_secs > 0
               then m\<lparr>m_visible_after := Some (now + duration_seconds visibility_timeout_secs)\<rparr>
               else m\<lparr>m_visible_after := None\<rparr>)
      in (m, w))"

section \<open>Queues\<close>

record RedrivePolicy =
  dead_letter_target_arn :: string
  max_receive_count :: u32

record SqsQueue =
  q_name :: string
  q_url :: string
  q_arn :: string
  q_created :: int
  q_last_modified :: int
  q_visibility_timeout :: u32
  q_message_retention_period :: u32
  q_maximum_message_size :: u32
  q_delay_seconds :: u32
  q_receive_message_wait_time_seconds :: u32
  q_fifo :: bool
  q_content_based_deduplication :: bool
  q_redrive_policy :: "RedrivePolicy option"
  q_policy :: "string option"
  q_messages :: "SqsMessage list"
  q_sequence_counter :: u64
  q_dedup_ids :: "(string, string) hash_map"

definition SqsQueue_new ::
  "world \<Rightarrow> string \<Rightarrow> string \<Rightarrow> string \<Rightarrow> string \<Rightarrow> SqsQueue \<times> world" where
  "SqsQueue_new w name base_url account_id region =
     (let is_fifo = ends_with name ''.fifo'';
          url = base_url @ ''/'' @ account_id @ ''/'' @ name;
          arn = ''arn:aws:sqs:'' @ region @ '':'' @ account_id @ '':'' @ name;
          (created, w) = utc_now w;
          (last_modified, w) = utc_now w
      in (\<lparr>q_name = name, q_url = url, q_arn = arn, q_created = created,
           q_last_modified = last_modified, q_visibility_timeout = 30,
           q_message_retention_period = 345600, q_maximum_message_size = 262144,
           q_delay_seconds = 0, q_receive_message_wait_time_seconds = 0, q_fifo = is_fifo,
           q_content_based_deduplication = False, q_redrive_policy = None, q_policy = None,
           q_messages = [], q_sequence_counter = 0, q_dedup_ids = []\<rparr>, w))"

definition send_message ::
  "externs \<Rightarrow> world \<Rightarrow> SqsQueue \<Rightarrow> string \<Rightarrow> u32 option \<Rightarrow>
   (string, MessageAttributeValue) hash_map \<Rightarrow> string option \<Rightarrow> string option \<Rightarrow>
   SendMessageResult option \<times> SqsQueue \<times> world" where
  "send_message ext w q body delay_override message_attributes message_group_id dedup_id =
     (let delay = (case delay_override of Some d \<Rightarrow> d | None \<Rightarrow> q_delay_seconds q) in
      if q_fifo q \<and> (case dedup_id of Some did \<Rightarrow> contains_key (q_dedup_ids q) did | None \<Rightarrow> False)
      then (None, q, w)
      else
        let q = q\<lparr>q_sequence_counter := q_sequence_counter q + 1\<rparr>;
            seq = q_sequence_counter q;
            (msg, w) = SqsMessage_new ext w body delay message_attributes message_group_id dedup_id seq;
            q = (case dedup_id of
                   Some did \<Rightarrow> q\<lparr>q_dedup_ids := hm_insert did (m_message_id msg) (q_dedup_ids q)\<rparr>
                 | None \<Rightarrow> q);
            result = \<lparr>r_message_id = m_message_id msg, r_md5_of_body = m_md5_of_body msg,
                      r_sequence_number = m_sequence_number msg\<rparr>;
            q = q\<lparr>q_messages := q_messages q @ [msg]\<rparr>
        in (Some result, q, w))"

text \<open>The loop of the fast path for a single message, and the general loop.\<close>

fun receive_first ::
  "u32 \<Rightarrow> int \<Rightarrow> nat \<Rightarrow> SqsMessage list \<Rightarrow> world \<Rightarrow> nat list \<times> SqsMessage list \<times> world" where
  "receive_first vt now idx [] w = ([], [], w)"
| "receive_first vt now idx (m # ms) w =
     (if is_visible_at m now
      then let (m', w) = begin_receive m vt now w in ([idx], m' # ms, w)
      else let (r, ms', w) = receive_first vt now (Suc idx) ms w in (r, m # ms', w))"

fun receive_loop ::
  "nat \<Rightarrow> u32 \<Rightarrow> int \<Rightarrow> nat \<Rightarrow> nat list \<Rightarrow> SqsMessage list \<Rightarrow> world \<Rightarrow>
   nat list \<times> SqsMessage list \<times> world" where
  "receive_loop max_number vt now idx received [] w = (received, [], w)"
| "receive_loop max_number vt now idx received (m # ms) w =
     (if length received \<ge> max_number then (received, m # ms, w)
      else if is_visible_at m now
      then let (m', w) = begin_receive m vt now w;
               (r, ms', w) = receive_loop max_number vt now (Suc idx) (received @ [idx]) ms w
           in (r, m' # ms', w)
      else let (r, ms', w) = receive_loop max_number vt now (Suc idx) received ms w
           in (r, m # ms', w))"

definition receive_messages ::
  "world \<Rightarrow> SqsQueue \<Rightarrow> nat \<Rightarrow> u32 option \<Rightarrow> nat list \<times> SqsQueue \<times> world" where
  "receive_messages w q max_number visibility_timeout =
     (if max_number = 0 \<or> q_messages q = [] then ([], q, w)
      else
        let vt = (case visibility_timeout of Some v \<Rightarrow> v | None \<Rightarrow> q_visibility_timeout q);
            (now, w) = utc_now w
        in if max_number = 1
           then let (r, ms, w) = receive_first vt now 0 (q_messages q) w
                in (r, q\<lparr>q_messages := ms\<rparr>, w)
           else let (r, ms, w) = receive_loop max_number vt now 0 [] (q_messages q) w
                in (r, q\<lparr>q_messages := ms\<rparr>, w))"

text \<open>\<^verbatim>\<open>iter().position(..)\<close> and \<^verbatim>\<open>VecDeque::remove\<close>\<close>

fun position :: "('a \<Rightarrow> bool) \<Rightarrow> 'a list \<Rightarrow> nat option" where
  "position P [] = None"
| "position P (x # xs) = (if P x then Some 0 else map_option Suc (position P xs))"

definition remove_at :: "nat \<Rightarrow> 'a list \<Rightarrow> 'a list" where
  "remove_at i xs = take i xs @ drop (Suc i) xs"

definition delete_message :: "SqsQueue \<Rightarrow> string \<Rightarrow> bool \<times> SqsQueue" where
  "delete_message q receipt_handle =
     (case position (\<lambda>m. m_receipt_handle m = receipt_handle) (q_messages q) of
        Some idx \<Rightarrow> (True, q\<lparr>q_messages := remove_at idx (q_messages q)\<rparr>)
      | None \<Rightarrow> (False, q))"

fun change_visibility_loop ::
  "string \<Rightarrow> u32 \<Rightarrow> SqsMessage list \<Rightarrow> world \<Rightarrow> bool \<times> SqsMessage list \<times> world" where
  "change_visibility_loop rh vt [] w = (False, [], w)"
| "change_visibility_loop rh vt (m # ms) w =
     (if m_receipt_handle m = rh
      then if vt = 0 then (True, m\<lparr>m_visible_after := None\<rparr> # ms, w)
           else let (now, w) = utc_now w
                in (True, m\<lparr>m_visible_after := Some (now + duration_seconds vt)\<rparr> # ms, w)
      else let (b, ms', w) = change_visibility_loop rh vt ms w in (b, m # ms', w))"

definition change_visibility :: "world \<Rightarrow> SqsQueue \<Rightarrow> string \<Rightarrow> u32 \<Rightarrow> bool \<times> SqsQueue \<times> world" where
  "change_visibility w q receipt_handle visibility_timeout =
     (let (b, ms, w) = change_visibility_loop receipt_handle visibility_timeout (q_messages q) w
      in (b, q\<lparr>q_messages := ms\<rparr>, w))"

definition purge :: "SqsQueue \<Rightarrow> SqsQueue" where
  "purge q = q\<lparr>q_messages := []\<rparr>"

definition approximate_number_of_messages :: "SqsQueue \<Rightarrow> world \<Rightarrow> nat \<times> world" where
  "approximate_number_of_messages q w =
     (let (now, w) = utc_now w in (length (filter (\<lambda>m. is_visible_at m now) (q_messages q)), w))"

definition approximate_number_of_messages_not_visible :: "SqsQueue \<Rightarrow> world \<Rightarrow> nat \<times> world" where
  "approximate_number_of_messages_not_visible q w =
     (let (now, w) = utc_now w in (length (filter (\<lambda>m. \<not> is_visible_at m now) (q_messages q)), w))"

definition messages_for_dlq :: "SqsQueue \<Rightarrow> SqsMessage list" where
  "messages_for_dlq q =
     (case q_redrive_policy q of
        Some rp \<Rightarrow> filter (\<lambda>m. m_receive_count m \<ge> max_receive_count rp) (q_messages q)
      | None \<Rightarrow> [])"

definition remove_dlq_candidates :: "SqsQueue \<Rightarrow> SqsQueue" where
  "remove_dlq_candidates q =
     (case q_redrive_policy q of
        Some rp \<Rightarrow> q\<lparr>q_messages := filter (\<lambda>m. m_receive_count m < max_receive_count rp) (q_messages q)\<rparr>
      | None \<Rightarrow> q)"

section \<open>The store\<close>

definition redrive_of :: "Value \<Rightarrow> RedrivePolicy" where
  "redrive_of rp =
     (let arn = (case as_str (value_index rp ''deadLetterTargetArn'') of Some s \<Rightarrow> s | None \<Rightarrow> []);
          mx = (case as_u64 (value_index rp ''maxReceiveCount'') of Some n \<Rightarrow> n | None \<Rightarrow> 3)
      in \<lparr>dead_letter_target_arn = arn, max_receive_count = ucast mx\<rparr>)"

definition set_u32_attr ::
  "(string, string) hash_map \<Rightarrow> string \<Rightarrow> (u32 \<Rightarrow> SqsQueue \<Rightarrow> SqsQueue) \<Rightarrow> SqsQueue \<Rightarrow> SqsQueue" where
  "set_u32_attr attrs key upd q =
     (case Option.bind (hm_get attrs key) parse_u32 of Some n \<Rightarrow> upd n q | None \<Rightarrow> q)"

definition apply_queue_attributes ::
  "externs \<Rightarrow> world \<Rightarrow> SqsQueue \<Rightarrow> (string, string) hash_map \<Rightarrow> SqsQueue \<times> world" where
  "apply_queue_attributes ext w q attrs =
     (let q = set_u32_attr attrs ''VisibilityTimeout'' (\<lambda>n q. q\<lparr>q_visibility_timeout := n\<rparr>) q;
          q = set_u32_attr attrs ''MessageRetentionPeriod''
                (\<lambda>n q. q\<lparr>q_message_retention_period := n\<rparr>) q;
          q = set_u32_attr attrs ''MaximumMessageSize'' (\<lambda>n q. q\<lparr>q_maximum_message_size := n\<rparr>) q;
          q = set_u32_attr attrs ''DelaySeconds'' (\<lambda>n q. q\<lparr>q_delay_seconds := n\<rparr>) q;
          q = set_u32_attr attrs ''ReceiveMessageWaitTimeSeconds''
                (\<lambda>n q. q\<lparr>q_receive_message_wait_time_seconds := n\<rparr>) q;
          q = (case hm_get attrs ''ContentBasedDeduplication'' of
                 Some v \<Rightarrow> q\<lparr>q_content_based_deduplication := (v = ''true'')\<rparr>
               | None \<Rightarrow> q);
          q = (case Option.bind (hm_get attrs ''RedrivePolicy'') (json_from_slice ext) of
                 Some rp \<Rightarrow> q\<lparr>q_redrive_policy := Some (redrive_of rp)\<rparr>
               | None \<Rightarrow> q);
          (now, w) = utc_now w
      in (q\<lparr>q_last_modified := now\<rparr>, w))"

record SqsStore =
  queues :: "(string, SqsQueue) hash_map"

definition SqsStore_new :: SqsStore where
  "SqsStore_new = \<lparr>queues = []\<rparr>"

definition create_queue ::
  "externs \<Rightarrow> world \<Rightarrow> SqsStore \<Rightarrow> string \<Rightarrow> string \<Rightarrow> string \<Rightarrow> string \<Rightarrow>
   (string, string) hash_map \<Rightarrow> SqsQueue option \<times> SqsStore \<times> world" where
  "create_queue ext w st name base_url account_id region attributes =
     (let (st, w) =
            (if \<not> contains_key (queues st) name
             then let (q, w) = SqsQueue_new w name base_url account_id region;
                      (q, w) = apply_queue_attributes ext w q attributes
                  in (st\<lparr>queues := hm_insert name q (queues st)\<rparr>, w)
             else (st, w))
      in (hm_get (queues st) name, st, w))"

definition get_queue_by_name :: "SqsStore \<Rightarrow> string \<Rightarrow> SqsQueue option" where
  "get_queue_by_name st name = hm_get (queues st) name"

text \<open>Writing through the reference that \<^verbatim>\<open>get_queue_by_name_mut\<close> returns.\<close>

definition set_queue :: "SqsStore \<Rightarrow> string \<Rightarrow> SqsQueue \<Rightarrow> SqsStore" where
  "set_queue st name q = st\<lparr>queues := hm_insert name q (queues st)\<rparr>"

definition get_queue_by_url :: "SqsStore \<Rightarrow> string \<Rightarrow> SqsQueue option" where
  "get_queue_by_url st url = find (\<lambda>q. q_url q = url) (hm_values (queues st))"

definition store_queue_name_from_url :: "string \<Rightarrow> string option" where
  "store_queue_name_from_url url = Some (rsplit_first (CHR ''/'') url)"

definition delete_queue :: "SqsStore \<Rightarrow> string \<Rightarrow> bool \<times> SqsStore" where
  "delete_queue st name =
     (contains_key (queues st) name, st\<lparr>queues := hm_remove name (queues st)\<rparr>)"

definition list_queues :: "SqsStore \<Rightarrow> string \<Rightarrow> SqsQueue list" where
  "list_queues st prefix = filter (\<lambda>q. starts_with (q_name q) prefix) (hm_values (queues st))"

end
