(* ===== verification/Sqs_Queue.thy ===== *)
theory Sqs_Queue
  imports Sqs_Store "HOL-Library.Sublist"
begin

text \<open>
  What a queue of \<^verbatim>\<open>services/sqs/src/store.rs\<close> guarantees: identifiers and receipt
  handles are unique, receiving hands out the oldest visible messages once, deletion is by the
  current receipt handle only, order and deduplication survive every run of operations.
\<close>

section \<open>Identifiers are unique\<close>

lemma unat_low48: "unat ((n :: u64) AND 0xffffffffffff) = unat n mod 2 ^ 48"
proof -
  have "n AND 0xffffffffffff = take_bit 48 n"
    by (simp add: take_bit_eq_mask mask_eq_exp_minus_1)
  then show ?thesis by (simp add: take_bit_eq_mod unat_mod)
qed

lemma unat_high32: "unat (ucast (drop_bit 32 (n :: u64)) :: u32) = unat n div 2 ^ 32"
proof -
  have lt: "unat n < 2 ^ 64" using unsigned_less [of n] by simp
  have "unat (ucast (drop_bit 32 n) :: u32) = unat (drop_bit 32 n) mod 2 ^ 32"
    by (simp add: unsigned_ucast_eq take_bit_eq_mod)
  also have "unat (drop_bit 32 n) = unat n div 2 ^ 32"
    by (simp add: drop_bit_eq_div unat_div)
  finally show ?thesis using lt by (simp add: less_mult_imp_div_less)
qed

lemma message_uuid_like_inject: "message_uuid_like m = message_uuid_like n \<Longrightarrow> m = n"
proof -
  assume eq: "message_uuid_like m = message_uuid_like n"
  have len8: "length (hex_pad 8 (unat (ucast (drop_bit 32 k) :: u32))) = 8" for k :: u64
    using unsigned_less [of "ucast (drop_bit 32 k) :: u32"] by (intro length_hex_pad) simp_all
  have len12: "length (hex_pad 12 (unat (k AND 0xffffffffffff))) = 12" for k :: u64
    by (intro length_hex_pad) (simp_all add: unat_low48)
  have hi: "hex_pad 8 (unat (ucast (drop_bit 32 m) :: u32)) = hex_pad 8 (unat (ucast (drop_bit 32 n) :: u32))"
    using arg_cong [OF eq, of "take 8"] by (simp add: message_uuid_like_def len8)
  have "drop (length s - 12) s = t" if "s = u @ t" "length t = 12" for s t u :: string
    using that by simp
  from this [OF _ len12] have lo_of:
    "drop (length (message_uuid_like k) - 12) (message_uuid_like k) = hex_pad 12 (unat (k AND 0xffffffffffff))"
    for k by (metis append.assoc message_uuid_like_def)
  have lo: "hex_pad 12 (unat (m AND 0xffffffffffff)) = hex_pad 12 (unat (n AND 0xffffffffffff))"
    using lo_of [of m] lo_of [of n] eq by simp
  have "unat m div 2 ^ 32 = unat n div 2 ^ 32" "unat m mod 2 ^ 48 = unat n mod 2 ^ 48"
    using hex_pad_inject [OF hi] hex_pad_inject [OF lo] by (simp_all only: unat_high32 unat_low48)
  moreover have "unat k mod 2 ^ 32 = unat k mod 2 ^ 48 mod 2 ^ 32" for k :: u64
    by (simp add: mod_mod_cancel)
  ultimately have "unat m = unat n" by (metis div_mult_mod_eq)
  then show ?thesis by (simp add: word_unat_eq_iff)
qed

lemma receipt_handle_of_inject: "receipt_handle_of m = receipt_handle_of n \<Longrightarrow> m = n"
  unfolding receipt_handle_of_def using hex_pad_inject by (metis same_append_eq unsigned_word_eqI)

section \<open>Receiving\<close>

definition mark_received :: "u32 \<Rightarrow> int \<Rightarrow> u64 \<Rightarrow> SqsMessage \<Rightarrow> SqsMessage" where
  "mark_received vt now n m =
     m\<lparr>m_receipt_handle := receipt_handle_of n,
       m_receive_count := m_receive_count m + 1,
       m_attributes := hm_insert ''ApproximateReceiveCount''
         (nat_to_string (unat (m_receive_count m + 1))) (m_attributes m),
       m_visible_after := (if vt > 0 then Some (now + duration_seconds vt) else None)\<rparr>"

lemma begin_receive_eq:
  "begin_receive m vt now w =
     (mark_received vt now (message_id_counter w) m,
      w\<lparr>message_id_counter := message_id_counter w + 1\<rparr>)"
  by (simp add: begin_receive_def mark_received_def fetch_add_message_id_def Let_def)

fun deliver :: "nat \<Rightarrow> u32 \<Rightarrow> int \<Rightarrow> u64 \<Rightarrow> SqsMessage list \<Rightarrow> SqsMessage list" where
  "deliver k vt now n [] = []"
| "deliver k vt now n (m # ms) =
     (if k = 0 then m # ms
      else if is_visible_at m now then mark_received vt now n m # deliver (k - 1) vt now (n + 1) ms
      else m # deliver k vt now n ms)"

definition visible_indices :: "int \<Rightarrow> SqsMessage list \<Rightarrow> nat list" where
  "visible_indices now ms = filter (\<lambda>i. is_visible_at (ms ! i) now) [0..<length ms]"

lemma visible_indices_Nil [simp]: "visible_indices now [] = []"
  by (simp add: visible_indices_def)

lemma visible_indices_Cons:
  "visible_indices now (m # ms) =
     (if is_visible_at m now then [0] else []) @ map Suc (visible_indices now ms)"
proof -
  have "[0..<Suc (length ms)] = 0 # map Suc [0..<length ms]"
    by (simp add: upt_conv_Cons map_Suc_upt del: upt_Suc)
  then show ?thesis by (simp add: visible_indices_def filter_map comp_def del: upt_Suc)
qed

lemma receive_first_eq:
  "receive_first vt now idx ms w =
     (map (\<lambda>i. idx + i) (take 1 (visible_indices now ms)),
      deliver 1 vt now (message_id_counter w) ms,
      w\<lparr>message_id_counter := message_id_counter w + of_nat (length (take 1 (visible_indices now ms)))\<rparr>)"
proof (induction vt now idx ms w rule: receive_first.induct)
  case (2 vt now idx m ms w)
  have "deliver 0 vt now n ms = ms" for n by (cases ms) auto
  with 2 show ?case
    by (auto simp: visible_indices_Cons begin_receive_eq take_map Let_def)
qed simp

lemma receive_loop_eq:
  "receive_loop mx vt now idx rec ms w =
     (let k = mx - length rec; r = take k (visible_indices now ms)
      in (rec @ map (\<lambda>i. idx + i) r, deliver k vt now (message_id_counter w) ms,
          w\<lparr>message_id_counter := message_id_counter w + of_nat (length r)\<rparr>))"
proof (induction mx vt now idx rec ms w rule: receive_loop.induct)
  case (2 mx vt now idx rec m ms w)
  show ?case
  proof (cases "length rec \<ge> mx")
    case False
    then obtain k where k: "mx - length rec = Suc k" by (metis Suc_diff_Suc not_le)
    then have k': "mx - Suc (length rec) = k" by simp
    show ?thesis
    proof (cases "is_visible_at m now")
      case True
      with 2(1) [OF False True] False k k' show ?thesis
        by (simp add: begin_receive_eq Let_def visible_indices_Cons take_map comp_def ac_simps)
    next
      case nv: False
      with 2(2) [OF False] False k show ?thesis
        by (simp add: Let_def visible_indices_Cons take_map comp_def)
    qed
  qed simp
qed simp

lemma receive_messages_eq:
  "receive_messages w q mx vto =
     (if mx = 0 \<or> q_messages q = [] then ([], q, w)
      else let vt = (case vto of Some v \<Rightarrow> v | None \<Rightarrow> q_visibility_timeout q);
               now = clock w (clock_reads w);
               r = take mx (visible_indices now (q_messages q))
           in (r, q\<lparr>q_messages := deliver mx vt now (message_id_counter w) (q_messages q)\<rparr>,
               w\<lparr>clock_reads := Suc (clock_reads w),
                 message_id_counter := message_id_counter w + of_nat (length r)\<rparr>))"
  by (simp add: receive_messages_def receive_first_eq receive_loop_eq utc_now_def Let_def)

lemma length_deliver [simp]: "length (deliver k vt now n ms) = length ms"
  by (induction k vt now n ms rule: deliver.induct) auto

lemma deliver_0 [simp]: "deliver 0 vt now n ms = ms"
  by (cases ms) auto

lemma deliver_unreceived:
  "i < length ms \<Longrightarrow> i \<notin> set (take k (visible_indices now ms)) \<Longrightarrow> deliver k vt now n ms ! i = ms ! i"
proof (induction k vt now n ms arbitrary: i rule: deliver.induct)
  case (2 k vt now n m ms)
  then show ?case
    by (cases k; cases i) (auto simp: visible_indices_Cons take_map split: if_splits)
qed simp

lemma deliver_received:
  "j < length (take k (visible_indices now ms)) \<Longrightarrow>
   deliver k vt now n ms ! (visible_indices now ms ! j) =
     mark_received vt now (n + of_nat j) (ms ! (visible_indices now ms ! j))"
proof (induction k vt now n ms arbitrary: j rule: deliver.induct)
  case (2 k vt now n m ms)
  show ?case
  proof (cases "is_visible_at m now")
    case True
    with 2 show ?thesis
      by (cases k; cases j) (auto simp: visible_indices_Cons nth_append ac_simps)
  next
    case False
    with 2 show ?thesis by (cases k) (auto simp: visible_indices_Cons)
  qed
qed simp

lemma map_deliver:
  assumes "\<And>vt now m n. f (mark_received vt now n m) = f m"
  shows "map f (deliver k vt now n ms) = map f ms"
  by (induction k vt now n ms rule: deliver.induct) (auto simp: assms)

section \<open>Runs of queue operations\<close>

datatype queue_op =
    Send string "u32 option" "(string, MessageAttributeValue) hash_map" "string option" "string option"
  | Receive nat "u32 option"
  | Delete string
  | ChangeVisibility string u32
  | Purge
  | RemoveDlq
  | SetAttributes "(string, string) hash_map"

fun run_queue_op :: "externs \<Rightarrow> queue_op \<Rightarrow> SqsQueue \<times> world \<Rightarrow> SqsQueue \<times> world" where
  "run_queue_op ext (Send body delay attrs gid did) (q, w) =
     snd (send_message ext w q body delay attrs gid did)"
| "run_queue_op ext (Receive mx vto) (q, w) = snd (receive_messages w q mx vto)"
| "run_queue_op ext (Delete rh) (q, w) = (snd (delete_message q rh), w)"
| "run_queue_op ext (ChangeVisibility rh vt) (q, w) = snd (change_visibility w q rh vt)"
| "run_queue_op ext Purge (q, w) = (purge q, w)"
| "run_queue_op ext RemoveDlq (q, w) = (remove_dlq_candidates q, w)"
| "run_queue_op ext (SetAttributes attrs) (q, w) = apply_queue_attributes ext w q attrs"

definition run_queue_ops :: "externs \<Rightarrow> queue_op list \<Rightarrow> SqsQueue \<times> world \<Rightarrow> SqsQueue \<times> world" where
  "run_queue_ops ext ops s = fold (run_queue_op ext) ops s"

text \<open>How many identifiers an operation draws from the counter at most.\<close>

fun id_cost :: "queue_op \<Rightarrow> nat" where
  "id_cost (Send _ _ _ _ _) = 2"
| "id_cost (Receive mx _) = mx"
| "id_cost _ = 0"

text \<open>
  Names drawn from a 64-bit counter: \<open>named_below\<close> says that a name was given out while the
  counter was below a bound, \<open>name_range\<close> are the names of an interval of counter values.
\<close>

definition named_below :: "(u64 \<Rightarrow> string) \<Rightarrow> nat \<Rightarrow> string \<Rightarrow> bool" where
  "named_below name c s \<longleftrightarrow> (\<exists>i < c. s = name (of_nat i))"

definition name_range :: "(u64 \<Rightarrow> string) \<Rightarrow> nat \<Rightarrow> nat \<Rightarrow> string set" where
  "name_range name c n = (\<lambda>i. name (of_nat i)) ` {c..<c + n}"

lemma of_nat_u64_eq: "i < 2 ^ 64 \<Longrightarrow> j < 2 ^ 64 \<Longrightarrow> (of_nat i :: u64) = of_nat j \<Longrightarrow> i = j"
  using word_of_nat_eq_iff [where 'a = 64, of i j] by (simp add: take_bit_nat_eq_self)

locale counter_names =
  fixes name :: "u64 \<Rightarrow> string"
  assumes name_inject: "name m = name n \<Longrightarrow> m = n"
begin

lemma below_mono: "named_below name c s \<Longrightarrow> c \<le> d \<Longrightarrow> named_below name d s"
proof -
  assume "named_below name c s" "c \<le> d"
  then obtain i where "i < c" "s = name (of_nat i)" by (auto simp: named_below_def)
  then show ?thesis using \<open>c \<le> d\<close> unfolding named_below_def by (intro exI [of _ i]) simp
qed

lemma below_range: "s \<in> name_range name c n \<Longrightarrow> named_below name (c + n) s"
proof -
  assume "s \<in> name_range name c n"
  then obtain i where "i < c + n" "s = name (of_nat i)" by (auto simp: name_range_def)
  then show ?thesis unfolding named_below_def by (intro exI [of _ i]) simp
qed

lemma range_fresh: "named_below name c s \<Longrightarrow> c \<le> d \<Longrightarrow> d + n < 2 ^ 64 \<Longrightarrow> s \<notin> name_range name d n"
  by (auto simp: named_below_def name_range_def dest!: name_inject of_nat_u64_eq [rotated 2])

lemma name_fresh: "named_below name c s \<Longrightarrow> c \<le> d \<Longrightarrow> d < 2 ^ 64 \<Longrightarrow> s \<noteq> name (of_nat d)"
  by (auto simp: named_below_def dest!: name_inject of_nat_u64_eq [rotated 2])

lemma head_fresh: "c + Suc n < 2 ^ 64 \<Longrightarrow> name (of_nat c) \<notin> name_range name (Suc c) n"
  by (auto simp: name_range_def dest!: name_inject of_nat_u64_eq [rotated 2])

lemma range_Suc: "name_range name c (Suc n) = insert (name (of_nat c)) (name_range name (Suc c) n)"
proof -
  have "{c..<c + Suc n} = insert c {Suc c..<Suc c + n}" by auto
  then show ?thesis by (simp add: name_range_def)
qed

end

interpretation mid: counter_names message_uuid_like
  by unfold_locales (rule message_uuid_like_inject)

interpretation rhn: counter_names receipt_handle_of
  by unfold_locales (rule receipt_handle_of_inject)

definition queue_inv :: "nat \<Rightarrow> SqsQueue \<Rightarrow> bool" where
  "queue_inv c q \<longleftrightarrow>
     (\<forall>m \<in> set (q_messages q). named_below message_uuid_like c (m_message_id m)) \<and>
     (\<forall>m \<in> set (q_messages q). named_below receipt_handle_of c (m_receipt_handle m)) \<and>
     distinct (map m_message_id (q_messages q)) \<and>
     distinct (map m_receipt_handle (q_messages q)) \<and>
     sorted_wrt (<) (map (\<lambda>m. unat (m_sequence_number m)) (q_messages q)) \<and>
     (\<forall>m \<in> set (q_messages q). unat (m_sequence_number m) \<le> unat (q_sequence_counter q))"

subsection \<open>What each operation does to a queue's messages\<close>

lemma send_message_dup:
  "q_fifo q \<Longrightarrow> contains_key (q_dedup_ids q) d \<Longrightarrow>
   send_message ext w q body delay attrs gid (Some d) = (None, q, w)"
  by (simp add: send_message_def)

text \<open>The message an accepted send appends.\<close>

definition sent_message ::
  "externs \<Rightarrow> world \<Rightarrow> SqsQueue \<Rightarrow> string \<Rightarrow> u32 option \<Rightarrow> (string, MessageAttributeValue) hash_map \<Rightarrow>
   string option \<Rightarrow> string option \<Rightarrow> SqsMessage" where
  "sent_message ext w q body delay attrs gid did =
     fst (SqsMessage_new ext w body (case delay of Some d \<Rightarrow> d | None \<Rightarrow> q_delay_seconds q) attrs gid did
            (q_sequence_counter q + 1))"

definition is_duplicate :: "SqsQueue \<Rightarrow> string option \<Rightarrow> bool" where
  "is_duplicate q did \<longleftrightarrow> q_fifo q \<and> (\<exists>d. did = Some d \<and> contains_key (q_dedup_ids q) d)"

lemma SqsMessage_new_world:
  "snd (SqsMessage_new ext w body delay attrs gid did seq) =
     w\<lparr>message_id_counter := message_id_counter w + 2, clock_reads := Suc (clock_reads w)\<rparr>"
  by (simp add: SqsMessage_new_def next_message_id_def next_receipt_handle_def
      fetch_add_message_id_def utc_now_def Let_def)

lemma sent_message_fields [simp]:
  "m_message_id (sent_message ext w q body delay attrs gid did) = message_uuid_like (message_id_counter w)"
  "m_receipt_handle (sent_message ext w q body delay attrs gid did) = receipt_handle_of (message_id_counter w + 1)"
  "m_sequence_number (sent_message ext w q body delay attrs gid did) = q_sequence_counter q + 1"
  "m_body (sent_message ext w q body delay attrs gid did) = body"
  "m_receive_count (sent_message ext w q body delay attrs gid did) = 0"
  by (simp_all add: sent_message_def SqsMessage_new_def next_message_id_def next_receipt_handle_def
      fetch_add_message_id_def utc_now_def Let_def)

lemma send_message_accepted:
  assumes "\<not> is_duplicate q did"
  shows "send_message ext w q body delay attrs gid did =
    (let m = sent_message ext w q body delay attrs gid did in
     (Some \<lparr>r_message_id = m_message_id m, r_md5_of_body = m_md5_of_body m,
            r_sequence_number = m_sequence_number m\<rparr>,
      q\<lparr>q_messages := q_messages q @ [m], q_sequence_counter := q_sequence_counter q + 1,
        q_dedup_ids := (case did of Some d \<Rightarrow> hm_insert d (m_message_id m) (q_dedup_ids q)
                        | None \<Rightarrow> q_dedup_ids q)\<rparr>,
      w\<lparr>message_id_counter := message_id_counter w + 2, clock_reads := Suc (clock_reads w)\<rparr>))"
proof -
  obtain m w' where mw: "SqsMessage_new ext w body (case delay of Some d \<Rightarrow> d | None \<Rightarrow> q_delay_seconds q)
      attrs gid did (q_sequence_counter q + 1) = (m, w')" by fastforce
  then have w': "w' = w\<lparr>message_id_counter := message_id_counter w + 2, clock_reads := Suc (clock_reads w)\<rparr>"
    using SqsMessage_new_world by (metis snd_conv)
  have m: "sent_message ext w q body delay attrs gid did = m" by (simp add: sent_message_def mw)
  have "\<not> (q_fifo q \<and> (case did of Some d \<Rightarrow> contains_key (q_dedup_ids q) d | None \<Rightarrow> False))"
    using assms by (auto simp: is_duplicate_def split: option.splits)
  then show ?thesis
    unfolding send_message_def m using mw w' by (cases did) (simp_all add: Let_def)
qed

lemma send_message_duplicate:
  "is_duplicate q did \<Longrightarrow> send_message ext w q body delay attrs gid did = (None, q, w)"
  by (auto simp: is_duplicate_def send_message_dup)

lemma position_SomeD:
  "position P xs = Some i \<Longrightarrow> i < length xs \<and> P (xs ! i) \<and> (\<forall>j < i. \<not> P (xs ! j))"
  by (induction xs arbitrary: i) (auto split: if_splits simp: less_Suc_eq_0_disj)

lemma position_NoneD: "position P xs = None \<longleftrightarrow> (\<forall>x \<in> set xs. \<not> P x)"
  by (induction xs) auto

lemma position_first: "i < length xs \<Longrightarrow> P (xs ! i) \<Longrightarrow> (\<forall>j < i. \<not> P (xs ! j)) \<Longrightarrow> position P xs = Some i"
proof (induction xs arbitrary: i)
  case (Cons x xs)
  then show ?case by (cases i) (auto simp: All_less_Suc2)
qed simp

lemma remove_at_subseq: "subseq (remove_at i xs) xs"
proof (induction xs arbitrary: i)
  case (Cons x xs)
  then show ?case by (cases i) (auto simp: remove_at_def)
qed (simp add: remove_at_def)

lemma delete_message_messages:
  "\<exists>i. q_messages (snd (delete_message q rh)) = remove_at i (q_messages q) \<or>
       q_messages (snd (delete_message q rh)) = q_messages q"
  by (auto simp: delete_message_def split: option.splits)

lemma change_visibility_loop_map:
  assumes "\<And>m v. f (m\<lparr>m_visible_after := v\<rparr>) = f m"
  shows "map f (fst (snd (change_visibility_loop rh vt ms w))) = map f ms"
  by (induction rh vt ms w rule: change_visibility_loop.induct)
     (auto simp: assms utc_now_def Let_def case_prod_beta)

lemma change_visibility_loop_world:
  "message_id_counter (snd (snd (change_visibility_loop rh vt ms w))) = message_id_counter w"
  by (induction rh vt ms w rule: change_visibility_loop.induct)
     (auto simp: utc_now_def Let_def case_prod_beta)

lemma change_visibility_messages:
  assumes "\<And>m v. f (m\<lparr>m_visible_after := v\<rparr>) = f m"
  shows "map f (q_messages (fst (snd (change_visibility w q rh vt)))) = map f (q_messages q)"
  using change_visibility_loop_map [OF assms] by (simp add: change_visibility_def case_prod_beta)

subsection \<open>The invariant is kept\<close>

lemma deliver_handles:
  assumes "\<forall>m \<in> set ms. named_below receipt_handle_of c0 (m_receipt_handle m)"
    and "distinct (map m_receipt_handle ms)" "c0 \<le> c"
    and "c + length (take k (visible_indices now ms)) < 2 ^ 64"
  shows "distinct (map m_receipt_handle (deliver k vt now (of_nat c) ms)) \<and>
    m_receipt_handle ` set (deliver k vt now (of_nat c) ms)
      \<subseteq> m_receipt_handle ` set ms
        \<union> name_range receipt_handle_of c (length (take k (visible_indices now ms)))"
  using assms
proof (induction ms arbitrary: k c)
  case (Cons m ms)
  show ?case
  proof (cases k)
    case (Suc k')
    show ?thesis
    proof (cases "is_visible_at m now")
      case True
      let ?n = "length (take k' (visible_indices now ms))"
      let ?d = "deliver k' vt now (of_nat (Suc c)) ms"
      have n: "length (take k (visible_indices now (m # ms))) = Suc ?n"
        using True Suc by (simp add: visible_indices_Cons)
      then have IH: "distinct (map m_receipt_handle ?d)"
        "m_receipt_handle ` set ?d \<subseteq> m_receipt_handle ` set ms \<union> name_range receipt_handle_of (Suc c) ?n"
        using Cons.IH [of "Suc c" k'] Cons.prems by auto
      have "receipt_handle_of (of_nat c) \<notin> m_receipt_handle ` set ms"
      proof
        assume "receipt_handle_of (of_nat c) \<in> m_receipt_handle ` set ms"
        then have "named_below receipt_handle_of c0 (receipt_handle_of (of_nat c))"
          using Cons.prems(1) by auto
        then show False using rhn.name_fresh [of c0 _ c] Cons.prems(3,4) by force
      qed
      moreover have "receipt_handle_of (of_nat c) \<notin> name_range receipt_handle_of (Suc c) ?n"
        using rhn.head_fresh [of c ?n] Cons.prems(4) n by simp
      ultimately have "receipt_handle_of (of_nat c) \<notin> m_receipt_handle ` set ?d"
        using IH(2) by blast
      then show ?thesis using IH True Suc n
        by (simp add: mark_received_def rhn.range_Suc ac_simps) blast
    next
      case False
      let ?n = "length (take k (visible_indices now ms))"
      have n: "length (take k (visible_indices now (m # ms))) = ?n"
        using False by (simp add: visible_indices_Cons)
      then have IH: "distinct (map m_receipt_handle (deliver k vt now (of_nat c) ms))"
        "m_receipt_handle ` set (deliver k vt now (of_nat c) ms)
           \<subseteq> m_receipt_handle ` set ms \<union> name_range receipt_handle_of c ?n"
        using Cons.IH [of c k] Cons.prems by auto
      have "m_receipt_handle m \<notin> m_receipt_handle ` set (deliver k vt now (of_nat c) ms)"
        using IH(2) rhn.range_fresh [of c0 "m_receipt_handle m" c ?n] Cons.prems n by auto
      then show ?thesis using IH False Suc n by auto
    qed
  qed (use Cons.prems in auto)
qed simp

lemma queue_inv_mono: "queue_inv c q \<Longrightarrow> c \<le> d \<Longrightarrow> queue_inv d q"
  by (auto simp: queue_inv_def intro: mid.below_mono rhn.below_mono)

lemma ball_map_cong: "map f xs = map f ys \<Longrightarrow> \<forall>y \<in> set ys. P (f y) \<Longrightarrow> \<forall>x \<in> set xs. P (f x)"
proof
  fix x
  assume "map f xs = map f ys" "\<forall>y \<in> set ys. P (f y)" "x \<in> set xs"
  then have "f x \<in> f ` set ys" by (metis image_eqI list.set_map)
  with \<open>\<forall>y \<in> set ys. P (f y)\<close> show "P (f x)" by auto
qed

text \<open>Two queues that agree on what the invariant reads.\<close>

lemma queue_inv_cong:
  assumes "queue_inv c q" "c \<le> d"
    and "map m_message_id (q_messages q') = map m_message_id (q_messages q)"
    and "map m_sequence_number (q_messages q') = map m_sequence_number (q_messages q)"
    and "q_sequence_counter q' = q_sequence_counter q"
    and "distinct (map m_receipt_handle (q_messages q'))"
    and "\<forall>m \<in> set (q_messages q'). named_below receipt_handle_of d (m_receipt_handle m)"
  shows "queue_inv d q'"
proof -
  have "map (\<lambda>m. unat (m_sequence_number m)) (q_messages q') = map (\<lambda>m. unat (m_sequence_number m)) (q_messages q)"
    using arg_cong [OF assms(4), of "map unat"] by (simp add: comp_def)
  moreover have "\<forall>m \<in> set (q_messages q'). named_below message_uuid_like d (m_message_id m)"
    using assms(1,2) by (intro ball_map_cong [OF assms(3)]) (auto simp: queue_inv_def intro: mid.below_mono)
  moreover have "\<forall>m \<in> set (q_messages q'). unat (m_sequence_number m) \<le> unat (q_sequence_counter q')"
    using assms(1,5) by (intro ball_map_cong [OF assms(4)]) (auto simp: queue_inv_def)
  ultimately show ?thesis using assms by (simp add: queue_inv_def)
qed

lemma queue_inv_receive:
  assumes inv: "queue_inv (unat (message_id_counter w)) q"
    and c: "unat (message_id_counter w) + mx < 2 ^ 64"
    and r: "receive_messages w q mx vto = (r, q', w')"
  shows "queue_inv (unat (message_id_counter w')) q' \<and>
    unat (message_id_counter w') = unat (message_id_counter w) + length r \<and> length r \<le> mx"
proof (cases "mx = 0 \<or> q_messages q = []")
  case True
  then show ?thesis using r inv by (auto simp: receive_messages_eq)
next
  case False
  define vt where "vt = (case vto of Some v \<Rightarrow> v | None \<Rightarrow> q_visibility_timeout q)"
  define now where "now = clock w (clock_reads w)"
  define n where "n = unat (message_id_counter w)"
  let ?ms = "q_messages q" and ?r = "take mx (visible_indices now (q_messages q))"
  have mc: "message_id_counter w = of_nat n" by (simp add: n_def)
  have r': "r = ?r" and q': "q' = q\<lparr>q_messages := deliver mx vt now (of_nat n) ?ms\<rparr>"
    and w': "message_id_counter w' = of_nat (n + length ?r)"
    using r False by (auto simp: receive_messages_eq Let_def vt_def now_def mc split: option.splits)
  have lr: "n + length ?r < 2 ^ 64" using c by (simp add: n_def)
  have uw: "unat (message_id_counter w') = n + length ?r"
    unfolding w' by (rule unat_of_nat_u64 [OF lr])
  have d: "distinct (map m_receipt_handle (q_messages q'))" and sub:
    "m_receipt_handle ` set (q_messages q')
      \<subseteq> m_receipt_handle ` set ?ms \<union> name_range receipt_handle_of n (length ?r)"
    using deliver_handles [of ?ms n n mx now vt] inv lr by (auto simp: q' queue_inv_def n_def [symmetric])
  have below: "\<forall>m \<in> set (q_messages q'). named_below receipt_handle_of (n + length ?r) (m_receipt_handle m)"
  proof
    fix m
    assume "m \<in> set (q_messages q')"
    then consider m' where "m' \<in> set ?ms" "m_receipt_handle m = m_receipt_handle m'"
      | "m_receipt_handle m \<in> name_range receipt_handle_of n (length ?r)"
      using sub by (metis (no_types, lifting) UnE imageE image_eqI subsetD)
    then show "named_below receipt_handle_of (n + length ?r) (m_receipt_handle m)"
    proof cases
      case 1
      then have "named_below receipt_handle_of n (m_receipt_handle m)"
        using inv by (simp add: queue_inv_def n_def)
      then show ?thesis by (rule rhn.below_mono) simp
    qed (rule rhn.below_range)
  qed
  have "queue_inv n q" using inv by (simp add: n_def)
  from queue_inv_cong [OF this _ _ _ _ d below] have "queue_inv (n + length ?r) q'"
    by (simp add: q' map_deliver mark_received_def)
  then show ?thesis using uw r' by (simp add: n_def)
qed

lemma queue_inv_send:
  assumes inv: "queue_inv (unat (message_id_counter w)) q"
    and c: "unat (message_id_counter w) + 2 < 2 ^ 64" and s: "unat (q_sequence_counter q) + 1 < 2 ^ 64"
    and r: "send_message ext w q body delay attrs gid did = (res, q', w')"
  shows "queue_inv (unat (message_id_counter w')) q' \<and>
    unat (message_id_counter w') \<le> unat (message_id_counter w) + 2 \<and>
    unat (q_sequence_counter q') \<le> unat (q_sequence_counter q) + 1"
proof (cases "is_duplicate q did")
  case True
  then show ?thesis using r inv by (simp add: send_message_duplicate)
next
  case False
  define n where "n = unat (message_id_counter w)"
  have mc: "message_id_counter w = of_nat n" by (simp add: n_def)
  let ?m = "sent_message ext w q body delay attrs gid did"
  have q': "q_messages q' = q_messages q @ [?m]" "q_sequence_counter q' = q_sequence_counter q + 1"
    and w': "message_id_counter w' = of_nat (n + 2)"
    using r False by (auto simp: send_message_accepted Let_def mc)
  have uw: "unat (message_id_counter w') = n + 2"
    unfolding w' using c by (intro unat_of_nat_u64) (simp add: n_def)
  have us: "unat (q_sequence_counter q + 1) = unat (q_sequence_counter q) + 1"
    using s by (subst unat_add_lem [THEN iffD1]) simp_all
  have id: "m_message_id ?m = message_uuid_like (of_nat n)"
    and rh: "m_receipt_handle ?m = receipt_handle_of (of_nat (n + 1))" by (simp_all add: mc add.commute)
  have old: "queue_inv (n + 2) q" using inv by (auto simp: n_def intro: queue_inv_mono)
  have "named_below message_uuid_like (n + 2) (m_message_id ?m)"
    "named_below receipt_handle_of (n + 2) (m_receipt_handle ?m)"
    unfolding id rh named_below_def by (rule exI [of _ n], simp) (rule exI [of _ "n + 1"], simp)
  moreover have "m_message_id ?m \<notin> m_message_id ` set (q_messages q)"
    "m_receipt_handle ?m \<notin> m_receipt_handle ` set (q_messages q)"
    using inv c mid.name_fresh [of n _ n] rhn.name_fresh [of n _ "n + 1"]
    unfolding id rh by (fastforce simp: queue_inv_def n_def [symmetric])+
  ultimately show ?thesis using old us s
    by (auto simp: queue_inv_def q' uw n_def [symmetric] sorted_wrt_append intro: le_imp_less_Suc)
qed

lemma subseq_sorted_wrt: "subseq xs ys \<Longrightarrow> sorted_wrt P ys \<Longrightarrow> sorted_wrt P xs"
  by (induction rule: list_emb.induct) (auto dest: list_emb_set)

lemma distinct_subseq: "subseq xs ys \<Longrightarrow> distinct ys \<Longrightarrow> distinct xs"
  by (induction rule: list_emb.induct) (auto dest: list_emb_set)

lemma queue_inv_subseq:
  assumes "queue_inv c q" "subseq (q_messages q') (q_messages q)"
    and "q_sequence_counter q' = q_sequence_counter q"
  shows "queue_inv c q'"
proof -
  have set: "set (q_messages q') \<subseteq> set (q_messages q)"
    using assms(2) by (auto dest: list_emb_set)
  have map: "subseq (map f (q_messages q')) (map f (q_messages q))" for f :: "SqsMessage \<Rightarrow> 'a"
    using assms(2) by (rule subseq_map)
  show ?thesis
    using assms(1,3) set distinct_subseq [OF map] subseq_sorted_wrt [OF map]
    by (auto simp: queue_inv_def)
qed

lemma queue_inv_delete: "queue_inv c q \<Longrightarrow> queue_inv c (snd (delete_message q rh))"
proof -
  assume inv: "queue_inv c q"
  have sub: "subseq (q_messages (snd (delete_message q rh))) (q_messages q)"
    using delete_message_messages [of q rh] remove_at_subseq by force
  have seq: "q_sequence_counter (snd (delete_message q rh)) = q_sequence_counter q"
    by (simp add: delete_message_def split: option.splits)
  show ?thesis using inv sub by (rule queue_inv_subseq [OF _ _ seq])
qed

lemma queue_inv_change_visibility:
  assumes "queue_inv c q"
  shows "queue_inv c (fst (snd (change_visibility w q rh vt)))"
proof -
  let ?q = "fst (snd (change_visibility w q rh vt))"
  have rh: "map m_receipt_handle (q_messages ?q) = map m_receipt_handle (q_messages q)"
    by (rule change_visibility_messages) simp
  have seq: "q_sequence_counter ?q = q_sequence_counter q"
    by (simp add: change_visibility_def case_prod_beta)
  have "\<forall>m \<in> set (q_messages ?q). named_below receipt_handle_of c (m_receipt_handle m)"
    using assms by (intro ball_map_cong [OF rh]) (auto simp: queue_inv_def)
  with assms rh show ?thesis
    by (intro queue_inv_cong [OF assms _ _ _ seq])
       (auto simp: change_visibility_messages queue_inv_def)
qed

lemma queue_inv_remove_dlq: "queue_inv c q \<Longrightarrow> queue_inv c (remove_dlq_candidates q)"
  by (erule queue_inv_subseq) (auto simp: remove_dlq_candidates_def split: option.splits)

lemma queue_inv_purge: "queue_inv c (purge q)"
  by (simp add: queue_inv_def purge_def)

lemma set_u32_attr_frame:
  "(\<And>n q. f (upd n q) = f q) \<Longrightarrow> f (set_u32_attr attrs key upd q) = f q"
  by (simp add: set_u32_attr_def split: option.splits)

lemma apply_queue_attributes_frame [simp]:
  "q_messages (fst (apply_queue_attributes ext w q attrs)) = q_messages q"
  "q_sequence_counter (fst (apply_queue_attributes ext w q attrs)) = q_sequence_counter q"
  "q_fifo (fst (apply_queue_attributes ext w q attrs)) = q_fifo q"
  "q_dedup_ids (fst (apply_queue_attributes ext w q attrs)) = q_dedup_ids q"
  "q_name (fst (apply_queue_attributes ext w q attrs)) = q_name q"
  "q_url (fst (apply_queue_attributes ext w q attrs)) = q_url q"
  "message_id_counter (snd (apply_queue_attributes ext w q attrs)) = message_id_counter w"
  by (simp_all add: apply_queue_attributes_def utc_now_def Let_def set_u32_attr_frame split: option.splits)

lemma queue_inv_attributes: "queue_inv c q \<Longrightarrow> queue_inv c (fst (apply_queue_attributes ext w q attrs))"
  by (simp add: queue_inv_def)

lemma run_queue_op_inv:
  assumes inv: "queue_inv (unat (message_id_counter w)) q"
    and c: "unat (message_id_counter w) + id_cost op < 2 ^ 64"
    and s: "unat (q_sequence_counter q) + 1 < 2 ^ 64"
    and r: "run_queue_op ext op (q, w) = (q', w')"
  shows "queue_inv (unat (message_id_counter w')) q' \<and>
    unat (message_id_counter w') \<le> unat (message_id_counter w) + id_cost op \<and>
    unat (q_sequence_counter q') \<le> unat (q_sequence_counter q) + 1"
proof (cases op)
  case (Send body delay attrs gid did)
  obtain res where "send_message ext w q body delay attrs gid did = (res, q', w')"
    using r Send by (metis prod.collapse run_queue_op.simps(1))
  from queue_inv_send [OF inv _ s this] c Send show ?thesis by simp
next
  case (Receive mx vto)
  obtain res where rc: "receive_messages w q mx vto = (res, q', w')"
    using r Receive by (metis prod.collapse run_queue_op.simps(2))
  then have "q_sequence_counter q' = q_sequence_counter q"
    by (auto simp: receive_messages_eq Let_def split: if_splits)
  with queue_inv_receive [OF inv _ rc] c Receive show ?thesis by auto
next
  case (Delete rh)
  have "q_sequence_counter (snd (delete_message q rh)) = q_sequence_counter q"
    by (simp add: delete_message_def split: option.splits)
  with r Delete queue_inv_delete [OF inv] show ?thesis by auto
next
  case (ChangeVisibility rh vt)
  have "q_sequence_counter (fst (snd (change_visibility w q rh vt))) = q_sequence_counter q"
    "message_id_counter (snd (snd (change_visibility w q rh vt))) = message_id_counter w"
    by (simp_all add: change_visibility_def case_prod_beta change_visibility_loop_world)
  with r ChangeVisibility queue_inv_change_visibility [OF inv, of w rh vt] show ?thesis
    by (metis fst_conv le_add1 run_queue_op.simps(4) snd_conv)
next
  case Purge
  with r show ?thesis using queue_inv_purge by (auto simp: purge_def)
next
  case RemoveDlq
  with r show ?thesis using queue_inv_remove_dlq [OF inv]
    by (auto simp: remove_dlq_candidates_def split: option.splits)
next
  case (SetAttributes attrs)
  with r show ?thesis
    using queue_inv_attributes [OF inv, of ext w attrs] apply_queue_attributes_frame [of ext w q attrs] by simp
qed

lemma run_queue_ops_inv:
  assumes "queue_inv (unat (message_id_counter w)) q"
    and "unat (message_id_counter w) + sum_list (map id_cost ops) < 2 ^ 64"
    and "unat (q_sequence_counter q) + length ops < 2 ^ 64"
    and "run_queue_ops ext ops (q, w) = (q', w')"
  shows "queue_inv (unat (message_id_counter w')) q'"
  using assms
proof (induction ops arbitrary: q w)
  case (Cons op ops)
  obtain q1 w1 where 1: "run_queue_op ext op (q, w) = (q1, w1)" by fastforce
  have inv: "queue_inv (unat (message_id_counter w1)) q1"
    "unat (message_id_counter w1) \<le> unat (message_id_counter w) + id_cost op"
    "unat (q_sequence_counter q1) \<le> unat (q_sequence_counter q) + 1"
    using run_queue_op_inv [OF Cons.prems(1) _ _ 1] Cons.prems(2,3) by simp_all
  from Cons.IH [OF inv(1)] inv(2,3) Cons.prems(2,3,4) 1 show ?case
    by (simp add: run_queue_ops_def)
qed (simp add: run_queue_ops_def)

section \<open>Properties of a queue\<close>

lemma SqsQueue_new_inv:
  "queue_inv c (fst (SqsQueue_new w name base account region))"
  "q_messages (fst (SqsQueue_new w name base account region)) = []"
  "q_sequence_counter (fst (SqsQueue_new w name base account region)) = 0"
  "message_id_counter (snd (SqsQueue_new w name base account region)) = message_id_counter w"
  by (simp_all add: SqsQueue_new_def queue_inv_def utc_now_def Let_def)

text \<open>In a queue that was created by \<open>SqsQueue_new\<close> and went through any sequence of sends,
  receives, deletions, visibility and attribute changes, purges and dead-letter sweeps, no two messages share a
  message identifier or a receipt handle, and sequence numbers increase from the front to the
  back, as long as the 64-bit counters do not wrap.\<close>

theorem queue_identifiers_unique:
  assumes "SqsQueue_new w name base account region = (q0, w0)"
    and "run_queue_ops ext ops (q0, w0) = (q, w')"
    and "unat (message_id_counter w) + sum_list (map id_cost ops) < 2 ^ 64"
    and "length ops < 2 ^ 64"
  shows "distinct (map m_message_id (q_messages q)) \<and>
    distinct (map m_receipt_handle (q_messages q)) \<and>
    sorted_wrt (<) (map (\<lambda>m. unat (m_sequence_number m)) (q_messages q))"
proof -
  have "queue_inv (unat (message_id_counter w')) q"
    using run_queue_ops_inv [of w0 q0 ops ext q w'] 
      SqsQueue_new_inv(1) [of "unat (message_id_counter w0)" w name base account region]
      SqsQueue_new_inv(2-) [of w name base account region] assms
    by simp
  then show ?thesis by (simp add: queue_inv_def)
qed

lemma receive_specD:
  assumes "receive_messages w q mx vto = (r, q', w')"
  defines "now \<equiv> clock w (clock_reads w)"
  defines "vt \<equiv> (case vto of Some v \<Rightarrow> v | None \<Rightarrow> q_visibility_timeout q)"
  shows "r = take mx (visible_indices now (q_messages q))"
    and "q' = q\<lparr>q_messages := deliver mx vt now (message_id_counter w) (q_messages q)\<rparr>"
    and "message_id_counter w' = message_id_counter w + of_nat (length r)"
    and "clock w' = clock w"
  using assms by (auto simp: receive_messages_eq Let_def split: if_splits)

lemma visible_indices_in: "i \<in> set (take k (visible_indices now ms)) \<Longrightarrow> i < length ms \<and> is_visible_at (ms ! i) now"
  by (auto simp: visible_indices_def dest: in_set_takeD)

text \<open>C21: Both the single-message fast path and the general loop of \<^verbatim>\<open>receive_messages\<close> return the
  positions of the first \<open>mx\<close> messages visible at the time of the call; every other message is
  untouched and the \<open>j\<close>-th returned one gets the \<open>j\<close>-th fresh receipt handle, one more on its receive
  count and its new visibility deadline.\<close>

theorem receive_messages_spec:
  assumes "receive_messages w q mx vto = (r, q', w')"
  shows "r = take mx (visible_indices (clock w (clock_reads w)) (q_messages q)) \<and>
    length (q_messages q') = length (q_messages q) \<and>
    (\<forall>i < length (q_messages q). i \<notin> set r \<longrightarrow> q_messages q' ! i = q_messages q ! i) \<and>
    (\<forall>j < length r. q_messages q' ! (r ! j) =
       mark_received (case vto of Some v \<Rightarrow> v | None \<Rightarrow> q_visibility_timeout q)
         (clock w (clock_reads w)) (message_id_counter w + of_nat j) (q_messages q ! (r ! j)))"
  using receive_specD [OF assms] by (auto simp: deliver_unreceived deliver_received)

lemma received_handles:
  assumes "receive_messages w q mx vto = (r, q', w')" "j < length r"
  shows "r ! j < length (q_messages q')"
    and "m_receipt_handle (q_messages q' ! (r ! j)) = receipt_handle_of (message_id_counter w + of_nat j)"
proof -
  note D = receive_specD [OF assms(1)]
  have "r ! j \<in> set r" using assms(2) by simp
  then show "r ! j < length (q_messages q')"
    using visible_indices_in D(1,2) by auto
  show "m_receipt_handle (q_messages q' ! (r ! j)) = receipt_handle_of (message_id_counter w + of_nat j)"
    using assms(2) D(1,2) by (simp add: deliver_received mark_received_def)
qed

lemma position_distinct:
  assumes "distinct (map f xs)" "i < length xs"
  shows "position (\<lambda>x. f x = f (xs ! i)) xs = Some i"
  using assms by (intro position_first) (auto simp: distinct_conv_nth)

lemma old_handle_gone:
  assumes inv: "queue_inv (unat (message_id_counter w)) q"
    and c: "unat (message_id_counter w) + mx < 2 ^ 64"
    and r: "receive_messages w q mx vto = (r, q', w')" and i: "i \<in> set r"
  shows "\<forall>m \<in> set (q_messages q'). m_receipt_handle m \<noteq> m_receipt_handle (q_messages q ! i)"
proof
  fix m
  assume "m \<in> set (q_messages q')"
  then obtain k where k: "k < length (q_messages q')" "m = q_messages q' ! k" by (auto simp: in_set_conv_nth)
  note D = receive_specD [OF r]
  have len: "length (q_messages q') = length (q_messages q)" by (simp add: D(2))
  have il: "i < length (q_messages q)" using i visible_indices_in D(1) by auto
  show "m_receipt_handle m \<noteq> m_receipt_handle (q_messages q ! i)"
  proof (cases "k \<in> set r")
    case True
    then obtain j where j: "j < length r" "k = r ! j" by (auto simp: in_set_conv_nth)
    have "length r \<le> mx" by (simp add: D(1))
    then have lt: "unat (message_id_counter w) + j < 2 ^ 64" using c j by simp
    have "message_id_counter w + of_nat j = of_nat (unat (message_id_counter w) + j)" by simp
    then have "m_receipt_handle m = receipt_handle_of (of_nat (unat (message_id_counter w) + j))"
      using received_handles(2) [OF r j(1)] k j by metis
    moreover have "named_below receipt_handle_of (unat (message_id_counter w)) (m_receipt_handle (q_messages q ! i))"
      using inv il by (simp add: queue_inv_def)
    ultimately show ?thesis
      using rhn.name_fresh [OF _ _ lt, of _ "m_receipt_handle (q_messages q ! i)"] by (metis le_add1)
  next
    case False
    then have "m = q_messages q ! k"
      using k len D by (simp add: deliver_unreceived)
    moreover have "k \<noteq> i" using False i by auto
    ultimately show ?thesis using inv k(1) len il by (auto simp: queue_inv_def distinct_conv_nth)
  qed
qed

text \<open>After a receive, the receipt handle it returned deletes exactly that message, and the handle
  the message had before deletes nothing.\<close>

theorem delete_by_current_handle:
  assumes "queue_inv (unat (message_id_counter w)) q"
    and "unat (message_id_counter w) + mx < 2 ^ 64"
    and "receive_messages w q mx vto = (r, q', w')" and "i \<in> set r"
  shows "delete_message q' (m_receipt_handle (q_messages q' ! i)) =
           (True, q'\<lparr>q_messages := remove_at i (q_messages q')\<rparr>) \<and>
         delete_message q' (m_receipt_handle (q_messages q ! i)) = (False, q')"
proof -
  have "distinct (map m_receipt_handle (q_messages q'))"
    using queue_inv_receive [OF assms(1,2,3)] by (simp add: queue_inv_def)
  moreover have "i < length (q_messages q')"
    using assms(4) visible_indices_in receive_specD(1,2) [OF assms(3)] by auto
  ultimately have "position (\<lambda>m. m_receipt_handle m = m_receipt_handle (q_messages q' ! i)) (q_messages q') = Some i"
    by (rule position_distinct)
  moreover have "position (\<lambda>m. m_receipt_handle m = m_receipt_handle (q_messages q ! i)) (q_messages q') = None"
    using old_handle_gone [OF assms] by (simp add: position_NoneD)
  ultimately show ?thesis by (simp add: delete_message_def)
qed

text \<open>A message that was received is not received again before its visibility timeout has passed,
  and is received again by a large enough receive after it.\<close>

theorem visibility_timeout_window:
  assumes "receive_messages w q mx vto = (r, q', w')"
    and "receive_messages w' q' mx' vto' = (r', q'', w'')"
    and "vt = (case vto of Some v \<Rightarrow> v | None \<Rightarrow> q_visibility_timeout q)"
    and "deadline = clock w (clock_reads w) + duration_seconds vt"
    and "now' = clock w' (clock_reads w')" and "vt > 0"
  shows "(now' < deadline \<longrightarrow> set r \<inter> set r' = {}) \<and>
    (now' \<ge> deadline \<longrightarrow> length (q_messages q) \<le> mx' \<longrightarrow> set r \<subseteq> set r')"
proof -
  note D = receive_specD [OF assms(1)] and D' = receive_specD [OF assms(2)]
  have vis: "m_visible_after (q_messages q' ! i) = Some deadline" "i < length (q_messages q')" if i: "i \<in> set r" for i
  proof -
    obtain j where "j < length r" "i = r ! j" using i by (auto simp: in_set_conv_nth)
    then show "m_visible_after (q_messages q' ! i) = Some deadline"
      using D(1,2) assms(3,4,6) by (simp add: deliver_received mark_received_def word_gt_0)
    show "i < length (q_messages q')" using i D visible_indices_in by auto
  qed
  have "deadline \<le> now'" if "i \<in> set r" "i \<in> set r'" for i
    using that(2) visible_indices_in D'(1) assms(5) vis(1) [OF that(1)] by (fastforce simp: is_visible_at_def)
  moreover have "i \<in> set r'" if "i \<in> set r" "is_visible_at (q_messages q' ! i) now'" "length (q_messages q) \<le> mx'" for i
  proof -
    have "length (visible_indices now' (q_messages q')) \<le> length (q_messages q)"
      using length_filter_le [of _ "[0..<length (q_messages q')]"] by (simp add: visible_indices_def D(2))
    then have "r' = visible_indices now' (q_messages q')" using that(3) D'(1) assms(5) by simp
    then show ?thesis using that vis by (simp add: visible_indices_def)
  qed
  ultimately show ?thesis using vis by (fastforce simp: is_visible_at_def)
qed

subsection \<open>Order and deduplication\<close>

lemma dedup_ids_mono:
  assumes "run_queue_op ext op (q, w) = (q', w')" "contains_key (q_dedup_ids q) d"
  shows "contains_key (q_dedup_ids q') d \<and> q_fifo q' = q_fifo q"
proof (cases op)
  case (Send body delay attrs gid did)
  then show ?thesis using assms
    by (cases "is_duplicate q did")
       (auto simp: send_message_duplicate send_message_accepted contains_key_def update_conv' Let_def
          split: option.splits)
next
  case (SetAttributes attrs)
  then show ?thesis using assms apply_queue_attributes_frame [of ext w q attrs] by simp
qed (use assms in \<open>auto simp: receive_messages_eq delete_message_def change_visibility_def purge_def
       remove_dlq_candidates_def Let_def case_prod_beta split: if_splits option.splits\<close>)

lemma dedup_ids_run:
  assumes "run_queue_ops ext ops (q, w) = (q', w')" "contains_key (q_dedup_ids q) d"
  shows "contains_key (q_dedup_ids q') d \<and> q_fifo q' = q_fifo q"
  using assms
proof (induction ops arbitrary: q w)
  case (Cons op ops)
  obtain q1 w1 where "run_queue_op ext op (q, w) = (q1, w1)" by fastforce
  with dedup_ids_mono [OF this Cons.prems(2)] Cons.IH [of q1 w1] Cons.prems(1) show ?case
    by (simp add: run_queue_ops_def)
qed (simp add: run_queue_ops_def)

text \<open>On a FIFO queue a deduplication identifier that was used once is refused after any sequence of
  further operations: the send returns nothing and changes neither the queue nor the counters.\<close>

theorem fifo_deduplication_permanent:
  assumes "q_fifo q"
    and "send_message ext w q body delay attrs gid (Some d) = (res, q1, w1)"
    and "run_queue_ops ext ops (q1, w1) = (q2, w2)"
  shows "send_message ext w2 q2 body' delay' attrs' gid' (Some d) = (None, q2, w2)"
proof -
  have "contains_key (q_dedup_ids q1) d \<and> q_fifo q1"
    using assms(1,2) by (cases "is_duplicate q (Some d)")
      (auto simp: send_message_duplicate send_message_accepted is_duplicate_def contains_key_def update_conv' Let_def)
  with dedup_ids_run [OF assms(3), of d] show ?thesis by (simp add: send_message_dup)
qed

text \<open>
  A queue in which every operation keeps the order of what is there and appends what it
  sends at the end: \<open>content\<close> reads the queue's entries in order, \<open>sent\<close> is what an operation
  adds in a state.
\<close>

locale ordered_queue =
  fixes step :: "'op \<Rightarrow> 's \<Rightarrow> 's" and content :: "'s \<Rightarrow> 'a list" and sent :: "'op \<Rightarrow> 's \<Rightarrow> 'a list"
    and removes :: "'op \<Rightarrow> bool"
  assumes step_subseq: "subseq (content (step op s)) (content s @ sent op s)"
    and step_keeps: "\<not> removes op \<Longrightarrow> content (step op s) = content s @ sent op s"
begin

fun sent_by :: "'op list \<Rightarrow> 's \<Rightarrow> 'a list" where
  "sent_by [] s = []"
| "sent_by (op # ops) s = sent op s @ sent_by ops (step op s)"

lemma run_subseq: "subseq (content (fold step ops s)) (content s @ sent_by ops s)"
proof (induction ops arbitrary: s)
  case (Cons op ops)
  have "subseq (content (step op s) @ sent_by ops (step op s)) ((content s @ sent op s) @ sent_by ops (step op s))"
    by (rule list_emb_append_mono [OF step_subseq]) simp
  from subseq_order.order_trans [OF Cons.IH this] show ?case by simp
qed simp

lemma run_keeps: "\<forall>op \<in> set ops. \<not> removes op \<Longrightarrow> content (fold step ops s) = content s @ sent_by ops s"
  by (induction ops arbitrary: s) (simp_all add: step_keeps)

end

definition queue_entries :: "SqsQueue \<times> world \<Rightarrow> (string \<times> string) list" where
  "queue_entries s = map (\<lambda>m. (m_message_id m, m_body m)) (q_messages (fst s))"

fun sent_entries :: "externs \<Rightarrow> queue_op \<Rightarrow> SqsQueue \<times> world \<Rightarrow> (string \<times> string) list" where
  "sent_entries ext (Send body delay attrs gid did) (q, w) =
     (case fst (send_message ext w q body delay attrs gid did) of
        Some res \<Rightarrow> [(r_message_id res, body)] | None \<Rightarrow> [])"
| "sent_entries ext op s = []"

fun run_sent :: "externs \<Rightarrow> queue_op list \<Rightarrow> SqsQueue \<times> world \<Rightarrow> (string \<times> string) list" where
  "run_sent ext [] s = []"
| "run_sent ext (op # ops) s = sent_entries ext op s @ run_sent ext ops (run_queue_op ext op s)"

definition removing :: "queue_op \<Rightarrow> bool" where
  "removing op = (case op of Delete _ \<Rightarrow> True | Purge \<Rightarrow> True | RemoveDlq \<Rightarrow> True | _ \<Rightarrow> False)"

lemma queue_op_entries:
  "\<not> removing op \<Longrightarrow> queue_entries (run_queue_op ext op s) = queue_entries s @ sent_entries ext op s"
proof (cases s)
  case (Pair q w)
  assume nr: "\<not> removing op"
  show ?thesis
  proof (cases op)
    case (Send body delay attrs gid did)
    then show ?thesis using Pair
      by (cases "is_duplicate q did")
         (auto simp: queue_entries_def send_message_duplicate send_message_accepted Let_def)
  next
    case (Receive mx vto)
    obtain r q' w' where rc: "receive_messages w q mx vto = (r, q', w')" by (metis prod_cases3)
    have "queue_entries (q', w') = queue_entries (q, w)"
      unfolding queue_entries_def using receive_specD(2) [OF rc]
      by (simp add: map_deliver mark_received_def)
    then show ?thesis using rc Receive Pair by simp
  qed (use nr Pair in \<open>simp_all add: removing_def queue_entries_def change_visibility_messages\<close>)
qed

lemma queue_op_entries_subseq:
  "subseq (queue_entries (run_queue_op ext op s)) (queue_entries s @ sent_entries ext op s)"
proof (cases s)
  case (Pair q w)
  have del: "subseq (q_messages (snd (delete_message q rh))) (q_messages q)" for rh
    using delete_message_messages [of q rh] remove_at_subseq by force
  show ?thesis
  proof (cases "removing op")
    case True
    then show ?thesis using Pair del
      by (cases op) (auto simp: removing_def queue_entries_def purge_def remove_dlq_candidates_def
          intro!: subseq_map split: option.splits)
  qed (simp add: queue_op_entries)
qed

interpretation oq: ordered_queue "run_queue_op ext" queue_entries "sent_entries ext" removing for ext
  by unfold_locales (auto intro: queue_op_entries queue_op_entries_subseq)

lemma run_sent_eq: "run_sent ext ops s = oq.sent_by ext ops s"
  by (induction ops arbitrary: s) simp_all

text \<open>C22: After any run of operations the messages in the queue (identifier and body) are, in order, a
  subsequence of those there before followed by those sent; if no operation deletes, purges or
  sweeps, they are exactly these: nothing is lost, duplicated or reordered.\<close>

theorem queue_order_preserved:
  assumes "run_queue_ops ext ops s = s'"
  shows "subseq (queue_entries s') (queue_entries s @ run_sent ext ops s) \<and>
    ((\<forall>op \<in> set ops. \<not> removing op) \<longrightarrow> queue_entries s' = queue_entries s @ run_sent ext ops s)"
  unfolding run_sent_eq using oq.run_subseq [of ext ops s] oq.run_keeps [of ops ext s] assms
  by (auto simp: run_queue_ops_def)

definition demo_externs :: externs where
  "demo_externs = \<lparr>md5_digest = rev, hex_encode = (\<lambda>s. s), json_from_slice = (\<lambda>_. None),
     json_to_string = (\<lambda>_. []), header_to_str = Some\<rparr>"

definition demo_world :: world where
  "demo_world = \<lparr>message_id_counter = 7, request_id_counter = 1, clock = (\<lambda>i. 1000000000 * int i), clock_reads = 0\<rparr>"

lemma demo_world_fields [simp]:
  "message_id_counter demo_world = 7" "request_id_counter demo_world = 1"
  "clock demo_world i = 1000000000 * int i" "clock_reads demo_world = 0"
  by (simp_all add: demo_world_def)

definition demo_ops :: "queue_op list" where
  "demo_ops = [Send ''a'' None [] None None, Send ''b'' None [] None (Some ''d''), Receive 1 None,
     Send ''c'' (Some 5) [] None None, Receive 10 (Some 2), Delete ''rh-000000000000000b'']"

theorem queue_identifiers_unique_witness:
  "distinct (map m_receipt_handle (q_messages (fst (run_queue_ops demo_externs demo_ops
     (SqsQueue_new demo_world ''jobs.fifo'' ''http://h'' ''000000000000'' ''us-east-1'')))))"
proof -
  let ?s = "SqsQueue_new demo_world ''jobs.fifo'' ''http://h'' ''000000000000'' ''us-east-1''"
  let ?t = "run_queue_ops demo_externs demo_ops ?s"
  have "unat (message_id_counter demo_world) + sum_list (map id_cost demo_ops) < 2 ^ 64" "length demo_ops < 2 ^ 64"
    by (simp_all add: demo_ops_def demo_world_def)
  with queue_identifiers_unique [of demo_world "''jobs.fifo''" "''http://h''" "''000000000000''" "''us-east-1''"
      "fst ?s" "snd ?s" demo_externs demo_ops "fst ?t" "snd ?t"]
  show ?thesis by simp
qed

text \<open>A concrete FIFO queue with two messages, the first of them not yet visible.\<close>

definition demo_message :: "u64 \<Rightarrow> u64 \<Rightarrow> int option \<Rightarrow> string \<Rightarrow> SqsMessage" where
  "demo_message n seq va body =
     \<lparr>m_message_id = message_uuid_like n, m_receipt_handle = receipt_handle_of (n + 1), m_body = body,
      m_md5_of_body = rev body, m_attributes = [], m_message_attributes = [], m_sent_at = 0,
      m_visible_after = va, m_receive_count = 0, m_delay_seconds = 0, m_message_group_id = None,
      m_message_deduplication_id = None, m_sequence_number = seq\<rparr>"

definition demo_queue :: SqsQueue where
  "demo_queue = (fst (SqsQueue_new demo_world ''jobs.fifo'' ''http://h'' ''000000000000'' ''us-east-1''))
     \<lparr>q_messages := [demo_message 0 1 (Some 9) ''a'', demo_message 2 2 None ''b''], q_sequence_counter := 2\<rparr>"

lemma demo_queue_fields [simp]:
  "q_messages demo_queue = [demo_message 0 1 (Some 9) ''a'', demo_message 2 2 None ''b'']"
  "q_sequence_counter demo_queue = 2" "q_visibility_timeout demo_queue = 30"
  "q_fifo demo_queue" "q_dedup_ids demo_queue = []" "q_redrive_policy demo_queue = None"
  by (simp_all add: demo_queue_def SqsQueue_new_def utc_now_def ends_with_def)

lemma demo_queue_inv: "queue_inv (unat (message_id_counter demo_world)) demo_queue"
proof -
  have "named_below f 7 (f 0)" "named_below f 7 (f 1)" "named_below f 7 (f 2)" "named_below f 7 (f 3)" for f
    unfolding named_below_def
    by (rule exI [of _ 0], simp, rule exI [of _ 1], simp, rule exI [of _ 2], simp, rule exI [of _ 3], simp)
  then show ?thesis
    by (auto simp: queue_inv_def demo_message_def demo_world_def dest: message_uuid_like_inject receipt_handle_of_inject)
qed

lemma demo_receive:
  "receive_messages demo_world demo_queue 5 None =
     ([1], demo_queue\<lparr>q_messages := [demo_message 0 1 (Some 9) ''a'', mark_received 30 0 7 (demo_message 2 2 None ''b'')]\<rparr>,
      demo_world\<lparr>clock_reads := 1, message_id_counter := 8\<rparr>)"
  by (simp add: receive_messages_eq visible_indices_def demo_world_def demo_message_def is_visible_at_def)

theorem receive_messages_spec_witness:
  "[1] = take 5 (visible_indices 0 (q_messages demo_queue)) \<and>
   m_receipt_handle (mark_received 30 0 7 (demo_message 2 2 None ''b'')) = ''rh-0000000000000007''"
proof -
  have "receipt_handle_of 7 = ''rh-0000000000000007''" by code_simp
  with receive_messages_spec [OF demo_receive] show ?thesis by (simp add: demo_world_def mark_received_def)
qed

theorem delete_by_current_handle_witness:
  "fst (delete_message (fst (snd (receive_messages demo_world demo_queue 5 None))) (receipt_handle_of 7)) \<and>
   \<not> fst (delete_message (fst (snd (receive_messages demo_world demo_queue 5 None))) (receipt_handle_of 3))"
proof -
  let ?q = "fst (snd (receive_messages demo_world demo_queue 5 None))"
  have rh: "m_receipt_handle (q_messages ?q ! 1) = receipt_handle_of 7"
    "m_receipt_handle (q_messages demo_queue ! 1) = receipt_handle_of 3"
    by (simp_all add: demo_receive mark_received_def demo_message_def)
  have "fst (delete_message ?q (m_receipt_handle (q_messages ?q ! 1))) \<and>
        \<not> fst (delete_message ?q (m_receipt_handle (q_messages demo_queue ! 1)))"
    using delete_by_current_handle [OF demo_queue_inv _ demo_receive, of 1] by (simp add: demo_receive)
  then show ?thesis unfolding rh .
qed

theorem visibility_timeout_window_witness:
  "set [1] \<inter> set (fst (receive_messages (demo_world\<lparr>clock_reads := 1, message_id_counter := 8\<rparr>)
      (demo_queue\<lparr>q_messages := [demo_message 0 1 (Some 9) ''a'', mark_received 30 0 7 (demo_message 2 2 None ''b'')]\<rparr>)
      10 None)) = {}"
proof -
  let ?w = "demo_world\<lparr>clock_reads := 1, message_id_counter := 8\<rparr>"
  obtain r q w where x: "receive_messages ?w (demo_queue\<lparr>q_messages := [demo_message 0 1 (Some 9) ''a'',
      mark_received 30 0 7 (demo_message 2 2 None ''b'')]\<rparr>) 10 None = (r, q, w)" by (metis prod_cases3)
  have vt: "30 = (case None of Some v \<Rightarrow> v | None \<Rightarrow> q_visibility_timeout demo_queue)"
    and dl: "30000000000 = clock demo_world (clock_reads demo_world) + duration_seconds 30"
    and now: "1000000000 = clock ?w (clock_reads ?w)" by (simp_all add: duration_seconds_def)
  have "set [1] \<inter> set r = {}"
    using visibility_timeout_window [OF demo_receive x vt dl now] by simp
  then show ?thesis unfolding x by simp
qed

theorem fifo_deduplication_permanent_witness:
  "fst (send_message demo_externs
      (snd (run_queue_ops demo_externs demo_ops (snd (send_message demo_externs demo_world demo_queue ''x'' None [] None (Some ''k'')))))
      (fst (run_queue_ops demo_externs demo_ops (snd (send_message demo_externs demo_world demo_queue ''x'' None [] None (Some ''k'')))))
      ''y'' None [] None (Some ''k'')) = None"
  using fifo_deduplication_permanent [of demo_queue demo_externs demo_world "''x''" None "[]" None "''k''"]
  by (metis demo_queue_fields(4) fst_conv prod.collapse)

theorem queue_order_preserved_witness:
  "queue_entries (run_queue_ops demo_externs (take 2 demo_ops) (demo_queue, demo_world)) =
     queue_entries (demo_queue, demo_world) @ run_sent demo_externs (take 2 demo_ops) (demo_queue, demo_world)"
  using queue_order_preserved [of demo_externs "take 2 demo_ops" "(demo_queue, demo_world)"]
  by (simp add: demo_ops_def removing_def)

end
