(* ===== verification/Account_Bundle.thy ===== *)
theory Account_Bundle
  imports Rust_Collections
begin

text \<open>
  The crate \<^verbatim>\<open>state\<close>: scoping keys (\<^verbatim>\<open>scoping.rs\<close>) and the stores kept per account and
  region or per account (\<^verbatim>\<open>bundle.rs\<close>). A mutable reference into the concurrent map is a
  read of the entry followed by a write back of the new value (\<open>write_back\<close>); the map holds
  the entry's lock in between, so the two are one step. The locale \<open>scoped_store\<close> states the
  tenancy contract, interpreted for both kinds of bundle; its lemma \<open>run_isolated\<close> says that
  a scope sees only its own operations.
\<close>

section \<open>Scoping keys\<close>

datatype AccountRegionKey = AccountRegionKey string

definition AccountRegionKey_new :: "string \<Rightarrow> string \<Rightarrow> AccountRegionKey" where
  "AccountRegionKey_new account_id region = AccountRegionKey (account_id @ [CHR 0x00] @ region)"

fun borrow_str :: "AccountRegionKey \<Rightarrow> string" where
  "borrow_str (AccountRegionKey s) = s"

definition key_account_id :: "AccountRegionKey \<Rightarrow> string" where
  "key_account_id k =
     (case split_once (CHR 0x00) (borrow_str k) of Some (a, _) \<Rightarrow> a | None \<Rightarrow> borrow_str k)"

definition key_region :: "AccountRegionKey \<Rightarrow> string" where
  "key_region k = (case split_once (CHR 0x00) (borrow_str k) of Some (_, r) \<Rightarrow> r | None \<Rightarrow> [])"

section \<open>Bundles\<close>

record 's AccountRegionBundle =
  stores :: "(AccountRegionKey, 's) hash_map"

definition bundle_new :: "'s AccountRegionBundle" where
  "bundle_new = \<lparr>stores = []\<rparr>"

text \<open>\<^verbatim>\<open>DashMap::get\<close> with a borrowed key: the entry whose key borrows as that string.\<close>

definition lookup_borrowed :: "(AccountRegionKey, 's) hash_map \<Rightarrow> string \<Rightarrow> 's option" where
  "lookup_borrowed m s = map_option snd (find (\<lambda>(k, _). borrow_str k = s) m)"

definition get_or_create ::
  "'s \<Rightarrow> 's AccountRegionBundle \<Rightarrow> string \<Rightarrow> string \<Rightarrow> 's \<times> 's AccountRegionBundle" where
  "get_or_create dflt b account_id region =
     (let key = AccountRegionKey_new account_id region in
      case hm_get (stores b) key of
        Some s \<Rightarrow> (s, b)
      | None \<Rightarrow> (dflt, b\<lparr>stores := hm_insert key dflt (stores b)\<rparr>))"

text \<open>\<^verbatim>\<open>buf[off..off+n].copy_from_slice(xs)\<close>\<close>

definition copy_from_slice :: "nat \<Rightarrow> string \<Rightarrow> string \<Rightarrow> string" where
  "copy_from_slice off xs buf = take off buf @ xs @ drop (off + length xs) buf"

definition stack_key :: "string \<Rightarrow> string \<Rightarrow> string" where
  "stack_key a r =
     (let total = length a + 1 + length r;
          buf = replicate 64 (CHR 0x00);
          buf = copy_from_slice 0 a buf;
          buf = buf[length a := CHR 0x00];
          buf = copy_from_slice (length a + 1) r buf
      in take total buf)"

definition bundle_get :: "'s AccountRegionBundle \<Rightarrow> string \<Rightarrow> string \<Rightarrow> 's option" where
  "bundle_get b account_id region =
     (let total = length account_id + 1 + length region in
      if total \<le> 63 then lookup_borrowed (stores b) (stack_key account_id region)
      else lookup_borrowed (stores b) (borrow_str (AccountRegionKey_new account_id region)))"

definition bundle_get_mut :: "'s AccountRegionBundle \<Rightarrow> string \<Rightarrow> string \<Rightarrow> 's option" where
  "bundle_get_mut b account_id region =
     (let total = length account_id + 1 + length region in
      if total \<le> 63 then lookup_borrowed (stores b) (stack_key account_id region)
      else lookup_borrowed (stores b) (borrow_str (AccountRegionKey_new account_id region)))"

text \<open>The write through the guard that \<^const>\<open>get_or_create\<close> and \<^const>\<open>bundle_get_mut\<close> hand out.\<close>

definition write_back ::
  "'s AccountRegionBundle \<Rightarrow> string \<Rightarrow> string \<Rightarrow> 's \<Rightarrow> 's AccountRegionBundle" where
  "write_back b account_id region s =
     b\<lparr>stores := hm_insert (AccountRegionKey_new account_id region) s (stores b)\<rparr>"

definition bundle_iter :: "'s AccountRegionBundle \<Rightarrow> (AccountRegionKey \<times> 's) list" where
  "bundle_iter b = stores b"

definition bundle_len :: "'s AccountRegionBundle \<Rightarrow> nat" where
  "bundle_len b = length (stores b)"

definition bundle_is_empty :: "'s AccountRegionBundle \<Rightarrow> bool" where
  "bundle_is_empty b \<longleftrightarrow> stores b = []"

definition bundle_clear :: "'s AccountRegionBundle \<Rightarrow> 's AccountRegionBundle" where
  "bundle_clear b = b\<lparr>stores := []\<rparr>"

record 's AccountBundle =
  account_stores :: "(string, 's) hash_map"

definition account_bundle_new :: "'s AccountBundle" where
  "account_bundle_new = \<lparr>account_stores = []\<rparr>"

definition account_get_or_create :: "'s \<Rightarrow> 's AccountBundle \<Rightarrow> string \<Rightarrow> 's \<times> 's AccountBundle" where
  "account_get_or_create dflt b account_id =
     (case hm_get (account_stores b) account_id of
        Some s \<Rightarrow> (s, b)
      | None \<Rightarrow> (dflt, b\<lparr>account_stores := hm_insert account_id dflt (account_stores b)\<rparr>))"

definition account_get :: "'s AccountBundle \<Rightarrow> string \<Rightarrow> 's option" where
  "account_get b account_id = hm_get (account_stores b) account_id"

definition account_write_back :: "'s AccountBundle \<Rightarrow> string \<Rightarrow> 's \<Rightarrow> 's AccountBundle" where
  "account_write_back b account_id s = b\<lparr>account_stores := hm_insert account_id s (account_stores b)\<rparr>"

definition account_clear :: "'s AccountBundle \<Rightarrow> 's AccountBundle" where
  "account_clear b = b\<lparr>account_stores := []\<rparr>"

section \<open>Lookup\<close>

lemma stack_key_eq:
  assumes "length a + 1 + length r \<le> 63"
  shows "stack_key a r = borrow_str (AccountRegionKey_new a r)"
proof -
  let ?z = "\<lambda>n. replicate n (CHR 0x00)"
  have 1: "copy_from_slice 0 a (?z 64) = a @ ?z (64 - length a)"
    by (simp add: copy_from_slice_def)
  have 2: "(a @ ?z (64 - length a))[length a := CHR 0x00] = a @ ?z (64 - length a)"
    by (simp add: list_update_append) (metis list_update_same_conv nth_replicate list_update_beyond
        length_replicate not_less)
  have 3: "copy_from_slice (length a + 1) r (a @ ?z (64 - length a))
      = a @ [CHR 0x00] @ r @ ?z (63 - (length a + length r))"
    using assms by (simp add: copy_from_slice_def min_def Suc_diff_le [symmetric])
  show ?thesis
    by (simp only: stack_key_def Let_def 1 2 3) (simp add: AccountRegionKey_new_def)
qed

lemma lookup_borrowed_eq: "lookup_borrowed m (borrow_str k) = map_of m k"
proof (induction m)
  case (Cons p m)
  then show ?case by (cases p; cases k; cases "fst p") (auto simp: lookup_borrowed_def)
qed (simp add: lookup_borrowed_def)

lemma bundle_get_eq: "bundle_get b a r = map_of (stores b) (AccountRegionKey_new a r)"
  by (simp add: bundle_get_def Let_def stack_key_eq lookup_borrowed_eq)

lemma bundle_get_mut_eq: "bundle_get_mut b a r = map_of (stores b) (AccountRegionKey_new a r)"
  by (simp add: bundle_get_mut_def Let_def stack_key_eq lookup_borrowed_eq)

lemma AccountRegionKey_new_inject:
  assumes "AccountRegionKey_new a r = AccountRegionKey_new a' r'"
    and "CHR 0x00 \<notin> set a" "CHR 0x00 \<notin> set a'"
  shows "a = a' \<and> r = r'"
  using assms sep_inject [of a "CHR 0x00" r a' r'] by (simp add: AccountRegionKey_new_def)

lemma bundle_get_write_back_same [simp]: "bundle_get (write_back b a r s) a r = Some s"
  by (simp add: bundle_get_eq write_back_def update_conv)

lemma bundle_get_write_back_other:
  assumes "(a, r) \<noteq> (a', r')" "CHR 0x00 \<notin> set a" "CHR 0x00 \<notin> set a'"
  shows "bundle_get (write_back b a r s) a' r' = bundle_get b a' r'"
  using assms by (auto simp: bundle_get_eq write_back_def update_conv dest: AccountRegionKey_new_inject)

section \<open>Tenancy\<close>

text \<open>
  An operation of a provider works on the store of one scope, either creating it on first
  use or only when it exists.
\<close>

datatype 's scoped_op = Create "'s \<Rightarrow> 's" | Modify "'s \<Rightarrow> 's"

locale scoped_store =
  fixes get :: "'b \<Rightarrow> 'c \<Rightarrow> 's option"
    and create :: "'b \<Rightarrow> 'c \<Rightarrow> 's \<times> 'b"
    and put :: "'b \<Rightarrow> 'c \<Rightarrow> 's \<Rightarrow> 'b"
    and dflt :: 's
    and scope :: "'c \<Rightarrow> bool"
  assumes get_put_same: "scope x \<Longrightarrow> get (put b x s) x = Some s"
    and get_put_other: "scope x \<Longrightarrow> scope y \<Longrightarrow> x \<noteq> y \<Longrightarrow> get (put b x s) y = get b y"
    and create_fst: "scope x \<Longrightarrow> fst (create b x) = (case get b x of None \<Rightarrow> dflt | Some s \<Rightarrow> s)"
    and create_snd: "scope x \<Longrightarrow> scope y \<Longrightarrow>
      get (snd (create b x)) y = (if x = y then Some (fst (create b x)) else get b y)"
begin

fun run_op :: "'b \<Rightarrow> 'c \<Rightarrow> 's scoped_op \<Rightarrow> 'b" where
  "run_op b x (Create f) = (let (s, b') = create b x in put b' x (f s))"
| "run_op b x (Modify f) = (case get b x of None \<Rightarrow> b | Some s \<Rightarrow> put b x (f s))"

definition run_ops :: "('c \<times> 's scoped_op) list \<Rightarrow> 'b \<Rightarrow> 'b" where
  "run_ops ops b = fold (\<lambda>(x, f) b. run_op b x f) ops b"

lemma run_op_other: "scope x \<Longrightarrow> scope y \<Longrightarrow> x \<noteq> y \<Longrightarrow> get (run_op b x f) y = get b y"
  by (cases f) (auto simp: get_put_other create_snd Let_def case_prod_beta split: option.splits)

lemma run_op_same:
  "scope x \<Longrightarrow> get (run_op b x f) x =
     (case f of Create g \<Rightarrow> Some (g (case get b x of None \<Rightarrow> dflt | Some s \<Rightarrow> s))
      | Modify g \<Rightarrow> map_option g (get b x))"
  by (cases f) (auto simp: get_put_same create_fst Let_def case_prod_beta split: option.splits)

text \<open>A scope's store depends only on its own operations, in their order.\<close>

lemma run_isolated:
  assumes "scope x" "\<forall>(y, f) \<in> set ops. scope y" "get b x = get b' x"
  shows "get (run_ops ops b) x = get (run_ops (filter (\<lambda>(y, f). y = x) ops) b') x"
  using assms(2,3)
proof (induction ops arbitrary: b b')
  case (Cons p ops)
  obtain y f where p: "p = (y, f)" by (cases p)
  with Cons.prems have y: "scope y" and ops: "\<forall>(y, f) \<in> set ops. scope y" by auto
  show ?case
  proof (cases "y = x")
    case True
    have "get (run_op b x f) x = get (run_op b' x f) x"
      using assms(1) Cons.prems by (simp add: run_op_same split: scoped_op.splits)
    then show ?thesis using Cons.IH [OF ops] p True by (simp add: run_ops_def)
  next
    case False
    have "get (run_op b y f) x = get b' x"
      using assms(1) y False Cons.prems by (simp add: run_op_other)
    then show ?thesis using Cons.IH [OF ops] p False by (simp add: run_ops_def)
  qed
qed (simp add: run_ops_def)

end

interpretation arb: scoped_store
  "\<lambda>b (a, r). bundle_get b a r" "\<lambda>b (a, r). get_or_create dflt b a r"
  "\<lambda>b (a, r). write_back b a r" dflt "\<lambda>(a, r). CHR 0x00 \<notin> set a"
  for dflt
proof (unfold_locales, goal_cases)
  case (2 x y b s)
  then show ?case by (cases x; cases y) (simp add: bundle_get_write_back_other)
next
  case (4 x y b)
  then show ?case
    by (cases x; cases y)
       (auto simp: get_or_create_def bundle_get_eq Let_def update_conv case_prod_beta
        dest: AccountRegionKey_new_inject split: option.splits)
qed (auto simp: get_or_create_def bundle_get_eq [symmetric] Let_def
       split: option.splits)

interpretation ab: scoped_store account_get "account_get_or_create dflt" account_write_back dflt "\<lambda>_. True"
  for dflt
  by unfold_locales
    (auto simp: account_get_def account_write_back_def account_get_or_create_def update_conv split: option.splits)

end
