(* ===== verification/Sqs_Provider.thy ===== *)
theory Sqs_Provider
  imports Sqs_Queue Account_Bundle
begin

text \<open>
  The SQS provider, \<^verbatim>\<open>services/sqs/src/provider.rs\<close>: response builders, the decoding of the
  query protocol, one handler per action in the order of the file, and the dispatcher with its
  XML and JSON modes. A handler takes the store of the caller's scope and the surroundings and
  returns the response with both updated.
\<close>

type_synonym params = "(string, string) hash_map"

section \<open>Responses\<close>

definition quoted :: "string \<Rightarrow> string" where
  "quoted s = CHR 0x22 # s @ [CHR 0x22]"

definition xml_decl :: string where
  "xml_decl = ''<?xml version='' @ quoted ''1.0'' @ '' encoding='' @ quoted ''UTF-8'' @ ''?>''"

definition sqs_xmlns :: string where
  "sqs_xmlns = '' xmlns='' @ quoted ''http://queue.amazonaws.com/doc/2012-11-05/'' @ ''>''"

definition xml_wrap :: "string \<Rightarrow> string \<Rightarrow> string \<Rightarrow> DispatchResponse" where
  "xml_wrap action request_id inner =
     (let xml = xml_decl @ ''<'' @ action @ ''Response'' @ sqs_xmlns @
                ''<'' @ action @ ''Result>'' @ inner @ ''</'' @ action @ ''Result>'' @
                ''<ResponseMetadata><RequestId>'' @ request_id @ ''</RequestId></ResponseMetadata>'' @
                ''</'' @ action @ ''Response>''
      in \<lparr>status_code = 200, resp_body = Buffered xml, content_type = ''text/xml'', resp_headers = []\<rparr>)"

definition xml_no_result :: "string \<Rightarrow> string \<Rightarrow> DispatchResponse" where
  "xml_no_result action request_id =
     (let xml = xml_decl @ ''<'' @ action @ ''Response'' @ sqs_xmlns @
                ''<ResponseMetadata><RequestId>'' @ request_id @ ''</RequestId></ResponseMetadata>'' @
                ''</'' @ action @ ''Response>''
      in \<lparr>status_code = 200, resp_body = Buffered xml, content_type = ''text/xml'', resp_headers = []\<rparr>)"

definition sqs_error :: "string \<Rightarrow> string \<Rightarrow> DispatchResponse" where
  "sqs_error code message =
     (let xml = xml_decl @ ''<ErrorResponse'' @ sqs_xmlns @
                ''<Error><Type>Sender</Type><Code>'' @ code @ ''</Code><Message>'' @ message @
                ''</Message></Error></ErrorResponse>''
      in \<lparr>status_code = 400, resp_body = Buffered xml, content_type = ''text/xml'', resp_headers = []\<rparr>)"

definition sqs_json_response :: "externs \<Rightarrow> Value \<Rightarrow> DispatchResponse" where
  "sqs_json_response ext v =
     \<lparr>status_code = 200, resp_body = Buffered (json_to_string ext v),
      content_type = ''application/x-amz-json-1.0'', resp_headers = []\<rparr>"

definition sqs_json_error :: "externs \<Rightarrow> string \<Rightarrow> string \<Rightarrow> nat \<Rightarrow> DispatchResponse" where
  "sqs_json_error ext code message status =
     (let body = json_object [(''__type'', JString code), (''message'', JString message)]
      in \<lparr>status_code = status, resp_body = Buffered (json_to_string ext body),
          content_type = ''application/x-amz-json-1.0'', resp_headers = []\<rparr>)"

definition new_request_id :: "world \<Rightarrow> string \<times> world" where
  "new_request_id w =
     (''r-'' @ hex_pad 16 (unat (request_id_counter w)),
      w\<lparr>request_id_counter := request_id_counter w + 1\<rparr>)"

definition sqs_escape_char :: "char \<Rightarrow> string" where
  "sqs_escape_char c =
     (if c = CHR ''&'' then ''&amp;'' else if c = CHR ''<'' then ''&lt;''
      else if c = CHR ''>'' then ''&gt;'' else if c = CHR 0x22 then ''&quot;'' else [c])"

definition escape_xml :: "string \<Rightarrow> string" where
  "escape_xml s =
     (if \<not> list_ex (\<lambda>b. b \<in> {CHR ''&'', CHR ''<'', CHR ''>'', CHR 0x22}) s then s
      else concat (map sqs_escape_char s))"

definition push_xml_escaped :: "string \<Rightarrow> string \<Rightarrow> string" where
  "push_xml_escaped dst s =
     (if \<not> list_ex (\<lambda>b. b \<in> {CHR ''&'', CHR ''<'', CHR ''>'', CHR 0x22}) s then dst @ s
      else fold (\<lambda>ch dst. dst @ sqs_escape_char ch) s dst)"

text \<open>The response of a handler that ends by drawing a request identifier.\<close>

definition reply_with :: "(string \<Rightarrow> DispatchResponse) \<Rightarrow> 's \<Rightarrow> world \<Rightarrow> DispatchResponse \<times> 's \<times> world" where
  "reply_with mk st w = (let (rid, w) = new_request_id w in (mk rid, st, w))"

section \<open>Parameters\<close>

function url_decode_from :: "string \<Rightarrow> string" where
  "url_decode_from bytes =
     (case bytes of
        [] \<Rightarrow> []
      | b # rest \<Rightarrow>
          (let plain = push_byte_as_char b @ url_decode_from rest in
           if b = CHR ''%'' \<and> 2 < length bytes then
             (case Option.bind (from_utf8 (take 2 rest)) (parse_uint 16 8) of
                Some byte \<Rightarrow> push_byte_as_char (char_of byte) @ url_decode_from (drop 2 rest)
              | None \<Rightarrow> plain)
           else if b = CHR ''+'' then '' '' @ url_decode_from rest
           else plain))"
  by pat_completeness auto
termination by (relation "measure length") auto

declare url_decode_from.simps [simp del]

definition url_decode :: "string \<Rightarrow> string" where
  "url_decode s =
     (if \<not> list_ex (\<lambda>b. b \<in> {CHR ''%'', CHR ''+''}) s then s else url_decode_from s)"

definition form_pair :: "string \<Rightarrow> (string \<times> string) option" where
  "form_pair kv =
     (let it = splitn 2 (CHR ''='') kv; k = it ! 0; v = (if 1 < length it then it ! 1 else [])
      in if k = [] then None else Some (url_decode k, url_decode v))"

definition header :: "externs \<Rightarrow> RequestContext \<Rightarrow> string \<Rightarrow> string option" where
  "header ext ctx name = Option.bind (hm_get (ctx_headers ctx) name) (header_to_str ext)"

definition insert_json_param :: "string \<times> Value \<Rightarrow> params \<Rightarrow> params" where
  "insert_json_param kv ps =
     (case kv of (k, v) \<Rightarrow>
        (case as_str v of
           Some s \<Rightarrow> hm_insert k s ps
         | None \<Rightarrow>
             (case as_object v of
                Some obj \<Rightarrow>
                  fold (\<lambda>(mk, mv) ps. case as_str mv of
                          Some ms \<Rightarrow> hm_insert (k @ ''.'' @ mk) ms ps | None \<Rightarrow> ps) obj ps
              | None \<Rightarrow> ps)))"

definition parse_params :: "externs \<Rightarrow> RequestContext \<Rightarrow> params" where
  "parse_params ext ctx =
     (let body_str = (case from_utf8 (raw_body_bytes ctx) of Some s \<Rightarrow> s | None \<Rightarrow> []);
          ps = fold (\<lambda>(k, v). hm_insert k v)
                 (List.map_filter form_pair (split_char (CHR ''&'') body_str)) [];
          ps = (if \<not> contains_key ps ''Action''
                then let ps = (case header ext ctx ''x-amz-target'' of
                                 Some target \<Rightarrow>
                                   (if starts_with target ''AmazonSQS.''
                                    then (case split_char (CHR ''.'') target of
                                            _ # op # _ \<Rightarrow> hm_insert ''Action'' op ps | _ \<Rightarrow> ps)
                                    else ps)
                               | None \<Rightarrow> ps)
                     in (case json_from_slice ext (raw_body_bytes ctx) of
                           Some (JObject m) \<Rightarrow> fold insert_json_param m ps
                         | _ \<Rightarrow> ps)
                else ps)
      in fold (\<lambda>(k, v) ps. if contains_key ps k then ps else hm_insert k v ps)
           (ctx_query_params ctx) ps)"

definition normalize_queue_url_for_endpoint :: "string \<Rightarrow> string \<Rightarrow> string" where
  "normalize_queue_url_for_endpoint url endpoint =
     (case str_find url ''/000000000000/'' of
        Some path_start \<Rightarrow> trim_end_matches (CHR ''/'') endpoint @ drop path_start url
      | None \<Rightarrow>
          (case str_find url ''://'' of
             Some scheme_pos \<Rightarrow>
               (let rest = drop (scheme_pos + 3) url in
                case str_find rest ''/'' of
                  Some first_slash \<Rightarrow> trim_end_matches (CHR ''/'') endpoint @ drop first_slash rest
                | None \<Rightarrow> url)
           | None \<Rightarrow> url))"

definition apply_transport_compat :: "externs \<Rightarrow> RequestContext \<Rightarrow> params \<Rightarrow> params" where
  "apply_transport_compat ext ctx ps =
     (case header ext ctx ''host'' of
        Some endpoint \<Rightarrow>
          (let scheme = (if header ext ctx ''x-forwarded-proto'' = Some ''https'' then ''https'' else ''http'');
               endpoint_url = scheme @ ''://'' @ endpoint
           in case hm_get ps ''QueueUrl'' of
                Some queue_url \<Rightarrow>
                  hm_insert ''QueueUrl'' (normalize_queue_url_for_endpoint queue_url endpoint_url) ps
              | None \<Rightarrow> ps)
      | None \<Rightarrow> ps)"

text \<open>
  The numbered parameters \<open>pfx.i.sfx\<close>. Each loop runs while the parameter of the
  current index is there; distinct indices are distinct keys, so a finite map ends it.
\<close>

definition indexed_key :: "string \<Rightarrow> nat \<Rightarrow> string \<Rightarrow> string" where
  "indexed_key pfx i sfx = pfx @ ''.'' @ nat_to_string i @ sfx"

definition keys_from :: "params \<Rightarrow> string \<Rightarrow> string \<Rightarrow> nat \<Rightarrow> nat" where
  "keys_from ps pfx sfx i = card {j. i \<le> j \<and> contains_key ps (indexed_key pfx j sfx)}"

lemma indexed_key_inject: "indexed_key p i s = indexed_key p j s \<Longrightarrow> i = j"
proof -
  assume "indexed_key p i s = indexed_key p j s"
  then have "nat_to_string i = nat_to_string j" unfolding indexed_key_def by simp
  then show ?thesis using dec_pad_inject [of 0 i 0 j] by (simp add: dec_pad_def pad_zero_def)
qed

lemma keys_from_less:
  assumes "hm_get ps (indexed_key p i s) = Some v"
  shows "keys_from ps p s (Suc i) < keys_from ps p s i"
proof -
  let ?K = "\<lambda>i. {j. i \<le> j \<and> contains_key ps (indexed_key p j s)}"
  have "(\<lambda>j. indexed_key p j s) ` ?K i \<subseteq> fst ` set ps"
    by (auto simp: contains_key_def domI dom_map_of_conv_image_fst [symmetric])
  moreover have "inj_on (\<lambda>j. indexed_key p j s) (?K i)"
    by (auto intro: inj_onI indexed_key_inject)
  ultimately have "finite (?K i)" by (meson finite_imageD finite_set finite_imageI finite_subset)
  moreover have "?K (Suc i) \<subset> ?K i" using assms by (auto simp: contains_key_def Suc_le_eq)
  ultimately show ?thesis unfolding keys_from_def by (rule psubset_card_mono)
qed

function extract_indexed_kv_loop :: "params \<Rightarrow> string \<Rightarrow> nat \<Rightarrow> params \<Rightarrow> params" where
  "extract_indexed_kv_loop ps pfx i result =
     (case (hm_get ps (indexed_key pfx i ''.Name''), hm_get ps (indexed_key pfx i ''.Value'')) of
        (Some name, Some v) \<Rightarrow> extract_indexed_kv_loop ps pfx (Suc i) (hm_insert name v result)
      | _ \<Rightarrow> result)"
  by pat_completeness auto
termination
  by (relation "measure (\<lambda>(ps, pfx, i, _). keys_from ps pfx ''.Name'' i)") (auto intro: keys_from_less [OF sym])

declare extract_indexed_kv_loop.simps [simp del]

definition extract_indexed_kv :: "params \<Rightarrow> string \<Rightarrow> params" where
  "extract_indexed_kv ps pfx = extract_indexed_kv_loop ps pfx 1 []"

function extract_message_attributes_loop ::
  "params \<Rightarrow> nat \<Rightarrow> (string, MessageAttributeValue) hash_map \<Rightarrow> (string, MessageAttributeValue) hash_map" where
  "extract_message_attributes_loop ps i result =
     (case hm_get ps (indexed_key ''MessageAttribute'' i ''.Name'') of
        None \<Rightarrow> result
      | Some name \<Rightarrow>
          (let dt = (case hm_get ps (indexed_key ''MessageAttribute'' i ''.Value.DataType'') of
                       Some t \<Rightarrow> t | None \<Rightarrow> []);
               sv = hm_get ps (indexed_key ''MessageAttribute'' i ''.Value.StringValue'')
           in extract_message_attributes_loop ps (Suc i)
                (hm_insert name \<lparr>data_type = dt, string_value = sv, binary_value = None\<rparr> result)))"
  by pat_completeness auto
termination
  by (relation "measure (\<lambda>(ps, i, _). keys_from ps ''MessageAttribute'' ''.Name'' i)") (auto intro: keys_from_less [OF sym])

declare extract_message_attributes_loop.simps [simp del]

definition extract_message_attributes :: "params \<Rightarrow> (string, MessageAttributeValue) hash_map" where
  "extract_message_attributes ps = extract_message_attributes_loop ps 1 []"

definition queue_name_from_url :: "string \<Rightarrow> string" where
  "queue_name_from_url url = rsplit_first (CHR ''/'') url"

definition base_queue_url :: "externs \<Rightarrow> RequestContext \<Rightarrow> string" where
  "base_queue_url ext ctx =
     (if contains_key (ctx_headers ctx) ''host''
      then let region = (case header ext ctx ''x-amz-region'' of Some r \<Rightarrow> r | None \<Rightarrow> ctx_region ctx)
           in ''http://sqs.'' @ region @ ''.localhost.localstack.cloud:4566''
      else ''http://localhost:4566'')"

section \<open>The handlers of the XML mode\<close>

definition nonexistent_queue :: DispatchResponse where
  "nonexistent_queue = sqs_error ''AWS.SimpleQueueService.NonExistentQueue'' ''Queue does not exist''"

definition missing_parameter :: "string \<Rightarrow> DispatchResponse" where
  "missing_parameter name = sqs_error ''MissingParameter'' (name @ '' is required'')"

definition handle_create_queue ::
  "externs \<Rightarrow> SqsStore \<Rightarrow> RequestContext \<Rightarrow> params \<Rightarrow> world \<Rightarrow> DispatchResponse \<times> SqsStore \<times> world" where
  "handle_create_queue ext st ctx ps w =
     (case hm_get ps ''QueueName'' of
        None \<Rightarrow> (missing_parameter ''QueueName'', st, w)
      | Some name \<Rightarrow>
          (let attributes = extract_indexed_kv ps ''Attribute'';
               base = base_queue_url ext ctx;
               (q, st, w) = create_queue ext w st name base (ctx_account_id ctx) (ctx_region ctx) attributes;
               url = q_url (the q)
           in reply_with (\<lambda>rid. xml_wrap ''CreateQueue'' rid
                            (''<QueueUrl>'' @ escape_xml url @ ''</QueueUrl>'')) st w))"

definition handle_delete_queue :: "SqsStore \<Rightarrow> params \<Rightarrow> world \<Rightarrow> DispatchResponse \<times> SqsStore \<times> world" where
  "handle_delete_queue st ps w =
     (case hm_get ps ''QueueUrl'' of
        None \<Rightarrow> (missing_parameter ''QueueUrl'', st, w)
      | Some url \<Rightarrow>
          (let name = queue_name_from_url url; (deleted, st) = delete_queue st name
           in if \<not> deleted then (nonexistent_queue, st, w)
              else reply_with (xml_no_result ''DeleteQueue'') st w))"

definition handle_list_queues :: "SqsStore \<Rightarrow> params \<Rightarrow> world \<Rightarrow> DispatchResponse \<times> world" where
  "handle_list_queues st ps w =
     (let pfx = (case hm_get ps ''QueueNamePrefix'' of Some p \<Rightarrow> p | None \<Rightarrow> []);
          inner = concat (map (\<lambda>q. ''<QueueUrl>'' @ escape_xml (q_url q) @ ''</QueueUrl>'') (list_queues st pfx));
          (rid, w) = new_request_id w
      in (xml_wrap ''ListQueues'' rid inner, w))"

definition handle_get_queue_url :: "SqsStore \<Rightarrow> params \<Rightarrow> world \<Rightarrow> DispatchResponse \<times> world" where
  "handle_get_queue_url st ps w =
     (case hm_get ps ''QueueName'' of
        None \<Rightarrow> (missing_parameter ''QueueName'', w)
      | Some name \<Rightarrow>
          (case get_queue_by_name st name of
             None \<Rightarrow> (nonexistent_queue, w)
           | Some q \<Rightarrow>
               (let (rid, w) = new_request_id w
                in (xml_wrap ''GetQueueUrl'' rid (''<QueueUrl>'' @ escape_xml (q_url q) @ ''</QueueUrl>''), w))))"

function requested_attributes :: "params \<Rightarrow> nat \<Rightarrow> string list" where
  "requested_attributes ps i =
     (case hm_get ps (indexed_key ''AttributeName'' i []) of
        Some v \<Rightarrow> v # requested_attributes ps (Suc i)
      | None \<Rightarrow> [])"
  by pat_completeness auto
termination
  by (relation "measure (\<lambda>(ps, i). keys_from ps ''AttributeName'' [] i)") (auto intro: keys_from_less [OF sym])

declare requested_attributes.simps [simp del]

definition queue_attribute_list :: "SqsQueue \<Rightarrow> world \<Rightarrow> (string \<times> string) list \<times> world" where
  "queue_attribute_list q w =
     (let u32s = (\<lambda>n :: u32. nat_to_string (unat n));
          (n, w) = approximate_number_of_messages q w;
          (nv, w) = approximate_number_of_messages_not_visible q w
      in ([(''QueueArn'', q_arn q),
           (''VisibilityTimeout'', u32s (q_visibility_timeout q)),
           (''MessageRetentionPeriod'', u32s (q_message_retention_period q)),
           (''MaximumMessageSize'', u32s (q_maximum_message_size q)),
           (''DelaySeconds'', u32s (q_delay_seconds q)),
           (''ReceiveMessageWaitTimeSeconds'', u32s (q_receive_message_wait_time_seconds q)),
           (''ApproximateNumberOfMessages'', nat_to_string n),
           (''ApproximateNumberOfMessagesNotVisible'', nat_to_string nv),
           (''CreatedTimestamp'', int_to_string (timestamp (q_created q))),
           (''LastModifiedTimestamp'', int_to_string (timestamp (q_last_modified q))),
           (''FifoQueue'', bool_to_string (q_fifo q)),
           (''ContentBasedDeduplication'', bool_to_string (q_content_based_deduplication q))], w))"

definition handle_get_queue_attributes :: "SqsStore \<Rightarrow> params \<Rightarrow> world \<Rightarrow> DispatchResponse \<times> world" where
  "handle_get_queue_attributes st ps w =
     (case hm_get ps ''QueueUrl'' of
        None \<Rightarrow> (missing_parameter ''QueueUrl'', w)
      | Some url \<Rightarrow>
          (case get_queue_by_name st (queue_name_from_url url) of
             None \<Rightarrow> (nonexistent_queue, w)
           | Some q \<Rightarrow>
               (let requested = requested_attributes ps 1;
                    all_of = (requested = [] \<or> ''All'' \<in> set requested);
                    (attrs, w) = queue_attribute_list q w;
                    inner = concat (map (\<lambda>(k, v).
                       if all_of \<or> k \<in> set requested
                       then ''<Attribute><Name>'' @ k @ ''</Name><Value>'' @ escape_xml v @ ''</Value></Attribute>''
                       else []) attrs);
                    (rid, w) = new_request_id w
                in (xml_wrap ''GetQueueAttributes'' rid inner, w))))"

definition handle_set_queue_attributes ::
  "externs \<Rightarrow> SqsStore \<Rightarrow> params \<Rightarrow> world \<Rightarrow> DispatchResponse \<times> SqsStore \<times> world" where
  "handle_set_queue_attributes ext st ps w =
     (case hm_get ps ''QueueUrl'' of
        None \<Rightarrow> (missing_parameter ''QueueUrl'', st, w)
      | Some url \<Rightarrow>
          (let name = queue_name_from_url url in
           case get_queue_by_name st name of
             None \<Rightarrow> (nonexistent_queue, st, w)
           | Some q \<Rightarrow>
               (let attributes = extract_indexed_kv ps ''Attribute'';
                    (q, w) = apply_queue_attributes ext w q attributes
                in reply_with (xml_no_result ''SetQueueAttributes'') (set_queue st name q) w)))"

definition handle_purge_queue :: "SqsStore \<Rightarrow> params \<Rightarrow> world \<Rightarrow> DispatchResponse \<times> SqsStore \<times> world" where
  "handle_purge_queue st ps w =
     (case hm_get ps ''QueueUrl'' of
        None \<Rightarrow> (missing_parameter ''QueueUrl'', st, w)
      | Some url \<Rightarrow>
          (let name = queue_name_from_url url in
           case get_queue_by_name st name of
             None \<Rightarrow> (nonexistent_queue, st, w)
           | Some q \<Rightarrow> reply_with (xml_no_result ''PurgeQueue'') (set_queue st name (purge q)) w))"

definition param_u32 :: "params \<Rightarrow> string \<Rightarrow> u32 option" where
  "param_u32 ps key = Option.bind (hm_get ps key) parse_u32"

definition handle_send_message ::
  "externs \<Rightarrow> SqsStore \<Rightarrow> params \<Rightarrow> world \<Rightarrow> DispatchResponse \<times> SqsStore \<times> world" where
  "handle_send_message ext st ps w =
     (case hm_get ps ''QueueUrl'' of
        None \<Rightarrow> (missing_parameter ''QueueUrl'', st, w)
      | Some url \<Rightarrow>
     (case hm_get ps ''MessageBody'' of
        None \<Rightarrow> (missing_parameter ''MessageBody'', st, w)
      | Some body \<Rightarrow>
          (let name = queue_name_from_url url;
               delay = param_u32 ps ''DelaySeconds'';
               message_group_id = hm_get ps ''MessageGroupId'';
               dedup_id = hm_get ps ''MessageDeduplicationId'';
               msg_attrs = extract_message_attributes ps
           in case get_queue_by_name st name of
                None \<Rightarrow> (nonexistent_queue, st, w)
              | Some q \<Rightarrow>
                  (let (res, q, w) = send_message ext w q body delay msg_attrs message_group_id dedup_id;
                       st = set_queue st name q
                   in case res of
                        None \<Rightarrow> reply_with (\<lambda>rid. xml_wrap ''SendMessage'' rid
                          (''<MessageId>duplicate</MessageId><MD5OfMessageBody></MD5OfMessageBody>'' @
                           ''<SequenceNumber>0</SequenceNumber>'')) st w
                      | Some msg \<Rightarrow> reply_with (\<lambda>rid. xml_wrap ''SendMessage'' rid
                          (''<MessageId>'' @ escape_xml (r_message_id msg) @ ''</MessageId>'' @
                           ''<MD5OfMessageBody>'' @ escape_xml (r_md5_of_body msg) @ ''</MD5OfMessageBody>'' @
                           ''<SequenceNumber>'' @ nat_to_string (unat (r_sequence_number msg)) @
                           ''</SequenceNumber>'')) st w))))"

definition batch_entry_key :: "nat \<Rightarrow> string \<Rightarrow> string" where
  "batch_entry_key i field = indexed_key ''SendMessageBatchRequestEntry'' i field"

function send_batch_loop ::
  "externs \<Rightarrow> params \<Rightarrow> string \<Rightarrow> nat \<Rightarrow> string \<Rightarrow> SqsStore \<Rightarrow> world \<Rightarrow> string \<times> SqsStore \<times> world" where
  "send_batch_loop ext ps name i successful st w =
     (case (hm_get ps (batch_entry_key i ''.Id''), hm_get ps (batch_entry_key i ''.MessageBody'')) of
        (Some entry_id, Some body) \<Rightarrow>
          (let delay = param_u32 ps (batch_entry_key i ''.DelaySeconds'');
               group_id = hm_get ps (batch_entry_key i ''.MessageGroupId'');
               dedup_id = hm_get ps (batch_entry_key i ''.MessageDeduplicationId'')
           in case get_queue_by_name st name of
                None \<Rightarrow> (successful, st, w)
              | Some q \<Rightarrow>
                  (let (res, q, w') = send_message ext w q body delay [] group_id dedup_id;
                       st' = set_queue st name q;
                       entry = (case res of
                         None \<Rightarrow> ''<SendMessageBatchResultEntry><Id>'' @ escape_xml entry_id @
                           ''</Id><MessageId>dup</MessageId><MD5OfMessageBody></MD5OfMessageBody>'' @
                           ''</SendMessageBatchResultEntry>''
                       | Some msg \<Rightarrow> ''<SendMessageBatchResultEntry><Id>'' @ escape_xml entry_id @
                           ''</Id><MessageId>'' @ escape_xml (r_message_id msg) @
                           ''</MessageId><MD5OfMessageBody>'' @ escape_xml (r_md5_of_body msg) @
                           ''</MD5OfMessageBody></SendMessageBatchResultEntry>'')
                   in send_batch_loop ext ps name (Suc i) (successful @ entry) st' w'))
      | _ \<Rightarrow> (successful, st, w))"
  by pat_completeness auto
termination
  by (relation "measure (\<lambda>(ext, ps, name, i, _). keys_from ps ''SendMessageBatchRequestEntry'' ''.Id'' i)")
     (auto simp: batch_entry_key_def intro: keys_from_less [OF sym])

declare send_batch_loop.simps [simp del]

definition handle_send_message_batch ::
  "externs \<Rightarrow> SqsStore \<Rightarrow> params \<Rightarrow> world \<Rightarrow> DispatchResponse \<times> SqsStore \<times> world" where
  "handle_send_message_batch ext st ps w =
     (case hm_get ps ''QueueUrl'' of
        None \<Rightarrow> (missing_parameter ''QueueUrl'', st, w)
      | Some url \<Rightarrow>
          (let (successful, st, w) = send_batch_loop ext ps (queue_name_from_url url) 1 [] st w
           in reply_with (\<lambda>rid. xml_wrap ''SendMessageBatch'' rid successful) st w))"

definition message_xml :: "SqsMessage \<Rightarrow> string" where
  "message_xml msg =
     ''<Message><MessageId>'' @ m_message_id msg @ ''</MessageId><ReceiptHandle>'' @
     m_receipt_handle msg @ ''</ReceiptHandle><MD5OfBody>'' @ m_md5_of_body msg @
     ''</MD5OfBody><Body>'' @ push_xml_escaped [] (m_body msg) @ ''</Body>'' @
     concat (map (\<lambda>(k, v). ''<Attribute><Name>'' @ push_xml_escaped [] k @ ''</Name><Value>'' @
        push_xml_escaped [] v @ ''</Value></Attribute>'') (m_attributes msg)) @
     concat (map (\<lambda>(k, v). ''<MessageAttribute><Name>'' @ push_xml_escaped [] k @
        ''</Name><Value><DataType>'' @ push_xml_escaped [] (data_type v) @ ''</DataType><StringValue>'' @
        push_xml_escaped [] (case string_value v of Some s \<Rightarrow> s | None \<Rightarrow> []) @
        ''</StringValue></Value></MessageAttribute>'') (m_message_attributes msg)) @
     ''</Message>''"

definition nth_opt :: "'a list \<Rightarrow> nat \<Rightarrow> 'a option" where
  "nth_opt xs i = (if i < length xs then Some (xs ! i) else None)"

definition max_number_of :: "params \<Rightarrow> nat" where
  "max_number_of ps =
     min (case Option.bind (hm_get ps ''MaxNumberOfMessages'') parse_usize of Some n \<Rightarrow> n | None \<Rightarrow> 1) 10"

definition handle_receive_message :: "SqsStore \<Rightarrow> params \<Rightarrow> world \<Rightarrow> DispatchResponse \<times> SqsStore \<times> world" where
  "handle_receive_message st ps w =
     (case hm_get ps ''QueueUrl'' of
        None \<Rightarrow> (missing_parameter ''QueueUrl'', st, w)
      | Some url \<Rightarrow>
          (let vt = param_u32 ps ''VisibilityTimeout''; name = queue_name_from_url url in
           case get_queue_by_name st name of
             None \<Rightarrow> (nonexistent_queue, st, w)
           | Some q \<Rightarrow>
               (let (messages, q, w) = receive_messages w q (max_number_of ps) vt;
                    redrive_max = map_option max_receive_count (q_redrive_policy q);
                    inner = concat (map message_xml (List.map_filter (nth_opt (q_messages q)) messages));
                    q = (case redrive_max of
                           Some mx \<Rightarrow> (if list_ex (\<lambda>m. m_receive_count m \<ge> mx) (q_messages q)
                                       then remove_dlq_candidates q else q)
                         | None \<Rightarrow> q)
                in reply_with (\<lambda>rid. xml_wrap ''ReceiveMessage'' rid inner) (set_queue st name q) w)))"

text \<open>\<^verbatim>\<open>if let Some(q) = store.get_queue_by_name_mut(name) { q.delete_message(rh); }\<close>\<close>

definition delete_in :: "SqsStore \<Rightarrow> string \<Rightarrow> string \<Rightarrow> SqsStore" where
  "delete_in st name rh =
     (case get_queue_by_name st name of
        Some q \<Rightarrow> set_queue st name (snd (delete_message q rh)) | None \<Rightarrow> st)"

definition change_visibility_in :: "SqsStore \<Rightarrow> string \<Rightarrow> string \<Rightarrow> u32 \<Rightarrow> world \<Rightarrow> SqsStore \<times> world" where
  "change_visibility_in st name rh vt w =
     (case get_queue_by_name st name of
        Some q \<Rightarrow> (let (_, q, w) = change_visibility w q rh vt in (set_queue st name q, w))
      | None \<Rightarrow> (st, w))"

definition handle_delete_message :: "SqsStore \<Rightarrow> params \<Rightarrow> world \<Rightarrow> DispatchResponse \<times> SqsStore \<times> world" where
  "handle_delete_message st ps w =
     (case hm_get ps ''QueueUrl'' of
        None \<Rightarrow> (missing_parameter ''QueueUrl'', st, w)
      | Some url \<Rightarrow>
     (case hm_get ps ''ReceiptHandle'' of
        None \<Rightarrow> (missing_parameter ''ReceiptHandle'', st, w)
      | Some rh \<Rightarrow>
          reply_with (xml_no_result ''DeleteMessage'') (delete_in st (queue_name_from_url url) rh) w))"

function delete_batch_loop :: "params \<Rightarrow> string \<Rightarrow> nat \<Rightarrow> string \<Rightarrow> SqsStore \<Rightarrow> string \<times> SqsStore" where
  "delete_batch_loop ps name i inner st =
     (case (hm_get ps (indexed_key ''DeleteMessageBatchRequestEntry'' i ''.Id''),
            hm_get ps (indexed_key ''DeleteMessageBatchRequestEntry'' i ''.ReceiptHandle'')) of
        (Some entry_id, Some rh) \<Rightarrow>
          delete_batch_loop ps name (Suc i)
            (inner @ ''<DeleteMessageBatchResultEntry><Id>'' @ escape_xml entry_id @
             ''</Id></DeleteMessageBatchResultEntry>'') (delete_in st name rh)
      | _ \<Rightarrow> (inner, st))"
  by pat_completeness auto
termination
  by (relation "measure (\<lambda>(ps, name, i, _). keys_from ps ''DeleteMessageBatchRequestEntry'' ''.Id'' i)")
     (auto intro: keys_from_less [OF sym])

declare delete_batch_loop.simps [simp del]

definition handle_delete_message_batch ::
  "SqsStore \<Rightarrow> params \<Rightarrow> world \<Rightarrow> DispatchResponse \<times> SqsStore \<times> world" where
  "handle_delete_message_batch st ps w =
     (case hm_get ps ''QueueUrl'' of
        None \<Rightarrow> (missing_parameter ''QueueUrl'', st, w)
      | Some url \<Rightarrow>
          (let (inner, st) = delete_batch_loop ps (queue_name_from_url url) 1 [] st
           in reply_with (\<lambda>rid. xml_wrap ''DeleteMessageBatch'' rid inner) st w))"

definition handle_change_message_visibility ::
  "SqsStore \<Rightarrow> params \<Rightarrow> world \<Rightarrow> DispatchResponse \<times> SqsStore \<times> world" where
  "handle_change_message_visibility st ps w =
     (case hm_get ps ''QueueUrl'' of
        None \<Rightarrow> (missing_parameter ''QueueUrl'', st, w)
      | Some url \<Rightarrow>
     (case hm_get ps ''ReceiptHandle'' of
        None \<Rightarrow> (missing_parameter ''ReceiptHandle'', st, w)
      | Some rh \<Rightarrow>
          (let vt = (case param_u32 ps ''VisibilityTimeout'' of Some v \<Rightarrow> v | None \<Rightarrow> 30);
               (st, w) = change_visibility_in st (queue_name_from_url url) rh vt w
           in reply_with (xml_no_result ''ChangeMessageVisibility'') st w)))"

function change_visibility_batch_loop ::
  "params \<Rightarrow> string \<Rightarrow> nat \<Rightarrow> string \<Rightarrow> SqsStore \<Rightarrow> world \<Rightarrow> string \<times> SqsStore \<times> world" where
  "change_visibility_batch_loop ps name i inner st w =
     (case (hm_get ps (indexed_key ''ChangeMessageVisibilityBatchRequestEntry'' i ''.Id''),
            hm_get ps (indexed_key ''ChangeMessageVisibilityBatchRequestEntry'' i ''.ReceiptHandle'')) of
        (Some entry_id, Some rh) \<Rightarrow>
          (let vt = (case param_u32 ps (indexed_key ''ChangeMessageVisibilityBatchRequestEntry'' i ''.VisibilityTimeout'') of
                       Some v \<Rightarrow> v | None \<Rightarrow> 30);
               (st', w') = change_visibility_in st name rh vt w
           in change_visibility_batch_loop ps name (Suc i)
                (inner @ ''<ChangeMessageVisibilityBatchResultEntry><Id>'' @ escape_xml entry_id @
                 ''</Id></ChangeMessageVisibilityBatchResultEntry>'') st' w')
      | _ \<Rightarrow> (inner, st, w))"
  by pat_completeness auto
termination
  by (relation "measure (\<lambda>(ps, name, i, _). keys_from ps ''ChangeMessageVisibilityBatchRequestEntry'' ''.Id'' i)")
     (auto intro: keys_from_less [OF sym])

declare change_visibility_batch_loop.simps [simp del]

definition handle_change_message_visibility_batch ::
  "SqsStore \<Rightarrow> params \<Rightarrow> world \<Rightarrow> DispatchResponse \<times> SqsStore \<times> world" where
  "handle_change_message_visibility_batch st ps w =
     (case hm_get ps ''QueueUrl'' of
        None \<Rightarrow> (missing_parameter ''QueueUrl'', st, w)
      | Some url \<Rightarrow>
          (let (inner, st, w) = change_visibility_batch_loop ps (queue_name_from_url url) 1 [] st w
           in reply_with (\<lambda>rid. xml_wrap ''ChangeMessageVisibilityBatch'' rid inner) st w))"

section \<open>Dispatch\<close>

type_synonym sqs_bundle = "SqsStore AccountRegionBundle"

text \<open>
  \<^verbatim>\<open>get\<close> and \<^verbatim>\<open>get_mut\<close> with the response for a scope that has no store, and \<^verbatim>\<open>get_or_create\<close>.
\<close>

definition with_store ::
  "(world \<Rightarrow> DispatchResponse \<times> world) \<Rightarrow> (SqsStore \<Rightarrow> world \<Rightarrow> DispatchResponse \<times> world) \<Rightarrow>
   RequestContext \<Rightarrow> sqs_bundle \<Rightarrow> world \<Rightarrow> DispatchResponse \<times> sqs_bundle \<times> world" where
  "with_store missing f ctx b w =
     (case bundle_get b (ctx_account_id ctx) (ctx_region ctx) of
        None \<Rightarrow> (let (r, w) = missing w in (r, b, w))
      | Some st \<Rightarrow> (let (r, w) = f st w in (r, b, w)))"

definition with_store_mut ::
  "DispatchResponse \<Rightarrow> (SqsStore \<Rightarrow> world \<Rightarrow> DispatchResponse \<times> SqsStore \<times> world) \<Rightarrow>
   RequestContext \<Rightarrow> sqs_bundle \<Rightarrow> world \<Rightarrow> DispatchResponse \<times> sqs_bundle \<times> world" where
  "with_store_mut missing f ctx b w =
     (case bundle_get_mut b (ctx_account_id ctx) (ctx_region ctx) of
        None \<Rightarrow> (missing, b, w)
      | Some st \<Rightarrow>
          (let (r, st, w) = f st w in (r, write_back b (ctx_account_id ctx) (ctx_region ctx) st, w)))"

definition with_created_store ::
  "(SqsStore \<Rightarrow> world \<Rightarrow> DispatchResponse \<times> SqsStore \<times> world) \<Rightarrow>
   RequestContext \<Rightarrow> sqs_bundle \<Rightarrow> world \<Rightarrow> DispatchResponse \<times> sqs_bundle \<times> world" where
  "with_created_store f ctx b w =
     (let (st, b) = get_or_create SqsStore_new b (ctx_account_id ctx) (ctx_region ctx);
          (r, st, w) = f st w
      in (r, write_back b (ctx_account_id ctx) (ctx_region ctx) st, w))"

subsection \<open>JSON mode\<close>

definition json_nonexistent :: "externs \<Rightarrow> DispatchResponse" where
  "json_nonexistent ext =
     sqs_json_error ext ''AWS.SimpleQueueService.NonExistentQueue'' ''The specified queue does not exist.'' 400"

definition json_missing :: "externs \<Rightarrow> string \<Rightarrow> DispatchResponse" where
  "json_missing ext name = sqs_json_error ext ''MissingParameter'' (name @ '' is required'') 400"

definition json_get_queue_url ::
  "externs \<Rightarrow> params \<Rightarrow> RequestContext \<Rightarrow> sqs_bundle \<Rightarrow> world \<Rightarrow> DispatchResponse \<times> sqs_bundle \<times> world" where
  "json_get_queue_url ext ps ctx b w =
     (case hm_get ps ''QueueName'' of
        None \<Rightarrow> (json_missing ext ''QueueName'', b, w)
      | Some name \<Rightarrow>
          with_store (\<lambda>w. (json_nonexistent ext, w))
            (\<lambda>st w. (case get_queue_by_name st name of
               Some q \<Rightarrow> sqs_json_response ext (json_object [(''QueueUrl'', JString (q_url q))])
             | None \<Rightarrow> json_nonexistent ext, w)) ctx b w)"

definition json_create_queue ::
  "externs \<Rightarrow> params \<Rightarrow> RequestContext \<Rightarrow> SqsStore \<Rightarrow> world \<Rightarrow> DispatchResponse \<times> SqsStore \<times> world" where
  "json_create_queue ext ps ctx st w =
     (case hm_get ps ''QueueName'' of
        None \<Rightarrow> (json_missing ext ''QueueName'', st, w)
      | Some name \<Rightarrow>
          (let attributes = extract_indexed_kv ps ''Attribute'';
               base = base_queue_url ext ctx;
               (q, st, w) = create_queue ext w st name base (ctx_account_id ctx) (ctx_region ctx) attributes
           in (sqs_json_response ext (json_object [(''QueueUrl'', JString (q_url (the q)))]), st, w)))"

definition json_send_message ::
  "externs \<Rightarrow> params \<Rightarrow> SqsStore \<Rightarrow> world \<Rightarrow> DispatchResponse \<times> SqsStore \<times> world" where
  "json_send_message ext ps st w =
     (case hm_get ps ''QueueUrl'' of
        None \<Rightarrow> (json_missing ext ''QueueUrl'', st, w)
      | Some url \<Rightarrow>
     (case hm_get ps ''MessageBody'' of
        None \<Rightarrow> (json_missing ext ''MessageBody'', st, w)
      | Some body \<Rightarrow>
          (let name = queue_name_from_url url;
               delay = param_u32 ps ''DelaySeconds'';
               message_group_id = hm_get ps ''MessageGroupId'';
               dedup_id = hm_get ps ''MessageDeduplicationId'';
               msg_attrs = extract_message_attributes ps
           in case get_queue_by_name st name of
                None \<Rightarrow> (json_nonexistent ext, st, w)
              | Some q \<Rightarrow>
                  (let (res, q, w) = send_message ext w q body delay msg_attrs message_group_id dedup_id;
                       st = set_queue st name q
                   in case res of
                        Some msg \<Rightarrow> (sqs_json_response ext (json_object
                          [(''MessageId'', JString (r_message_id msg)),
                           (''MD5OfMessageBody'', JString (r_md5_of_body msg))]), st, w)
                      | None \<Rightarrow> (sqs_json_response ext (json_object
                          [(''MessageId'', JString ''duplicate''), (''MD5OfMessageBody'', JString [])]), st, w)))))"

definition message_json :: "SqsMessage \<Rightarrow> Value" where
  "message_json msg = json_object
     [(''MessageId'', JString (m_message_id msg)), (''ReceiptHandle'', JString (m_receipt_handle msg)),
      (''MD5OfBody'', JString (m_md5_of_body msg)), (''Body'', JString (m_body msg))]"

definition json_receive_message ::
  "externs \<Rightarrow> params \<Rightarrow> SqsStore \<Rightarrow> world \<Rightarrow> DispatchResponse \<times> SqsStore \<times> world" where
  "json_receive_message ext ps st w =
     (case hm_get ps ''QueueUrl'' of
        None \<Rightarrow> (json_missing ext ''QueueUrl'', st, w)
      | Some url \<Rightarrow>
          (let vt = param_u32 ps ''VisibilityTimeout''; name = queue_name_from_url url in
           case get_queue_by_name st name of
             None \<Rightarrow> (json_nonexistent ext, st, w)
           | Some q \<Rightarrow>
               (let (messages, q, w) = receive_messages w q (max_number_of ps) vt;
                    payload = map message_json (List.map_filter (nth_opt (q_messages q)) messages)
                in (sqs_json_response ext (json_object [(''Messages'', JArray payload)]),
                    set_queue st name q, w))))"

definition json_delete_queue ::
  "externs \<Rightarrow> params \<Rightarrow> SqsStore \<Rightarrow> world \<Rightarrow> DispatchResponse \<times> SqsStore \<times> world" where
  "json_delete_queue ext ps st w =
     (case hm_get ps ''QueueUrl'' of
        None \<Rightarrow> (json_missing ext ''QueueUrl'', st, w)
      | Some url \<Rightarrow>
          (let (deleted, st) = delete_queue st (queue_name_from_url url)
           in (if deleted then sqs_json_response ext (json_object []) else json_nonexistent ext, st, w)))"

type_synonym sqs_result = "(DispatchError + DispatchResponse) \<times> sqs_bundle \<times> world"

definition ok :: "DispatchResponse \<times> sqs_bundle \<times> world \<Rightarrow> sqs_result" where
  "ok x = (case x of (r, b, w) \<Rightarrow> (Inr r, b, w))"

definition dispatch_json ::
  "externs \<Rightarrow> string \<Rightarrow> params \<Rightarrow> RequestContext \<Rightarrow> sqs_bundle \<Rightarrow> world \<Rightarrow> sqs_result" where
  "dispatch_json ext action ps ctx b w =
     (if action = ''GetQueueUrl'' then ok (json_get_queue_url ext ps ctx b w)
      else if action = ''CreateQueue'' then ok (with_created_store (json_create_queue ext ps ctx) ctx b w)
      else if action = ''SendMessage''
        then ok (with_store_mut (json_nonexistent ext) (json_send_message ext ps) ctx b w)
      else if action = ''ReceiveMessage''
        then ok (with_store_mut (json_nonexistent ext) (json_receive_message ext ps) ctx b w)
      else if action = ''DeleteQueue''
        then ok (with_store_mut (json_nonexistent ext) (json_delete_queue ext ps) ctx b w)
      else (Inl (NotImplemented action), b, w))"

subsection \<open>XML mode\<close>

definition dispatch_xml ::
  "externs \<Rightarrow> string \<Rightarrow> params \<Rightarrow> RequestContext \<Rightarrow> sqs_bundle \<Rightarrow> world \<Rightarrow> sqs_result" where
  "dispatch_xml ext action ps ctx b w =
     (let gone = with_store (\<lambda>w. (nonexistent_queue, w)); gone_mut = with_store_mut nonexistent_queue in
      if action = ''ListQueues''
        then ok (with_store (\<lambda>w. let (rid, w) = new_request_id w in (xml_wrap ''ListQueues'' rid [], w))
                   (\<lambda>st. handle_list_queues st ps) ctx b w)
      else if action = ''GetQueueUrl'' then ok (gone (\<lambda>st. handle_get_queue_url st ps) ctx b w)
      else if action = ''GetQueueAttributes''
        then ok (gone (\<lambda>st. handle_get_queue_attributes st ps) ctx b w)
      else if action = ''CreateQueue''
        then ok (with_created_store (\<lambda>st. handle_create_queue ext st ctx ps) ctx b w)
      else if action = ''DeleteQueue'' then ok (gone_mut (\<lambda>st. handle_delete_queue st ps) ctx b w)
      else if action = ''SetQueueAttributes''
        then ok (gone_mut (\<lambda>st. handle_set_queue_attributes ext st ps) ctx b w)
      else if action = ''PurgeQueue'' then ok (gone_mut (\<lambda>st. handle_purge_queue st ps) ctx b w)
      else if action = ''SendMessage'' then ok (gone_mut (\<lambda>st. handle_send_message ext st ps) ctx b w)
      else if action = ''SendMessageBatch''
        then ok (gone_mut (\<lambda>st. handle_send_message_batch ext st ps) ctx b w)
      else if action = ''ReceiveMessage'' then ok (gone_mut (\<lambda>st. handle_receive_message st ps) ctx b w)
      else if action = ''DeleteMessage'' then ok (gone_mut (\<lambda>st. handle_delete_message st ps) ctx b w)
      else if action = ''DeleteMessageBatch''
        then ok (gone_mut (\<lambda>st. handle_delete_message_batch st ps) ctx b w)
      else if action = ''ChangeMessageVisibility''
        then ok (gone_mut (\<lambda>st. handle_change_message_visibility st ps) ctx b w)
      else if action = ''ChangeMessageVisibilityBatch''
        then ok (gone_mut (\<lambda>st. handle_change_message_visibility_batch st ps) ctx b w)
      else (Inl (NotImplemented action), b, w))"

definition dispatch :: "externs \<Rightarrow> RequestContext \<Rightarrow> sqs_bundle \<Rightarrow> world \<Rightarrow> sqs_result" where
  "dispatch ext ctx b w =
     (let ps = apply_transport_compat ext ctx (parse_params ext ctx);
          query_mode_json = (hm_get (ctx_headers ctx) ''x-amzn-query-mode'' = Some ''true'')
      in case (case hm_get ps ''Action'' of Some a \<Rightarrow> Some a | None \<Rightarrow> hm_get (ctx_query_params ctx) ''Action'') of
           None \<Rightarrow> (Inl (NotImplemented ''(missing Action)''), b, w)
         | Some action \<Rightarrow>
             (if query_mode_json then dispatch_json ext action ps ctx b w
              else dispatch_xml ext action ps ctx b w))"

text \<open>
  \<^verbatim>\<open>storage_snapshot\<close>; \<open>to_rfc3339\<close> is the timestamp printer of the package \<^verbatim>\<open>chrono\<close>.
\<close>

definition storage_snapshot :: "(int \<Rightarrow> string) \<Rightarrow> sqs_bundle \<Rightarrow> Value" where
  "storage_snapshot to_rfc3339 b =
     (let attr = (\<lambda>k v. json_object [(''key'', JString k), (''value'', JString v)]);
          qs = concat (map (\<lambda>(_, st). map (\<lambda>q. json_object
                 [(''id'', JString (q_url q)), (''kind'', JString ''queue''),
                  (''created_at'', JString (to_rfc3339 (q_created q))),
                  (''attributes'', JArray [attr ''name'' (q_name q), attr ''arn'' (q_arn q),
                     attr ''message_count'' (nat_to_string (length (q_messages q)))])])
                 (hm_values (queues st))) (bundle_iter b))
      in json_object [(''kind'', JString ''sqs''), (''queues'', JArray qs)])"

end
