(* ===== verification/Sqs_Service.thy ===== *)
theory Sqs_Service
  imports Sqs_Provider
begin

text \<open>
  What the SQS provider guarantees of one request: its escaping and decoding, that each action
  does to the named queue what a run of queue operations does, and the isolation of the scopes.
\<close>

section \<open>Escaping and decoding\<close>

lemma escape_xml_eq: "escape_xml s = concat (map sqs_escape_char s)"
  unfolding escape_xml_def by (auto intro!: concat_map_id [symmetric] simp: sqs_escape_char_def split: if_splits)

interpretation sqs_xml: xml_escaper escape_xml "{CHR ''&'', CHR ''<'', CHR ''>'', CHR 0x22}" xml_entity
  by unfold_locales (auto simp: escape_xml_eq sqs_escape_char_def xml_entity_def inj_on_def split: if_splits)

lemma push_fold: "fold (\<lambda>ch dst. dst @ sqs_escape_char ch) s dst = dst @ concat (map sqs_escape_char s)"
  by (induction s arbitrary: dst) auto

lemma push_xml_escaped_eq: "push_xml_escaped dst s = dst @ escape_xml s"
  by (simp add: push_xml_escaped_def escape_xml_def push_fold)

text \<open>The two escaping routines of the provider agree, their output has no angle bracket and no
  quotation mark, and it determines the text that was escaped.\<close>

theorem sqs_escaping_safe:
  "push_xml_escaped dst s = dst @ escape_xml s \<and>
   (CHR ''<'' \<notin> set (escape_xml s) \<and> CHR ''>'' \<notin> set (escape_xml s) \<and> CHR 0x22 \<notin> set (escape_xml s)) \<and>
   (escape_xml s = escape_xml t) = (s = t)"
  using push_xml_escaped_eq sqs_xml.no_markup [of _ s] sqs_xml.esc_inject [of s t] by auto

lemma upper_hex_val: "d < 16 \<Longrightarrow> digit_val 16 (upper_hex_digit d) = Some d"
  by (auto simp: digit_val_def upper_hex_digit_def of_char_of Let_def)

lemma upper_hex_ascii: "d < 16 \<Longrightarrow> (of_char (upper_hex_digit d) :: nat) < 128"
  by (auto simp: upper_hex_digit_def of_char_of)

lemma upper_hex_not_plus: "d < 16 \<Longrightarrow> upper_hex_digit d \<noteq> CHR ''+''"
proof
  assume d: "d < 16" "upper_hex_digit d = CHR ''+''"
  have "(of_char (upper_hex_digit d) :: nat) = (if d < 10 then 48 + d else 55 + d)"
    using d(1) by (simp add: upper_hex_digit_def of_char_of)
  with d(2) show False by (simp split: if_splits)
qed

lemma byte_halves: "(of_char c :: nat) div 16 < 16" "(of_char c :: nat) mod 16 < 16"
proof -
  have "(of_char c :: nat) < 256" by simp
  then show "(of_char c :: nat) div 16 < 16" by (intro less_mult_imp_div_less) simp
qed simp

lemma decode_escape:
  assumes "a < 16" "b < 16"
  shows "Option.bind (from_utf8 [upper_hex_digit a, upper_hex_digit b]) (parse_uint 16 8) = Some (a * 16 + b)"
proof -
  have "a * 16 + b < 256" using assms by simp
  then show ?thesis
    using assms by (simp add: from_utf8_def upper_hex_ascii parse_uint_def upper_hex_not_plus upper_hex_val)
qed

lemma url_decode_from_encode:
  "url_decode_from (url_encode s) = concat (map push_byte_as_char s)"
proof (induction s)
  case Nil
  then show ?case by (simp add: url_encode_def url_decode_from.simps)
next
  case (Cons c s)
  show ?case
  proof (cases "is_unreserved c")
    case True
    then have "c \<noteq> CHR ''%''" "c \<noteq> CHR ''+''" by (auto simp: is_unreserved_def)
    with Cons True show ?thesis
      by (simp add: url_encode_def url_encode_byte_def url_decode_from.simps [of "c # _"])
  next
    case False
    let ?n = "(of_char c :: nat)"
    note d = byte_halves [of c]
    have "char_of (?n div 16 * 16 + ?n mod 16) = c" by simp
    with Cons False decode_escape [OF d] show ?thesis
      by (simp add: url_encode_def url_encode_byte_def url_decode_from.simps [of "CHR ''%'' # _"] Let_def
          del: div_mult_mod_eq)
  qed
qed

lemma push_ascii: "\<forall>c \<in> set s. (of_char c :: nat) < 128 \<Longrightarrow> concat (map push_byte_as_char s) = s"
  by (induction s) (auto simp: push_byte_as_char_def)

lemma url_decode_from_plain:
  "\<not> list_ex (\<lambda>b. b \<in> {CHR ''%'', CHR ''+''}) s \<Longrightarrow> url_decode_from s = concat (map push_byte_as_char s)"
  by (induction s) (simp_all add: url_decode_from.simps Let_def)

lemma url_encode_ascii: "c \<in> set (url_encode s) \<Longrightarrow> (of_char c :: nat) < 128"
proof -
  assume "c \<in> set (url_encode s)"
  then obtain d where "d \<in> set s" "c \<in> set (url_encode_byte d)" by (auto simp: url_encode_def)
  then show ?thesis using byte_halves [of d]
    by (auto simp: url_encode_byte_def is_unreserved_def Let_def upper_hex_ascii split: if_splits)
qed

lemma url_decode_encoded: "url_decode (url_encode s) = concat (map push_byte_as_char s)"
proof -
  have "url_decode (url_encode s) = url_decode_from (url_encode s)"
  proof (cases "list_ex (\<lambda>b. b \<in> {CHR ''%'', CHR ''+''}) (url_encode s)")
    case False
    have "concat (map push_byte_as_char (url_encode s)) = url_encode s"
      by (rule push_ascii) (auto dest: url_encode_ascii)
    then show ?thesis unfolding url_decode_def using url_decode_from_plain [OF False] False by simp
  qed (simp add: url_decode_def)
  then show ?thesis by (simp add: url_decode_from_encode)
qed

text \<open>Decoding what the workspace's own encoder \<^verbatim>\<open>url_encode\<close> produces yields each byte as the
  Latin-1 character of that number; on ASCII text this is the identity, on other text it is not,
  since the bytes of a UTF-8 character become one character each.\<close>

theorem url_decode_encode:
  "url_decode (url_encode s) = concat (map push_byte_as_char s) \<and>
   ((\<forall>c \<in> set s. (of_char c :: nat) < 128) \<longrightarrow> url_decode (url_encode s) = s)"
  by (simp add: url_decode_encoded push_ascii)

theorem url_decode_encode_witness: "url_decode (url_encode ''a b&c'') = ''a b&c''"
  using url_decode_encode [of "''a b&c''"] by auto

section \<open>Actions as runs of queue operations\<close>

text \<open>
  The specification of the actions that work on one queue: the operations an action performs
  on the queue its parameter \<open>QueueUrl\<close> names.
\<close>

definition send_of :: "params \<Rightarrow> string \<Rightarrow> queue_op" where
  "send_of ps body = Send body (param_u32 ps ''DelaySeconds'') (extract_message_attributes ps)
     (hm_get ps ''MessageGroupId'') (hm_get ps ''MessageDeduplicationId'')"

function batch_sends :: "params \<Rightarrow> nat \<Rightarrow> queue_op list" where
  "batch_sends ps i =
     (case (hm_get ps (batch_entry_key i ''.Id''), hm_get ps (batch_entry_key i ''.MessageBody'')) of
        (Some entry_id, Some body) \<Rightarrow>
          Send body (param_u32 ps (batch_entry_key i ''.DelaySeconds'')) []
            (hm_get ps (batch_entry_key i ''.MessageGroupId''))
            (hm_get ps (batch_entry_key i ''.MessageDeduplicationId'')) # batch_sends ps (Suc i)
      | _ \<Rightarrow> [])"
  by pat_completeness auto
termination
  by (relation "measure (\<lambda>(ps, i). keys_from ps ''SendMessageBatchRequestEntry'' ''.Id'' i)")
     (auto simp: batch_entry_key_def intro: keys_from_less [OF sym])

function batch_deletes :: "params \<Rightarrow> nat \<Rightarrow> queue_op list" where
  "batch_deletes ps i =
     (case (hm_get ps (indexed_key ''DeleteMessageBatchRequestEntry'' i ''.Id''),
            hm_get ps (indexed_key ''DeleteMessageBatchRequestEntry'' i ''.ReceiptHandle'')) of
        (Some entry_id, Some rh) \<Rightarrow> Delete rh # batch_deletes ps (Suc i)
      | _ \<Rightarrow> [])"
  by pat_completeness auto
termination
  by (relation "measure (\<lambda>(ps, i). keys_from ps ''DeleteMessageBatchRequestEntry'' ''.Id'' i)")
     (auto intro: keys_from_less [OF sym])

function batch_changes :: "params \<Rightarrow> nat \<Rightarrow> queue_op list" where
  "batch_changes ps i =
     (case (hm_get ps (indexed_key ''ChangeMessageVisibilityBatchRequestEntry'' i ''.Id''),
            hm_get ps (indexed_key ''ChangeMessageVisibilityBatchRequestEntry'' i ''.ReceiptHandle'')) of
        (Some entry_id, Some rh) \<Rightarrow>
          ChangeVisibility rh (case param_u32 ps (indexed_key ''ChangeMessageVisibilityBatchRequestEntry'' i
              ''.VisibilityTimeout'') of Some v \<Rightarrow> v | None \<Rightarrow> 30) # batch_changes ps (Suc i)
      | _ \<Rightarrow> [])"
  by pat_completeness auto
termination
  by (relation "measure (\<lambda>(ps, i). keys_from ps ''ChangeMessageVisibilityBatchRequestEntry'' ''.Id'' i)")
     (auto intro: keys_from_less [OF sym])

declare batch_sends.simps [simp del] batch_deletes.simps [simp del] batch_changes.simps [simp del]

definition action_ops :: "string \<Rightarrow> params \<Rightarrow> queue_op list" where
  "action_ops action ps =
     (if action = ''SendMessage'' then
        (case hm_get ps ''MessageBody'' of Some body \<Rightarrow> [send_of ps body] | None \<Rightarrow> [])
      else if action = ''SendMessageBatch'' then batch_sends ps 1
      else if action = ''ReceiveMessage'' then
        [Receive (max_number_of ps) (param_u32 ps ''VisibilityTimeout''), RemoveDlq]
      else if action = ''DeleteMessage'' then
        (case hm_get ps ''ReceiptHandle'' of Some rh \<Rightarrow> [Delete rh] | None \<Rightarrow> [])
      else if action = ''DeleteMessageBatch'' then batch_deletes ps 1
      else if action = ''ChangeMessageVisibility'' then
        (case hm_get ps ''ReceiptHandle'' of
           Some rh \<Rightarrow> [ChangeVisibility rh (case param_u32 ps ''VisibilityTimeout'' of Some v \<Rightarrow> v | None \<Rightarrow> 30)]
         | None \<Rightarrow> [])
      else if action = ''ChangeMessageVisibilityBatch'' then batch_changes ps 1
      else if action = ''PurgeQueue'' then [Purge]
      else if action = ''SetQueueAttributes'' then [SetAttributes (extract_indexed_kv ps ''Attribute'')]
      else [])"

text \<open>The store after \<open>ops\<close> ran on the queue \<open>name\<close>, if there is one; the request counter aside.\<close>

definition runs_on ::
  "externs \<Rightarrow> queue_op list \<Rightarrow> string \<Rightarrow> SqsStore \<Rightarrow> world \<Rightarrow> SqsStore \<Rightarrow> world \<Rightarrow> bool" where
  "runs_on ext ops name st w st' w' \<longleftrightarrow>
     (case get_queue_by_name st name of
        None \<Rightarrow> (\<forall>n. get_queue_by_name st' n = get_queue_by_name st n) \<and>
                w'\<lparr>request_id_counter := 0\<rparr> = w\<lparr>request_id_counter := 0\<rparr>
      | Some q \<Rightarrow>
          (\<forall>n. get_queue_by_name st' n =
             (if n = name then Some (fst (run_queue_ops ext ops (q, w))) else get_queue_by_name st n)) \<and>
          w'\<lparr>request_id_counter := 0\<rparr> = (snd (run_queue_ops ext ops (q, w)))\<lparr>request_id_counter := 0\<rparr>)"

lemma get_set_queue: "get_queue_by_name (set_queue st name q) n = (if n = name then Some q else get_queue_by_name st n)"
  by (simp add: get_queue_by_name_def set_queue_def update_conv')

lemma run_queue_ops_simps [simp]:
  "run_queue_ops ext [] s = s"
  "run_queue_ops ext (op # ops) s = run_queue_ops ext ops (run_queue_op ext op s)"
  by (simp_all add: run_queue_ops_def)

lemma runs_on_reply:
  assumes "reply_with mk st' w' = (r, st'', w'')" "runs_on ext ops name st w st' w'"
  shows "runs_on ext ops name st w st'' w''"
  using assms by (auto simp: runs_on_def reply_with_def new_request_id_def split: option.splits)

lemma runs_on_nil: "runs_on ext [] name st w st w"
  by (simp add: runs_on_def split: option.splits)

lemma runs_on_missing: "get_queue_by_name st name = None \<Longrightarrow> runs_on ext ops name st w st w"
  by (simp add: runs_on_def)

lemma runs_on_set:
  assumes "get_queue_by_name st name = Some q" "run_queue_ops ext ops (q, w) = (q', w')"
  shows "runs_on ext ops name st w (set_queue st name q') w'"
  using assms by (simp add: runs_on_def get_set_queue)

lemma runs_on_step:
  assumes "get_queue_by_name st name = Some q" "run_queue_op ext op (q, w) = (q1, w1)"
    and "runs_on ext ops name (set_queue st name q1) w1 st' w'"
  shows "runs_on ext (op # ops) name st w st' w'"
  using assms by (auto simp: runs_on_def get_set_queue)

lemmas runs_on_intros = runs_on_nil runs_on_missing runs_on_set

lemma send_batch_runs:
  "send_batch_loop ext ps name i s st w = (s', st', w') \<Longrightarrow>
   runs_on ext (batch_sends ps i) name st w st' w'"
proof (induction ext ps name i s st w arbitrary: s' st' w' rule: send_batch_loop.induct)
  case (1 ext ps name i s st w)
  show ?case
  proof (cases "hm_get ps (batch_entry_key i ''.Id'') = None \<or> hm_get ps (batch_entry_key i ''.MessageBody'') = None")
    case True
    with 1(2) show ?thesis
      by (subst batch_sends.simps) (auto simp: send_batch_loop.simps [of ext] runs_on_nil split: option.splits)
  next
    case False
    then obtain e body where eb: "hm_get ps (batch_entry_key i ''.Id'') = Some e"
      "hm_get ps (batch_entry_key i ''.MessageBody'') = Some body" by auto
    show ?thesis
    proof (cases "get_queue_by_name st name")
      case None
      with 1(2) eb show ?thesis by (simp add: send_batch_loop.simps [of ext] Let_def runs_on_missing)
    next
      case (Some q)
      obtain res q1 w1 where sm: "send_message ext w q body (param_u32 ps (batch_entry_key i ''.DelaySeconds'')) []
          (hm_get ps (batch_entry_key i ''.MessageGroupId'')) (hm_get ps (batch_entry_key i ''.MessageDeduplicationId''))
          = (res, q1, w1)" by (metis prod_cases3)
      show ?thesis
        unfolding batch_sends.simps [of ps i] eb
        using 1(2) 1(1) [OF _ eb refl refl refl Some sm [symmetric] refl refl refl] eb Some sm
        by (auto simp: send_batch_loop.simps [of ext ps name i] Let_def intro: runs_on_step)
    qed
  qed
qed

lemma delete_in_runs: "runs_on ext [Delete rh] name st w (delete_in st name rh) w"
  by (cases "get_queue_by_name st name") (simp_all add: delete_in_def runs_on_missing runs_on_set)

lemma delete_batch_runs:
  "delete_batch_loop ps name i s st = (s', st') \<Longrightarrow> runs_on ext (batch_deletes ps i) name st w st' w"
proof (induction ps name i s st arbitrary: s' st' rule: delete_batch_loop.induct)
  case (1 ps name i s st)
  let ?key = "indexed_key ''DeleteMessageBatchRequestEntry'' i"
  show ?case
  proof (cases "hm_get ps (?key ''.Id'') = None \<or> hm_get ps (?key ''.ReceiptHandle'') = None")
    case True
    with 1(2) show ?thesis
      by (subst batch_deletes.simps) (auto simp: delete_batch_loop.simps [of ps] runs_on_nil split: option.splits)
  next
    case False
    then obtain e rh where eb: "hm_get ps (?key ''.Id'') = Some e" "hm_get ps (?key ''.ReceiptHandle'') = Some rh"
      by auto
    have IH: "runs_on ext (batch_deletes ps (Suc i)) name (delete_in st name rh) w st' w"
      using 1(2) 1(1) [OF _ eb] eb by (simp add: delete_batch_loop.simps [of ps name i])
    show ?thesis
    proof (cases "get_queue_by_name st name")
      case None
      with IH eb show ?thesis by (simp add: delete_in_def runs_on_def)
    next
      case (Some q)
      with IH eb show ?thesis
        by (simp add: batch_deletes.simps [of ps i] delete_in_def runs_on_step)
    qed
  qed
qed

lemma change_visibility_in_runs:
  "change_visibility_in st name rh vt w = (st', w') \<Longrightarrow> runs_on ext [ChangeVisibility rh vt] name st w st' w'"
  by (cases "get_queue_by_name st name")
     (auto simp: change_visibility_in_def runs_on_missing intro!: runs_on_set split: prod.splits)

lemma change_visibility_batch_runs:
  "change_visibility_batch_loop ps name i s st w = (s', st', w') \<Longrightarrow>
   runs_on ext (batch_changes ps i) name st w st' w'"
proof (induction ps name i s st w arbitrary: s' st' w' rule: change_visibility_batch_loop.induct)
  case (1 ps name i s st w)
  let ?key = "indexed_key ''ChangeMessageVisibilityBatchRequestEntry'' i"
  let ?vt = "case param_u32 ps (?key ''.VisibilityTimeout'') of Some v \<Rightarrow> v | None \<Rightarrow> 30"
  show ?case
  proof (cases "hm_get ps (?key ''.Id'') = None \<or> hm_get ps (?key ''.ReceiptHandle'') = None")
    case True
    with 1(2) show ?thesis
      by (subst batch_changes.simps) (auto simp: change_visibility_batch_loop.simps [of ps] runs_on_nil split: option.splits)
  next
    case False
    then obtain e rh where eb: "hm_get ps (?key ''.Id'') = Some e" "hm_get ps (?key ''.ReceiptHandle'') = Some rh"
      by auto
    obtain st1 w1 where cv: "change_visibility_in st name rh ?vt w = (st1, w1)" by fastforce
    have IH: "runs_on ext (batch_changes ps (Suc i)) name st1 w1 st' w'"
      using 1(2) 1(1) [OF _ eb refl cv [symmetric]] eb cv
      by (simp add: change_visibility_batch_loop.simps [of ps name i] Let_def)
    show ?thesis
    proof (cases "get_queue_by_name st name")
      case None
      with cv have "st1 = st" "w1 = w" by (simp_all add: change_visibility_in_def)
      with IH eb None show ?thesis by (simp add: runs_on_def)
    next
      case (Some q)
      then obtain q1 where "run_queue_op ext (ChangeVisibility rh ?vt) (q, w) = (q1, w1)" "st1 = set_queue st name q1"
        using cv by (auto simp: change_visibility_in_def split: prod.splits)
      with IH Some show ?thesis
        unfolding batch_changes.simps [of ps i] eb by (simp only: prod.case option.case runs_on_step)
    qed
  qed
qed

lemma remove_dlq_noop:
  "q_redrive_policy q = None \<Longrightarrow> remove_dlq_candidates q = q"
  "q_redrive_policy q = Some rp \<Longrightarrow> \<not> list_ex (\<lambda>m. max_receive_count rp \<le> m_receive_count m) (q_messages q) \<Longrightarrow>
     remove_dlq_candidates q = q"
  by (simp_all add: remove_dlq_candidates_def list_ex_iff not_le)

text \<open>What every handler of the XML mode that works on a queue does to the store.\<close>

lemma handlers_run:
  assumes "hm_get ps ''QueueUrl'' = Some url"
  defines "name \<equiv> queue_name_from_url url"
  shows "handle_send_message ext st ps w = (r, st', w') \<Longrightarrow> runs_on ext (action_ops ''SendMessage'' ps) name st w st' w'"
    and "handle_send_message_batch ext st ps w = (r, st', w') \<Longrightarrow>
           runs_on ext (action_ops ''SendMessageBatch'' ps) name st w st' w'"
    and "handle_receive_message st ps w = (r, st', w') \<Longrightarrow> runs_on ext (action_ops ''ReceiveMessage'' ps) name st w st' w'"
    and "handle_delete_message st ps w = (r, st', w') \<Longrightarrow> runs_on ext (action_ops ''DeleteMessage'' ps) name st w st' w'"
    and "handle_delete_message_batch st ps w = (r, st', w') \<Longrightarrow>
           runs_on ext (action_ops ''DeleteMessageBatch'' ps) name st w st' w'"
    and "handle_change_message_visibility st ps w = (r, st', w') \<Longrightarrow>
           runs_on ext (action_ops ''ChangeMessageVisibility'' ps) name st w st' w'"
    and "handle_change_message_visibility_batch st ps w = (r, st', w') \<Longrightarrow>
           runs_on ext (action_ops ''ChangeMessageVisibilityBatch'' ps) name st w st' w'"
    and "handle_purge_queue st ps w = (r, st', w') \<Longrightarrow> runs_on ext (action_ops ''PurgeQueue'' ps) name st w st' w'"
    and "handle_set_queue_attributes ext st ps w = (r, st', w') \<Longrightarrow>
           runs_on ext (action_ops ''SetQueueAttributes'' ps) name st w st' w'"
  subgoal
    using assms by (auto simp: handle_send_message_def action_ops_def send_of_def Let_def runs_on_nil runs_on_missing
        elim!: runs_on_reply intro!: runs_on_set split: option.splits prod.splits)
  subgoal
    using assms by (auto simp: handle_send_message_batch_def action_ops_def Let_def
        elim!: runs_on_reply dest!: send_batch_runs split: prod.splits)
  subgoal
    using assms by (auto simp: handle_receive_message_def action_ops_def Let_def runs_on_missing remove_dlq_noop
        elim!: runs_on_reply intro!: runs_on_set split: option.splits prod.splits)
  subgoal
    using assms by (auto simp: handle_delete_message_def action_ops_def runs_on_nil
        elim!: runs_on_reply intro!: delete_in_runs split: option.splits)
  subgoal
    using assms by (auto simp: handle_delete_message_batch_def action_ops_def Let_def
        elim!: runs_on_reply dest!: delete_batch_runs split: prod.splits)
  subgoal
    using assms by (auto simp: handle_change_message_visibility_def action_ops_def Let_def runs_on_nil
        elim!: runs_on_reply dest!: change_visibility_in_runs split: option.splits prod.splits)
  subgoal
    using assms by (auto simp: handle_change_message_visibility_batch_def action_ops_def Let_def
        elim!: runs_on_reply dest!: change_visibility_batch_runs split: prod.splits)
  subgoal
    using assms by (auto simp: handle_purge_queue_def action_ops_def Let_def runs_on_missing
        elim!: runs_on_reply intro!: runs_on_set split: option.splits)
  subgoal
    using assms by (auto simp: handle_set_queue_attributes_def action_ops_def Let_def runs_on_missing
        elim!: runs_on_reply intro!: runs_on_set split: option.splits prod.splits)
  done

definition queue_actions :: "string list" where
  "queue_actions = [''SendMessage'', ''SendMessageBatch'', ''ReceiveMessage'', ''DeleteMessage'',
     ''DeleteMessageBatch'', ''ChangeMessageVisibility'', ''ChangeMessageVisibilityBatch'', ''PurgeQueue'',
     ''SetQueueAttributes'']"

lemma with_store_mut_runs:
  assumes "ok (with_store_mut missing f ctx b w) = (r, b', w')"
    and "bundle_get b (ctx_account_id ctx) (ctx_region ctx) = Some st"
    and "\<And>r st'. f st w = (r, st', w') \<Longrightarrow> P st'"
  shows "\<exists>st'. bundle_get b' (ctx_account_id ctx) (ctx_region ctx) = Some st' \<and> P st'"
  using assms by (auto simp: ok_def with_store_mut_def bundle_get_eq bundle_get_mut_eq write_back_def update_conv'
      split: prod.splits)

text \<open>C20: Every XML action that works on a queue changes the store of the caller's scope exactly as a run
  of queue operations on the named queue does (\<open>action_ops\<close> gives the run): batches are the
  sequence of their entries, other queues keep their contents, a missing queue changes nothing.\<close>

theorem actions_refine_queue_runs:
  assumes "action \<in> set queue_actions" and "hm_get ps ''QueueUrl'' = Some url"
    and "bundle_get b (ctx_account_id ctx) (ctx_region ctx) = Some st"
    and "dispatch_xml ext action ps ctx b w = (r, b', w')"
  shows "\<exists>st'. bundle_get b' (ctx_account_id ctx) (ctx_region ctx) = Some st' \<and>
    runs_on ext (action_ops action ps) (queue_name_from_url url) st w st' w'"
  using assms(1,4) unfolding queue_actions_def
  by (auto simp: dispatch_xml_def Let_def) (erule with_store_mut_runs [OF _ assms(3)], erule handlers_run [OF assms(2)])+

section \<open>Isolation of scopes\<close>

definition scope_local ::
  "RequestContext \<Rightarrow> (sqs_bundle \<Rightarrow> world \<Rightarrow> 'r \<times> sqs_bundle \<times> world) \<Rightarrow> bool" where
  "scope_local ctx f \<longleftrightarrow>
     (\<forall>b1 b2 w. bundle_get b1 (ctx_account_id ctx) (ctx_region ctx) = bundle_get b2 (ctx_account_id ctx) (ctx_region ctx) \<longrightarrow>
        fst (f b1 w) = fst (f b2 w) \<and> snd (snd (f b1 w)) = snd (snd (f b2 w)) \<and>
        bundle_get (fst (snd (f b1 w))) (ctx_account_id ctx) (ctx_region ctx) =
        bundle_get (fst (snd (f b2 w))) (ctx_account_id ctx) (ctx_region ctx)) \<and>
     (\<forall>b w a r. (a, r) \<noteq> (ctx_account_id ctx, ctx_region ctx) \<longrightarrow>
        CHR 0x00 \<notin> set a \<longrightarrow> CHR 0x00 \<notin> set (ctx_account_id ctx) \<longrightarrow>
        bundle_get (fst (snd (f b w))) a r = bundle_get b a r)"

lemma scope_local_const: "scope_local ctx (\<lambda>b w. (x w, b, g w))"
  by (simp add: scope_local_def)

lemma scope_local_store: "scope_local ctx (with_store m f ctx)"
  by (auto simp: scope_local_def with_store_def split: option.splits prod.splits)

lemma scope_local_store_mut: "scope_local ctx (with_store_mut m f ctx)"
  by (auto simp: scope_local_def with_store_mut_def bundle_get_mut_eq bundle_get_eq [symmetric]
      bundle_get_write_back_other split: option.splits prod.splits)

lemma scope_local_created: "scope_local ctx (with_created_store f ctx)"
proof -
  let ?a = "ctx_account_id ctx" and ?r = "ctx_region ctx"
  have fst: "fst (get_or_create SqsStore_new b ?a ?r) =
      (case bundle_get b ?a ?r of None \<Rightarrow> SqsStore_new | Some s \<Rightarrow> s)" for b :: sqs_bundle
    by (simp add: get_or_create_def bundle_get_eq Let_def split: option.splits)
  have other: "(a, r) \<noteq> (?a, ?r) \<Longrightarrow> CHR 0x00 \<notin> set a \<Longrightarrow> CHR 0x00 \<notin> set ?a \<Longrightarrow>
      bundle_get (snd (get_or_create SqsStore_new b ?a ?r)) a r = bundle_get b a r" for a r and b :: sqs_bundle
    using arb.create_snd [of "(?a, ?r)" "(a, r)" SqsStore_new b] by auto
  show ?thesis
    by (auto simp: scope_local_def with_created_store_def Let_def case_prod_beta fst other
        bundle_get_write_back_other)
qed

lemma scope_local_if:
  "scope_local ctx f \<Longrightarrow> scope_local ctx g \<Longrightarrow> scope_local ctx (\<lambda>b w. if c then f b w else g b w)"
  by (cases c) simp_all

lemma scope_local_case:
  "(\<And>x. scope_local ctx (f x)) \<Longrightarrow> scope_local ctx g \<Longrightarrow>
   scope_local ctx (\<lambda>b w. case p of None \<Rightarrow> g b w | Some x \<Rightarrow> f x b w)"
  by (cases p) simp_all

lemma ok_sel: "fst (ok x) = Inr (fst x)" "snd (ok x) = snd x"
  by (simp_all add: ok_def case_prod_beta)

lemma scope_local_ok: "scope_local ctx f \<Longrightarrow> scope_local ctx (\<lambda>b w. ok (f b w))"
  unfolding scope_local_def ok_sel sum.inject by blast

lemma scope_local_json_url: "scope_local ctx (json_get_queue_url ext ps ctx)"
proof (cases "hm_get ps ''QueueName''")
  case None
  then show ?thesis by (simp add: scope_local_def json_get_queue_url_def)
next
  case (Some name)
  then show ?thesis unfolding json_get_queue_url_def by (simp add: scope_local_store)
qed

lemmas scope_local_intros = scope_local_if scope_local_case scope_local_ok scope_local_store scope_local_store_mut scope_local_created
  scope_local_json_url scope_local_const

lemma dispatch_scope_local: "scope_local ctx (dispatch ext ctx)"
  unfolding dispatch_def [abs_def] dispatch_json_def [abs_def] dispatch_xml_def [abs_def] Let_def
  by (intro scope_local_intros)

text \<open>A request changes no other scope's store, and its response and its effect on its own scope
  depend on nothing but its own scope's store: tenants cannot observe each other.\<close>

theorem dispatch_isolates_scopes:
  assumes "CHR 0x00 \<notin> set (ctx_account_id ctx)" "CHR 0x00 \<notin> set a"
    and "(a, r) \<noteq> (ctx_account_id ctx, ctx_region ctx)"
    and "dispatch ext ctx b w = (resp, b', w')"
    and "bundle_get b2 (ctx_account_id ctx) (ctx_region ctx) = bundle_get b (ctx_account_id ctx) (ctx_region ctx)"
    and "dispatch ext ctx b2 w = (resp2, b2', w2')"
  shows "bundle_get b' a r = bundle_get b a r \<and> resp2 = resp \<and> w2' = w' \<and>
    bundle_get b2' (ctx_account_id ctx) (ctx_region ctx) = bundle_get b' (ctx_account_id ctx) (ctx_region ctx)"
  using dispatch_scope_local [of ctx ext] assms unfolding scope_local_def by (metis fst_conv snd_conv)

end
