(* ===== verification/Sqs_Invariant.thy ===== *)
theory Sqs_Invariant
  imports Sqs_Service
begin

text \<open>
  The invariant of \<open>Sqs_Queue\<close> holds of every queue of every scope after any sequence of
  requests, by the refinement of \<open>Sqs_Service\<close>; further properties of single handlers; concrete
  requests at which the properties are instantiated.
\<close>

section \<open>The invariant of the service\<close>

abbreviation ids_drawn :: "world \<Rightarrow> nat" where
  "ids_drawn w \<equiv> unat (message_id_counter w)"

definition queue_ok :: "nat \<Rightarrow> string \<Rightarrow> SqsQueue \<Rightarrow> bool" where
  "queue_ok c n q \<longleftrightarrow> queue_inv c q \<and> unat (q_sequence_counter q) \<le> c \<and> q_name q = n"

definition store_ok :: "nat \<Rightarrow> SqsStore \<Rightarrow> bool" where
  "store_ok c st \<longleftrightarrow> (\<forall>n q. get_queue_by_name st n = Some q \<longrightarrow> queue_ok c n q)"

definition sqs_inv :: "nat \<Rightarrow> sqs_bundle \<Rightarrow> bool" where
  "sqs_inv c b \<longleftrightarrow> (\<forall>k st. hm_get (stores b) k = Some st \<longrightarrow> store_ok c st)"

lemma queue_ok_mono: "queue_ok c n q \<Longrightarrow> c \<le> d \<Longrightarrow> queue_ok d n q"
  by (auto simp: queue_ok_def intro: queue_inv_mono)

lemma store_ok_mono: "store_ok c st \<Longrightarrow> c \<le> d \<Longrightarrow> store_ok d st"
  by (auto simp: store_ok_def intro: queue_ok_mono)

lemma queue_op_name: "q_name (fst (run_queue_op ext op (q, w))) = q_name q"
proof (cases op)
  case (Send body delay attrs gid did)
  then show ?thesis
    by (cases "is_duplicate q did") (simp_all add: send_message_duplicate send_message_accepted Let_def)
qed (simp_all add: receive_messages_eq delete_message_def change_visibility_def purge_def
       remove_dlq_candidates_def Let_def case_prod_beta split: option.splits)

lemma queue_op_counters:
  assumes "ids_drawn w + id_cost op < 2 ^ 64" "unat (q_sequence_counter q) \<le> ids_drawn w"
    and "run_queue_op ext op (q, w) = (q', w')"
  shows "unat (q_sequence_counter q') \<le> ids_drawn w' \<and> ids_drawn w \<le> ids_drawn w'"
proof (cases op)
  case (Send body delay attrs gid did)
  have "unat (message_id_counter w + 2) = ids_drawn w + 2"
    using assms(1) Send by (subst unat_add_lem [THEN iffD1]) simp_all
  moreover have "unat (q_sequence_counter q + 1) = unat (q_sequence_counter q) + 1"
    using assms(1,2) Send by (subst unat_add_lem [THEN iffD1]) simp_all
  ultimately show ?thesis
    using assms Send by (cases "is_duplicate q did")
      (auto simp: send_message_duplicate send_message_accepted Let_def)
next
  case (Receive mx vto)
  obtain res where rc: "receive_messages w q mx vto = (res, q', w')"
    using assms(3) Receive by (metis prod.collapse run_queue_op.simps(2))
  note D = receive_specD [OF rc]
  have "length res \<le> mx" by (simp add: D(1))
  then have lt: "ids_drawn w + length res < 2 ^ 64" using assms(1) Receive by simp
  have "message_id_counter w' = of_nat (ids_drawn w + length res)" using D(3) by simp
  then have "ids_drawn w' = ids_drawn w + length res" by (simp only: unat_of_nat_u64 [OF lt])
  with D(2) assms(2) show ?thesis by simp
next
  case (ChangeVisibility rh vt)
  have "message_id_counter w' = message_id_counter w" "q_sequence_counter q' = q_sequence_counter q"
    using assms(3) ChangeVisibility change_visibility_loop_world [of rh vt "q_messages q" w]
    by (auto simp: change_visibility_def case_prod_beta)
  with assms(2) show ?thesis by simp
next
  case (SetAttributes attrs)
  then show ?thesis using assms apply_queue_attributes_frame [of ext w q attrs] by simp
qed (use assms in \<open>auto simp: delete_message_def purge_def remove_dlq_candidates_def split: option.splits\<close>)

lemma queue_ok_op:
  assumes "queue_ok (ids_drawn w) n q" "ids_drawn w + id_cost op < 2 ^ 64" "ids_drawn w + 1 < 2 ^ 64"
    and "run_queue_op ext op (q, w) = (q', w')"
  shows "queue_ok (ids_drawn w') n q' \<and> ids_drawn w \<le> ids_drawn w' \<and> ids_drawn w' \<le> ids_drawn w + id_cost op"
proof -
  have "queue_inv (ids_drawn w') q' \<and> ids_drawn w' \<le> ids_drawn w + id_cost op"
    using run_queue_op_inv [OF _ _ _ assms(4)] assms(1-3) by (simp add: queue_ok_def)
  moreover have "q_name q' = q_name q" using queue_op_name [of ext op q w] assms(4) by simp
  ultimately show ?thesis
    using queue_op_counters [OF assms(2) _ assms(4)] assms(1) by (simp add: queue_ok_def)
qed

lemma queue_ok_ops:
  assumes "queue_ok (ids_drawn w) n q" "ids_drawn w + sum_list (map id_cost ops) + 1 < 2 ^ 64"
    and "run_queue_ops ext ops (q, w) = (q', w')"
  shows "queue_ok (ids_drawn w') n q' \<and> ids_drawn w \<le> ids_drawn w' \<and>
    ids_drawn w' \<le> ids_drawn w + sum_list (map id_cost ops)"
  using assms
proof (induction ops arbitrary: q w)
  case (Cons op ops)
  obtain q1 w1 where 1: "run_queue_op ext op (q, w) = (q1, w1)" by fastforce
  have "queue_ok (ids_drawn w1) n q1 \<and> ids_drawn w \<le> ids_drawn w1 \<and> ids_drawn w1 \<le> ids_drawn w + id_cost op"
    using Cons.prems by (intro queue_ok_op [OF _ _ _ 1]) simp_all
  with Cons.IH [of w1 q1] Cons.prems 1 show ?case by simp
qed simp

lemma world_eq_ids: "w'\<lparr>request_id_counter := 0\<rparr> = w\<lparr>request_id_counter := 0\<rparr> \<Longrightarrow> ids_drawn w' = ids_drawn w"
  by (drule arg_cong [of _ _ message_id_counter]) simp

text \<open>A function on a store that draws at most \<open>k\<close> identifiers and keeps the invariant.\<close>

definition store_keeps :: "nat \<Rightarrow> (SqsStore \<Rightarrow> world \<Rightarrow> 'r \<times> SqsStore \<times> world) \<Rightarrow> bool" where
  "store_keeps k f \<longleftrightarrow>
     (\<forall>st w r st' w'. store_ok (ids_drawn w) st \<longrightarrow> ids_drawn w + k + 1 < 2 ^ 64 \<longrightarrow> f st w = (r, st', w') \<longrightarrow>
        store_ok (ids_drawn w') st' \<and> ids_drawn w \<le> ids_drawn w' \<and> ids_drawn w' \<le> ids_drawn w + k)"

lemma runs_on_keeps:
  assumes "store_ok (ids_drawn w) st" "ids_drawn w + sum_list (map id_cost ops) + 1 < 2 ^ 64"
    and "runs_on ext ops name st w st' w'"
  shows "store_ok (ids_drawn w') st' \<and> ids_drawn w \<le> ids_drawn w' \<and>
    ids_drawn w' \<le> ids_drawn w + sum_list (map id_cost ops)"
proof (cases "get_queue_by_name st name")
  case None
  with assms(3) have "ids_drawn w' = ids_drawn w" "\<forall>n. get_queue_by_name st' n = get_queue_by_name st n"
    by (auto simp: runs_on_def dest: world_eq_ids)
  with assms(1) show ?thesis by (simp add: store_ok_def)
next
  case (Some q)
  obtain q1 w1 where 1: "run_queue_ops ext ops (q, w) = (q1, w1)" by fastforce
  have q: "queue_ok (ids_drawn w1) name q1 \<and> ids_drawn w \<le> ids_drawn w1 \<and>
    ids_drawn w1 \<le> ids_drawn w + sum_list (map id_cost ops)"
    using assms Some by (intro queue_ok_ops [OF _ _ 1]) (simp_all add: store_ok_def)
  have "ids_drawn w' = ids_drawn w1"
    and "\<forall>n. get_queue_by_name st' n = (if n = name then Some q1 else get_queue_by_name st n)"
    using assms(3) Some 1 by (auto simp: runs_on_def dest: world_eq_ids)
  with q assms(1) show ?thesis by (auto simp: store_ok_def intro: queue_ok_mono)
qed

lemma runs_on_store_keeps:
  assumes "sum_list (map id_cost ops) \<le> k"
    and "\<And>st w r st' w'. f st w = (r, st', w') \<Longrightarrow> runs_on ext ops name st w st' w'"
  shows "store_keeps k f"
  unfolding store_keeps_def
proof (intro allI impI)
  fix st w r st' w'
  assume a: "store_ok (ids_drawn w) st" "ids_drawn w + k + 1 < 2 ^ 64" "f st w = (r, st', w')"
  then have "ids_drawn w + sum_list (map id_cost ops) + 1 < 2 ^ 64" using assms(1) by simp
  from runs_on_keeps [OF a(1) this assms(2) [OF a(3)]] assms(1)
  show "store_ok (ids_drawn w') st' \<and> ids_drawn w \<le> ids_drawn w' \<and> ids_drawn w' \<le> ids_drawn w + k" by simp
qed

lemma keys_from_le: "keys_from ps p s i \<le> length ps"
proof -
  let ?K = "{j. i \<le> j \<and> contains_key ps (indexed_key p j s)}"
  have "(\<lambda>j. indexed_key p j s) ` ?K \<subseteq> fst ` set ps"
    by (auto simp: contains_key_def domI dom_map_of_conv_image_fst [symmetric])
  moreover have "inj_on (\<lambda>j. indexed_key p j s) ?K"
    by (auto intro: inj_onI indexed_key_inject)
  ultimately have "card ?K \<le> card (fst ` set ps)" by (metis card_image card_mono finite_imageI finite_set)
  also have "\<dots> \<le> length ps" by (metis card_length length_map list.set_map)
  finally show ?thesis by (simp add: keys_from_def)
qed

lemma batch_sends_cost: "sum_list (map id_cost (batch_sends ps i)) \<le> 2 * keys_from ps ''SendMessageBatchRequestEntry'' ''.Id'' i"
proof (induction ps i rule: batch_sends.induct)
  case (1 ps i)
  show ?case
  proof (cases "hm_get ps (batch_entry_key i ''.Id'') = None \<or> hm_get ps (batch_entry_key i ''.MessageBody'') = None")
    case True
    then show ?thesis by (subst batch_sends.simps) (auto split: option.splits)
  next
    case False
    then obtain e body where eb: "hm_get ps (batch_entry_key i ''.Id'') = Some e"
      "hm_get ps (batch_entry_key i ''.MessageBody'') = Some body" by auto
    have "keys_from ps ''SendMessageBatchRequestEntry'' ''.Id'' (Suc i) < keys_from ps ''SendMessageBatchRequestEntry'' ''.Id'' i"
      using eb(1) by (intro keys_from_less) (simp add: batch_entry_key_def)
    with 1 [OF refl eb] eb show ?thesis by (simp add: batch_sends.simps [of ps i])
  qed
qed

lemma batch_deletes_cost: "op \<in> set (batch_deletes ps i) \<Longrightarrow> id_cost op = 0"
proof (induction ps i rule: batch_deletes.induct)
  case (1 ps i)
  show ?case using 1(2) 1(1) unfolding batch_deletes.simps [of ps i] by (auto split: option.splits)
qed

lemma batch_changes_cost: "op \<in> set (batch_changes ps i) \<Longrightarrow> id_cost op = 0"
proof (induction ps i rule: batch_changes.induct)
  case (1 ps i)
  show ?case using 1(2) 1(1) unfolding batch_changes.simps [of ps i] by (auto split: option.splits)
qed

lemma sum_list_zero: "(\<And>x. x \<in> set xs \<Longrightarrow> f x = 0) \<Longrightarrow> sum_list (map f xs) = (0 :: nat)"
  by (induction xs) auto

lemma cost_if: "f x \<le> k \<Longrightarrow> f y \<le> k \<Longrightarrow> f (if c then x else y) \<le> (k :: nat)"
  by simp

text \<open>An upper bound on the identifiers a request with the given parameters draws.\<close>

definition request_cost :: "params \<Rightarrow> nat" where
  "request_cost ps = 2 * length ps + 10"

lemma action_ops_cost: "sum_list (map id_cost (action_ops action ps)) \<le> request_cost ps"
proof -
  have "sum_list (map id_cost (batch_sends ps 1)) \<le> 2 * length ps"
    using batch_sends_cost [of ps 1] keys_from_le [of ps "''SendMessageBatchRequestEntry''" "''.Id''" 1] by linarith
  then have "sum_list (map id_cost (batch_sends ps 1)) \<le> request_cost ps" by (simp add: request_cost_def)
  moreover have "sum_list (map id_cost (batch_deletes ps 1)) \<le> request_cost ps"
    "sum_list (map id_cost (batch_changes ps 1)) \<le> request_cost ps"
    by (simp_all add: sum_list_zero batch_deletes_cost batch_changes_cost)
  ultimately show ?thesis unfolding action_ops_def
    by (intro cost_if [where f = "\<lambda>ops. sum_list (map id_cost ops)"])
       (simp_all add: request_cost_def send_of_def max_number_of_def split: option.split)
qed

lemma handler_keeps:
  assumes "hm_get ps ''QueueUrl'' = None \<Longrightarrow> \<forall>st w. f st w = (missing_parameter ''QueueUrl'', st, w)"
    and "\<And>url st w r st' w'. hm_get ps ''QueueUrl'' = Some url \<Longrightarrow> f st w = (r, st', w') \<Longrightarrow>
      runs_on ext (action_ops action ps) (queue_name_from_url url) st w st' w'"
  shows "store_keeps (request_cost ps) f"
proof (cases "hm_get ps ''QueueUrl''")
  case None
  with assms(1) show ?thesis by (simp add: store_keeps_def)
next
  case (Some url)
  then show ?thesis using assms(2) by (intro runs_on_store_keeps [OF action_ops_cost])
qed

lemma xml_handlers_keep:
  "store_keeps (request_cost ps) (\<lambda>st. handle_send_message ext st ps)"
  "store_keeps (request_cost ps) (\<lambda>st. handle_send_message_batch ext st ps)"
  "store_keeps (request_cost ps) (\<lambda>st. handle_receive_message st ps)"
  "store_keeps (request_cost ps) (\<lambda>st. handle_delete_message st ps)"
  "store_keeps (request_cost ps) (\<lambda>st. handle_delete_message_batch st ps)"
  "store_keeps (request_cost ps) (\<lambda>st. handle_change_message_visibility st ps)"
  "store_keeps (request_cost ps) (\<lambda>st. handle_change_message_visibility_batch st ps)"
  "store_keeps (request_cost ps) (\<lambda>st. handle_purge_queue st ps)"
  "store_keeps (request_cost ps) (\<lambda>st. handle_set_queue_attributes ext st ps)"
  by (rule handler_keeps [rotated], erule handlers_run, assumption,
      simp add: handle_send_message_def handle_send_message_batch_def handle_receive_message_def
        handle_delete_message_def handle_delete_message_batch_def handle_change_message_visibility_def
        handle_change_message_visibility_batch_def handle_purge_queue_def handle_set_queue_attributes_def)+

lemma json_send_keeps: "store_keeps (request_cost ps) (json_send_message ext ps)"
proof (cases "hm_get ps ''QueueUrl'' = None \<or> hm_get ps ''MessageBody'' = None")
  case True
  then show ?thesis by (auto simp: store_keeps_def json_send_message_def split: option.splits)
next
  case False
  then obtain url body where p: "hm_get ps ''QueueUrl'' = Some url" "hm_get ps ''MessageBody'' = Some body" by auto
  show ?thesis
  proof (rule runs_on_store_keeps [where ops = "[send_of ps body]" and ext = ext and name = "queue_name_from_url url"])
    show "sum_list (map id_cost [send_of ps body]) \<le> request_cost ps" by (simp add: send_of_def request_cost_def)
  next
    fix st w r st' w'
    assume "json_send_message ext ps st w = (r, st', w')"
    with p show "runs_on ext [send_of ps body] (queue_name_from_url url) st w st' w'"
      by (auto simp: json_send_message_def send_of_def Let_def runs_on_missing intro!: runs_on_set
          split: option.splits prod.splits)
  qed
qed

lemma json_receive_keeps: "store_keeps (request_cost ps) (json_receive_message ext ps)"
proof (cases "hm_get ps ''QueueUrl''")
  case None
  then show ?thesis by (simp add: store_keeps_def json_receive_message_def)
next
  case (Some url)
  show ?thesis
  proof (rule runs_on_store_keeps [where ops = "[Receive (max_number_of ps) (param_u32 ps ''VisibilityTimeout'')]"
        and ext = ext and name = "queue_name_from_url url"])
    show "sum_list (map id_cost [Receive (max_number_of ps) (param_u32 ps ''VisibilityTimeout'')]) \<le> request_cost ps"
      by (simp add: request_cost_def max_number_of_def)
  next
    fix st w r st' w'
    assume "json_receive_message ext ps st w = (r, st', w')"
    with Some show "runs_on ext [Receive (max_number_of ps) (param_u32 ps ''VisibilityTimeout'')]
        (queue_name_from_url url) st w st' w'"
      by (auto simp: json_receive_message_def Let_def runs_on_missing intro!: runs_on_set
          split: option.splits prod.splits)
  qed
qed

lemma get_delete_queue:
  "get_queue_by_name (snd (delete_queue st name)) n = (if n = name then None else get_queue_by_name st n)"
  by (simp add: delete_queue_def get_queue_by_name_def delete_conv')

lemma store_ok_delete: "store_ok c st \<Longrightarrow> store_ok c (snd (delete_queue st name))"
  by (simp add: store_ok_def get_delete_queue)

lemma delete_queue_keeps:
  "store_keeps k (\<lambda>st. handle_delete_queue st ps)" "store_keeps k (json_delete_queue ext ps)"
proof -
  show "store_keeps k (json_delete_queue ext ps)"
    by (auto simp: store_keeps_def json_delete_queue_def Let_def case_prod_beta store_ok_delete split: option.splits)
  show "store_keeps k (\<lambda>st. handle_delete_queue st ps)"
    by (auto simp: store_keeps_def handle_delete_queue_def reply_with_def new_request_id_def Let_def case_prod_beta
        store_ok_delete split: option.splits if_splits)
qed

text \<open>\<^const>\<open>create_queue\<close> on every branch: an existing queue is returned unchanged.\<close>

lemma create_queue_result:
  assumes "create_queue ext w st name base acc reg attrs = (qo, st', w')"
  shows "case get_queue_by_name st name of
      Some q \<Rightarrow> qo = Some q \<and> st' = st \<and> w' = w
    | None \<Rightarrow> (\<exists>q. qo = Some q \<and> st' = set_queue st name q \<and> q_name q = name \<and>
        q_url q = base @ ''/'' @ acc @ ''/'' @ name \<and> q_messages q = [] \<and> q_sequence_counter q = 0 \<and>
        q_dedup_ids q = [] \<and> message_id_counter w' = message_id_counter w)"
proof (cases "get_queue_by_name st name")
  case None
  define q0 where "q0 = fst (SqsQueue_new w name base acc reg)"
  define w0 where "w0 = snd (SqsQueue_new w name base acc reg)"
  have q0: "q_name q0 = name" "q_url q0 = base @ ''/'' @ acc @ ''/'' @ name" "q_messages q0 = []"
    "q_sequence_counter q0 = 0" "q_dedup_ids q0 = []" "message_id_counter w0 = message_id_counter w"
    by (simp_all add: q0_def w0_def SqsQueue_new_def utc_now_def Let_def)
  have "qo = Some (fst (apply_queue_attributes ext w0 q0 attrs)) \<and>
      st' = set_queue st name (fst (apply_queue_attributes ext w0 q0 attrs)) \<and>
      w' = snd (apply_queue_attributes ext w0 q0 attrs)"
    using assms None by (auto simp: create_queue_def contains_key_def get_queue_by_name_def set_queue_def
        q0_def w0_def Let_def case_prod_beta update_conv')
  with None q0 show ?thesis by simp
next
  case (Some q)
  with assms have "qo = Some q" "st' = st" "w' = w"
    by (simp_all add: create_queue_def contains_key_def get_queue_by_name_def)
  with Some show ?thesis by simp
qed

lemma queue_ok_empty: "q_messages q = [] \<Longrightarrow> q_sequence_counter q = 0 \<Longrightarrow> q_name q = n \<Longrightarrow> queue_ok c n q"
  by (simp add: queue_ok_def queue_inv_def)

lemma create_queue_keeps:
  assumes "store_ok (ids_drawn w) st" "create_queue ext w st name base acc reg attrs = (qo, st', w')"
  shows "store_ok (ids_drawn w') st' \<and> message_id_counter w' = message_id_counter w"
  using create_queue_result [OF assms(2)] assms(1)
  by (auto simp: store_ok_def get_set_queue queue_ok_empty split: option.splits if_splits)

lemma create_handlers_keep:
  "store_keeps k (\<lambda>st. handle_create_queue ext st ctx ps)" "store_keeps k (json_create_queue ext ps ctx)"
proof -
  show "store_keeps k (json_create_queue ext ps ctx)"
    by (auto simp: store_keeps_def json_create_queue_def Let_def split: option.splits prod.splits
        dest: create_queue_keeps)
  show "store_keeps k (\<lambda>st. handle_create_queue ext st ctx ps)"
    by (auto simp: store_keeps_def handle_create_queue_def reply_with_def new_request_id_def Let_def
        split: option.splits prod.splits dest: create_queue_keeps)
qed

definition keeps_inv :: "nat \<Rightarrow> (sqs_bundle \<Rightarrow> world \<Rightarrow> 'r \<times> sqs_bundle \<times> world) \<Rightarrow> bool" where
  "keeps_inv k f \<longleftrightarrow>
     (\<forall>b w r b' w'. sqs_inv (ids_drawn w) b \<longrightarrow> ids_drawn w + k + 1 < 2 ^ 64 \<longrightarrow> f b w = (r, b', w') \<longrightarrow>
        sqs_inv (ids_drawn w') b' \<and> ids_drawn w \<le> ids_drawn w' \<and> ids_drawn w' \<le> ids_drawn w + k)"

lemma sqs_inv_write_back:
  "sqs_inv c b \<Longrightarrow> store_ok d st \<Longrightarrow> c \<le> d \<Longrightarrow> sqs_inv d (write_back b a r st)"
  by (auto simp: sqs_inv_def write_back_def update_conv' intro: store_ok_mono)

lemma store_keepsD:
  assumes "store_keeps k f" "store_ok (ids_drawn w) st" "ids_drawn w + k + 1 < 2 ^ 64" "f st w = (r, st', w')"
  shows "store_ok (ids_drawn w') st'" "ids_drawn w \<le> ids_drawn w'" "ids_drawn w' \<le> ids_drawn w + k"
  using assms unfolding store_keeps_def by blast+

lemma keeps_store_mut: "store_keeps k f \<Longrightarrow> keeps_inv k (with_store_mut m f ctx)"
  unfolding keeps_inv_def
proof (intro allI impI)
  fix b w r b' w'
  assume f: "store_keeps k f" and a: "sqs_inv (ids_drawn w) b" "ids_drawn w + k + 1 < 2 ^ 64"
    and r: "with_store_mut m f ctx b w = (r, b', w')"
  show "sqs_inv (ids_drawn w') b' \<and> ids_drawn w \<le> ids_drawn w' \<and> ids_drawn w' \<le> ids_drawn w + k"
  proof (cases "bundle_get_mut b (ctx_account_id ctx) (ctx_region ctx)")
    case None
    with r a show ?thesis by (simp add: with_store_mut_def)
  next
    case (Some st)
    then obtain st' where f': "f st w = (r, st', w')" and b': "b' = write_back b (ctx_account_id ctx) (ctx_region ctx) st'"
      using r by (auto simp: with_store_mut_def split: prod.splits)
    have "store_ok (ids_drawn w) st" using Some a(1) by (auto simp: sqs_inv_def bundle_get_mut_eq)
    note k = store_keepsD [OF f this a(2) f']
    show ?thesis using k(2,3) sqs_inv_write_back [OF a(1) k(1,2)] by (simp add: b')
  qed
qed

lemma get_or_create_ok:
  assumes "sqs_inv c b" "get_or_create SqsStore_new b a r = (st, b')"
  shows "sqs_inv c b' \<and> store_ok c st"
proof -
  have "store_ok c SqsStore_new" by (simp add: store_ok_def SqsStore_new_def get_queue_by_name_def)
  with assms show ?thesis
    by (auto simp: get_or_create_def Let_def sqs_inv_def update_conv' split: option.splits if_splits)
qed

lemma keeps_created: "store_keeps k f \<Longrightarrow> keeps_inv k (with_created_store f ctx)"
  unfolding keeps_inv_def
proof (intro allI impI)
  fix b w r b' w'
  assume f: "store_keeps k f" and a: "sqs_inv (ids_drawn w) b" "ids_drawn w + k + 1 < 2 ^ 64"
    and r: "with_created_store f ctx b w = (r, b', w')"
  obtain st b1 where g: "get_or_create SqsStore_new b (ctx_account_id ctx) (ctx_region ctx) = (st, b1)" by fastforce
  then obtain st' where f': "f st w = (r, st', w')" and b': "b' = write_back b1 (ctx_account_id ctx) (ctx_region ctx) st'"
    using r by (auto simp: with_created_store_def split: prod.splits)
  note g' = get_or_create_ok [OF a(1) g]
  note k = store_keepsD [OF f conjunct2 [OF g'] a(2) f']
  show "sqs_inv (ids_drawn w') b' \<and> ids_drawn w \<le> ids_drawn w' \<and> ids_drawn w' \<le> ids_drawn w + k"
    using k(2,3) sqs_inv_write_back [OF conjunct1 [OF g'] k(1,2)] by (simp add: b')
qed

lemma keeps_store:
  assumes "\<And>w. message_id_counter (snd (m w)) = message_id_counter w"
    and "\<And>st w. message_id_counter (snd (f st w)) = message_id_counter w"
  shows "keeps_inv k (with_store m f ctx)"
proof -
  have "b' = b \<and> message_id_counter w' = message_id_counter w" if "with_store m f ctx b w = (r, b', w')" for b w r b' w'
    using that assms by (auto simp: with_store_def split: option.splits prod.splits) (metis snd_conv)+
  then show ?thesis by (fastforce simp: keeps_inv_def)
qed

lemma keeps_if: "keeps_inv k f \<Longrightarrow> keeps_inv k g \<Longrightarrow> keeps_inv k (\<lambda>b w. if c then f b w else g b w)"
  by (cases c) simp_all

lemma keeps_case:
  "(\<And>x. keeps_inv k (f x)) \<Longrightarrow> keeps_inv k g \<Longrightarrow> keeps_inv k (\<lambda>b w. case p of None \<Rightarrow> g b w | Some x \<Rightarrow> f x b w)"
  by (cases p) simp_all

lemma keeps_const: "keeps_inv k (\<lambda>b w. (x, b, w))"
  by (simp add: keeps_inv_def)

lemma keeps_ok: "keeps_inv k f \<Longrightarrow> keeps_inv k (\<lambda>b w. ok (f b w))"
  by (auto simp: keeps_inv_def ok_def split: prod.splits)

lemma read_handlers_ids:
  "message_id_counter (snd (new_request_id w)) = message_id_counter w"
  "message_id_counter (snd (handle_list_queues st ps w)) = message_id_counter w"
  "message_id_counter (snd (handle_get_queue_url st ps w)) = message_id_counter w"
  "message_id_counter (snd (handle_get_queue_attributes st ps w)) = message_id_counter w"
  by (simp_all add: handle_list_queues_def handle_get_queue_url_def handle_get_queue_attributes_def new_request_id_def
      queue_attribute_list_def approximate_number_of_messages_def approximate_number_of_messages_not_visible_def
      utc_now_def Let_def split: option.split)

lemma keeps_json_url: "keeps_inv k (json_get_queue_url ext ps ctx)"
  unfolding json_get_queue_url_def [abs_def] by (intro keeps_case keeps_const keeps_store) simp_all

lemmas keeps_intros = keeps_if keeps_case keeps_const keeps_ok keeps_json_url keeps_store_mut keeps_created
  xml_handlers_keep json_send_keeps json_receive_keeps delete_queue_keeps create_handlers_keep keeps_store

definition params_of :: "externs \<Rightarrow> RequestContext \<Rightarrow> params" where
  "params_of ext ctx = apply_transport_compat ext ctx (parse_params ext ctx)"

lemma dispatch_keeps: "keeps_inv (request_cost (params_of ext ctx)) (dispatch ext ctx)"
  unfolding dispatch_def [abs_def] dispatch_json_def [abs_def] dispatch_xml_def [abs_def] Let_def
    params_of_def [symmetric]
  by (intro keeps_intros) (simp_all add: read_handlers_ids case_prod_beta)

fun run_requests :: "externs \<Rightarrow> RequestContext list \<Rightarrow> sqs_bundle \<times> world \<Rightarrow> sqs_bundle \<times> world" where
  "run_requests ext [] s = s"
| "run_requests ext (ctx # ctxs) (b, w) = run_requests ext ctxs (snd (dispatch ext ctx b w))"

lemma run_requests_keeps:
  assumes "sqs_inv (ids_drawn w) b"
    and "ids_drawn w + sum_list (map (\<lambda>ctx. request_cost (params_of ext ctx)) ctxs) + 1 < 2 ^ 64"
    and "run_requests ext ctxs (b, w) = (b', w')"
  shows "sqs_inv (ids_drawn w') b'"
  using assms
proof (induction ctxs arbitrary: b w)
  case (Cons ctx ctxs)
  obtain r b1 w1 where d: "dispatch ext ctx b w = (r, b1, w1)" by (metis prod_cases3)
  have "sqs_inv (ids_drawn w1) b1 \<and> ids_drawn w1 \<le> ids_drawn w + request_cost (params_of ext ctx)"
    using dispatch_keeps [of ext ctx] Cons.prems(1,2) d unfolding keeps_inv_def by (fastforce simp: d)
  with Cons.IH [of w1 b1] Cons.prems d show ?case by simp
qed simp

text \<open>C1: After any sequence of requests of any tenants, starting from the empty bundle, every queue of
  every scope is filed under its own name, has distinct message identifiers and receipt handles,
  and carries increasing sequence numbers, as long as the 64-bit identifier counter cannot wrap.\<close>

theorem sqs_invariant_all_requests:
  assumes "ids_drawn w + sum_list (map (\<lambda>ctx. request_cost (params_of ext ctx)) ctxs) + 1 < 2 ^ 64"
    and "run_requests ext ctxs (bundle_new, w) = (b, w')"
    and "bundle_get b account region = Some st" and "get_queue_by_name st name = Some q"
  shows "q_name q = name \<and> distinct (map m_message_id (q_messages q)) \<and>
    distinct (map m_receipt_handle (q_messages q)) \<and>
    sorted_wrt (<) (map (\<lambda>m. unat (m_sequence_number m)) (q_messages q))"
proof -
  have "sqs_inv (ids_drawn w) bundle_new" by (simp add: sqs_inv_def bundle_new_def)
  from run_requests_keeps [OF this assms(1,2)] show ?thesis
    using assms(3,4) by (auto simp: sqs_inv_def store_ok_def queue_ok_def queue_inv_def bundle_get_eq)
qed

section \<open>Further properties of the handlers\<close>

text \<open>CreateQueue returns the URL of the queue that the store then has under the name, leaves other
  queues alone, and repeating it returns the same response and changes nothing.\<close>

theorem create_queue_idempotent:
  assumes "hm_get ps ''QueueName'' = Some name"
    and "json_create_queue ext ps ctx st w = (r, st', w')"
  shows "\<exists>q. get_queue_by_name st' name = Some q \<and>
      r = sqs_json_response ext (json_object [(''QueueUrl'', JString (q_url q))]) \<and>
      (get_queue_by_name st name = None \<longrightarrow>
         q_url q = base_queue_url ext ctx @ ''/'' @ ctx_account_id ctx @ ''/'' @ name \<and> q_messages q = []) \<and>
      (\<forall>n. n \<noteq> name \<longrightarrow> get_queue_by_name st' n = get_queue_by_name st n) \<and>
      json_create_queue ext ps ctx st' w' = (r, st', w')"
proof -
  let ?mk = "\<lambda>w st. create_queue ext w st name (base_queue_url ext ctx) (ctx_account_id ctx) (ctx_region ctx)
    (extract_indexed_kv ps ''Attribute'')"
  obtain qo st1 w1 where c: "?mk w st = (qo, st1, w1)" by (metis prod_cases3)
  with assms have st': "st' = st1" "w' = w1"
    and r: "r = sqs_json_response ext (json_object [(''QueueUrl'', JString (q_url (the qo)))])"
    by (auto simp: json_create_queue_def)
  have q: "get_queue_by_name st' name = qo \<and> qo \<noteq> None \<and> (\<forall>n. n \<noteq> name \<longrightarrow> get_queue_by_name st' n = get_queue_by_name st n)"
    using create_queue_result [OF c] st' by (auto simp: get_set_queue split: option.splits)
  then obtain q where q': "qo = Some q" by auto
  obtain qo2 st2 w2 where c2: "?mk w' st' = (qo2, st2, w2)" by (metis prod_cases3)
  have "qo2 = Some q \<and> st2 = st' \<and> w2 = w'" using create_queue_result [OF c2] q q' by (simp split: option.splits)
  then have "json_create_queue ext ps ctx st' w' = (r, st', w')"
    using assms(1) c2 r q' by (simp add: json_create_queue_def)
  with q q' r create_queue_result [OF c] show ?thesis by (auto split: option.splits)
qed

lemma receive_other_fields:
  "receive_messages w q mx vto = (r, q', w') \<Longrightarrow> q_redrive_policy q' = q_redrive_policy q"
  using receive_specD(2) by fastforce

text \<open>A ReceiveMessage on a queue with a redrive policy removes every message that has reached the
  maximum receive count, while no other queue changes: no dead-letter queue receives them.\<close>

theorem receive_discards_exhausted:
  assumes "hm_get ps ''QueueUrl'' = Some url" and "name = queue_name_from_url url"
    and "get_queue_by_name st name = Some q" and "q_redrive_policy q = Some rp"
    and "handle_receive_message st ps w = (r, st', w')"
  shows "(\<exists>q'. get_queue_by_name st' name = Some q' \<and>
      (\<forall>m \<in> set (q_messages q'). m_receive_count m < max_receive_count rp)) \<and>
    (\<forall>n. n \<noteq> name \<longrightarrow> get_queue_by_name st' n = get_queue_by_name st n)"
proof -
  obtain res q1 w1 where rc: "receive_messages w q (max_number_of ps) (param_u32 ps ''VisibilityTimeout'') = (res, q1, w1)"
    by (metis prod_cases3)
  have "runs_on demo_externs (action_ops ''ReceiveMessage'' ps) name st w st' w'"
    unfolding assms(2) by (rule handlers_run(3) [OF assms(1,5)])
  then have st': "get_queue_by_name st' n = (if n = name then Some (remove_dlq_candidates q1) else get_queue_by_name st n)" for n
    using assms(3) rc by (simp add: runs_on_def action_ops_def)
  have "q_redrive_policy q1 = Some rp" using receive_other_fields [OF rc] assms(4) by simp
  then show ?thesis by (simp add: st' remove_dlq_candidates_def)
qed

lemma receive_single:
  assumes "q_messages q = [m]" "is_visible_at m (clock w (clock_reads w))" "0 < mx"
  shows "receive_messages w q mx vto = (let vt = (case vto of Some v \<Rightarrow> v | None \<Rightarrow> q_visibility_timeout q) in
    ([0], q\<lparr>q_messages := [mark_received vt (clock w (clock_reads w)) (message_id_counter w) m]\<rparr>,
     w\<lparr>clock_reads := Suc (clock_reads w), message_id_counter := message_id_counter w + 1\<rparr>))"
  using assms by (cases mx) (simp_all add: receive_messages_eq visible_indices_def Let_def)

text \<open>A body sent to an empty queue without delay is what the next ReceiveMessage of the JSON mode
  returns, with the identifier and the digest the send reported and a receive count of one.\<close>

theorem json_send_then_receive:
  assumes "hm_get ps ''QueueUrl'' = Some url" "hm_get ps ''MessageBody'' = Some body"
    and "hm_get ps ''DelaySeconds'' = None" "hm_get ps ''MessageDeduplicationId'' = None"
    and "hm_get ps' ''QueueUrl'' = Some url'" "queue_name_from_url url' = queue_name_from_url url"
    and "hm_get ps' ''MaxNumberOfMessages'' = None"
    and "get_queue_by_name st (queue_name_from_url url) = Some q" "q_messages q = []" "q_delay_seconds q = 0"
    and "json_send_message ext ps st w = (r, st1, w1)" and "json_receive_message ext ps' st1 w1 = (r', st2, w2)"
  shows "\<exists>m. m_body m = body \<and>
    r = sqs_json_response ext (json_object [(''MessageId'', JString (m_message_id m)),
          (''MD5OfMessageBody'', JString (m_md5_of_body m))]) \<and>
    r' = sqs_json_response ext (json_object [(''Messages'', JArray [message_json m])]) \<and>
    m_md5_of_body m = hex_encode ext (md5_digest ext body) \<and> m_receive_count m = 1"
proof -
  let ?m = "sent_message ext w q body None (extract_message_attributes ps) (hm_get ps ''MessageGroupId'') None"
  let ?name = "queue_name_from_url url"
  have dup: "\<not> is_duplicate q None" by (simp add: is_duplicate_def)
  obtain q1 where q1: "get_queue_by_name st1 ?name = Some q1" "q_messages q1 = [?m]"
    "q_visibility_timeout q1 = q_visibility_timeout q"
    and r: "r = sqs_json_response ext (json_object [(''MessageId'', JString (m_message_id ?m)),
          (''MD5OfMessageBody'', JString (m_md5_of_body ?m))])"
    using assms(1-4,8-11) by (auto simp: json_send_message_def param_u32_def send_message_accepted [OF dup] Let_def get_set_queue)
  have m: "m_visible_after ?m = None" "m_md5_of_body ?m = hex_encode ext (md5_digest ext body)"
    using assms(10) by (simp_all add: sent_message_def SqsMessage_new_def next_message_id_def next_receipt_handle_def
        fetch_add_message_id_def utc_now_def md5_hex_def Let_def)
  then have vis: "is_visible_at ?m (clock w1 (clock_reads w1))" by (simp add: is_visible_at_def)
  have mx: "max_number_of ps' = 1" using assms(7) by (simp add: max_number_of_def)
  define vt where "vt = (case param_u32 ps' ''VisibilityTimeout'' of Some v \<Rightarrow> v | None \<Rightarrow> q_visibility_timeout q1)"
  let ?m' = "mark_received vt (clock w1 (clock_reads w1)) (message_id_counter w1) ?m"
  have "r' = sqs_json_response ext (json_object [(''Messages'', JArray [message_json ?m'])])"
    using assms(5,6,12) q1(1) receive_single [OF q1(2) vis, of 1]
    by (auto simp: json_receive_message_def mx Let_def vt_def [symmetric] map_filter_simps nth_opt_def)
  moreover have "m_body ?m' = body" "m_message_id ?m' = m_message_id ?m" "m_md5_of_body ?m' = m_md5_of_body ?m"
    "m_receive_count ?m' = 1" by (simp_all add: mark_received_def)
  ultimately show ?thesis using r m(2) by (intro exI [of _ ?m']) simp
qed

section \<open>Concrete requests\<close>

definition demo_ctx :: "string \<Rightarrow> (string \<times> string) list \<Rightarrow> RequestContext" where
  "demo_ctx action ps = (RequestContext_new ''sqs'' action ''us-east-1'' ''000000000000'')
     \<lparr>ctx_query_params := (''Action'', action) # ps\<rparr>"

lemma demo_ctx_fields [simp]:
  "ctx_account_id (demo_ctx a ps) = ''000000000000''" "ctx_region (demo_ctx a ps) = ''us-east-1''"
  "ctx_headers (demo_ctx a ps) = []" "ctx_query_params (demo_ctx a ps) = (''Action'', a) # ps"
  "raw_body_bytes (demo_ctx a ps) = []"
  by (simp_all add: demo_ctx_def RequestContext_new_def raw_body_bytes_def)

lemma demo_params:
  "params_of demo_externs (demo_ctx a ps) =
     fold (\<lambda>(k, v) ps. if contains_key ps k then ps else hm_insert k v ps) ((''Action'', a) # ps) []"
  by (simp add: params_of_def parse_params_def apply_transport_compat_def header_def from_utf8_def form_pair_def
      split_once_def numeral_2_eq_2 map_filter_simps contains_key_def demo_externs_def Let_def)

definition demo_store :: SqsStore where
  "demo_store = \<lparr>queues = [(''jobs'', demo_queue\<lparr>q_name := ''jobs''\<rparr>)]\<rparr>"

definition demo_bundle :: sqs_bundle where
  "demo_bundle = write_back bundle_new ''000000000000'' ''us-east-1'' demo_store"

definition demo_url :: string where
  "demo_url = ''http://h/000000000000/jobs''"

lemma demo_url_name: "queue_name_from_url demo_url = ''jobs''"
  by (simp add: demo_url_def queue_name_from_url_def rsplit_first_def)

theorem actions_refine_queue_runs_witness:
  "\<exists>st'. bundle_get (fst (snd (dispatch_xml demo_externs ''PurgeQueue'' [(''QueueUrl'', demo_url)] (demo_ctx ''PurgeQueue'' [])
        demo_bundle demo_world))) ''000000000000'' ''us-east-1'' = Some st' \<and>
     runs_on demo_externs [Purge] ''jobs'' demo_store demo_world st'
       (snd (snd (dispatch_xml demo_externs ''PurgeQueue'' [(''QueueUrl'', demo_url)] (demo_ctx ''PurgeQueue'' [])
        demo_bundle demo_world)))"
proof -
  let ?x = "dispatch_xml demo_externs ''PurgeQueue'' [(''QueueUrl'', demo_url)] (demo_ctx ''PurgeQueue'' []) demo_bundle demo_world"
  have x: "?x = (fst ?x, fst (snd ?x), snd (snd ?x))" by simp
  have a: "''PurgeQueue'' \<in> set queue_actions" by (simp add: queue_actions_def)
  have u: "hm_get [(''QueueUrl'', demo_url)] ''QueueUrl'' = Some demo_url" by simp
  have b: "bundle_get demo_bundle (ctx_account_id (demo_ctx ''PurgeQueue'' [])) (ctx_region (demo_ctx ''PurgeQueue'' [])) = Some demo_store"
    by (simp add: demo_bundle_def)
  have ops: "action_ops ''PurgeQueue'' [(''QueueUrl'', demo_url)] = [Purge]" by (simp add: action_ops_def)
  show ?thesis using actions_refine_queue_runs [OF a u b x] unfolding ops demo_url_name by simp
qed

theorem dispatch_isolates_scopes_witness:
  "bundle_get (fst (snd (dispatch demo_externs (demo_ctx ''ListQueues'' []) demo_bundle demo_world))) ''111111111111'' ''us-east-1'' =
   bundle_get demo_bundle ''111111111111'' ''us-east-1''"
proof -
  let ?x = "dispatch demo_externs (demo_ctx ''ListQueues'' []) demo_bundle demo_world"
  have x: "?x = (fst ?x, fst (snd ?x), snd (snd ?x))" by simp
  show ?thesis
    using dispatch_isolates_scopes [OF _ _ _ x refl x, of "''111111111111''" "''us-east-1''"] by simp
qed

lemma demo_create:
  "dispatch demo_externs (demo_ctx ''CreateQueue'' [(''QueueName'', ''jobs'')]) bundle_new demo_world =
     ok (with_created_store (\<lambda>st. handle_create_queue demo_externs st (demo_ctx ''CreateQueue'' [(''QueueName'', ''jobs'')])
        [(''Action'', ''CreateQueue''), (''QueueName'', ''jobs'')])
       (demo_ctx ''CreateQueue'' [(''QueueName'', ''jobs'')]) bundle_new demo_world)"
proof -
  have p: "params_of demo_externs (demo_ctx ''CreateQueue'' [(''QueueName'', ''jobs'')]) =
      [(''Action'', ''CreateQueue''), (''QueueName'', ''jobs'')]"
    by (simp add: demo_params contains_key_def)
  show ?thesis
    unfolding dispatch_def params_of_def [symmetric] p by (simp add: dispatch_xml_def)
qed

lemma demo_create_queue:
  "\<exists>st q. bundle_get (fst (run_requests demo_externs [demo_ctx ''CreateQueue'' [(''QueueName'', ''jobs'')]] (bundle_new, demo_world)))
     ''000000000000'' ''us-east-1'' = Some st \<and> get_queue_by_name st ''jobs'' = Some q"
proof -
  let ?c = "demo_ctx ''CreateQueue'' [(''QueueName'', ''jobs'')]"
  let ?ps = "[(''Action'', ''CreateQueue''), (''QueueName'', ''jobs'')]"
  obtain qo st w where c: "create_queue demo_externs demo_world SqsStore_new ''jobs'' (base_queue_url demo_externs ?c)
      ''000000000000'' ''us-east-1'' (extract_indexed_kv ?ps ''Attribute'') = (qo, st, w)" by (metis prod_cases3)
  have "\<exists>q. get_queue_by_name st ''jobs'' = Some q"
    using create_queue_result [OF c] by (auto simp: set_queue_def SqsStore_new_def get_queue_by_name_def split: option.splits)
  moreover have "get_or_create SqsStore_new bundle_new ''000000000000'' ''us-east-1'' =
      (SqsStore_new, write_back bundle_new ''000000000000'' ''us-east-1'' SqsStore_new)"
    by (simp add: get_or_create_def bundle_new_def write_back_def)
  ultimately show ?thesis
    unfolding run_requests.simps demo_create using c
    by (simp add: ok_def with_created_store_def handle_create_queue_def reply_with_def new_request_id_def)
qed

theorem sqs_invariant_all_requests_witness:
  "\<exists>st q. bundle_get (fst (run_requests demo_externs [demo_ctx ''CreateQueue'' [(''QueueName'', ''jobs'')]] (bundle_new, demo_world)))
     ''000000000000'' ''us-east-1'' = Some st \<and> get_queue_by_name st ''jobs'' = Some q \<and> q_name q = ''jobs''"
proof -
  let ?c = "demo_ctx ''CreateQueue'' [(''QueueName'', ''jobs'')]"
  obtain st q where q: "bundle_get (fst (run_requests demo_externs [?c] (bundle_new, demo_world))) ''000000000000'' ''us-east-1'' = Some st"
    "get_queue_by_name st ''jobs'' = Some q" using demo_create_queue by blast
  have "ids_drawn demo_world + sum_list (map (\<lambda>ctx. request_cost (params_of demo_externs ctx)) [?c]) + 1 < 2 ^ 64"
    by (simp add: request_cost_def demo_params contains_key_def)
  from sqs_invariant_all_requests [OF this prod.collapse [symmetric] q] q show ?thesis by blast
qed

theorem create_queue_idempotent_witness:
  "\<exists>q. get_queue_by_name (fst (snd (json_create_queue demo_externs [(''QueueName'', ''jobs'')] (demo_ctx ''CreateQueue'' [])
      SqsStore_new demo_world))) ''jobs'' = Some q"
proof -
  let ?x = "json_create_queue demo_externs [(''QueueName'', ''jobs'')] (demo_ctx ''CreateQueue'' []) SqsStore_new demo_world"
  have x: "?x = (fst ?x, fst (snd ?x), snd (snd ?x))" by simp
  show ?thesis using create_queue_idempotent [OF _ x, of "''jobs''"] by auto
qed

definition demo_redrive_store :: SqsStore where
  "demo_redrive_store = set_queue demo_store ''jobs''
     (demo_queue\<lparr>q_redrive_policy := Some \<lparr>dead_letter_target_arn = ''arn'', max_receive_count = 1\<rparr>\<rparr>)"

theorem receive_discards_exhausted_witness:
  "\<exists>q'. get_queue_by_name (fst (snd (handle_receive_message demo_redrive_store [(''QueueUrl'', demo_url)] demo_world))) ''jobs'' = Some q' \<and>
     (\<forall>m \<in> set (q_messages q'). m_receive_count m < 1)"
proof -
  let ?x = "handle_receive_message demo_redrive_store [(''QueueUrl'', demo_url)] demo_world"
  have x: "?x = (fst ?x, fst (snd ?x), snd (snd ?x))" by simp
  have u: "hm_get [(''QueueUrl'', demo_url)] ''QueueUrl'' = Some demo_url" by simp
  have q: "get_queue_by_name demo_redrive_store ''jobs'' =
      Some (demo_queue\<lparr>q_redrive_policy := Some \<lparr>dead_letter_target_arn = ''arn'', max_receive_count = 1\<rparr>\<rparr>)"
    by (simp add: demo_redrive_store_def get_set_queue)
  show ?thesis using receive_discards_exhausted [OF u demo_url_name [symmetric] q _ x] by simp
qed

theorem json_send_then_receive_witness:
  "\<exists>m. m_body m = ''hi'' \<and>
     fst (json_receive_message demo_externs [(''QueueUrl'', demo_url)]
       (fst (snd (json_send_message demo_externs [(''QueueUrl'', demo_url), (''MessageBody'', ''hi'')]
          (set_queue demo_store ''jobs'' (purge demo_queue)) demo_world)))
       (snd (snd (json_send_message demo_externs [(''QueueUrl'', demo_url), (''MessageBody'', ''hi'')]
          (set_queue demo_store ''jobs'' (purge demo_queue)) demo_world)))) =
     sqs_json_response demo_externs (json_object [(''Messages'', JArray [message_json m])])"
proof -
  let ?ps = "[(''QueueUrl'', demo_url), (''MessageBody'', ''hi'')]" and ?ps' = "[(''QueueUrl'', demo_url)]"
  let ?st = "set_queue demo_store ''jobs'' (purge demo_queue)"
  let ?x = "json_send_message demo_externs ?ps ?st demo_world"
  let ?y = "json_receive_message demo_externs ?ps' (fst (snd ?x)) (snd (snd ?x))"
  have x: "?x = (fst ?x, fst (snd ?x), snd (snd ?x))" and y: "?y = (fst ?y, fst (snd ?y), snd (snd ?y))" by simp_all
  have q: "get_queue_by_name ?st (queue_name_from_url demo_url) = Some (purge demo_queue)"
    by (simp add: demo_url_name get_set_queue)
  have d: "q_delay_seconds (purge demo_queue) = 0" by (simp add: purge_def demo_queue_def SqsQueue_new_def utc_now_def)
  show ?thesis
    using json_send_then_receive [OF _ _ _ _ _ refl _ q _ d x y, of "''hi''"] by (auto simp: purge_def)
qed

end
