(* ===== verification/Dynamo_Value.thy ===== *)
theory Dynamo_Value
  imports Service_Framework
begin

text \<open>
  Attribute values of the DynamoDB service, \<^verbatim>\<open>services/dynamodb/src/store.rs\<close>: the wire format
  and its parser, the strings that serve as keys, and the comparison of sort keys, whose
  numeric part works on decimal strings of any precision. The lemmas relate that comparison to
  the integers the strings denote after scaling, and show that parsing inverts printing.
\<close>

section \<open>Values and their wire format\<close>

datatype AttributeValue =
    AV_S string
  | AV_N string
  | AV_B string
  | AV_Bool bool
  | AV_Null
  | AV_Ss "string list"
  | AV_Ns "string list"
  | AV_Bs "string list"
  | AV_L "AttributeValue list"
  | AV_M "(string \<times> AttributeValue) list"

type_synonym Item = "(string, AttributeValue) hash_map"

lemma size_snd_mem: "(k, v) \<in> set kvs \<Longrightarrow> size v \<le> size_list (size_prod (\<lambda>_. 0) size) kvs"
  by (induction kvs) auto

lemma size_mem: "v \<in> set vs \<Longrightarrow> size v \<le> size_list size vs"
  by (induction vs) auto

function av_to_json :: "AttributeValue \<Rightarrow> Value" where
  "av_to_json (AV_S v) = json_object [(''S'', JString v)]"
| "av_to_json (AV_N v) = json_object [(''N'', JString v)]"
| "av_to_json (AV_B v) = json_object [(''B'', JString v)]"
| "av_to_json (AV_Bool v) = json_object [(''BOOL'', JBool v)]"
| "av_to_json AV_Null = json_object [(''NULL'', JBool True)]"
| "av_to_json (AV_Ss v) = json_object [(''SS'', JArray (map JString v))]"
| "av_to_json (AV_Ns v) = json_object [(''NS'', JArray (map JString v))]"
| "av_to_json (AV_Bs v) = json_object [(''BS'', JArray (map JString v))]"
| "av_to_json (AV_L v) = json_object [(''L'', JArray (map av_to_json v))]"
| "av_to_json (AV_M v) = json_object [(''M'', json_object (map (\<lambda>kv. (fst kv, av_to_json (snd kv))) v))]"
  by pat_completeness auto
termination
  by (relation "measure size") (auto simp: less_Suc_eq_le dest: size_mem size_snd_mem)

lemma value_get_size: "value_get v k = Some x \<Longrightarrow> size x < size v"
  by (cases v) (auto dest!: map_of_SomeD size_snd_mem)

lemma value_get_array: "value_get v k = Some (JArray xs) \<Longrightarrow> x \<in> set xs \<Longrightarrow> size x < size v"
  using value_get_size [of v k "JArray xs"] size_mem [of x xs] by simp

lemma value_get_object: "value_get v k = Some (JObject m) \<Longrightarrow> (k', x) \<in> set m \<Longrightarrow> size x < size v"
  using value_get_size [of v k "JObject m"] size_snd_mem [of k' x m] by simp

lemma as_array_SomeD: "as_array v = Some xs \<Longrightarrow> v = JArray xs"
  by (cases v) auto

lemma as_object_SomeD: "as_object v = Some m \<Longrightarrow> v = JObject m"
  by (cases v) auto

function av_from_json :: "Value \<Rightarrow> AttributeValue" where
  "av_from_json v =
     (case Option.bind (value_get v ''S'') as_str of Some s \<Rightarrow> AV_S s | None \<Rightarrow>
     (case Option.bind (value_get v ''N'') as_str of Some n \<Rightarrow> AV_N n | None \<Rightarrow>
     (case Option.bind (value_get v ''B'') as_str of Some b \<Rightarrow> AV_B b | None \<Rightarrow>
     (case Option.bind (value_get v ''BOOL'') as_bool of Some b \<Rightarrow> AV_Bool b | None \<Rightarrow>
     (if (case Option.bind (value_get v ''NULL'') as_bool of Some b \<Rightarrow> b | None \<Rightarrow> False) then AV_Null else
     (case Option.bind (value_get v ''SS'') as_array of Some arr \<Rightarrow> AV_Ss (List.map_filter as_str arr) | None \<Rightarrow>
     (case Option.bind (value_get v ''NS'') as_array of Some arr \<Rightarrow> AV_Ns (List.map_filter as_str arr) | None \<Rightarrow>
     (case Option.bind (value_get v ''BS'') as_array of Some arr \<Rightarrow> AV_Bs (List.map_filter as_str arr) | None \<Rightarrow>
     (case Option.bind (value_get v ''L'') as_array of Some arr \<Rightarrow> AV_L (map av_from_json arr) | None \<Rightarrow>
     (case Option.bind (value_get v ''M'') as_object of
        Some obj \<Rightarrow> AV_M (map (\<lambda>kv. (fst kv, av_from_json (snd kv))) obj)
      | None \<Rightarrow> AV_Null))))))))))"
  by pat_completeness auto
termination
  by (relation "measure size")
     (auto simp: bind_eq_Some_conv dest!: as_array_SomeD as_object_SomeD sym [of "Some _"]
        intro: value_get_array value_get_object)

declare av_from_json.simps [simp del]

definition item_from_json_map :: "(string \<times> Value) list \<Rightarrow> Item" where
  "item_from_json_map m = map (\<lambda>(k, v). (k, av_from_json v)) m"

section \<open>Keys\<close>

fun av_to_key_str :: "AttributeValue \<Rightarrow> string option" where
  "av_to_key_str (AV_S s) = Some s"
| "av_to_key_str (AV_N n) = Some n"
| "av_to_key_str (AV_B b) = Some b"
| "av_to_key_str (AV_Bool b) = Some (bool_to_string b)"
| "av_to_key_str _ = None"

fun av_to_key_str_ref :: "AttributeValue \<Rightarrow> string option" where
  "av_to_key_str_ref (AV_S s) = Some s"
| "av_to_key_str_ref (AV_N n) = Some n"
| "av_to_key_str_ref (AV_B b) = Some b"
| "av_to_key_str_ref _ = None"

datatype SortKeyValue = SK_S string | SK_N string

fun av_sort_key :: "AttributeValue \<Rightarrow> SortKeyValue option" where
  "av_sort_key (AV_S s) = Some (SK_S s)"
| "av_sort_key (AV_N n) = Some (SK_N n)"
| "av_sort_key (AV_B b) = Some (SK_S b)"
| "av_sort_key _ = None"

section \<open>Comparison of numbers\<close>

definition split_decimal :: "string \<Rightarrow> string \<times> string" where
  "split_decimal s =
     (case str_find s ''.'' of Some pos \<Rightarrow> (take pos s, drop (pos + 1) s) | None \<Rightarrow> (s, []))"

definition byte_or_zero :: "string \<Rightarrow> nat \<Rightarrow> char" where
  "byte_or_zero s i = (if i < length s then s ! i else CHR ''0'')"

fun cmp_frac_loop :: "string \<Rightarrow> string \<Rightarrow> nat list \<Rightarrow> ordering" where
  "cmp_frac_loop a b [] = Equal"
| "cmp_frac_loop a b (i # is) =
     (case cmp (byte_or_zero a i) (byte_or_zero b i) of Equal \<Rightarrow> cmp_frac_loop a b is | other \<Rightarrow> other)"

definition cmp_magnitude :: "string \<Rightarrow> string \<Rightarrow> ordering" where
  "cmp_magnitude a b =
     (let (a_int, a_frac) = split_decimal a;
          (b_int, b_frac) = split_decimal b;
          a_int = trim_start_matches (CHR ''0'') a_int;
          b_int = trim_start_matches (CHR ''0'') b_int
      in case cmp (length a_int) (length b_int) of
           Less \<Rightarrow> Less | Greater \<Rightarrow> Greater
         | Equal \<Rightarrow>
             (case cmp a_int b_int of
                Less \<Rightarrow> Less | Greater \<Rightarrow> Greater
              | Equal \<Rightarrow>
                  (let a_frac = trim_end_matches (CHR ''0'') a_frac;
                       b_frac = trim_end_matches (CHR ''0'') b_frac;
                       max_len = max (length a_frac) (length b_frac)
                   in cmp_frac_loop a_frac b_frac [0..<max_len])))"

definition cmp_numeric_str :: "string \<Rightarrow> string \<Rightarrow> ordering" where
  "cmp_numeric_str a b =
     (let a_neg = starts_with a ''-''; b_neg = starts_with b ''-'' in
      if a_neg \<and> \<not> b_neg then Less
      else if \<not> a_neg \<and> b_neg then Greater
      else let a_mag = (if a_neg then drop 1 a else a);
               b_mag = (if b_neg then drop 1 b else b);
               mag_ord = cmp_magnitude a_mag b_mag
           in if a_neg then reverse_ordering mag_ord else mag_ord)"

fun sort_key_cmp :: "SortKeyValue \<Rightarrow> SortKeyValue \<Rightarrow> ordering option" where
  "sort_key_cmp (SK_S a) (SK_S b) = Some (cmp a b)"
| "sort_key_cmp (SK_N a) (SK_N b) = Some (cmp_numeric_str a b)"
| "sort_key_cmp _ _ = None"

definition av_compare :: "AttributeValue \<Rightarrow> AttributeValue \<Rightarrow> ordering option" where
  "av_compare a b =
     (case av_sort_key a of
        None \<Rightarrow> None
      | Some ak \<Rightarrow> (case av_sort_key b of None \<Rightarrow> None | Some bk \<Rightarrow> sort_key_cmp ak bk))"

text \<open>\<^verbatim>\<open>Option::partial_cmp\<close>: nothing is below something.\<close>

fun option_partial_cmp :: "SortKeyValue option \<Rightarrow> SortKeyValue option \<Rightarrow> ordering option" where
  "option_partial_cmp None None = Some Equal"
| "option_partial_cmp None (Some _) = Some Less"
| "option_partial_cmp (Some _) None = Some Greater"
| "option_partial_cmp (Some a) (Some b) = sort_key_cmp a b"

datatype RangeCondition =
    RC_Eq AttributeValue
  | RC_Lt AttributeValue
  | RC_Lte AttributeValue
  | RC_Gt AttributeValue
  | RC_Gte AttributeValue
  | RC_Between AttributeValue AttributeValue
  | RC_BeginsWith string

fun range_matches :: "RangeCondition \<Rightarrow> AttributeValue \<Rightarrow> bool" where
  "range_matches (RC_Eq e) av = (av_compare av e = Some Equal)"
| "range_matches (RC_Lt b) av = (av_compare av b = Some Less)"
| "range_matches (RC_Lte b) av = (av_compare av b \<in> {Some Less, Some Equal})"
| "range_matches (RC_Gt b) av = (av_compare av b = Some Greater)"
| "range_matches (RC_Gte b) av = (av_compare av b \<in> {Some Greater, Some Equal})"
| "range_matches (RC_Between lo hi) av =
     (av_compare av lo \<in> {Some Greater, Some Equal} \<and> av_compare av hi \<in> {Some Less, Some Equal})"
| "range_matches (RC_BeginsWith pfx) av = (case av of AV_S s \<Rightarrow> starts_with s pfx | _ \<Rightarrow> False)"

section \<open>Parsing inverts printing\<close>

text \<open>
  A hash map's entries have no order; a value is in canonical form when the entries of every
  map in it are listed in the order of their keys.
\<close>

fun av_canonical :: "AttributeValue \<Rightarrow> bool" where
  "av_canonical (AV_L v) = (\<forall>x \<in> set v. av_canonical x)"
| "av_canonical (AV_M v) = (bt_wf v \<and> (\<forall>kv \<in> set v. av_canonical (snd kv)))"
| "av_canonical _ = True"

lemma bt_insert_last: "\<forall>p \<in> set m. fst p < k \<Longrightarrow> bt_insert k v m = m @ [(k, v)]"
  by (induction m) (auto simp: cmp_def)

lemma fold_bt_insert_sorted:
  "bt_wf (acc @ kvs) \<Longrightarrow> fold (\<lambda>(k, v). bt_insert k v) kvs acc = acc @ kvs"
proof (induction kvs arbitrary: acc)
  case (Cons p kvs)
  obtain k v where p: "p = (k, v)" by (cases p)
  have "\<forall>q \<in> set acc. fst q < k" using Cons.prems p by (auto simp: bt_wf_def sorted_wrt_append)
  with Cons p show ?case by (simp add: bt_insert_last)
qed simp

lemma json_object_sorted: "bt_wf kvs \<Longrightarrow> json_object kvs = JObject kvs"
  using fold_bt_insert_sorted [of "[]" kvs] by (simp add: json_object_def)

lemma json_object_single: "json_object [(k, v)] = JObject [(k, v)]"
  by (simp add: json_object_def)

lemma bt_wf_map: "bt_wf kvs \<Longrightarrow> bt_wf (map (\<lambda>kv. (fst kv, f (snd kv))) kvs)"
  by (simp add: bt_wf_def comp_def)

lemma map_filter_as_str: "List.map_filter as_str (map JString xs) = xs"
  by (induction xs) (auto simp: map_filter_simps)

lemmas wire_simps = av_from_json.simps [of "JObject _"] json_object_single map_filter_as_str

lemma av_roundtrip: "av_canonical v \<Longrightarrow> av_from_json (av_to_json v) = v"
proof (induction v rule: av_to_json.induct)
  case (9 v)
  then have "map (av_from_json \<circ> av_to_json) v = v" by (intro map_idI) auto
  then show ?case by (simp add: wire_simps)
next
  case (10 v)
  then have "map (\<lambda>kv. (fst kv, av_from_json (av_to_json (snd kv)))) v = v" by (intro map_idI) auto
  moreover have "json_object (map (\<lambda>kv. (fst kv, av_to_json (snd kv))) v) =
      JObject (map (\<lambda>kv. (fst kv, av_to_json (snd kv))) v)"
    using 10(2) by (intro json_object_sorted bt_wf_map) simp
  ultimately show ?case by (simp add: wire_simps comp_def)
qed (simp_all add: wire_simps)

text \<open>C33: Reading back the JSON that an attribute value is written as yields the value, for every nesting
  of lists and maps.\<close>

theorem attribute_value_wire_roundtrip:
  assumes "av_canonical v"
  shows "av_from_json (av_to_json v) = v"
  using assms by (rule av_roundtrip)

theorem attribute_value_wire_roundtrip_witness:
  "av_from_json (av_to_json (AV_M [(''a'', AV_L [AV_N ''1'', AV_Null]), (''b'', AV_Ss [''x'', ''y''])])) =
     AV_M [(''a'', AV_L [AV_N ''1'', AV_Null]), (''b'', AV_Ss [''x'', ''y''])]"
  by (rule attribute_value_wire_roundtrip) (simp add: bt_wf_def)

section \<open>The numeric comparison\<close>

definition all_digits :: "string \<Rightarrow> bool" where
  "all_digits s \<longleftrightarrow> list_all (\<lambda>c. 48 \<le> (of_char c :: nat) \<and> (of_char c :: nat) \<le> 57) s"

definition dval :: "string \<Rightarrow> nat" where
  "dval s = foldl (\<lambda>a c. a * 10 + ((of_char c :: nat) - 48)) 0 s"

lemma dval_snoc [simp]: "dval (s @ [c]) = dval s * 10 + ((of_char c :: nat) - 48)" "dval [] = 0"
  by (simp_all add: dval_def)

lemma dval_append: "dval (s @ t) = dval s * 10 ^ length t + dval t"
proof (induction t rule: rev_induct)
  case (snoc c t)
  then show ?case using dval_snoc(1) [of "s @ t" c] by (simp add: algebra_simps)
qed simp

lemma dval_Cons: "dval (c # s) = ((of_char c :: nat) - 48) * 10 ^ length s + dval s"
  using dval_append [of "[c]" s] by (simp add: dval_def)

lemma all_digits_simps [simp]:
  "all_digits []" "all_digits (s @ t) \<longleftrightarrow> all_digits s \<and> all_digits t"
  "all_digits (c # s) \<longleftrightarrow> 48 \<le> (of_char c :: nat) \<and> (of_char c :: nat) \<le> 57 \<and> all_digits s"
  "all_digits (replicate n (CHR ''0''))"
  by (auto simp: all_digits_def list_all_iff)

lemma dval_less: "all_digits s \<Longrightarrow> dval s < 10 ^ length s"
proof (induction s)
  case (Cons c s)
  then have "((of_char c :: nat) - 48) * 10 ^ length s \<le> 9 * 10 ^ length s" by (intro mult_le_mono1) auto
  moreover have "dval s < 10 ^ length s" using Cons by simp
  ultimately have "dval (c # s) < 9 * 10 ^ length s + 10 ^ length s" unfolding dval_Cons by linarith
  then show ?case by simp
qed simp

lemma less_char_of_nat: "(c < d) = ((of_char c :: nat) < of_char d)"
  by (simp add: less_char_def)

lemma lex_cmp_digits:
  "length a = length b \<Longrightarrow> all_digits a \<Longrightarrow> all_digits b \<Longrightarrow> cmp a b = cmp (dval a) (dval b)"
proof (induction a b rule: list_induct2)
  case (Cons x xs y ys)
  let ?x = "(of_char x :: nat)" and ?y = "(of_char y :: nat)"
  have lt: "dval xs < 10 ^ length ys" "dval ys < 10 ^ length ys"
    using dval_less [of xs] dval_less [of ys] Cons by simp_all
  have step: "p * n + u < q * n + v" if "p < q" "u < n" for p q n u v :: nat
  proof -
    have "p * n + u < Suc p * n" using that(2) by simp
    also have "\<dots> \<le> q * n" using that(1) by (intro mult_le_mono1) simp
    finally show ?thesis by simp
  qed
  consider "?x < ?y" | "?y < ?x" | "x = y" by (metis linorder_neqE_nat of_char_eq_iff)
  then show ?case
  proof cases
    case 1
    then have "?x - 48 < ?y - 48" using Cons.prems by auto
    from step [OF this lt(1)] 1 show ?thesis using Cons.hyps by (simp add: cmp_def dval_Cons less_char_of_nat)
  next
    case 2
    then have "?y - 48 < ?x - 48" using Cons.prems by auto
    from step [OF this lt(2), of "dval xs"] 2 show ?thesis using Cons.hyps by (auto simp: cmp_def dval_Cons less_char_of_nat)
  next
    case 3
    then show ?thesis using Cons by (simp add: cmp_def dval_Cons split: if_splits)
  qed
qed (simp add: cmp_def)

lemma dval_trim: "dval (trim_start_matches (CHR ''0'') s) = dval s"
  by (induction s) (auto simp: trim_start_matches_def dval_Cons)

lemma all_digits_trim: "all_digits s \<Longrightarrow> all_digits (trim_start_matches (CHR ''0'') s)"
  by (induction s) (auto simp: trim_start_matches_def)

lemma trim_hd: "trim_start_matches d s = [] \<or> hd (trim_start_matches d s) \<noteq> d"
proof (cases "dropWhile (\<lambda>c. c = d) s = []")
  case False
  from hd_dropWhile [OF this] show ?thesis by (simp add: trim_start_matches_def)
qed (simp add: trim_start_matches_def)

lemma dval_lower: "all_digits (c # s) \<Longrightarrow> c \<noteq> CHR ''0'' \<Longrightarrow> 10 ^ length s \<le> dval (c # s)"
proof -
  assume a: "all_digits (c # s)" "c \<noteq> CHR ''0''"
  have "(of_char c :: nat) \<noteq> of_char (CHR ''0'')" using a(2) by (simp only: of_char_eq_iff) simp
  then have "1 \<le> (of_char c :: nat) - 48" using a(1) by auto
  then show ?thesis by (simp add: dval_Cons trans_le_add1)
qed

text \<open>Stripped digit strings of different lengths.\<close>

lemma longer_greater:
  assumes "all_digits a" "all_digits b" "length a < length b" "hd b \<noteq> CHR ''0''"
  shows "dval a < dval b"
proof -
  obtain c s where b: "b = c # s" using assms(3) by (cases b) auto
  have "dval a < 10 ^ length a" by (rule dval_less [OF assms(1)])
  also have "\<dots> \<le> 10 ^ length s" using assms(3) b by simp
  also have "\<dots> \<le> dval b" using dval_lower [of c s] assms b by simp
  finally show ?thesis .
qed

text \<open>The fractional digits, padded with zeros to a given number of places.\<close>

definition padded :: "nat \<Rightarrow> string \<Rightarrow> string" where
  "padded n f = f @ replicate (n - length f) (CHR ''0'')"

definition dec_scaled :: "nat \<Rightarrow> string \<Rightarrow> nat" where
  "dec_scaled n s = (case split_decimal s of (i, f) \<Rightarrow> dval (i @ padded n f))"

definition is_magnitude :: "nat \<Rightarrow> string \<Rightarrow> bool" where
  "is_magnitude n s \<longleftrightarrow> (case split_decimal s of (i, f) \<Rightarrow> all_digits i \<and> all_digits f \<and> length f \<le> n)"

lemma length_padded: "length f \<le> n \<Longrightarrow> length (padded n f) = n"
  by (simp add: padded_def)

lemma dval_zeros [simp]: "dval (replicate k (CHR ''0'')) = 0"
  by (induction k) (simp_all add: dval_Cons)

lemma dval_padded: "dval (padded n f) = dval f * 10 ^ (n - length f)"
  by (simp add: padded_def dval_append)

lemma trim_end_split: "\<exists>k. f = trim_end_matches d f @ replicate k d"
proof -
  define z where "z = takeWhile (\<lambda>c. c = d) (rev f)"
  have z: "z = replicate (length z) d"
    unfolding z_def by (rule replicate_length_same [symmetric]) (auto dest: set_takeWhileD)
  have "rev f = z @ dropWhile (\<lambda>c. c = d) (rev f)" by (simp add: z_def)
  from arg_cong [OF this, of rev] have "rev (rev f) = trim_end_matches d f @ rev z"
    unfolding trim_end_matches_def rev_append .
  also have "rev z = replicate (length z) d" by (subst z) simp
  finally show ?thesis unfolding rev_rev_ident by (rule exI)
qed

lemma padded_trim: "length f \<le> n \<Longrightarrow> padded n (trim_end_matches (CHR ''0'') f) = padded n f"
proof -
  assume n: "length f \<le> n"
  define t where "t = trim_end_matches (CHR ''0'') f"
  obtain k where f: "f = t @ replicate k (CHR ''0'')"
    using trim_end_split [of f "CHR ''0''"] unfolding t_def [symmetric] by (rule exE)
  have "padded n t = t @ replicate (k + (n - length f)) (CHR ''0'')" using n by (simp add: padded_def f)
  then have "padded n t = padded n f" by (simp add: padded_def f replicate_add)
  then show ?thesis by (simp add: t_def)
qed

lemma cmp_list_Cons: "cmp (x # xs) (y # ys) = (case cmp x y of Equal \<Rightarrow> cmp xs ys | r \<Rightarrow> r)"
  by (auto simp: cmp_def)

lemma cmp_frac_loop_eq: "cmp_frac_loop a b is = cmp (map (byte_or_zero a) is) (map (byte_or_zero b) is)"
proof (induction "is")
  case (Cons i "is")
  then show ?case by (simp only: cmp_frac_loop.simps list.map cmp_list_Cons)
qed (simp add: cmp_def)

lemma map_byte_or_zero: "length a \<le> m \<Longrightarrow> map (byte_or_zero a) [0..<m] = padded m a"
  by (rule nth_equalityI) (auto simp: length_padded byte_or_zero_def padded_def nth_append)

lemma cmp_scale: "0 < (k :: nat) \<Longrightarrow> cmp (x * k) (y * k) = cmp x y"
  by (simp add: cmp_def)

lemma cmp_frac_value:
  assumes "all_digits a" "all_digits b" "length a \<le> n" "length b \<le> n"
  shows "cmp_frac_loop a b [0..<max (length a) (length b)] = cmp (dval (padded n a)) (dval (padded n b))"
proof -
  let ?m = "max (length a) (length b)"
  have "cmp_frac_loop a b [0..<?m] = cmp (padded ?m a) (padded ?m b)"
    by (simp add: cmp_frac_loop_eq map_byte_or_zero)
  also have "\<dots> = cmp (dval (padded ?m a)) (dval (padded ?m b))"
    using assms by (intro lex_cmp_digits) (simp_all add: length_padded, simp_all add: padded_def)
  also have "\<dots> = cmp (dval (padded ?m a) * 10 ^ (n - ?m)) (dval (padded ?m b) * 10 ^ (n - ?m))"
    by (simp add: cmp_scale)
  finally have eq: "cmp_frac_loop a b [0..<?m] =
      cmp (dval (padded ?m a) * 10 ^ (n - ?m)) (dval (padded ?m b) * 10 ^ (n - ?m))" .
  have "dval (padded ?m x) * 10 ^ (n - ?m) = dval (padded n x)" if "length x \<le> ?m" for x
  proof -
    have "?m - length x + (n - ?m) = n - length x" using that assms(3,4) by simp
    then show ?thesis by (simp add: dval_padded mult.assoc power_add [symmetric])
  qed
  from this [of a] this [of b] show ?thesis unfolding eq by simp
qed

lemma cmp_combine:
  assumes "u < n" "v < (n :: nat)"
  shows "cmp (p * n + u) (q * n + v) = (case cmp p q of Equal \<Rightarrow> cmp u v | r \<Rightarrow> r)"
proof -
  have step: "p * n + u < q * n + v" if "p < q" "u < n" for p q u v
  proof -
    have "p * n + u < Suc p * n" using that(2) by simp
    also have "\<dots> \<le> q * n" using that(1) by (intro mult_le_mono1) simp
    finally show ?thesis by simp
  qed
  show ?thesis
    using step [of p q u v] step [of q p v u] assms by (cases p q rule: linorder_cases) (auto simp: cmp_def)
qed

lemma cmp_stripped:
  assumes "all_digits a" "all_digits b"
  defines "a' \<equiv> trim_start_matches (CHR ''0'') a" and "b' \<equiv> trim_start_matches (CHR ''0'') b"
  shows "(case cmp (length a') (length b') of Less \<Rightarrow> Less | Greater \<Rightarrow> Greater | Equal \<Rightarrow> cmp a' b') = cmp (dval a) (dval b)"
proof -
  have d: "all_digits a'" "all_digits b'" "dval a' = dval a" "dval b' = dval b"
    using assms by (simp_all add: all_digits_trim dval_trim)
  have hd: "a' = [] \<or> hd a' \<noteq> CHR ''0''" "b' = [] \<or> hd b' \<noteq> CHR ''0''" unfolding assms by (rule trim_hd)+
  show ?thesis
  proof (cases "length a'" "length b'" rule: linorder_cases)
    case less
    then have "dval a' < dval b'" using longer_greater [OF d(1,2)] hd by auto
    with less d show ?thesis by (simp add: cmp_def)
  next
    case equal
    then show ?thesis using lex_cmp_digits [OF equal d(1,2)] d by (simp add: cmp_def [of "length b'"])
  next
    case greater
    then have "dval b' < dval a'" using longer_greater [OF d(2,1)] hd by auto
    with greater d show ?thesis by (simp add: cmp_def)
  qed
qed

lemma all_digits_trim_end: "all_digits f \<Longrightarrow> all_digits (trim_end_matches (CHR ''0'') f)"
  using trim_end_split [of f "CHR ''0''"] by (metis all_digits_simps(2))

lemma length_trim_end: "length (trim_end_matches d f) \<le> length f"
  using trim_end_split [of f d] by (metis length_append le_add1)

lemma case_ordering_assoc:
  "(case (case x of Less \<Rightarrow> Less | Greater \<Rightarrow> Greater | Equal \<Rightarrow> y) of Equal \<Rightarrow> z | r \<Rightarrow> r) =
   (case x of Less \<Rightarrow> Less | Greater \<Rightarrow> Greater | Equal \<Rightarrow> (case y of Less \<Rightarrow> Less | Greater \<Rightarrow> Greater | Equal \<Rightarrow> z))"
  by (cases x; cases y) simp_all

lemma cmp_magnitude_value:
  assumes "is_magnitude n a" "is_magnitude n b"
  shows "cmp_magnitude a b = cmp (dec_scaled n a) (dec_scaled n b)"
proof -
  obtain ai af bi bf where s: "split_decimal a = (ai, af)" "split_decimal b = (bi, bf)" by fastforce
  have d: "all_digits ai" "all_digits af" "length af \<le> n" "all_digits bi" "all_digits bf" "length bf \<le> n"
    using assms s by (simp_all add: is_magnitude_def)
  let ?ai = "trim_start_matches (CHR ''0'') ai" and ?bi = "trim_start_matches (CHR ''0'') bi"
  let ?af = "trim_end_matches (CHR ''0'') af" and ?bf = "trim_end_matches (CHR ''0'') bf"
  have frac: "cmp_frac_loop ?af ?bf [0..<max (length ?af) (length ?bf)] = cmp (dval (padded n af)) (dval (padded n bf))"
    using cmp_frac_value [of ?af ?bf n] d length_trim_end [of "CHR ''0''" af] length_trim_end [of "CHR ''0''" bf]
    by (simp add: all_digits_trim_end padded_trim)
  have lt: "dval (padded n af) < 10 ^ n" "dval (padded n bf) < 10 ^ n"
    using dval_less [of "padded n af"] dval_less [of "padded n bf"] d by (simp_all add: length_padded, simp_all add: padded_def)
  have "cmp (dec_scaled n a) (dec_scaled n b) =
      (case cmp (dval ai) (dval bi) of Equal \<Rightarrow> cmp (dval (padded n af)) (dval (padded n bf)) | r \<Rightarrow> r)"
    unfolding dec_scaled_def s using cmp_combine [OF lt, of "dval ai" "dval bi"] d
    by (simp add: dval_append length_padded)
  also have "\<dots> = cmp_magnitude a b"
    unfolding cmp_magnitude_def s Let_def prod.case frac cmp_stripped [OF d(1,4), symmetric]
    by (rule case_ordering_assoc)
  finally show ?thesis by simp
qed

definition dec_int :: "nat \<Rightarrow> string \<Rightarrow> int" where
  "dec_int n s = (if starts_with s ''-'' then - int (dec_scaled n (drop 1 s)) else int (dec_scaled n s))"

definition is_decimal :: "nat \<Rightarrow> string \<Rightarrow> bool" where
  "is_decimal n s \<longleftrightarrow> is_magnitude n (if starts_with s ''-'' then drop 1 s else s)"

lemma cmp_int_rev: "cmp (- int x) (- int y) = reverse_ordering (cmp x y)" "cmp (int x) (int y) = cmp x y"
  by (auto simp: cmp_def)

text \<open>C32: The comparison of number strings agrees with the comparison of the numbers they denote, whatever
  their length, leading and trailing zeros and precision: with \<open>n\<close> at least the number of decimal
  places of both, \<open>dec_int n s\<close> is the number times \<open>10 ^ n\<close>. The only exception is zero written
  with and without a minus sign.\<close>

theorem cmp_numeric_str_correct:
  assumes "is_decimal n a" "is_decimal n b"
    and "dec_int n a \<noteq> 0 \<or> dec_int n b \<noteq> 0 \<or> starts_with a ''-'' = starts_with b ''-''"
  shows "cmp_numeric_str a b = cmp (dec_int n a) (dec_int n b)"
proof (cases "starts_with a ''-'' = starts_with b ''-''")
  case True
  then show ?thesis
    using assms(1,2) by (auto simp: cmp_numeric_str_def is_decimal_def dec_int_def cmp_magnitude_value cmp_int_rev Let_def)
next
  case False
  then show ?thesis
    using assms(3) by (auto simp: cmp_numeric_str_def dec_int_def cmp_def Let_def)
qed

theorem cmp_numeric_str_correct_witness: "cmp_numeric_str ''-12.50'' ''7.125'' = Less \<and> dec_int 3 ''-12.50'' = -12500"
proof -
  have d: "dec_int 3 ''-12.50'' = -12500" "dec_int 3 ''7.125'' = 7125" by code_simp+
  have "is_decimal 3 ''-12.50''" "is_decimal 3 ''7.125''" by code_simp+
  from cmp_numeric_str_correct [OF this] show ?thesis unfolding d by (simp add: cmp_def)
qed

text \<open>The exception: the comparison puts negative zero below zero, though they denote the same number.\<close>

theorem cmp_numeric_negative_zero: "cmp_numeric_str ''-0'' ''0'' = Less \<and> dec_int 0 ''-0'' = dec_int 0 ''0''"
  by code_simp

end
