(* ===== verification/Dynamo_Table.thy ===== *)
theory Dynamo_Table
  imports Dynamo_Value "HOL-Library.Option_ord"
begin

text \<open>
  DynamoDB tables, \<^verbatim>\<open>services/dynamodb/src/store.rs\<close>: schemas, materialized secondary indexes,
  the table with its items, indexes and stream records, and the store of tables. The clock
  reading that an operation takes is its argument \<open>now\<close>, the random identifier of a new table
  its argument \<open>table_id\<close>.
\<close>

section \<open>Schemas\<close>

datatype KeyType = HASH | RANGE

record KeySchemaElement =
  ks_attribute_name :: string
  ks_key_type :: KeyType

record AttributeDefinition =
  ad_attribute_name :: string
  ad_attribute_type :: string

record Projection =
  projection_type :: string
  non_key_attributes :: "string list"

record GlobalSecondaryIndex =
  gsi_index_name :: string
  gsi_key_schema :: "KeySchemaElement list"
  gsi_projection :: Projection
  gsi_item_count :: u64

record LocalSecondaryIndex =
  lsi_index_name :: string
  lsi_key_schema :: "KeySchemaElement list"
  lsi_projection :: Projection
  lsi_item_count :: u64

record StreamSpecification =
  stream_enabled :: bool
  stream_view_type :: "string option"

record StreamRecord =
  sr_sequence_number :: string
  sr_event_name :: string
  sr_keys :: Item
  sr_new_image :: "Item option"
  sr_old_image :: "Item option"
  sr_approximate_creation_date_time :: int

definition key_of_type :: "KeyType \<Rightarrow> KeySchemaElement list \<Rightarrow> string option" where
  "key_of_type kt schema = map_option ks_attribute_name (find (\<lambda>k. ks_key_type k = kt) schema)"

section \<open>Materialized indexes\<close>

record MaterializedIndex =
  mi_hash_key_name :: string
  mi_range_key_name :: "string option"
  mi_data :: "(string, (string \<times> string) list) hash_map"

definition MaterializedIndex_new :: "string \<Rightarrow> string option \<Rightarrow> MaterializedIndex" where
  "MaterializedIndex_new hk rk = \<lparr>mi_hash_key_name = hk, mi_range_key_name = rk, mi_data = []\<rparr>"

definition index_add :: "MaterializedIndex \<Rightarrow> Item \<Rightarrow> string \<Rightarrow> string \<Rightarrow> MaterializedIndex" where
  "index_add idx item pk_hash pk_sort =
     (case Option.bind (hm_get item (mi_hash_key_name idx)) av_to_key_str of
        None \<Rightarrow> idx
      | Some hv \<Rightarrow>
          (if (case mi_range_key_name idx of Some rk \<Rightarrow> hm_get item rk = None | None \<Rightarrow> False) then idx
           else let bucket = (case hm_get (mi_data idx) hv of Some b \<Rightarrow> b | None \<Rightarrow> []);
                    bucket = (if (pk_hash, pk_sort) \<in> set bucket then bucket else bucket @ [(pk_hash, pk_sort)])
                in idx\<lparr>mi_data := hm_insert hv bucket (mi_data idx)\<rparr>))"

definition index_remove :: "MaterializedIndex \<Rightarrow> Item \<Rightarrow> string \<Rightarrow> string \<Rightarrow> MaterializedIndex" where
  "index_remove idx item pk_hash pk_sort =
     (case Option.bind (hm_get item (mi_hash_key_name idx)) av_to_key_str_ref of
        None \<Rightarrow> idx
      | Some hv \<Rightarrow>
          (case hm_get (mi_data idx) hv of
             None \<Rightarrow> idx
           | Some bucket \<Rightarrow>
               (let bucket = filter (\<lambda>(h, s). h \<noteq> pk_hash \<or> s \<noteq> pk_sort) bucket
                in if bucket = [] then idx\<lparr>mi_data := hm_remove hv (mi_data idx)\<rparr>
                   else idx\<lparr>mi_data := hm_insert hv bucket (mi_data idx)\<rparr>)))"

section \<open>Tables\<close>

datatype TableStatus = ACTIVE | CREATING | DELETING | UPDATING

record Table =
  t_name :: string
  t_arn :: string
  t_id :: string
  t_status :: TableStatus
  t_created :: int
  t_key_schema :: "KeySchemaElement list"
  t_attribute_definitions :: "AttributeDefinition list"
  t_gsis :: "GlobalSecondaryIndex list"
  t_lsis :: "LocalSecondaryIndex list"
  t_stream_specification :: StreamSpecification
  t_stream_arn :: "string option"
  t_billing_mode :: string
  t_item_count :: u64
  t_size_bytes :: u64
  t_items :: "(string, (string, Item) btree_map) hash_map"
  t_stream_records :: "StreamRecord list"
  t_stream_sequence :: u64
  t_index_data :: "(string, MaterializedIndex) hash_map"

definition index_of_schema :: "KeySchemaElement list \<Rightarrow> MaterializedIndex" where
  "index_of_schema schema =
     MaterializedIndex_new (case key_of_type HASH schema of Some n \<Rightarrow> n | None \<Rightarrow> []) (key_of_type RANGE schema)"

definition Table_new ::
  "string \<Rightarrow> int \<Rightarrow> int \<Rightarrow> string \<Rightarrow> string \<Rightarrow> string \<Rightarrow> KeySchemaElement list \<Rightarrow> AttributeDefinition list \<Rightarrow>
   GlobalSecondaryIndex list \<Rightarrow> LocalSecondaryIndex list \<Rightarrow> StreamSpecification \<Rightarrow> Table" where
  "Table_new table_id now1 now2 name account_id region key_schema attribute_definitions gsis lsis stream_spec =
     (let table_arn = ''arn:aws:dynamodb:'' @ region @ '':'' @ account_id @ '':table/'' @ name;
          stream_arn = (if stream_enabled stream_spec
                        then Some (table_arn @ ''/stream/'' @ int_to_string (now1 div 1000000000)) else None);
          index_data = fold (\<lambda>g. hm_insert (gsi_index_name g) (index_of_schema (gsi_key_schema g))) gsis [];
          index_data = fold (\<lambda>l. hm_insert (lsi_index_name l) (index_of_schema (lsi_key_schema l))) lsis index_data
      in \<lparr>t_name = name, t_arn = table_arn, t_id = table_id, t_status = ACTIVE, t_created = now2,
          t_key_schema = key_schema, t_attribute_definitions = attribute_definitions,
          t_gsis = gsis, t_lsis = lsis, t_stream_specification = stream_spec, t_stream_arn = stream_arn,
          t_billing_mode = ''PAY_PER_REQUEST'', t_item_count = 0, t_size_bytes = 0, t_items = [],
          t_stream_records = [], t_stream_sequence = 0, t_index_data = index_data\<rparr>)"

definition hash_key_name :: "Table \<Rightarrow> string option" where
  "hash_key_name t = key_of_type HASH (t_key_schema t)"

definition range_key_name :: "Table \<Rightarrow> string option" where
  "range_key_name t = key_of_type RANGE (t_key_schema t)"

definition copy_attr :: "string option \<Rightarrow> Item \<Rightarrow> Item \<Rightarrow> Item" where
  "copy_attr k item keys =
     (case k of
        Some k \<Rightarrow> (case hm_get item k of Some v \<Rightarrow> hm_insert k v keys | None \<Rightarrow> keys)
      | None \<Rightarrow> keys)"

definition make_key_map :: "Table \<Rightarrow> Item \<Rightarrow> Item" where
  "make_key_map t item = copy_attr (range_key_name t) item (copy_attr (hash_key_name t) item [])"

definition append_stream_record ::
  "int \<Rightarrow> Table \<Rightarrow> string \<Rightarrow> Item \<Rightarrow> Item option \<Rightarrow> Item option \<Rightarrow> Table" where
  "append_stream_record now t event_name keys old_image new_image =
     (if \<not> stream_enabled (t_stream_specification t) then t
      else let t = t\<lparr>t_stream_sequence := t_stream_sequence t + 1\<rparr>;
               rec = \<lparr>sr_sequence_number = dec_pad 20 (unat (t_stream_sequence t)), sr_event_name = event_name,
                      sr_keys = keys, sr_new_image = new_image, sr_old_image = old_image,
                      sr_approximate_creation_date_time = now div 1000000000\<rparr>;
               recs = t_stream_records t @ [rec]
           in t\<lparr>t_stream_records := (if length recs > 1000 then drop 1 recs else recs)\<rparr>)"

definition key_with :: "(AttributeValue \<Rightarrow> string option) \<Rightarrow> Table \<Rightarrow> Item \<Rightarrow> (string \<times> string) option" where
  "key_with to_str t item =
     (case hash_key_name t of None \<Rightarrow> None | Some hk \<Rightarrow>
     (case hm_get item hk of None \<Rightarrow> None | Some hv \<Rightarrow>
     (case to_str hv of None \<Rightarrow> None | Some hash_str \<Rightarrow>
     (case range_key_name t of
        Some rk \<Rightarrow>
          (case hm_get item rk of None \<Rightarrow> None | Some rv \<Rightarrow>
          (case to_str rv of None \<Rightarrow> None | Some sort_str \<Rightarrow> Some (hash_str, sort_str)))
      | None \<Rightarrow> Some (hash_str, [])))))"

definition extract_key_from_item :: "Table \<Rightarrow> Item \<Rightarrow> (string \<times> string) option" where
  "extract_key_from_item t item = key_with av_to_key_str t item"

definition extract_key_ref_from_item :: "Table \<Rightarrow> Item \<Rightarrow> (string \<times> string) option" where
  "extract_key_ref_from_item t item = key_with av_to_key_str_ref t item"

definition partition_of :: "Table \<Rightarrow> string \<Rightarrow> (string, Item) btree_map" where
  "partition_of t hk = (case hm_get (t_items t) hk of Some p \<Rightarrow> p | None \<Rightarrow> [])"

definition put_item :: "int \<Rightarrow> Table \<Rightarrow> Item \<Rightarrow> Item option \<times> Table" where
  "put_item now t item =
     (case extract_key_from_item t item of
        None \<Rightarrow> (None, t)
      | Some (hk, sk) \<Rightarrow>
          (let keys = make_key_map t item;
               part = partition_of t hk;
               old = bt_get part sk;
               t = t\<lparr>t_items := hm_insert hk (bt_insert sk item part) (t_items t)\<rparr>;
               t = (case old of
                      Some old_item \<Rightarrow>
                        t\<lparr>t_index_data := map_values (\<lambda>idx. index_remove idx old_item hk sk) (t_index_data t)\<rparr>
                    | None \<Rightarrow> t\<lparr>t_item_count := t_item_count t + 1\<rparr>);
               t = t\<lparr>t_index_data := map_values (\<lambda>idx. index_add idx item hk sk) (t_index_data t)\<rparr>;
               event = (if old \<noteq> None then ''MODIFY'' else ''INSERT'')
           in (old, append_stream_record now t event keys old (Some item))))"

definition get_item :: "Table \<Rightarrow> Item \<Rightarrow> Item option" where
  "get_item t key =
     (case extract_key_ref_from_item t key of
        None \<Rightarrow> None
      | Some (hk, sk) \<Rightarrow> Option.bind (hm_get (t_items t) hk) (\<lambda>p. bt_get p sk))"

definition delete_item :: "int \<Rightarrow> Table \<Rightarrow> Item \<Rightarrow> Item option \<times> Table" where
  "delete_item now t key =
     (case extract_key_from_item t key of
        None \<Rightarrow> (None, t)
      | Some (hk, sk) \<Rightarrow>
          (let keys = make_key_map t key in
           case hm_get (t_items t) hk of
             None \<Rightarrow> (None, t)
           | Some part \<Rightarrow>
               (let old = bt_get part sk;
                    t = t\<lparr>t_items := hm_insert hk (bt_remove sk part) (t_items t)\<rparr>;
                    t = (if old \<noteq> None
                         then t\<lparr>t_item_count := (if t_item_count t = 0 then 0 else t_item_count t - 1)\<rparr> else t)
                in case old of
                     Some old_item \<Rightarrow>
                       (let t = t\<lparr>t_index_data := map_values (\<lambda>idx. index_remove idx old_item hk sk) (t_index_data t)\<rparr>
                        in (old, append_stream_record now t ''REMOVE'' keys old None))
                   | None \<Rightarrow> (old, t))))"

definition all_items :: "Table \<Rightarrow> Item list" where
  "all_items t = concat (map (\<lambda>p. map snd p) (hm_values (t_items t)))"

section \<open>Queries\<close>

definition item_cmp :: "string \<Rightarrow> bool \<Rightarrow> Item \<Rightarrow> Item \<Rightarrow> ordering" where
  "item_cmp rk scan_index_forward a b =
     (let ak = Option.bind (hm_get a rk) av_sort_key;
          bk = Option.bind (hm_get b rk) av_sort_key;
          ord = (case option_partial_cmp ak bk of Some r \<Rightarrow> r | None \<Rightarrow> Equal)
      in if scan_index_forward then ord else reverse_ordering ord)"

definition sort_items :: "string option \<Rightarrow> bool \<Rightarrow> Item list \<Rightarrow> Item list" where
  "sort_items rk fwd items = (case rk of Some rk \<Rightarrow> sort_by (item_cmp rk fwd) items | None \<Rightarrow> items)"

definition range_ok :: "RangeCondition option \<Rightarrow> string option \<Rightarrow> Item \<Rightarrow> bool" where
  "range_ok rc rk item =
     (case rc of None \<Rightarrow> True | Some rc \<Rightarrow>
     (case rk of None \<Rightarrow> True | Some rk \<Rightarrow>
     (case hm_get item rk of None \<Rightarrow> True | Some rv \<Rightarrow> range_matches rc rv)))"

definition index_key :: "KeyType \<Rightarrow> Table \<Rightarrow> string \<Rightarrow> string option" where
  "index_key kt t index_name =
     (case find (\<lambda>g. gsi_index_name g = index_name) (t_gsis t) of
        Some g \<Rightarrow> key_of_type kt (gsi_key_schema g)
      | None \<Rightarrow>
          (case find (\<lambda>l. lsi_index_name l = index_name) (t_lsis t) of
             Some l \<Rightarrow> key_of_type kt (lsi_key_schema l)
           | None \<Rightarrow> None))"

definition index_hash_key :: "Table \<Rightarrow> string \<Rightarrow> string option" where
  "index_hash_key = index_key HASH"

definition index_range_key :: "Table \<Rightarrow> string \<Rightarrow> string option" where
  "index_range_key = index_key RANGE"

definition lookup_pair :: "Table \<Rightarrow> string \<times> string \<Rightarrow> Item option" where
  "lookup_pair t hs = (case hs of (h, s) \<Rightarrow> Option.bind (hm_get (t_items t) h) (\<lambda>p. bt_get p s))"

definition query_index :: "Table \<Rightarrow> MaterializedIndex \<Rightarrow> string \<Rightarrow> RangeCondition option \<Rightarrow> bool \<Rightarrow> Item list" where
  "query_index t mat_idx hash_key_val range_condition scan_index_forward =
     (let idx_rk = mi_range_key_name mat_idx;
          pairs = (case hm_get (mi_data mat_idx) hash_key_val of Some v \<Rightarrow> v | None \<Rightarrow> []);
          items = filter (range_ok range_condition idx_rk) (List.map_filter (lookup_pair t) pairs)
      in sort_items idx_rk scan_index_forward items)"

definition query_scan :: "Table \<Rightarrow> string \<Rightarrow> string \<Rightarrow> RangeCondition option \<Rightarrow> bool \<Rightarrow> Item list" where
  "query_scan t idx_name hash_key_val range_condition scan_index_forward =
     (let idx_hk = (case index_hash_key t idx_name of Some k \<Rightarrow> k | None \<Rightarrow> []);
          idx_rk = index_range_key t idx_name;
          items = filter (\<lambda>item. Option.bind (hm_get item idx_hk) av_to_key_str_ref = Some hash_key_val \<and>
                            range_ok range_condition idx_rk item) (all_items t)
      in sort_items idx_rk scan_index_forward items)"

definition query_table :: "Table \<Rightarrow> string \<Rightarrow> RangeCondition option \<Rightarrow> bool \<Rightarrow> Item list" where
  "query_table t hash_key_val range_condition scan_index_forward =
     (case hm_get (t_items t) hash_key_val of
        None \<Rightarrow> []
      | Some part \<Rightarrow>
          sort_items (range_key_name t) scan_index_forward
            (filter (range_ok range_condition (range_key_name t)) (map snd part)))"

definition query ::
  "Table \<Rightarrow> string \<Rightarrow> RangeCondition option \<Rightarrow> string option \<Rightarrow> bool \<Rightarrow> Item list" where
  "query t hash_key_val range_condition index_name scan_index_forward =
     (case index_name of
        Some idx_name \<Rightarrow>
          (case hm_get (t_index_data t) idx_name of
             Some mat_idx \<Rightarrow> query_index t mat_idx hash_key_val range_condition scan_index_forward
           | None \<Rightarrow> query_scan t idx_name hash_key_val range_condition scan_index_forward)
      | None \<Rightarrow> query_table t hash_key_val range_condition scan_index_forward)"

section \<open>Index maintenance and the store\<close>

definition add_gsi :: "Table \<Rightarrow> GlobalSecondaryIndex \<Rightarrow> Table" where
  "add_gsi t gsi =
     (let idx = index_of_schema (gsi_key_schema gsi);
          idx = fold (\<lambda>(pk_hash, part) idx.
                  fold (\<lambda>(pk_sort, item) idx. index_add idx item pk_hash pk_sort) part idx) (t_items t) idx
      in t\<lparr>t_index_data := hm_insert (gsi_index_name gsi) idx (t_index_data t), t_gsis := t_gsis t @ [gsi]\<rparr>)"

definition remove_gsi :: "Table \<Rightarrow> string \<Rightarrow> Table" where
  "remove_gsi t index_name =
     t\<lparr>t_index_data := hm_remove index_name (t_index_data t),
       t_gsis := filter (\<lambda>g. gsi_index_name g \<noteq> index_name) (t_gsis t)\<rparr>"

record DynamoDbStore =
  tables :: "(string, Table) hash_map"

definition DynamoDbStore_new :: DynamoDbStore where
  "DynamoDbStore_new = \<lparr>tables = []\<rparr>"

definition create_table ::
  "string \<Rightarrow> int \<Rightarrow> int \<Rightarrow> DynamoDbStore \<Rightarrow> string \<Rightarrow> string \<Rightarrow> string \<Rightarrow> KeySchemaElement list \<Rightarrow>
   AttributeDefinition list \<Rightarrow> GlobalSecondaryIndex list \<Rightarrow> LocalSecondaryIndex list \<Rightarrow>
   StreamSpecification \<Rightarrow> DynamoDbStore" where
  "create_table table_id now1 now2 st name account_id region key_schema attribute_definitions gsis lsis stream_spec =
     (if \<not> contains_key (tables st) name
      then st\<lparr>tables := hm_insert name (Table_new table_id now1 now2 name account_id region key_schema
             attribute_definitions gsis lsis stream_spec) (tables st)\<rparr>
      else st)"

definition delete_table :: "DynamoDbStore \<Rightarrow> string \<Rightarrow> Table option \<times> DynamoDbStore" where
  "delete_table st name = (hm_get (tables st) name, st\<lparr>tables := hm_remove name (tables st)\<rparr>)"

definition get_table :: "DynamoDbStore \<Rightarrow> string \<Rightarrow> Table option" where
  "get_table st name = hm_get (tables st) name"

definition list_table_names :: "DynamoDbStore \<Rightarrow> string list" where
  "list_table_names st = map fst (tables st)"

end
