(* ===== verification/Dynamo_Provider.thy ===== *)
theory Dynamo_Provider
  imports Dynamo_Table Dynamo_Expr Account_Bundle
begin

text \<open>
  The DynamoDB provider, \<^verbatim>\<open>services/dynamodb/src/provider.rs\<close>: parsing of requests, key
  conditions and projections, one definition per operation, and the dispatch that selects the
  store of the request's account and region. A panic of the expression evaluator is the result
  \<^term>\<open>None\<close>. The mutex of a table is held by every writing operation, so a request is one step;
  the order in which a transaction takes the mutexes is the subject of another theory.
\<close>

section \<open>The environment\<close>

text \<open>Readings of the clock and random identifiers, numbered in the order in which they are taken.\<close>

record dyn_world =
  dw_clock :: "nat \<Rightarrow> int"
  dw_uuid :: "nat \<Rightarrow> string"
  dw_reads :: nat

definition tick :: "nat \<Rightarrow> dyn_world \<Rightarrow> dyn_world" where
  "tick n w = w\<lparr>dw_reads := dw_reads w + n\<rparr>"

abbreviation now_of :: "dyn_world \<Rightarrow> int" where
  "now_of w \<equiv> dw_clock w (dw_reads w)"

section \<open>Responses\<close>

definition json_ok :: "externs \<Rightarrow> Value \<Rightarrow> DispatchResponse" where
  "json_ok ext body =
     \<lparr>status_code = 200, resp_body = Buffered (json_to_string ext body),
      content_type = ''application/x-amz-json-1.0'', resp_headers = []\<rparr>"

definition serialize_response :: "externs \<Rightarrow> Value \<Rightarrow> DispatchResponse" where
  "serialize_response ext body =
     \<lparr>status_code = 200, resp_body = Buffered (json_to_string ext body),
      content_type = ''application/x-amz-json-1.0'', resp_headers = []\<rparr>"

definition json_error :: "externs \<Rightarrow> string \<Rightarrow> string \<Rightarrow> nat \<Rightarrow> DispatchResponse" where
  "json_error ext code message status =
     \<lparr>status_code = status,
      resp_body = Buffered (json_to_string ext
        (json_object [(''__type'', JString code), (''message'', JString message)])),
      content_type = ''application/json'', resp_headers = []\<rparr>"

text \<open>
  An item inside a \<^verbatim>\<open>json!\<close> document; and printed directly by its \<^verbatim>\<open>Serialize\<close> instance, where
  members stay in the order of the hash map.
\<close>

definition item_value :: "Item \<Rightarrow> Value" where
  "item_value item = json_object (map (\<lambda>(k, v). (k, av_to_json v)) item)"

function av_direct :: "AttributeValue \<Rightarrow> Value" where
  "av_direct (AV_S v) = JObject [(''S'', JString v)]"
| "av_direct (AV_N v) = JObject [(''N'', JString v)]"
| "av_direct (AV_B v) = JObject [(''B'', JString v)]"
| "av_direct (AV_Bool v) = JObject [(''BOOL'', JBool v)]"
| "av_direct AV_Null = JObject [(''NULL'', JBool True)]"
| "av_direct (AV_Ss v) = JObject [(''SS'', JArray (map JString v))]"
| "av_direct (AV_Ns v) = JObject [(''NS'', JArray (map JString v))]"
| "av_direct (AV_Bs v) = JObject [(''BS'', JArray (map JString v))]"
| "av_direct (AV_L v) = JObject [(''L'', JArray (map av_direct v))]"
| "av_direct (AV_M v) = JObject [(''M'', JObject (map (\<lambda>kv. (fst kv, av_direct (snd kv))) v))]"
  by pat_completeness auto
termination
  by (relation "measure size") (auto simp: less_Suc_eq_le dest: size_mem size_snd_mem)

definition item_direct :: "Item \<Rightarrow> Value" where
  "item_direct item = JObject (map (\<lambda>(k, v). (k, av_direct v)) item)"

definition GetItemResp :: "Item option \<Rightarrow> Value" where
  "GetItemResp item = JObject (case item of Some i \<Rightarrow> [(''Item'', item_direct i)] | None \<Rightarrow> [])"

definition json_usize :: "nat \<Rightarrow> Value" where
  "json_usize n = JNumber (PosInt (of_nat n))"

definition QueryResp :: "Item list \<Rightarrow> nat \<Rightarrow> nat \<Rightarrow> Value" where
  "QueryResp items cnt scanned_count =
     JObject [(''Items'', JArray (map item_direct items)), (''Count'', json_usize cnt),
       (''ScannedCount'', json_usize scanned_count)]"

definition MutationResp :: "Item option \<Rightarrow> Value" where
  "MutationResp attributes = JObject (case attributes of Some i \<Rightarrow> [(''Attributes'', item_direct i)] | None \<Rightarrow> [])"

section \<open>Parsing of requests\<close>

definition get_str :: "Value \<Rightarrow> string \<Rightarrow> string option" where
  "get_str v k = Option.bind (value_get v k) as_str"

definition array_or_empty :: "Value \<Rightarrow> Value list" where
  "array_or_empty v = (case as_array v of Some xs \<Rightarrow> xs | None \<Rightarrow> [])"

definition parse_key_schema :: "Value \<Rightarrow> KeySchemaElement list" where
  "parse_key_schema arr =
     List.map_filter (\<lambda>ks.
       Option.bind (get_str ks ''AttributeName'') (\<lambda>attr.
       Option.bind (get_str ks ''KeyType'') (\<lambda>kt.
       Some \<lparr>ks_attribute_name = attr, ks_key_type = (if kt = ''HASH'' then HASH else RANGE)\<rparr>)))
     (array_or_empty arr)"

definition parse_attr_defs :: "Value \<Rightarrow> AttributeDefinition list" where
  "parse_attr_defs arr =
     List.map_filter (\<lambda>a.
       Option.bind (get_str a ''AttributeName'') (\<lambda>n.
       Option.bind (get_str a ''AttributeType'') (\<lambda>ty.
       Some \<lparr>ad_attribute_name = n, ad_attribute_type = ty\<rparr>)))
     (array_or_empty arr)"

definition parse_projection :: "Value option \<Rightarrow> Projection" where
  "parse_projection p =
     (case p of
        None \<Rightarrow> \<lparr>projection_type = ''ALL'', non_key_attributes = []\<rparr>
      | Some v \<Rightarrow>
          \<lparr>projection_type = (case get_str v ''ProjectionType'' of Some s \<Rightarrow> s | None \<Rightarrow> ''ALL''),
           non_key_attributes =
             (case Option.bind (value_get v ''NonKeyAttributes'') as_array of
                Some arr \<Rightarrow> List.map_filter as_str arr
              | None \<Rightarrow> [])\<rparr>)"

definition get_or_null :: "Value \<Rightarrow> string \<Rightarrow> Value" where
  "get_or_null v k = (case value_get v k of Some x \<Rightarrow> x | None \<Rightarrow> JNull)"

definition parse_gsis :: "Value \<Rightarrow> GlobalSecondaryIndex list" where
  "parse_gsis arr =
     List.map_filter (\<lambda>g.
       Option.bind (get_str g ''IndexName'') (\<lambda>n.
       Some \<lparr>gsi_index_name = n, gsi_key_schema = parse_key_schema (get_or_null g ''KeySchema''),
             gsi_projection = parse_projection (value_get g ''Projection''), gsi_item_count = 0\<rparr>))
     (array_or_empty arr)"

definition parse_lsis :: "Value \<Rightarrow> LocalSecondaryIndex list" where
  "parse_lsis arr =
     List.map_filter (\<lambda>l.
       Option.bind (get_str l ''IndexName'') (\<lambda>n.
       Some \<lparr>lsi_index_name = n, lsi_key_schema = parse_key_schema (get_or_null l ''KeySchema''),
             lsi_projection = parse_projection (value_get l ''Projection''), lsi_item_count = 0\<rparr>))
     (array_or_empty arr)"

definition parse_stream_spec :: "Value option \<Rightarrow> StreamSpecification" where
  "parse_stream_spec v =
     (case v of
        None \<Rightarrow> \<lparr>stream_enabled = False, stream_view_type = None\<rparr>
      | Some s \<Rightarrow>
          \<lparr>stream_enabled = (case Option.bind (value_get s ''StreamEnabled'') as_bool of Some b \<Rightarrow> b | None \<Rightarrow> False),
           stream_view_type = get_str s ''StreamViewType''\<rparr>)"

definition object_or_empty :: "Value option \<Rightarrow> (string \<times> Value) list" where
  "object_or_empty v = (case Option.bind v as_object of Some m \<Rightarrow> m | None \<Rightarrow> [])"

definition parse_expr_names :: "Value option \<Rightarrow> (string, string) hash_map" where
  "parse_expr_names v =
     List.map_filter (\<lambda>(k, x). map_option (Pair k) (as_str x)) (object_or_empty v)"

definition parse_expr_values :: "Value option \<Rightarrow> (string, AttributeValue) hash_map" where
  "parse_expr_values v = map (\<lambda>(k, x). (k, av_from_json x)) (object_or_empty v)"

section \<open>Key conditions\<close>

definition to_ascii_uppercase :: "string \<Rightarrow> string" where
  "to_ascii_uppercase s =
     map (\<lambda>c. if 97 \<le> (of_char c :: nat) \<and> (of_char c :: nat) \<le> 122 then char_of ((of_char c :: nat) - 32) else c) s"

text \<open>The loop of \<^verbatim>\<open>split_top_level_and\<close>; a slice inside a character panics.\<close>

function split_top_level_and_loop ::
  "string \<Rightarrow> int \<Rightarrow> nat \<Rightarrow> nat \<Rightarrow> string list option" where
  "split_top_level_and_loop expr depth start i =
     (if i < length expr then
        (let depth = paren_depth (expr ! i) depth;
             go = split_top_level_and_loop expr depth start (i + 1)
         in if depth = 0 then
              (case str_slice expr i (length expr) of
                 None \<Rightarrow> None
               | Some upper_slice \<Rightarrow>
                   if 5 \<le> length upper_slice then
                     (case str_slice upper_slice 0 5 of
                        None \<Rightarrow> None
                      | Some candidate \<Rightarrow>
                          if eq_ignore_ascii_case candidate '' AND '' then
                            (case str_slice expr start i of
                               None \<Rightarrow> None
                             | Some part \<Rightarrow>
                                 map_option (Cons part) (split_top_level_and_loop expr depth (i + 5) (i + 5)))
                          else go)
                   else go)
            else go)
      else map_option (\<lambda>part. [part]) (str_slice expr start (length expr)))"
  by pat_completeness auto
termination
  by (relation "measure (\<lambda>(expr, _, _, i). length expr - i)") auto

declare split_top_level_and_loop.simps [simp del]

definition split_top_level_and :: "string \<Rightarrow> string list option" where
  "split_top_level_and expr = split_top_level_and_loop expr 0 0 0"

text \<open>\<^verbatim>\<open>find_keyword_pos\<close> is \<^verbatim>\<open>find_top_level\<close> of the store, written out a second time.\<close>

fun find_keyword_pos_loop :: "string \<Rightarrow> string \<Rightarrow> int \<Rightarrow> nat list \<Rightarrow> nat option option" where
  "find_keyword_pos_loop haystack keyword depth [] = Some None"
| "find_keyword_pos_loop haystack keyword depth (i # is) =
     (let depth = paren_depth (haystack ! i) depth; klen = length keyword in
      if depth = 0 \<and> i + klen \<le> length haystack
      then (case str_slice haystack i (i + klen) of
              None \<Rightarrow> None
            | Some s \<Rightarrow> if s = keyword then Some (Some i)
                        else find_keyword_pos_loop haystack keyword depth is)
      else find_keyword_pos_loop haystack keyword depth is)"

definition find_keyword_pos :: "string \<Rightarrow> string \<Rightarrow> nat option option" where
  "find_keyword_pos haystack keyword = find_keyword_pos_loop haystack keyword 0 [0..<length haystack]"

definition resolve_attr_name :: "string \<Rightarrow> (string, string) hash_map \<Rightarrow> string" where
  "resolve_attr_name name names = (case hm_get names name of Some n \<Rightarrow> n | None \<Rightarrow> name)"

definition resolve_attr_value :: "string \<Rightarrow> (string, AttributeValue) hash_map \<Rightarrow> AttributeValue" where
  "resolve_attr_value val values = (case hm_get values val of Some v \<Rightarrow> v | None \<Rightarrow> AV_Null)"

fun av_to_string :: "AttributeValue \<Rightarrow> string option" where
  "av_to_string (AV_S s) = Some s"
| "av_to_string (AV_N n) = Some n"
| "av_to_string (AV_B b) = Some b"
| "av_to_string _ = None"

type_synonym key_condition = "string option \<times> RangeCondition option"

definition key_operators :: "string list" where
  "key_operators = [''<='', ''>='', ''<>'', ''<'', ''>'', ''='']"

definition set_range :: "RangeCondition \<Rightarrow> bool \<Rightarrow> key_condition \<Rightarrow> key_condition" where
  "set_range rc is_range acc = (if is_range then (fst acc, Some rc) else acc)"

fun key_comparison ::
  "string \<Rightarrow> string \<Rightarrow> (string, string) hash_map \<Rightarrow> (string, AttributeValue) hash_map \<Rightarrow>
   string list \<Rightarrow> key_condition \<Rightarrow> key_condition" where
  "key_comparison part range_key names values [] acc = acc"
| "key_comparison part range_key names values (op # ops) acc =
     (case str_find part op of
        None \<Rightarrow> key_comparison part range_key names values ops acc
      | Some pos \<Rightarrow>
          (let lhs = resolve_attr_name (trim (take pos part)) names;
               rhs = resolve_attr_value (trim (drop (pos + length op) part)) values;
               is_range = (lhs = range_key)
           in if op = ''='' then
                (if is_range then (fst acc, Some (RC_Eq rhs)) else (av_to_string rhs, snd acc))
              else if op = ''<'' then set_range (RC_Lt rhs) is_range acc
              else if op = ''<='' then set_range (RC_Lte rhs) is_range acc
              else if op = ''>'' then set_range (RC_Gt rhs) is_range acc
              else if op = ''>='' then set_range (RC_Gte rhs) is_range acc
              else acc))"

definition key_part ::
  "string \<Rightarrow> (string, string) hash_map \<Rightarrow> (string, AttributeValue) hash_map \<Rightarrow>
   string \<Rightarrow> key_condition \<Rightarrow> key_condition option" where
  "key_part range_key names values part0 acc =
     (let part = trim part0 in
      if starts_with (to_ascii_lowercase part) ''begins_with('' \<and> ends_with part '')'' then
        (let inner = drop 12 (take (length part - 1) part) in
         case splitn 2 (CHR '','') inner of
           [c0, c1] \<Rightarrow>
             (let name = resolve_attr_name (trim c0) names;
                  pfx = string_or_empty (resolve_attr_value (trim c1) values)
              in Some (set_range (RC_BeginsWith pfx) (name = range_key) acc))
         | _ \<Rightarrow> Some acc)
      else
        (case find_keyword_pos (to_ascii_uppercase part) '' BETWEEN '' of
           None \<Rightarrow> None
         | Some (Some between_pos) \<Rightarrow>
             (let lhs = trim (take between_pos part);
                  rest = drop (between_pos + 9) part
              in case find_keyword_pos (to_ascii_uppercase rest) '' AND '' of
                   None \<Rightarrow> None
                 | Some None \<Rightarrow> Some acc
                 | Some (Some ap) \<Rightarrow>
                     (let name = resolve_attr_name lhs names;
                          lo = resolve_attr_value (trim (take ap rest)) values;
                          hi = resolve_attr_value (trim (drop (ap + 5) rest)) values
                      in Some (set_range (RC_Between lo hi) (name = range_key) acc)))
         | Some None \<Rightarrow> Some (key_comparison part range_key names values key_operators acc)))"

definition parse_key_condition ::
  "string \<Rightarrow> string \<Rightarrow> (string, string) hash_map \<Rightarrow> (string, AttributeValue) hash_map \<Rightarrow>
   key_condition option" where
  "parse_key_condition expr range_key names values =
     (case split_top_level_and (trim expr) of
        None \<Rightarrow> None
      | Some parts \<Rightarrow>
          fold (\<lambda>part r. Option.bind r (key_part range_key names values part)) parts (Some (None, None)))"

section \<open>Descriptions and projections\<close>

fun key_type_text :: "KeyType \<Rightarrow> string" where
  "key_type_text HASH = ''HASH''"
| "key_type_text RANGE = ''RANGE''"

fun table_status_text :: "TableStatus \<Rightarrow> string" where
  "table_status_text ACTIVE = ''ACTIVE''"
| "table_status_text CREATING = ''CREATING''"
| "table_status_text DELETING = ''DELETING''"
| "table_status_text UPDATING = ''UPDATING''"

definition key_schema_json :: "KeySchemaElement list \<Rightarrow> Value" where
  "key_schema_json ks =
     JArray (map (\<lambda>k. json_object [(''AttributeName'', JString (ks_attribute_name k)),
       (''KeyType'', JString (key_type_text (ks_key_type k)))]) ks)"

definition projection_json :: "Projection \<Rightarrow> Value" where
  "projection_json p =
     json_object [(''ProjectionType'', JString (projection_type p)),
       (''NonKeyAttributes'', JArray (map JString (non_key_attributes p)))]"

definition json_u64 :: "u64 \<Rightarrow> Value" where
  "json_u64 n = JNumber (PosInt n)"

text \<open>\<^verbatim>\<open>ts as f64\<close> in a document: a whole number of seconds prints with one decimal place.\<close>

definition json_seconds :: "int \<Rightarrow> Value" where
  "json_seconds ts = JNumber (Float (int_to_string ts @ ''.0''))"

definition gsi_json :: "Table \<Rightarrow> GlobalSecondaryIndex \<Rightarrow> Value" where
  "gsi_json t g =
     json_object [(''IndexName'', JString (gsi_index_name g)), (''KeySchema'', key_schema_json (gsi_key_schema g)),
       (''Projection'', projection_json (gsi_projection g)), (''IndexStatus'', JString ''ACTIVE''),
       (''ItemCount'', json_u64 (gsi_item_count g)), (''IndexSizeBytes'', json_u64 0),
       (''IndexArn'', JString (t_arn t @ ''/'' @ gsi_index_name g))]"

definition lsi_json :: "Table \<Rightarrow> LocalSecondaryIndex \<Rightarrow> Value" where
  "lsi_json t l =
     json_object [(''IndexName'', JString (lsi_index_name l)), (''KeySchema'', key_schema_json (lsi_key_schema l)),
       (''Projection'', projection_json (lsi_projection l)),
       (''ItemCount'', json_u64 (lsi_item_count l)), (''IndexSizeBytes'', json_u64 0),
       (''IndexArn'', JString (t_arn t @ ''/'' @ lsi_index_name l))]"

definition json_opt_str :: "string option \<Rightarrow> Value" where
  "json_opt_str s = (case s of Some s \<Rightarrow> JString s | None \<Rightarrow> JNull)"

definition table_description :: "Table \<Rightarrow> Value" where
  "table_description t =
     json_object
       ([(''TableName'', JString (t_name t)), (''TableArn'', JString (t_arn t)), (''TableId'', JString (t_id t)),
         (''TableStatus'', JString (table_status_text (t_status t))),
         (''CreationDateTime'', json_seconds (t_created t div 1000000000)),
         (''KeySchema'', key_schema_json (t_key_schema t)),
         (''AttributeDefinitions'', JArray (map (\<lambda>a. json_object
            [(''AttributeName'', JString (ad_attribute_name a)), (''AttributeType'', JString (ad_attribute_type a))])
            (t_attribute_definitions t))),
         (''BillingModeSummary'', json_object [(''BillingMode'', JString (t_billing_mode t))]),
         (''ItemCount'', json_u64 (t_item_count t)), (''TableSizeBytes'', json_u64 (t_size_bytes t)),
         (''StreamSpecification'', json_object
            [(''StreamEnabled'', JBool (stream_enabled (t_stream_specification t))),
             (''StreamViewType'', json_opt_str (stream_view_type (t_stream_specification t)))])]
        @ (if t_gsis t = [] then [] else [(''GlobalSecondaryIndexes'', JArray (map (gsi_json t) (t_gsis t)))])
        @ (if t_lsis t = [] then [] else [(''LocalSecondaryIndexes'', JArray (map (lsi_json t) (t_lsis t)))])
        @ (case t_stream_arn t of
             Some arn \<Rightarrow> [(''LatestStreamArn'', JString arn),
                          (''LatestStreamLabel'', JString (rsplit_first (CHR ''/'') arn))]
           | None \<Rightarrow> []))"

text \<open>
  Expansion of the placeholders in a projection expression. A placeholder is a hash sign and the
  alphanumeric characters and underscores that follow it; alphanumeric means ASCII here, as the
  other character classes of the model do.
\<close>

definition ascii_alnum :: "char \<Rightarrow> bool" where
  "ascii_alnum c \<longleftrightarrow>
     (let n = (of_char c :: nat)
      in (48 \<le> n \<and> n \<le> 57) \<or> (65 \<le> n \<and> n \<le> 90) \<or> (97 \<le> n \<and> n \<le> 122))"

definition is_name_char :: "char \<Rightarrow> bool" where
  "is_name_char c \<longleftrightarrow> ascii_alnum c \<or> c = CHR ''_''"

function expand_placeholders :: "(string, string) hash_map \<Rightarrow> string \<Rightarrow> string" where
  "expand_placeholders names rest =
     (case str_find rest ''#'' of
        None \<Rightarrow> rest
      | Some hash_pos \<Rightarrow>
          (let after = drop hash_pos rest;
               end = 1 + length (takeWhile is_name_char (drop 1 after));
               placeholder = take end after
           in take hash_pos rest @
              (case hm_get names placeholder of Some real \<Rightarrow> real | None \<Rightarrow> placeholder) @
              expand_placeholders names (drop end after)))"
  by pat_completeness auto
termination
proof (relation "measure (\<lambda>(_, r). length r)", goal_cases)
  case (2 names rest pos after e ph)
  then show ?case using str_find_SomeD [of rest "''#''" pos] by auto
qed simp

declare expand_placeholders.simps [simp del]

definition project_item :: "Item \<Rightarrow> string option \<Rightarrow> (string, string) hash_map \<Rightarrow> Item" where
  "project_item item projection names =
     (case projection of
        None \<Rightarrow> item
      | Some expr \<Rightarrow>
          if expr = [] then item
          else let attrs = map trim (split_char (CHR '','') (expand_placeholders names expr))
               in filter (\<lambda>(k, v). k \<in> set attrs) item)"

section \<open>Shard iterators\<close>

definition make_shard_iterator :: "string \<Rightarrow> u64 \<Rightarrow> string" where
  "make_shard_iterator stream_arn seq = stream_arn @ ''::shard-0000000001::'' @ dec_pad 20 (unat seq)"

text \<open>\<^verbatim>\<open>splitn(3, "::")\<close>.\<close>

definition split_once_str :: "string \<Rightarrow> string \<Rightarrow> (string \<times> string) option" where
  "split_once_str sep s = map_option (\<lambda>i. (take i s, drop (i + length sep) s)) (str_find s sep)"

definition splitn3 :: "string \<Rightarrow> string \<Rightarrow> (string \<times> string \<times> string) option" where
  "splitn3 sep s =
     Option.bind (split_once_str sep s) (\<lambda>(a, r).
     Option.bind (split_once_str sep r) (\<lambda>(b, c). Some (a, b, c)))"

definition parse_u64 :: "string \<Rightarrow> u64 option" where
  "parse_u64 s = map_option of_nat (parse_uint 10 64 s)"

definition parse_seq :: "string \<Rightarrow> u64 option" where
  "parse_seq s = parse_u64 (trim_start_matches (CHR ''0'') s)"

definition or_zero :: "u64 option \<Rightarrow> u64" where
  "or_zero n = (case n of Some n \<Rightarrow> n | None \<Rightarrow> 0)"

definition parse_shard_iterator :: "string \<Rightarrow> (string \<times> u64) option" where
  "parse_shard_iterator it =
     (case splitn3 ''::'' it of
        Some (arn, _, s) \<Rightarrow> Some (arn, or_zero (parse_seq s))
      | None \<Rightarrow> None)"

end
