(* ===== verification/Dynamo_Service.thy ===== *)
theory Dynamo_Service
  imports Dynamo_Provider
begin

text \<open>
  The operations of the DynamoDB provider, \<^verbatim>\<open>DynamoDbProvider::dispatch\<close> in
  \<^verbatim>\<open>services/dynamodb/src/provider.rs\<close>, one definition per arm of its match, in the order of the
  source. The state is the bundle of stores; \<open>in_scope\<close> is the access of the writing operations,
  which create the store of the scope, and \<open>bundle_get\<close> that of the reading ones, which do not.
\<close>

type_synonym dyn_bundle = "DynamoDbStore AccountRegionBundle"
type_synonym dyn_result = "(DispatchResponse \<times> dyn_bundle \<times> dyn_world) option"
type_synonym store_result = "(DispatchResponse \<times> DynamoDbStore \<times> dyn_world) option"

section \<open>Access to the store of a request\<close>

definition in_scope ::
  "RequestContext \<Rightarrow> (DynamoDbStore \<Rightarrow> dyn_world \<Rightarrow> store_result) \<Rightarrow> dyn_bundle \<Rightarrow> dyn_world \<Rightarrow> dyn_result" where
  "in_scope ctx f b w =
     (let (st, b) = get_or_create DynamoDbStore_new b (ctx_account_id ctx) (ctx_region ctx)
      in map_option (\<lambda>(r, st, w). (r, write_back b (ctx_account_id ctx) (ctx_region ctx) st, w)) (f st w))"

definition read_scope ::
  "RequestContext \<Rightarrow> dyn_bundle \<Rightarrow> DynamoDbStore option" where
  "read_scope ctx b = bundle_get b (ctx_account_id ctx) (ctx_region ctx)"

definition reply :: "DispatchResponse \<Rightarrow> dyn_bundle \<Rightarrow> dyn_world \<Rightarrow> dyn_result" where
  "reply r b w = Some (r, b, w)"

definition required :: "externs \<Rightarrow> string \<Rightarrow> DispatchResponse" where
  "required ext field = json_error ext ''ValidationException'' (field @ '' is required'') 400"

definition missing_table :: "externs \<Rightarrow> DispatchResponse" where
  "missing_table ext =
     json_error ext ''ResourceNotFoundException'' ''Cannot do operations on a non-existent table'' 400"

definition set_table :: "DynamoDbStore \<Rightarrow> string \<Rightarrow> Table \<Rightarrow> DynamoDbStore" where
  "set_table st name t = st\<lparr>tables := hm_insert name t (tables st)\<rparr>"

definition read_table ::
  "externs \<Rightarrow> RequestContext \<Rightarrow> string \<Rightarrow> (Table \<Rightarrow> DispatchResponse option) \<Rightarrow> dyn_bundle \<Rightarrow> dyn_world \<Rightarrow> dyn_result" where
  "read_table ext ctx name f b w =
     (case Option.bind (read_scope ctx b) (\<lambda>st. get_table st name) of
        None \<Rightarrow> reply (missing_table ext) b w
      | Some t \<Rightarrow> map_option (\<lambda>r. (r, b, w)) (f t))"

section \<open>Table operations\<close>

definition op_create_table :: "externs \<Rightarrow> RequestContext \<Rightarrow> dyn_bundle \<Rightarrow> dyn_world \<Rightarrow> dyn_result" where
  "op_create_table ext ctx b w =
     (let body = ctx_request_body ctx in
      case get_str body ''TableName'' of
        None \<Rightarrow> reply (required ext ''TableName'') b w
      | Some name \<Rightarrow>
          in_scope ctx (\<lambda>st w.
            if get_table st name \<noteq> None
            then Some (json_error ext ''ResourceInUseException'' (''Table already exists: '' @ name) 400, st, w)
            else
              (let st = create_table (dw_uuid w (dw_reads w)) (now_of w) (now_of (tick 1 w)) st name
                          (ctx_account_id ctx) (ctx_region ctx)
                          (parse_key_schema (get_or_null body ''KeySchema''))
                          (parse_attr_defs (get_or_null body ''AttributeDefinitions''))
                          (parse_gsis (get_or_null body ''GlobalSecondaryIndexes''))
                          (parse_lsis (get_or_null body ''LocalSecondaryIndexes''))
                          (parse_stream_spec (value_get body ''StreamSpecification''))
               in case get_table st name of
                    Some t \<Rightarrow>
                      Some (json_ok ext (json_object [(''TableDescription'', table_description t)]), st, tick 2 w)
                  | None \<Rightarrow>
                      Some (json_error ext ''InternalFailure'' ''Table was created but could not be retrieved'' 500,
                            st, tick 2 w))) b w)"

definition op_delete_table :: "externs \<Rightarrow> RequestContext \<Rightarrow> dyn_bundle \<Rightarrow> dyn_world \<Rightarrow> dyn_result" where
  "op_delete_table ext ctx b w =
     (case get_str (ctx_request_body ctx) ''TableName'' of
        None \<Rightarrow> reply (required ext ''TableName'') b w
      | Some name \<Rightarrow>
          in_scope ctx (\<lambda>st w.
            let (old, st) = delete_table st name in
            case old of
              None \<Rightarrow> Some (missing_table ext, st, w)
            | Some t \<Rightarrow> Some (json_ok ext (json_object [(''TableDescription'', table_description t)]), st, w)) b w)"

definition op_describe_table :: "externs \<Rightarrow> RequestContext \<Rightarrow> dyn_bundle \<Rightarrow> dyn_world \<Rightarrow> dyn_result" where
  "op_describe_table ext ctx b w =
     (case get_str (ctx_request_body ctx) ''TableName'' of
        None \<Rightarrow> reply (required ext ''TableName'') b w
      | Some name \<Rightarrow>
          read_table ext ctx name (\<lambda>t. Some (json_ok ext (json_object [(''Table'', table_description t)]))) b w)"

definition position_of :: "string \<Rightarrow> string list \<Rightarrow> nat option" where
  "position_of x xs =
     (let i = length (takeWhile (\<lambda>y. y \<noteq> x) xs) in if i < length xs then Some i else None)"

text \<open>One page of the sorted names: the page and the name to continue after.\<close>

definition list_tables_page :: "string list \<Rightarrow> nat \<Rightarrow> string option \<Rightarrow> string list \<times> string option" where
  "list_tables_page names0 limit exclusive_start =
     (let names = sort names0;
          start_idx = (case exclusive_start of
                         Some start \<Rightarrow> (case position_of start names of Some p \<Rightarrow> p + 1 | None \<Rightarrow> 0)
                       | None \<Rightarrow> 0);
          page = take limit (drop start_idx names);
          last_evaluated = (if start_idx + length page < length names
                            then (if page = [] then None else Some (last page)) else None)
      in (page, last_evaluated))"

definition op_list_tables :: "externs \<Rightarrow> RequestContext \<Rightarrow> dyn_bundle \<Rightarrow> dyn_world \<Rightarrow> dyn_result" where
  "op_list_tables ext ctx b w =
     (let body = ctx_request_body ctx in
      case read_scope ctx b of
        None \<Rightarrow> reply (json_ok ext (json_object [(''TableNames'', JArray [])])) b w
      | Some st \<Rightarrow>
          (let limit = (case Option.bind (value_get body ''Limit'') as_u64 of Some n \<Rightarrow> unat n | None \<Rightarrow> 100);
               (page, last_evaluated) =
                 list_tables_page (list_table_names st) limit (get_str body ''ExclusiveStartTableName'')
           in reply (json_ok ext (json_object ([(''TableNames'', JArray (map JString page))] @
                (case last_evaluated of Some l \<Rightarrow> [(''LastEvaluatedTableName'', JString l)] | None \<Rightarrow> [])))) b w))"

definition update_stream :: "int \<Rightarrow> Value \<Rightarrow> Table \<Rightarrow> Table" where
  "update_stream now ss t =
     (let new_spec = parse_stream_spec (Some ss);
          t = (if stream_enabled new_spec \<and> \<not> stream_enabled (t_stream_specification t)
               then t\<lparr>t_stream_arn := Some (t_arn t @ ''/stream/'' @ int_to_string (now div 1000000000))\<rparr> else t)
      in t\<lparr>t_stream_specification := new_spec\<rparr>)"

definition gsi_update :: "Value \<Rightarrow> Table \<Rightarrow> Table" where
  "gsi_update update t =
     (case value_get update ''Create'' of
        Some create \<Rightarrow>
          add_gsi t \<lparr>gsi_index_name = (case get_str create ''IndexName'' of Some n \<Rightarrow> n | None \<Rightarrow> []),
                     gsi_key_schema = parse_key_schema (get_or_null create ''KeySchema''),
                     gsi_projection = parse_projection (value_get create ''Projection''), gsi_item_count = 0\<rparr>
      | None \<Rightarrow>
          (case value_get update ''Delete'' of
             Some delete \<Rightarrow> remove_gsi t (case get_str delete ''IndexName'' of Some n \<Rightarrow> n | None \<Rightarrow> [])
           | None \<Rightarrow> t))"

definition update_table_with :: "int \<Rightarrow> Value \<Rightarrow> Table \<Rightarrow> Table" where
  "update_table_with now body t =
     (let t = (case value_get body ''StreamSpecification'' of Some ss \<Rightarrow> update_stream now ss t | None \<Rightarrow> t)
      in case Option.bind (value_get body ''GlobalSecondaryIndexUpdates'') as_array of
           Some updates \<Rightarrow> fold gsi_update updates t
         | None \<Rightarrow> t)"

definition op_update_table :: "externs \<Rightarrow> RequestContext \<Rightarrow> dyn_bundle \<Rightarrow> dyn_world \<Rightarrow> dyn_result" where
  "op_update_table ext ctx b w =
     (let body = ctx_request_body ctx in
      case get_str body ''TableName'' of
        None \<Rightarrow> reply (required ext ''TableName'') b w
      | Some name \<Rightarrow>
          in_scope ctx (\<lambda>st w.
            case get_table st name of
              None \<Rightarrow> Some (missing_table ext, st, w)
            | Some t \<Rightarrow>
                (let t = update_table_with (now_of w) body t
                 in Some (json_ok ext (json_object [(''TableDescription'', table_description t)]),
                          set_table st name t, tick 1 w))) b w)"

section \<open>Item operations\<close>

definition item_field :: "Value \<Rightarrow> string \<Rightarrow> Item option" where
  "item_field body k = map_option item_from_json_map (Option.bind (value_get body k) as_object)"

definition item_or_default :: "Value \<Rightarrow> string \<Rightarrow> Item" where
  "item_or_default body k = (case item_field body k of Some i \<Rightarrow> i | None \<Rightarrow> [])"

definition names_of :: "Value \<Rightarrow> (string, string) hash_map" where
  "names_of body = parse_expr_names (value_get body ''ExpressionAttributeNames'')"

definition values_of :: "Value \<Rightarrow> (string, AttributeValue) hash_map" where
  "values_of body = parse_expr_values (value_get body ''ExpressionAttributeValues'')"

definition return_values_of :: "Value \<Rightarrow> string" where
  "return_values_of body = (case get_str body ''ReturnValues'' of Some s \<Rightarrow> s | None \<Rightarrow> ''NONE'')"

text \<open>The condition of a write, checked on the stored item.\<close>

definition write_condition :: "Value \<Rightarrow> Table \<Rightarrow> Item \<Rightarrow> (string + unit) option" where
  "write_condition body t key =
     (case get_str body ''ConditionExpression'' of
        None \<Rightarrow> Some (Inr ())
      | Some cond \<Rightarrow> check_condition (get_item t key) cond (names_of body) (values_of body))"

definition condition_failed :: "externs \<Rightarrow> string \<Rightarrow> DispatchResponse" where
  "condition_failed ext e = json_error ext ''ConditionalCheckFailedException'' e 400"

definition put_item_in :: "externs \<Rightarrow> Value \<Rightarrow> string \<Rightarrow> Item \<Rightarrow> DynamoDbStore \<Rightarrow> dyn_world \<Rightarrow> store_result" where
  "put_item_in ext body name item st w =
     (case get_table st name of
        None \<Rightarrow> Some (missing_table ext, st, w)
      | Some t \<Rightarrow>
          (case write_condition body t item of
             None \<Rightarrow> None
           | Some (Inl e) \<Rightarrow> Some (condition_failed ext e, st, w)
           | Some (Inr _) \<Rightarrow>
               (let (old, t) = put_item (now_of w) t item
                in Some (serialize_response ext (MutationResp (if return_values_of body = ''ALL_OLD'' then old else None)),
                         set_table st name t, tick 1 w))))"

definition op_put_item :: "externs \<Rightarrow> RequestContext \<Rightarrow> dyn_bundle \<Rightarrow> dyn_world \<Rightarrow> dyn_result" where
  "op_put_item ext ctx b w =
     (let body = ctx_request_body ctx in
      case get_str body ''TableName'' of
        None \<Rightarrow> reply (required ext ''TableName'') b w
      | Some name \<Rightarrow>
          (case item_field body ''Item'' of
             None \<Rightarrow> reply (required ext ''Item'') b w
           | Some item \<Rightarrow> in_scope ctx (put_item_in ext body name item) b w))"

definition op_get_item :: "externs \<Rightarrow> RequestContext \<Rightarrow> dyn_bundle \<Rightarrow> dyn_world \<Rightarrow> dyn_result" where
  "op_get_item ext ctx b w =
     (let body = ctx_request_body ctx in
      case get_str body ''TableName'' of
        None \<Rightarrow> reply (required ext ''TableName'') b w
      | Some name \<Rightarrow>
          (case item_field body ''Key'' of
             None \<Rightarrow> reply (required ext ''Key'') b w
           | Some key \<Rightarrow>
               read_table ext ctx name (\<lambda>t.
                 Some (serialize_response ext (GetItemResp
                   (map_option (\<lambda>item. project_item item (get_str body ''ProjectionExpression'') (names_of body))
                     (get_item t key))))) b w))"

definition delete_item_in :: "externs \<Rightarrow> Value \<Rightarrow> string \<Rightarrow> Item \<Rightarrow> DynamoDbStore \<Rightarrow> dyn_world \<Rightarrow> store_result" where
  "delete_item_in ext body name key st w =
     (case get_table st name of
        None \<Rightarrow> Some (missing_table ext, st, w)
      | Some t \<Rightarrow>
          (case write_condition body t key of
             None \<Rightarrow> None
           | Some (Inl e) \<Rightarrow> Some (condition_failed ext e, st, w)
           | Some (Inr _) \<Rightarrow>
               (let (old, t) = delete_item (now_of w) t key;
                    resp = json_object (case (return_values_of body = ''ALL_OLD'', old) of
                             (True, Some old_item) \<Rightarrow> [(''Attributes'', item_value old_item)]
                           | _ \<Rightarrow> [])
                in Some (json_ok ext resp, set_table st name t, tick 1 w))))"

definition op_delete_item :: "externs \<Rightarrow> RequestContext \<Rightarrow> dyn_bundle \<Rightarrow> dyn_world \<Rightarrow> dyn_result" where
  "op_delete_item ext ctx b w =
     (let body = ctx_request_body ctx in
      case get_str body ''TableName'' of
        None \<Rightarrow> reply (required ext ''TableName'') b w
      | Some name \<Rightarrow>
          (case item_field body ''Key'' of
             None \<Rightarrow> reply (required ext ''Key'') b w
           | Some key \<Rightarrow> in_scope ctx (delete_item_in ext body name key) b w))"

text \<open>The stored item or the key alone, with the update expression applied.\<close>

definition updated_item ::
  "'d decimal_lib \<Rightarrow> Value \<Rightarrow> Table \<Rightarrow> string \<times> string \<Rightarrow> Item \<Rightarrow> Item option" where
  "updated_item lib body t hs key =
     (let item = (case lookup_pair t hs of Some i \<Rightarrow> i | None \<Rightarrow> key)
      in case get_str body ''UpdateExpression'' of
           Some expr \<Rightarrow> apply_update_expression lib item expr (names_of body) (values_of body)
         | None \<Rightarrow> Some item)"

definition update_response :: "string \<Rightarrow> Item option \<Rightarrow> Item \<Rightarrow> Value" where
  "update_response return_values old_item new_item =
     json_object
       (if return_values = ''ALL_NEW'' \<or> return_values = ''UPDATED_NEW'' then [(''Attributes'', item_value new_item)]
        else if return_values = ''ALL_OLD'' \<or> return_values = ''UPDATED_OLD''
        then (case old_item of Some old \<Rightarrow> [(''Attributes'', item_value old)] | None \<Rightarrow> [])
        else [])"

definition update_item_in ::
  "'d decimal_lib \<Rightarrow> externs \<Rightarrow> Value \<Rightarrow> string \<Rightarrow> Item \<Rightarrow> DynamoDbStore \<Rightarrow> dyn_world \<Rightarrow> store_result" where
  "update_item_in lib ext body name key st w =
     (case get_table st name of
        None \<Rightarrow> Some (missing_table ext, st, w)
      | Some t \<Rightarrow>
          (case write_condition body t key of
             None \<Rightarrow> None
           | Some (Inl e) \<Rightarrow> Some (condition_failed ext e, st, w)
           | Some (Inr _) \<Rightarrow>
               (case extract_key_from_item t key of
                  None \<Rightarrow> Some (json_error ext ''ValidationException'' ''Missing key'' 400, st, w)
                | Some hs \<Rightarrow>
                    (case updated_item lib body t hs key of
                       None \<Rightarrow> None
                     | Some new_item \<Rightarrow>
                         Some (json_ok ext (update_response (return_values_of body) (lookup_pair t hs) new_item),
                               set_table st name (snd (put_item (now_of w) t new_item)), tick 1 w)))))"

definition op_update_item ::
  "'d decimal_lib \<Rightarrow> externs \<Rightarrow> RequestContext \<Rightarrow> dyn_bundle \<Rightarrow> dyn_world \<Rightarrow> dyn_result" where
  "op_update_item lib ext ctx b w =
     (let body = ctx_request_body ctx in
      case get_str body ''TableName'' of
        None \<Rightarrow> reply (required ext ''TableName'') b w
      | Some name \<Rightarrow>
          (case item_field body ''Key'' of
             None \<Rightarrow> reply (required ext ''Key'') b w
           | Some key \<Rightarrow> in_scope ctx (update_item_in lib ext body name key) b w))"

section \<open>Query and scan\<close>

fun filter_opt :: "('a \<Rightarrow> bool option) \<Rightarrow> 'a list \<Rightarrow> 'a list option" where
  "filter_opt p [] = Some []"
| "filter_opt p (x # xs) =
     (case p x of
        None \<Rightarrow> None
      | Some keep \<Rightarrow> map_option (\<lambda>ys. if keep then x # ys else ys) (filter_opt p xs))"

definition passes_filter :: "Value \<Rightarrow> Item \<Rightarrow> bool option" where
  "passes_filter body item =
     (case get_str body ''FilterExpression'' of
        Some fe \<Rightarrow> evaluate_filter item fe (names_of body) (values_of body)
      | None \<Rightarrow> Some True)"

definition apply_limit :: "Value \<Rightarrow> 'a list \<Rightarrow> 'a list" where
  "apply_limit body xs =
     (case Option.bind (value_get body ''Limit'') as_u64 of Some lim \<Rightarrow> take (unat lim) xs | None \<Rightarrow> xs)"

text \<open>The common end of the two operations: filter and project what was examined, and count.\<close>

definition examined_response :: "externs \<Rightarrow> Value \<Rightarrow> Item list \<Rightarrow> DispatchResponse option" where
  "examined_response ext body examined =
     map_option (\<lambda>kept.
       let items = map (\<lambda>item. project_item item (get_str body ''ProjectionExpression'') (names_of body)) kept;
           select = (case get_str body ''Select'' of Some s \<Rightarrow> s | None \<Rightarrow> ''ALL_ATTRIBUTES'');
           out_items = (if select = ''COUNT'' then [] else items)
       in serialize_response ext (QueryResp out_items (length items) (length examined)))
     (filter_opt (passes_filter body) examined)"

definition unknown_index :: "externs \<Rightarrow> string \<Rightarrow> DispatchResponse" where
  "unknown_index ext idx =
     json_error ext ''ValidationException'' (''The table does not have the specified index: '' @ idx) 400"

definition query_range_key_of :: "Table \<Rightarrow> string option \<Rightarrow> string option" where
  "query_range_key_of t index_name =
     (case index_name of
        None \<Rightarrow> Some (case range_key_name t of Some n \<Rightarrow> n | None \<Rightarrow> [])
      | Some idx \<Rightarrow>
          (let gsi = find (\<lambda>g. gsi_index_name g = idx) (t_gsis t);
               lsi = find (\<lambda>l. lsi_index_name l = idx) (t_lsis t)
           in if gsi = None \<and> lsi = None then None
              else Some (case Option.bind gsi (\<lambda>g. key_of_type RANGE (gsi_key_schema g)) of
                           Some n \<Rightarrow> n
                         | None \<Rightarrow> (case Option.bind lsi (\<lambda>l. key_of_type RANGE (lsi_key_schema l)) of
                                      Some n \<Rightarrow> n | None \<Rightarrow> []))))"

definition query_on :: "externs \<Rightarrow> Value \<Rightarrow> Table \<Rightarrow> DispatchResponse option" where
  "query_on ext body t =
     (let index_name = get_str body ''IndexName'' in
      case query_range_key_of t index_name of
        None \<Rightarrow> Some (unknown_index ext (the index_name))
      | Some range_key \<Rightarrow>
          (case parse_key_condition (case get_str body ''KeyConditionExpression'' of Some e \<Rightarrow> e | None \<Rightarrow> [])
                  range_key (names_of body) (values_of body) of
             None \<Rightarrow> None
           | Some (None, _) \<Rightarrow>
               Some (json_error ext ''ValidationException''
                       ''Query condition missed key schema element: partition key'' 400)
           | Some (Some hash_val, range_cond) \<Rightarrow>
               (let fwd = (case Option.bind (value_get body ''ScanIndexForward'') as_bool of Some f \<Rightarrow> f | None \<Rightarrow> True)
                in examined_response ext body (apply_limit body (query t hash_val range_cond index_name fwd)))))"

definition op_query :: "externs \<Rightarrow> RequestContext \<Rightarrow> dyn_bundle \<Rightarrow> dyn_world \<Rightarrow> dyn_result" where
  "op_query ext ctx b w =
     (let body = ctx_request_body ctx in
      case get_str body ''TableName'' of
        None \<Rightarrow> reply (required ext ''TableName'') b w
      | Some name \<Rightarrow> read_table ext ctx name (query_on ext body) b w)"

definition scan_on :: "externs \<Rightarrow> Value \<Rightarrow> Table \<Rightarrow> DispatchResponse option" where
  "scan_on ext body t =
     (case get_str body ''IndexName'' of
        None \<Rightarrow> examined_response ext body (apply_limit body (all_items t))
      | Some idx \<Rightarrow>
          (case index_hash_key t idx of
             None \<Rightarrow> Some (unknown_index ext idx)
           | Some hk \<Rightarrow>
               (let pre_filter = filter (\<lambda>item. contains_key item hk \<and>
                      (case index_range_key t idx of None \<Rightarrow> True | Some rk \<Rightarrow> contains_key item rk)) (all_items t)
                in examined_response ext body (apply_limit body pre_filter))))"

definition op_scan :: "externs \<Rightarrow> RequestContext \<Rightarrow> dyn_bundle \<Rightarrow> dyn_world \<Rightarrow> dyn_result" where
  "op_scan ext ctx b w =
     (let body = ctx_request_body ctx in
      case get_str body ''TableName'' of
        None \<Rightarrow> reply (required ext ''TableName'') b w
      | Some name \<Rightarrow> read_table ext ctx name (scan_on ext body) b w)"

section \<open>Batches\<close>

definition table_not_found :: "externs \<Rightarrow> string \<Rightarrow> DispatchResponse" where
  "table_not_found ext name = json_error ext ''ResourceNotFoundException'' (''Table '' @ name @ '' not found'') 400"

definition batch_get_table :: "Table \<Rightarrow> Value \<Rightarrow> Value list" where
  "batch_get_table t req =
     (case Option.bind (value_get req ''Keys'') as_array of
        None \<Rightarrow> []
      | Some keys \<Rightarrow>
          List.map_filter (\<lambda>key_val.
            let key = (case as_object key_val of Some m \<Rightarrow> item_from_json_map m | None \<Rightarrow> [])
            in map_option (\<lambda>item. item_value (project_item item (get_str req ''ProjectionExpression'') (names_of req)))
                 (get_item t key)) keys)"

fun batch_get_loop ::
  "externs \<Rightarrow> DynamoDbStore \<Rightarrow> (string \<times> Value) list \<Rightarrow> (string, Value) btree_map \<Rightarrow>
   DispatchResponse + (string, Value) btree_map" where
  "batch_get_loop ext st [] responses = Inr responses"
| "batch_get_loop ext st ((table_name, req) # rest) responses =
     (case get_table st table_name of
        None \<Rightarrow> Inl (table_not_found ext table_name)
      | Some t \<Rightarrow> batch_get_loop ext st rest (bt_insert table_name (JArray (batch_get_table t req)) responses))"

definition op_batch_get_item :: "externs \<Rightarrow> RequestContext \<Rightarrow> dyn_bundle \<Rightarrow> dyn_world \<Rightarrow> dyn_result" where
  "op_batch_get_item ext ctx b w =
     (case Option.bind (value_get (ctx_request_body ctx) ''RequestItems'') as_object of
        None \<Rightarrow> reply (required ext ''RequestItems'') b w
      | Some request_items \<Rightarrow>
          (case read_scope ctx b of
             None \<Rightarrow> reply (missing_table ext) b w
           | Some st \<Rightarrow>
               (case batch_get_loop ext st request_items [] of
                  Inl r \<Rightarrow> reply r b w
                | Inr responses \<Rightarrow>
                    reply (json_ok ext (json_object [(''Responses'', JObject responses), (''UnprocessedKeys'', JObject [])]))
                      b w)))"

definition batch_write_one :: "Value \<Rightarrow> Table \<times> dyn_world \<Rightarrow> Table \<times> dyn_world" where
  "batch_write_one req tw =
     (case tw of (t, w) \<Rightarrow>
      case value_get req ''PutRequest'' of
        Some put \<Rightarrow>
          (case item_field put ''Item'' of
             Some item \<Rightarrow> (snd (put_item (now_of w) t item), tick 1 w)
           | None \<Rightarrow> (t, w))
      | None \<Rightarrow>
          (case value_get req ''DeleteRequest'' of
             Some del \<Rightarrow>
               (case item_field del ''Key'' of
                  Some key \<Rightarrow> (snd (delete_item (now_of w) t key), tick 1 w)
                | None \<Rightarrow> (t, w))
           | None \<Rightarrow> (t, w)))"

fun batch_write_loop ::
  "externs \<Rightarrow> (string \<times> Value) list \<Rightarrow> DynamoDbStore \<Rightarrow> dyn_world \<Rightarrow>
   DispatchResponse option \<times> DynamoDbStore \<times> dyn_world" where
  "batch_write_loop ext [] st w = (None, st, w)"
| "batch_write_loop ext ((table_name, requests) # rest) st w =
     (case as_array requests of
        None \<Rightarrow> batch_write_loop ext rest st w
      | Some reqs \<Rightarrow>
          (case get_table st table_name of
             None \<Rightarrow> (Some (table_not_found ext table_name), st, w)
           | Some t \<Rightarrow>
               (let (t, w) = fold batch_write_one reqs (t, w)
                in batch_write_loop ext rest (set_table st table_name t) w)))"

definition op_batch_write_item :: "externs \<Rightarrow> RequestContext \<Rightarrow> dyn_bundle \<Rightarrow> dyn_world \<Rightarrow> dyn_result" where
  "op_batch_write_item ext ctx b w =
     (case Option.bind (value_get (ctx_request_body ctx) ''RequestItems'') as_object of
        None \<Rightarrow> reply (required ext ''RequestItems'') b w
      | Some request_items \<Rightarrow>
          in_scope ctx (\<lambda>st w.
            let (err, st, w) = batch_write_loop ext request_items st w
            in Some (case err of
                       Some r \<Rightarrow> r
                     | None \<Rightarrow> json_ok ext (json_object [(''UnprocessedItems'', JObject [])]), st, w)) b w)"

section \<open>Transactions\<close>

definition transact_get_one :: "DynamoDbStore \<Rightarrow> Value \<Rightarrow> Value" where
  "transact_get_one st ti =
     (case value_get ti ''Get'' of
        None \<Rightarrow> JObject []
      | Some get \<Rightarrow>
          (case get_table st (case get_str get ''TableName'' of Some n \<Rightarrow> n | None \<Rightarrow> []) of
             None \<Rightarrow> JObject []
           | Some t \<Rightarrow>
               (case get_item t (item_or_default get ''Key'') of
                  None \<Rightarrow> JObject []
                | Some item \<Rightarrow>
                    json_object [(''Item'',
                      item_value (project_item item (get_str get ''ProjectionExpression'') (names_of get)))])))"

definition op_transact_get_items :: "externs \<Rightarrow> RequestContext \<Rightarrow> dyn_bundle \<Rightarrow> dyn_world \<Rightarrow> dyn_result" where
  "op_transact_get_items ext ctx b w =
     (case Option.bind (value_get (ctx_request_body ctx) ''TransactItems'') as_array of
        None \<Rightarrow> reply (required ext ''TransactItems'') b w
      | Some transact_items \<Rightarrow>
          (let responses = (case read_scope ctx b of
                              None \<Rightarrow> replicate (length transact_items) (JObject [])
                            | Some st \<Rightarrow> map (transact_get_one st) transact_items)
           in reply (json_ok ext (json_object [(''Responses'', JArray responses)])) b w))"

definition transact_op_names :: "string list" where
  "transact_op_names = [''Put'', ''Delete'', ''Update'', ''ConditionCheck'']"

definition transact_ops :: "Value list \<Rightarrow> Value list" where
  "transact_ops items = concat (map (\<lambda>ti. List.map_filter (value_get ti) transact_op_names) items)"

definition op_table_name :: "Value \<Rightarrow> string" where
  "op_table_name op = (case get_str op ''TableName'' of Some n \<Rightarrow> n | None \<Rightarrow> [])"

text \<open>The mutexes of the transaction, in the order in which they are taken.\<close>

definition transact_table_names :: "Value list \<Rightarrow> string list" where
  "transact_table_names items =
     sort (remdups (List.map_filter (\<lambda>op. get_str op ''TableName'') (transact_ops items)))"

definition op_key :: "Value \<Rightarrow> Item" where
  "op_key op =
     (case Option.bind (case value_get op ''Key'' of Some k \<Rightarrow> Some k | None \<Rightarrow> value_get op ''Item'') as_object of
        Some m \<Rightarrow> item_from_json_map m
      | None \<Rightarrow> [])"

fun transact_tables_exist :: "DynamoDbStore \<Rightarrow> Value list \<Rightarrow> string option" where
  "transact_tables_exist st [] = None"
| "transact_tables_exist st (op # ops) =
     (if get_table st (op_table_name op) = None then Some (op_table_name op) else transact_tables_exist st ops)"

text \<open>The first pass: whether every condition holds; a panic is \<^term>\<open>None\<close>.\<close>

fun transact_conditions :: "DynamoDbStore \<Rightarrow> Value list \<Rightarrow> bool option" where
  "transact_conditions st [] = Some True"
| "transact_conditions st (op # ops) =
     (case get_str op ''ConditionExpression'' of
        None \<Rightarrow> transact_conditions st ops
      | Some cond \<Rightarrow>
          (case get_table st (op_table_name op) of
             None \<Rightarrow> None
           | Some t \<Rightarrow>
               (case check_condition (get_item t (op_key op)) cond (names_of op) (values_of op) of
                  None \<Rightarrow> None
                | Some (Inl _) \<Rightarrow> Some False
                | Some (Inr _) \<Rightarrow> transact_conditions st ops)))"

text \<open>The second pass: one write; \<^term>\<open>None\<close> is a panic of the update expression.\<close>

definition transact_apply ::
  "'d decimal_lib \<Rightarrow> Value \<Rightarrow> DynamoDbStore \<times> dyn_world \<Rightarrow> (DynamoDbStore \<times> dyn_world) option" where
  "transact_apply lib ti sw =
     (case sw of (st, w) \<Rightarrow>
      case value_get ti ''Put'' of
        Some put \<Rightarrow>
          (case get_table st (op_table_name put) of
             Some t \<Rightarrow>
               Some (set_table st (op_table_name put) (snd (put_item (now_of w) t (item_or_default put ''Item''))), tick 1 w)
           | None \<Rightarrow> Some (st, w))
      | None \<Rightarrow>
     (case value_get ti ''Delete'' of
        Some del \<Rightarrow>
          (case get_table st (op_table_name del) of
             Some t \<Rightarrow>
               Some (set_table st (op_table_name del) (snd (delete_item (now_of w) t (item_or_default del ''Key''))), tick 1 w)
           | None \<Rightarrow> Some (st, w))
      | None \<Rightarrow>
     (case value_get ti ''Update'' of
        Some upd \<Rightarrow>
          (case get_table st (op_table_name upd) of
             Some t \<Rightarrow>
               (case extract_key_from_item t (item_or_default upd ''Key'') of
                  Some hs \<Rightarrow>
                    (case updated_item lib upd t hs (item_or_default upd ''Key'') of
                       None \<Rightarrow> None
                     | Some item \<Rightarrow>
                         Some (set_table st (op_table_name upd) (snd (put_item (now_of w) t item)), tick 1 w))
                | None \<Rightarrow> Some (st, w))
           | None \<Rightarrow> Some (st, w))
      | None \<Rightarrow> Some (st, w))))"

definition transact_write_in ::
  "'d decimal_lib \<Rightarrow> externs \<Rightarrow> Value list \<Rightarrow> DynamoDbStore \<Rightarrow> dyn_world \<Rightarrow> store_result" where
  "transact_write_in lib ext items st w =
     (case transact_tables_exist st (transact_ops items) of
        Some name \<Rightarrow>
          Some (json_error ext ''TransactionCanceledException''
                  (''Transaction cancelled: table '' @ name @ '' does not exist [ResourceNotFoundException]'') 400, st, w)
      | None \<Rightarrow>
          (case transact_conditions st (transact_ops items) of
             None \<Rightarrow> None
           | Some False \<Rightarrow>
               Some (json_error ext ''TransactionCanceledException''
                 ''Transaction cancelled, please refer cancellation reasons for specific reasons [ConditionalCheckFailed]''
                 400, st, w)
           | Some True \<Rightarrow>
               map_option (\<lambda>(st, w). (json_ok ext (JObject []), st, w))
                 (fold (\<lambda>ti r. Option.bind r (transact_apply lib ti)) items (Some (st, w)))))"

definition op_transact_write_items ::
  "'d decimal_lib \<Rightarrow> externs \<Rightarrow> RequestContext \<Rightarrow> dyn_bundle \<Rightarrow> dyn_world \<Rightarrow> dyn_result" where
  "op_transact_write_items lib ext ctx b w =
     (case Option.bind (value_get (ctx_request_body ctx) ''TransactItems'') as_array of
        None \<Rightarrow> reply (required ext ''TransactItems'') b w
      | Some transact_items \<Rightarrow> in_scope ctx (transact_write_in lib ext transact_items) b w)"

section \<open>Streams\<close>

definition stream_not_found :: "externs \<Rightarrow> DispatchResponse" where
  "stream_not_found ext = json_error ext ''ResourceNotFoundException'' ''Stream not found'' 400"

definition find_stream :: "RequestContext \<Rightarrow> dyn_bundle \<Rightarrow> string \<Rightarrow> Table option" where
  "find_stream ctx b stream_arn =
     Option.bind (read_scope ctx b) (\<lambda>st. find (\<lambda>t. t_stream_arn t = Some stream_arn) (hm_values (tables st)))"

definition op_describe_stream :: "externs \<Rightarrow> RequestContext \<Rightarrow> dyn_bundle \<Rightarrow> dyn_world \<Rightarrow> dyn_result" where
  "op_describe_stream ext ctx b w =
     (case get_str (ctx_request_body ctx) ''StreamArn'' of
        None \<Rightarrow> reply (required ext ''StreamArn'') b w
      | Some stream_arn \<Rightarrow>
          (case find_stream ctx b stream_arn of
             None \<Rightarrow> reply (stream_not_found ext) b w
           | Some t \<Rightarrow>
               reply (json_ok ext (json_object [(''StreamDescription'', json_object
                 [(''StreamArn'', JString stream_arn), (''StreamLabel'', JString (rsplit_first (CHR ''/'') stream_arn)),
                  (''StreamStatus'', JString ''ENABLED''),
                  (''StreamViewType'', json_opt_str (stream_view_type (t_stream_specification t))),
                  (''TableName'', JString (t_name t)),
                  (''Shards'', JArray [json_object [(''ShardId'', JString ''shardId-00000000001''),
                     (''SequenceNumberRange'', json_object
                        [(''StartingSequenceNumber'', JString ''00000000000000000001'')])]])])])) b w))"

definition op_list_streams :: "externs \<Rightarrow> RequestContext \<Rightarrow> dyn_bundle \<Rightarrow> dyn_world \<Rightarrow> dyn_result" where
  "op_list_streams ext ctx b w =
     (case read_scope ctx b of
        None \<Rightarrow> reply (json_ok ext (json_object [(''Streams'', JArray [])])) b w
      | Some st \<Rightarrow>
          (let name_ok = (\<lambda>t. case get_str (ctx_request_body ctx) ''TableName'' of Some n \<Rightarrow> t_name t = n | None \<Rightarrow> True);
               streams = List.map_filter (\<lambda>t. map_option (\<lambda>arn. json_object
                   [(''StreamArn'', JString arn), (''TableName'', JString (t_name t)),
                    (''StreamLabel'', JString (rsplit_first (CHR ''/'') arn))]) (t_stream_arn t))
                 (filter (\<lambda>t. stream_enabled (t_stream_specification t) \<and> name_ok t) (hm_values (tables st)))
           in reply (json_ok ext (json_object [(''Streams'', JArray streams)])) b w))"

definition shard_iterator_seq :: "Table \<Rightarrow> string \<Rightarrow> string option \<Rightarrow> u64" where
  "shard_iterator_seq t shard_iterator_type sequence_number =
     (if shard_iterator_type = ''TRIM_HORIZON'' then 0
      else if shard_iterator_type = ''LATEST'' then t_stream_sequence t
      else if shard_iterator_type = ''AT_SEQUENCE_NUMBER'' then or_zero (Option.bind sequence_number parse_seq)
      else if shard_iterator_type = ''AFTER_SEQUENCE_NUMBER''
      then or_zero (map_option (\<lambda>n. n + 1) (Option.bind sequence_number parse_seq))
      else 0)"

definition op_get_shard_iterator :: "externs \<Rightarrow> RequestContext \<Rightarrow> dyn_bundle \<Rightarrow> dyn_world \<Rightarrow> dyn_result" where
  "op_get_shard_iterator ext ctx b w =
     (let body = ctx_request_body ctx in
      case get_str body ''StreamArn'' of
        None \<Rightarrow> reply (required ext ''StreamArn'') b w
      | Some stream_arn \<Rightarrow>
          (case find_stream ctx b stream_arn of
             None \<Rightarrow> reply (stream_not_found ext) b w
           | Some t \<Rightarrow>
               (let ty = (case get_str body ''ShardIteratorType'' of Some s \<Rightarrow> s | None \<Rightarrow> ''TRIM_HORIZON'');
                    seq = shard_iterator_seq t ty (get_str body ''SequenceNumber'')
                in reply (json_ok ext (json_object
                     [(''ShardIterator'', JString (make_shard_iterator stream_arn seq))])) b w)))"

text \<open>The records a shard iterator selects, and the sequence number of the next iterator.\<close>

definition select_records :: "Table \<Rightarrow> u64 \<Rightarrow> nat \<Rightarrow> StreamRecord list" where
  "select_records t start_seq limit =
     take limit (filter (\<lambda>r. or_zero (parse_seq (sr_sequence_number r)) \<ge> start_seq) (t_stream_records t))"

definition next_sequence :: "u64 \<Rightarrow> StreamRecord list \<Rightarrow> u64" where
  "next_sequence start_seq records =
     (case records of
        [] \<Rightarrow> start_seq
      | _ \<Rightarrow> (case parse_seq (sr_sequence_number (last records)) of Some n \<Rightarrow> n + 1 | None \<Rightarrow> start_seq))"

definition record_json :: "RequestContext \<Rightarrow> Table \<Rightarrow> string \<Rightarrow> StreamRecord \<Rightarrow> Value" where
  "record_json ctx t uuid r =
     json_object [(''eventID'', JString uuid), (''eventName'', JString (sr_event_name r)),
       (''eventVersion'', JString ''1.1''), (''eventSource'', JString ''aws:dynamodb''),
       (''awsRegion'', JString (ctx_region ctx)),
       (''dynamodb'', json_object
          ([(''Keys'', item_value (sr_keys r)), (''SequenceNumber'', JString (sr_sequence_number r)),
            (''SizeBytes'', json_u64 100),
            (''StreamViewType'', json_opt_str (stream_view_type (t_stream_specification t))),
            (''ApproximateCreationDateTime'', json_seconds (sr_approximate_creation_date_time r))] @
           (case sr_new_image r of Some ni \<Rightarrow> [(''NewImage'', item_value ni)] | None \<Rightarrow> []) @
           (case sr_old_image r of Some oi \<Rightarrow> [(''OldImage'', item_value oi)] | None \<Rightarrow> [])))]"

definition op_get_records :: "externs \<Rightarrow> RequestContext \<Rightarrow> dyn_bundle \<Rightarrow> dyn_world \<Rightarrow> dyn_result" where
  "op_get_records ext ctx b w =
     (let body = ctx_request_body ctx in
      case get_str body ''ShardIterator'' of
        None \<Rightarrow> reply (required ext ''ShardIterator'') b w
      | Some shard_iterator \<Rightarrow>
          (case parse_shard_iterator shard_iterator of
             None \<Rightarrow> reply (json_error ext ''ValidationException'' ''Invalid ShardIterator'' 400) b w
           | Some (stream_arn, start_seq) \<Rightarrow>
               (case find_stream ctx b stream_arn of
                  None \<Rightarrow> reply (stream_not_found ext) b w
                | Some t \<Rightarrow>
                    (let limit = (case Option.bind (value_get body ''Limit'') as_u64 of Some n \<Rightarrow> unat n | None \<Rightarrow> 1000);
                         recs = select_records t start_seq limit;
                         records = map (\<lambda>(i, r). record_json ctx t (dw_uuid w (dw_reads w + i)) r) (enumerate 0 recs);
                         next_iterator = make_shard_iterator stream_arn (next_sequence start_seq recs)
                     in reply (json_ok ext (json_object
                          [(''Records'', JArray records), (''NextShardIterator'', JString next_iterator)]))
                          b (tick (length recs) w)))))"

section \<open>Dispatch\<close>

text \<open>Every arm answers with \<^verbatim>\<open>Ok\<close>; an unknown operation is answered with status 501.\<close>

definition dynamo_dispatch ::
  "'d decimal_lib \<Rightarrow> externs \<Rightarrow> RequestContext \<Rightarrow> dyn_bundle \<Rightarrow> dyn_world \<Rightarrow> dyn_result" where
  "dynamo_dispatch lib ext ctx b w =
     (let op = ctx_operation ctx in
      if op = ''CreateTable'' then op_create_table ext ctx b w
      else if op = ''DeleteTable'' then op_delete_table ext ctx b w
      else if op = ''DescribeTable'' then op_describe_table ext ctx b w
      else if op = ''ListTables'' then op_list_tables ext ctx b w
      else if op = ''UpdateTable'' then op_update_table ext ctx b w
      else if op = ''PutItem'' then op_put_item ext ctx b w
      else if op = ''GetItem'' then op_get_item ext ctx b w
      else if op = ''DeleteItem'' then op_delete_item ext ctx b w
      else if op = ''UpdateItem'' then op_update_item lib ext ctx b w
      else if op = ''Query'' then op_query ext ctx b w
      else if op = ''Scan'' then op_scan ext ctx b w
      else if op = ''BatchGetItem'' then op_batch_get_item ext ctx b w
      else if op = ''BatchWriteItem'' then op_batch_write_item ext ctx b w
      else if op = ''TransactGetItems'' then op_transact_get_items ext ctx b w
      else if op = ''TransactWriteItems'' then op_transact_write_items lib ext ctx b w
      else if op = ''DescribeStream'' then op_describe_stream ext ctx b w
      else if op = ''ListStreams'' then op_list_streams ext ctx b w
      else if op = ''GetShardIterator'' then op_get_shard_iterator ext ctx b w
      else if op = ''GetRecords'' then op_get_records ext ctx b w
      else reply (json_error ext ''NotImplementedException'' (''Operation not implemented: '' @ op) 501) b w)"

definition dynamo_storage_snapshot :: "(int \<Rightarrow> string) \<Rightarrow> dyn_bundle \<Rightarrow> Value" where
  "dynamo_storage_snapshot to_rfc3339 b =
     (let attr = (\<lambda>k v. json_object [(''key'', JString k), (''value'', JString v)]);
          ts = concat (map (\<lambda>(_, st). map (\<lambda>t. json_object
                 [(''id'', JString (t_arn t)), (''kind'', JString ''table''),
                  (''created_at'', JString (to_rfc3339 (t_created t))),
                  (''attributes'', JArray [attr ''name'' (t_name t), attr ''status'' (table_status_text (t_status t)),
                     attr ''item_count'' (nat_to_string (unat (t_item_count t))),
                     attr ''billing_mode'' (t_billing_mode t)])])
                 (hm_values (tables st))) (bundle_iter b))
      in json_object [(''kind'', JString ''dynamodb''), (''tables'', JArray ts)])"

end
