(* ===== verification/Dynamo_Index.thy ===== *)
theory Dynamo_Index
  imports Dynamo_Table
begin

text \<open>
  What a DynamoDB table guarantees: the materialized indexes agree with the items after every
  write, the item count is the number of items, the stream is bounded, reads return what was
  written, and a query on an index returns exactly the items a scan would select, in the order
  of the range key.
\<close>

section \<open>The invariant\<close>

text \<open>An item belongs to the bucket \<open>hv\<close> of an index.\<close>

definition indexed :: "MaterializedIndex \<Rightarrow> Item \<Rightarrow> string \<Rightarrow> bool" where
  "indexed idx item hv \<longleftrightarrow>
     Option.bind (hm_get item (mi_hash_key_name idx)) av_to_key_str = Some hv \<and>
     (case mi_range_key_name idx of Some rk \<Rightarrow> hm_get item rk \<noteq> None | None \<Rightarrow> True)"

definition bucket_of :: "MaterializedIndex \<Rightarrow> string \<Rightarrow> (string \<times> string) list" where
  "bucket_of idx hv = (case hm_get (mi_data idx) hv of Some b \<Rightarrow> b | None \<Rightarrow> [])"

definition index_consistent :: "(string \<times> string \<Rightarrow> Item option) \<Rightarrow> MaterializedIndex \<Rightarrow> bool" where
  "index_consistent L idx \<longleftrightarrow>
     (\<forall>hv. distinct (bucket_of idx hv)) \<and>
     (\<forall>hv hs. hs \<in> set (bucket_of idx hv) \<longleftrightarrow> (\<exists>item. L hs = Some item \<and> indexed idx item hv))"

text \<open>No attribute of the given names holds a Boolean.\<close>

definition plain_keys :: "string set \<Rightarrow> Item \<Rightarrow> bool" where
  "plain_keys K item \<longleftrightarrow> (\<forall>k \<in> K. \<forall>b. hm_get item k \<noteq> Some (AV_Bool b))"

definition num_items :: "Table \<Rightarrow> nat" where
  "num_items t = sum_list (map (\<lambda>p. length (snd p)) (t_items t))"

definition items_wf :: "Table \<Rightarrow> bool" where
  "items_wf t \<longleftrightarrow> hm_wf (t_items t) \<and> (\<forall>h p. hm_get (t_items t) h = Some p \<longrightarrow> bt_wf p)"

definition table_inv :: "string set \<Rightarrow> Table \<Rightarrow> bool" where
  "table_inv K t \<longleftrightarrow>
     items_wf t \<and>
     (\<forall>hs item. lookup_pair t hs = Some item \<longrightarrow> extract_key_from_item t item = Some hs \<and> plain_keys K item) \<and>
     unat (t_item_count t) = num_items t \<and>
     length (t_stream_records t) \<le> 1000 \<and>
     (\<forall>n idx. hm_get (t_index_data t) n = Some idx \<longrightarrow>
        mi_hash_key_name idx \<in> K \<and> index_consistent (lookup_pair t) idx)"

section \<open>Single operations on indexes\<close>

lemma key_str_ref: "\<forall>b. v \<noteq> AV_Bool b \<Longrightarrow> av_to_key_str_ref v = av_to_key_str v"
  by (cases v) auto

lemma bucket_of_insert: "bucket_of (idx\<lparr>mi_data := hm_insert hv b (mi_data idx)\<rparr>) hv' = (if hv' = hv then b else bucket_of idx hv')"
  by (simp add: bucket_of_def update_conv')

lemma bucket_of_remove: "bucket_of (idx\<lparr>mi_data := hm_remove hv (mi_data idx)\<rparr>) hv' = (if hv' = hv then [] else bucket_of idx hv')"
  by (simp add: bucket_of_def delete_conv')

lemma indexed_data [simp]: "indexed (idx\<lparr>mi_data := d\<rparr>) item hv = indexed idx item hv"
  by (simp add: indexed_def)

lemma index_ops_keys [simp]:
  "mi_hash_key_name (index_add idx item h s) = mi_hash_key_name idx"
  "mi_hash_key_name (index_remove idx item h s) = mi_hash_key_name idx"
  "mi_range_key_name (index_add idx item h s) = mi_range_key_name idx"
  "mi_range_key_name (index_remove idx item h s) = mi_range_key_name idx"
  by (simp_all add: index_add_def index_remove_def Let_def split: option.splits)

lemma bucket_add:
  "bucket_of (index_add idx item h s) hv =
     (if indexed idx item hv \<and> (h, s) \<notin> set (bucket_of idx hv) then bucket_of idx hv @ [(h, s)] else bucket_of idx hv)"
proof (cases "Option.bind (hm_get item (mi_hash_key_name idx)) av_to_key_str")
  case None
  then show ?thesis by (simp add: index_add_def indexed_def)
next
  case (Some hv')
  show ?thesis
  proof (cases "case mi_range_key_name idx of Some rk \<Rightarrow> hm_get item rk = None | None \<Rightarrow> False")
    case True
    then have "\<not> indexed idx item hv" by (auto simp: indexed_def split: option.splits)
    with Some True show ?thesis by (simp add: index_add_def)
  next
    case False
    then have ix: "indexed idx item v \<longleftrightarrow> v = hv'" for v
      using Some by (auto simp: indexed_def split: option.splits)
    have "index_add idx item h s = idx\<lparr>mi_data := hm_insert hv'
        (if (h, s) \<in> set (bucket_of idx hv') then bucket_of idx hv' else bucket_of idx hv' @ [(h, s)]) (mi_data idx)\<rparr>"
      using Some False by (auto simp: index_add_def bucket_of_def Let_def)
    then show ?thesis by (simp add: bucket_of_insert ix)
  qed
qed

lemma bucket_remove:
  assumes "\<forall>b. hm_get item (mi_hash_key_name idx) \<noteq> Some (AV_Bool b)"
  shows "bucket_of (index_remove idx item h s) hv =
     (if Option.bind (hm_get item (mi_hash_key_name idx)) av_to_key_str = Some hv
      then filter (\<lambda>p. p \<noteq> (h, s)) (bucket_of idx hv) else bucket_of idx hv)"
proof -
  have ref: "Option.bind (hm_get item (mi_hash_key_name idx)) av_to_key_str_ref =
      Option.bind (hm_get item (mi_hash_key_name idx)) av_to_key_str"
    using assms by (cases "hm_get item (mi_hash_key_name idx)") (auto simp: key_str_ref)
  have flt: "(\<lambda>(h', s'). h' = h \<longrightarrow> s' \<noteq> s) = (\<lambda>p. p \<noteq> (h, s))" by auto
  show ?thesis
  proof (cases "Option.bind (hm_get item (mi_hash_key_name idx)) av_to_key_str")
    case None
    then show ?thesis by (simp add: index_remove_def ref)
  next
    case (Some hv')
    show ?thesis
    proof (cases "hm_get (mi_data idx) hv'")
      case None
      with Some show ?thesis by (auto simp: index_remove_def ref bucket_of_def)
    next
      case b: (Some b)
      then have "index_remove idx item h s =
          (if filter (\<lambda>p. p \<noteq> (h, s)) b = [] then idx\<lparr>mi_data := hm_remove hv' (mi_data idx)\<rparr>
           else idx\<lparr>mi_data := hm_insert hv' (filter (\<lambda>p. p \<noteq> (h, s)) b) (mi_data idx)\<rparr>)"
        using Some by (simp add: index_remove_def ref flt Let_def)
      moreover have "bucket_of idx hv' = b" using b by (simp add: bucket_of_def)
      ultimately show ?thesis using Some by (auto simp: bucket_of_insert bucket_of_remove)
    qed
  qed
qed

lemma index_consistent_add:
  assumes "index_consistent L idx" "L (h, s) = None"
  shows "index_consistent (L((h, s) \<mapsto> item)) (index_add idx item h s)"
proof -
  have ix: "indexed (index_add idx item h s) it v = indexed idx it v" for it v by (simp add: indexed_def)
  have "(h, s) \<notin> set (bucket_of idx hv)" for hv using assms by (simp add: index_consistent_def)
  then show ?thesis
    using assms unfolding index_consistent_def ix bucket_add by (auto split: if_splits)
qed

lemma index_consistent_remove:
  assumes "index_consistent L idx" "L (h, s) = Some item"
    and "\<forall>b. hm_get item (mi_hash_key_name idx) \<noteq> Some (AV_Bool b)"
  shows "index_consistent (L((h, s) := None)) (index_remove idx item h s)"
proof -
  have ix: "indexed (index_remove idx item h s) it v = indexed idx it v" for it v by (simp add: indexed_def)
  have "(h, s) \<in> set (bucket_of idx hv) \<Longrightarrow> Option.bind (hm_get item (mi_hash_key_name idx)) av_to_key_str = Some hv" for hv
    using assms(1,2) by (auto simp: index_consistent_def indexed_def)
  then show ?thesis
    using assms(1,2) unfolding index_consistent_def ix bucket_remove [OF assms(3)]
    by (auto split: if_splits)
qed

lemma index_consistent_fresh: "mi_data idx = [] \<Longrightarrow> index_consistent (\<lambda>_. None) idx"
  by (simp add: index_consistent_def bucket_of_def)

section \<open>Lookup after writes\<close>

lemma lookup_part: "lookup_pair t (h, s) = bt_get (partition_of t h) s"
  by (simp add: lookup_pair_def partition_of_def split: option.splits)

lemma lookup_set_part:
  "lookup_pair (t\<lparr>t_items := hm_insert h p (t_items t)\<rparr>) (h', s) = (if h' = h then bt_get p s else lookup_pair t (h', s))"
  by (simp add: lookup_pair_def update_conv')

lemma partition_wf: "items_wf t \<Longrightarrow> bt_wf (partition_of t h)"
  by (simp add: items_wf_def partition_of_def split: option.splits)

lemma items_wf_frame: "t_items t' = t_items t \<Longrightarrow> items_wf t' = items_wf t"
  by (simp add: items_wf_def)

lemma items_wf_set: "items_wf t \<Longrightarrow> bt_wf p \<Longrightarrow> items_wf (t\<lparr>t_items := hm_insert h p (t_items t)\<rparr>)"
  by (auto simp: items_wf_def hm.wf_insert update_conv' split: if_splits)

lemma num_items_set:
  assumes "items_wf t"
  shows "num_items (t\<lparr>t_items := hm_insert h p (t_items t)\<rparr>) + length (partition_of t h) = num_items t + length p"
  using hm.sum_insert [of "t_items t" "\<lambda>p. length (snd p)" h p] assms
  by (simp add: num_items_def items_wf_def partition_of_def split: option.splits)

lemma stream_frame [simp]:
  "t_items (append_stream_record now t e k old new) = t_items t"
  "t_item_count (append_stream_record now t e k old new) = t_item_count t"
  "t_index_data (append_stream_record now t e k old new) = t_index_data t"
  "t_key_schema (append_stream_record now t e k old new) = t_key_schema t"
  "t_gsis (append_stream_record now t e k old new) = t_gsis t"
  "t_stream_specification (append_stream_record now t e k old new) = t_stream_specification t"
  by (simp_all add: append_stream_record_def Let_def)

lemma stream_bound: "length (t_stream_records t) \<le> 1000 \<Longrightarrow>
    length (t_stream_records (append_stream_record now t e k old new)) \<le> 1000"
  by (auto simp: append_stream_record_def Let_def)

text \<open>The parts of a table that an operation's key, lookup and count depend on.\<close>

lemma key_frame: "t_key_schema t' = t_key_schema t \<Longrightarrow> key_with f t' item = key_with f t item"
proof -
  assume "t_key_schema t' = t_key_schema t"
  then have k: "hash_key_name t' = hash_key_name t" "range_key_name t' = range_key_name t"
    by (simp_all add: hash_key_name_def range_key_name_def)
  show ?thesis unfolding key_with_def k ..
qed

lemma lookup_frame: "t_items t' = t_items t \<Longrightarrow> lookup_pair t' = lookup_pair t"
  by (simp add: lookup_pair_def fun_eq_iff)

lemma put_item_parts:
  assumes "put_item now t item = (old, t')" "extract_key_from_item t item = Some (h, s)"
  shows "old = lookup_pair t (h, s)"
    and "t_items t' = hm_insert h (bt_insert s item (partition_of t h)) (t_items t)"
    and "t_item_count t' = (if old = None then t_item_count t + 1 else t_item_count t)"
    and "t_index_data t' = map_values (\<lambda>idx. index_add idx item h s)
          (case old of Some o' \<Rightarrow> map_values (\<lambda>idx. index_remove idx o' h s) (t_index_data t) | None \<Rightarrow> t_index_data t)"
    and "t_key_schema t' = t_key_schema t"
    and "length (t_stream_records t) \<le> 1000 \<Longrightarrow> length (t_stream_records t') \<le> 1000"
    and "t_stream_specification t' = t_stream_specification t"
  using assms by (auto simp: put_item_def lookup_part Let_def intro!: stream_bound split: option.splits)

lemma delete_item_parts:
  assumes "delete_item now t key = (old, t')" "extract_key_from_item t key = Some (h, s)"
  shows "old = lookup_pair t (h, s)"
    and "t_items t' = (if hm_get (t_items t) h = None then t_items t
          else hm_insert h (bt_remove s (partition_of t h)) (t_items t))"
    and "t_item_count t' = (if old = None \<or> t_item_count t = 0 then t_item_count t else t_item_count t - 1)"
    and "t_index_data t' =
          (case old of Some o' \<Rightarrow> map_values (\<lambda>idx. index_remove idx o' h s) (t_index_data t) | None \<Rightarrow> t_index_data t)"
    and "t_key_schema t' = t_key_schema t"
    and "length (t_stream_records t) \<le> 1000 \<Longrightarrow> length (t_stream_records t') \<le> 1000"
  using assms by (auto simp: delete_item_def lookup_pair_def partition_of_def Let_def intro!: stream_bound split: option.splits)

lemma put_lookup:
  assumes "items_wf t" "put_item now t item = (old, t')" "extract_key_from_item t item = Some (h, s)"
  shows "lookup_pair t' = (lookup_pair t)((h, s) \<mapsto> item)" "items_wf t'"
    "num_items t' = (if old = None then num_items t + 1 else num_items t)"
proof -
  let ?p = "partition_of t h" and ?p' = "bt_insert s item (partition_of t h)"
  let ?t = "t\<lparr>t_items := hm_insert h ?p' (t_items t)\<rparr>"
  note parts = put_item_parts [OF assms(2,3)]
  have wf: "bt_wf ?p" by (rule partition_wf [OF assms(1)])
  have L: "lookup_pair t' = lookup_pair ?t" by (rule lookup_frame) (simp add: parts(2))
  show "lookup_pair t' = (lookup_pair t)((h, s) \<mapsto> item)"
  proof
    fix hs :: "string \<times> string"
    obtain h' s' where "hs = (h', s')" by (cases hs)
    then show "lookup_pair t' hs = ((lookup_pair t)((h, s) \<mapsto> item)) hs"
      using wf by (simp add: L lookup_set_part bt.get_insert lookup_part [of t])
  qed
  have "items_wf ?t" by (rule items_wf_set [OF assms(1) bt.wf_insert [OF wf]])
  then show "items_wf t'" by (simp add: items_wf_def parts(2))
  have "num_items t' = num_items ?t" by (simp add: num_items_def parts(2))
  then show "num_items t' = (if old = None then num_items t + 1 else num_items t)"
    using num_items_set [OF assms(1), of h ?p'] bt.length_insert [OF wf, of s item] parts(1)
    by (auto simp: lookup_part split: if_splits)
qed

lemma delete_lookup:
  assumes "items_wf t" "delete_item now t key = (old, t')" "extract_key_from_item t key = Some (h, s)"
  shows "lookup_pair t' = (lookup_pair t)((h, s) := None)" "items_wf t'"
    "num_items t' + (if old = None then 0 else 1) = num_items t"
proof -
  let ?p = "partition_of t h" and ?p' = "bt_remove s (partition_of t h)"
  let ?t = "if hm_get (t_items t) h = None then t else t\<lparr>t_items := hm_insert h ?p' (t_items t)\<rparr>"
  note parts = delete_item_parts [OF assms(2,3)]
  have wf: "bt_wf ?p" by (rule partition_wf [OF assms(1)])
  have L: "lookup_pair t' = lookup_pair ?t" by (rule lookup_frame) (simp add: parts(2))
  show "lookup_pair t' = (lookup_pair t)((h, s) := None)"
  proof
    fix hs :: "string \<times> string"
    obtain h' s' where "hs = (h', s')" by (cases hs)
    then show "lookup_pair t' hs = ((lookup_pair t)((h, s) := None)) hs"
      using wf by (auto simp: L lookup_set_part bt.get_remove lookup_part [of t] partition_of_def [of t])
  qed
  have "items_wf ?t" using items_wf_set [OF assms(1) bt.wf_remove [OF wf]] assms(1) by simp
  moreover have "t_items t' = t_items ?t" by (simp add: parts(2))
  ultimately show "items_wf t'" using items_wf_frame [of t' ?t] by blast
  have n: "num_items t' = num_items ?t" by (simp add: num_items_def parts(2))
  have "bt_get ?p s \<noteq> None \<Longrightarrow> Suc (length ?p') = length ?p"
    using bt.length_remove [OF wf, of s] by (cases ?p) auto
  moreover have "bt_get ?p s = None \<Longrightarrow> length ?p' = length ?p"
    using bt.length_remove [OF wf, of s] by simp
  ultimately show "num_items t' + (if old = None then 0 else 1) = num_items t"
    using num_items_set [OF assms(1), of h ?p'] parts(1)
    by (auto simp: n lookup_part [of t] partition_of_def [of t] split: if_splits option.splits)
qed

section \<open>The invariant is kept\<close>

lemma inv_lookup:
  assumes "table_inv K t" "lookup_pair t hs = Some item"
  shows "extract_key_from_item t item = Some hs" "plain_keys K item"
  using assms unfolding table_inv_def by blast+

lemma inv_index:
  assumes "table_inv K t" "hm_get (t_index_data t) n = Some idx"
  shows "mi_hash_key_name idx \<in> K" "index_consistent (lookup_pair t) idx"
  using assms unfolding table_inv_def by blast+

lemma extract_frame: "t_key_schema t' = t_key_schema t \<Longrightarrow> extract_key_from_item t' item = extract_key_from_item t item"
  unfolding extract_key_from_item_def by (rule key_frame)

lemma put_item_inv:
  assumes inv: "table_inv K t" and item: "plain_keys K item" and lt: "num_items t + 1 < 2 ^ 64"
    and put: "put_item now t item = (old, t')"
  shows "table_inv K t'"
proof (cases "extract_key_from_item t item")
  case None
  with put inv show ?thesis by (simp add: put_item_def)
next
  case (Some hs)
  obtain h s where key: "extract_key_from_item t item = Some (h, s)" using Some by (cases hs) auto
  have wf: "items_wf t" and cnt: "unat (t_item_count t) = num_items t" and str: "length (t_stream_records t) \<le> 1000"
    using inv by (simp_all add: table_inv_def)
  note parts = put_item_parts [OF put key] and lk = put_lookup [OF wf put key]
  have "unat (t_item_count t + 1) = num_items t + 1"
    using lt cnt by (subst unat_add_lem [THEN iffD1]) simp_all
  then have "unat (t_item_count t') = num_items t'" using cnt by (simp add: parts(3) lk(3))
  moreover have "mi_hash_key_name idx \<in> K \<and> index_consistent (lookup_pair t') idx"
    if at_n: "hm_get (t_index_data t') n = Some idx" for n idx
  proof -
    obtain i0 where i0: "hm_get (t_index_data t) n = Some i0" and idx: "idx = index_add
        (case old of Some o' \<Rightarrow> index_remove i0 o' h s | None \<Rightarrow> i0) item h s"
      using at_n parts(4) by (cases old) auto
    note ii = inv_index [OF inv i0]
    have "index_consistent ((lookup_pair t)((h, s) := None)) (case old of Some o' \<Rightarrow> index_remove i0 o' h s | None \<Rightarrow> i0)"
    proof (cases old)
      case None
      with ii(2) show ?thesis using parts(1) by (simp add: fun_upd_idem)
    next
      case (Some o')
      then have lo: "lookup_pair t (h, s) = Some o'" using parts(1) by simp
      have "\<forall>b. hm_get o' (mi_hash_key_name i0) \<noteq> Some (AV_Bool b)"
        using inv_lookup(2) [OF inv lo] ii(1) by (simp add: plain_keys_def)
      from index_consistent_remove [OF ii(2) lo this] show ?thesis using Some by simp
    qed
    from index_consistent_add [OF this, of h s item] show ?thesis
      using ii(1) by (simp add: idx lk(1) split: option.splits)
  qed
  moreover have "extract_key_from_item t' it = Some hs \<and> plain_keys K it" if "lookup_pair t' hs = Some it" for hs it
    using that inv_lookup [OF inv, of hs it] key item
    by (auto simp: lk(1) extract_frame [OF parts(5)] split: if_splits)
  ultimately show ?thesis using lk(2) parts(6) [OF str] unfolding table_inv_def by blast
qed

lemma delete_item_inv:
  assumes inv: "table_inv K t" and del: "delete_item now t key = (old, t')"
  shows "table_inv K t'"
proof (cases "extract_key_from_item t key")
  case None
  with del inv show ?thesis by (simp add: delete_item_def)
next
  case (Some hs)
  obtain h s where key: "extract_key_from_item t key = Some (h, s)" using Some by (cases hs) auto
  have wf: "items_wf t" and cnt: "unat (t_item_count t) = num_items t" and str: "length (t_stream_records t) \<le> 1000"
    using inv by (simp_all add: table_inv_def)
  note parts = delete_item_parts [OF del key] and lk = delete_lookup [OF wf del key]
  have "unat (t_item_count t - 1) = unat (t_item_count t) - 1" if "t_item_count t \<noteq> 0"
    using that by (simp add: unat_minus_one)
  then have "unat (t_item_count t') = num_items t'" using cnt lk(3) by (auto simp: parts(3) split: if_splits)
  moreover have "mi_hash_key_name idx \<in> K \<and> index_consistent (lookup_pair t') idx"
    if at_n: "hm_get (t_index_data t') n = Some idx" for n idx
  proof -
    obtain i0 where i0: "hm_get (t_index_data t) n = Some i0"
      and idx: "idx = (case old of Some o' \<Rightarrow> index_remove i0 o' h s | None \<Rightarrow> i0)"
      using at_n parts(4) by (cases old) auto
    note ii = inv_index [OF inv i0]
    show ?thesis
    proof (cases old)
      case None
      with ii idx show ?thesis using parts(1) by (simp add: lk(1) fun_upd_idem)
    next
      case (Some o')
      then have lo: "lookup_pair t (h, s) = Some o'" using parts(1) by simp
      have "\<forall>b. hm_get o' (mi_hash_key_name i0) \<noteq> Some (AV_Bool b)"
        using inv_lookup(2) [OF inv lo] ii(1) by (simp add: plain_keys_def)
      from index_consistent_remove [OF ii(2) lo this] show ?thesis using Some ii(1) idx by (simp add: lk(1))
    qed
  qed
  moreover have "extract_key_from_item t' it = Some hs \<and> plain_keys K it" if "lookup_pair t' hs = Some it" for hs it
    using that inv_lookup [OF inv, of hs it] by (auto simp: lk(1) extract_frame [OF parts(5)] split: if_splits)
  ultimately show ?thesis using lk(2) parts(6) [OF str] unfolding table_inv_def by blast
qed

section \<open>The entries of a table\<close>

definition part_entries :: "string \<times> (string, Item) btree_map \<Rightarrow> ((string \<times> string) \<times> Item) list" where
  "part_entries hp = map (\<lambda>(s, it). ((fst hp, s), it)) (snd hp)"

definition table_entries :: "Table \<Rightarrow> ((string \<times> string) \<times> Item) list" where
  "table_entries t = concat (map part_entries (t_items t))"

lemma map_of_part: "map_of (part_entries (h, p)) (h', s) = (if h' = h then map_of p s else None)"
  by (induction p) (auto simp: part_entries_def)

lemma map_of_entries_list:
  "distinct (map fst xs) \<Longrightarrow> map_of (concat (map part_entries xs)) (h, s) = Option.bind (map_of xs h) (\<lambda>p. map_of p s)"
proof (induction xs)
  case (Cons x xs)
  obtain h0 p0 where x: "x = (h0, p0)" by (cases x)
  have none: "map_of xs h0 = None" using Cons.prems x by (auto simp: map_of_eq_None_iff)
  show ?case using Cons none by (auto simp: x map_of_append map_add_def map_of_part split: option.splits)
qed simp

lemma lookup_entries: "items_wf t \<Longrightarrow> map_of (table_entries t) = lookup_pair t"
  by (auto simp: fun_eq_iff table_entries_def map_of_entries_list lookup_pair_def items_wf_def hm_wf_def)

lemma distinct_entries_list:
  "distinct (map fst xs) \<Longrightarrow> (\<forall>x \<in> set xs. distinct (map fst (snd x))) \<Longrightarrow>
   distinct (map fst (concat (map part_entries xs)))"
proof (induction xs)
  case (Cons x xs)
  have "distinct (map fst (part_entries x))"
    using Cons.prems by (simp add: part_entries_def comp_def case_prod_beta distinct_map inj_on_def)
  moreover have "fst ` set (part_entries x) \<inter> fst ` set (concat (map part_entries xs)) = {}"
  proof (rule ccontr)
    assume "fst ` set (part_entries x) \<inter> fst ` set (concat (map part_entries xs)) \<noteq> {}"
    then obtain k where k: "k \<in> fst ` set (part_entries x)" "k \<in> fst ` set (concat (map part_entries xs))" by blast
    have "fst ` set (concat (map part_entries xs)) = (\<Union>y \<in> set xs. fst ` set (part_entries y))" by (simp add: image_UN)
    with k obtain y where "k \<in> fst ` set (part_entries x)" "y \<in> set xs" "k \<in> fst ` set (part_entries y)" by blast
    then have "fst y = fst x" by (auto simp: part_entries_def)
    with \<open>y \<in> set xs\<close> Cons.prems(1) show False by (metis distinct.simps(2) image_eqI list.set_map list.simps(9))
  qed
  moreover have "distinct (map fst (concat (map part_entries xs)))" using Cons by simp
  ultimately show ?case by simp
qed simp

lemma distinct_table_entries: "items_wf t \<Longrightarrow> distinct (map fst (table_entries t))"
  unfolding table_entries_def
  by (rule distinct_entries_list) (auto simp: items_wf_def hm_wf_def intro: bt_wf_distinct)

lemma all_items_entries: "all_items t = map snd (table_entries t)"
  by (simp add: all_items_def table_entries_def hm_values_def part_entries_def map_concat comp_def case_prod_beta)

section \<open>Adding and removing indexes\<close>

lemma fold_nested:
  "fold (\<lambda>(h, p) idx. fold (\<lambda>(s, it) idx. index_add idx it h s) p idx) xs idx =
   fold (\<lambda>((h, s), it) idx. index_add idx it h s) (concat (map part_entries xs)) idx"
proof -
  have "fold (\<lambda>(s, it) idx. index_add idx it h s) p idx =
      fold (\<lambda>((h, s), it) idx. index_add idx it h s) (part_entries (h, p)) idx" for h p idx
    by (induction p arbitrary: idx) (auto simp: part_entries_def)
  then show ?thesis by (induction xs arbitrary: idx) auto
qed

lemma index_consistent_fold:
  assumes "index_consistent L idx" "distinct (map fst es)" "\<forall>e \<in> set es. L (fst e) = None"
  shows "index_consistent (L ++ map_of es) (fold (\<lambda>((h, s), it) idx. index_add idx it h s) es idx)"
  using assms
proof (induction es arbitrary: L idx)
  case (Cons e es)
  obtain h s it where e: "e = ((h, s), it)" by (cases e) auto
  have none: "map_of es (h, s) = None" using Cons.prems(2) e by (auto simp: map_of_eq_None_iff)
  have "index_consistent (L((h, s) \<mapsto> it)) (index_add idx it h s)"
    using Cons.prems e by (intro index_consistent_add) simp_all
  moreover have "\<forall>e \<in> set es. (L((h, s) \<mapsto> it)) (fst e) = None" using Cons.prems e by force
  moreover have "distinct (map fst es)" using Cons.prems(2) by simp
  ultimately have "index_consistent (L((h, s) \<mapsto> it) ++ map_of es)
      (fold (\<lambda>((h, s), it) idx. index_add idx it h s) es (index_add idx it h s))"
    by (intro Cons.IH)
  moreover have L: "L ++ map_of (e # es) = L((h, s) \<mapsto> it) ++ map_of es"
    using none by (auto simp: e map_add_def fun_eq_iff split: option.splits)
  ultimately show ?case unfolding L by (simp add: e)
qed simp

definition schema_hash :: "KeySchemaElement list \<Rightarrow> string" where
  "schema_hash schema = (case key_of_type HASH schema of Some n \<Rightarrow> n | None \<Rightarrow> [])"

lemma index_of_schema_fields [simp]:
  "mi_hash_key_name (index_of_schema schema) = schema_hash schema" "mi_data (index_of_schema schema) = []"
  "mi_range_key_name (index_of_schema schema) = key_of_type RANGE schema"
  by (simp_all add: index_of_schema_def MaterializedIndex_new_def schema_hash_def)

lemma fold_add_hash: "mi_hash_key_name (fold (\<lambda>((h, s), it) idx. index_add idx it h s) es idx) = mi_hash_key_name idx"
  by (induction es arbitrary: idx) auto

lemma add_gsi_inv:
  assumes inv: "table_inv K t" and k: "schema_hash (gsi_key_schema g) \<in> K"
  shows "table_inv K (add_gsi t g)"
proof -
  let ?idx = "fold (\<lambda>((h, s), it) idx. index_add idx it h s) (table_entries t) (index_of_schema (gsi_key_schema g))"
  have wf: "items_wf t" using inv by (simp add: table_inv_def)
  have t': "add_gsi t g = t\<lparr>t_index_data := hm_insert (gsi_index_name g) ?idx (t_index_data t), t_gsis := t_gsis t @ [g]\<rparr>"
    unfolding add_gsi_def Let_def fold_nested table_entries_def ..
  have "index_consistent (Map.empty ++ map_of (table_entries t)) ?idx"
    using distinct_table_entries [OF wf] by (intro index_consistent_fold index_consistent_fresh) simp_all
  then have ok: "index_consistent (lookup_pair t) ?idx" "mi_hash_key_name ?idx \<in> K"
    using lookup_entries [OF wf] distinct_table_entries [OF wf] k by (simp_all add: fold_add_hash)
  have frame: "lookup_pair (add_gsi t g) = lookup_pair t" "items_wf (add_gsi t g) = items_wf t"
    "num_items (add_gsi t g) = num_items t" "\<And>it. extract_key_from_item (add_gsi t g) it = extract_key_from_item t it"
    by (rule lookup_frame, simp add: t', rule items_wf_frame, simp add: t', simp add: t' num_items_def,
        rule extract_frame, simp add: t')
  show ?thesis
    unfolding table_inv_def frame using inv ok
    by (auto simp: table_inv_def t' update_conv' split: if_splits)
qed

lemma remove_gsi_inv: "table_inv K t \<Longrightarrow> table_inv K (remove_gsi t n)"
proof -
  assume inv: "table_inv K t"
  let ?t = "remove_gsi t n"
  have frame: "lookup_pair ?t = lookup_pair t" "items_wf ?t = items_wf t" "num_items ?t = num_items t"
    "\<And>it. extract_key_from_item ?t it = extract_key_from_item t it"
    by (rule lookup_frame, simp add: remove_gsi_def, rule items_wf_frame, simp add: remove_gsi_def,
        simp add: remove_gsi_def num_items_def, rule extract_frame, simp add: remove_gsi_def)
  show ?thesis unfolding table_inv_def frame using inv
    by (auto simp: table_inv_def remove_gsi_def delete_conv' split: if_splits)
qed

lemma fold_index_inv:
  assumes "\<forall>x \<in> set xs. schema_hash (sch x) \<in> K"
    and "\<forall>n idx. hm_get d n = Some idx \<longrightarrow> mi_hash_key_name idx \<in> K \<and> mi_data idx = []"
  shows "\<forall>n idx. hm_get (fold (\<lambda>x. hm_insert (nm x) (index_of_schema (sch x))) xs d) n = Some idx \<longrightarrow>
    mi_hash_key_name idx \<in> K \<and> mi_data idx = []"
  using assms
proof (induction xs arbitrary: d)
  case (Cons x xs)
  let ?d = "hm_insert (nm x) (index_of_schema (sch x)) d"
  have d: "\<forall>n idx. hm_get ?d n = Some idx \<longrightarrow> mi_hash_key_name idx \<in> K \<and> mi_data idx = []"
  proof (intro allI impI)
    fix n idx
    assume "hm_get ?d n = Some idx"
    then have "idx = index_of_schema (sch x) \<or> hm_get d n = Some idx"
      by (auto simp: update_conv' split: if_splits)
    then show "mi_hash_key_name idx \<in> K \<and> mi_data idx = []" using Cons.prems by auto
  qed
  have xs: "\<forall>x \<in> set xs. schema_hash (sch x) \<in> K" using Cons.prems(1) by simp
  show ?case using Cons.IH [OF xs d] unfolding fold.simps comp_apply .
qed simp

lemma Table_new_inv:
  assumes "\<forall>g \<in> set gsis. schema_hash (gsi_key_schema g) \<in> K" "\<forall>l \<in> set lsis. schema_hash (lsi_key_schema l) \<in> K"
  shows "table_inv K (Table_new tid n1 n2 name acc reg ks ads gsis lsis ss)"
proof -
  let ?t = "Table_new tid n1 n2 name acc reg ks ads gsis lsis ss"
  have "mi_hash_key_name idx \<in> K \<and> mi_data idx = []" if "hm_get (t_index_data ?t) n = Some idx" for n idx
    using that fold_index_inv [OF assms(2) fold_index_inv [OF assms(1), of "[]" gsi_index_name], of lsi_index_name]
    by (simp add: Table_new_def Let_def)
  moreover have "lookup_pair ?t = Map.empty" by (simp add: fun_eq_iff lookup_pair_def Table_new_def Let_def)
  ultimately show ?thesis
    unfolding table_inv_def using index_consistent_fresh
    by (simp add: Table_new_def Let_def items_wf_def num_items_def)
qed

lemma num_items_new: "num_items (Table_new tid n1 n2 name acc reg ks ads gsis lsis ss) = 0"
  by (simp add: Table_new_def Let_def num_items_def)

section \<open>Runs of writes\<close>

datatype table_op = Put int Item | Del int Item | AddGsi GlobalSecondaryIndex | RemoveGsi string

fun run_table_op :: "table_op \<Rightarrow> Table \<Rightarrow> Table" where
  "run_table_op (Put now item) t = snd (put_item now t item)"
| "run_table_op (Del now key) t = snd (delete_item now t key)"
| "run_table_op (AddGsi g) t = add_gsi t g"
| "run_table_op (RemoveGsi n) t = remove_gsi t n"

fun op_ok :: "string set \<Rightarrow> table_op \<Rightarrow> bool" where
  "op_ok K (Put now item) = plain_keys K item"
| "op_ok K (AddGsi g) = (schema_hash (gsi_key_schema g) \<in> K)"
| "op_ok K _ = True"

lemma num_items_op:
  assumes "items_wf t"
  shows "num_items (run_table_op op t) \<le> num_items t + 1"
proof (cases op)
  case (Put now item)
  obtain old t' where p: "put_item now t item = (old, t')" by fastforce
  show ?thesis
  proof (cases "extract_key_from_item t item")
    case (Some hs)
    then show ?thesis using put_lookup(3) [OF assms p] Put p by (cases hs) (auto split: if_splits)
  qed (use Put p in \<open>auto simp: put_item_def\<close>)
next
  case (Del now key)
  obtain old t' where d: "delete_item now t key = (old, t')" by fastforce
  show ?thesis
  proof (cases "extract_key_from_item t key")
    case (Some hs)
    then show ?thesis using delete_lookup(3) [OF assms d] Del d by (cases hs) (auto split: if_splits)
  qed (use Del d in \<open>auto simp: delete_item_def\<close>)
qed (simp_all add: add_gsi_def remove_gsi_def num_items_def Let_def)

lemma table_op_inv:
  assumes "table_inv K t" "op_ok K op" "num_items t + 1 < 2 ^ 64"
  shows "table_inv K (run_table_op op t)"
proof (cases op)
  case (Put now item)
  with assms(2) have "plain_keys K item" by simp
  from put_item_inv [OF assms(1) this assms(3) prod.collapse [symmetric]] Put show ?thesis by simp
next
  case (Del now key)
  with delete_item_inv [OF assms(1) prod.collapse [symmetric]] show ?thesis by simp
qed (use assms in \<open>auto intro: add_gsi_inv remove_gsi_inv\<close>)

lemma table_ops_inv:
  assumes "table_inv K t" "\<forall>op \<in> set ops. op_ok K op" "num_items t + length ops < 2 ^ 64"
  shows "table_inv K (fold run_table_op ops t)"
  using assms
proof (induction ops arbitrary: t)
  case (Cons op ops)
  have wf: "items_wf t" using Cons.prems(1) by (simp add: table_inv_def)
  have inv: "table_inv K (run_table_op op t)"
    by (rule table_op_inv) (use Cons.prems in auto)
  show ?case using Cons.IH [OF inv] num_items_op [OF wf, of op] Cons.prems by simp
qed simp


section \<open>Reads after writes\<close>

lemma get_item_lookup: "get_item t key = Option.bind (extract_key_ref_from_item t key) (lookup_pair t)"
  by (simp add: get_item_def lookup_pair_def split: option.splits)

text \<open>A read returns the last item written under its key, other keys are unaffected, a put and a
  deletion return what was there before, and a deleted item is not read again.\<close>

theorem put_get_delete:
  assumes "table_inv K t" and "extract_key_from_item t item = Some hs"
    and "put_item now t item = (old, t')"
    and "extract_key_from_item t dkey = Some hs'" and "delete_item now' t' dkey = (old', t'')"
    and "extract_key_ref_from_item t key = Some hk"
  shows "get_item t' key = (if hk = hs then Some item else get_item t key) \<and>
    old = lookup_pair t hs \<and> old' = (if hs' = hs then Some item else lookup_pair t hs') \<and>
    get_item t'' key = (if hk = hs' then None else get_item t' key)"
proof -
  obtain h s h' s' where hs: "hs = (h, s)" "hs' = (h', s')" by (metis surj_pair)
  have wf: "items_wf t" using assms(1) by (simp add: table_inv_def)
  note p = put_item_parts [OF assms(3) assms(2) [unfolded hs]] and l = put_lookup [OF wf assms(3) assms(2) [unfolded hs]]
  have d: "extract_key_from_item t' dkey = Some (h', s')" using extract_frame [OF p(5)] assms(4) hs by simp
  note p' = delete_item_parts [OF assms(5) d] and l' = delete_lookup [OF l(2) assms(5) d]
  have k: "extract_key_ref_from_item t' key = Some hk" "extract_key_ref_from_item t'' key = Some hk"
    using assms(6) key_frame [OF p(5)] key_frame [OF p'(5)] by (simp_all add: extract_key_ref_from_item_def)
  show ?thesis
    using p(1) p'(1) by (simp add: get_item_lookup k assms(6) l(1) l'(1) hs)
qed

section \<open>Queries\<close>

lemma mset_sort_items [simp]: "mset (sort_items rk fwd items) = mset items"
  by (simp add: sort_items_def split: option.splits)

lemma map_filter_all: "(\<And>x. x \<in> set xs \<Longrightarrow> f x = Some (g x)) \<Longrightarrow> List.map_filter f xs = map g xs"
  by (induction xs) (auto simp: map_filter_simps)

lemma bucket_items:
  assumes "table_inv K t" "hm_get (t_index_data t) n = Some idx"
  shows "mset (List.map_filter (lookup_pair t) (bucket_of idx hv)) = mset (filter (\<lambda>it. indexed idx it hv) (all_items t))"
proof -
  let ?b = "bucket_of idx hv" and ?g = "\<lambda>hs. the (lookup_pair t hs)"
  let ?es = "filter (\<lambda>e. indexed idx (snd e) hv) (table_entries t)"
  have wf: "items_wf t" using assms(1) by (simp add: table_inv_def)
  have c: "distinct ?b" "\<And>hs. hs \<in> set ?b \<longleftrightarrow> (\<exists>it. lookup_pair t hs = Some it \<and> indexed idx it hv)"
    using inv_index(2) [OF assms] by (auto simp: index_consistent_def)
  have ent: "(hs, it) \<in> set (table_entries t) \<longleftrightarrow> lookup_pair t hs = Some it" for hs it
    using distinct_table_entries [OF wf] lookup_entries [OF wf] by (metis map_of_eq_Some_iff)
  have d: "distinct (map fst ?es)" using distinct_table_entries [OF wf] by (rule distinct_map_filter)
  have "set ?b = set (map fst ?es)"
  proof (intro set_eqI)
    fix hs
    show "hs \<in> set ?b \<longleftrightarrow> hs \<in> set (map fst ?es)" using ent c(2) [of hs] by (cases hs) (auto simp: image_iff)
  qed
  then have b: "mset ?b = mset (map fst ?es)" by (rule iffD1 [OF set_eq_iff_mset_eq_distinct [OF c(1) d]])
  have "mset (List.map_filter (lookup_pair t) ?b) = mset (map ?g ?b)"
    using c(2) by (subst map_filter_all [where g = ?g]) auto
  also have "\<dots> = image_mset ?g (mset (map fst ?es))" by (simp add: b)
  also have "\<dots> = mset (map (\<lambda>e. ?g (fst e)) ?es)" by (simp add: multiset.map_comp comp_def)
  also have "map (\<lambda>e. ?g (fst e)) ?es = map snd ?es" using ent by (intro map_cong) auto
  also have "map snd ?es = filter (\<lambda>it. indexed idx it hv) (all_items t)"
    by (simp add: all_items_entries filter_map comp_def case_prod_beta)
  finally show ?thesis .
qed


subsection \<open>Order\<close>

definition dec_key :: "nat \<Rightarrow> string \<Rightarrow> int" where
  "dec_key n s = (if starts_with s ''-'' then - 2 * int (dec_scaled n (drop 1 s)) - 1 else 2 * int (dec_scaled n s))"

lemma cmp_numeric_key: "is_decimal n a \<Longrightarrow> is_decimal n b \<Longrightarrow> cmp_numeric_str a b = cmp (dec_key n a) (dec_key n b)"
  by (auto simp: cmp_numeric_str_def is_decimal_def dec_key_def cmp_magnitude_value cmp_def Let_def)

lemma dec_key_mono: "dec_key n a \<le> dec_key n b \<Longrightarrow> dec_int n a \<le> dec_int n b"
  by (auto simp: dec_key_def dec_int_def split: if_splits)

definition sort_key :: "string \<Rightarrow> Item \<Rightarrow> SortKeyValue option" where
  "sort_key rk item = Option.bind (hm_get item rk) av_sort_key"

definition string_of :: "string \<Rightarrow> Item \<Rightarrow> string" where
  "string_of rk item = (case sort_key rk item of Some (SK_S s) \<Rightarrow> s | Some (SK_N s) \<Rightarrow> s | None \<Rightarrow> [])"

definition string_keyed :: "string \<Rightarrow> Item set" where
  "string_keyed rk = {item. sort_key rk item = Some (SK_S (string_of rk item))}"

definition number_keyed :: "nat \<Rightarrow> string \<Rightarrow> Item set" where
  "number_keyed n rk = {item. sort_key rk item = Some (SK_N (string_of rk item)) \<and> is_decimal n (string_of rk item)}"

lemma item_cmp_string:
  "a \<in> string_keyed rk \<Longrightarrow> b \<in> string_keyed rk \<Longrightarrow>
   item_cmp rk fwd a b = (if fwd then cmp (string_of rk a) (string_of rk b) else cmp (string_of rk b) (string_of rk a))"
  by (simp add: item_cmp_def string_keyed_def sort_key_def reverse_cmp)

lemma item_cmp_number:
  "a \<in> number_keyed n rk \<Longrightarrow> b \<in> number_keyed n rk \<Longrightarrow>
   item_cmp rk fwd a b = (if fwd then cmp (dec_key n (string_of rk a)) (dec_key n (string_of rk b))
     else cmp (dec_key n (string_of rk b)) (dec_key n (string_of rk a)))"
  by (auto simp: item_cmp_def number_keyed_def sort_key_def reverse_cmp cmp_numeric_key [of n])

lemma total_by_key:
  assumes "\<And>x y. x \<in> A \<Longrightarrow> y \<in> A \<Longrightarrow> c x y = (if fwd then cmp (f x) (f y) else cmp (f y) (f x))"
  shows "total_comparator c A"
  using assms by unfold_locales (auto simp: reverse_cmp not_less)

interpretation str_order: total_comparator "item_cmp rk fwd" "string_keyed rk" for rk fwd
  by (rule total_by_key [where fwd = fwd and f = "string_of rk"]) (rule item_cmp_string)

interpretation num_order: total_comparator "item_cmp rk fwd" "number_keyed n rk" for rk fwd n
  by (rule total_by_key [where fwd = fwd and f = "\<lambda>it. dec_key n (string_of rk it)"]) (rule item_cmp_number)

lemma sorted_wrt_keys:
  assumes "sorted_wrt (\<lambda>a b. c a b \<noteq> Greater) xs" "set xs \<subseteq> A"
    and "\<And>x y. x \<in> A \<Longrightarrow> y \<in> A \<Longrightarrow> c x y \<noteq> Greater \<Longrightarrow> P x y"
  shows "sorted_wrt P xs"
  using assms by (induction xs) auto

definition query_range_key :: "Table \<Rightarrow> string option \<Rightarrow> string option" where
  "query_range_key t index_name =
     (case index_name of
        Some n \<Rightarrow> (case hm_get (t_index_data t) n of Some idx \<Rightarrow> mi_range_key_name idx | None \<Rightarrow> index_range_key t n)
      | None \<Rightarrow> range_key_name t)"

lemma query_sorted_by:
  assumes "query_range_key t index_name = Some rk"
  shows "\<exists>items. query t hv rc index_name fwd = sort_by (item_cmp rk fwd) items \<or> query t hv rc index_name fwd = []"
  using assms by (auto simp: query_def query_index_def query_scan_def query_table_def query_range_key_def
      sort_items_def Let_def split: option.splits)

text \<open>The result of a query on a table or an index with a range key is in ascending or descending
  order of that key, as requested, when the keys are all strings or all decimal numbers.\<close>

theorem query_sorted:
  assumes "query_range_key t index_name = Some rk"
  shows "(set (query t hv rc index_name fwd) \<subseteq> string_keyed rk \<longrightarrow>
      (if fwd then sorted (map (string_of rk) (query t hv rc index_name fwd))
       else sorted (rev (map (string_of rk) (query t hv rc index_name fwd))))) \<and>
    (set (query t hv rc index_name fwd) \<subseteq> number_keyed n rk \<longrightarrow>
      (if fwd then sorted (map (\<lambda>it. dec_int n (string_of rk it)) (query t hv rc index_name fwd))
       else sorted (rev (map (\<lambda>it. dec_int n (string_of rk it)) (query t hv rc index_name fwd)))))"
proof -
  obtain items where q: "query t hv rc index_name fwd = sort_by (item_cmp rk fwd) items \<or> query t hv rc index_name fwd = []"
    using query_sorted_by [OF assms] by blast
  show ?thesis
  proof (cases "query t hv rc index_name fwd = []")
    case False
    with q have q: "query t hv rc index_name fwd = sort_by (item_cmp rk fwd) items" by simp
    have S: "sorted_wrt (\<lambda>a b. if fwd then string_of rk a \<le> string_of rk b else string_of rk b \<le> string_of rk a) (sort_by (item_cmp rk fwd) items)"
      if A: "set items \<subseteq> string_keyed rk"
      by (rule sorted_wrt_keys [OF str_order.sort_by_sorted [OF A]]) (use A in \<open>auto simp: item_cmp_string not_less\<close>)
    have N: "sorted_wrt (\<lambda>a b. if fwd then dec_int n (string_of rk a) \<le> dec_int n (string_of rk b)
        else dec_int n (string_of rk b) \<le> dec_int n (string_of rk a)) (sort_by (item_cmp rk fwd) items)"
      if A: "set items \<subseteq> number_keyed n rk"
      by (rule sorted_wrt_keys [OF num_order.sort_by_sorted [OF A]])
         (use A in \<open>auto simp: item_cmp_number not_less intro!: dec_key_mono\<close>)
    show ?thesis unfolding q set_sort_by using S N by (auto simp: sorted_wrt_map sorted_wrt_rev rev_map [symmetric])
  next
    case True
    show ?thesis unfolding True by simp
  qed
qed

section \<open>Booleans as keys\<close>

definition bool_table :: Table where
  "bool_table = Table_new [] 0 0 ''t'' ''000000000000'' ''us-east-1''
     [\<lparr>ks_attribute_name = ''k'', ks_key_type = HASH\<rparr>] [] [] [] \<lparr>stream_enabled = False, stream_view_type = None\<rparr>"

text \<open>An item whose key is a Boolean is stored, a second put finds it, but a read of the same key does
  not: the two key functions differ on Booleans.\<close>

theorem bool_key_not_readable:
  "fst (put_item 0 (snd (put_item 0 bool_table [(''k'', AV_Bool True)])) [(''k'', AV_Bool True)]) = Some [(''k'', AV_Bool True)] \<and>
   get_item (snd (put_item 0 bool_table [(''k'', AV_Bool True)])) [(''k'', AV_Bool True)] = None"
  by code_simp

definition flag_gsi :: GlobalSecondaryIndex where
  "flag_gsi = \<lparr>gsi_index_name = ''by_flag'', gsi_key_schema = [\<lparr>ks_attribute_name = ''flag'', ks_key_type = HASH\<rparr>],
     gsi_projection = \<lparr>projection_type = ''ALL'', non_key_attributes = []\<rparr>, gsi_item_count = 0\<rparr>"

definition flag_table :: Table where
  "flag_table = Table_new [] 0 0 ''t'' ''000000000000'' ''us-east-1''
     [\<lparr>ks_attribute_name = ''k'', ks_key_type = HASH\<rparr>] [] [flag_gsi] [] \<lparr>stream_enabled = False, stream_view_type = None\<rparr>"

text \<open>An index on a Boolean attribute keeps the entry of a replaced item, so a query for the old value
  returns the new item, which does not have it.\<close>

theorem bool_index_entry_stale:
  "query (fold run_table_op [Put 0 [(''k'', AV_S ''1''), (''flag'', AV_Bool True)],
      Put 0 [(''k'', AV_S ''1''), (''flag'', AV_S ''x'')]] flag_table) ''true'' None (Some ''by_flag'') True =
   [[(''k'', AV_S ''1''), (''flag'', AV_S ''x'')]]"
  by code_simp

section \<open>Concrete tables\<close>

definition demo_gsi :: GlobalSecondaryIndex where
  "demo_gsi = \<lparr>gsi_index_name = ''by_owner'',
     gsi_key_schema = [\<lparr>ks_attribute_name = ''owner'', ks_key_type = HASH\<rparr>, \<lparr>ks_attribute_name = ''score'', ks_key_type = RANGE\<rparr>],
     gsi_projection = \<lparr>projection_type = ''ALL'', non_key_attributes = []\<rparr>, gsi_item_count = 0\<rparr>"

definition demo_item :: "string \<Rightarrow> string \<Rightarrow> string \<Rightarrow> Item" where
  "demo_item k owner score = [(''k'', AV_S k), (''owner'', AV_S owner), (''score'', AV_N score)]"

definition demo_table_ops :: "table_op list" where
  "demo_table_ops = [Put 0 (demo_item ''1'' ''ann'' ''10''), Put 0 (demo_item ''2'' ''ann'' ''9''),
     Put 0 (demo_item ''1'' ''bob'' ''7''), Del 0 (demo_item ''3'' [] [])]"

definition demo_table :: Table where
  "demo_table = fold run_table_op demo_table_ops (Table_new ''id'' 0 0 ''t'' ''000000000000'' ''us-east-1''
     [\<lparr>ks_attribute_name = ''k'', ks_key_type = HASH\<rparr>] [] [demo_gsi] [] \<lparr>stream_enabled = True, stream_view_type = None\<rparr>)"

lemma demo_hyps:
  "\<forall>g \<in> set [demo_gsi]. schema_hash (gsi_key_schema g) \<in> {''owner''}"
  "\<forall>l \<in> set []. schema_hash (lsi_key_schema l) \<in> {''owner''}"
  "\<forall>op \<in> set demo_table_ops. op_ok {''owner''} op" "length demo_table_ops < 2 ^ 64"
  by (auto simp: demo_gsi_def schema_hash_def key_of_type_def demo_table_ops_def demo_item_def plain_keys_def)

lemma demo_inv: "table_inv {''owner''} demo_table"
  unfolding demo_table_def
  by (rule table_ops_inv [OF Table_new_inv [OF demo_hyps(1,2)] demo_hyps(3)]) (simp add: num_items_new demo_table_ops_def)


theorem put_get_delete_witness:
  "get_item (snd (put_item 0 demo_table (demo_item ''4'' ''eve'' ''1''))) [(''k'', AV_S ''4'')] = Some (demo_item ''4'' ''eve'' ''1'')"
proof -
  have k: "extract_key_from_item demo_table (demo_item ''4'' ''eve'' ''1'') = Some (''4'', [])"
    "extract_key_from_item demo_table [(''k'', AV_S ''1'')] = Some (''1'', [])"
    "extract_key_ref_from_item demo_table [(''k'', AV_S ''4'')] = Some (''4'', [])" by code_simp+
  from put_get_delete [OF demo_inv k(1) prod.collapse [symmetric] k(2) prod.collapse [symmetric] k(3), of 0 0]
  show ?thesis by simp
qed


theorem query_sorted_witness:
  "sorted (map (\<lambda>it. dec_int 0 (string_of ''score'' it)) (query demo_table ''ann'' None (Some ''by_owner'') True))"
proof -
  have r: "query_range_key demo_table (Some ''by_owner'') = Some ''score''" by code_simp
  have "query demo_table ''ann'' None (Some ''by_owner'') True = [demo_item ''2'' ''ann'' ''9'']" by code_simp
  moreover have "demo_item ''2'' ''ann'' ''9'' \<in> number_keyed 0 ''score''"
  proof -
    have "string_of ''score'' (demo_item ''2'' ''ann'' ''9'') = ''9''" "is_decimal 0 ''9''" by code_simp+
    then show ?thesis by (simp add: number_keyed_def sort_key_def demo_item_def)
  qed
  ultimately show ?thesis using query_sorted [OF r, of "''ann''" None True 0] by simp
qed

end
