(* ===== verification/Dynamo_Filter.thy ===== *)
theory Dynamo_Filter
  imports Dynamo_Expr
begin

text \<open>
  What filter and condition expressions of the DynamoDB service mean. The texts of conjunctions of
  disjunctions of literals are printed from an abstract syntax; the evaluator, which works on the
  text alone, agrees with the meaning of that syntax. It is total on ASCII text and panics on
  text that is not; its precedence of the connectives is the reverse of DynamoDB's.
\<close>

section \<open>Scanning for a connective\<close>

definition ascii :: "string \<Rightarrow> bool" where
  "ascii s \<longleftrightarrow> list_all (\<lambda>c. (of_char c :: nat) < 128) s"

lemma ascii_simps [simp]:
  "ascii []" "ascii (c # s) \<longleftrightarrow> (of_char c :: nat) < 128 \<and> ascii s" "ascii (s @ t) \<longleftrightarrow> ascii s \<and> ascii t"
  by (simp_all add: ascii_def)

lemma ascii_take_drop: "ascii s \<Longrightarrow> ascii (take n s)" "ascii s \<Longrightarrow> ascii (drop n s)"
  using ascii_simps(3) [of "take n s" "drop n s"] by simp_all

lemma ascii_boundary: "ascii s \<Longrightarrow> i \<le> length s \<Longrightarrow> is_char_boundary s i"
  by (auto simp: ascii_def list_all_length is_char_boundary_def is_cont_byte_def not_le)

lemma ascii_slice: "ascii s \<Longrightarrow> i \<le> j \<Longrightarrow> j \<le> length s \<Longrightarrow> str_slice s i j = Some (take (j - i) (drop i s))"
  by (simp add: str_slice_def ascii_boundary)

text \<open>An offset into the remaining text, seen from an earlier position.\<close>

definition shift :: "nat \<Rightarrow> nat option \<Rightarrow> nat option" where
  "shift n r = (case r of None \<Rightarrow> None | Some i \<Rightarrow> Some (n + i))"

lemma shift_simps [simp]:
  "shift n None = None" "shift n (Some i) = Some (n + i)" "shift 0 r = r"
  "shift m (shift n r) = shift (m + n) r" "shift n r = None \<longleftrightarrow> r = None"
  by (simp_all add: shift_def split: option.splits)

lemma map_Suc_shift: "map_option Suc r = shift 1 r"
  by (cases r) simp_all

lemma starts_with_Cons:
  "starts_with (c # s) (d # p) \<longleftrightarrow> c = d \<and> starts_with s p" "\<not> starts_with [] (d # p)"
  by (auto simp: starts_with_def)

text \<open>The search on the remaining text, without indices and without panics.\<close>

fun scan :: "string \<Rightarrow> int \<Rightarrow> string \<Rightarrow> nat option" where
  "scan kw d [] = None"
| "scan kw d (c # s) =
     (if paren_depth c d = 0 \<and> starts_with (c # s) kw then Some 0
      else shift 1 (scan kw (paren_depth c d) s))"

lemma find_top_level_loop_scan:
  "ascii expr \<Longrightarrow> n \<le> length expr \<Longrightarrow>
   find_top_level_loop expr kw d [n..<length expr] = Some (shift n (scan kw d (drop n expr)))"
proof (induction "length expr - n" arbitrary: n d)
  case 0
  then show ?case by simp
next
  case (Suc m)
  then have n: "n < length expr" by simp
  then have upt: "[n..<length expr] = n # [Suc n..<length expr]" by (rule upt_conv_Cons)
  have dr: "drop n expr = expr ! n # drop (Suc n) expr" using n by (rule Cons_nth_drop_Suc [symmetric])
  let ?d = "paren_depth (expr ! n) d"
  have rest: "find_top_level_loop expr kw ?d [Suc n..<length expr] =
      Some (shift n (shift 1 (scan kw ?d (drop (Suc n) expr))))"
    using Suc.hyps(1) [of "Suc n" ?d] Suc.hyps(2) Suc.prems n by simp
  have hit: "starts_with (drop n expr) kw \<longleftrightarrow> n + length kw \<le> length expr \<and> take (length kw) (drop n expr) = kw"
    unfolding starts_with_def using n by (metis diff_diff_left diff_is_0_eq length_drop length_take min.absorb_iff2 min_def nat_le_linear le_diff_conv2 add.commute less_imp_le)
  have slice: "str_slice expr n (n + length kw) = Some (take (length kw) (drop n expr))"
    if "n + length kw \<le> length expr" using ascii_slice [OF Suc.prems(1) _ that] by simp
  show ?case
    unfolding upt find_top_level_loop.simps Let_def rest
    using slice hit by (auto simp: dr)
qed

lemma find_top_level_scan: "ascii expr \<Longrightarrow> find_top_level expr kw = Some (scan kw 0 expr)"
  using find_top_level_loop_scan [of expr 0 kw 0] by (simp add: find_top_level_def)

text \<open>What the search passes over. A connective starts with a space.\<close>

lemma scan_word:
  "list_all (\<lambda>c. c \<noteq> CHR '' '' \<and> c \<noteq> CHR ''('' \<and> c \<noteq> CHR '')'') u \<Longrightarrow>
   scan (CHR '' '' # k) d (u @ r) = shift (length u) (scan (CHR '' '' # k) d r)"
  by (induction u) (auto simp: paren_depth_def starts_with_def)

lemma scan_space:
  "\<not> starts_with s k \<Longrightarrow> scan (CHR '' '' # k) d (CHR '' '' # s) = shift 1 (scan (CHR '' '' # k) d s)"
  by (auto simp: paren_depth_def starts_with_def)

lemma scan_inside:
  "list_all (\<lambda>c. c \<noteq> CHR ''('' \<and> c \<noteq> CHR '')'') u \<Longrightarrow>
   scan kw 1 (u @ r) = shift (length u) (scan kw 1 r)"
  by (induction u) (auto simp: paren_depth_def)

lemma scan_parens:
  "list_all (\<lambda>c. c \<noteq> CHR ''('' \<and> c \<noteq> CHR '')'') u \<Longrightarrow>
   scan (CHR '' '' # k) 0 (CHR ''('' # u @ CHR '')'' # r) =
     shift (length u + 2) (scan (CHR '' '' # k) 0 r)"
  by (auto simp: paren_depth_def starts_with_def scan_inside)

lemma scan_hit: "scan (CHR '' '' # k) 0 (CHR '' '' # k @ r) = Some 0"
  by (simp add: paren_depth_def starts_with_def)

section \<open>The meaning of a filter\<close>

datatype cmp_op = Op_ne | Op_le | Op_ge | Op_lt | Op_gt | Op_eq

fun op_text :: "cmp_op \<Rightarrow> string" where
  "op_text Op_ne = ''<>''" | "op_text Op_le = ''<=''" | "op_text Op_ge = ''>=''"
| "op_text Op_lt = ''<''" | "op_text Op_gt = ''>''" | "op_text Op_eq = ''=''"

fun op_holds :: "cmp_op \<Rightarrow> ordering option \<Rightarrow> bool" where
  "op_holds Op_ne r \<longleftrightarrow> r \<noteq> Some Equal"
| "op_holds Op_le r \<longleftrightarrow> r \<in> {Some Less, Some Equal}"
| "op_holds Op_ge r \<longleftrightarrow> r \<in> {Some Greater, Some Equal}"
| "op_holds Op_lt r \<longleftrightarrow> r = Some Less"
| "op_holds Op_gt r \<longleftrightarrow> r = Some Greater"
| "op_holds Op_eq r \<longleftrightarrow> r = Some Equal"

datatype atom =
    A_cmp string cmp_op string
  | A_exists string
  | A_not_exists string
  | A_begins_with string string
  | A_contains string string

fun atom_text :: "atom \<Rightarrow> string" where
  "atom_text (A_cmp n op v) = n @ '' '' @ op_text op @ '' '' @ v"
| "atom_text (A_exists n) = ''attribute_exists('' @ n @ '')''"
| "atom_text (A_not_exists n) = ''attribute_not_exists('' @ n @ '')''"
| "atom_text (A_begins_with n v) = ''begins_with('' @ n @ '', '' @ v @ '')''"
| "atom_text (A_contains n v) = ''contains('' @ n @ '', '' @ v @ '')''"

text \<open>
  The value of an attribute, through its placeholder when there is one; a literal is a number of
  negations and an atom; a filter is a list of clauses, each a list of literals.
\<close>

definition attr_of :: "Item \<Rightarrow> (string, string) hash_map \<Rightarrow> string \<Rightarrow> AttributeValue option" where
  "attr_of item names n = map_of item (case map_of names n of Some m \<Rightarrow> m | None \<Rightarrow> n)"

definition val_or_null :: "AttributeValue option \<Rightarrow> AttributeValue" where
  "val_or_null v = (case v of Some x \<Rightarrow> x | None \<Rightarrow> AV_Null)"

fun atom_holds ::
  "Item \<Rightarrow> (string, string) hash_map \<Rightarrow> (string, AttributeValue) hash_map \<Rightarrow> atom \<Rightarrow> bool" where
  "atom_holds item names vals (A_cmp n op v) =
     op_holds op (av_compare (val_or_null (attr_of item names n)) (val_or_null (map_of vals v)))"
| "atom_holds item names vals (A_exists n) \<longleftrightarrow> attr_of item names n \<noteq> None"
| "atom_holds item names vals (A_not_exists n) \<longleftrightarrow> attr_of item names n = None"
| "atom_holds item names vals (A_begins_with n v) \<longleftrightarrow>
     (\<exists>x. attr_of item names n = Some x \<and>
        starts_with (string_or_empty x) (string_or_empty (val_or_null (map_of vals v))))"
| "atom_holds item names vals (A_contains n v) \<longleftrightarrow>
     (\<exists>x. attr_of item names n = Some x \<and>
        str_contains (string_or_empty x) (string_or_empty (val_or_null (map_of vals v))))"

type_synonym literal = "nat \<times> atom"

fun literal_text :: "literal \<Rightarrow> string" where
  "literal_text (k, a) = concat (replicate k ''NOT '') @ atom_text a"

definition clause_text :: "literal list \<Rightarrow> string" where
  "clause_text ls = join '' OR '' (map literal_text ls)"

definition filter_text :: "literal list list \<Rightarrow> string" where
  "filter_text cs = join '' AND '' (map clause_text cs)"

fun literal_holds ::
  "Item \<Rightarrow> (string, string) hash_map \<Rightarrow> (string, AttributeValue) hash_map \<Rightarrow> literal \<Rightarrow> bool" where
  "literal_holds item names vals (k, a) = (if even k then atom_holds item names vals a else \<not> atom_holds item names vals a)"

definition word_char :: "char \<Rightarrow> bool" where
  "word_char c \<longleftrightarrow>
     (let n = (of_char c :: nat)
      in (48 \<le> n \<and> n \<le> 57) \<or> (65 \<le> n \<and> n \<le> 90) \<or> (97 \<le> n \<and> n \<le> 122) \<or>
         c \<in> {CHR ''_'', CHR ''#'', CHR '':'', CHR ''.'', CHR ''-''})"

definition name_ok :: "string \<Rightarrow> bool" where
  "name_ok n \<longleftrightarrow> n \<noteq> [] \<and> list_all word_char n \<and> n \<notin> {''AND'', ''OR'', ''NOT''}"

definition ref_ok :: "string \<Rightarrow> bool" where
  "ref_ok v \<longleftrightarrow> v \<noteq> [] \<and> hd v = CHR '':'' \<and> list_all word_char v"

fun atom_ok :: "atom \<Rightarrow> bool" where
  "atom_ok (A_cmp n _ v) \<longleftrightarrow> name_ok n \<and> ref_ok v"
| "atom_ok (A_exists n) \<longleftrightarrow> name_ok n"
| "atom_ok (A_not_exists n) \<longleftrightarrow> name_ok n"
| "atom_ok (A_begins_with n v) \<longleftrightarrow> name_ok n \<and> ref_ok v"
| "atom_ok (A_contains n v) \<longleftrightarrow> name_ok n \<and> ref_ok v"

definition filter_ok :: "literal list list \<Rightarrow> bool" where
  "filter_ok cs \<longleftrightarrow> cs \<noteq> [] \<and> list_all (\<lambda>ls. ls \<noteq> [] \<and> list_all (\<lambda>l. atom_ok (snd l)) ls) cs"

subsection \<open>Words\<close>

lemma word_charD:
  "word_char c \<Longrightarrow> (of_char c :: nat) < 128 \<and> \<not> is_whitespace c \<and> c \<noteq> CHR '' '' \<and> c \<noteq> CHR ''('' \<and> c \<noteq> CHR '')'' \<and>
     c \<noteq> CHR '','' \<and> c \<noteq> CHR ''<'' \<and> c \<noteq> CHR ''>'' \<and> c \<noteq> CHR ''=''"
  by (auto simp: word_char_def is_whitespace_def Let_def)

lemma words_all:
  assumes "list_all word_char s"
  shows "ascii s" "list_all (\<lambda>c. c \<noteq> CHR '' '' \<and> c \<noteq> CHR ''('' \<and> c \<noteq> CHR '')'') s"
    "list_all (\<lambda>c. c \<noteq> CHR ''('' \<and> c \<noteq> CHR '')'') s"
    "CHR '','' \<notin> set s" "CHR '' '' \<notin> set s" "CHR ''<'' \<notin> set s" "CHR ''>'' \<notin> set s" "CHR ''='' \<notin> set s"
  using assms word_charD by (fastforce simp: ascii_def list_all_iff)+

lemma ref_word: "ref_ok v \<Longrightarrow> v \<noteq> [] \<and> list_all word_char v"
  by (auto simp: ref_ok_def word_char_def)

lemma name_word: "name_ok n \<Longrightarrow> n \<noteq> [] \<and> list_all word_char n"
  by (simp add: name_ok_def)

lemma trim_word: "list_all word_char s \<Longrightarrow> trim s = s"
proof (rule trim_id)
  assume "list_all word_char s"
  then show "s = [] \<or> \<not> is_whitespace (hd s) \<and> \<not> is_whitespace (last s)"
    using word_charD by (cases "s = []") (auto simp: list_all_iff)
qed

definition clean :: "string \<Rightarrow> bool" where
  "clean s \<longleftrightarrow> s \<noteq> [] \<and> \<not> is_whitespace (hd s) \<and> \<not> is_whitespace (last s)"

lemma clean_trim: "clean s \<Longrightarrow> trim s = s"
  by (rule trim_id) (simp add: clean_def)

lemma clean_append: "clean s \<Longrightarrow> clean t \<Longrightarrow> clean (s @ m @ t)"
  by (simp add: clean_def)

lemma clean_word: "s \<noteq> [] \<Longrightarrow> list_all word_char s \<Longrightarrow> clean s"
  using word_charD by (auto simp: clean_def list_all_iff)

lemma clean_join: "ts \<noteq> [] \<Longrightarrow> list_all clean ts \<Longrightarrow> clean (join sep ts)"
  by (induction sep ts rule: join.induct) (auto intro: clean_append)

subsection \<open>What the texts look like\<close>

lemma no_keyword:
  assumes "atom_ok a" "w \<in> {''AND'', ''OR'', ''NOT''}"
  shows "\<not> starts_with (atom_text a @ r) (w @ '' '')"
proof (cases a)
  case (A_cmp n op v)
  show ?thesis
  proof
    assume "starts_with (atom_text a @ r) (w @ '' '')"
    then obtain x where "atom_text a @ r = (w @ '' '') @ x" using starts_withE by blast
    then have "n @ CHR '' '' # (op_text op @ '' '' @ v @ r) = w @ CHR '' '' # x" using A_cmp by simp
    then have "n = w"
      using assms A_cmp words_all(5) [of n] name_word [of n] by (auto dest: sep_inject)
    then show False using assms A_cmp by (auto simp: name_ok_def)
  qed
qed (use assms in \<open>auto simp: starts_with_def\<close>)

lemma literal_no_keyword:
  assumes "atom_ok (snd l)" "w \<in> {''AND'', ''OR''}"
  shows "\<not> starts_with (literal_text l @ r) (w @ '' '')"
proof -
  obtain k a where l: "l = (k, a)" by (cases l)
  show ?thesis
  proof (cases k)
    case 0
    then show ?thesis using no_keyword [of a w r] assms l by auto
  next
    case (Suc j)
    then show ?thesis using assms l by (auto simp: starts_with_def)
  qed
qed

lemma op_text_skip: "\<not> starts_with (op_text op @ r) ''AND ''" "\<not> starts_with (op_text op @ r) ''OR ''"
  "list_all (\<lambda>c. c \<noteq> CHR '' '' \<and> c \<noteq> CHR ''('' \<and> c \<noteq> CHR '')'') (op_text op)"
  by (cases op; simp add: starts_with_def)+

lemma scan_call:
  assumes "list_all (\<lambda>c. c \<noteq> CHR '' '' \<and> c \<noteq> CHR ''('' \<and> c \<noteq> CHR '')'') f"
    "list_all (\<lambda>c. c \<noteq> CHR ''('' \<and> c \<noteq> CHR '')'') u"
  shows "scan (CHR '' '' # k) 0 (f @ CHR ''('' # u @ CHR '')'' # r) =
    shift (length f + (length u + 2)) (scan (CHR '' '' # k) 0 r)"
  using scan_word [OF assms(1), of k 0 "CHR ''('' # u @ CHR '')'' # r"] scan_parens [OF assms(2), of k r] by simp

lemma scan_atom:
  assumes a: "atom_ok a" and k: "k \<in> {''AND '', ''OR ''}"
  shows "scan (CHR '' '' # k) 0 (atom_text a @ r) = shift (length (atom_text a)) (scan (CHR '' '' # k) 0 r)"
proof (cases a)
  case (A_cmp n op v)
  then have n: "list_all word_char n" and v: "list_all word_char v" and rv: "ref_ok v"
    using a name_word ref_word by auto
  have hv: "\<not> starts_with (v @ r) k"
    using rv k by (cases v) (auto simp: ref_ok_def starts_with_Cons)
  have o: "\<not> starts_with (op_text op @ CHR '' '' # v @ r) k" using k op_text_skip by auto
  have "scan (CHR '' '' # k) 0 (n @ CHR '' '' # op_text op @ CHR '' '' # v @ r) =
      shift (length n + (1 + (length (op_text op) + (1 + length v)))) (scan (CHR '' '' # k) 0 r)"
    by (simp only: scan_word [OF words_all(2) [OF n]] scan_space [OF o] scan_word [OF op_text_skip(3)]
        scan_space [OF hv] scan_word [OF words_all(2) [OF v]] shift_simps)
  then show ?thesis using A_cmp by (simp add: add.assoc)
next
  case (A_exists n)
  then have "list_all (\<lambda>c. c \<noteq> CHR ''('' \<and> c \<noteq> CHR '')'') n" using a name_word words_all(3) by auto
  from scan_call [of "''attribute_exists''", OF _ this, of k r] A_exists show ?thesis by (simp add: add.commute)
next
  case (A_not_exists n)
  then have "list_all (\<lambda>c. c \<noteq> CHR ''('' \<and> c \<noteq> CHR '')'') n" using a name_word words_all(3) by auto
  from scan_call [of "''attribute_not_exists''", OF _ this, of k r] A_not_exists show ?thesis by (simp add: add.commute)
next
  case (A_begins_with n v)
  then have "list_all (\<lambda>c. c \<noteq> CHR ''('' \<and> c \<noteq> CHR '')'') (n @ '', '' @ v)"
    using a name_word ref_word words_all(3) by auto
  from scan_call [of "''begins_with''", OF _ this, of k r] A_begins_with show ?thesis by (simp add: add.commute)
next
  case (A_contains n v)
  then have "list_all (\<lambda>c. c \<noteq> CHR ''('' \<and> c \<noteq> CHR '')'') (n @ '', '' @ v)"
    using a name_word ref_word words_all(3) by auto
  from scan_call [of "''contains''", OF _ this, of k r] A_contains show ?thesis by (simp add: add.commute)
qed

lemma scan_literal:
  assumes "atom_ok (snd l)" "k \<in> {''AND '', ''OR ''}"
  shows "scan (CHR '' '' # k) 0 (literal_text l @ r) = shift (length (literal_text l)) (scan (CHR '' '' # k) 0 r)"
proof -
  obtain n a where l: "l = (n, a)" by (cases l)
  obtain w where w: "w \<in> {''AND'', ''OR''}" "k = w @ '' ''"
    using assms(2) by (metis append.simps insert_iff singletonD)
  have "scan (CHR '' '' # k) 0 (literal_text (n, a) @ r) = shift (length (literal_text (n, a))) (scan (CHR '' '' # k) 0 r)"
  proof (induction n)
    case 0
    then show ?case using scan_atom [of a k r] assms l by simp
  next
    case (Suc n)
    have "\<not> starts_with (literal_text (n, a) @ r) k" using literal_no_keyword [of "(n, a)" w r] assms l w by simp
    then have "scan (CHR '' '' # k) 0 (CHR '' '' # literal_text (n, a) @ r) =
        shift 1 (scan (CHR '' '' # k) 0 (literal_text (n, a) @ r))" by (rule scan_space)
    moreover have "scan (CHR '' '' # k) 0 (''NOT'' @ CHR '' '' # literal_text (n, a) @ r) =
        shift (length ''NOT'') (scan (CHR '' '' # k) 0 (CHR '' '' # literal_text (n, a) @ r))"
      by (rule scan_word) simp
    ultimately have "scan (CHR '' '' # k) 0 (''NOT'' @ CHR '' '' # literal_text (n, a) @ r) =
        shift (length ''NOT'' + 1) (scan (CHR '' '' # k) 0 (literal_text (n, a) @ r))"
      by (simp only: shift_simps)
    then show ?case unfolding Suc by (simp del: scan.simps)
  qed
  then show ?thesis using l by simp
qed

lemma scan_or: "\<not> starts_with s ''AND '' \<Longrightarrow> scan '' AND '' 0 ('' OR '' @ s) = shift 4 (scan '' AND '' 0 s)"
  by (auto simp: paren_depth_def starts_with_def eval_nat_numeral)

lemma scan_clause:
  "ls \<noteq> [] \<Longrightarrow> list_all (\<lambda>l. atom_ok (snd l)) ls \<Longrightarrow>
   scan '' AND '' 0 (clause_text ls @ r) = shift (length (clause_text ls)) (scan '' AND '' 0 r)"
proof (induction ls rule: induct_list012)
  case (2 l)
  then show ?case using scan_literal [of l "''AND ''" r] by (simp add: clause_text_def)
next
  case (3 l l' ls)
  let ?t = "clause_text (l' # ls)"
  have IH: "scan '' AND '' 0 (?t @ r) = shift (length ?t) (scan '' AND '' 0 r)" using 3 by simp
  have "\<exists>r'. ?t @ r = literal_text l' @ r'" by (cases ls) (auto simp: clause_text_def)
  then have ns: "\<not> starts_with (?t @ r) ''AND ''" using literal_no_keyword [of l' "''AND''"] 3 by auto
  have "scan '' AND '' 0 (literal_text l @ '' OR '' @ ?t @ r) =
      shift (length (literal_text l)) (shift 4 (scan '' AND '' 0 (?t @ r)))"
    using scan_literal [of l "''AND ''"] 3 scan_or [OF ns] by simp
  then show ?case using IH by (simp add: clause_text_def eval_nat_numeral)
qed simp

lemma ascii_op: "ascii (op_text op)" by (cases op) simp_all

lemma atom_ascii: "atom_ok a \<Longrightarrow> ascii (atom_text a)"
  by (cases a) (auto simp: ascii_op dest!: name_word ref_word intro: words_all(1))

lemma atom_clean: "atom_ok a \<Longrightarrow> clean (atom_text a)"
  using clean_append [OF clean_word clean_word]
  by (cases a) (auto simp: clean_def is_whitespace_def dest!: name_word ref_word)

lemma ascii_nots: "ascii (concat (replicate n ''NOT ''))"
  by (induction n) simp_all

lemma literal_ascii: "atom_ok (snd l) \<Longrightarrow> ascii (literal_text l)"
proof (cases l)
  case (Pair n a)
  then show "atom_ok (snd l) \<Longrightarrow> ascii (literal_text l)" using ascii_nots [of n] by (simp add: atom_ascii)
qed

lemma literal_clean: "atom_ok (snd l) \<Longrightarrow> clean (literal_text l)"
proof (cases l)
  case (Pair n a)
  then show "atom_ok (snd l) \<Longrightarrow> clean (literal_text l)"
    using atom_clean [of a] by (cases n) (auto simp: clean_def is_whitespace_def)
qed

lemma join_ascii: "ascii sep \<Longrightarrow> list_all ascii ts \<Longrightarrow> ascii (join sep ts)"
  by (induction sep ts rule: join.induct) auto

subsection \<open>Evaluation\<close>

lemma ends_with_char: "ends_with s [c] \<longleftrightarrow> s \<noteq> [] \<and> last s = c"
  by (cases s rule: rev_cases) (auto simp: ends_with_def)

lemma trim_spaces:
  assumes "list_all word_char s"
  shows "trim (s @ '' '') = s" "trim (CHR '' '' # s) = s"
proof -
  have d: "dropWhile is_whitespace (t @ '' '') = t @ (if t = [] then [] else '' '')"
    if "list_all word_char t" for t
    using that word_charD by (cases t) (auto simp: is_whitespace_def)
  have r: "list_all word_char (rev s)" using assms by (simp add: list_all_iff)
  have e: "dropWhile is_whitespace s = s" "dropWhile is_whitespace (rev s) = rev s"
    using assms r word_charD by (cases s; cases "rev s"; auto)+
  show "trim (s @ '' '') = s"
    using e by (cases "s = []") (simp_all add: trim_def trim_start_def trim_end_def d [OF assms] is_whitespace_def)
  show "trim (CHR '' '' # s) = s"
    using e by (simp add: trim_def trim_start_def trim_end_def is_whitespace_def)
qed

lemma str_find_skip:
  "x \<notin> set u \<Longrightarrow> str_find (u @ s) (x # p) = shift (length u) (str_find s (x # p))"
  by (induction u) (auto simp: starts_with_Cons map_Suc_shift)

lemma str_find_none: "x \<notin> set u \<Longrightarrow> str_find u (x # p) = None"
  using str_find_skip [of x u "[]" p] by simp

lemma call_inner_simps:
  "call_inner f (f @ u @ '')'') = Some u"
  "\<not> ends_with s '')'' \<Longrightarrow> call_inner f s = None"
  "\<not> starts_with s f \<Longrightarrow> call_inner f s = None"
  by (auto simp: call_inner_def ends_with_char)

lemma resolve_item_value_eq: "resolve_item_value item n names = val_or_null (attr_of item names n)"
  by (simp add: resolve_item_value_def resolve_name_def attr_of_def val_or_null_def Let_def)

lemma resolve_value_eq: "resolve_value v vals = val_or_null (map_of vals v)"
  by (simp add: resolve_value_def val_or_null_def)

lemma comparison_holds_op: "comparison_holds (op_text op) r = op_holds op r"
  by (cases op) (auto simp: comparison_holds_def)

lemma evaluate_comparison_op:
  assumes "list_all word_char n" "list_all word_char v"
  shows "evaluate_comparison item (n @ '' '' @ op_text op @ '' '' @ v) names vals comparison_ops =
    op_holds op (av_compare (resolve_item_value item n names) (resolve_value v vals))"
proof -
  note w = words_all(6-8) [OF assms(1)] words_all(6-8) [OF assms(2)]
  have hit: "(let lhs = trim (take (length n + 1) e); rhs = trim (drop (length n + 1 + length (op_text op)) e)
      in comparison_holds (op_text op) (av_compare (resolve_item_value item lhs names) (resolve_value rhs vals))) =
      op_holds op (av_compare (resolve_item_value item n names) (resolve_value v vals))"
    if "e = n @ '' '' @ op_text op @ '' '' @ v" for e
    using trim_spaces(1) [OF assms(1)] trim_spaces(2) [OF assms(2)]
    by (simp add: that Let_def comparison_holds_op)
  have find: "str_find (n @ CHR '' '' # t) (x # p) = shift (length n + 1) (str_find t (x # p))"
    if "x \<in> {CHR ''<'', CHR ''>'', CHR ''=''}" for x p t
    using that w str_find_skip [of x "n @ '' ''" t p] by auto
  show ?thesis
    unfolding comparison_ops_def
    by (cases op) (use hit [OF refl] w in \<open>simp_all add: find str_find_none starts_with_Cons map_Suc_shift Let_def\<close>)
qed

lemma splitn_pair:
  "list_all word_char n \<Longrightarrow> splitn 2 (CHR '','') (n @ '', '' @ v) = [n, CHR '' '' # v]"
  using words_all(4) [of n] split_once_sep [of "CHR '',''" n "CHR '' '' # v"] by (simp add: numeral_2_eq_2)

lemma evaluate_call_eq:
  assumes "list_all word_char n" "list_all word_char v"
  shows "evaluate_call test item (n @ '', '' @ v) names vals \<longleftrightarrow>
    (\<exists>x. attr_of item names n = Some x \<and> test (string_or_empty x) (string_or_empty (val_or_null (map_of vals v))))"
  unfolding evaluate_call_def splitn_pair [OF assms(1)]
  using trim_word [OF assms(1)] trim_spaces(2) [OF assms(2)]
  by (auto simp: Let_def resolve_value_eq attr_of_def resolve_name_def split: option.splits)

lemma evaluate_atom_eq:
  assumes "atom_ok a"
  shows "evaluate_atom item (atom_text a) names vals = atom_holds item names vals a"
proof (cases a)
  case (A_cmp n op v)
  then have n: "list_all word_char n" and v: "v \<noteq> []" "list_all word_char v"
    using assms name_word ref_word by auto
  then have "\<not> ends_with (atom_text a) '')''"
    using A_cmp word_charD by (auto simp: ends_with_char list_all_iff)
  then show ?thesis
    using A_cmp evaluate_comparison_op [OF n v(2), of item op names vals]
    by (simp add: evaluate_atom_def call_inner_simps resolve_item_value_eq resolve_value_eq del: append.simps)
next
  case (A_exists n)
  then show ?thesis
    using assms trim_word name_word call_inner_simps(1) [of "''attribute_exists(''" n]
    by (simp add: evaluate_atom_def contains_key_def attr_of_def resolve_name_def)
next
  case (A_not_exists n)
  then show ?thesis
    using assms trim_word name_word call_inner_simps(1) [of "''attribute_not_exists(''" n]
    by (simp add: evaluate_atom_def call_inner_simps(3) starts_with_def contains_key_def attr_of_def resolve_name_def)
next
  case (A_begins_with n v)
  then have w: "list_all word_char n" "list_all word_char v" using assms name_word ref_word by auto
  then show ?thesis
    using A_begins_with evaluate_call_eq [OF w] call_inner_simps(1) [of "''begins_with(''" "n @ '', '' @ v"]
    by (simp add: evaluate_atom_def call_inner_simps(3) starts_with_Cons)
next
  case (A_contains n v)
  then have w: "list_all word_char n" "list_all word_char v" using assms name_word ref_word by auto
  then show ?thesis
    using A_contains evaluate_call_eq [OF w] call_inner_simps(1) [of "''contains(''" "n @ '', '' @ v"]
    by (simp add: evaluate_atom_def call_inner_simps(3) starts_with_Cons)
qed

lemma literal_prefix: "atom_ok a \<Longrightarrow> strip_prefix (atom_text a) ''NOT '' = None"
  using no_keyword [of a "''NOT''" "[]"] by (simp add: strip_prefix_def)

lemma evaluate_literal:
  assumes "atom_ok a"
  shows "evaluate_expr item (literal_text (k, a)) names vals = Some (literal_holds item names vals (k, a))"
proof (induction k)
  case 0
  have "scan '' AND '' 0 (atom_text a) = None" "scan '' OR '' 0 (atom_text a) = None"
    using scan_atom [OF assms, of _ "[]"] by auto
  then show ?case
    using assms by (subst evaluate_expr.simps)
      (simp add: clean_trim atom_clean find_top_level_scan atom_ascii literal_prefix evaluate_atom_eq Let_def)
next
  case (Suc k)
  let ?t = "literal_text (Suc k, a)"
  have s: "scan '' AND '' 0 ?t = None" "scan '' OR '' 0 ?t = None"
    using scan_literal [of "(Suc k, a)" _ "[]"] assms by auto
  have p: "strip_prefix ?t ''NOT '' = Some (literal_text (k, a))"
    by (simp add: strip_prefix_def starts_with_def)
  have t: "trim ?t = ?t" "ascii ?t" using literal_clean [of "(Suc k, a)"] literal_ascii [of "(Suc k, a)"] assms
    by (simp_all add: clean_trim)
  show ?case
    by (subst evaluate_expr.simps) (simp only: Let_def t find_top_level_scan [OF t(2)] s option.case p Suc, simp)
qed

text \<open>One step of the evaluation, at the first connective.\<close>

lemma evaluate_or:
  assumes "clean (s @ '' OR '' @ t)" "ascii (s @ '' OR '' @ t)" "scan '' AND '' 0 (s @ '' OR '' @ t) = None"
    and "scan '' OR '' 0 (s @ '' OR '' @ t) = Some (length s)"
    and "evaluate_expr item s names vals = Some p" "evaluate_expr item t names vals = Some q"
  shows "evaluate_expr item (s @ '' OR '' @ t) names vals = Some (p \<or> q)"
proof -
  have pos: "take (length s) (s @ '' OR '' @ t) = s" "drop (length s + 4) (s @ '' OR '' @ t) = t" by simp_all
  show ?thesis
    by (subst evaluate_expr.simps)
       (use assms(5,6) in \<open>cases p; simp only: Let_def clean_trim [OF assms(1)] find_top_level_scan [OF assms(2)]
          assms(3,4) option.case pos bool.case simp_thms\<close>)
qed

lemma evaluate_and:
  assumes "clean (s @ '' AND '' @ t)" "ascii (s @ '' AND '' @ t)"
    and "scan '' AND '' 0 (s @ '' AND '' @ t) = Some (length s)"
    and "evaluate_expr item s names vals = Some p" "evaluate_expr item t names vals = Some q"
  shows "evaluate_expr item (s @ '' AND '' @ t) names vals = Some (p \<and> q)"
proof -
  have pos: "take (length s) (s @ '' AND '' @ t) = s" "drop (length s + 5) (s @ '' AND '' @ t) = t" by simp_all
  show ?thesis
    by (subst evaluate_expr.simps)
       (use assms(4,5) in \<open>cases p; simp only: Let_def clean_trim [OF assms(1)] find_top_level_scan [OF assms(2)]
          assms(3) option.case pos bool.case simp_thms\<close>)
qed

lemma clause_clean_ascii:
  assumes "ls \<noteq> []" "list_all (\<lambda>l. atom_ok (snd l)) ls"
  shows "clean (clause_text ls)" "ascii (clause_text ls)"
  using assms clean_join [of "map literal_text ls" "'' OR ''"] join_ascii [of "'' OR ''" "map literal_text ls"]
  by (auto simp: clause_text_def list_all_iff literal_clean literal_ascii)

lemma evaluate_clause:
  "ls \<noteq> [] \<Longrightarrow> list_all (\<lambda>l. atom_ok (snd l)) ls \<Longrightarrow>
   evaluate_expr item (clause_text ls) names vals = Some (list_ex (literal_holds item names vals) ls)"
proof (induction ls rule: induct_list012)
  case (2 l)
  then show ?case by (cases l) (simp add: clause_text_def evaluate_literal del: literal_text.simps literal_holds.simps)
next
  case (3 l l' ls)
  let ?s = "literal_text l" and ?t = "clause_text (l' # ls)"
  have tx: "clause_text (l # l' # ls) = ?s @ '' OR '' @ ?t" by (simp add: clause_text_def)
  have ca: "clean (?s @ '' OR '' @ ?t)" "ascii (?s @ '' OR '' @ ?t)"
    using clause_clean_ascii [of "l # l' # ls"] 3 unfolding tx by simp_all
  have "scan '' AND '' 0 (?s @ '' OR '' @ ?t) = None"
    using scan_clause [of "l # l' # ls" "[]"] 3 unfolding tx by simp
  moreover have "scan '' OR '' 0 (?s @ '' OR '' @ ?t) = Some (length ?s)"
    using scan_literal [of l "''OR ''" "'' OR '' @ ?t"] scan_hit [of "''OR ''" ?t] 3 by simp
  moreover have "evaluate_expr item ?s names vals = Some (literal_holds item names vals l)"
    using 3 evaluate_literal [of "snd l" item "fst l"] by simp
  moreover have "evaluate_expr item ?t names vals = Some (list_ex (literal_holds item names vals) (l' # ls))"
    using 3 by simp
  ultimately show ?case unfolding tx using evaluate_or [OF ca] by simp
qed simp

lemma evaluate_clauses:
  "filter_ok cs \<Longrightarrow>
   clean (filter_text cs) \<and> ascii (filter_text cs) \<and>
   evaluate_expr item (filter_text cs) names vals = Some (list_all (list_ex (literal_holds item names vals)) cs)"
proof (induction cs rule: induct_list012)
  case (2 c)
  then show ?case by (simp add: filter_ok_def filter_text_def clause_clean_ascii evaluate_clause)
next
  case (3 c c' cs)
  let ?s = "clause_text c" and ?t = "filter_text (c' # cs)"
  have tx: "filter_text (c # c' # cs) = ?s @ '' AND '' @ ?t" by (simp add: filter_text_def)
  have c: "c \<noteq> []" "list_all (\<lambda>l. atom_ok (snd l)) c" and IH: "filter_ok (c' # cs)"
    using 3 by (simp_all add: filter_ok_def)
  have t: "clean ?t" "ascii ?t" "evaluate_expr item ?t names vals = Some (list_all (list_ex (literal_holds item names vals)) (c' # cs))"
    using "3.IH"(2) [OF IH] by simp_all
  have ca: "clean (?s @ '' AND '' @ ?t)" "ascii (?s @ '' AND '' @ ?t)"
    using clause_clean_ascii [OF c] t clean_append [of ?s ?t "'' AND ''"] by simp_all
  have hit: "scan '' AND '' 0 (?s @ '' AND '' @ ?t) = Some (length ?s)"
    using scan_clause [OF c, of "'' AND '' @ ?t"] scan_hit [of "''AND ''" ?t] by simp
  show ?case unfolding tx using ca evaluate_and [OF ca hit evaluate_clause [OF c] t(3)] by simp
qed (simp add: filter_ok_def)

text \<open>C34: A filter or condition expression written as a conjunction of disjunctions of possibly negated
  comparisons and function calls evaluates, directly on its text, to what it means: the
  connectives, the negations and the six operators are those of logic and of the order on
  attribute values, names go through the placeholders, and a missing attribute or value is null.\<close>

theorem filter_evaluation_correct:
  assumes "filter_ok cs"
  shows "evaluate_filter item (filter_text cs) names vals =
    Some (\<forall>c\<in>set cs. \<exists>l\<in>set c. literal_holds item names vals l)"
  using evaluate_clauses [OF assms, of item names vals]
  by (simp add: evaluate_filter_def clean_trim list_all_iff list_ex_iff)

definition demo_filter :: "literal list list" where
  "demo_filter =
     [[(0, A_cmp ''price'' Op_ge '':low''), (1, A_exists ''#s'')], [(0, A_begins_with ''name'' '':p'')]]"

theorem filter_evaluation_correct_witness:
  "filter_text demo_filter = ''price >= :low OR NOT attribute_exists(#s) AND begins_with(name, :p)'' \<and>
   evaluate_filter [(''price'', AV_N ''9.5''), (''name'', AV_S ''pen'')] (filter_text demo_filter)
     [(''#s'', ''stock'')] [('':low'', AV_N ''10''), ('':p'', AV_S ''pe'')] = Some True"
proof -
  have "filter_ok demo_filter" by code_simp
  from filter_evaluation_correct [OF this, of "[(''price'', AV_N ''9.5''), (''name'', AV_S ''pen'')]"
      "[(''#s'', ''stock'')]" "[('':low'', AV_N ''10''), ('':p'', AV_S ''pe'')]"]
  have "evaluate_filter [(''price'', AV_N ''9.5''), (''name'', AV_S ''pen'')] (filter_text demo_filter)
     [(''#s'', ''stock'')] [('':low'', AV_N ''10''), ('':p'', AV_S ''pe'')] = Some True"
    by (simp add: demo_filter_def attr_of_def starts_with_def val_or_null_def)
  moreover have "filter_text demo_filter = ''price >= :low OR NOT attribute_exists(#s) AND begins_with(name, :p)''"
    by code_simp
  ultimately show ?thesis by simp
qed

section \<open>Panics and precedence\<close>

lemma ascii_trim: "ascii s \<Longrightarrow> ascii (trim s)"
  by (auto simp: ascii_def list_all_iff trim_def trim_start_def trim_end_def dest!: set_dropWhileD)

lemma evaluate_expr_total: "ascii e \<Longrightarrow> evaluate_expr item e names vals \<noteq> None"
proof (induction item e names vals rule: evaluate_expr.induct)
  case (1 item e names vals)
  have a: "ascii (trim e)" using 1(6) by (rule ascii_trim)
  have strip: "ascii s" if "strip_prefix (trim e) p = Some s" for s p
    using that a by (auto simp: strip_prefix_def intro: ascii_take_drop split: if_splits)
  note parts = ascii_take_drop [OF a]
  note IH = 1(1-5) [OF refl]
  note eq = evaluate_expr.simps [of item e names vals] find_top_level_scan [OF a]
  consider i where "scan '' AND '' 0 (trim e) = Some i"
    | i where "scan '' AND '' 0 (trim e) = None" "scan '' OR '' 0 (trim e) = Some i"
    | "scan '' AND '' 0 (trim e) = None" "scan '' OR '' 0 (trim e) = None"
    by (metis option.exhaust)
  then show ?case
  proof cases
    case 1
    then show ?thesis using IH parts by (auto simp: eq Let_def split: option.split bool.split)
  next
    case 2
    then show ?thesis using IH parts by (auto simp: eq Let_def split: option.split bool.split)
  next
    case 3
    then show ?thesis using IH strip by (auto simp: eq Let_def split: option.split)
  qed
qed

text \<open>The evaluator returns a truth value for every ASCII expression, however it is written.\<close>

theorem filter_never_panics_on_ascii:
  assumes "ascii expression"
  shows "\<exists>b. evaluate_filter item expression names vals = Some b"
  using evaluate_expr_total [OF ascii_trim [OF assms]] by (auto simp: evaluate_filter_def)

theorem filter_never_panics_on_ascii_witness:
  "\<exists>b. evaluate_filter [(''a'', AV_S ''x'')] ''NOT (a = :x) AND'' [] [('':x'', AV_S ''x'')] = Some b"
  by (rule filter_never_panics_on_ascii) code_simp

text \<open>A multi-byte character outside parentheses makes the search for a connective slice the expression
  inside that character: the process panics. The expression is an attribute name with an
  e-acute compared with a placeholder.\<close>

theorem filter_panics_on_non_ascii:
  "evaluate_filter item (map char_of [195, 169, 32, 61, 32, 58, 120 :: nat]) names vals = None"
proof -
  have "find_top_level (trim (trim (map char_of [195, 169, 32, 61, 32, 58, 120 :: nat]))) '' AND '' = None"
    by code_simp
  then show ?thesis by (simp add: evaluate_filter_def evaluate_expr.simps)
qed

text \<open>Conjunction is split before disjunction, so it binds weaker: an expression whose left
  alternative holds is rejected because the right-hand conjunct of the other alternative fails.
  Parentheses group for the search only and are never removed, so a parenthesised comparison
  compares an attribute whose name starts with the parenthesis and does not hold.\<close>

theorem filter_precedence:
  "evaluate_filter [(''a'', AV_S ''x''), (''b'', AV_S ''x''), (''c'', AV_S ''x'')] ''a = :x OR b = :y AND c = :y'' []
     [('':x'', AV_S ''x''), ('':y'', AV_S ''y'')] = Some False \<and>
   evaluate_filter [(''a'', AV_S ''x'')] ''a = :x'' [] [('':x'', AV_S ''x'')] = Some True \<and>
   evaluate_filter [(''a'', AV_S ''x'')] ''(a = :x)'' [] [('':x'', AV_S ''x'')] = Some False"
  by (intro conjI) code_simp+

end
