(* ===== verification/Dynamo_Update.thy ===== *)
theory Dynamo_Update
  imports Dynamo_Filter
begin

text \<open>
  What update expressions of the DynamoDB service mean: the text of a list of clauses is applied
  clause by clause and action by action, provided that no attribute name or placeholder ends in
  one of the keywords, and set addition and set removal are union and difference.
\<close>

section \<open>The meaning of an update\<close>

datatype update_clause =
    U_set "(string \<times> string) list"
  | U_remove "string list"
  | U_add "(string \<times> string) list"
  | U_delete "(string \<times> string) list"

fun keyword_text :: "update_clause \<Rightarrow> string" where
  "keyword_text (U_set _) = ''SET ''"
| "keyword_text (U_remove _) = ''REMOVE ''"
| "keyword_text (U_add _) = ''ADD ''"
| "keyword_text (U_delete _) = ''DELETE ''"

fun action_texts :: "update_clause \<Rightarrow> string list" where
  "action_texts (U_set xs) = map (\<lambda>(n, v). n @ '' = '' @ v) xs"
| "action_texts (U_remove ns) = ns"
| "action_texts (U_add xs) = map (\<lambda>(n, v). n @ '' '' @ v) xs"
| "action_texts (U_delete xs) = map (\<lambda>(n, v). n @ '' '' @ v) xs"

definition clause_body :: "update_clause \<Rightarrow> string" where
  "clause_body c = join '', '' (action_texts c)"

definition update_text :: "update_clause list \<Rightarrow> string" where
  "update_text cs = join '' '' (map (\<lambda>c. keyword_text c @ clause_body c) cs)"

definition reserved_words :: "string list" where
  "reserved_words = [''SET'', ''REMOVE'', ''ADD'', ''DELETE'']"

definition token_ok :: "string \<Rightarrow> bool" where
  "token_ok t \<longleftrightarrow> t \<noteq> [] \<and> list_all word_char t \<and> list_all (\<lambda>w. \<not> ends_with t w) reserved_words"

fun update_clause_ok :: "update_clause \<Rightarrow> bool" where
  "update_clause_ok (U_set xs) \<longleftrightarrow> xs \<noteq> [] \<and> list_all (\<lambda>(n, v). token_ok n \<and> token_ok v) xs"
| "update_clause_ok (U_remove ns) \<longleftrightarrow> ns \<noteq> [] \<and> list_all token_ok ns"
| "update_clause_ok (U_add xs) \<longleftrightarrow> xs \<noteq> [] \<and> list_all (\<lambda>(n, v). token_ok n \<and> token_ok v) xs"
| "update_clause_ok (U_delete xs) \<longleftrightarrow> xs \<noteq> [] \<and> list_all (\<lambda>(n, v). token_ok n \<and> token_ok v) xs"

text \<open>One action on the item.\<close>

definition add_attribute ::
  "'d decimal_lib \<Rightarrow> string \<Rightarrow> AttributeValue \<Rightarrow> Item \<Rightarrow> Item option" where
  "add_attribute lib n delta item =
     (case map_of item n of
        None \<Rightarrow> Some (AList.update n delta item)
      | Some old \<Rightarrow> map_option (\<lambda>v. AList.update n v item) (add_value lib old delta))"

definition delete_attribute :: "string \<Rightarrow> AttributeValue \<Rightarrow> Item \<Rightarrow> Item" where
  "delete_attribute n delta item =
     (case map_of item n of
        None \<Rightarrow> item
      | Some old \<Rightarrow>
          if is_empty_set (Some (delete_value old delta)) then AList.delete n (AList.update n (delete_value old delta) item)
          else AList.update n (delete_value old delta) item)"

fun perform ::
  "'d decimal_lib \<Rightarrow> (string, string) hash_map \<Rightarrow> (string, AttributeValue) hash_map \<Rightarrow>
   update_clause \<Rightarrow> Item \<Rightarrow> Item option" where
  "perform lib names vals (U_set xs) item =
     Some (fold (\<lambda>(n, v). AList.update (resolve_name n names) (resolve_value v vals)) xs item)"
| "perform lib names vals (U_remove ns) item = Some (fold (\<lambda>n. AList.delete (resolve_name n names)) ns item)"
| "perform lib names vals (U_add xs) item =
     fold (\<lambda>(n, v) r. Option.bind r (add_attribute lib (resolve_name n names) (resolve_value v vals))) xs (Some item)"
| "perform lib names vals (U_delete xs) item =
     Some (fold (\<lambda>(n, v). delete_attribute (resolve_name n names) (resolve_value v vals)) xs item)"

section \<open>Where a keyword can start\<close>

fun no_hit :: "string \<Rightarrow> string \<Rightarrow> string \<Rightarrow> bool" where
  "no_hit kw [] r = True"
| "no_hit kw (c # b) r \<longleftrightarrow> \<not> starts_with (c # b @ r) kw \<and> no_hit kw b r"

lemma no_hit_append: "no_hit kw (a @ b) r \<longleftrightarrow> no_hit kw a (b @ r) \<and> no_hit kw b r"
  by (induction a) auto

lemma str_find_no_hit: "no_hit kw b r \<Longrightarrow> str_find (b @ r) kw = shift (length b) (str_find r kw)"
  by (induction b) (auto simp: map_Suc_shift)

lemma ends_with_Cons: "ends_with t w \<Longrightarrow> ends_with (c # t) w" "ends_with t t"
  by (auto simp: ends_with_def Suc_diff_le)

lemma keyword_is_word:
  assumes "starts_with (t @ r) (w @ '' '')" "list_all word_char t" "list_all word_char w"
    and "r = [] \<or> \<not> word_char (hd r)"
  shows "t = w"
proof -
  obtain z where z: "t @ r = (w @ '' '') @ z" using assms(1) starts_withE by blast
  have tw: "takeWhile word_char (u @ s) = u" if "list_all word_char u" "s = [] \<or> \<not> word_char (hd s)" for u s
    using that by (induction u; cases s) auto
  have "t = takeWhile word_char (t @ r)" using tw [of t r] assms(2,4) by simp
  also have "\<dots> = w" using tw [of w "'' '' @ z"] assms(3) z by (simp add: word_char_def)
  finally show ?thesis .
qed

lemma no_hit_token:
  "list_all word_char t \<Longrightarrow> list_all word_char w \<Longrightarrow> \<not> ends_with t w \<Longrightarrow> r = [] \<or> \<not> word_char (hd r) \<Longrightarrow>
   no_hit (w @ '' '') t r"
proof (induction t)
  case (Cons c t)
  have "\<not> starts_with ((c # t) @ r) (w @ '' '')"
    using keyword_is_word [of "c # t" r w] Cons.prems ends_with_Cons(2) by blast
  then show ?case using Cons ends_with_Cons(1) by auto
qed simp

lemma fold_first_position:
  fixes m e :: nat
  assumes "m \<le> e" "\<And>kw p. kw \<in> set kws \<Longrightarrow> f kw = Some p \<Longrightarrow> m \<le> p"
    "m = e \<or> (\<exists>kw\<in>set kws. f kw = Some m)"
  shows "fold (\<lambda>kw e. case f kw of Some p \<Rightarrow> if p < e then p else e | None \<Rightarrow> e) kws e = m"
  using assms
proof (induction kws arbitrary: e)
  case (Cons kw kws)
  let ?e = "case f kw of Some p \<Rightarrow> if p < e then p else e | None \<Rightarrow> e"
  have "m \<le> ?e \<and> (m = ?e \<or> (\<exists>kw\<in>set kws. f kw = Some m))"
  proof (cases "f kw")
    case (Some p)
    then show ?thesis using Cons.prems(1) Cons.prems(2) [of kw p] Cons.prems(3) by (auto simp: not_less)
  qed (use Cons.prems(1,3) in auto)
  moreover have "\<And>kw p. kw \<in> set kws \<Longrightarrow> f kw = Some p \<Longrightarrow> m \<le> p" using Cons.prems(2) by (meson list.set_intros(2))
  ultimately have "fold (\<lambda>kw e. case f kw of Some p \<Rightarrow> if p < e then p else e | None \<Rightarrow> e) kws ?e = m"
    by (intro Cons.IH) blast+
  then show ?case by simp
qed simp

lemma clause_keywords_eq: "clause_keywords = map (\<lambda>w. w @ '' '') reserved_words"
  by (simp add: clause_keywords_def reserved_words_def)

lemma reserved_word: "w \<in> set reserved_words \<Longrightarrow> list_all word_char w \<and> w \<noteq> [] \<and> hd w \<notin> {CHR '' '', CHR '','', CHR ''=''}"
  by (auto simp: reserved_words_def word_char_def)

lemma extract_clause_last:
  assumes "clean b" "\<And>w. w \<in> set reserved_words \<Longrightarrow> no_hit (w @ '' '') b []"
  shows "extract_clause b = (b, [])"
proof -
  have "fold (\<lambda>kw e. case str_find b kw of Some p \<Rightarrow> if p < e then p else e | None \<Rightarrow> e) clause_keywords (length b) = length b"
    using assms(2) str_find_no_hit [of _ b "[]"] by (intro fold_first_position) (auto simp: clause_keywords_eq)
  then show ?thesis using assms(1) by (simp add: extract_clause_def clean_trim)
qed

lemma trim_clean_space: "clean b \<Longrightarrow> trim (b @ '' '') = b" "clean b \<Longrightarrow> trim (CHR '' '' # b) = b"
proof -
  assume b: "clean b"
  have "dropWhile is_whitespace s = s" if "s \<noteq> []" "\<not> is_whitespace (hd s)" for s using that by (cases s) simp_all
  from this [of b] this [of "rev b"] b
  have d: "dropWhile is_whitespace b = b" "dropWhile is_whitespace (rev b) = rev b"
    by (simp_all add: clean_def hd_rev)
  from b obtain c u where cu: "b = c # u" "\<not> is_whitespace c" by (cases b) (auto simp: clean_def)
  show "trim (b @ '' '') = b"
    using d(2) cu by (simp add: trim_def trim_start_def trim_end_def is_whitespace_def [of "CHR '' ''"])
  show "trim (CHR '' '' # b) = b"
    using d by (simp add: trim_def trim_start_def trim_end_def is_whitespace_def [of "CHR '' ''"])
qed

lemma extract_clause_next:
  assumes "clean b" "\<And>w. w \<in> set reserved_words \<Longrightarrow> no_hit (w @ '' '') b (CHR '' '' # k @ r)" "k \<in> set clause_keywords"
  shows "extract_clause (b @ CHR '' '' # k @ r) = (b, k @ r)"
proof -
  let ?s = "b @ CHR '' '' # k @ r"
  have f: "str_find ?s kw = shift (length b + 1) (str_find (k @ r) kw)" if kw: "kw \<in> set clause_keywords" for kw
  proof -
    obtain w where w: "w \<in> set reserved_words" "kw = w @ '' ''" using kw by (auto simp: clause_keywords_eq simp del: append.simps)
    have "\<not> starts_with (CHR '' '' # k @ r) kw"
      using reserved_word [OF w(1)] w(2) by (cases w) (auto simp: starts_with_Cons)
    then show ?thesis using str_find_no_hit [of kw b "CHR '' '' # k @ r"] assms(2) [OF w(1)] w(2)
      by (simp add: map_Suc_shift)
  qed
  have "str_find (k @ r) k = Some 0" using starts_with_append [of k r] by (cases "k @ r") auto
  then have "fold (\<lambda>kw e. case str_find ?s kw of Some p \<Rightarrow> if p < e then p else e | None \<Rightarrow> e) clause_keywords (length ?s) = length b + 1"
    using assms(3) f by (intro fold_first_position) (auto simp: shift_def split: option.splits)
  then have "extract_clause ?s = (trim (b @ '' ''), k @ r)" by (simp add: extract_clause_def)
  then show ?thesis using trim_clean_space(1) [OF assms(1)] by simp
qed

section \<open>Clauses\<close>

lemma no_hit_sep:
  "w \<in> set reserved_words \<Longrightarrow> list_all (\<lambda>c. c \<in> {CHR '' '', CHR '','', CHR ''=''}) b \<Longrightarrow> no_hit (w @ '' '') b r"
proof (induction b)
  case (Cons c b)
  then have "\<not> starts_with (c # b @ r) (w @ '' '')"
    using reserved_word [of w] by (cases w) (auto simp: starts_with_Cons)
  then show ?case using Cons by simp
qed simp

lemma token_no_hit:
  "token_ok t \<Longrightarrow> w \<in> set reserved_words \<Longrightarrow> r = [] \<or> \<not> word_char (hd r) \<Longrightarrow> no_hit (w @ '' '') t r"
  using reserved_word [of w] by (intro no_hit_token) (auto simp: token_ok_def list_all_iff)

lemma word_char_sep [simp]: "\<not> word_char (CHR '' '')" "\<not> word_char (CHR '','')" "\<not> word_char (CHR ''='')"
  by (simp_all add: word_char_def)

lemma pair_no_hit:
  assumes "token_ok n" "token_ok v" "w \<in> set reserved_words" "r = [] \<or> \<not> word_char (hd r)"
    and "s = '' = '' \<or> s = '' ''"
  shows "no_hit (w @ '' '') (n @ s @ v) r"
proof -
  have "list_all (\<lambda>c. c \<in> {CHR '' '', CHR '','', CHR ''=''}) s" "s @ v @ r = [] \<or> \<not> word_char (hd (s @ v @ r))"
    using assms(5) by auto
  then show ?thesis
    using assms by (simp only: no_hit_append append_assoc) (blast intro: token_no_hit no_hit_sep)
qed

definition action_ok :: "string \<Rightarrow> bool" where
  "action_ok a \<longleftrightarrow> clean a \<and> CHR '','' \<notin> set a \<and>
     (\<forall>w\<in>set reserved_words. \<forall>r. r = [] \<or> \<not> word_char (hd r) \<longrightarrow> no_hit (w @ '' '') a r)"

lemma token_clean: "token_ok t \<Longrightarrow> clean t"
  by (simp add: token_ok_def clean_word)

lemma token_action: "token_ok t \<Longrightarrow> action_ok t"
  using words_all(4) [of t] by (auto simp: action_ok_def token_clean token_no_hit token_ok_def [of t])

lemma pair_action:
  assumes "token_ok n" "token_ok v" "s = '' = '' \<or> s = '' ''"
  shows "action_ok (n @ s @ v)"
  unfolding action_ok_def
  using assms words_all(4) [of n] words_all(4) [of v] clean_append [OF token_clean token_clean, of n v s]
    pair_no_hit [OF assms(1,2) _ _ assms(3)]
  by (auto simp: token_ok_def)

lemma actions_ok: "update_clause_ok c \<Longrightarrow> action_texts c \<noteq> [] \<and> list_all action_ok (action_texts c)"
  using pair_action [where s = "'' = ''"] pair_action [where s = "'' ''"] token_action
  by (cases c) (auto simp: list_all_iff split: prod.splits)

lemma body_no_hit:
  "ts \<noteq> [] \<Longrightarrow> list_all action_ok ts \<Longrightarrow> w \<in> set reserved_words \<Longrightarrow> r = [] \<or> \<not> word_char (hd r) \<Longrightarrow>
   no_hit (w @ '' '') (join '', '' ts) r"
proof (induction ts rule: induct_list012)
  case (3 t t' ts)
  let ?b = "join '', '' (t' # ts)"
  have "no_hit (w @ '' '') ?b r" using 3 by simp
  moreover have "no_hit (w @ '' '') '', '' (?b @ r)" using 3 by (intro no_hit_sep) auto
  moreover have "no_hit (w @ '' '') t ('', '' @ ?b @ r)" using 3 by (auto simp: action_ok_def)
  ultimately show ?case by (simp only: join.simps no_hit_append append_assoc simp_thms)
qed (auto simp: action_ok_def)

lemma split_join:
  "ts \<noteq> [] \<Longrightarrow> list_all action_ok ts \<Longrightarrow> map trim (split_char (CHR '','') (join '', '' ts)) = ts"
proof (induction ts rule: induct_list012)
  case (2 t)
  then show ?case by (simp add: action_ok_def split_char_no_sep clean_trim)
next
  case (3 t t' ts)
  let ?b = "join '', '' (t' # ts)"
  have c: "clean ?b" using 3 clean_join [of "t' # ts" "'', ''"] by (auto simp: action_ok_def list_all_iff)
  have "split_char (CHR '','') (t @ CHR '','' # CHR '' '' # ?b) = t # split_char (CHR '','') (CHR '' '' # ?b)"
    using 3 by (intro split_char_append) (simp add: action_ok_def)
  moreover have "map trim (split_char (CHR '','') (CHR '' '' # ?b)) = map trim (split_char (CHR '','') ?b)"
  proof -
    obtain x xs where x: "split_char (CHR '','') ?b = x # xs" by (cases "split_char (CHR '','') ?b") auto
    have "trim (CHR '' '' # x) = trim x" by (simp add: trim_def trim_start_def is_whitespace_def)
    then show ?thesis using x by simp
  qed
  ultimately show ?case using 3 by (simp add: action_ok_def clean_trim)
qed simp

lemma body_clean: "update_clause_ok c \<Longrightarrow> clean (clause_body c)"
  using actions_ok [of c] clean_join [of "action_texts c" "'', ''"]
  by (auto simp: clause_body_def action_ok_def list_all_iff)

lemma fold_split: "update_clause_ok c \<Longrightarrow>
  fold (\<lambda>a. f (trim a)) (split_char (CHR '','') (clause_body c)) x = fold f (action_texts c) x"
  using split_join [of "action_texts c"] actions_ok [of c]
  by (metis clause_body_def comp_apply fold_map fold_cong)

section \<open>The loop over the clauses\<close>

lemma action_trim:
  "apply_set_action names vals (trim a) = apply_set_action names vals a"
  "apply_add_action lib names vals (trim a) = apply_add_action lib names vals a"
  "apply_delete_action names vals (trim a) = apply_delete_action names vals a"
  by (simp_all add: fun_eq_iff apply_set_action_def apply_add_action_def apply_delete_action_def)

lemma apply_set_clause_eq:
  assumes "update_clause_ok (U_set xs)"
  shows "Some (apply_set_clause item (clause_body (U_set xs)) names vals) = perform lib names vals (U_set xs) item"
proof -
  have act: "apply_set_action names vals (n @ '' = '' @ v) = AList.update (resolve_name n names) (resolve_value v vals)"
    if "token_ok n" "token_ok v" for n v
  proof -
    have w: "list_all word_char n" "list_all word_char v" using that by (simp_all add: token_ok_def)
    have f: "str_find (n @ '' = '' @ v) ''='' = Some (length n + 1)"
      using str_find_skip [of "CHR ''=''" "n @ '' ''" "''= '' @ v" "[]"] words_all(8) [OF w(1)]
      by (simp add: starts_with_Cons)
    have t: "trim (n @ '' = '' @ v) = n @ '' = '' @ v"
      using clean_append [OF token_clean token_clean] that by (intro clean_trim) blast
    show ?thesis
      using f t trim_spaces(1) [OF w(1)] trim_spaces(2) [OF w(2)] by (simp add: apply_set_action_def Let_def fun_eq_iff)
  qed
  have "fold (apply_set_action names vals) (split_char (CHR '','') (clause_body (U_set xs))) item =
      fold (apply_set_action names vals) (action_texts (U_set xs)) item"
    using fold_split [OF assms, of "apply_set_action names vals" item] by (simp only: action_trim)
  also have "\<dots> = fold (\<lambda>(n, v). AList.update (resolve_name n names) (resolve_value v vals)) xs item"
    unfolding action_texts.simps fold_map comp_def
    using assms by (intro fold_cong) (auto simp: list_all_iff act simp del: append.simps)
  finally show ?thesis by (simp add: apply_set_clause_def)
qed

lemma apply_remove_clause_eq:
  assumes "update_clause_ok (U_remove ns)"
  shows "Some (apply_remove_clause item (clause_body (U_remove ns)) names) = perform lib names vals (U_remove ns) item"
  using fold_split [OF assms, of "\<lambda>n. AList.delete (resolve_name n names)" item] by (simp add: apply_remove_clause_def)

lemma split_pair:
  assumes "token_ok n" "token_ok v"
  shows "splitn 2 (CHR '' '') (trim (n @ '' '' @ v)) = [n, v]" "trim n = n" "trim v = v"
proof -
  have w: "list_all word_char n" "list_all word_char v" using assms by (simp_all add: token_ok_def)
  have "trim (n @ '' '' @ v) = n @ '' '' @ v"
    using clean_append [OF token_clean token_clean] assms by (intro clean_trim) blast
  then show "splitn 2 (CHR '' '') (trim (n @ '' '' @ v)) = [n, v]"
    using split_once_sep [OF words_all(5) [OF w(1)], of v] by (simp add: numeral_2_eq_2)
qed (use assms in \<open>simp_all add: token_ok_def trim_word\<close>)

lemma apply_add_clause_eq:
  assumes "update_clause_ok (U_add xs)"
  shows "apply_add_clause lib item (clause_body (U_add xs)) names vals = perform lib names vals (U_add xs) item"
proof -
  have act: "apply_add_action lib names vals (n @ '' '' @ v) = add_attribute lib (resolve_name n names) (resolve_value v vals)"
    if "token_ok n" "token_ok v" for n v
    using split_pair [OF that]
    by (auto simp: apply_add_action_def add_attribute_def fun_eq_iff Let_def simp del: append.simps split: option.splits)
  have "fold (\<lambda>part r. Option.bind r (apply_add_action lib names vals part)) (split_char (CHR '','') (clause_body (U_add xs))) (Some item) =
      fold (\<lambda>part r. Option.bind r (apply_add_action lib names vals part)) (action_texts (U_add xs)) (Some item)"
    using fold_split [OF assms, of "\<lambda>part r. Option.bind r (apply_add_action lib names vals part)" "Some item"]
    by (simp only: action_trim)
  also have "\<dots> = perform lib names vals (U_add xs) item"
    unfolding action_texts.simps perform.simps fold_map comp_def
    using assms by (intro fold_cong) (auto simp: list_all_iff act simp del: append.simps)
  finally show ?thesis by (simp add: apply_add_clause_def)
qed

lemma apply_delete_clause_eq:
  assumes "update_clause_ok (U_delete xs)"
  shows "Some (apply_delete_clause item (clause_body (U_delete xs)) names vals) = perform lib names vals (U_delete xs) item"
proof -
  have act: "apply_delete_action names vals (n @ '' '' @ v) = delete_attribute (resolve_name n names) (resolve_value v vals)"
    if "token_ok n" "token_ok v" for n v
    using split_pair [OF that]
    by (auto simp: apply_delete_action_def delete_attribute_def fun_eq_iff Let_def update_conv simp del: append.simps split: option.splits)
  have "fold (apply_delete_action names vals) (split_char (CHR '','') (clause_body (U_delete xs))) item =
      fold (apply_delete_action names vals) (action_texts (U_delete xs)) item"
    using fold_split [OF assms, of "apply_delete_action names vals" item] by (simp only: action_trim)
  also have "\<dots> = fold (\<lambda>(n, v). delete_attribute (resolve_name n names) (resolve_value v vals)) xs item"
    unfolding action_texts.simps fold_map comp_def
    using assms by (intro fold_cong) (auto simp: list_all_iff act simp del: append.simps)
  finally show ?thesis by (simp add: apply_delete_clause_def)
qed

text \<open>One round of the loop.\<close>

lemma apply_update_round:
  assumes "update_clause_ok c" "extract_clause (clause_body c @ r) = (clause_body c, r')"
  shows "apply_update_loop lib item (keyword_text c @ clause_body c @ r) names vals =
    Option.bind (perform lib names vals c item) (\<lambda>item. apply_update_loop lib item (trim r') names vals)"
proof (cases c)
  case (U_set xs)
  then show ?thesis using assms apply_set_clause_eq [of xs item names vals lib, symmetric]
    by (subst apply_update_loop.simps) (simp add: starts_with_Cons del: perform.simps)
next
  case (U_remove ns)
  then show ?thesis using assms apply_remove_clause_eq [of ns item names lib vals, symmetric]
    by (subst apply_update_loop.simps) (simp add: starts_with_Cons del: perform.simps)
next
  case (U_add xs)
  then show ?thesis using assms apply_add_clause_eq [of xs lib item names vals]
    by (subst apply_update_loop.simps) (simp add: starts_with_Cons del: perform.simps split: option.split)
next
  case (U_delete xs)
  then show ?thesis using assms apply_delete_clause_eq [of xs item names vals lib, symmetric]
    by (subst apply_update_loop.simps) (simp add: starts_with_Cons del: perform.simps)
qed

lemma keyword_mem: "keyword_text c \<in> set clause_keywords"
  by (cases c) (simp_all add: clause_keywords_def)

lemma clause_clean: "update_clause_ok c \<Longrightarrow> clean (keyword_text c @ clause_body c)"
  using body_clean [of c] by (cases c) (auto simp: clean_def is_whitespace_def)

lemma update_clean: "cs \<noteq> [] \<Longrightarrow> list_all update_clause_ok cs \<Longrightarrow> clean (update_text cs)"
  unfolding update_text_def by (rule clean_join) (auto simp: list_all_iff clause_clean)

lemma apply_update_clauses:
  "cs \<noteq> [] \<Longrightarrow> list_all update_clause_ok cs \<Longrightarrow>
   apply_update_loop lib item (update_text cs) names vals =
     fold (\<lambda>c r. Option.bind r (perform lib names vals c)) cs (Some item)"
proof (induction cs arbitrary: item rule: induct_list012)
  case (2 c)
  then have c: "update_clause_ok c" by simp
  have "extract_clause (clause_body c) = (clause_body c, [])"
    using body_clean [OF c] actions_ok [OF c] body_no_hit [of "action_texts c"]
    by (intro extract_clause_last) (simp_all add: clause_body_def)
  then show ?case using apply_update_round [OF c, of "[]" "[]" lib item names vals]
    by (cases "perform lib names vals c item")
       (simp_all add: update_text_def trim_id apply_update_loop.simps)
next
  case (3 c c' cs)
  then have c: "update_clause_ok c" by simp
  obtain r where r: "update_text (c' # cs) = keyword_text c' @ r"
    by (cases cs) (simp_all add: update_text_def)
  have "extract_clause (clause_body c @ CHR '' '' # keyword_text c' @ r) = (clause_body c, keyword_text c' @ r)"
    using body_clean [OF c] actions_ok [OF c] body_no_hit [of "action_texts c"] keyword_mem
    by (intro extract_clause_next) (simp_all add: clause_body_def)
  from apply_update_round [OF c this, of lib item names vals]
  have step: "apply_update_loop lib item (update_text (c # c' # cs)) names vals =
      Option.bind (perform lib names vals c item) (\<lambda>item. apply_update_loop lib item (update_text (c' # cs)) names vals)"
    using r update_clean [of "c' # cs"] 3 by (simp add: update_text_def clean_trim)
  have none: "fold (\<lambda>c r. Option.bind r (perform lib names vals c)) cs' None = None" for cs'
    by (induction cs') simp_all
  show ?case using 3 step none by (cases "perform lib names vals c item") simp_all
qed simp

lemma update_expression_eq:
  "cs \<noteq> [] \<Longrightarrow> list_all update_clause_ok cs \<Longrightarrow>
   apply_update_expression lib item (update_text cs) names vals =
     fold (\<lambda>c r. Option.bind r (perform lib names vals c)) cs (Some item)"
  using apply_update_clauses [of cs] update_clean [of cs] by (simp add: apply_update_expression_def clean_trim)

text \<open>C35: An update expression made of SET, REMOVE, ADD and DELETE clauses is applied clause by clause, in
  the order of the text, and within a clause action by action; the result is the panic of decimal
  addition when there is one.\<close>

theorem update_expression_correct:
  assumes "cs \<noteq> []" "list_all update_clause_ok cs"
  shows "apply_update_expression lib item (update_text cs) names vals =
    fold (\<lambda>c r. Option.bind r (perform lib names vals c)) cs (Some item)"
  using assms by (rule update_expression_eq)

text \<open>Decimal arithmetic on integers, enough to run the examples.\<close>

definition int_lib :: "nat decimal_lib" where
  "int_lib = \<lparr>dec_from_str = parse_uint 10 96, dec_add = (\<lambda>a b. Some (a + b)), dec_normalize = (\<lambda>x. x),
     dec_to_string = nat_to_string\<rparr>"

definition demo_update :: "update_clause list" where
  "demo_update = [U_set [(''#n'', '':new''), (''b'', '':b'')], U_remove [''gone''], U_add [(''hits'', '':one'')]]"

theorem update_expression_correct_witness:
  "update_text demo_update = ''SET #n = :new, b = :b REMOVE gone ADD hits :one'' \<and>
   apply_update_expression int_lib [(''gone'', AV_Null), (''hits'', AV_N ''41'')] (update_text demo_update)
     [(''#n'', ''name'')] [('':new'', AV_S ''x''), ('':one'', AV_N ''1'')] =
   Some [(''hits'', AV_N ''42''), (''name'', AV_S ''x''), (''b'', AV_Null)]"
proof -
  have t: "update_text demo_update = ''SET #n = :new, b = :b REMOVE gone ADD hits :one''" by code_simp
  have n: "parse_uint 10 96 ''41'' = Some 41" "parse_uint 10 96 ''1'' = Some 1" "nat_to_string 42 = ''42''" by code_simp+
  have "demo_update \<noteq> []" "list_all update_clause_ok demo_update" by code_simp+
  from update_expression_correct [OF this, of int_lib "[(''gone'', AV_Null), (''hits'', AV_N ''41'')]"
      "[(''#n'', ''name'')]" "[('':new'', AV_S ''x''), ('':one'', AV_N ''1'')]"]
  show ?thesis unfolding t
    by (simp add: demo_update_def add_attribute_def resolve_name_def resolve_value_def int_lib_def n)
qed

section \<open>Sets\<close>

lemma push_missing_set: "set (push_missing cur delta) = set cur \<union> set delta"
  unfolding push_missing_def by (induction delta arbitrary: cur) auto

lemma push_missing_distinct: "distinct cur \<Longrightarrow> distinct (push_missing cur delta)"
  unfolding push_missing_def by (induction delta arbitrary: cur) auto

text \<open>ADD on a string set is union and keeps the elements distinct, DELETE is difference and removes an
  attribute whose set becomes empty; no other attribute changes.\<close>

theorem set_update_algebra:
  assumes "token_ok n" "token_ok v" "map_of names n = None"
    and "map_of item n = Some (AV_Ss cur)" "map_of vals v = Some (AV_Ss delta)" "distinct cur"
  shows "(\<exists>item' cur'. apply_update_expression lib item (update_text [U_add [(n, v)]]) names vals = Some item' \<and>
      map_of item' = (map_of item)(n \<mapsto> AV_Ss cur') \<and> set cur' = set cur \<union> set delta \<and> distinct cur') \<and>
    (\<exists>item' cur'. apply_update_expression lib item (update_text [U_delete [(n, v)]]) names vals = Some item' \<and>
      map_of item' = (map_of item)(n := if set cur \<subseteq> set delta then None else Some (AV_Ss cur')) \<and>
      set cur' = set cur - set delta \<and> distinct cur')"
proof (intro conjI)
  have rn: "resolve_name n names = n" "resolve_value v vals = AV_Ss delta"
    using assms by (simp_all add: resolve_name_def resolve_value_def)
  have "apply_update_expression lib item (update_text [U_add [(n, v)]]) names vals =
      Some (AList.update n (AV_Ss (push_missing cur delta)) item)"
    using assms rn by (subst update_expression_eq) (simp_all add: add_attribute_def)
  then show "\<exists>item' cur'. apply_update_expression lib item (update_text [U_add [(n, v)]]) names vals = Some item' \<and>
      map_of item' = (map_of item)(n \<mapsto> AV_Ss cur') \<and> set cur' = set cur \<union> set delta \<and> distinct cur'"
    using assms(6) by (auto simp: update_conv' push_missing_set push_missing_distinct)
  let ?c = "filter (\<lambda>x. x \<notin> set delta) cur"
  have "apply_update_expression lib item (update_text [U_delete [(n, v)]]) names vals =
      Some (if ?c = [] then AList.delete n (AList.update n (AV_Ss ?c) item) else AList.update n (AV_Ss ?c) item)"
    using assms rn by (subst update_expression_eq) (simp_all add: delete_attribute_def)
  moreover have "?c = [] \<longleftrightarrow> set cur \<subseteq> set delta" by (auto simp: filter_empty_conv)
  ultimately show "\<exists>item' cur'. apply_update_expression lib item (update_text [U_delete [(n, v)]]) names vals = Some item' \<and>
      map_of item' = (map_of item)(n := if set cur \<subseteq> set delta then None else Some (AV_Ss cur')) \<and>
      set cur' = set cur - set delta \<and> distinct cur'"
    using assms(6) by (intro exI [of _ ?c] exI conjI) (auto simp: update_conv' delete_conv' fun_eq_iff)
qed

theorem set_update_algebra_witness:
  "\<exists>item' cur'. apply_update_expression int_lib [(''tags'', AV_Ss [''a'', ''b''])] (update_text [U_add [(''tags'', '':t'')]]) []
      [('':t'', AV_Ss [''b'', ''c''])] = Some item' \<and>
      map_of item' = (map_of [(''tags'', AV_Ss [''a'', ''b''])])(''tags'' \<mapsto> AV_Ss cur') \<and>
      set cur' = set [''a'', ''b''] \<union> set [''b'', ''c''] \<and> distinct cur'"
proof -
  have "token_ok ''tags''" "token_ok '':t''" by code_simp+
  then show ?thesis by (rule set_update_algebra [THEN conjunct1]) simp_all
qed

section \<open>Where the text is misread\<close>

text \<open>A keyword is recognised anywhere, also at the end of an attribute name: assigning to an attribute
  called ASSET creates an attribute with the empty name. An arithmetic right-hand side is not a
  placeholder and is stored as null.\<close>

theorem update_keyword_inside_name:
  "apply_update_expression int_lib [] ''SET ASSET = :v'' [] [('':v'', AV_S ''x'')] = Some [([], AV_S ''x'')] \<and>
   apply_update_expression int_lib [(''n'', AV_N ''1'')] ''SET n = n + :v'' [] [('':v'', AV_N ''1'')] =
     Some [(''n'', AV_Null)]"
  by (intro conjI) code_simp+

end
