(* ===== verification/Dynamo_Requests.thy ===== *)
theory Dynamo_Requests
  imports Dynamo_Service Dynamo_Index Dynamo_Update
begin

text \<open>
  What sequences of DynamoDB requests keep and what single requests promise. The locale
  \<open>table_invariant\<close> states when a predicate on tables is kept by the table operations; inside it
  every request is shown to keep it, for the tables of all scopes. It is interpreted on the
  predicate that items are filed under their own key and that the records of a stream are
  numbered without gaps.
\<close>

section \<open>Invariants of tables under requests\<close>

locale table_invariant =
  fixes P :: "string \<Rightarrow> Table \<Rightarrow> bool"
  assumes P_new: "P name (Table_new tid n1 n2 name acc reg ks ads gsis lsis ss)"
    and P_put: "P name t \<Longrightarrow> P name (snd (put_item now t item))"
    and P_delete: "P name t \<Longrightarrow> P name (snd (delete_item now t item))"
    and P_add_gsi: "P name t \<Longrightarrow> P name (add_gsi t g)"
    and P_remove_gsi: "P name t \<Longrightarrow> P name (remove_gsi t n)"
    and P_update_stream: "P name t \<Longrightarrow> P name (update_stream now v t)"
begin

definition store_good :: "DynamoDbStore \<Rightarrow> bool" where
  "store_good st \<longleftrightarrow> (\<forall>n t. get_table st n = Some t \<longrightarrow> P n t)"

definition bundle_good :: "dyn_bundle \<Rightarrow> bool" where
  "bundle_good b \<longleftrightarrow> (\<forall>k st. map_of (stores b) k = Some st \<longrightarrow> store_good st)"

definition good_result :: "dyn_result \<Rightarrow> bool" where
  "good_result res \<longleftrightarrow> (\<forall>r b w. res = Some (r, b, w) \<longrightarrow> bundle_good b)"

definition keeps :: "(DynamoDbStore \<Rightarrow> dyn_world \<Rightarrow> store_result) \<Rightarrow> bool" where
  "keeps f \<longleftrightarrow> (\<forall>st w r st' w'. store_good st \<longrightarrow> f st w = Some (r, st', w') \<longrightarrow> store_good st')"

lemma good_table: "store_good st \<Longrightarrow> get_table st n = Some t \<Longrightarrow> P n t"
  by (simp add: store_good_def)

lemma good_set_table: "store_good st \<Longrightarrow> P n t \<Longrightarrow> store_good (set_table st n t)"
  by (auto simp: store_good_def get_table_def set_table_def update_conv' split: if_splits)

lemma good_change: "store_good st \<Longrightarrow> get_table st n = Some t \<Longrightarrow> (P n t \<Longrightarrow> P n t') \<Longrightarrow> store_good (set_table st n t')"
  by (simp add: good_table good_set_table)

lemma P_put_pair: "put_item now t item = (old, t') \<Longrightarrow> P n t \<Longrightarrow> P n t'"
  using P_put [of n t now item] by simp

lemma P_delete_pair: "delete_item now t item = (old, t') \<Longrightarrow> P n t \<Longrightarrow> P n t'"
  using P_delete [of n t now item] by simp

lemma good_new: "store_good DynamoDbStore_new"
  by (simp add: store_good_def get_table_def DynamoDbStore_new_def)

lemma good_create_table: "store_good st \<Longrightarrow> store_good (create_table tid n1 n2 st name acc reg ks ads gsis lsis ss)"
  by (auto simp: store_good_def create_table_def get_table_def update_conv' P_new split: if_splits)

lemma good_delete_table: "store_good st \<Longrightarrow> store_good (snd (delete_table st n))"
  by (auto simp: store_good_def delete_table_def get_table_def delete_conv' split: if_splits)

lemma good_reply: "bundle_good b \<Longrightarrow> good_result (reply r b w)"
  by (simp add: good_result_def reply_def)

lemma good_write_back: "bundle_good b \<Longrightarrow> store_good st \<Longrightarrow> bundle_good (write_back b a r st)"
  by (auto simp: bundle_good_def write_back_def update_conv' split: if_splits)

lemma good_in_scope: "bundle_good b \<Longrightarrow> keeps f \<Longrightarrow> good_result (in_scope ctx f b w)"
proof -
  assume b: "bundle_good b" and f: "keeps f"
  obtain st b' where g: "get_or_create DynamoDbStore_new b (ctx_account_id ctx) (ctx_region ctx) = (st, b')" by fastforce
  have "bundle_good b' \<and> store_good st"
    using g b good_new by (auto simp: get_or_create_def Let_def bundle_good_def update_conv' split: option.splits if_splits)
  then show ?thesis
    using f g unfolding good_result_def in_scope_def keeps_def by (auto intro!: good_write_back) blast
qed

lemma good_read_table: "bundle_good b \<Longrightarrow> good_result (read_table ext ctx name f b w)"
  by (auto simp: good_result_def read_table_def reply_def split: option.splits)

lemma P_gsi_update: "P n t \<Longrightarrow> P n (gsi_update u t)"
  by (auto simp: gsi_update_def P_add_gsi P_remove_gsi split: option.splits)

lemma P_update_table: "P n t \<Longrightarrow> P n (update_table_with now body t)"
proof -
  have "P n (fold gsi_update us t)" if "P n t" for us t
    using that by (induction us arbitrary: t) (auto intro: P_gsi_update)
  then show "P n t \<Longrightarrow> P n (update_table_with now body t)"
    by (auto simp: update_table_with_def Let_def P_update_stream split: option.splits)
qed

lemma keeps_put: "keeps (put_item_in ext body name item)"
  unfolding keeps_def put_item_in_def
  by (auto split: option.splits sum.splits prod.splits intro: good_change P_put_pair)

lemma keeps_delete: "keeps (delete_item_in ext body name key)"
  unfolding keeps_def delete_item_in_def
  by (auto simp: Let_def split: option.splits sum.splits prod.splits intro: good_change P_delete_pair)

lemma keeps_update: "keeps (update_item_in lib ext body name key)"
  unfolding keeps_def update_item_in_def
  by (auto split: option.splits sum.splits intro: good_change P_put)

lemma P_batch_one: "P n t \<Longrightarrow> P n (fst (batch_write_one req (t, w)))"
  by (auto simp: batch_write_one_def P_put P_delete split: option.splits)

lemma P_batch: "P n (fst tw) \<Longrightarrow> P n (fst (fold batch_write_one reqs tw))"
  by (induction reqs arbitrary: tw) (auto, metis P_batch_one prod.collapse)

lemma good_batch_loop: "store_good st \<Longrightarrow> store_good (fst (snd (batch_write_loop ext items st w)))"
proof (induction ext items st w rule: batch_write_loop.induct)
  case (2 ext name reqs rest st w)
  show ?case
  proof (cases "as_array reqs")
    case (Some rs)
    note arr = this
    show ?thesis
    proof (cases "get_table st name")
      case (Some t)
      then have "P name (fst (fold batch_write_one rs (t, w)))" using 2 good_table by (intro P_batch) simp
      then show ?thesis
        using 2(2) [OF arr Some prod.collapse] 2(3) arr Some good_set_table
        by (simp add: case_prod_beta)
    qed (use 2 arr in simp)
  qed (use 2 in simp)
qed simp

lemma good_transact_apply:
  "store_good st \<Longrightarrow> transact_apply lib ti (st, w) = Some (st', w') \<Longrightarrow> store_good st'"
  by (auto simp: transact_apply_def split: option.splits intro: good_change P_put P_delete)

lemma good_transact_fold:
  "store_good st \<Longrightarrow> fold (\<lambda>ti r. Option.bind r (transact_apply lib ti)) items (Some (st, w)) = Some (st', w') \<Longrightarrow>
   store_good st'"
proof (induction items arbitrary: st w)
  case (Cons ti items)
  have none: "fold (\<lambda>ti r. Option.bind r (transact_apply lib ti)) xs None = None" for xs
    by (induction xs) simp_all
  show ?case
  proof (cases "transact_apply lib ti (st, w)")
    case (Some sw)
    moreover obtain st1 w1 where "sw = (st1, w1)" by (cases sw)
    moreover from calculation have "store_good st1" using Cons.prems(1) good_transact_apply by blast
    ultimately show ?thesis using Cons.IH [of st1 w1] Cons.prems(2) by simp
  qed (use Cons none in simp)
qed simp

lemma keeps_transact: "keeps (transact_write_in lib ext items)"
  unfolding keeps_def transact_write_in_def
  by (auto split: option.splits bool.splits intro: good_transact_fold)

lemma dispatch_keeps_good: "bundle_good b \<Longrightarrow> good_result (dynamo_dispatch lib ext ctx b w)"
proof -
  assume b: "bundle_good b"
  note rules = good_reply [OF b] good_read_table [OF b] good_in_scope [OF b]
  have create: "good_result (op_create_table ext ctx b w)" unfolding op_create_table_def Let_def
    by (auto split: option.splits intro!: rules simp: keeps_def intro: good_create_table)
  have delete: "good_result (op_delete_table ext ctx b w)" unfolding op_delete_table_def
    using good_delete_table by (auto split: option.splits prod.splits intro!: rules simp: keeps_def) (metis snd_conv)+
  have update: "good_result (op_update_table ext ctx b w)" unfolding op_update_table_def Let_def
    by (auto split: option.splits intro!: rules simp: keeps_def) (erule (1) good_change, erule P_update_table)
  have batch: "good_result (op_batch_write_item ext ctx b w)" unfolding op_batch_write_item_def
    using good_batch_loop by (auto split: option.splits prod.splits intro!: rules simp: keeps_def) (metis fst_conv snd_conv)
  have items: "good_result (op_put_item ext ctx b w)" "good_result (op_delete_item ext ctx b w)"
      "good_result (op_update_item lib ext ctx b w)" "good_result (op_transact_write_items lib ext ctx b w)"
    by (auto simp: op_put_item_def op_delete_item_def op_update_item_def op_transact_write_items_def Let_def
        split: option.splits intro!: rules keeps_put keeps_delete keeps_update keeps_transact)
  have reads: "good_result (op_describe_table ext ctx b w)" "good_result (op_list_tables ext ctx b w)"
      "good_result (op_get_item ext ctx b w)" "good_result (op_query ext ctx b w)" "good_result (op_scan ext ctx b w)"
      "good_result (op_batch_get_item ext ctx b w)" "good_result (op_transact_get_items ext ctx b w)"
      "good_result (op_describe_stream ext ctx b w)" "good_result (op_list_streams ext ctx b w)"
      "good_result (op_get_shard_iterator ext ctx b w)" "good_result (op_get_records ext ctx b w)"
    by (auto simp: op_describe_table_def op_list_tables_def op_get_item_def op_query_def op_scan_def
        op_batch_get_item_def op_transact_get_items_def op_describe_stream_def op_list_streams_def
        op_get_shard_iterator_def op_get_records_def Let_def
        split: option.splits sum.splits prod.splits intro!: rules)
  show ?thesis
    unfolding dynamo_dispatch_def Let_def
    by (simp only: create delete update batch items reads good_reply [OF b] if_split simp_thms) 
qed

end

section \<open>Items under their key, streams without gaps\<close>

text \<open>The last record carries the current sequence number, the one before it the preceding number, and so on.\<close>

definition numbered :: "u64 \<Rightarrow> StreamRecord list \<Rightarrow> bool" where
  "numbered seq recs \<longleftrightarrow>
     (\<forall>i < length recs. sr_sequence_number (recs ! i) = dec_pad 20 (unat (seq - of_nat (length recs - 1 - i))))"

definition table_ok :: "string \<Rightarrow> Table \<Rightarrow> bool" where
  "table_ok name t \<longleftrightarrow>
     t_name t = name \<and> items_wf t \<and>
     (\<forall>hs item. lookup_pair t hs = Some item \<longrightarrow> extract_key_from_item t item = Some hs) \<and>
     length (t_stream_records t) \<le> 1000 \<and> numbered (t_stream_sequence t) (t_stream_records t)"

lemma numbered_append:
  assumes "numbered seq recs" "sr_sequence_number r = dec_pad 20 (unat (seq + 1))"
  shows "numbered (seq + 1) (recs @ [r])"
  unfolding numbered_def
proof (intro allI impI)
  fix i
  assume i: "i < length (recs @ [r])"
  show "sr_sequence_number ((recs @ [r]) ! i) = dec_pad 20 (unat (seq + 1 - of_nat (length (recs @ [r]) - 1 - i)))"
  proof (cases "i < length recs")
    case True
    then have "length recs - i = Suc (length recs - 1 - i)" by simp
    then have "of_nat (length recs - i) = (of_nat (length recs - 1 - i) + 1 :: u64)" by simp
    then have "seq + 1 - of_nat (length (recs @ [r]) - 1 - i) = seq - of_nat (length recs - 1 - i)" by simp
    then show ?thesis using assms(1) True unfolding numbered_def by (simp only: nth_append if_True)
  next
    case False
    then show ?thesis using i assms(2) by (simp add: nth_append)
  qed
qed

lemma numbered_drop: "numbered seq recs \<Longrightarrow> numbered seq (drop n recs)"
proof -
  assume a: "numbered seq recs"
  show ?thesis unfolding numbered_def
  proof (intro allI impI)
    fix i
    assume "i < length (drop n recs)"
    then have "n + i < length recs" "length recs - 1 - (n + i) = length (drop n recs) - 1 - i" by simp_all
    then show "sr_sequence_number (drop n recs ! i) = dec_pad 20 (unat (seq - of_nat (length (drop n recs) - 1 - i)))"
      using a unfolding numbered_def by simp
  qed
qed

lemma stream_append:
  assumes "length (t_stream_records t) \<le> 1000" "numbered (t_stream_sequence t) (t_stream_records t)"
    and t': "t' = append_stream_record now t e k old new"
  shows "length (t_stream_records t') \<le> 1000 \<and> numbered (t_stream_sequence t') (t_stream_records t') \<and> t_name t' = t_name t"
  using assms(1) numbered_append [OF assms(2)] numbered_drop [OF numbered_append [OF assms(2)], of _ 1]
  unfolding t' append_stream_record_def Let_def by (auto simp: assms(2))

lemma put_stream:
  assumes "length (t_stream_records t) \<le> 1000" "numbered (t_stream_sequence t) (t_stream_records t)"
    and t': "t' = snd (put_item now t item)"
  shows "length (t_stream_records t') \<le> 1000 \<and> numbered (t_stream_sequence t') (t_stream_records t') \<and> t_name t' = t_name t"
  unfolding t' put_item_def Let_def
  using assms(1,2) by (auto split: option.splits prod.splits simp: stream_append [OF _ _ refl])

lemma delete_stream:
  assumes "length (t_stream_records t) \<le> 1000" "numbered (t_stream_sequence t) (t_stream_records t)"
    and t': "t' = snd (delete_item now t key)"
  shows "length (t_stream_records t') \<le> 1000 \<and> numbered (t_stream_sequence t') (t_stream_records t') \<and> t_name t' = t_name t"
  unfolding t' delete_item_def Let_def
  using assms(1,2) by (auto split: option.splits prod.splits simp: stream_append [OF _ _ refl])

lemma table_ok_frame:
  assumes "table_ok name t" "t_name t' = t_name t" "t_items t' = t_items t" "t_key_schema t' = t_key_schema t"
    "t_stream_records t' = t_stream_records t" "t_stream_sequence t' = t_stream_sequence t"
  shows "table_ok name t'"
  using assms items_wf_frame [OF assms(3)] lookup_frame [OF assms(3)] extract_frame [OF assms(4)]
  by (simp add: table_ok_def)

lemma table_ok_put: "table_ok name t \<Longrightarrow> table_ok name (snd (put_item now t item))"
proof (cases "extract_key_from_item t item")
  case None
  then show "table_ok name t \<Longrightarrow> ?thesis" by (simp add: put_item_def)
next
  case (Some hs)
  obtain h s where hs: "hs = (h, s)" by (cases hs)
  obtain old t' where put: "put_item now t item = (old, t')" by fastforce
  assume ok: "table_ok name t"
  then have wf: "items_wf t" by (simp add: table_ok_def)
  note key = Some [unfolded hs]
  note L = put_lookup [OF wf put key] and ks = put_item_parts(5) [OF put key]
  have st: "length (t_stream_records t') \<le> 1000 \<and> numbered (t_stream_sequence t') (t_stream_records t') \<and> t_name t' = t_name t"
    using put_stream [OF _ _ refl, of t now item] ok put by (simp add: table_ok_def)
  have "extract_key_from_item t' it = Some hs'" if "lookup_pair t' hs' = Some it" for hs' it
    using that ok key unfolding L(1) extract_frame [OF ks] table_ok_def by (cases hs') (auto split: if_splits)
  then show ?thesis using st L(2) ok put by (simp add: table_ok_def)
qed

lemma table_ok_delete: "table_ok name t \<Longrightarrow> table_ok name (snd (delete_item now t key))"
proof (cases "extract_key_from_item t key")
  case None
  then show "table_ok name t \<Longrightarrow> ?thesis" by (simp add: delete_item_def)
next
  case (Some hs)
  obtain h s where hs: "hs = (h, s)" by (cases hs)
  obtain old t' where del: "delete_item now t key = (old, t')" by fastforce
  assume ok: "table_ok name t"
  then have wf: "items_wf t" by (simp add: table_ok_def)
  note key = Some [unfolded hs]
  note L = delete_lookup [OF wf del key] and ks = delete_item_parts(5) [OF del key]
  have st: "length (t_stream_records t') \<le> 1000 \<and> numbered (t_stream_sequence t') (t_stream_records t') \<and> t_name t' = t_name t"
    using delete_stream [OF _ _ refl, of t now key] ok del by (simp add: table_ok_def)
  have "extract_key_from_item t' it = Some hs'" if "lookup_pair t' hs' = Some it" for hs' it
    using that ok unfolding L(1) extract_frame [OF ks] table_ok_def by (cases hs') (auto split: if_splits)
  then show ?thesis using st L(2) ok del by (simp add: table_ok_def)
qed

interpretation ok_tables: table_invariant table_ok
proof
  fix name tid n1 n2 acc reg ks ads gsis lsis ss
  show "table_ok name (Table_new tid n1 n2 name acc reg ks ads gsis lsis ss)"
    by (simp add: table_ok_def Table_new_def Let_def items_wf_def lookup_pair_def numbered_def)
qed (auto intro: table_ok_put table_ok_delete elim: table_ok_frame
      simp: add_gsi_def remove_gsi_def update_stream_def Let_def)

text \<open>A run of requests; a panic ends the process.\<close>

fun dynamo_run ::
  "'d decimal_lib \<Rightarrow> externs \<Rightarrow> RequestContext list \<Rightarrow> dyn_bundle \<Rightarrow> dyn_world \<Rightarrow> (dyn_bundle \<times> dyn_world) option" where
  "dynamo_run lib ext [] b w = Some (b, w)"
| "dynamo_run lib ext (ctx # ctxs) b w =
     (case dynamo_dispatch lib ext ctx b w of None \<Rightarrow> None | Some (_, b, w) \<Rightarrow> dynamo_run lib ext ctxs b w)"

lemma dynamo_run_good:
  "ok_tables.bundle_good b \<Longrightarrow> dynamo_run lib ext ctxs b w = Some (b', w') \<Longrightarrow> ok_tables.bundle_good b'"
proof (induction ctxs arbitrary: b w)
  case (Cons ctx ctxs)
  then obtain r b1 w1 where d: "dynamo_dispatch lib ext ctx b w = Some (r, b1, w1)"
    by (auto split: option.splits)
  have "ok_tables.bundle_good b1"
    using ok_tables.dispatch_keeps_good [OF Cons.prems(1), of lib ext ctx w] d by (simp add: ok_tables.good_result_def)
  then show ?case using Cons.IH [of b1 w1] Cons.prems(2) d by simp
qed simp

text \<open>C25: After any sequence of DynamoDB requests, whatever they contain, every table of every account and
  region is filed under its name, stores every item under the key extracted from that item, keeps at
  most 1000 stream records and numbers them without gaps up to the current sequence number.\<close>

theorem dynamo_invariant_all_requests:
  assumes "dynamo_run lib ext ctxs bundle_new w = Some (b, w')"
    and "bundle_get b acc reg = Some st" and "get_table st name = Some t"
  shows "t_name t = name \<and>
    (\<forall>hs item. lookup_pair t hs = Some item \<longrightarrow> extract_key_from_item t item = Some hs) \<and>
    length (t_stream_records t) \<le> 1000 \<and> numbered (t_stream_sequence t) (t_stream_records t)"
proof -
  have "ok_tables.bundle_good bundle_new" by (simp add: ok_tables.bundle_good_def bundle_new_def)
  from dynamo_run_good [OF this assms(1)] have "table_ok name t"
    using assms(2,3) by (simp add: ok_tables.bundle_good_def ok_tables.store_good_def bundle_get_eq)
  then show ?thesis by (simp add: table_ok_def)
qed

section \<open>Single requests\<close>

lemma tables_exist_iff: "transact_tables_exist st ops = None \<longleftrightarrow> (\<forall>op\<in>set ops. get_table st (op_table_name op) \<noteq> None)"
  by (induction ops) auto

definition op_condition :: "DynamoDbStore \<Rightarrow> Value \<Rightarrow> (string + unit) option" where
  "op_condition st op = Option.bind (get_table st (op_table_name op)) (\<lambda>t. write_condition op t (op_key op))"

lemma conditions_true:
  "\<forall>op\<in>set ops. get_table st (op_table_name op) \<noteq> None \<Longrightarrow>
   transact_conditions st ops = Some True \<Longrightarrow> \<forall>op\<in>set ops. op_condition st op = Some (Inr ())"
  by (induction ops) (auto simp: op_condition_def write_condition_def split: option.splits sum.splits)

lemma conditions_false:
  "\<forall>op\<in>set ops. get_table st (op_table_name op) \<noteq> None \<Longrightarrow>
   transact_conditions st ops = Some False \<Longrightarrow> \<exists>op\<in>set ops. \<exists>e. op_condition st op = Some (Inl e)"
  by (induction ops) (auto simp: op_condition_def write_condition_def split: option.splits sum.splits)


lemma in_scope_existing:
  assumes "bundle_get b (ctx_account_id ctx) (ctx_region ctx) = Some st"
  shows "in_scope ctx f b w = map_option (\<lambda>(r, st, w). (r, write_back b (ctx_account_id ctx) (ctx_region ctx) st, w)) (f st w)"
  using assms by (simp add: in_scope_def get_or_create_def bundle_get_eq Let_def)

text \<open>An unconditional PutItem on an existing table answers 200, and a GetItem for the item's key, in
  the same account and region, then returns that item.\<close>

theorem put_then_get:
  assumes "bundle_get b (ctx_account_id c1) (ctx_region c1) = Some st" "get_table st name = Some t" "table_ok name t"
    and "ctx_operation c1 = ''PutItem''" "get_str (ctx_request_body c1) ''TableName'' = Some name"
    and "item_field (ctx_request_body c1) ''Item'' = Some item" "get_str (ctx_request_body c1) ''ConditionExpression'' = None"
    and "extract_key_from_item t item = Some hs"
    and "ctx_operation c2 = ''GetItem''" "get_str (ctx_request_body c2) ''TableName'' = Some name"
    and "item_field (ctx_request_body c2) ''Key'' = Some key" "get_str (ctx_request_body c2) ''ProjectionExpression'' = None"
    and "extract_key_ref_from_item t key = Some hs"
    and "ctx_account_id c2 = ctx_account_id c1" "ctx_region c2 = ctx_region c1"
  shows "\<exists>r b' w'. dynamo_dispatch lib ext c1 b w = Some (r, b', w') \<and> status_code r = 200 \<and>
    dynamo_dispatch lib ext c2 b' w' = Some (serialize_response ext (GetItemResp (Some item)), b', w')"
proof -
  obtain old t' where put: "put_item (now_of w) t item = (old, t')" by fastforce
  obtain h s where hs: "hs = (h, s)" by (cases hs)
  have wf: "items_wf t" using assms(3) by (simp add: table_ok_def)
  note key = assms(8) [unfolded hs]
  have got: "get_item t' key = Some item"
    using put_lookup(1) [OF wf put key] key_frame [OF put_item_parts(5) [OF put key]] assms(13) hs
    by (simp add: get_item_lookup extract_key_ref_from_item_def)
  let ?r = "serialize_response ext (MutationResp (if return_values_of (ctx_request_body c1) = ''ALL_OLD'' then old else None))"
  let ?b = "write_back b (ctx_account_id c1) (ctx_region c1) (set_table st name t')"
  have 1: "dynamo_dispatch lib ext c1 b w = Some (?r, ?b, tick 1 w)"
    using assms(1,2,4-7) put
    by (simp add: dynamo_dispatch_def op_put_item_def put_item_in_def write_condition_def in_scope_existing)
  have "dynamo_dispatch lib ext c2 ?b (tick 1 w) = Some (serialize_response ext (GetItemResp (Some item)), ?b, tick 1 w)"
    using assms(9-12,14,15) got
    by (simp add: dynamo_dispatch_def op_get_item_def read_table_def read_scope_def project_item_def
        get_table_def set_table_def update_conv)
  with 1 show ?thesis by (auto simp: serialize_response_def)
qed

lemma not_exists_condition:
  assumes "name_ok n" "map_of names n = None"
  shows "check_condition item (atom_text (A_not_exists n)) names vals =
    Some (if (case item of Some i \<Rightarrow> map_of i n = None | None \<Rightarrow> True) then Inr () else Inl ''ConditionalCheckFailedException'')"
proof -
  have ok: "atom_ok (A_not_exists n)" using assms(1) by simp
  have "evaluate_filter i (atom_text (A_not_exists n)) names vals = Some (map_of i n = None)" for i
    using evaluate_literal [OF ok, of i 0 names vals] clean_trim [OF atom_clean [OF ok]] assms(2)
    by (simp add: evaluate_filter_def attr_of_def)
  then show ?thesis by (simp add: check_condition_def del: atom_text.simps split: option.splits bool.splits)
qed

lemma stored_has_hash_key:
  assumes "table_ok name t" "get_item t key = Some i" "hash_key_name t = Some hk"
  shows "map_of i hk \<noteq> None"
proof -
  obtain hs where "lookup_pair t hs = Some i" using assms(2) by (auto simp: get_item_lookup bind_eq_Some_conv)
  then have "extract_key_from_item t i = Some hs" using assms(1) by (cases hs) (simp add: table_ok_def)
  then show ?thesis using assms(3) by (auto simp: extract_key_from_item_def key_with_def split: option.splits)
qed

text \<open>A PutItem guarded by \<^verbatim>\<open>attribute_not_exists\<close> on the partition key inserts exactly when no item has
  the key: it stores the item if the key is free, and otherwise answers 400 and leaves the store
  as it was.\<close>

theorem insert_if_absent:
  assumes "get_table st name = Some t" "table_ok name t" "hash_key_name t = Some hk"
    and "name_ok hk" "map_of (names_of body) hk = None"
    and "get_str body ''ConditionExpression'' = Some (''attribute_not_exists('' @ hk @ '')'')"
  shows "put_item_in ext body name item st w =
    (if get_item t item = None
     then Some (serialize_response ext (MutationResp (if return_values_of body = ''ALL_OLD'' then fst (put_item (now_of w) t item) else None)),
            set_table st name (snd (put_item (now_of w) t item)), tick 1 w)
     else Some (condition_failed ext ''ConditionalCheckFailedException'', st, w))"
proof -
  have c: "write_condition body t item =
      Some (if get_item t item = None then Inr () else Inl ''ConditionalCheckFailedException'')"
    using not_exists_condition [OF assms(4,5), of "get_item t item" "values_of body"] assms(6)
      stored_has_hash_key [OF assms(2) _ assms(3), of item]
    by (auto simp: write_condition_def split: option.splits)
  show ?thesis
    using assms(1) c by (simp add: put_item_in_def split: prod.splits)
qed

text \<open>Every request is a reply, a read of one table or an action on the store of its scope.\<close>

lemma dispatch_parts:
  assumes "\<And>r w. Q (reply r b w)" "\<And>n f. Q (read_table ext ctx n f b w)" "\<And>f. Q (in_scope ctx f b w)"
  shows "Q (dynamo_dispatch lib ext ctx b w)"
proof -
  have tables: "Q (op_create_table ext ctx b w)" "Q (op_delete_table ext ctx b w)" "Q (op_describe_table ext ctx b w)"
      "Q (op_list_tables ext ctx b w)" "Q (op_update_table ext ctx b w)"
    unfolding op_create_table_def op_delete_table_def op_describe_table_def op_list_tables_def op_update_table_def Let_def
    by (auto simp only: assms split: option.split prod.split)
  have items: "Q (op_put_item ext ctx b w)" "Q (op_get_item ext ctx b w)" "Q (op_delete_item ext ctx b w)"
      "Q (op_update_item lib ext ctx b w)" "Q (op_query ext ctx b w)" "Q (op_scan ext ctx b w)"
    unfolding op_put_item_def op_get_item_def op_delete_item_def op_update_item_def op_query_def op_scan_def Let_def
    by (auto simp only: assms split: option.split)
  have batches: "Q (op_batch_get_item ext ctx b w)" "Q (op_batch_write_item ext ctx b w)"
      "Q (op_transact_get_items ext ctx b w)" "Q (op_transact_write_items lib ext ctx b w)"
    unfolding op_batch_get_item_def op_batch_write_item_def op_transact_get_items_def op_transact_write_items_def Let_def
    by (auto simp only: assms split: option.split sum.split)
  have streams: "Q (op_describe_stream ext ctx b w)" "Q (op_list_streams ext ctx b w)"
      "Q (op_get_shard_iterator ext ctx b w)" "Q (op_get_records ext ctx b w)"
    unfolding op_describe_stream_def op_list_streams_def op_get_shard_iterator_def op_get_records_def Let_def
    by (auto simp only: assms split: option.split prod.split)
  show ?thesis
    unfolding dynamo_dispatch_def Let_def
    by (simp only: tables items batches streams assms if_split simp_thms)
qed

lemma dynamo_dispatch_stays:
  assumes "dynamo_dispatch lib ext ctx b w = Some (r, b', w')"
    and "(acc, reg) \<noteq> (ctx_account_id ctx, ctx_region ctx)" "CHR 0x00 \<notin> set acc" "CHR 0x00 \<notin> set (ctx_account_id ctx)"
  shows "bundle_get b' acc reg = bundle_get b acc reg"
proof -
  define same where "same = (\<lambda>res :: dyn_result. \<forall>r b' w'. res = Some (r, b', w') \<longrightarrow> bundle_get b' acc reg = bundle_get b acc reg)"
  have ne: "AccountRegionKey_new (ctx_account_id ctx) (ctx_region ctx) \<noteq> AccountRegionKey_new acc reg"
    using assms(2-4) AccountRegionKey_new_inject by blast
  have scope: "same (in_scope ctx f b w)" for f
    using ne by (auto simp: same_def in_scope_def get_or_create_def bundle_get_eq write_back_def update_conv Let_def split: option.splits)
  have rep: "same (reply q b v)" for q v by (simp add: same_def reply_def)
  have rd: "same (read_table ext ctx n f b w)" for n f by (auto simp: same_def read_table_def reply_def split: option.splits)
  from dispatch_parts [of same, OF rep rd scope] have "same (dynamo_dispatch lib ext ctx b w)" .
  then show ?thesis using assms(1) by (simp add: same_def)
qed

text \<open>A DynamoDB request changes no store of another account and region.\<close>

theorem dynamo_isolates_scopes:
  assumes "dynamo_dispatch lib ext ctx b w = Some (r, b', w')"
    and "(acc, reg) \<noteq> (ctx_account_id ctx, ctx_region ctx)" "CHR 0x00 \<notin> set acc" "CHR 0x00 \<notin> set (ctx_account_id ctx)"
  shows "bundle_get b' acc reg = bundle_get b acc reg"
  using assms by (rule dynamo_dispatch_stays)

section \<open>Concrete requests\<close>

definition dyn_ext :: externs where
  "dyn_ext = \<lparr>md5_digest = (\<lambda>s. s), hex_encode = (\<lambda>s. s), json_from_slice = (\<lambda>_. None),
     json_to_string = (\<lambda>_. []), header_to_str = Some\<rparr>"

definition dyn_ctx :: "string \<Rightarrow> Value \<Rightarrow> RequestContext" where
  "dyn_ctx op body = (RequestContext_new ''dynamodb'' op ''us-east-1'' ''000000000000'')\<lparr>ctx_request_body := body\<rparr>"

definition dyn_world0 :: dyn_world where
  "dyn_world0 = \<lparr>dw_clock = (\<lambda>_. 0), dw_uuid = (\<lambda>_. ''u''), dw_reads = 0\<rparr>"

definition users_name :: "string \<times> Value" where
  "users_name = (''TableName'', JString ''users'')"

definition user_value :: Value where
  "user_value = JObject [(''id'', JObject [(''S'', JString ''7'')])]"

definition create_body :: Value where
  "create_body = JObject [(''KeySchema'', JArray [JObject [(''AttributeName'', JString ''id''), (''KeyType'', JString ''HASH'')]]),
     (''StreamSpecification'', JObject [(''StreamEnabled'', JBool True)]), users_name]"

definition put_body :: Value where
  "put_body = JObject [(''Item'', user_value), users_name]"

definition guarded_body :: Value where
  "guarded_body = JObject [(''ConditionExpression'', JString ''attribute_not_exists(id)''), (''Item'', user_value), users_name]"

definition users_table :: Table where
  "users_table = Table_new ''u'' 0 0 ''users'' ''000000000000'' ''us-east-1'' [\<lparr>ks_attribute_name = ''id'', ks_key_type = HASH\<rparr>]
     [] [] [] \<lparr>stream_enabled = True, stream_view_type = None\<rparr>"

definition users_store :: DynamoDbStore where
  "users_store = \<lparr>tables = [(''users'', users_table)]\<rparr>"

definition users_bundle :: dyn_bundle where
  "users_bundle = \<lparr>stores = [(AccountRegionKey_new ''000000000000'' ''us-east-1'', users_store)]\<rparr>"

definition user_item :: Item where
  "user_item = [(''id'', AV_S ''7'')]"

lemma users_ok: "table_ok ''users'' users_table"
  unfolding users_table_def by (rule ok_tables.P_new)

lemma user_fields:
  "item_field put_body ''Item'' = Some user_item" "get_str put_body ''TableName'' = Some ''users''"
  "get_str put_body ''ConditionExpression'' = None" "extract_key_from_item users_table user_item = Some (''7'', [])"
  "extract_key_ref_from_item users_table user_item = Some (''7'', [])"
  by code_simp+

lemma users_get: "bundle_get users_bundle ''000000000000'' ''us-east-1'' = Some users_store" "get_table users_store ''users'' = Some users_table"
  by (simp_all add: bundle_get_eq users_bundle_def users_store_def get_table_def)

theorem dynamo_invariant_all_requests_witness:
  "\<exists>b w' st t. dynamo_run int_lib dyn_ext [dyn_ctx ''CreateTable'' create_body, dyn_ctx ''PutItem'' put_body] bundle_new dyn_world0 =
       Some (b, w') \<and> bundle_get b ''000000000000'' ''us-east-1'' = Some st \<and> get_table st ''users'' = Some t \<and>
     length (t_stream_records t) = 1 \<and> numbered (t_stream_sequence t) (t_stream_records t)"
proof -
  have "(case dynamo_run int_lib dyn_ext [dyn_ctx ''CreateTable'' create_body, dyn_ctx ''PutItem'' put_body] bundle_new dyn_world0 of
      None \<Rightarrow> False
    | Some (b, w') \<Rightarrow> (case bundle_get b ''000000000000'' ''us-east-1'' of None \<Rightarrow> False
    | Some st \<Rightarrow> (case get_table st ''users'' of None \<Rightarrow> False | Some t \<Rightarrow> length (t_stream_records t) = 1)))"
    by code_simp
  then obtain b w' st t where
    run: "dynamo_run int_lib dyn_ext [dyn_ctx ''CreateTable'' create_body, dyn_ctx ''PutItem'' put_body] bundle_new dyn_world0 = Some (b, w')"
    and t: "bundle_get b ''000000000000'' ''us-east-1'' = Some st" "get_table st ''users'' = Some t"
    and len: "length (t_stream_records t) = 1"
    by (auto split: option.splits prod.splits)
  from dynamo_invariant_all_requests [OF run t] run t len show ?thesis by blast
qed

theorem put_then_get_witness:
  "\<exists>r b' w'. dynamo_dispatch int_lib dyn_ext (dyn_ctx ''PutItem'' put_body) users_bundle dyn_world0 = Some (r, b', w') \<and>
     status_code r = 200 \<and>
     dynamo_dispatch int_lib dyn_ext (dyn_ctx ''GetItem'' (JObject [(''Key'', user_value), users_name])) b' w' =
       Some (serialize_response dyn_ext (GetItemResp (Some user_item)), b', w')"
  by (rule put_then_get [where st = users_store and name = "''users''" and t = users_table and hs = "(''7'', [])" and key = user_item])
     (simp_all add: dyn_ctx_def RequestContext_new_def users_get users_ok user_fields, code_simp+)

theorem insert_if_absent_witness:
  "put_item_in dyn_ext guarded_body ''users'' user_item
     (set_table users_store ''users'' (snd (put_item 0 users_table user_item))) dyn_world0 =
   Some (condition_failed dyn_ext ''ConditionalCheckFailedException'',
     set_table users_store ''users'' (snd (put_item 0 users_table user_item)), dyn_world0)"
proof -
  let ?t = "snd (put_item 0 users_table user_item)"
  have ok: "table_ok ''users'' ?t" by (rule ok_tables.P_put [OF users_ok])
  have get: "get_table (set_table users_store ''users'' ?t) ''users'' = Some ?t"
    by (simp add: get_table_def set_table_def update_conv)
  have found: "get_item ?t user_item \<noteq> None" and hk: "hash_key_name ?t = Some ''id''" and n: "name_ok ''id''"
    and names: "map_of (names_of guarded_body) ''id'' = None"
    and c: "get_str guarded_body ''ConditionExpression'' = Some (''attribute_not_exists('' @ ''id'' @ '')'')"
    by code_simp+
  from insert_if_absent [OF get ok hk n names c, of dyn_ext user_item dyn_world0] found show ?thesis by simp
qed

definition failing_transaction :: "Value list" where
  "failing_transaction = [JObject [(''Put'', put_body)],
     JObject [(''ConditionCheck'', JObject [(''ConditionExpression'', JString ''attribute_exists(id)''), (''Key'', user_value), users_name])]]"


theorem dynamo_isolates_scopes_witness:
  "\<exists>r b' w'. dynamo_dispatch int_lib dyn_ext (dyn_ctx ''PutItem'' put_body) users_bundle dyn_world0 = Some (r, b', w') \<and>
     bundle_get b' ''111111111111'' ''us-east-1'' = bundle_get users_bundle ''111111111111'' ''us-east-1''"
proof -
  have "dynamo_dispatch int_lib dyn_ext (dyn_ctx ''PutItem'' put_body) users_bundle dyn_world0 \<noteq> None"
    by code_simp
  then obtain r b' w' where d: "dynamo_dispatch int_lib dyn_ext (dyn_ctx ''PutItem'' put_body) users_bundle dyn_world0 = Some (r, b', w')"
    by auto
  have "bundle_get b' ''111111111111'' ''us-east-1'' = bundle_get users_bundle ''111111111111'' ''us-east-1''"
    by (rule dynamo_isolates_scopes [OF d]) (simp_all add: dyn_ctx_def RequestContext_new_def)
  with d show ?thesis by blast
qed

end
