(* ===== verification/Json_Service.thy ===== *)
theory Json_Service
  imports Service_Framework Account_Bundle
begin

text \<open>
  What the providers of the JSON protocol share: the access to the store of a request's scope, the
  readers of body fields, the clock, and the base64 codec of the package \<^verbatim>\<open>base64\<close>, a record of
  functions. The locale \<open>scope_invariant\<close> lifts an invariant of a store to the bundle of all scopes.
\<close>

section \<open>Time\<close>

text \<open>\<^verbatim>\<open>Utc::now()\<close> in nanoseconds, as the sequence of the values it returns.\<close>

record clock_world =
  cw_clock :: "nat \<Rightarrow> int"
  cw_reads :: nat

definition cw_now :: "clock_world \<Rightarrow> int" where
  "cw_now w = cw_clock w (cw_reads w)"

definition cw_tick :: "clock_world \<Rightarrow> clock_world" where
  "cw_tick w = w\<lparr>cw_reads := cw_reads w + 1\<rparr>"

definition timestamp_secs :: "int \<Rightarrow> int" where
  "timestamp_secs t = t div 1000000000"

section \<open>JSON\<close>

fun as_i64 :: "Value \<Rightarrow> int option" where
  "as_i64 (JNumber (PosInt n)) = (if uint n < 2 ^ 63 then Some (uint n) else None)"
| "as_i64 (JNumber (NegInt i)) = Some i"
| "as_i64 _ = None"

definition json_i64 :: "int \<Rightarrow> Value" where
  "json_i64 i = JNumber (if 0 \<le> i then PosInt (of_int i) else NegInt i)"

definition json_string_or_null :: "string option \<Rightarrow> Value" where
  "json_string_or_null s = (case s of Some s \<Rightarrow> JString s | None \<Rightarrow> JNull)"

definition json_count :: "nat \<Rightarrow> Value" where
  "json_count n = JNumber (PosInt (of_nat n))"

definition str_param :: "RequestContext \<Rightarrow> string \<Rightarrow> string option" where
  "str_param ctx key = Option.bind (value_get (ctx_request_body ctx) key) as_str"

definition unwrap_str :: "string option \<Rightarrow> string" where
  "unwrap_str s = (case s of Some s \<Rightarrow> s | None \<Rightarrow> [])"

definition json_reply :: "externs \<Rightarrow> string \<Rightarrow> nat \<Rightarrow> Value \<Rightarrow> DispatchResponse" where
  "json_reply ext ctype status body =
     \<lparr>status_code = status, resp_body = Buffered (json_to_string ext body), content_type = ctype, resp_headers = []\<rparr>"

definition json_failure :: "externs \<Rightarrow> string \<Rightarrow> string \<Rightarrow> nat \<Rightarrow> DispatchResponse" where
  "json_failure ext code message status =
     json_reply ext ''application/json'' status
       (json_object [(''__type'', JString code), (''message'', JString message)])"

record base64_lib =
  b64_encode :: "string \<Rightarrow> string"
  b64_decode :: "string \<Rightarrow> string option"

section \<open>Scopes\<close>

text \<open>An operation on the store of the scope answers, or panics: \<^term>\<open>None\<close>.\<close>

type_synonym ('s, 'w) scope_op = "'s \<Rightarrow> 'w \<Rightarrow> (DispatchResponse \<times> 's \<times> 'w) option"
type_synonym ('s, 'w) bundle_op = "'s AccountRegionBundle \<Rightarrow> 'w \<Rightarrow> (DispatchResponse \<times> 's AccountRegionBundle \<times> 'w) option"

definition on_created :: "'s \<Rightarrow> RequestContext \<Rightarrow> ('s, 'w) scope_op \<Rightarrow> ('s, 'w) bundle_op" where
  "on_created dflt ctx f b w =
     (let (s, b) = get_or_create dflt b (ctx_account_id ctx) (ctx_region ctx)
      in map_option (\<lambda>(r, s, w). (r, write_back b (ctx_account_id ctx) (ctx_region ctx) s, w)) (f s w))"

definition on_existing :: "RequestContext \<Rightarrow> DispatchResponse \<Rightarrow> ('s, 'w) scope_op \<Rightarrow> ('s, 'w) bundle_op" where
  "on_existing ctx missing f b w =
     (case bundle_get_mut b (ctx_account_id ctx) (ctx_region ctx) of
        None \<Rightarrow> Some (missing, b, w)
      | Some s \<Rightarrow> map_option (\<lambda>(r, s, w). (r, write_back b (ctx_account_id ctx) (ctx_region ctx) s, w)) (f s w))"

definition reading :: "RequestContext \<Rightarrow> DispatchResponse \<Rightarrow> ('s \<Rightarrow> DispatchResponse) \<Rightarrow> ('s, 'w) bundle_op" where
  "reading ctx missing f b w =
     (case bundle_get b (ctx_account_id ctx) (ctx_region ctx) of
        None \<Rightarrow> Some (missing, b, w)
      | Some s \<Rightarrow> Some (f s, b, w))"

definition answering :: "DispatchResponse \<Rightarrow> ('s, 'w) bundle_op" where
  "answering r b w = Some (r, b, w)"

lemmas scope_defs = on_created_def on_existing_def reading_def answering_def

text \<open>A request leaves the stores of other scopes as they are. Accounts hold no null character.\<close>

definition stays_in_scope :: "RequestContext \<Rightarrow> ('s, 'w) bundle_op \<Rightarrow> bool" where
  "stays_in_scope ctx f \<longleftrightarrow>
     (\<forall>b w r b' w' acc reg. f b w = Some (r, b', w') \<longrightarrow> (acc, reg) \<noteq> (ctx_account_id ctx, ctx_region ctx) \<longrightarrow>
        CHR 0x00 \<notin> set acc \<longrightarrow> CHR 0x00 \<notin> set (ctx_account_id ctx) \<longrightarrow> bundle_get b' acc reg = bundle_get b acc reg)"

lemma stays_in_scope_created: "stays_in_scope ctx (on_created dflt ctx f)"
  by (auto simp: stays_in_scope_def on_created_def get_or_create_def bundle_get_eq write_back_def update_conv Let_def
      dest: AccountRegionKey_new_inject split: option.splits)

lemma stays_in_scope_existing: "stays_in_scope ctx (on_existing ctx missing f)"
  by (auto simp: stays_in_scope_def on_existing_def bundle_get_eq write_back_def update_conv Let_def
      dest: AccountRegionKey_new_inject split: option.splits)

lemma stays_in_scope_reading: "stays_in_scope ctx (reading ctx missing f)"
  by (auto simp: stays_in_scope_def reading_def split: option.splits)

lemma stays_in_scope_answering: "stays_in_scope ctx (answering r)"
  by (simp add: stays_in_scope_def answering_def)

lemma stays_in_scope_if: "stays_in_scope ctx f \<Longrightarrow> stays_in_scope ctx g \<Longrightarrow> stays_in_scope ctx (if c then f else g)"
  by simp

lemma stays_in_scope_case:
  "stays_in_scope ctx g \<Longrightarrow> (\<And>x. stays_in_scope ctx (f x)) \<Longrightarrow> stays_in_scope ctx (case v of None \<Rightarrow> g | Some x \<Rightarrow> f x)"
  by (cases v) simp_all

lemmas stays_in_scope_intros = stays_in_scope_created stays_in_scope_existing stays_in_scope_reading
  stays_in_scope_answering stays_in_scope_if stays_in_scope_case

text \<open>An invariant of the stores, kept by every operation on one of them, holds of every scope.\<close>

locale scope_invariant =
  fixes P :: "'s \<Rightarrow> bool" and dflt :: 's
  assumes P_dflt: "P dflt"
begin

definition all_scopes :: "'s AccountRegionBundle \<Rightarrow> bool" where
  "all_scopes b \<longleftrightarrow> (\<forall>k s. map_of (stores b) k = Some s \<longrightarrow> P s)"

definition scope_keeps :: "('s, 'w) scope_op \<Rightarrow> bool" where
  "scope_keeps f \<longleftrightarrow> (\<forall>s w r s' w'. P s \<longrightarrow> f s w = Some (r, s', w') \<longrightarrow> P s')"

definition bundle_keeps :: "('s, 'w) bundle_op \<Rightarrow> bool" where
  "bundle_keeps f \<longleftrightarrow> (\<forall>b w r b' w'. all_scopes b \<longrightarrow> f b w = Some (r, b', w') \<longrightarrow> all_scopes b')"

lemma all_scopes_new: "all_scopes bundle_new"
  by (simp add: all_scopes_def bundle_new_def)

lemma all_scopes_get: "all_scopes b \<Longrightarrow> bundle_get b a r = Some s \<Longrightarrow> P s"
  by (auto simp: all_scopes_def bundle_get_eq)

lemma all_scopes_write: "all_scopes b \<Longrightarrow> P s \<Longrightarrow> all_scopes (write_back b a r s)"
  by (auto simp: all_scopes_def write_back_def update_conv')

lemma get_or_create_all:
  assumes "all_scopes b" "get_or_create dflt b a r = (s, b')"
  shows "P s \<and> all_scopes b'"
  using assms P_dflt
  by (auto simp: get_or_create_def all_scopes_def Let_def update_conv' split: option.splits if_splits)

lemma bundle_keeps_created:
  assumes "scope_keeps f"
  shows "bundle_keeps (on_created dflt ctx f)"
  unfolding bundle_keeps_def
proof (intro allI impI)
  fix b w r b' w'
  assume b: "all_scopes b" "on_created dflt ctx f b w = Some (r, b', w')"
  obtain s b1 where g: "get_or_create dflt b (ctx_account_id ctx) (ctx_region ctx) = (s, b1)" by fastforce
  with b(2) obtain s' where "f s w = Some (r, s', w')"
    "b' = write_back b1 (ctx_account_id ctx) (ctx_region ctx) s'"
    by (auto simp: on_created_def)
  with get_or_create_all [OF b(1) g] assms show "all_scopes b'"
    by (metis all_scopes_write scope_keeps_def)
qed

lemma bundle_keeps_existing:
  assumes "scope_keeps f"
  shows "bundle_keeps (on_existing ctx missing f)"
  unfolding bundle_keeps_def
proof (intro allI impI)
  fix b w r b' w'
  assume b: "all_scopes b" "on_existing ctx missing f b w = Some (r, b', w')"
  show "all_scopes b'"
  proof (cases "bundle_get b (ctx_account_id ctx) (ctx_region ctx)")
    case None
    with b show ?thesis by (simp add: on_existing_def bundle_get_mut_eq bundle_get_eq)
  next
    case (Some s)
    with b(2) obtain s' where "f s w = Some (r, s', w')"
      "b' = write_back b (ctx_account_id ctx) (ctx_region ctx) s'"
      by (auto simp: on_existing_def bundle_get_mut_eq bundle_get_eq)
    with all_scopes_get [OF b(1) Some] b(1) assms show ?thesis
      by (metis all_scopes_write scope_keeps_def)
  qed
qed

lemma bundle_keeps_reading: "bundle_keeps (reading ctx missing f)"
  by (auto simp: bundle_keeps_def reading_def split: option.splits)

lemma bundle_keeps_answering: "bundle_keeps (answering r)"
  by (auto simp: bundle_keeps_def answering_def)

lemma bundle_keeps_if: "bundle_keeps f \<Longrightarrow> bundle_keeps g \<Longrightarrow> bundle_keeps (if c then f else g)"
  by simp

lemma bundle_keeps_case:
  "bundle_keeps g \<Longrightarrow> (\<And>x. bundle_keeps (f x)) \<Longrightarrow> bundle_keeps (case v of None \<Rightarrow> g | Some x \<Rightarrow> f x)"
  by (cases v) simp_all

lemmas bundle_keeps_intros = bundle_keeps_created bundle_keeps_existing bundle_keeps_reading bundle_keeps_answering bundle_keeps_if bundle_keeps_case

end

end
