(* ===== verification/Kinesis_Service.thy ===== *)
theory Kinesis_Service
  imports Json_Service
begin

text \<open>
  The Kinesis service: the store of \<^verbatim>\<open>services/kinesis/src/store.rs\<close> and the provider of
  \<^verbatim>\<open>services/kinesis/src/provider.rs\<close>, one definition per arm of its dispatch. The hash of a partition
  key, \<^verbatim>\<open>DefaultHasher\<close> of the standard library, has no specified algorithm: it is the argument
  \<open>hash_string\<close>. A remainder by zero panics and is \<^term>\<open>None\<close>.
\<close>

section \<open>Store\<close>

datatype ShardIteratorType = TrimHorizon | Latest | AtSequenceNumber | AfterSequenceNumber | AtTimestamp

definition parse_iterator_type :: "string \<Rightarrow> ShardIteratorType" where
  "parse_iterator_type s =
     (if s = ''LATEST'' then Latest
      else if s = ''AT_SEQUENCE_NUMBER'' then AtSequenceNumber
      else if s = ''AFTER_SEQUENCE_NUMBER'' then AfterSequenceNumber
      else if s = ''AT_TIMESTAMP'' then AtTimestamp
      else TrimHorizon)"

record KinesisRecord =
  kr_sequence_number :: string
  kr_partition_key :: string
  kr_data :: string
  kr_arrival :: int

record Shard =
  sh_id :: string
  sh_records :: "KinesisRecord list"
  sh_sequence_counter :: u64
  sh_is_open :: bool
  sh_parent :: "string option"
  sh_adjacent_parent :: "string option"

definition Shard_new :: "string \<Rightarrow> Shard" where
  "Shard_new shard_id =
     \<lparr>sh_id = shard_id, sh_records = [], sh_sequence_counter = 0, sh_is_open = True,
      sh_parent = None, sh_adjacent_parent = None\<rparr>"

definition sequence_text :: "u64 \<Rightarrow> string" where
  "sequence_text n = dec_pad 49 (unat n)"

definition next_sequence_number :: "Shard \<Rightarrow> string \<times> Shard" where
  "next_sequence_number s =
     (let n = sh_sequence_counter s + 1 in (sequence_text n, s\<lparr>sh_sequence_counter := n\<rparr>))"

datatype StreamStatus = Creating | Active | Updating | Deleting

fun stream_status_str :: "StreamStatus \<Rightarrow> string" where
  "stream_status_str Creating = ''CREATING''"
| "stream_status_str Active = ''ACTIVE''"
| "stream_status_str Updating = ''UPDATING''"
| "stream_status_str Deleting = ''DELETING''"

record KinesisStream =
  ks_name :: string
  ks_arn :: string
  ks_status :: StreamStatus
  ks_shard_count :: nat
  ks_retention_period_hours :: int
  ks_created :: int
  ks_shards :: "Shard list"
  ks_shard_id_counter :: u64
  ks_tags :: "(string, string) hash_map"

definition shard_id_text :: "u64 \<Rightarrow> string" where
  "shard_id_text n = ''shardId-'' @ dec_pad 12 (unat n)"

definition KinesisStream_new :: "int \<Rightarrow> string \<Rightarrow> string \<Rightarrow> u64 \<Rightarrow> KinesisStream" where
  "KinesisStream_new now name arn shard_count =
     \<lparr>ks_name = name, ks_arn = arn, ks_status = Active, ks_shard_count = unat shard_count,
      ks_retention_period_hours = 24, ks_created = now,
      ks_shards = map (\<lambda>i. Shard_new (shard_id_text (of_nat i))) [0..<unat shard_count],
      ks_shard_id_counter = shard_count, ks_tags = []\<rparr>"

record ShardIteratorState =
  si_stream_name :: string
  si_shard_id :: string
  si_next_index :: u64

record KinesisStore =
  kst_streams :: "(string, KinesisStream) hash_map"
  kst_shard_iterators :: "(string, ShardIteratorState) hash_map"

definition KinesisStore_new :: KinesisStore where
  "KinesisStore_new = \<lparr>kst_streams = [], kst_shard_iterators = []\<rparr>"

section \<open>Helpers of the provider\<close>

definition kin_json_ok :: "externs \<Rightarrow> Value \<Rightarrow> DispatchResponse" where
  "kin_json_ok ext body = json_reply ext ''application/x-amz-json-1.1'' 200 body"

definition kin_json_error :: "externs \<Rightarrow> string \<Rightarrow> string \<Rightarrow> nat \<Rightarrow> DispatchResponse" where
  "kin_json_error ext code message status = json_failure ext code message status"

text \<open>
  An iterator token is the base64 form of the state's JSON text. The derived deserializer accepts an
  object with the three fields, or the sequence of their values.
\<close>

definition iterator_json :: "ShardIteratorState \<Rightarrow> Value" where
  "iterator_json st = json_object
     [(''stream_name'', JString (si_stream_name st)), (''shard_id'', JString (si_shard_id st)),
      (''next_index'', JNumber (PosInt (si_next_index st)))]"

fun iterator_fields :: "Value option \<Rightarrow> Value option \<Rightarrow> Value option \<Rightarrow> ShardIteratorState option" where
  "iterator_fields (Some (JString a)) (Some (JString b)) (Some (JNumber (PosInt n))) =
     Some \<lparr>si_stream_name = a, si_shard_id = b, si_next_index = n\<rparr>"
| "iterator_fields _ _ _ = None"

fun iterator_of_json :: "Value \<Rightarrow> ShardIteratorState option" where
  "iterator_of_json (JObject m) = iterator_fields (map_of m ''stream_name'') (map_of m ''shard_id'') (map_of m ''next_index'')"
| "iterator_of_json (JArray [a, b, c]) = iterator_fields (Some a) (Some b) (Some c)"
| "iterator_of_json _ = None"

definition encode_iterator :: "externs \<Rightarrow> base64_lib \<Rightarrow> ShardIteratorState \<Rightarrow> string" where
  "encode_iterator ext b64 st = b64_encode b64 (json_to_string ext (iterator_json st))"

definition decode_iterator :: "externs \<Rightarrow> base64_lib \<Rightarrow> string \<Rightarrow> ShardIteratorState option" where
  "decode_iterator ext b64 token =
     Option.bind (b64_decode b64 token) (\<lambda>bytes. Option.bind (json_from_slice ext bytes) iterator_of_json)"

definition shard_json :: "Shard \<Rightarrow> Value" where
  "shard_json s = json_object
     [(''ShardId'', JString (sh_id s)), (''ParentShardId'', json_string_or_null (sh_parent s)),
      (''AdjacentParentShardId'', json_string_or_null (sh_adjacent_parent s)),
      (''HashKeyRange'', json_object
         [(''StartingHashKey'', JString ''0''),
          (''EndingHashKey'', JString ''340282366920938463463374607431768211455'')]),
      (''SequenceNumberRange'', json_object [(''StartingSequenceNumber'', JString ''1'')])]"

section \<open>Operations\<close>

type_synonym kin_op = "(KinesisStore, clock_world) scope_op"
type_synonym kin_bundle_op = "(KinesisStore, clock_world) bundle_op"

definition stream_missing :: "externs \<Rightarrow> string \<Rightarrow> DispatchResponse" where
  "stream_missing ext name =
     kin_json_error ext ''ResourceNotFoundException'' (''Stream '' @ name @ '' not found'') 400"

definition stream_arn_missing :: "externs \<Rightarrow> RequestContext \<Rightarrow> string \<Rightarrow> DispatchResponse" where
  "stream_arn_missing ext ctx name =
     kin_json_error ext ''ResourceNotFoundException''
       (''Stream arn arn:aws:kinesis:'' @ ctx_region ctx @ '':'' @ ctx_account_id ctx @ '':stream/'' @ name @ '' not found'') 400"

text \<open>The required parameter of an arm: its validation error, or the arm with the value.\<close>

definition kin_required ::
  "externs \<Rightarrow> RequestContext \<Rightarrow> string \<Rightarrow> string \<Rightarrow> (string \<Rightarrow> kin_bundle_op) \<Rightarrow> kin_bundle_op" where
  "kin_required ext ctx code key f =
     (case str_param ctx key of
        None \<Rightarrow> answering (kin_json_error ext code (key @ '' is required'') 400)
      | Some v \<Rightarrow> f v)"

definition set_stream :: "KinesisStore \<Rightarrow> string \<Rightarrow> KinesisStream \<Rightarrow> KinesisStore" where
  "set_stream st name s = st\<lparr>kst_streams := hm_insert name s (kst_streams st)\<rparr>"

definition kin_create_stream :: "externs \<Rightarrow> RequestContext \<Rightarrow> kin_bundle_op" where
  "kin_create_stream ext ctx =
     kin_required ext ctx ''ValidationException'' ''StreamName'' (\<lambda>name.
       on_created KinesisStore_new ctx (\<lambda>st w.
         let shard_count = (case Option.bind (value_get (ctx_request_body ctx) ''ShardCount'') as_u64 of
                              Some n \<Rightarrow> n | None \<Rightarrow> 1);
             arn = ''arn:aws:kinesis:'' @ ctx_region ctx @ '':'' @ ctx_account_id ctx @ '':stream/'' @ name;
             stream = KinesisStream_new (cw_now w) name arn shard_count
         in if hm_get (kst_streams st) name \<noteq> None
            then Some (kin_json_error ext ''ResourceInUseException'' (''Stream '' @ name @ '' already exists'') 400, st, cw_tick w)
            else Some (kin_json_ok ext (JObject []), set_stream st name stream, cw_tick w)))"

definition kin_delete_stream :: "externs \<Rightarrow> RequestContext \<Rightarrow> kin_bundle_op" where
  "kin_delete_stream ext ctx =
     kin_required ext ctx ''ValidationException'' ''StreamName'' (\<lambda>name.
       on_created KinesisStore_new ctx (\<lambda>st w.
         if hm_get (kst_streams st) name = None then Some (stream_missing ext name, st, w)
         else Some (kin_json_ok ext (JObject []), st\<lparr>kst_streams := hm_remove name (kst_streams st)\<rparr>, w)))"

text \<open>The reading arms that answer from a stream.\<close>

definition kin_read_stream ::
  "externs \<Rightarrow> RequestContext \<Rightarrow> string \<Rightarrow> (KinesisStream \<Rightarrow> DispatchResponse) \<Rightarrow> kin_bundle_op" where
  "kin_read_stream ext ctx name f =
     reading ctx (stream_missing ext name) (\<lambda>st.
       case hm_get (kst_streams st) name of None \<Rightarrow> stream_missing ext name | Some s \<Rightarrow> f s)"

text \<open>The writing arms that update a stream; the update may refuse or panic.\<close>

definition kin_update_stream ::
  "DispatchResponse \<Rightarrow> string \<Rightarrow> (KinesisStream \<Rightarrow> clock_world \<Rightarrow> (DispatchResponse \<times> KinesisStream \<times> clock_world) option) \<Rightarrow> kin_op" where
  "kin_update_stream missing name f st w =
     (case hm_get (kst_streams st) name of
        None \<Rightarrow> Some (missing, st, w)
      | Some s \<Rightarrow> map_option (\<lambda>(r, s, w). (r, set_stream st name s, w)) (f s w))"

definition stream_summary :: "KinesisStream \<Rightarrow> (string \<times> Value) list" where
  "stream_summary s =
     [(''StreamName'', JString (ks_name s)), (''StreamARN'', JString (ks_arn s)),
      (''StreamStatus'', JString (stream_status_str (ks_status s))),
      (''StreamCreationTimestamp'', json_i64 (timestamp_secs (ks_created s))),
      (''RetentionPeriodHours'', json_i64 (ks_retention_period_hours s)), (''EnhancedMonitoring'', JArray [])]"

definition kin_describe_stream :: "externs \<Rightarrow> RequestContext \<Rightarrow> kin_bundle_op" where
  "kin_describe_stream ext ctx =
     kin_required ext ctx ''ValidationException'' ''StreamName'' (\<lambda>name.
       kin_read_stream ext ctx name (\<lambda>s.
         kin_json_ok ext (json_object [(''StreamDescription'', json_object
           (stream_summary s @
            [(''Shards'', JArray (map shard_json (ks_shards s))), (''HasMoreShards'', JBool False)]))])))"

definition open_shards :: "Shard list \<Rightarrow> nat" where
  "open_shards ss = length (filter sh_is_open ss)"

definition kin_describe_stream_summary :: "externs \<Rightarrow> RequestContext \<Rightarrow> kin_bundle_op" where
  "kin_describe_stream_summary ext ctx =
     kin_required ext ctx ''ValidationException'' ''StreamName'' (\<lambda>name.
       kin_read_stream ext ctx name (\<lambda>s.
         kin_json_ok ext (json_object [(''StreamDescriptionSummary'', json_object
           (stream_summary s @ [(''OpenShardCount'', json_count (open_shards (ks_shards s)))]))])))"

definition kin_list_streams :: "externs \<Rightarrow> RequestContext \<Rightarrow> kin_bundle_op" where
  "kin_list_streams ext ctx =
     (let answer = (\<lambda>names. kin_json_ok ext (json_object
            [(''StreamNames'', JArray (map JString names)), (''HasMoreStreams'', JBool False)]))
      in reading ctx (answer []) (\<lambda>st. answer (map ks_name (hm_values (kst_streams st)))))"

definition kin_list_shards :: "externs \<Rightarrow> RequestContext \<Rightarrow> kin_bundle_op" where
  "kin_list_shards ext ctx =
     kin_required ext ctx ''ValidationException'' ''StreamName'' (\<lambda>name.
       kin_read_stream ext ctx name (\<lambda>s.
         kin_json_ok ext (json_object
           [(''Shards'', JArray (map shard_json (ks_shards s))), (''NextToken'', JNull)])))"

definition set_retention :: "externs \<Rightarrow> RequestContext \<Rightarrow> KinesisStream \<Rightarrow> clock_world \<Rightarrow> (DispatchResponse \<times> KinesisStream \<times> clock_world) option" where
  "set_retention ext ctx s w =
     (let hours = (case Option.bind (value_get (ctx_request_body ctx) ''RetentionPeriodHours'') as_i64 of
                     Some h \<Rightarrow> h | None \<Rightarrow> 24)
      in Some (kin_json_ok ext (JObject []), s\<lparr>ks_retention_period_hours := hours\<rparr>, w))"

definition kin_increase_retention :: "externs \<Rightarrow> RequestContext \<Rightarrow> kin_bundle_op" where
  "kin_increase_retention ext ctx =
     kin_required ext ctx ''ValidationException'' ''StreamName'' (\<lambda>name.
       on_created KinesisStore_new ctx
         (kin_update_stream (stream_arn_missing ext ctx name) name (set_retention ext ctx)))"

definition kin_decrease_retention :: "externs \<Rightarrow> RequestContext \<Rightarrow> kin_bundle_op" where
  "kin_decrease_retention ext ctx =
     kin_required ext ctx ''ValidationException'' ''StreamName'' (\<lambda>name.
       on_created KinesisStore_new ctx
         (kin_update_stream (stream_missing ext name) name (set_retention ext ctx)))"

section \<open>Records\<close>

text \<open>One record: the shard by the hash of its partition key, its number, and its place at the end.\<close>

definition shard_index :: "(string \<Rightarrow> u64) \<Rightarrow> string \<Rightarrow> nat \<Rightarrow> nat option" where
  "shard_index hash_string key shard_count =
     (if shard_count = 0 then None else Some (unat (hash_string key mod of_nat shard_count)))"

definition append_record :: "int \<Rightarrow> string \<Rightarrow> string \<Rightarrow> Shard \<Rightarrow> string \<times> Shard" where
  "append_record now key data sh =
     (let (seq, sh) = next_sequence_number sh
      in (seq, sh\<lparr>sh_records := sh_records sh @
            [\<lparr>kr_sequence_number = seq, kr_partition_key = key, kr_data = data, kr_arrival = now\<rparr>]\<rparr>))"

definition put_one ::
  "(string \<Rightarrow> u64) \<Rightarrow> string \<Rightarrow> string \<Rightarrow> KinesisStream \<Rightarrow> clock_world \<Rightarrow> (Value \<times> KinesisStream \<times> clock_world) option" where
  "put_one hash_string key data s w =
     (case shard_index hash_string key (length (ks_shards s)) of
        None \<Rightarrow> None
      | Some i \<Rightarrow>
          if i < length (ks_shards s)
          then let (seq, sh) = append_record (cw_now w) key data (ks_shards s ! i)
               in Some (json_object [(''ShardId'', JString (sh_id sh)), (''SequenceNumber'', JString seq)],
                        s\<lparr>ks_shards := (ks_shards s)[i := sh]\<rparr>, cw_tick w)
          else None)"

definition kin_put_record :: "externs \<Rightarrow> (string \<Rightarrow> u64) \<Rightarrow> RequestContext \<Rightarrow> kin_bundle_op" where
  "kin_put_record ext hash_string ctx =
     kin_required ext ctx ''ValidationException'' ''StreamName'' (\<lambda>name.
       on_created KinesisStore_new ctx (kin_update_stream (stream_arn_missing ext ctx name) name (\<lambda>s w.
         if length (ks_shards s) = 0
         then Some (kin_json_error ext ''ResourceNotFoundException'' ''No shards available'' 400, s, w)
         else map_option (\<lambda>(v, s, w). (kin_json_ok ext v, s, w))
                (put_one hash_string (unwrap_str (str_param ctx ''PartitionKey'')) (unwrap_str (str_param ctx ''Data'')) s w))))"

definition value_str :: "Value \<Rightarrow> string \<Rightarrow> string" where
  "value_str v key = unwrap_str (Option.bind (value_get v key) as_str)"

fun put_records_loop ::
  "(string \<Rightarrow> u64) \<Rightarrow> Value list \<Rightarrow> Value list \<Rightarrow> KinesisStream \<Rightarrow> clock_world \<Rightarrow> (Value list \<times> KinesisStream \<times> clock_world) option" where
  "put_records_loop hash_string [] results s w = Some (results, s, w)"
| "put_records_loop hash_string (rec # rest) results s w =
     (case put_one hash_string (value_str rec ''PartitionKey'') (value_str rec ''Data'') s w of
        None \<Rightarrow> None
      | Some (v, s, w) \<Rightarrow> put_records_loop hash_string rest (results @ [v]) s w)"

definition kin_put_records :: "externs \<Rightarrow> (string \<Rightarrow> u64) \<Rightarrow> RequestContext \<Rightarrow> kin_bundle_op" where
  "kin_put_records ext hash_string ctx =
     kin_required ext ctx ''ValidationException'' ''StreamName'' (\<lambda>name.
       case Option.bind (value_get (ctx_request_body ctx) ''Records'') as_array of
         None \<Rightarrow> answering (kin_json_error ext ''ValidationException'' ''Records is required'' 400)
       | Some records_arr \<Rightarrow>
           on_created KinesisStore_new ctx (kin_update_stream (stream_missing ext name) name (\<lambda>s w.
             map_option (\<lambda>(results, s, w).
               (kin_json_ok ext (json_object [(''FailedRecordCount'', json_count 0), (''Records'', JArray results)]), s, w))
               (put_records_loop hash_string records_arr [] s w))))"

section \<open>Iterators\<close>

definition find_shard :: "KinesisStream \<Rightarrow> string \<Rightarrow> Shard option" where
  "find_shard s shard_id = find (\<lambda>sh. sh_id sh = shard_id) (ks_shards s)"

definition shard_missing :: "externs \<Rightarrow> string \<Rightarrow> DispatchResponse" where
  "shard_missing ext shard_id =
     kin_json_error ext ''ResourceNotFoundException'' (''Shard '' @ shard_id @ '' not found'') 400"

definition position_where :: "('a \<Rightarrow> bool) \<Rightarrow> 'a list \<Rightarrow> nat option" where
  "position_where p xs =
     (let i = length (takeWhile (\<lambda>x. \<not> p x) xs) in if i < length xs then Some i else None)"

definition start_index :: "ShardIteratorType \<Rightarrow> string \<Rightarrow> Shard \<Rightarrow> nat" where
  "start_index ty starting_sequence sh =
     (let n = length (sh_records sh);
          at = position_where (\<lambda>r. kr_sequence_number r = starting_sequence) (sh_records sh)
      in case ty of
           TrimHorizon \<Rightarrow> 0
         | Latest \<Rightarrow> n
         | AtSequenceNumber \<Rightarrow> (case at of Some i \<Rightarrow> i | None \<Rightarrow> n)
         | AfterSequenceNumber \<Rightarrow> (case at of Some i \<Rightarrow> i + 1 | None \<Rightarrow> n)
         | AtTimestamp \<Rightarrow> 0)"

definition kin_get_shard_iterator :: "externs \<Rightarrow> base64_lib \<Rightarrow> RequestContext \<Rightarrow> kin_bundle_op" where
  "kin_get_shard_iterator ext b64 ctx =
     kin_required ext ctx ''ValidationException'' ''StreamName'' (\<lambda>name.
     kin_required ext ctx ''ValidationException'' ''ShardId'' (\<lambda>shard_id.
       let ty = parse_iterator_type (case str_param ctx ''ShardIteratorType'' of Some s \<Rightarrow> s | None \<Rightarrow> ''TRIM_HORIZON'');
           starting_sequence = unwrap_str (str_param ctx ''StartingSequenceNumber'')
       in kin_read_stream ext ctx name (\<lambda>s.
            case find_shard s shard_id of
              None \<Rightarrow> shard_missing ext shard_id
            | Some sh \<Rightarrow>
                kin_json_ok ext (json_object [(''ShardIterator'', JString (encode_iterator ext b64
                  \<lparr>si_stream_name = name, si_shard_id = shard_id,
                   si_next_index = of_nat (start_index ty starting_sequence sh)\<rparr>))]))))"

definition kin_record_json :: "KinesisRecord \<Rightarrow> Value" where
  "kin_record_json r = json_object
     [(''SequenceNumber'', JString (kr_sequence_number r)), (''PartitionKey'', JString (kr_partition_key r)),
      (''Data'', JString (kr_data r)), (''ApproximateArrivalTimestamp'', json_i64 (timestamp_secs (kr_arrival r)))]"

text \<open>The records a call returns from a position, and the state of the next iterator.\<close>

definition read_shard :: "ShardIteratorState \<Rightarrow> nat \<Rightarrow> Shard \<Rightarrow> KinesisRecord list \<times> ShardIteratorState" where
  "read_shard st limit sh =
     (let records = take limit (drop (unat (si_next_index st)) (sh_records sh))
      in (records, st\<lparr>si_next_index := si_next_index st + of_nat (length records)\<rparr>))"

definition kin_get_records :: "externs \<Rightarrow> base64_lib \<Rightarrow> RequestContext \<Rightarrow> kin_bundle_op" where
  "kin_get_records ext b64 ctx =
     kin_required ext ctx ''ValidationException'' ''ShardIterator'' (\<lambda>token.
       let limit = (case Option.bind (value_get (ctx_request_body ctx) ''Limit'') as_u64 of Some n \<Rightarrow> unat n | None \<Rightarrow> 10000)
       in case decode_iterator ext b64 token of
            None \<Rightarrow> answering (kin_json_error ext ''InvalidArgumentException'' ''Invalid ShardIterator'' 400)
          | Some st \<Rightarrow>
              kin_read_stream ext ctx (si_stream_name st) (\<lambda>s.
                case find_shard s (si_shard_id st) of
                  None \<Rightarrow> shard_missing ext (si_shard_id st)
                | Some sh \<Rightarrow>
                    (let (records, next_state) = read_shard st limit sh
                     in kin_json_ok ext (json_object
                          [(''Records'', JArray (map kin_record_json records)),
                           (''NextShardIterator'', JString (encode_iterator ext b64 next_state)),
                           (''MillisBehindLatest'', json_count 0)]))))"

section \<open>Shards\<close>

definition split_shard :: "externs \<Rightarrow> string \<Rightarrow> KinesisStream \<Rightarrow> clock_world \<Rightarrow> (DispatchResponse \<times> KinesisStream \<times> clock_world) option" where
  "split_shard ext shard_to_split s w =
     (case position_where (\<lambda>sh. sh_id sh = shard_to_split) (ks_shards s) of
        None \<Rightarrow> Some (shard_missing ext shard_to_split, s, w)
      | Some parent_idx \<Rightarrow>
          (let closed = (ks_shards s)[parent_idx := (ks_shards s ! parent_idx)\<lparr>sh_is_open := False\<rparr>];
               counter = ks_shard_id_counter s;
               child1 = (Shard_new (shard_id_text counter))\<lparr>sh_parent := Some shard_to_split\<rparr>;
               child2 = (Shard_new (shard_id_text (counter + 1)))\<lparr>sh_parent := Some shard_to_split\<rparr>;
               shards = closed @ [child1, child2]
           in Some (kin_json_ok ext (JObject []),
                    s\<lparr>ks_shards := shards, ks_shard_id_counter := counter + 2, ks_shard_count := open_shards shards\<rparr>, w)))"

definition kin_split_shard :: "externs \<Rightarrow> RequestContext \<Rightarrow> kin_bundle_op" where
  "kin_split_shard ext ctx =
     kin_required ext ctx ''ValidationException'' ''StreamName'' (\<lambda>name.
     kin_required ext ctx ''ValidationException'' ''ShardToSplit'' (\<lambda>shard_to_split.
       on_created KinesisStore_new ctx (kin_update_stream (stream_missing ext name) name (split_shard ext shard_to_split))))"

definition merge_shards :: "externs \<Rightarrow> string \<Rightarrow> string \<Rightarrow> KinesisStream \<Rightarrow> clock_world \<Rightarrow> (DispatchResponse \<times> KinesisStream \<times> clock_world) option" where
  "merge_shards ext shard_to_merge adjacent_shard s w =
     (let closed = map (\<lambda>sh. if sh_id sh = shard_to_merge \<or> sh_id sh = adjacent_shard then sh\<lparr>sh_is_open := False\<rparr> else sh)
                     (ks_shards s);
          counter = ks_shard_id_counter s;
          child = (Shard_new (shard_id_text counter))
                    \<lparr>sh_parent := Some shard_to_merge, sh_adjacent_parent := Some adjacent_shard\<rparr>;
          shards = closed @ [child]
      in Some (kin_json_ok ext (JObject []),
               s\<lparr>ks_shards := shards, ks_shard_id_counter := counter + 1, ks_shard_count := open_shards shards\<rparr>, w))"

definition kin_merge_shards :: "externs \<Rightarrow> RequestContext \<Rightarrow> kin_bundle_op" where
  "kin_merge_shards ext ctx =
     kin_required ext ctx ''ValidationException'' ''StreamName'' (\<lambda>name.
       on_created KinesisStore_new ctx (kin_update_stream (stream_missing ext name) name
         (merge_shards ext (unwrap_str (str_param ctx ''ShardToMerge'')) (unwrap_str (str_param ctx ''AdjacentShardToMerge'')))))"

section \<open>Tags\<close>

definition insert_tag :: "string \<times> Value \<Rightarrow> (string, string) hash_map \<Rightarrow> (string, string) hash_map" where
  "insert_tag kv tags = (case as_str (snd kv) of Some v \<Rightarrow> hm_insert (fst kv) v tags | None \<Rightarrow> tags)"

definition add_tags :: "externs \<Rightarrow> Value \<Rightarrow> KinesisStream \<Rightarrow> clock_world \<Rightarrow> (DispatchResponse \<times> KinesisStream \<times> clock_world) option" where
  "add_tags ext body s w =
     (case Option.bind (value_get body ''Tags'') as_object of
        None \<Rightarrow> Some (kin_json_ok ext (JObject []), s, w)
      | Some tags_obj \<Rightarrow>
          (let new_key_count = length (filter (\<lambda>k. hm_get (ks_tags s) k = None) (map fst tags_obj))
           in if length (ks_tags s) + new_key_count > 50
              then Some (kin_json_error ext ''InvalidArgumentException'' ''Cannot have more than 50 tags for a stream'' 400, s, w)
              else Some (kin_json_ok ext (JObject []), s\<lparr>ks_tags := fold insert_tag tags_obj (ks_tags s)\<rparr>, w)))"

definition kin_add_tags :: "externs \<Rightarrow> RequestContext \<Rightarrow> kin_bundle_op" where
  "kin_add_tags ext ctx =
     kin_required ext ctx ''InvalidArgumentException'' ''StreamName'' (\<lambda>name.
       on_created KinesisStore_new ctx
         (kin_update_stream (stream_missing ext name) name (add_tags ext (ctx_request_body ctx))))"

definition kin_list_tags :: "externs \<Rightarrow> RequestContext \<Rightarrow> kin_bundle_op" where
  "kin_list_tags ext ctx =
     kin_required ext ctx ''InvalidArgumentException'' ''StreamName'' (\<lambda>name.
       kin_read_stream ext ctx name (\<lambda>s.
         kin_json_ok ext (json_object
           [(''Tags'', JArray (map (\<lambda>(k, v). json_object [(''Key'', JString k), (''Value'', JString v)]) (ks_tags s))),
            (''HasMoreTags'', JBool False)])))"

definition remove_tags :: "externs \<Rightarrow> Value \<Rightarrow> KinesisStream \<Rightarrow> clock_world \<Rightarrow> (DispatchResponse \<times> KinesisStream \<times> clock_world) option" where
  "remove_tags ext body s w =
     (case Option.bind (value_get body ''TagKeys'') as_array of
        None \<Rightarrow> Some (kin_json_ok ext (JObject []), s, w)
      | Some keys_arr \<Rightarrow>
          Some (kin_json_ok ext (JObject []),
                s\<lparr>ks_tags := fold hm_remove (List.map_filter as_str keys_arr) (ks_tags s)\<rparr>, w))"

definition kin_remove_tags :: "externs \<Rightarrow> RequestContext \<Rightarrow> kin_bundle_op" where
  "kin_remove_tags ext ctx =
     kin_required ext ctx ''InvalidArgumentException'' ''StreamName'' (\<lambda>name.
       on_existing ctx (stream_missing ext name)
         (kin_update_stream (stream_missing ext name) name (remove_tags ext (ctx_request_body ctx))))"

section \<open>Dispatch\<close>

definition kinesis_dispatch :: "externs \<Rightarrow> base64_lib \<Rightarrow> (string \<Rightarrow> u64) \<Rightarrow> RequestContext \<Rightarrow> kin_bundle_op" where
  "kinesis_dispatch ext b64 hash_string ctx =
     (let op = ctx_operation ctx in
      if op = ''CreateStream'' then kin_create_stream ext ctx
      else if op = ''DeleteStream'' then kin_delete_stream ext ctx
      else if op = ''DescribeStream'' then kin_describe_stream ext ctx
      else if op = ''DescribeStreamSummary'' then kin_describe_stream_summary ext ctx
      else if op = ''ListStreams'' then kin_list_streams ext ctx
      else if op = ''ListShards'' then kin_list_shards ext ctx
      else if op = ''IncreaseStreamRetentionPeriod'' then kin_increase_retention ext ctx
      else if op = ''DecreaseStreamRetentionPeriod'' then kin_decrease_retention ext ctx
      else if op = ''PutRecord'' then kin_put_record ext hash_string ctx
      else if op = ''PutRecords'' then kin_put_records ext hash_string ctx
      else if op = ''GetShardIterator'' then kin_get_shard_iterator ext b64 ctx
      else if op = ''GetRecords'' then kin_get_records ext b64 ctx
      else if op = ''SplitShard'' then kin_split_shard ext ctx
      else if op = ''MergeShards'' then kin_merge_shards ext ctx
      else if op = ''AddTagsToStream'' then kin_add_tags ext ctx
      else if op = ''ListTagsForStream'' then kin_list_tags ext ctx
      else if op = ''RemoveTagsFromStream'' then kin_remove_tags ext ctx
      else answering (kin_json_error ext ''NotImplementedException'' (''Operation not implemented: '' @ op) 501))"

fun stream_status_debug :: "StreamStatus \<Rightarrow> string" where
  "stream_status_debug Creating = ''Creating''"
| "stream_status_debug Active = ''Active''"
| "stream_status_debug Updating = ''Updating''"
| "stream_status_debug Deleting = ''Deleting''"

definition kinesis_storage_snapshot :: "KinesisStore AccountRegionBundle \<Rightarrow> Value" where
  "kinesis_storage_snapshot b =
     (let attr = (\<lambda>k v. json_object [(''key'', JString k), (''value'', JString v)]);
          streams = concat (map (\<lambda>(_, st). map (\<lambda>s. json_object
             [(''id'', JString (ks_arn s)), (''kind'', JString ''stream''),
              (''attributes'', JArray [attr ''name'' (ks_name s), attr ''status'' (stream_status_debug (ks_status s)),
                 attr ''shard_count'' (nat_to_string (ks_shard_count s))])])
             (hm_values (kst_streams st))) (bundle_iter b))
      in json_object [(''kind'', JString ''kinesis''), (''streams'', JArray streams)])"

end
