(* ===== verification/Kinesis_Streams.thy ===== *)
theory Kinesis_Streams
  imports Kinesis_Service
begin

text \<open>
  What holds of Kinesis streams: the invariant of every stream after any requests, as an
  interpretation of \<open>scope_invariant\<close>; where records go and in which order; and that a reader
  who follows the iterators receives every record once.
\<close>

section \<open>Invariant\<close>

definition shard_ok :: "Shard \<Rightarrow> bool" where
  "shard_ok sh \<longleftrightarrow> sh_sequence_counter sh = of_nat (length (sh_records sh)) \<and>
     map kr_sequence_number (sh_records sh) = map (\<lambda>i. sequence_text (of_nat (Suc i))) [0..<length (sh_records sh)]"

definition stream_ok :: "string \<Rightarrow> KinesisStream \<Rightarrow> bool" where
  "stream_ok name s \<longleftrightarrow> ks_name s = name \<and> ks_shard_id_counter s = of_nat (length (ks_shards s)) \<and>
     map sh_id (ks_shards s) = map (\<lambda>i. shard_id_text (of_nat i)) [0..<length (ks_shards s)] \<and>
     ks_shard_count s = open_shards (ks_shards s) \<and> (\<forall>sh \<in> set (ks_shards s). shard_ok sh) \<and>
     hm_wf (ks_tags s) \<and> length (ks_tags s) \<le> 50"

definition streams_ok :: "KinesisStore \<Rightarrow> bool" where
  "streams_ok st \<longleftrightarrow> (\<forall>name s. hm_get (kst_streams st) name = Some s \<longrightarrow> stream_ok name s)"

lemma shard_ok_new: "shard_ok (Shard_new i)"
  by (simp add: shard_ok_def Shard_new_def)

lemma shard_ok_fields [simp]:
  "shard_ok (sh\<lparr>sh_is_open := x\<rparr>) = shard_ok sh" "shard_ok (sh\<lparr>sh_parent := y\<rparr>) = shard_ok sh"
  "shard_ok (sh\<lparr>sh_adjacent_parent := y\<rparr>) = shard_ok sh"
  by (simp_all add: shard_ok_def)

lemma append_record_result:
  assumes "append_record now key data sh = (seq, sh')"
  shows "sh_id sh' = sh_id sh" "sh_is_open sh' = sh_is_open sh"
    "sh_records sh' = sh_records sh @ [\<lparr>kr_sequence_number = seq, kr_partition_key = key, kr_data = data, kr_arrival = now\<rparr>]"
    "shard_ok sh \<Longrightarrow> shard_ok sh'"
  using assms by (auto simp: append_record_def next_sequence_number_def shard_ok_def Let_def add.commute)

lemma stream_ok_new: "stream_ok name (KinesisStream_new now name arn n)"
  by (auto simp: stream_ok_def KinesisStream_new_def comp_def Shard_new_def shard_ok_def open_shards_def)

lemma put_one_result:
  assumes "put_one h key data s w = Some (v, s', w')"
  obtains i sh seq where "shard_index h key (length (ks_shards s)) = Some i" "i < length (ks_shards s)"
    "append_record (cw_now w) key data (ks_shards s ! i) = (seq, sh)" "s' = s\<lparr>ks_shards := (ks_shards s)[i := sh]\<rparr>"
  using assms by (auto simp: put_one_def split: option.splits if_splits prod.splits)

lemma map_update_same: "i < length xs \<Longrightarrow> f x = f (xs ! i) \<Longrightarrow> map f (xs[i := x]) = map f xs"
  by (simp add: map_update list_update_same_conv)

lemma open_shards_map: "open_shards xs = length (filter (\<lambda>b. b) (map sh_is_open xs))"
  by (simp add: open_shards_def filter_map comp_def)

lemma stream_ok_update_shard:
  assumes "stream_ok name s" "i < length (ks_shards s)" "shard_ok sh" "sh_id sh = sh_id (ks_shards s ! i)"
    "sh_is_open sh = sh_is_open (ks_shards s ! i)"
  shows "stream_ok name (s\<lparr>ks_shards := (ks_shards s)[i := sh]\<rparr>)"
proof -
  have "\<forall>x \<in> set ((ks_shards s)[i := sh]). shard_ok x"
    using assms(1,3) set_update_subset_insert [of "ks_shards s" i sh] by (auto simp: stream_ok_def)
  then show ?thesis
    using assms map_update_same [OF assms(2,4)] map_update_same [OF assms(2,5)]
    by (simp add: stream_ok_def open_shards_map)
qed

lemma put_one_ok:
  assumes "put_one h key data s w = Some (v, s', w')" "stream_ok name s"
  shows "stream_ok name s'"
  using assms(1)
proof (rule put_one_result)
  fix i sh seq
  assume i: "i < length (ks_shards s)" "append_record (cw_now w) key data (ks_shards s ! i) = (seq, sh)"
    "s' = s\<lparr>ks_shards := (ks_shards s)[i := sh]\<rparr>"
  have "shard_ok (ks_shards s ! i)" using assms(2) i(1) by (simp add: stream_ok_def)
  then show ?thesis
    using stream_ok_update_shard [OF assms(2) i(1)] append_record_result [OF i(2)] i(3) by simp
qed

lemma put_records_ok:
  "put_records_loop h recs rs s w = Some (rs', s', w') \<Longrightarrow> stream_ok name s \<Longrightarrow> stream_ok name s'"
  by (induction recs arbitrary: rs s w) (auto split: option.splits dest: put_one_ok)

text \<open>Shard operations renumber nothing and count what is open.\<close>

lemma stream_ok_extend:
  assumes "stream_ok name s" "map sh_id closed = map sh_id (ks_shards s)" "\<forall>sh \<in> set closed. shard_ok sh"
    and "map sh_id new = map (\<lambda>i. shard_id_text (ks_shard_id_counter s + of_nat i)) [0..<length new]"
    and "\<forall>sh \<in> set new. shard_ok sh"
  shows "stream_ok name (s\<lparr>ks_shards := closed @ new, ks_shard_id_counter := ks_shard_id_counter s + of_nat (length new),
           ks_shard_count := open_shards (closed @ new)\<rparr>)"
proof -
  let ?n = "length (ks_shards s)"
  have n: "length closed = ?n" using assms(2) map_eq_imp_length_eq by blast
  have "[0..<?n + length new] = [0..<?n] @ map (\<lambda>i. i + ?n) [0..<length new]"
    using upt_add_eq_append [of 0 ?n "length new"] by (simp add: map_add_upt add.commute [of "length new"])
  then have "map sh_id (closed @ new) = map (\<lambda>i. shard_id_text (of_nat i)) [0..<length (closed @ new)]"
    using assms(1,2,4) n by (simp add: stream_ok_def comp_def add.commute)
  then show ?thesis
    using assms(1,3,5) n unfolding stream_ok_def by (auto simp del: map_append)
qed

lemma split_shard_ok:
  assumes "split_shard ext p s w = Some (r, s', w')" "stream_ok name s"
  shows "stream_ok name s'"
proof (cases "position_where (\<lambda>sh. sh_id sh = p) (ks_shards s)")
  case None
  with assms show ?thesis by (simp add: split_shard_def)
next
  case (Some i)
  then have i: "i < length (ks_shards s)" by (auto simp: position_where_def Let_def split: if_splits)
  let ?closed = "(ks_shards s)[i := (ks_shards s ! i)\<lparr>sh_is_open := False\<rparr>]"
  let ?new = "[(Shard_new (shard_id_text (ks_shard_id_counter s)))\<lparr>sh_parent := Some p\<rparr>,
    (Shard_new (shard_id_text (ks_shard_id_counter s + 1)))\<lparr>sh_parent := Some p\<rparr>]"
  have "shard_ok (ks_shards s ! i)" using assms(2) i by (simp add: stream_ok_def)
  then have "\<forall>sh \<in> set ?closed. shard_ok sh"
    using assms(2) set_update_subset_insert [of "ks_shards s" i "(ks_shards s ! i)\<lparr>sh_is_open := False\<rparr>"]
    by (auto simp: stream_ok_def)
  moreover have "map sh_id ?closed = map sh_id (ks_shards s)"
    using map_update_same [OF i, of sh_id] by simp
  ultimately have "stream_ok name (s\<lparr>ks_shards := ?closed @ ?new, ks_shard_id_counter := ks_shard_id_counter s + of_nat (length ?new),
      ks_shard_count := open_shards (?closed @ ?new)\<rparr>)"
    by (intro stream_ok_extend [OF assms(2)]) (auto simp: Shard_new_def shard_ok_def)
  with assms(1) Some show ?thesis by (simp add: split_shard_def Let_def)
qed

lemma merge_shards_ok:
  assumes "merge_shards ext a b s w = Some (r, s', w')" "stream_ok name s"
  shows "stream_ok name s'"
proof -
  let ?closed = "map (\<lambda>sh. if sh_id sh = a \<or> sh_id sh = b then sh\<lparr>sh_is_open := False\<rparr> else sh) (ks_shards s)"
  let ?new = "[(Shard_new (shard_id_text (ks_shard_id_counter s)))\<lparr>sh_parent := Some a, sh_adjacent_parent := Some b\<rparr>]"
  have 1: "map sh_id ?closed = map sh_id (ks_shards s)" by (auto simp: list_eq_iff_nth_eq)
  have 2: "\<forall>sh \<in> set ?closed. shard_ok sh" using assms(2) by (auto simp: stream_ok_def)
  have 3: "map sh_id ?new = map (\<lambda>i. shard_id_text (ks_shard_id_counter s + of_nat i)) [0..<length ?new]"
    "\<forall>sh \<in> set ?new. shard_ok sh" by (simp_all add: Shard_new_def shard_ok_def)
  from stream_ok_extend [OF assms(2) 1 2 3] assms(1) show ?thesis by (simp add: merge_shards_def Let_def)
qed

section \<open>Tags\<close>

lemma insert_tag_wf: "hm_wf tags \<Longrightarrow> hm_wf (insert_tag kv tags)"
  by (auto simp: insert_tag_def hm.wf_insert split: option.splits)

lemma insert_tag_length:
  "hm_wf tags \<Longrightarrow> length (insert_tag kv tags) \<le> length tags + (if hm_get tags (fst kv) = None then 1 else 0)"
  by (auto simp: insert_tag_def hm.length_insert split: option.splits)

lemma insert_tag_get: "hm_get (insert_tag kv tags) k = None \<Longrightarrow> hm_get tags k = None"
  by (auto simp: insert_tag_def update_conv' split: option.splits if_splits)

lemma fold_insert_tag:
  "hm_wf tags \<Longrightarrow> hm_wf (fold insert_tag obj tags) \<and>
     length (fold insert_tag obj tags) \<le> length tags + length (filter (\<lambda>k. hm_get tags k = None) (map fst obj))"
proof (induction obj arbitrary: tags)
  case (Cons kv obj)
  let ?t = "insert_tag kv tags"
  have "length (filter (\<lambda>k. hm_get ?t k = None) (map fst obj)) \<le> length (filter (\<lambda>k. hm_get tags k = None) (map fst obj))"
    by (induction obj) (use insert_tag_get in auto)
  then show ?case
    using Cons.IH [OF insert_tag_wf [OF Cons.prems], of kv] insert_tag_length [OF Cons.prems, of kv] by auto
qed simp

lemma stream_ok_tags:
  "stream_ok name s \<Longrightarrow> hm_wf tags \<Longrightarrow> length tags \<le> 50 \<Longrightarrow> stream_ok name (s\<lparr>ks_tags := tags\<rparr>)"
  by (simp add: stream_ok_def)

lemma add_tags_ok:
  assumes "add_tags ext body s w = Some (r, s', w')" "stream_ok name s"
  shows "stream_ok name s'"
proof (cases "s' = s")
  case False
  then obtain obj where "s' = s\<lparr>ks_tags := fold insert_tag obj (ks_tags s)\<rparr>"
    "length (ks_tags s) + length (filter (\<lambda>k. hm_get (ks_tags s) k = None) (map fst obj)) \<le> 50"
    using assms(1) by (auto simp: add_tags_def Let_def not_less split: option.splits if_splits)
  then show ?thesis
    using assms(2) fold_insert_tag [of "ks_tags s" obj] stream_ok_tags [OF assms(2)] by (simp add: stream_ok_def)
qed (use assms in simp)

lemma fold_hm_remove: "hm_wf m \<Longrightarrow> hm_wf (fold hm_remove ks m) \<and> length (fold hm_remove ks m) \<le> length m"
proof (induction ks arbitrary: m)
  case (Cons k ks)
  then show ?case
    using Cons.IH [OF hm.wf_remove [OF Cons.prems, of k]] hm.length_remove [OF Cons.prems, of k] by (auto split: if_splits)
qed simp

lemma remove_tags_ok:
  assumes "remove_tags ext body s w = Some (r, s', w')" "stream_ok name s"
  shows "stream_ok name s'"
proof (cases "s' = s")
  case False
  then obtain ks where "s' = s\<lparr>ks_tags := fold hm_remove ks (ks_tags s)\<rparr>"
    using assms(1) by (auto simp: remove_tags_def split: option.splits)
  then show ?thesis
    using assms(2) fold_hm_remove [of "ks_tags s" ks] stream_ok_tags [OF assms(2)] by (simp add: stream_ok_def)
qed (use assms in simp)

lemma set_retention_ok: "set_retention ext ctx s w = Some (r, s', w') \<Longrightarrow> stream_ok name s \<Longrightarrow> stream_ok name s'"
  by (auto simp: set_retention_def stream_ok_def Let_def)

section \<open>Requests keep the invariant\<close>

interpretation kinesis_scopes: scope_invariant streams_ok KinesisStore_new
  by unfold_locales (simp add: streams_ok_def KinesisStore_new_def)

lemma streams_ok_set: "streams_ok st \<Longrightarrow> stream_ok name s \<Longrightarrow> streams_ok (set_stream st name s)"
  by (auto simp: streams_ok_def set_stream_def update_conv')

lemma update_stream_keeps:
  assumes "\<And>s w r s' w'. f s w = Some (r, s', w') \<Longrightarrow> stream_ok name s \<Longrightarrow> stream_ok name s'"
  shows "kinesis_scopes.scope_keeps (kin_update_stream missing name f)"
  unfolding kinesis_scopes.scope_keeps_def
proof (intro allI impI)
  fix st w r st' w'
  assume st: "streams_ok st" "kin_update_stream missing name f st w = Some (r, st', w')"
  show "streams_ok st'"
  proof (cases "hm_get (kst_streams st) name")
    case None
    with st show ?thesis by (simp add: kin_update_stream_def)
  next
    case (Some s)
    with st(2) obtain s' where "f s w = Some (r, s', w')" "st' = set_stream st name s'"
      by (auto simp: kin_update_stream_def)
    with assms st(1) Some streams_ok_set show ?thesis unfolding streams_ok_def by blast
  qed
qed

text \<open>Every arm of the dispatch.\<close>

lemma kin_required_keeps:
  "(\<And>v. kinesis_scopes.bundle_keeps (f v)) \<Longrightarrow> kinesis_scopes.bundle_keeps (kin_required ext ctx code key f)"
  by (simp add: kin_required_def kinesis_scopes.bundle_keeps_answering split: option.split)

lemma create_keeps: "kinesis_scopes.bundle_keeps (kin_create_stream ext ctx)"
proof -
  have "streams_ok (set_stream st name (KinesisStream_new now name arn n))" if "streams_ok st" for st name now arn n
    using that streams_ok_set stream_ok_new by blast
  then show ?thesis
    unfolding kin_create_stream_def
    by (auto intro!: kin_required_keeps kinesis_scopes.bundle_keeps_created
        simp: kinesis_scopes.scope_keeps_def Let_def split: if_splits)
qed

lemma delete_keeps: "kinesis_scopes.bundle_keeps (kin_delete_stream ext ctx)"
  unfolding kin_delete_stream_def
  by (auto intro!: kin_required_keeps kinesis_scopes.bundle_keeps_created
      simp: kinesis_scopes.scope_keeps_def streams_ok_def delete_conv' split: if_splits)

lemma read_keeps:
  "kinesis_scopes.bundle_keeps (kin_read_stream ext ctx name f)"
  "kinesis_scopes.bundle_keeps (kin_describe_stream ext ctx)"
  "kinesis_scopes.bundle_keeps (kin_describe_stream_summary ext ctx)"
  "kinesis_scopes.bundle_keeps (kin_list_streams ext ctx)"
  "kinesis_scopes.bundle_keeps (kin_list_shards ext ctx)"
  "kinesis_scopes.bundle_keeps (kin_list_tags ext ctx)"
  "kinesis_scopes.bundle_keeps (kin_get_shard_iterator ext b64 ctx)"
  "kinesis_scopes.bundle_keeps (kin_get_records ext b64 ctx)"
  unfolding kin_describe_stream_def kin_describe_stream_summary_def kin_list_streams_def kin_list_shards_def
    kin_list_tags_def kin_get_shard_iterator_def kin_get_records_def kin_read_stream_def Let_def
  by (intro kin_required_keeps kinesis_scopes.bundle_keeps_intros)+

lemma put_keeps:
  "kinesis_scopes.bundle_keeps (kin_put_record ext h ctx)" "kinesis_scopes.bundle_keeps (kin_put_records ext h ctx)"
  unfolding kin_put_record_def kin_put_records_def
  by (intro kin_required_keeps kinesis_scopes.bundle_keeps_intros update_stream_keeps;
      auto split: if_splits dest: put_one_ok put_records_ok)+

lemma shard_tag_keeps:
  "kinesis_scopes.bundle_keeps (kin_split_shard ext ctx)" "kinesis_scopes.bundle_keeps (kin_merge_shards ext ctx)"
  "kinesis_scopes.bundle_keeps (kin_add_tags ext ctx)" "kinesis_scopes.bundle_keeps (kin_remove_tags ext ctx)"
  "kinesis_scopes.bundle_keeps (kin_increase_retention ext ctx)"
  "kinesis_scopes.bundle_keeps (kin_decrease_retention ext ctx)"
  unfolding kin_split_shard_def kin_merge_shards_def kin_add_tags_def kin_remove_tags_def
    kin_increase_retention_def kin_decrease_retention_def
  by (intro kin_required_keeps kinesis_scopes.bundle_keeps_intros update_stream_keeps;
      erule split_shard_ok merge_shards_ok add_tags_ok remove_tags_ok set_retention_ok; assumption)+

lemma kinesis_dispatch_keeps: "kinesis_scopes.bundle_keeps (kinesis_dispatch ext b64 h ctx)"
  unfolding kinesis_dispatch_def Let_def
  by (intro kinesis_scopes.bundle_keeps_if kinesis_scopes.bundle_keeps_answering create_keeps delete_keeps read_keeps
      put_keeps shard_tag_keeps)

lemma kin_required_stays:
  "(\<And>v. stays_in_scope ctx (f v)) \<Longrightarrow> stays_in_scope ctx (kin_required ext ctx code key f)"
  by (simp add: kin_required_def stays_in_scope_answering split: option.split)

lemma kinesis_dispatch_stays: "stays_in_scope ctx (kinesis_dispatch ext b64 h ctx)"
  unfolding kinesis_dispatch_def kin_create_stream_def kin_delete_stream_def kin_describe_stream_def
    kin_describe_stream_summary_def kin_list_streams_def kin_list_shards_def kin_list_tags_def kin_get_shard_iterator_def
    kin_get_records_def kin_read_stream_def kin_put_record_def kin_put_records_def kin_split_shard_def kin_merge_shards_def
    kin_add_tags_def kin_remove_tags_def kin_increase_retention_def kin_decrease_retention_def Let_def
  by (intro kin_required_stays stays_in_scope_intros)

fun kinesis_run ::
  "externs \<Rightarrow> base64_lib \<Rightarrow> (string \<Rightarrow> u64) \<Rightarrow> RequestContext list \<Rightarrow> KinesisStore AccountRegionBundle \<Rightarrow> clock_world \<Rightarrow>
   (KinesisStore AccountRegionBundle \<times> clock_world) option" where
  "kinesis_run ext b64 h [] b w = Some (b, w)"
| "kinesis_run ext b64 h (ctx # ctxs) b w =
     (case kinesis_dispatch ext b64 h ctx b w of None \<Rightarrow> None | Some (_, b, w) \<Rightarrow> kinesis_run ext b64 h ctxs b w)"

lemma kinesis_run_keeps:
  "kinesis_scopes.all_scopes b \<Longrightarrow> kinesis_run ext b64 h ctxs b w = Some (b', w') \<Longrightarrow> kinesis_scopes.all_scopes b'"
proof (induction ctxs arbitrary: b w)
  case (Cons ctx ctxs)
  then obtain r b1 w1 where d: "kinesis_dispatch ext b64 h ctx b w = Some (r, b1, w1)"
    "kinesis_run ext b64 h ctxs b1 w1 = Some (b', w')" by (auto split: option.splits)
  with kinesis_dispatch_keeps [of ext b64 h ctx] Cons.prems(1) Cons.IH show ?case
    unfolding kinesis_scopes.bundle_keeps_def by blast
qed simp

lemma shard_id_text_inj: "inj_on (\<lambda>i. shard_id_text (of_nat i)) {..<2 ^ 64}"
  by (auto simp: inj_on_def shard_id_text_def unat_of_nat_u64 simp del: unsigned_of_nat dest!: dec_pad_inject)

lemma sequence_text_inj: "inj sequence_text"
  by (auto simp: inj_on_def sequence_text_def word_unat_eq_iff dest!: dec_pad_inject)


section \<open>Where records go\<close>

definition put_pair :: "Value \<Rightarrow> string \<times> string" where
  "put_pair rec = (value_str rec ''PartitionKey'', value_str rec ''Data'')"

definition shard_pairs :: "KinesisStream \<Rightarrow> nat \<Rightarrow> (string \<times> string) list" where
  "shard_pairs s i = map (\<lambda>r. (kr_partition_key r, kr_data r)) (sh_records (ks_shards s ! i))"

lemma put_one_pairs:
  assumes "put_one h key data s w = Some (v, s', w')"
  shows "length (ks_shards s') = length (ks_shards s)"
    "i < length (ks_shards s) \<Longrightarrow> shard_pairs s' i =
       shard_pairs s i @ (if shard_index h key (length (ks_shards s)) = Some i then [(key, data)] else [])"
proof -
  obtain j sh seq where j: "shard_index h key (length (ks_shards s)) = Some j" "j < length (ks_shards s)"
    "append_record (cw_now w) key data (ks_shards s ! j) = (seq, sh)" "s' = s\<lparr>ks_shards := (ks_shards s)[j := sh]\<rparr>"
    using assms by (rule put_one_result)
  then show "length (ks_shards s') = length (ks_shards s)" by simp
  show "shard_pairs s' i = shard_pairs s i @ (if shard_index h key (length (ks_shards s)) = Some i then [(key, data)] else [])"
    if "i < length (ks_shards s)"
    using j append_record_result(3) [OF j(3)] that by (auto simp: shard_pairs_def nth_list_update)
qed

lemma put_loop_pairs:
  assumes "put_records_loop h recs rs s w = Some (rs', s', w')"
  shows "length (ks_shards s') = length (ks_shards s) \<and> length rs' = length rs + length recs \<and>
    (\<forall>i < length (ks_shards s). shard_pairs s' i = shard_pairs s i @
       filter (\<lambda>p. shard_index h (fst p) (length (ks_shards s)) = Some i) (map put_pair recs))"
  using assms
proof (induction recs arbitrary: rs s w)
  case (Cons rec recs)
  then obtain v s1 w1 where p: "put_one h (value_str rec ''PartitionKey'') (value_str rec ''Data'') s w = Some (v, s1, w1)"
    "put_records_loop h recs (rs @ [v]) s1 w1 = Some (rs', s', w')" by (auto split: option.splits)
  from Cons.IH [OF p(2)] put_one_pairs [OF p(1)] show ?case by (auto simp: put_pair_def)
qed simp

lemma shard_index_bound: "0 < n \<Longrightarrow> n < 2 ^ 64 \<Longrightarrow> \<exists>i < n. shard_index h key n = Some i"
  by (simp add: shard_index_def unat_mod unat_of_nat_u64 del: unsigned_of_nat)

lemma put_one_total:
  assumes "0 < length (ks_shards s)" "length (ks_shards s) < 2 ^ 64"
  shows "\<exists>v s' w'. put_one h key data s w = Some (v, s', w')"
  using shard_index_bound [OF assms, of h key] by (auto simp: put_one_def split: prod.splits)

lemma put_loop_total:
  "0 < length (ks_shards s) \<Longrightarrow> length (ks_shards s) < 2 ^ 64 \<Longrightarrow> put_records_loop h recs rs s w \<noteq> None"
proof (induction recs arbitrary: rs s w)
  case (Cons rec recs)
  obtain v s' w' where p: "put_one h (value_str rec ''PartitionKey'') (value_str rec ''Data'') s w = Some (v, s', w')"
    using put_one_total [OF Cons.prems] by blast
  with Cons.IH [of s'] put_one_pairs(1) [OF p] Cons.prems show ?case by simp
qed simp

text \<open>PutRecords on a stream with shards appends every record, in the order of the request, to the
  shard that its partition key selects, and to no other, so records with one key stay in one shard in
  their order; it answers one result per record. On a stream without shards the first record divides by
  zero and the process aborts.\<close>

theorem kinesis_records_routed:
  assumes "length (ks_shards s) < 2 ^ 64"
  shows "case put_records_loop h recs [] s w of
      None \<Rightarrow> ks_shards s = [] \<and> recs \<noteq> []
    | Some (results, s', w') \<Rightarrow>
        (ks_shards s \<noteq> [] \<or> recs = []) \<and> length results = length recs \<and> length (ks_shards s') = length (ks_shards s) \<and>
        (\<forall>i < length (ks_shards s). shard_pairs s' i = shard_pairs s i @
           filter (\<lambda>p. shard_index h (fst p) (length (ks_shards s)) = Some i) (map put_pair recs))"
proof (cases "put_records_loop h recs [] s w")
  case None
  then have "ks_shards s = []" using put_loop_total [OF _ assms] by (metis length_greater_0_conv)
  with None show ?thesis by (cases recs) auto
next
  case (Some x)
  obtain results s' w' where x: "x = (results, s', w')" by (cases x)
  have "recs = []" if "ks_shards s = []"
    using Some that by (cases recs) (simp_all add: put_one_def shard_index_def)
  with put_loop_pairs [OF Some [unfolded x]] Some x show ?thesis by auto
qed

section \<open>Reading\<close>

text \<open>A client that keeps asking with the iterator it was given, \<open>n\<close> times.\<close>

fun read_pages :: "nat \<Rightarrow> nat \<Rightarrow> ShardIteratorState \<Rightarrow> Shard \<Rightarrow> KinesisRecord list list" where
  "read_pages 0 limit st sh = []"
| "read_pages (Suc n) limit st sh =
     (case read_shard st limit sh of (records, st) \<Rightarrow> records # read_pages n limit st sh)"

lemma take_drop_taken: "take n xs @ drop (length (take n xs)) xs = xs"
  by (cases "n \<le> length xs") simp_all

lemma read_pages_complete:
  assumes "0 < limit" "length (sh_records sh) < 2 ^ 64"
    and "length (sh_records sh) \<le> unat (si_next_index st) + n" "unat (si_next_index st) \<le> length (sh_records sh)"
  shows "concat (read_pages n limit st sh) = drop (unat (si_next_index st)) (sh_records sh)"
  using assms(3,4)
proof (induction n arbitrary: st)
  case (Suc n)
  let ?i = "unat (si_next_index st)" and ?rs = "sh_records sh"
  let ?k = "length (take limit (drop ?i ?rs))"
  have k: "?k = min limit (length ?rs - ?i)" by simp
  have "?i + ?k < 2 ^ 64" using assms(2) Suc.prems by simp
  then have i: "unat (si_next_index st + of_nat ?k) = ?i + ?k"
    by (simp add: unat_word_ariths unat_of_nat_u64 del: unsigned_of_nat length_take length_drop)
  have "concat (read_pages n limit (st\<lparr>si_next_index := si_next_index st + of_nat ?k\<rparr>) sh) = drop (?i + ?k) ?rs"
  proof -
    have "length ?rs \<le> ?i + ?k + n" "?i + ?k \<le> length ?rs" using Suc.prems assms(1) k by linarith+
    then show ?thesis
      using Suc.IH [of "st\<lparr>si_next_index := si_next_index st + of_nat ?k\<rparr>"] i by (simp del: length_take length_drop)
  qed
  moreover have "take limit (drop ?i ?rs) @ drop (?i + ?k) ?rs = drop ?i ?rs"
    using take_drop_taken [of limit "drop ?i ?rs"] by (simp add: add.commute)
  ultimately show ?case by (simp add: read_shard_def Let_def)
qed simp

lemma iterator_json_roundtrip: "iterator_of_json (iterator_json st) = Some st"
  by (simp add: iterator_json_def json_object_def cmp_def)

lemma decode_encode:
  assumes "\<forall>x. b64_decode b64 (b64_encode b64 x) = Some x"
    and "\<forall>st. json_from_slice ext (json_to_string ext (iterator_json st)) = Some (iterator_json st)"
  shows "decode_iterator ext b64 (encode_iterator ext b64 st) = Some st"
  using assms by (simp add: decode_iterator_def encode_iterator_def iterator_json_roundtrip)

definition records_page :: "externs \<Rightarrow> base64_lib \<Rightarrow> KinesisRecord list \<times> ShardIteratorState \<Rightarrow> DispatchResponse" where
  "records_page ext b64 page =
     kin_json_ok ext (json_object
       [(''Records'', JArray (map kin_record_json (fst page))),
        (''NextShardIterator'', JString (encode_iterator ext b64 (snd page))), (''MillisBehindLatest'', json_count 0)])"

text \<open>C31: An iterator token denotes a position in a shard: GetRecords with it answers the records
  from there, at most the limit, and the token of the position after them. A client that starts at
  TRIM_HORIZON and passes on every token receives each record of the shard exactly once, in order. The
  base64 codec and the JSON printer must be undone by their inverses on such tokens.\<close>

theorem kinesis_reader_complete:
  assumes "\<forall>x. b64_decode b64 (b64_encode b64 x) = Some x"
    and "\<forall>st. json_from_slice ext (json_to_string ext (iterator_json st)) = Some (iterator_json st)"
    and "bundle_get b acc reg = Some store" "hm_get (kst_streams store) name = Some s" "find_shard s shard_id = Some sh"
    and "length (sh_records sh) < 2 ^ 64" "0 < limit"
  shows "(\<forall>ctx it w. ctx_account_id ctx = acc \<and> ctx_region ctx = reg \<and> ctx_operation ctx = ''GetRecords'' \<and>
            si_stream_name it = name \<and> si_shard_id it = shard_id \<and>
            str_param ctx ''ShardIterator'' = Some (encode_iterator ext b64 it) \<and>
            Option.bind (value_get (ctx_request_body ctx) ''Limit'') as_u64 = Some limit \<longrightarrow>
            kinesis_dispatch ext b64 h ctx b w = Some (records_page ext b64 (read_shard it (unat limit) sh), b, w)) \<and>
         concat (read_pages (length (sh_records sh)) (unat limit)
           \<lparr>si_stream_name = name, si_shard_id = shard_id,
            si_next_index = of_nat (start_index (parse_iterator_type ''TRIM_HORIZON'') [] sh)\<rparr> sh) = sh_records sh"
proof (intro conjI allI impI)
  fix ctx it w
  assume "ctx_account_id ctx = acc \<and> ctx_region ctx = reg \<and> ctx_operation ctx = ''GetRecords'' \<and>
            si_stream_name it = name \<and> si_shard_id it = shard_id \<and>
            str_param ctx ''ShardIterator'' = Some (encode_iterator ext b64 it) \<and>
            Option.bind (value_get (ctx_request_body ctx) ''Limit'') as_u64 = Some limit"
  then show "kinesis_dispatch ext b64 h ctx b w = Some (records_page ext b64 (read_shard it (unat limit) sh), b, w)"
    using decode_encode [OF assms(1,2), of it] assms(3-5)
    by (simp add: kinesis_dispatch_def kin_get_records_def kin_required_def kin_read_stream_def reading_def
        records_page_def Let_def case_prod_unfold)
next
  have "0 < unat limit" using assms(7) by (simp add: word_less_nat_alt)
  from read_pages_complete [OF this assms(6), of "\<lparr>si_stream_name = name, si_shard_id = shard_id, si_next_index = 0\<rparr>"]
  show "concat (read_pages (length (sh_records sh)) (unat limit)
           \<lparr>si_stream_name = name, si_shard_id = shard_id,
            si_next_index = of_nat (start_index (parse_iterator_type ''TRIM_HORIZON'') [] sh)\<rparr> sh) = sh_records sh"
    by (simp add: start_index_def parse_iterator_type_def)
qed

section \<open>Concrete inputs\<close>

text \<open>A printer for iterator states that can be undone, standing for the JSON library.\<close>

fun tagged :: "char \<Rightarrow> string \<Rightarrow> string" where
  "tagged t [] = []"
| "tagged t (c # cs) = t # c # tagged t cs"

fun untag :: "char \<Rightarrow> string \<Rightarrow> string" where
  "untag t (a # c # cs) = (if a = t then c # untag t cs else untag t cs)"
| "untag t _ = []"

lemma untag_tagged: "untag t (tagged u xs @ ys) = (if t = u then xs else []) @ untag t ys"
  by (induction xs) auto

definition demo_kin_ext :: externs where
  "demo_kin_ext = \<lparr>md5_digest = rev, hex_encode = (\<lambda>s. s),
     json_from_slice = (\<lambda>s. Some (iterator_json
       \<lparr>si_stream_name = untag (CHR ''n'') s, si_shard_id = untag (CHR ''s'') s,
        si_next_index = of_nat (the (digits_val 10 0 (untag (CHR ''i'') s)))\<rparr>)),
     json_to_string = (\<lambda>v. case iterator_of_json v of
         Some st \<Rightarrow> tagged (CHR ''n'') (si_stream_name st) @ tagged (CHR ''s'') (si_shard_id st) @
           tagged (CHR ''i'') (to_radix 10 (unat (si_next_index st))) @ []
       | None \<Rightarrow> []),
     header_to_str = Some\<rparr>"

definition demo_b64 :: base64_lib where
  "demo_b64 = \<lparr>b64_encode = rev, b64_decode = (\<lambda>s. Some (rev s))\<rparr>"

lemma demo_kin_codec:
  "\<forall>x. b64_decode demo_b64 (b64_encode demo_b64 x) = Some x"
  "\<forall>st. json_from_slice demo_kin_ext (json_to_string demo_kin_ext (iterator_json st)) = Some (iterator_json st)"
proof -
  show "\<forall>x. b64_decode demo_b64 (b64_encode demo_b64 x) = Some x" by (simp add: demo_b64_def)
  have "iterator_json \<lparr>si_stream_name = si_stream_name st, si_shard_id = si_shard_id st, si_next_index = si_next_index st\<rparr> =
      iterator_json st" for st by (simp add: iterator_json_def)
  then show "\<forall>st. json_from_slice demo_kin_ext (json_to_string demo_kin_ext (iterator_json st)) = Some (iterator_json st)"
    using digits_val_to_radix [of 10] untag_tagged [of _ _ _ "[]"]
    by (simp add: demo_kin_ext_def iterator_json_roundtrip untag_tagged)
qed

definition demo_kin_ctx :: "string \<Rightarrow> (string \<times> Value) list \<Rightarrow> RequestContext" where
  "demo_kin_ctx op body = (RequestContext_new ''kinesis'' op ''us-east-1'' ''000000000000'')\<lparr>ctx_request_body := JObject body\<rparr>"

definition demo_hash :: "string \<Rightarrow> u64" where
  "demo_hash s = of_nat (sum_list (map of_char s))"

definition demo_kin_requests :: "RequestContext list" where
  "demo_kin_requests =
     [demo_kin_ctx ''CreateStream'' [(''ShardCount'', JNumber (PosInt 2)), (''StreamName'', JString ''s'')],
      demo_kin_ctx ''PutRecord'' [(''Data'', JString ''eA=='') , (''PartitionKey'', JString ''a''), (''StreamName'', JString ''s'')],
      demo_kin_ctx ''SplitShard'' [(''ShardToSplit'', JString ''shardId-000000000001''), (''StreamName'', JString ''s'')]]"

definition demo_kin_world :: clock_world where
  "demo_kin_world = \<lparr>cw_clock = (\<lambda>i. 1000000000 * int i), cw_reads = 0\<rparr>"

definition demo_kin_state :: "(KinesisStore AccountRegionBundle \<times> clock_world) option" where
  "demo_kin_state = kinesis_run demo_kin_ext demo_b64 demo_hash demo_kin_requests bundle_new demo_kin_world"

definition demo_kin_stream :: "KinesisStream option" where
  "demo_kin_stream = Option.bind demo_kin_state (\<lambda>(b, w). Option.bind (bundle_get b ''000000000000'' ''us-east-1'')
     (\<lambda>st. hm_get (kst_streams st) ''s''))"

lemma demo_kin_run:
  obtains b w st s where
    "kinesis_run demo_kin_ext demo_b64 demo_hash demo_kin_requests bundle_new demo_kin_world = Some (b, w)"
    "bundle_get b ''000000000000'' ''us-east-1'' = Some st" "hm_get (kst_streams st) ''s'' = Some s"
    "demo_kin_stream = Some s"
proof -
  have "demo_kin_stream \<noteq> None" by code_simp
  then show ?thesis using that
    by (auto simp: demo_kin_stream_def demo_kin_state_def bind_eq_Some_conv split: bind_splits)
qed


theorem kinesis_records_routed_witness:
  "\<exists>results s' w'. put_records_loop demo_hash [JObject [(''Data'', JString ''x''), (''PartitionKey'', JString ''k'')]] []
       (KinesisStream_new 0 ''s'' ''arn'' 2) demo_kin_world = Some (results, s', w') \<and>
     shard_pairs s' 1 = [(''k'', ''x'')] \<and> shard_pairs s' 0 = []"
proof -
  let ?s = "KinesisStream_new 0 ''s'' ''arn'' 2" and ?r = "JObject [(''Data'', JString ''x''), (''PartitionKey'', JString ''k'')]"
  have e: "length (ks_shards ?s) = 2" "ks_shards ?s \<noteq> []" "shard_pairs ?s 0 = []" "shard_pairs ?s 1 = []"
    "map put_pair [?r] = [(''k'', ''x'')]" "shard_index demo_hash ''k'' 2 = Some 1" by code_simp+
  have "length (ks_shards ?s) < 2 ^ 64" using e by simp
  from kinesis_records_routed [OF this, where h = demo_hash and recs = "[?r]" and w = demo_kin_world] e show ?thesis
    by (auto split: option.splits)
qed

theorem kinesis_reader_complete_witness:
  "concat (read_pages 1 10 \<lparr>si_stream_name = ''s'', si_shard_id = ''shardId-000000000001'', si_next_index = 0\<rparr>
     ((ks_shards (the demo_kin_stream)) ! 1)) = sh_records ((ks_shards (the demo_kin_stream)) ! 1)"
proof -
  obtain b w st s where "kinesis_run demo_kin_ext demo_b64 demo_hash demo_kin_requests bundle_new demo_kin_world = Some (b, w)"
    and d: "bundle_get b ''000000000000'' ''us-east-1'' = Some st" "hm_get (kst_streams st) ''s'' = Some s"
    "demo_kin_stream = Some s" by (rule demo_kin_run)
  let ?sh = "ks_shards (the demo_kin_stream) ! 1"
  have "find_shard (the demo_kin_stream) ''shardId-000000000001'' = Some ?sh" by code_simp
  then have f: "find_shard s ''shardId-000000000001'' = Some ?sh" unfolding d(3) by simp
  have l: "length (sh_records ?sh) = 1" by code_simp
  have "length (sh_records ?sh) < 2 ^ 64" "(0::u64) < 10" using l by simp_all
  from kinesis_reader_complete [OF demo_kin_codec d(1,2) f this] l show ?thesis
    by (simp add: start_index_def parse_iterator_type_def)
qed

end
