(* ===== verification/Platform.thy ===== *)
theory Platform
  imports Service_Manager Sqs_Invariant Dynamo_Requests Kinesis_Streams
begin

text \<open>
  The modelled services behind the manager: the providers of SQS, DynamoDB and Kinesis as records over a
  common state type, registered under their names, and what holds of them after any sequence of
  requests, whichever services the requests name.
\<close>

type_synonym sqs_state = "sqs_bundle \<times> world"
type_synonym dynamo_state = "dyn_bundle \<times> dyn_world"
type_synonym kinesis_state = "KinesisStore AccountRegionBundle \<times> clock_world"

datatype platform_state = Sqs_State sqs_state | Dynamo_State dynamo_state | Kinesis_State kinesis_state

definition sqs_provider :: "externs \<Rightarrow> (int \<Rightarrow> string) \<Rightarrow> platform_state ServiceProvider" where
  "sqs_provider ext to_rfc3339 =
     (provider_defaults ''sqs'' (\<lambda>ctx s.
        case s of
          Sqs_State (b, w) \<Rightarrow> (case dispatch ext ctx b w of (r, b, w) \<Rightarrow> Some (r, Sqs_State (b, w)))
        | _ \<Rightarrow> None))
     \<lparr>sp_storage_snapshot := (\<lambda>s. case s of Sqs_State (b, _) \<Rightarrow> Some (storage_snapshot to_rfc3339 b) | _ \<Rightarrow> None)\<rparr>"

definition dynamo_provider ::
  "'d decimal_lib \<Rightarrow> externs \<Rightarrow> (int \<Rightarrow> string) \<Rightarrow> platform_state ServiceProvider" where
  "dynamo_provider lib ext to_rfc3339 =
     (provider_defaults ''dynamodb'' (\<lambda>ctx s.
        case s of
          Dynamo_State (b, w) \<Rightarrow> map_option (\<lambda>(r, b, w). (Inr r, Dynamo_State (b, w))) (dynamo_dispatch lib ext ctx b w)
        | _ \<Rightarrow> None))
     \<lparr>sp_storage_snapshot := (\<lambda>s. case s of Dynamo_State (b, _) \<Rightarrow> Some (dynamo_storage_snapshot to_rfc3339 b) | _ \<Rightarrow> None)\<rparr>"

definition kinesis_provider ::
  "externs \<Rightarrow> base64_lib \<Rightarrow> (string \<Rightarrow> u64) \<Rightarrow> platform_state ServiceProvider" where
  "kinesis_provider ext b64 hash_string =
     (provider_defaults ''kinesis'' (\<lambda>ctx s.
        case s of
          Kinesis_State (b, w) \<Rightarrow>
            map_option (\<lambda>(r, b, w). (Inr r, Kinesis_State (b, w))) (kinesis_dispatch ext b64 hash_string ctx b w)
        | _ \<Rightarrow> None))
     \<lparr>sp_storage_snapshot := (\<lambda>s. case s of Kinesis_State (b, _) \<Rightarrow> Some (kinesis_storage_snapshot b) | _ \<Rightarrow> None)\<rparr>"

text \<open>The functions of other packages the services call, and the initial state of their environments.\<close>

record 'd platform_env =
  env_ext :: externs
  env_rfc3339 :: "int \<Rightarrow> string"
  env_decimal :: "'d decimal_lib"
  env_b64 :: base64_lib
  env_hash :: "string \<Rightarrow> u64"
  env_sqs :: world
  env_dynamo :: dyn_world
  env_kinesis :: clock_world

definition platform :: "'d platform_env \<Rightarrow> platform_state ServicePluginManager" where
  "platform e =
     register ''kinesis'' (kinesis_provider (env_ext e) (env_b64 e) (env_hash e)) (Kinesis_State (bundle_new, env_kinesis e))
       (register ''dynamodb'' (dynamo_provider (env_decimal e) (env_ext e) (env_rfc3339 e)) (Dynamo_State (bundle_new, env_dynamo e))
          (register ''sqs'' (sqs_provider (env_ext e) (env_rfc3339 e)) (Sqs_State (bundle_new, env_sqs e)) manager_new))"

section \<open>The providers keep their invariants\<close>

definition sqs_budget :: "nat \<Rightarrow> platform_state \<Rightarrow> bool" where
  "sqs_budget n s \<longleftrightarrow> (\<exists>b w. s = Sqs_State (b, w) \<and> sqs_inv (ids_drawn w) b \<and> ids_drawn w + n + 1 < 2 ^ 64)"

definition dynamo_budget :: "nat \<Rightarrow> platform_state \<Rightarrow> bool" where
  "dynamo_budget n s \<longleftrightarrow> (\<exists>b w. s = Dynamo_State (b, w) \<and> ok_tables.bundle_good b)"

definition kinesis_budget :: "nat \<Rightarrow> platform_state \<Rightarrow> bool" where
  "kinesis_budget n s \<longleftrightarrow> (\<exists>b w. s = Kinesis_State (b, w) \<and> kinesis_scopes.all_scopes b)"

interpretation sqs: provider_invariant "sqs_provider ext f" sqs_budget "\<lambda>ctx. request_cost (params_of ext ctx)" for ext f
proof (unfold_locales, goal_cases)
  case (2 n ctx s r s')
  then obtain b w b' w' where s: "s = Sqs_State (b, w)" "s' = Sqs_State (b', w')" "dispatch ext ctx b w = (r, b', w')"
    "sqs_inv (ids_drawn w) b" "ids_drawn w + (n + request_cost (params_of ext ctx)) + 1 < 2 ^ 64"
    by (auto simp: sqs_budget_def sqs_provider_def provider_defaults_def split: prod.splits)
  then have "sqs_inv (ids_drawn w') b'" "ids_drawn w' \<le> ids_drawn w + request_cost (params_of ext ctx)"
    using dispatch_keeps [of ext ctx] unfolding keeps_inv_def by fastforce+
  with s show ?case by (auto simp: sqs_budget_def)
qed (auto simp: sqs_budget_def sqs_provider_def provider_defaults_def)

interpretation dynamo: provider_invariant "dynamo_provider lib ext f" dynamo_budget "\<lambda>_. 0" for lib :: "'d decimal_lib" and ext f
proof (unfold_locales, goal_cases)
  case (2 n ctx s r s')
  then obtain b w r' b' w' where s: "s = Dynamo_State (b, w)" "s' = Dynamo_State (b', w')"
    "dynamo_dispatch lib ext ctx b w = Some (r', b', w')" "ok_tables.bundle_good b"
    by (auto simp: dynamo_budget_def dynamo_provider_def provider_defaults_def)
  then show ?case using ok_tables.dispatch_keeps_good [of b lib ext ctx w]
    by (auto simp: dynamo_budget_def ok_tables.good_result_def)
qed (auto simp: dynamo_budget_def dynamo_provider_def provider_defaults_def)

interpretation kinesis: provider_invariant "kinesis_provider ext b64 h" kinesis_budget "\<lambda>_. 0" for ext b64 h
proof (unfold_locales, goal_cases)
  case (2 n ctx s r s')
  then obtain b w r' b' w' where s: "s = Kinesis_State (b, w)" "s' = Kinesis_State (b', w')"
    "kinesis_dispatch ext b64 h ctx b w = Some (r', b', w')" "kinesis_scopes.all_scopes b"
    by (auto simp: kinesis_budget_def kinesis_provider_def provider_defaults_def)
  then show ?case using kinesis_dispatch_keeps [of ext b64 h ctx]
    unfolding kinesis_budget_def kinesis_scopes.bundle_keeps_def by blast
qed (auto simp: kinesis_budget_def kinesis_provider_def provider_defaults_def)

lemma platform_idle:
  "idle_at ''sqs'' (sqs_provider (env_ext e) (env_rfc3339 e)) (Sqs_State (bundle_new, env_sqs e)) (platform e)"
  "idle_at ''dynamodb'' (dynamo_provider (env_decimal e) (env_ext e) (env_rfc3339 e)) (Dynamo_State (bundle_new, env_dynamo e)) (platform e)"
  "idle_at ''kinesis'' (kinesis_provider (env_ext e) (env_b64 e) (env_hash e)) (Kinesis_State (bundle_new, env_kinesis e)) (platform e)"
  by (simp_all add: idle_at_def platform_def register_def manager_new_def ServiceContainer_new_def
      to_ascii_lowercase_def is_ascii_uppercase_def update_conv')

text \<open>The state of a registered service.\<close>

definition service_state_of :: "string \<Rightarrow> 's ServicePluginManager \<Rightarrow> 's option" where
  "service_state_of k m = map_option (\<lambda>(c, p, s). s) (hm_get (containers m) k)"

lemma idle_at_state: "idle_at k p s m \<Longrightarrow> service_state_of k m = Some s"
  by (auto simp: idle_at_def service_state_of_def)

section \<open>Runs of requests\<close>

text \<open>Requests of all services go through one manager.\<close>

lemma platform_run_invariants:
  assumes "manager_run reqs (platform e) = Some m"
    and "ids_drawn (env_sqs e) + sum_list (map (\<lambda>req. request_cost (params_of (env_ext e) (snd req))) reqs) + 1 < 2 ^ 64"
  shows "\<exists>qb w tb dw kb kw.
    service_state_of ''sqs'' m = Some (Sqs_State (qb, w)) \<and> service_state_of ''dynamodb'' m = Some (Dynamo_State (tb, dw)) \<and>
    service_state_of ''kinesis'' m = Some (Kinesis_State (kb, kw)) \<and>
    (\<forall>acc reg st name q. bundle_get qb acc reg = Some st \<and> get_queue_by_name st name = Some q \<longrightarrow>
       q_name q = name \<and> distinct (map m_message_id (q_messages q)) \<and> distinct (map m_receipt_handle (q_messages q))) \<and>
    (\<forall>acc reg st name t hs item. bundle_get tb acc reg = Some st \<and> get_table st name = Some t \<longrightarrow>
       t_name t = name \<and> (lookup_pair t hs = Some item \<longrightarrow> extract_key_from_item t item = Some hs)) \<and>
    (\<forall>acc reg st name s. bundle_get kb acc reg = Some st \<and> hm_get (kst_streams st) name = Some s \<longrightarrow>
       ks_name s = name \<and> ks_shard_count s = open_shards (ks_shards s))"
proof -
  have "sqs_budget (sum_list (map (\<lambda>req. request_cost (params_of (env_ext e) (snd req))) reqs)) (Sqs_State (bundle_new, env_sqs e))"
    using assms(2) by (simp add: sqs_budget_def sqs_inv_def bundle_new_def)
  then obtain qb w where q: "service_state_of ''sqs'' m = Some (Sqs_State (qb, w))" "sqs_inv (ids_drawn w) qb"
    using sqs.manager_run_keeps [OF assms(1) platform_idle(1)] idle_at_state by (fastforce simp: sqs_budget_def)
  have "dynamo_budget (sum_list (map (\<lambda>req. 0) reqs)) (Dynamo_State (bundle_new, env_dynamo e))"
    by (simp add: dynamo_budget_def ok_tables.bundle_good_def bundle_new_def)
  then obtain tb dw where t: "service_state_of ''dynamodb'' m = Some (Dynamo_State (tb, dw))" "ok_tables.bundle_good tb"
    using dynamo.manager_run_keeps [OF assms(1) platform_idle(2)] idle_at_state by (fastforce simp: dynamo_budget_def)
  have "kinesis_budget (sum_list (map (\<lambda>req. 0) reqs)) (Kinesis_State (bundle_new, env_kinesis e))"
    by (simp add: kinesis_budget_def kinesis_scopes.all_scopes_new)
  then obtain kb kw where k: "service_state_of ''kinesis'' m = Some (Kinesis_State (kb, kw))" "kinesis_scopes.all_scopes kb"
    using kinesis.manager_run_keeps [OF assms(1) platform_idle(3)] idle_at_state by (fastforce simp: kinesis_budget_def)
  have Q: "q_name q = name \<and> distinct (map m_message_id (q_messages q)) \<and> distinct (map m_receipt_handle (q_messages q))"
    if "bundle_get qb acc reg = Some st" "get_queue_by_name st name = Some q" for acc reg st name q
    using that q(2) by (auto simp: sqs_inv_def store_ok_def queue_ok_def queue_inv_def bundle_get_eq)
  have T: "t_name t = name \<and> (lookup_pair t hs = Some item \<longrightarrow> extract_key_from_item t item = Some hs)"
    if "bundle_get tb acc reg = Some st" "get_table st name = Some t" for acc reg st name t hs item
  proof -
    have "table_ok name t"
      using that t(2) by (simp add: ok_tables.bundle_good_def ok_tables.store_good_def bundle_get_eq)
    then show ?thesis by (cases hs) (simp add: table_ok_def)
  qed
  have K: "ks_name s = name \<and> ks_shard_count s = open_shards (ks_shards s)"
    if "bundle_get kb acc reg = Some st" "hm_get (kst_streams st) name = Some s" for acc reg st name s
    using kinesis_scopes.all_scopes_get [OF k(2) that(1)] that(2) by (simp add: streams_ok_def stream_ok_def)
  show ?thesis
    by (rule exI [of _ qb], rule exI [of _ w], rule exI [of _ tb], rule exI [of _ dw], rule exI [of _ kb], rule exI [of _ kw])
      (intro conjI q(1) t(1) k(1); use Q T K in blast)
qed

definition demo_env :: "nat platform_env" where
  "demo_env = \<lparr>env_ext = demo_externs, env_rfc3339 = (\<lambda>_. []), env_decimal = int_lib, env_b64 = demo_b64, env_hash = demo_hash,
     env_sqs = demo_world, env_dynamo = dyn_world0, env_kinesis = demo_kin_world\<rparr>"

end
