(* ===== verification/Gateway.thy ===== *)
theory Gateway
  imports Gateway_Routing Platform
begin

text \<open>
  The crate \<^verbatim>\<open>gateway\<close>, the request handler of \<^verbatim>\<open>server.rs\<close> with the CORS handler (\<^verbatim>\<open>cors.rs\<close>) and the
  request context (\<^verbatim>\<open>context.rs\<close>): from an HTTP request to the service manager and back to an HTTP
  response. The functions of other packages are the fields of \<open>gateway_libs\<close>. A response that another
  part of the program makes (the pages of Studio, the internal API) is named by what is asked of it.
\<close>

section \<open>Other packages\<close>

text \<open>
  \<^item> \<open>gl_query_map\<close> and \<open>gl_query_text\<close> are \<^verbatim>\<open>serde_urlencoded::from_str\<close> and \<^verbatim>\<open>to_string\<close> at the type of maps;
  \<^item> \<open>gl_hash\<close> is the default hasher of the standard library, whose algorithm is unspecified;
  \<^item> \<open>gl_header_value\<close> and \<open>gl_header_name\<close> say which texts the package \<^verbatim>\<open>http\<close> accepts in a header;
  \<^item> \<open>gl_spool\<close> is what reading back a spooled temporary file of the given threshold gives after the chunks were
    written to it, or nothing on an I/O error.
\<close>

record gateway_libs =
  gl_ext :: externs
  gl_codecs :: codecs
  gl_query_map :: "string \<Rightarrow> (string, string) hash_map option"
  gl_query_text :: "(string, string) hash_map \<Rightarrow> string"
  gl_hash :: "string \<Rightarrow> u64"
  gl_header_value :: "string \<Rightarrow> bool"
  gl_header_name :: "string \<Rightarrow> bool"
  gl_spool :: "nat \<Rightarrow> string list \<Rightarrow> string option"

section \<open>Request identifiers\<close>

definition hex_of_byte :: "u8 \<Rightarrow> string" where
  "hex_of_byte b = [digit_char (unat (drop_bit 4 b)), digit_char (unat (and b 0x0f))]"

text \<open>The argument is the sixteen bytes the random generator yields.\<close>

definition set_uuid_bits :: "u8 list \<Rightarrow> u8 list" where
  "set_uuid_bits b =
     (let b = b[6 := or (and (b ! 6) 0x0f) 0x40] in b[8 := or (and (b ! 8) 0x3f) 0x80])"

fun uuid_text :: "nat \<Rightarrow> u8 list \<Rightarrow> string" where
  "uuid_text i [] = []"
| "uuid_text i (b # bs) = (if i = 4 \<or> i = 6 \<or> i = 8 \<or> i = 10 then ''-'' else []) @ hex_of_byte b @ uuid_text (i + 1) bs"

definition fast_request_id :: "u8 list \<Rightarrow> string" where
  "fast_request_id random = uuid_text 0 (set_uuid_bits random)"

section \<open>Request bodies\<close>

datatype frame = Data string | Trailers | Broken

datatype IoError = InvalidData | OtherIo

text \<open>The items the stream yields: an error item for every data frame past the limit.\<close>

fun body_stream :: "nat \<Rightarrow> nat option \<Rightarrow> frame list \<Rightarrow> (IoError + string) list" where
  "body_stream bytes_read max_bytes [] = []"
| "body_stream bytes_read max_bytes (Data d # fs) =
     (let bytes_read = min (bytes_read + length d) (2 ^ 64 - 1)
      in (case max_bytes of
            Some limit \<Rightarrow> if limit < bytes_read then Inl InvalidData else Inr d
          | None \<Rightarrow> Inr d) # body_stream bytes_read max_bytes fs)"
| "body_stream bytes_read max_bytes (Trailers # fs) = body_stream bytes_read max_bytes fs"
| "body_stream bytes_read max_bytes (Broken # fs) = Inl OtherIo # body_stream bytes_read max_bytes fs"

fun write_from_stream :: "string list \<Rightarrow> (IoError + string) list \<Rightarrow> IoError + string list" where
  "write_from_stream chunks [] = Inr chunks"
| "write_from_stream chunks (Inr c # items) = write_from_stream (chunks @ [c]) items"
| "write_from_stream chunks (Inl e # items) = Inl e"

section \<open>Responses\<close>

datatype HttpResponse =
    Text_Response nat string
  | Studio_Asset string
  | Studio_Spa
  | Internal_Api string string "(string, string) hash_map" string
  | Http_Response nat "(string, string) hash_map" ResponseBody

section \<open>CORS\<close>

record GatewayConfig =
  cfg_allow_nonstandard_regions :: bool
  cfg_localstack_host :: string
  cfg_body_spool_threshold_bytes :: nat
  cfg_disable_cors_headers :: bool
  cfg_extra_allowed_headers :: "string list"
  cfg_extra_allowed_origins :: "string list"

record CorsHandler =
  cors_disable_headers :: bool
  cors_allowed_origins :: "string list"
  cors_allowed_headers_value :: string

definition default_allowed_headers :: "string list" where
  "default_allowed_headers =
     [''Authorization'', ''Content-Type'', ''X-Amz-Date'', ''X-Amz-Security-Token'', ''X-Amz-Target'',
      ''X-Amz-User-Agent'', ''X-Amzn-RequestId'']"

definition CorsHandler_new :: "gateway_libs \<Rightarrow> GatewayConfig \<Rightarrow> CorsHandler" where
  "CorsHandler_new libs config =
     (let allowed_headers = filter (gl_header_name libs) (default_allowed_headers @ cfg_extra_allowed_headers config);
          joined = join '','' allowed_headers
      in \<lparr>cors_disable_headers = cfg_disable_cors_headers config,
          cors_allowed_origins = cfg_extra_allowed_origins config,
          cors_allowed_headers_value =
            (if gl_header_value libs joined then joined else join '','' default_allowed_headers)\<rparr>)"

definition add_cors_headers ::
  "gateway_libs \<Rightarrow> CorsHandler \<Rightarrow> string option \<Rightarrow> (string, string) hash_map \<Rightarrow> (string, string) hash_map" where
  "add_cors_headers libs cors origin headers =
     (if cors_disable_headers cors then headers
      else let origin_value = (case origin of Some o' \<Rightarrow> o' | None \<Rightarrow> ''*'')
           in fold (\<lambda>(k, v). hm_insert k v)
                [(''access-control-allow-origin'', if gl_header_value libs origin_value then origin_value else ''*''),
                 (''access-control-allow-methods'', ''HEAD,GET,PUT,POST,DELETE,OPTIONS,PATCH''),
                 (''access-control-allow-headers'', cors_allowed_headers_value cors),
                 (''access-control-expose-headers'', ''ETag,x-amz-version-id''),
                 (''access-control-max-age'', ''86400'')] headers)"

definition is_preflight :: "string \<Rightarrow> (string, string) hash_map \<Rightarrow> bool" where
  "is_preflight method headers \<longleftrightarrow>
     method = ''OPTIONS'' \<and> contains_key headers ''origin'' \<and> contains_key headers ''access-control-request-method''"

section \<open>The request context\<close>

record GatewayContext =
  gc_service :: string
  gc_operation :: string
  gc_region :: string
  gc_account_id :: string
  gc_access_key :: string
  gc_protocol :: AwsProtocol
  gc_params :: Value
  gc_raw_body :: "string option"
  gc_headers :: "(string, string) hash_map"
  gc_path :: string
  gc_method :: string
  gc_query_params :: "(string, string) hash_map"
  gc_request_id :: string
  gc_spooled_body :: "string option"
  gc_body_reader :: "(IoError + string) list option"

definition gc_header :: "externs \<Rightarrow> GatewayContext \<Rightarrow> string \<Rightarrow> string option" where
  "gc_header ext ctx name = header_text ext (gc_headers ctx) name"

text \<open>The reader is carried as the bytes it yields before its first error.\<close>

fun reader_bytes :: "(IoError + string) list \<Rightarrow> string" where
  "reader_bytes (Inr c # items) = c @ reader_bytes items"
| "reader_bytes _ = []"

definition to_service_request_context :: "GatewayContext \<Rightarrow> RequestContext" where
  "to_service_request_context c =
     \<lparr>ctx_service = gc_service c, ctx_operation = gc_operation c, ctx_region = gc_region c,
      ctx_account_id = gc_account_id c, ctx_request_body = gc_params c, ctx_raw_body = gc_raw_body c,
      ctx_headers = gc_headers c, ctx_path = gc_path c, ctx_method = gc_method c,
      ctx_query_params = gc_query_params c, ctx_request_id = gc_request_id c,
      ctx_spooled_body = gc_spooled_body c, ctx_body_reader = map_option reader_bytes (gc_body_reader c)\<rparr>"

definition credentials_of :: "externs \<Rightarrow> (string, string) hash_map \<Rightarrow> string \<times> string \<times> string option" where
  "credentials_of ext headers =
     (case header_text ext headers ''authorization'' of
        Some auth \<Rightarrow>
          (case parse_sigv4_auth auth of
             Some sigv4 \<Rightarrow> (sa_access_key sigv4, sa_region sigv4, Some (sa_service sigv4))
           | None \<Rightarrow> (DEFAULT_ACCESS_KEY, DEFAULT_REGION, None))
      | None \<Rightarrow> (DEFAULT_ACCESS_KEY, DEFAULT_REGION, None))"

definition build_request_context ::
  "gateway_libs \<Rightarrow> GatewayConfig \<Rightarrow> string \<Rightarrow> string \<Rightarrow> (string, string) hash_map \<Rightarrow> (string, string) hash_map \<Rightarrow> string \<Rightarrow>
   string \<Rightarrow> (IoError + string) list option \<Rightarrow> HttpResponse + GatewayContext" where
  "build_request_context libs config method path query_params headers body request_id body_reader =
     (let ext = gl_ext libs;
          (access_key, region, service_from_auth) = credentials_of ext headers;
          account_id = access_key_to_account_id (gl_hash libs) access_key;
          svc = detect_service ext path query_params headers body service_from_auth;
          path = (if svc = ''s3'' then rewrite_s3_virtual_hosted_path ext path headers (cfg_localstack_host config) else path);
          region = (if cfg_allow_nonstandard_regions config \<or> is_valid_region region then region else DEFAULT_REGION);
          protocol = from_service svc
      in case parse_operation_and_params ext (gl_codecs libs) method path query_params headers body protocol of
           Inl e \<Rightarrow> Inl (Text_Response 400 (''Failed to parse request: '' @ e))
         | Inr (operation, params) \<Rightarrow>
             Inr \<lparr>gc_service = svc, gc_operation = operation, gc_region = region, gc_account_id = account_id,
                  gc_access_key = access_key, gc_protocol = protocol, gc_params = params,
                  gc_raw_body = (if body = [] then None else Some body), gc_headers = headers, gc_path = path,
                  gc_method = method, gc_query_params = query_params, gc_request_id = request_id,
                  gc_spooled_body = None, gc_body_reader = body_reader\<rparr>)"

section \<open>The request handler\<close>

record http_request =
  hq_method :: string
  hq_path :: string
  hq_query :: "string option"
  hq_headers :: "(string, string) hash_map"
  hq_frames :: "frame list"

text \<open>What a request draws from its surroundings: the random bytes, the duration of a start, the latency.\<close>

record request_env =
  rq_random :: "u8 list"
  rq_start_ms :: u64
  rq_dur_ms :: u64

definition STUDIO_GUIDED_MAX_PAYLOAD_BYTES :: nat where
  "STUDIO_GUIDED_MAX_PAYLOAD_BYTES = 256 * 1024"

definition is_studio_spa_route :: "string \<Rightarrow> bool" where
  "is_studio_spa_route path \<longleftrightarrow>
     (path = ''/_localstack/studio'' \<or> path = ''/_localstack/studio/'' \<or> starts_with path ''/_localstack/studio/'') \<and>
     \<not> starts_with path ''/_localstack/studio/assets/''"

definition is_studio_asset_route :: "string \<Rightarrow> bool" where
  "is_studio_asset_route path \<longleftrightarrow> starts_with path ''/_localstack/studio/assets/''"

definition is_studio_guided_execution_route :: "string \<Rightarrow> bool" where
  "is_studio_guided_execution_route path \<longleftrightarrow>
     path = ''/_localstack/studio-api/flows/execute'' \<or> path = ''/_localstack/studio-api/flows/replay''"

definition payload_too_large :: HttpResponse where
  "payload_too_large = Text_Response 413 ''guided execution payload exceeds configured limit''"

definition declared_too_large :: "externs \<Rightarrow> string \<Rightarrow> (string, string) hash_map \<Rightarrow> bool" where
  "declared_too_large ext path headers \<longleftrightarrow>
     is_studio_guided_execution_route path \<and>
     (case Option.bind (header_text ext headers ''content-length'') parse_usize of
        Some len \<Rightarrow> STUDIO_GUIDED_MAX_PAYLOAD_BYTES < len
      | None \<Rightarrow> False)"

definition guided_limit :: "string \<Rightarrow> nat option" where
  "guided_limit path =
     (if is_studio_guided_execution_route path then Some STUDIO_GUIDED_MAX_PAYLOAD_BYTES else None)"

definition read_body :: "gateway_libs \<Rightarrow> GatewayConfig \<Rightarrow> nat option \<Rightarrow> frame list \<Rightarrow> HttpResponse + string" where
  "read_body libs config limit frames =
     (case write_from_stream [] (body_stream 0 limit frames) of
        Inl InvalidData \<Rightarrow> Inl payload_too_large
      | Inl OtherIo \<Rightarrow> Inl (Text_Response 400 ''Failed to read request body'')
      | Inr chunks \<Rightarrow>
          (case gl_spool libs (cfg_body_spool_threshold_bytes config) chunks of
             Some b \<Rightarrow> Inr b
           | None \<Rightarrow> Inl (Text_Response 400 ''Failed to read request body'')))"

definition query_map_of :: "gateway_libs \<Rightarrow> string option \<Rightarrow> (string, string) hash_map" where
  "query_map_of libs query_string =
     (let q = (case query_string of Some q \<Rightarrow> q | None \<Rightarrow> [])
      in if q = [] then [] else case gl_query_map libs q of Some m \<Rightarrow> m | None \<Rightarrow> [])"

definition handle_internal_api ::
  "gateway_libs \<Rightarrow> string \<Rightarrow> string \<Rightarrow> (string, string) hash_map \<Rightarrow> (string, string) hash_map \<Rightarrow> string \<Rightarrow> HttpResponse" where
  "handle_internal_api libs path method headers query_params body =
     (if is_studio_guided_execution_route path \<and> method \<noteq> ''POST'' then
        Text_Response 405 ''method not allowed for guided execution endpoint''
      else if is_studio_guided_execution_route path \<and> STUDIO_GUIDED_MAX_PAYLOAD_BYTES < length body then
        payload_too_large
      else Internal_Api method
             (if query_params = [] then path else path @ ''?'' @ gl_query_text libs query_params) headers body)"

definition internal_request :: "gateway_libs \<Rightarrow> GatewayConfig \<Rightarrow> http_request \<Rightarrow> HttpResponse" where
  "internal_request libs config req =
     (if declared_too_large (gl_ext libs) (hq_path req) (hq_headers req) then payload_too_large
      else case read_body libs config (guided_limit (hq_path req)) (hq_frames req) of
             Inl resp \<Rightarrow> resp
           | Inr body \<Rightarrow>
               handle_internal_api libs (hq_path req) (hq_method req) (hq_headers req)
                 (query_map_of libs (hq_query req)) body)"

fun dispatch_error_parts :: "DispatchError \<Rightarrow> string \<times> string \<times> nat" where
  "dispatch_error_parts (NotImplemented op) =
     (''NotImplemented'', ''Operation '' @ [CHR 0x27] @ op @ [CHR 0x27] @ '' is not implemented'', 501)"
| "dispatch_error_parts (ServiceNotFound svc) =
     (''InternalFailure'', ''Service '' @ [CHR 0x27] @ svc @ [CHR 0x27] @ '' is not enabled. Please check your '' @
        [CHR 0x27] @ ''SERVICES'' @ [CHR 0x27] @ '' configuration variable.'', 501)"
| "dispatch_error_parts (ServiceUnavailable msg) = (''ServiceUnavailable'', msg, 503)"
| "dispatch_error_parts (ProviderError msg) = (''InternalFailure'', msg, 500)"
| "dispatch_error_parts (SerializationError msg) = (''InternalFailure'', msg, 500)"

definition is_status_code :: "nat \<Rightarrow> bool" where
  "is_status_code n \<longleftrightarrow> 100 \<le> n \<and> n \<le> 999"

text \<open>Status, body, content type and extra headers of the answer.\<close>

definition answer_parts ::
  "externs \<Rightarrow> AwsProtocol \<Rightarrow> string \<Rightarrow> DispatchError + DispatchResponse \<Rightarrow>
   nat \<times> ResponseBody \<times> string \<times> (string \<times> string) list" where
  "answer_parts ext protocol request_id result =
     (case result of
        Inr response \<Rightarrow>
          (if is_status_code (status_code response) then status_code response else 200,
           resp_body response, content_type response, resp_headers response)
      | Inl e \<Rightarrow>
          (let (code, message, http_status) = dispatch_error_parts e;
               (status, body, ct) = serialize_error ext protocol code message http_status request_id
           in (if is_status_code status then status else 500, Buffered body, ct, [])))"

text \<open>A response builder that was given an invalid header value falls back to the empty response.\<close>

definition built_response ::
  "gateway_libs \<Rightarrow> nat \<Rightarrow> (string \<times> string) list \<Rightarrow> ResponseBody \<Rightarrow> nat \<times> (string, string) hash_map \<times> ResponseBody" where
  "built_response libs status hs body =
     (if list_all (\<lambda>(k, v). gl_header_value libs v) hs then (status, hs, body) else (200, [], Buffered []))"

definition response_of ::
  "gateway_libs \<Rightarrow> nat \<Rightarrow> ResponseBody \<Rightarrow> string \<Rightarrow> string \<Rightarrow> nat \<times> (string, string) hash_map \<times> ResponseBody" where
  "response_of libs status body ctype request_id =
     (case body of
        Buffered bytes \<Rightarrow>
          built_response libs status [(''content-type'', ctype), (''x-amzn-requestid'', request_id)] body
      | Streaming items len \<Rightarrow>
          built_response libs status
            ([(''content-type'', ctype), (''x-amzn-requestid'', request_id), (''content-encoding'', ''identity'')] @
             (case len of Some n \<Rightarrow> [(''content-length'', nat_to_string n)] | None \<Rightarrow> [])) body)"

text \<open>A header name the package rejects makes the loop panic.\<close>

fun add_extra_headers ::
  "gateway_libs \<Rightarrow> (string \<times> string) list \<Rightarrow> (string, string) hash_map \<Rightarrow> (string, string) hash_map option" where
  "add_extra_headers libs [] headers = Some headers"
| "add_extra_headers libs ((key, v) # rest) headers =
     (if gl_header_value libs v then
        (if gl_header_name libs key then
           add_extra_headers libs rest (hm_insert (to_ascii_lowercase key) v headers)
         else None)
      else add_extra_headers libs rest headers)"

definition studio_record ::
  "RequestContext \<Rightarrow> 's ServicePluginManager \<Rightarrow> nat \<Rightarrow> u64 \<Rightarrow> Value" where
  "studio_record ctx m status dur_ms =
     json_object
       [(''service'', JString (ctx_service ctx)),
        (''operation'', JString (case derive_operation ctx m of Some op \<Rightarrow> op | None \<Rightarrow> ctx_operation ctx)),
        (''method'', JString (ctx_method ctx)), (''path'', JString (ctx_path ctx)),
        (''status'', JNumber (PosInt (of_nat status))), (''startedAtMs'', JNumber (PosInt 0)),
        (''durationMs'', JNumber (PosInt dur_ms)), (''fromGuidedFlow'', JBool False)]"

text \<open>The context of a request to an AWS service, or the response that ends it early.\<close>

definition aws_request_context ::
  "gateway_libs \<Rightarrow> GatewayConfig \<Rightarrow> u8 list \<Rightarrow> http_request \<Rightarrow> HttpResponse + GatewayContext" where
  "aws_request_context libs config random req =
     (let ext = gl_ext libs;
          request_id = fast_request_id random;
          path = hq_path req; headers = hq_headers req;
          query_params = query_map_of libs (hq_query req)
      in if declared_too_large ext path headers then Inl payload_too_large
         else let path_for_body_check =
                    (if should_rewrite_s3_vhost_for_body_check ext headers query_params
                     then rewrite_s3_virtual_hosted_path ext path headers (cfg_localstack_host config) else path);
                  is_s3_body = is_s3_object_body_request ext (hq_method req) path_for_body_check headers query_params
              in case (if is_s3_body
                       then Inr ([], Some (body_stream 0 (guided_limit path) (hq_frames req)))
                       else map_sum id (\<lambda>b. (b, None)) (read_body libs config (guided_limit path) (hq_frames req))) of
                   Inl resp \<Rightarrow> Inl resp
                 | Inr (body, body_reader) \<Rightarrow>
                     build_request_context libs config (hq_method req) path query_params headers body request_id body_reader)"

definition is_studio_origin :: "externs \<Rightarrow> (string, string) hash_map \<Rightarrow> bool" where
  "is_studio_origin ext headers \<longleftrightarrow>
     (case header_text ext headers ''x-openstack-studio-origin'' of
        Some v \<Rightarrow> v = ''1'' \<or> eq_ignore_ascii_case v ''true''
      | None \<Rightarrow> False)"

record gateway =
  gw_libs :: gateway_libs
  gw_config :: GatewayConfig
  gw_cors :: CorsHandler
  gw_studio_enabled :: bool

definition handle_aws_request ::
  "gateway \<Rightarrow> request_env \<Rightarrow> http_request \<Rightarrow> 's ServicePluginManager \<Rightarrow>
   (HttpResponse \<times> Value option \<times> 's ServicePluginManager) option" where
  "handle_aws_request gw env req m =
     (let libs = gw_libs gw; ext = gl_ext libs
      in case aws_request_context libs (gw_config gw) (rq_random env) req of
           Inl resp \<Rightarrow> Some (resp, None, m)
         | Inr ctx \<Rightarrow>
             (let svc_ctx = to_service_request_context ctx
              in case manager_dispatch (rq_start_ms env) svc_ctx m of
                   None \<Rightarrow> None
                 | Some (result, m) \<Rightarrow>
                     (let (status, body, ctype, extra) = answer_parts ext (gc_protocol ctx) (gc_request_id ctx) result;
                          (status', headers, body) = response_of libs status body ctype (gc_request_id ctx)
                      in case add_extra_headers libs extra headers of
                           None \<Rightarrow> None
                         | Some headers \<Rightarrow>
                             Some (Http_Response status'
                                     (add_cors_headers libs (gw_cors gw) (header_text ext (hq_headers req) ''origin'') headers) body,
                                   if gw_studio_enabled gw \<and> \<not> is_studio_origin ext (hq_headers req)
                                   then Some (studio_record svc_ctx m status (rq_dur_ms env)) else None, m))))"

definition handle_request ::
  "gateway \<Rightarrow> request_env \<Rightarrow> http_request \<Rightarrow> 's ServicePluginManager \<Rightarrow>
   (HttpResponse \<times> Value option \<times> 's ServicePluginManager) option" where
  "handle_request gw env req m =
     (let libs = gw_libs gw
      in if is_preflight (hq_method req) (hq_headers req) then
           Some (Http_Response 200
                   (add_cors_headers libs (gw_cors gw) (header_text (gl_ext libs) (hq_headers req) ''origin'') []) (Buffered []),
                 None, m)
         else if is_studio_asset_route (hq_path req) then Some (Studio_Asset (hq_path req), None, m)
         else if is_studio_spa_route (hq_path req) then Some (Studio_Spa, None, m)
         else if starts_with (hq_path req) ''/_localstack/'' then
           Some (internal_request libs (gw_config gw) req, None, m)
         else handle_aws_request gw env req m)"

end
