(* ===== verification/Gateway_Requests.thy ===== *)
theory Gateway_Requests
  imports Gateway
begin

text \<open>
  What holds of the requests that pass the gateway: the invariants of the services behind it, the
  isolation of tenants, the answers to failed requests, the identifiers of requests and the limit on guided payloads.
\<close>

section \<open>One request, at most one dispatch\<close>

text \<open>What a request hands to the manager.\<close>

definition dispatched :: "gateway \<Rightarrow> request_env \<times> http_request \<Rightarrow> (u64 \<times> RequestContext) list" where
  "dispatched gw er =
     (case er of
        (env, req) \<Rightarrow>
          if is_preflight (hq_method req) (hq_headers req) \<or> starts_with (hq_path req) ''/_localstack/'' then []
          else case aws_request_context (gw_libs gw) (gw_config gw) (rq_random env) req of
                 Inl _ \<Rightarrow> []
               | Inr ctx \<Rightarrow> [(rq_start_ms env, to_service_request_context ctx)])"

fun gateway_run ::
  "gateway \<Rightarrow> (request_env \<times> http_request) list \<Rightarrow> 's ServicePluginManager \<Rightarrow> 's ServicePluginManager option" where
  "gateway_run gw [] m = Some m"
| "gateway_run gw ((env, req) # rest) m =
     (case handle_request gw env req m of None \<Rightarrow> None | Some (_, _, m) \<Rightarrow> gateway_run gw rest m)"

lemma handle_aws_request_manager:
  assumes "handle_aws_request gw env req m = Some (resp, log, m')"
  shows "case aws_request_context (gw_libs gw) (gw_config gw) (rq_random env) req of
      Inl _ \<Rightarrow> m' = m
    | Inr ctx \<Rightarrow> \<exists>r. manager_dispatch (rq_start_ms env) (to_service_request_context ctx) m = Some (r, m')"
  using assms
  by (auto simp: handle_aws_request_def Let_def split: sum.splits option.splits prod.splits)

lemma studio_internal:
  "is_studio_asset_route p \<Longrightarrow> starts_with p ''/_localstack/''"
  "is_studio_spa_route p \<Longrightarrow> starts_with p ''/_localstack/''"
  by (auto simp: is_studio_asset_route_def is_studio_spa_route_def dest!: starts_withE) (simp_all add: starts_with_def)

lemma handle_request_manager:
  assumes "handle_request gw env req m = Some (resp, log, m')"
  shows "manager_run (dispatched gw (env, req)) m = Some m'"
proof (cases "is_preflight (hq_method req) (hq_headers req) \<or> starts_with (hq_path req) ''/_localstack/''")
  case True
  with assms show ?thesis by (auto simp: handle_request_def dispatched_def Let_def split: if_splits)
next
  case False
  with assms studio_internal have "handle_aws_request gw env req m = Some (resp, log, m')"
    by (auto simp: handle_request_def Let_def split: if_splits)
  from handle_aws_request_manager [OF this] False show ?thesis
    by (auto simp: dispatched_def split: sum.splits)
qed

lemma manager_run_append:
  "manager_run (xs @ ys) m = (case manager_run xs m of None \<Rightarrow> None | Some m \<Rightarrow> manager_run ys m)"
  by (induction xs arbitrary: m) (auto split: option.splits)

lemma gateway_run_manager: "gateway_run gw reqs m = Some m' \<Longrightarrow> manager_run (concat (map (dispatched gw) reqs)) m = Some m'"
proof (induction reqs arbitrary: m)
  case (Cons er reqs)
  obtain env req where er: "er = (env, req)" by fastforce
  then obtain resp log m1 where h: "handle_request gw env req m = Some (resp, log, m1)" "gateway_run gw reqs m1 = Some m'"
    using Cons.prems by (auto split: option.splits)
  then show ?case using er Cons.IH handle_request_manager [OF h(1)] by (simp add: manager_run_append)
qed simp

section \<open>The scope of a request\<close>

definition request_scope :: "gateway \<Rightarrow> http_request \<Rightarrow> string \<times> string" where
  "request_scope gw req =
     (let (key, region, _) = credentials_of (gl_ext (gw_libs gw)) (hq_headers req)
      in (access_key_to_account_id (gl_hash (gw_libs gw)) key,
          if cfg_allow_nonstandard_regions (gw_config gw) \<or> is_valid_region region then region else DEFAULT_REGION))"

lemma build_request_context_fields:
  assumes "build_request_context libs config method path qs hs body rid reader = Inr ctx"
  shows "gc_account_id ctx = access_key_to_account_id (gl_hash libs) (fst (credentials_of (gl_ext libs) hs)) \<and>
    gc_region ctx = (let region = fst (snd (credentials_of (gl_ext libs) hs))
      in if cfg_allow_nonstandard_regions config \<or> is_valid_region region then region else DEFAULT_REGION) \<and>
    gc_request_id ctx = rid \<and> gc_headers ctx = hs \<and> gc_method ctx = method"
  using assms
  by (auto simp: build_request_context_def Let_def case_prod_beta split: sum.splits prod.splits)

lemma aws_request_context_fields:
  assumes "aws_request_context libs config random req = Inr ctx"
  shows "\<exists>qs body reader. build_request_context libs config (hq_method req) (hq_path req) qs (hq_headers req) body
    (fast_request_id random) reader = Inr ctx"
  using assms by (auto simp: aws_request_context_def Let_def split: if_splits sum.splits prod.splits)

lemma dispatched_scope:
  assumes "(ms, ctx) \<in> set (dispatched gw (env, req))"
  shows "(ctx_account_id ctx, ctx_region ctx) = request_scope gw req \<and> CHR 0x00 \<notin> set (ctx_account_id ctx)"
proof -
  obtain c where c: "aws_request_context (gw_libs gw) (gw_config gw) (rq_random env) req = Inr c"
    "ctx = to_service_request_context c"
    using assms by (cases "aws_request_context (gw_libs gw) (gw_config gw) (rq_random env) req")
      (auto simp: dispatched_def split: if_splits)
  from aws_request_context_fields [OF c(1)] have "(gc_account_id c, gc_region c) = request_scope gw req"
    using build_request_context_fields by (fastforce simp: request_scope_def Let_def case_prod_beta)
  moreover have "CHR 0x00 \<notin> set (access_key_to_account_id h k)" for h k
    using account_id_digits [of h k] by (auto simp: list_all_iff is_ascii_digit_def)
  ultimately show ?thesis using c(2) by (auto simp: to_service_request_context_def request_scope_def Let_def case_prod_beta)
qed

section \<open>Isolation of tenants\<close>

text \<open>
  A request of another scope costs nothing, one of the scope itself more than the budget allows: with the
  budget zero, the invariant of a provider says that the store of the scope is still the given one. Without a given
  store it says only that the state is one of the provider's own.
\<close>

definition scope_cost :: "string \<Rightarrow> string \<Rightarrow> RequestContext \<Rightarrow> nat" where
  "scope_cost acc reg ctx =
     (if (acc, reg) \<noteq> (ctx_account_id ctx, ctx_region ctx) \<and> CHR 0x00 \<notin> set acc \<and> CHR 0x00 \<notin> set (ctx_account_id ctx)
      then 0 else 1)"

interpretation sqs_frame: provider_invariant "sqs_provider ext f"
  "\<lambda>n s. n = 0 \<and> (\<exists>b w. s = Sqs_State (b, w) \<and> (\<forall>st. keep = Some st \<longrightarrow> bundle_get b acc reg = st))"
  "\<lambda>ctx. if keep = None then 0 else scope_cost acc reg ctx" for ext f acc reg keep
proof (unfold_locales, goal_cases)
  case (2 n ctx s r s')
  then obtain b w b' w' where s: "s = Sqs_State (b, w)" "s' = Sqs_State (b', w')" "dispatch ext ctx b w = (r, b', w')"
    "\<forall>st. keep = Some st \<longrightarrow> bundle_get b acc reg = st"
    by (auto simp: sqs_provider_def provider_defaults_def split: prod.splits)
  have c: "n = 0" "keep \<noteq> None \<Longrightarrow> scope_cost acc reg ctx = 0" using 2(1) by auto
  have "bundle_get b' acc reg = bundle_get b acc reg" if "keep \<noteq> None"
    using dispatch_scope_local [of ctx ext] c(2) [OF that] s(3) unfolding scope_local_def
    by (metis fst_conv snd_conv scope_cost_def zero_neq_one)
  with s c show ?case by auto
qed (auto simp: sqs_provider_def provider_defaults_def)

interpretation dynamo_frame: provider_invariant "dynamo_provider lib ext f"
  "\<lambda>n s. n = 0 \<and> (\<exists>b w. s = Dynamo_State (b, w) \<and> (\<forall>st. keep = Some st \<longrightarrow> bundle_get b acc reg = st))"
  "\<lambda>ctx. if keep = None then 0 else scope_cost acc reg ctx"
  for lib :: "'d decimal_lib" and ext f acc reg keep
proof (unfold_locales, goal_cases)
  case (2 n ctx s r s')
  then obtain b w r' b' w' where s: "s = Dynamo_State (b, w)" "s' = Dynamo_State (b', w')"
    "dynamo_dispatch lib ext ctx b w = Some (r', b', w')" "\<forall>st. keep = Some st \<longrightarrow> bundle_get b acc reg = st"
    by (auto simp: dynamo_provider_def provider_defaults_def)
  have c: "n = 0" "keep \<noteq> None \<Longrightarrow> scope_cost acc reg ctx = 0" using 2(1) by auto
  have "bundle_get b' acc reg = bundle_get b acc reg" if "keep \<noteq> None"
    using c(2) [OF that] by (intro dynamo_dispatch_stays [OF s(3)]) (auto simp: scope_cost_def split: if_splits)
  with s c show ?case by auto
qed (auto simp: dynamo_provider_def provider_defaults_def)

interpretation kinesis_frame: provider_invariant "kinesis_provider ext b64 h"
  "\<lambda>n s. n = 0 \<and> (\<exists>b w. s = Kinesis_State (b, w) \<and> (\<forall>st. keep = Some st \<longrightarrow> bundle_get b acc reg = st))"
  "\<lambda>ctx. if keep = None then 0 else scope_cost acc reg ctx" for ext b64 h acc reg keep
proof (unfold_locales, goal_cases)
  case (2 n ctx s r s')
  then obtain b w r' b' w' where s: "s = Kinesis_State (b, w)" "s' = Kinesis_State (b', w')"
    "kinesis_dispatch ext b64 h ctx b w = Some (r', b', w')" "\<forall>st. keep = Some st \<longrightarrow> bundle_get b acc reg = st"
    by (auto simp: kinesis_provider_def provider_defaults_def)
  have c: "n = 0" "keep \<noteq> None \<Longrightarrow> scope_cost acc reg ctx = 0" using 2(1) by auto
  have "bundle_get b' acc reg = bundle_get b acc reg" if "keep \<noteq> None"
    using c(2) [OF that]
    by (intro kinesis_dispatch_stays [unfolded stays_in_scope_def, rule_format, OF s(3)]) (auto simp: scope_cost_def split: if_splits)
  with s c show ?case by auto
qed (auto simp: kinesis_provider_def provider_defaults_def)

lemma foreign_cost:
  assumes "list_all (\<lambda>(env, req). request_scope gw req \<noteq> (acc, reg)) reqs" "CHR 0x00 \<notin> set acc"
  shows "sum_list (map (\<lambda>req. scope_cost acc reg (snd req)) (concat (map (dispatched gw) reqs))) = 0"
proof -
  have "scope_cost acc reg (snd x) = 0" if "er \<in> set reqs" "x \<in> set (dispatched gw er)" for er x
  proof -
    obtain env req where er: "er = (env, req)" by fastforce
    then have "(ctx_account_id (snd x), ctx_region (snd x)) = request_scope gw req \<and> CHR 0x00 \<notin> set (ctx_account_id (snd x))"
      using dispatched_scope [of "fst x" "snd x" gw env req] that(2) by simp
    moreover have "request_scope gw req \<noteq> (acc, reg)" using assms(1) that(1) er by (auto simp: list_all_iff)
    ultimately show ?thesis using assms(2) by (auto simp: scope_cost_def)
  qed
  then show ?thesis by (auto simp: sum_list_eq_0_iff)
qed

lemma platform_run_idle:
  assumes "manager_run reqs (platform e) = Some m"
  shows "\<exists>qb w. idle_at ''sqs'' (sqs_provider (env_ext e) (env_rfc3339 e)) (Sqs_State (qb, w)) m"
    and "\<exists>tb dw. idle_at ''dynamodb'' (dynamo_provider (env_decimal e) (env_ext e) (env_rfc3339 e)) (Dynamo_State (tb, dw)) m"
    and "\<exists>kb kw. idle_at ''kinesis'' (kinesis_provider (env_ext e) (env_b64 e) (env_hash e)) (Kinesis_State (kb, kw)) m"
proof -
  show "\<exists>qb w. idle_at ''sqs'' (sqs_provider (env_ext e) (env_rfc3339 e)) (Sqs_State (qb, w)) m"
    using sqs_frame.manager_run_keeps [OF assms platform_idle(1), of None] by (auto simp: comp_def)
  show "\<exists>tb dw. idle_at ''dynamodb'' (dynamo_provider (env_decimal e) (env_ext e) (env_rfc3339 e)) (Dynamo_State (tb, dw)) m"
    using dynamo_frame.manager_run_keeps [OF assms platform_idle(2), of None] by (auto simp: comp_def)
  show "\<exists>kb kw. idle_at ''kinesis'' (kinesis_provider (env_ext e) (env_b64 e) (env_hash e)) (Kinesis_State (kb, kw)) m"
    using kinesis_frame.manager_run_keeps [OF assms platform_idle(3), of None] by (auto simp: comp_def)
qed

section \<open>Request identifiers\<close>

lemma hex_nibbles: "set (hex_of_byte b) \<subseteq> Collect is_hex_digit"
proof -
  have "unat b < 256" using unsigned_less [of b] by simp
  then have "unat (drop_bit 4 b) < 16" by (simp add: drop_bit_eq_div unat_div)
  moreover have "unat (and b 0x0f) < 16"
    using word_and_le1 [of b "0x0f"] by (simp add: word_le_nat_alt)
  ultimately show ?thesis by (simp add: hex_of_byte_def is_hex_digit_digit_char)
qed

lemma nibble_chars:
  "digit_char 4 = CHR ''4''" "digit_char 8 = CHR ''8''" "digit_char 9 = CHR ''9''" "digit_char 10 = CHR ''a''" "digit_char 11 = CHR ''b''"
  by code_simp+

lemma version_byte: "hd (hex_of_byte (or (and b 0x0f) 0x40)) = CHR ''4''"
  by (simp add: hex_of_byte_def drop_bit_or drop_bit_and nibble_chars)

lemma variant_byte: "hd (hex_of_byte (or (and b 0x3f) 0x80)) \<in> set ''89ab''"
proof -
  define y where "y = and (drop_bit 4 b) 3"
  have "unat y \<le> 3" using word_and_le1 [of "drop_bit 4 b" 3] by (simp add: y_def word_le_nat_alt)
  then have "unat y \<in> {0, 1, 2, 3}" by auto
  then have "y \<in> {0, 1, 2, 3}" by (auto simp: word_unat_eq_iff)
  then have "or y 8 \<in> {8, 9, 10, 11}" by auto
  moreover have "drop_bit 4 (or (and b 0x3f) 0x80) = or y 8"
    by (simp add: drop_bit_or drop_bit_and y_def)
  ultimately show ?thesis by (auto simp: hex_of_byte_def nibble_chars)
qed

lemma split_char_prefix: "d \<notin> set a \<Longrightarrow> split_char d (a @ r) = (a @ hd (split_char d r)) # tl (split_char d r)"
  by (induction a) auto

lemma uuid_text_chars: "c \<in> set (uuid_text i bs) \<Longrightarrow> is_hex_digit c \<or> c = CHR ''-''"
proof (induction i bs rule: uuid_text.induct)
  case (2 i b bs)
  then show ?case using hex_nibbles [of b] by (auto split: if_splits)
qed simp

section \<open>Answers to failed dispatches\<close>

text \<open>The package \<^verbatim>\<open>http\<close> documents that visible ASCII is accepted in header values.\<close>

definition accepts_ascii :: "gateway_libs \<Rightarrow> bool" where
  "accepts_ascii libs \<longleftrightarrow>
     (\<forall>s. list_all (\<lambda>c. 32 \<le> (of_char c :: nat) \<and> (of_char c :: nat) < 127) s \<longrightarrow> gl_header_value libs s)"

lemma request_id_header: "accepts_ascii libs \<Longrightarrow> gl_header_value libs (fast_request_id random)"
proof -
  assume "accepts_ascii libs"
  moreover have "32 \<le> (of_char c :: nat) \<and> (of_char c :: nat) < 127" if "c \<in> set (fast_request_id random)" for c
    using uuid_text_chars [OF that [unfolded fast_request_id_def]] by (auto simp: is_hex_digit_def)
  ultimately show ?thesis by (simp add: accepts_ascii_def list_all_iff)
qed

lemma content_type_header: "accepts_ascii libs \<Longrightarrow> gl_header_value libs (protocol_content_type p)"
  unfolding accepts_ascii_def by (cases p) auto

lemma serialize_error_parts:
  "fst (serialize_error ext p code msg st rid) = st \<and> snd (snd (serialize_error ext p code msg st rid)) = protocol_content_type p"
  by (cases p) auto

lemma add_cors_headers_other:
  "k \<in> {''content-type'', ''x-amzn-requestid''} \<Longrightarrow> hm_get (add_cors_headers libs cors o' hs) k = hm_get hs k"
  by (auto simp: add_cors_headers_def Let_def update_conv')

section \<open>Guided payloads\<close>

definition data_chunks :: "frame list \<Rightarrow> string list" where
  "data_chunks fs = List.map_filter (\<lambda>f. case f of Data d \<Rightarrow> Some d | _ \<Rightarrow> None) fs"

lemma data_chunks_simps [simp]:
  "data_chunks [] = []" "data_chunks (Data d # fs) = d # data_chunks fs"
  "data_chunks (Trailers # fs) = data_chunks fs" "data_chunks (Broken # fs) = data_chunks fs"
  by (simp_all add: data_chunks_def map_filter_simps)

lemma write_limited:
  assumes "Broken \<notin> set fs" "n \<le> limit" "limit < 2 ^ 64 - 1"
  shows "write_from_stream cs (body_stream n (Some limit) fs) =
    (if n + length (concat (data_chunks fs)) \<le> limit then Inr (cs @ data_chunks fs) else Inl InvalidData)"
  using assms
proof (induction fs arbitrary: n cs)
  case (Cons f fs)
  then show ?case
  proof (cases f)
    case (Data d)
    show ?thesis
    proof (cases "n + length d \<le> limit")
      case True
      with Cons.prems have "min (n + length d) (2 ^ 64 - 1) = n + length d" by simp
      with True Cons Data show ?thesis by (simp add: add.assoc)
    next
      case False
      with Cons.prems(3) have "limit < min (n + length d) (2 ^ 64 - 1)" by simp
      with False Data show ?thesis by (simp add: Let_def)
    qed
  qed auto
qed simp

section \<open>Properties\<close>

text \<open>C2: The invariants of all services hold of everything the gateway does: after any sequence of HTTP requests,
  started from the freshly registered services, every SQS queue of every scope is filed under its name and has distinct
  message identifiers and receipt handles, every DynamoDB table of every scope is filed under its name and holds every item under the item's own
  key, and every Kinesis stream is filed under its name and counts its open shards; the SQS identifier counter must not wrap.\<close>

theorem gateway_invariants:
  assumes "gateway_run gw reqs (platform e) = Some m"
    and "ids_drawn (env_sqs e) + sum_list (map (\<lambda>req. request_cost (params_of (env_ext e) (snd req)))
      (concat (map (dispatched gw) reqs))) + 1 < 2 ^ 64"
  shows "\<exists>qb w tb dw kb kw.
    service_state_of ''sqs'' m = Some (Sqs_State (qb, w)) \<and> service_state_of ''dynamodb'' m = Some (Dynamo_State (tb, dw)) \<and>
    service_state_of ''kinesis'' m = Some (Kinesis_State (kb, kw)) \<and>
    (\<forall>acc reg st name q. bundle_get qb acc reg = Some st \<and> get_queue_by_name st name = Some q \<longrightarrow>
       q_name q = name \<and> distinct (map m_message_id (q_messages q)) \<and> distinct (map m_receipt_handle (q_messages q))) \<and>
    (\<forall>acc reg st name t hs item. bundle_get tb acc reg = Some st \<and> get_table st name = Some t \<longrightarrow>
       t_name t = name \<and> (lookup_pair t hs = Some item \<longrightarrow> extract_key_from_item t item = Some hs)) \<and>
    (\<forall>acc reg st name s. bundle_get kb acc reg = Some st \<and> hm_get (kst_streams st) name = Some s \<longrightarrow>
       ks_name s = name \<and> ks_shard_count s = open_shards (ks_shards s))"
  by (rule platform_run_invariants [OF gateway_run_manager [OF assms(1)] assms(2)])



text \<open>C36: A request whose dispatch fails is answered with the status of its error (501 for an operation
  that is not implemented or a service that is not enabled, 503 for a service that does not start, 500 otherwise), in the content type of the
  service's protocol, with the identifier of the request, whatever the error text is.\<close>

theorem gateway_reports_errors:
  assumes "aws_request_context (gw_libs gw) (gw_config gw) (rq_random env) req = Inr ctx"
    and "\<not> is_preflight (hq_method req) (hq_headers req)" "\<not> starts_with (hq_path req) ''/_localstack/''"
    and "manager_dispatch (rq_start_ms env) (to_service_request_context ctx) m = Some (Inl err, m')"
    and "accepts_ascii (gw_libs gw)"
  shows "\<exists>headers body log. handle_request gw env req m =
      Some (Http_Response
        (case err of NotImplemented _ \<Rightarrow> 501 | ServiceNotFound _ \<Rightarrow> 501 | ServiceUnavailable _ \<Rightarrow> 503 | _ \<Rightarrow> 500)
        headers (Buffered body), log, m') \<and>
    hm_get headers ''content-type'' = Some (protocol_content_type (gc_protocol ctx)) \<and>
    hm_get headers ''x-amzn-requestid'' = Some (fast_request_id (rq_random env))"
proof -
  let ?libs = "gw_libs gw" and ?st = "snd (snd (dispatch_error_parts err))"
  have rid: "gc_request_id ctx = fast_request_id (rq_random env)"
    using aws_request_context_fields [OF assms(1)] build_request_context_fields by blast
  have st: "?st = (case err of NotImplemented _ \<Rightarrow> 501 | ServiceNotFound _ \<Rightarrow> 501 | ServiceUnavailable _ \<Rightarrow> 503 | _ \<Rightarrow> 500)"
    "is_status_code ?st"
    by (cases err; simp add: is_status_code_def)+
  obtain body where parts: "answer_parts (gl_ext ?libs) (gc_protocol ctx) (gc_request_id ctx) (Inl err) =
      (?st, Buffered body, protocol_content_type (gc_protocol ctx), [])"
    using st(2) serialize_error_parts
    by (cases err) (auto simp: answer_parts_def Let_def case_prod_beta)
  have built: "response_of ?libs ?st (Buffered body) (protocol_content_type (gc_protocol ctx)) (gc_request_id ctx) =
      (?st, [(''content-type'', protocol_content_type (gc_protocol ctx)), (''x-amzn-requestid'', gc_request_id ctx)], Buffered body)"
    using content_type_header [OF assms(5)] request_id_header [OF assms(5)] rid
    by (simp add: response_of_def built_response_def)
  have "handle_request gw env req m = handle_aws_request gw env req m"
    using assms(2,3) studio_internal by (auto simp: handle_request_def Let_def)
  then show ?thesis
    using assms(1,4) parts built rid st(1)
    by (simp add: handle_aws_request_def Let_def add_cors_headers_other)
qed

text \<open>Whatever the random generator yields, the identifier given to a request is a version 4 UUID: five groups of
  8, 4, 4, 4 and 12 lower-case hexadecimal digits, the third starting with the version, the fourth with the variant.\<close>

theorem request_id_is_uuid:
  assumes "length random = 16"
  shows "map length (split_char (CHR ''-'') (fast_request_id random)) = [8, 4, 4, 4, 12] \<and>
    list_all (list_all is_hex_digit) (split_char (CHR ''-'') (fast_request_id random)) \<and>
    hd (split_char (CHR ''-'') (fast_request_id random) ! 2) = CHR ''4'' \<and>
    hd (split_char (CHR ''-'') (fast_request_id random) ! 3) \<in> set ''89ab''"
proof -
  obtain b0 b1 b2 b3 b4 b5 b6 b7 b8 b9 b10 b11 b12 b13 b14 b15 where
    r: "random = [b0, b1, b2, b3, b4, b5, b6, b7, b8, b9, b10, b11, b12, b13, b14, b15]"
    using assms by (auto simp: numeral_eq_Suc length_Suc_conv)
  let ?v = "or (and b6 0x0f) 0x40" and ?w = "or (and b8 0x3f) 0x80"
  let ?parts = "[hex_of_byte b0 @ hex_of_byte b1 @ hex_of_byte b2 @ hex_of_byte b3, hex_of_byte b4 @ hex_of_byte b5,
    hex_of_byte ?v @ hex_of_byte b7, hex_of_byte ?w @ hex_of_byte b9,
    hex_of_byte b10 @ hex_of_byte b11 @ hex_of_byte b12 @ hex_of_byte b13 @ hex_of_byte b14 @ hex_of_byte b15]"
  have id: "fast_request_id random = ?parts ! 0 @ CHR ''-'' # ?parts ! 1 @ CHR ''-'' # ?parts ! 2 @ CHR ''-'' # ?parts ! 3 @ CHR ''-'' # ?parts ! 4"
    by (simp add: r fast_request_id_def set_uuid_bits_def Let_def)
  have nodash: "CHR ''-'' \<notin> set (hex_of_byte b)" for b
    using hex_nibbles [of b] by (auto simp: is_hex_digit_def)
  have split: "split_char (CHR ''-'') (fast_request_id random) = ?parts"
    unfolding id by (simp add: split_char_prefix [OF nodash] split_char_no_sep [OF nodash])
  have "length (hex_of_byte b) = 2" "hex_of_byte b \<noteq> []" for b by (simp_all add: hex_of_byte_def)
  moreover have "list_all is_hex_digit (hex_of_byte b)" for b using hex_nibbles [of b] by (auto simp: list_all_iff)
  ultimately show ?thesis unfolding split using version_byte [of b6] variant_byte [of b8] by simp
qed

text \<open>C40: A guided execution request is handed to the internal API exactly when its body has at most 256 KiB, and then with
  the body as it was sent; a longer one is refused with status 413, whether its length was declared or not.\<close>

theorem guided_payload_limit:
  assumes "is_studio_guided_execution_route (hq_path req)" "hq_method req = ''POST''" "Broken \<notin> set (hq_frames req)"
    and "\<And>t cs. gl_spool libs t cs = Some (concat cs)"
    and "Option.bind (header_text (gl_ext libs) (hq_headers req) ''content-length'') parse_usize
      \<in> {None, Some (length (concat (data_chunks (hq_frames req))))}"
  shows "internal_request libs config req =
    (if length (concat (data_chunks (hq_frames req))) \<le> 262144
     then Internal_Api ''POST''
       (let qs = query_map_of libs (hq_query req) in if qs = [] then hq_path req else hq_path req @ ''?'' @ gl_query_text libs qs)
       (hq_headers req) (concat (data_chunks (hq_frames req)))
     else Text_Response 413 ''guided execution payload exceeds configured limit'')"
proof -
  have "declared_too_large (gl_ext libs) (hq_path req) (hq_headers req) \<Longrightarrow> 262144 < length (concat (data_chunks (hq_frames req)))"
    using assms(5) by (auto simp: declared_too_large_def STUDIO_GUIDED_MAX_PAYLOAD_BYTES_def split: option.splits)
  moreover have "read_body libs config (guided_limit (hq_path req)) (hq_frames req) =
      (if length (concat (data_chunks (hq_frames req))) \<le> 262144 then Inr (concat (data_chunks (hq_frames req))) else Inl payload_too_large)"
    using write_limited [OF assms(3), of 0 262144 "[]"] assms(1,4)
    by (simp add: read_body_def guided_limit_def STUDIO_GUIDED_MAX_PAYLOAD_BYTES_def)
  ultimately show ?thesis
    using assms(1,2)
    by (auto simp: internal_request_def handle_internal_api_def payload_too_large_def STUDIO_GUIDED_MAX_PAYLOAD_BYTES_def Let_def)
qed

section \<open>Concrete requests\<close>

definition demo_libs :: gateway_libs where
  "demo_libs =
     \<lparr>gl_ext = demo_externs,
      gl_codecs = \<lparr>form_decode = (\<lambda>b. Inr (map (\<lambda>seg. case split_once (CHR ''='') seg of Some kv \<Rightarrow> kv | None \<Rightarrow> (seg, []))
                                        (split_char (CHR ''&'') b))),
                   json_decode = (\<lambda>_. Inr (JObject []))\<rparr>,
      gl_query_map = (\<lambda>_. None), gl_query_text = (\<lambda>_. []), gl_hash = demo_hash,
      gl_header_value = list_all (\<lambda>c. 32 \<le> (of_char c :: nat) \<and> (of_char c :: nat) < 127), gl_header_name = (\<lambda>s. s \<noteq> []),
      gl_spool = (\<lambda>_ cs. Some (concat cs))\<rparr>"

definition demo_config :: GatewayConfig where
  "demo_config = \<lparr>cfg_allow_nonstandard_regions = False, cfg_localstack_host = ''localhost:4566'',
     cfg_body_spool_threshold_bytes = 1024, cfg_disable_cors_headers = False, cfg_extra_allowed_headers = [],
     cfg_extra_allowed_origins = []\<rparr>"

definition demo_gateway :: gateway where
  "demo_gateway = \<lparr>gw_libs = demo_libs, gw_config = demo_config, gw_cors = CorsHandler_new demo_libs demo_config,
     gw_studio_enabled = True\<rparr>"

definition demo_http_env :: request_env where
  "demo_http_env = \<lparr>rq_random = [0, 17, 34, 51, 68, 85, 102, 119, 136, 153, 170, 187, 204, 221, 238, 255],
     rq_start_ms = 3, rq_dur_ms = 1\<rparr>"

definition signed_post :: "string \<Rightarrow> string \<Rightarrow> string \<Rightarrow> string \<Rightarrow> http_request" where
  "signed_post key region svc body =
     \<lparr>hq_method = ''POST'', hq_path = ''/'', hq_query = None,
      hq_headers = [(''host'', ''localhost:4566''), (''authorization'', sigv4_header key ''20260306'' region svc '' Signature=x'')],
      hq_frames = [Data body, Trailers]\<rparr>"

definition demo_before :: "(request_env \<times> http_request) list" where
  "demo_before = [(demo_http_env, signed_post ''test'' ''us-east-1'' ''sqs'' ''Action=CreateQueue&QueueName=jobs'')]"

definition demo_foreign :: "(request_env \<times> http_request) list" where
  "demo_foreign =
     [(demo_http_env, signed_post ''test'' ''eu-west-1'' ''sqs'' ''Action=CreateQueue&QueueName=jobs''),
      (demo_http_env, signed_post ''test'' ''eu-west-1'' ''rds'' ''Action=DescribeDBInstances'')]"

definition demo_first :: "platform_state ServicePluginManager" where
  "demo_first = the (gateway_run demo_gateway demo_before (platform demo_env))"

definition demo_second :: "platform_state ServicePluginManager" where
  "demo_second = the (gateway_run demo_gateway demo_foreign demo_first)"

lemma demo_gateway_runs:
  "gateway_run demo_gateway demo_before (platform demo_env) = Some demo_first"
  "gateway_run demo_gateway demo_foreign demo_first = Some demo_second"
proof -
  have "gateway_run demo_gateway demo_before (platform demo_env) \<noteq> None" by code_simp
  then show "gateway_run demo_gateway demo_before (platform demo_env) = Some demo_first" by (auto simp: demo_first_def)
  have "gateway_run demo_gateway demo_foreign demo_first \<noteq> None" by code_simp
  then show "gateway_run demo_gateway demo_foreign demo_first = Some demo_second" by (auto simp: demo_second_def)
qed


theorem gateway_invariants_witness:
  "\<exists>tb dw. service_state_of ''dynamodb'' demo_first = Some (Dynamo_State (tb, dw)) \<and>
     (\<forall>acc reg st name t. bundle_get tb acc reg = Some st \<and> get_table st name = Some t \<longrightarrow> t_name t = name)"
proof -
  have "ids_drawn (env_sqs demo_env) + sum_list (map (\<lambda>req. request_cost (params_of (env_ext demo_env) (snd req)))
      (concat (map (dispatched demo_gateway) demo_before))) + 1 < 2 ^ 64"
    by code_simp
  from gateway_invariants [OF demo_gateway_runs(1) this] show ?thesis by meson
qed

definition rds_request :: http_request where
  "rds_request = signed_post ''test'' ''eu-west-1'' ''rds'' ''Action=DescribeDBInstances''"

definition rds_context :: "HttpResponse + GatewayContext" where
  "rds_context = aws_request_context demo_libs demo_config (rq_random demo_http_env) rds_request"

definition rds_dispatch :: "((DispatchError + DispatchResponse) \<times> platform_state ServicePluginManager) option" where
  "rds_dispatch = manager_dispatch (rq_start_ms demo_http_env) (to_service_request_context (projr rds_context)) (platform demo_env)"

theorem gateway_reports_errors_witness:
  "\<exists>headers body log m. handle_request demo_gateway demo_http_env rds_request (platform demo_env) =
       Some (Http_Response 501 headers (Buffered body), log, m) \<and>
     hm_get headers ''content-type'' = Some ''text/xml'' \<and>
     hm_get headers ''x-amzn-requestid'' = Some ''00112233-4455-4677-8899-aabbccddeeff''"
proof -
  have "\<not> isl rds_context" by code_simp
  then have ctx: "aws_request_context (gw_libs demo_gateway) (gw_config demo_gateway) (rq_random demo_http_env) rds_request =
      Inr (projr rds_context)"
    by (metis rds_context_def demo_gateway_def gateway.select_convs(1,2) sum.collapse(2))
  have "map_option fst rds_dispatch = Some (Inl (ServiceNotFound ''rds''))" by code_simp
  then obtain m where d: "manager_dispatch (rq_start_ms demo_http_env) (to_service_request_context (projr rds_context)) (platform demo_env) =
      Some (Inl (ServiceNotFound ''rds''), m)"
    by (auto simp: rds_dispatch_def)
  have "\<not> is_preflight (hq_method rds_request) (hq_headers rds_request)"
    "\<not> starts_with (hq_path rds_request) ''/_localstack/''" by code_simp+
  moreover have "accepts_ascii (gw_libs demo_gateway)" by (simp add: accepts_ascii_def demo_gateway_def demo_libs_def)
  moreover have "gc_protocol (projr rds_context) = Query" by code_simp
  moreover have "fast_request_id (rq_random demo_http_env) = ''00112233-4455-4677-8899-aabbccddeeff''" by code_simp
  ultimately show ?thesis using gateway_reports_errors [OF ctx _ _ d] by auto
qed

theorem request_id_is_uuid_witness:
  "map length (split_char (CHR ''-'') (fast_request_id [0, 17, 34, 51, 68, 85, 102, 119, 136, 153, 170, 187, 204, 221, 238, 255])) =
     [8, 4, 4, 4, 12]"
  using request_id_is_uuid [of "[0, 17, 34, 51, 68, 85, 102, 119, 136, 153, 170, 187, 204, 221, 238, 255]"] by simp

definition guided_request :: http_request where
  "guided_request = \<lparr>hq_method = ''POST'', hq_path = ''/_localstack/studio-api/flows/execute'', hq_query = None,
     hq_headers = [(''content-length'', ''10'')], hq_frames = [Data ''{flow:'', Trailers, Data ''one}'']\<rparr>"

theorem guided_payload_limit_witness:
  "internal_request demo_libs demo_config guided_request =
     Internal_Api ''POST'' ''/_localstack/studio-api/flows/execute'' [(''content-length'', ''10'')] ''{flow:one}''"
proof -
  have c: "Option.bind (header_text (gl_ext demo_libs) (hq_headers guided_request) ''content-length'') parse_usize
      \<in> {None, Some (length (concat (data_chunks (hq_frames guided_request))))}" by code_simp
  show ?thesis
    using guided_payload_limit [of guided_request demo_libs demo_config, OF _ _ _ _ c]
    by (simp add: guided_request_def is_studio_guided_execution_route_def demo_libs_def query_map_of_def)
qed

end
