(* ===== verification/Dynamo_Pages.thy ===== *)
theory Dynamo_Pages
  imports Dynamo_Requests
begin

text \<open>
  Clients that follow the continuation tokens of the DynamoDB service: the pages of ListTables
  make up the sorted list of the table names, and the batches of GetRecords make up the records of
  a stream.
\<close>

section \<open>ListTables\<close>

text \<open>A client that asks for pages until no name to continue after is returned; \<open>n\<close> bounds the requests.\<close>

fun follow_pages :: "string list \<Rightarrow> nat \<Rightarrow> string option \<Rightarrow> nat \<Rightarrow> string list option" where
  "follow_pages names limit start 0 = None"
| "follow_pages names limit start (Suc n) =
     (case list_tables_page names limit start of
        (page, None) \<Rightarrow> Some page
      | (page, Some l) \<Rightarrow> map_option ((@) page) (follow_pages names limit (Some l) n))"

lemma position_of_nth:
  assumes "distinct xs" "k < length xs"
  shows "position_of (xs ! k) xs = Some k"
proof -
  have "takeWhile (\<lambda>y. y \<noteq> xs ! k) xs = take k xs"
    using assms by (intro takeWhile_eq_take_P_nth) (auto simp: nth_eq_iff_index_eq)
  then show ?thesis using assms(2) by (simp add: position_of_def)
qed

definition page_start :: "string list \<Rightarrow> nat \<Rightarrow> string option" where
  "page_start s i = (if i = 0 then None else Some (s ! (i - 1)))"

lemma page_at:
  assumes "distinct names" "i \<le> length names" "0 < limit"
  defines "s \<equiv> sort names"
  shows "list_tables_page names limit (page_start s i) =
    (take limit (drop i s), if i + limit < length s then page_start s (i + limit) else None)"
proof -
  have d: "distinct s" "length s = length names" using assms by simp_all
  have idx: "(case page_start s i of Some start \<Rightarrow> (case position_of start s of Some p \<Rightarrow> p + 1 | None \<Rightarrow> 0) | None \<Rightarrow> 0) = i"
    using position_of_nth [OF d(1), of "i - 1"] assms(2) d(2) by (auto simp: page_start_def)
  have "last (take limit (drop i s)) = s ! (i + limit - 1)" "take limit (drop i s) \<noteq> []" if "i + limit < length s"
    using that assms(3) by (auto simp: last_conv_nth min_def)
  then show ?thesis
    using assms(3) unfolding list_tables_page_def Let_def s_def [symmetric] idx
    by (auto simp: page_start_def min_def)
qed

lemma follow_pages_from:
  assumes "distinct names" "0 < limit" "i \<le> length names" "length names - i < n"
  shows "follow_pages names limit (page_start (sort names) i) n = Some (drop i (sort names))"
  using assms(3,4)
proof (induction n arbitrary: i)
  case (Suc n)
  let ?s = "sort names"
  note page = page_at [OF assms(1) Suc.prems(1) assms(2)]
  show ?case
  proof (cases "i + limit < length ?s")
    case True
    then have "follow_pages names limit (page_start ?s (i + limit)) n = Some (drop (i + limit) ?s)"
      using Suc assms(2) by (intro Suc.IH) simp_all
    moreover have "page_start ?s (i + limit) = Some (?s ! (i + limit - 1))" using assms(2) by (simp add: page_start_def)
    moreover have "take limit (drop i ?s) @ drop (i + limit) ?s = drop i ?s"
      by (metis append_take_drop_id drop_drop add.commute)
    ultimately show ?thesis using True page by simp
  next
    case False
    then show ?thesis using page by simp
  qed
qed simp

text \<open>A client that follows LastEvaluatedTableName with any positive limit receives every table name
  exactly once, in ascending order, and stops after at most as many requests as there are names,
  plus one.\<close>

theorem list_tables_pages_complete:
  assumes "hm_wf (tables st)" "0 < limit" "length (tables st) < n"
  shows "follow_pages (list_table_names st) limit None n = Some (sort (list_table_names st))"
  using follow_pages_from [of "list_table_names st" limit 0 n] assms
  by (simp add: list_table_names_def hm_wf_def page_start_def)

theorem list_tables_pages_complete_witness:
  "follow_pages (list_table_names \<lparr>tables = [(''b'', users_table), (''c'', users_table), (''a'', users_table)]\<rparr>) 2 None 4 =
     Some (sort (list_table_names \<lparr>tables = [(''b'', users_table), (''c'', users_table), (''a'', users_table)]\<rparr>))"
  by (rule list_tables_pages_complete) (simp_all add: hm_wf_def)

section \<open>GetRecords\<close>

subsection \<open>Sequence numbers\<close>

lemma digits_val_trim:
  "digits_val 10 0 (trim_start_matches (CHR ''0'') s) = digits_val 10 0 s"
  by (induction s) (auto simp: trim_start_matches_def digit_val_def)

lemma dec_pad_digits: "c \<in> set (dec_pad w n) \<Longrightarrow> is_hex_digit c"
  using to_radix_digits [of 10 c n] by (auto simp: dec_pad_def pad_zero_def is_hex_digit_def)

lemma parse_seq_pad:
  assumes "0 < x" shows "parse_seq (dec_pad 20 (unat x)) = Some x"
proof -
  let ?d = "trim_start_matches (CHR ''0'') (dec_pad 20 (unat x))"
  have v: "digits_val 10 0 ?d = Some (unat x)"
    by (simp add: digits_val_trim dec_pad_def digits_val_pad_zero)
  have "unat x \<noteq> 0" using assms unat_gt_0 by blast
  with v have "?d \<noteq> []" by auto
  then obtain c r where cr: "?d = c # r" by (cases ?d) auto
  then have "c \<in> set (dec_pad 20 (unat x))"
    by (metis list.set_intros(1) set_dropWhileD trim_start_matches_def)
  then have "c \<noteq> CHR ''+''" using dec_pad_digits by (fastforce simp: is_hex_digit_def)
  moreover have "unat x < 2 ^ 64" using unsigned_less [of x] by simp
  ultimately have "parse_uint 10 64 ?d = Some (unat x)" using v cr by (simp add: parse_uint_def)
  then show ?thesis by (simp add: parse_seq_def parse_u64_def)
qed

lemma parse_seq_zero: "or_zero (parse_seq (dec_pad 20 (unat x))) = x"
proof (cases "x = 0")
  case True
  have "parse_seq (dec_pad 20 0) = None" by code_simp
  then show ?thesis using True by (simp add: or_zero_def)
next
  case False
  then have "0 < x" by (simp add: word_neq_0_conv)
  from parse_seq_pad [OF this] show ?thesis by (simp add: or_zero_def)
qed

subsection \<open>Iterators\<close>

lemma str_find_prefix:
  assumes "\<forall>i < length s. \<not> starts_with (drop i s @ r) p"
  shows "str_find (s @ r) p = map_option ((+) (length s)) (str_find r p)"
  using assms
proof (induction s)
  case Nil
  then show ?case by (cases "str_find r p") simp_all
next
  case (Cons c s)
  have "\<not> starts_with (c # s @ r) p" using Cons.prems by (metis append_Cons drop0 length_greater_0_conv list.distinct(1))
  moreover have "\<forall>i < length s. \<not> starts_with (drop i s @ r) p" using Cons.prems by auto
  ultimately show ?case using Cons.IH by (cases "str_find r p") simp_all
qed

text \<open>A stream identifier in which the separator of the iterator cannot be found.\<close>

definition arn_ok :: "string \<Rightarrow> bool" where
  "arn_ok arn \<longleftrightarrow> str_find (arn @ '':'') ''::'' = None"

lemma arn_ok_split: "arn_ok arn \<Longrightarrow> str_find (arn @ ''::'' @ r) ''::'' = Some (length arn)"
proof -
  assume a: "arn_ok arn"
  have "\<not> starts_with (drop i s @ ''::'' @ r) ''::''" if "str_find (s @ '':'') ''::'' = None" "i < length s" for s i
    using that
  proof (induction s arbitrary: i)
    case (Cons c s)
    then show ?case by (cases i; cases s) (auto simp: starts_with_def split: if_splits)
  qed simp
  with a have "str_find (arn @ ''::'' @ r) ''::'' = map_option ((+) (length arn)) (str_find (''::'' @ r) ''::'')"
    by (intro str_find_prefix) (simp add: arn_ok_def)
  then show ?thesis by (simp add: starts_with_def)
qed

lemma shard_iterator_roundtrip:
  assumes "arn_ok arn" shows "parse_shard_iterator (make_shard_iterator arn seq) = Some (arn, seq)"
proof -
  let ?d = "dec_pad 20 (unat seq)"
  have 1: "split_once_str ''::'' (make_shard_iterator arn seq) = Some (arn, ''shard-0000000001::'' @ ?d)"
    using arn_ok_split [OF assms, of "''shard-0000000001::'' @ ?d"]
    by (simp add: split_once_str_def make_shard_iterator_def)
  have 2: "split_once_str ''::'' (''shard-0000000001::'' @ ?d) = Some (''shard-0000000001'', ?d)"
    by (simp add: split_once_str_def starts_with_def)
  show ?thesis unfolding parse_shard_iterator_def splitn3_def 1 bind.bind_lunit prod.case 2
    by (simp add: parse_seq_zero)
qed

subsection \<open>Reading a stream\<close>

lemma filter_drop: "(\<And>i. i < length xs \<Longrightarrow> Q (xs ! i) \<longleftrightarrow> j \<le> i) \<Longrightarrow> filter Q xs = drop j xs"
proof (induction xs arbitrary: j)
  case (Cons x xs)
  have "filter Q xs = drop (j - 1) xs"
    using Cons.prems [of "Suc _"] by (intro Cons.IH) auto
  moreover have "Q x \<longleftrightarrow> j = 0" using Cons.prems [of 0] by simp
  ultimately show ?case by (cases j) simp_all
qed simp

text \<open>A stream whose sequence numbers have not wrapped around.\<close>

definition stream_fresh :: "Table \<Rightarrow> bool" where
  "stream_fresh t \<longleftrightarrow> length (t_stream_records t) \<le> unat (t_stream_sequence t) \<and> unat (t_stream_sequence t) + 1 < 2 ^ 64"

definition first_number :: "Table \<Rightarrow> nat" where
  "first_number t = unat (t_stream_sequence t) + 1 - length (t_stream_records t)"

lemma record_number:
  assumes "numbered (t_stream_sequence t) (t_stream_records t)" "stream_fresh t" "i < length (t_stream_records t)"
  shows "\<exists>x. parse_seq (sr_sequence_number (t_stream_records t ! i)) = Some x \<and> unat x = first_number t + i"
proof -
  let ?L = "length (t_stream_records t)" and ?k = "length (t_stream_records t) - 1 - i"
  let ?x = "t_stream_sequence t - of_nat ?k"
  have L: "?L \<le> unat (t_stream_sequence t)" using assms(2) by (simp add: stream_fresh_def)
  then have "?k < 2 ^ 64" using assms(2) by (simp add: stream_fresh_def)
  then have k: "unat (of_nat ?k :: u64) = ?k" by (simp add: unsigned_of_nat take_bit_nat_eq_self_iff)
  have "of_nat ?k \<le> t_stream_sequence t" using L k assms(3) by (simp add: word_le_nat_alt)
  then have "unat ?x = unat (t_stream_sequence t) - ?k" using k by (simp add: unat_sub)
  also have "\<dots> = first_number t + i" using L assms(3) by (simp add: first_number_def)
  finally have u: "unat ?x = first_number t + i" .
  then have "0 < unat ?x" using L assms(3) unfolding first_number_def by linarith
  then have "0 < ?x" by (metis unat_0 word_gt_0 less_irrefl)
  from parse_seq_pad [OF this] have "parse_seq (dec_pad 20 (unat ?x)) = Some ?x" .
  moreover have "sr_sequence_number (t_stream_records t ! i) = dec_pad 20 (unat ?x)"
    using assms(1,3) unfolding numbered_def by blast
  ultimately show ?thesis using u by metis
qed

lemma select_records_eq:
  assumes "numbered (t_stream_sequence t) (t_stream_records t)" "stream_fresh t"
  shows "select_records t start limit = take limit (drop (unat start - first_number t) (t_stream_records t))"
proof -
  have "filter (\<lambda>r. or_zero (parse_seq (sr_sequence_number r)) \<ge> start) (t_stream_records t) =
      drop (unat start - first_number t) (t_stream_records t)"
  proof (rule filter_drop)
    fix i assume "i < length (t_stream_records t)"
    from record_number [OF assms this] obtain x
      where "parse_seq (sr_sequence_number (t_stream_records t ! i)) = Some x" "unat x = first_number t + i" by blast
    then show "(or_zero (parse_seq (sr_sequence_number (t_stream_records t ! i))) \<ge> start) = (unat start - first_number t \<le> i)"
      by (auto simp: or_zero_def word_le_nat_alt)
  qed
  then show ?thesis by (simp add: select_records_def)
qed

text \<open>A client that reads \<open>n\<close> batches, passing on the iterator that each answer carries.\<close>

fun read_stream :: "Table \<Rightarrow> string \<Rightarrow> nat \<Rightarrow> nat \<Rightarrow> StreamRecord list" where
  "read_stream t it limit 0 = []"
| "read_stream t it limit (Suc n) =
     (case parse_shard_iterator it of
        None \<Rightarrow> []
      | Some (arn, seq) \<Rightarrow>
          (let recs = select_records t seq limit
           in recs @ read_stream t (make_shard_iterator arn (next_sequence seq recs)) limit n))"

lemma next_sequence_eq:
  assumes "numbered (t_stream_sequence t) (t_stream_records t)" "stream_fresh t" "0 < limit"
    and "unat start - first_number t = j" "j < length (t_stream_records t)"
  shows "unat (next_sequence start (select_records t start limit)) - first_number t = min (j + limit) (length (t_stream_records t))"
proof -
  let ?R = "t_stream_records t"
  let ?e = "min (j + limit) (length ?R)"
  have sel: "select_records t start limit = take limit (drop j ?R)"
    using select_records_eq [OF assms(1,2)] assms(4) by simp
  have ne: "take limit (drop j ?R) \<noteq> []" using assms(3,5) by simp
  have "last (take limit (drop j ?R)) = ?R ! (?e - 1)"
  proof -
    have l: "length (take limit (drop j ?R)) = ?e - j" by auto
    have "last (take limit (drop j ?R)) = ?R ! (j + (?e - j - 1))"
      using ne assms(3,5) unfolding last_conv_nth [OF ne] l by (subst nth_take) auto
    moreover have "j + (?e - j - 1) = ?e - 1" using assms(3,5) by auto
    ultimately show ?thesis by simp
  qed
  moreover have "?e - 1 < length ?R" using assms(5) by auto
  from record_number [OF assms(1,2) this] obtain x
    where x: "parse_seq (sr_sequence_number (?R ! (?e - 1))) = Some x" "unat x = first_number t + (?e - 1)" by blast
  moreover have "next_sequence start rs = (case parse_seq (sr_sequence_number (last rs)) of Some n \<Rightarrow> n + 1 | None \<Rightarrow> start)"
    if "rs \<noteq> []" for rs using that by (cases rs) (simp_all add: next_sequence_def)
  ultimately have "next_sequence start (select_records t start limit) = x + 1"
    using ne sel by simp
  moreover have "unat x + 1 < 2 ^ 64"
    using x(2) assms(2,5) by (auto simp: stream_fresh_def first_number_def)
  then have "unat (x + 1) = unat x + 1" by (simp add: unat_word_ariths)
  ultimately show ?thesis using x(2) assms(3,5) by auto
qed

lemma read_stream_from:
  assumes "numbered (t_stream_sequence t) (t_stream_records t)" "stream_fresh t" "0 < limit" "arn_ok arn"
  shows "length (t_stream_records t) - j \<le> n \<Longrightarrow> unat start - first_number t = j \<Longrightarrow>
    read_stream t (make_shard_iterator arn start) limit n = drop j (t_stream_records t)"
proof (induction n arbitrary: start j)
  case (Suc n)
  let ?R = "t_stream_records t"
  let ?sel = "select_records t start limit"
  have sel: "?sel = take limit (drop j ?R)" using select_records_eq [OF assms(1,2)] Suc.prems(2) by simp
  show ?case
  proof (cases "j < length ?R")
    case True
    have "read_stream t (make_shard_iterator arn (next_sequence start ?sel)) limit n = drop (min (j + limit) (length ?R)) ?R"
      using next_sequence_eq [OF assms(1-3) Suc.prems(2) True] True Suc.prems(1) assms(3) by (intro Suc.IH) simp_all
    moreover have "take limit (drop j ?R) @ drop (min (j + limit) (length ?R)) ?R = drop j ?R"
      by (metis append_take_drop_id drop_drop drop_all min_def add.commute nat_le_linear)
    ultimately show ?thesis using sel by (simp add: shard_iterator_roundtrip [OF assms(4)])
  next
    case False
    then have "?sel = []" using sel by simp
    moreover from this have "next_sequence start ?sel = start" by (simp add: next_sequence_def)
    ultimately show ?thesis using False Suc.IH [of j start] Suc.prems by (simp add: shard_iterator_roundtrip [OF assms(4)])
  qed
qed simp

text \<open>C27: A client that starts at TRIM_HORIZON and passes on every NextShardIterator receives each record of
  the stream exactly once, in order, whatever the positive batch size. Starting at LATEST, however,
  it first receives the record written last, although LATEST stands for the records after it.\<close>

theorem stream_reader_complete:
  assumes "table_ok name t" "stream_fresh t" "arn_ok arn" "0 < limit" "length (t_stream_records t) \<le> n"
  shows "read_stream t (make_shard_iterator arn (shard_iterator_seq t ''TRIM_HORIZON'' sn)) limit n = t_stream_records t \<and>
    select_records t (shard_iterator_seq t ''LATEST'' sn) limit =
      (if t_stream_records t = [] then [] else [last (t_stream_records t)])"
proof -
  let ?R = "t_stream_records t"
  have num: "numbered (t_stream_sequence t) ?R" using assms(1) by (simp add: table_ok_def)
  have "unat (t_stream_sequence t) - first_number t = length ?R - 1"
    using assms(2) by (auto simp: first_number_def stream_fresh_def)
  then have "select_records t (t_stream_sequence t) limit = take limit (drop (length ?R - 1) ?R)"
    using select_records_eq [OF num assms(2)] by simp
  moreover have "drop (length ?R - 1) ?R = (if ?R = [] then [] else [last ?R])"
    by (cases ?R rule: rev_cases) simp_all
  ultimately have "select_records t (shard_iterator_seq t ''LATEST'' sn) limit = (if ?R = [] then [] else [last ?R])"
    using assms(4) by (simp add: shard_iterator_seq_def take_Cons')
  then show ?thesis
    using read_stream_from [OF num assms(2,4,3), of 0 n 0] assms(5) by (simp add: shard_iterator_seq_def)
qed

definition written_table :: Table where
  "written_table = snd (put_item 0 (snd (put_item 0 users_table user_item)) user_item)"

theorem stream_reader_complete_witness:
  "read_stream written_table (make_shard_iterator (the (t_stream_arn users_table)) (shard_iterator_seq written_table ''TRIM_HORIZON'' None)) 1 2 =
     t_stream_records written_table \<and> length (t_stream_records written_table) = 2 \<and>
   select_records written_table (shard_iterator_seq written_table ''LATEST'' None) 1 = [last (t_stream_records written_table)]"
proof -
  have ok: "table_ok ''users'' written_table"
    unfolding written_table_def by (intro ok_tables.P_put users_ok)
  have f: "stream_fresh written_table" and a: "arn_ok (the (t_stream_arn users_table))"
    and l: "length (t_stream_records written_table) = 2" by code_simp+
  from stream_reader_complete [OF ok f a, of 1 2 None] l show ?thesis by auto
qed

end
