(* ===== verification/Dynamo_Keys.thy ===== *)
theory Dynamo_Keys
  imports Dynamo_Requests
begin

text \<open>
  Key conditions of the DynamoDB service: an equality on the partition key and a comparison or
  prefix test on the sort key are parsed to the partition and the range condition they denote. A
  \<^verbatim>\<open>BETWEEN\<close> is cut in two at its own \<^verbatim>\<open>AND\<close> and is lost.
\<close>

section \<open>Case folding\<close>

definition lower_char :: "char \<Rightarrow> char" where
  "lower_char c = (if is_ascii_uppercase c then char_of ((of_char c :: nat) + 32) else c)"

definition upper_char :: "char \<Rightarrow> char" where
  "upper_char c = (if 97 \<le> (of_char c :: nat) \<and> (of_char c :: nat) \<le> 122 then char_of ((of_char c :: nat) - 32) else c)"

lemma case_map: "to_ascii_lowercase s = map lower_char s" "to_ascii_uppercase s = map upper_char s"
  by (simp_all add: to_ascii_lowercase_def to_ascii_uppercase_def lower_char_def upper_char_def)

lemma of_lower_char:
  "(of_char (lower_char c) :: nat) = (if 65 \<le> (of_char c :: nat) \<and> (of_char c :: nat) \<le> 90 then of_char c + 32 else of_char c)"
  by (auto simp: lower_char_def is_ascii_uppercase_def of_char_of)

lemma of_upper_char:
  "(of_char (upper_char c) :: nat) = (if 97 \<le> (of_char c :: nat) \<and> (of_char c :: nat) \<le> 122 then of_char c - 32 else of_char c)"
proof -
  have "(of_char c :: nat) < 256" by simp
  then show ?thesis by (auto simp: upper_char_def of_char_of)
qed

lemma char_eq_of: "c = d \<longleftrightarrow> (of_char c :: nat) = of_char d"
  by simp

lemma word_char_of:
  "word_char c \<longleftrightarrow> (let n = (of_char c :: nat) in (48 \<le> n \<and> n \<le> 57) \<or> (65 \<le> n \<and> n \<le> 90) \<or> (97 \<le> n \<and> n \<le> 122) \<or>
     n = 95 \<or> n = 35 \<or> n = 58 \<or> n = 46 \<or> n = 45)"
proof -
  have "c \<in> {CHR ''_'', CHR ''#'', CHR '':'', CHR ''.'', CHR ''-''} \<longleftrightarrow>
      (of_char c :: nat) = 95 \<or> (of_char c :: nat) = 35 \<or> (of_char c :: nat) = 58 \<or> (of_char c :: nat) = 46 \<or> (of_char c :: nat) = 45"
    unfolding insert_iff empty_iff char_eq_of by simp
  then show ?thesis by (simp add: word_char_def Let_def)
qed

lemma word_char_case: "word_char c \<Longrightarrow> word_char (lower_char c)" "word_char c \<Longrightarrow> word_char (upper_char c)"
  unfolding word_char_of of_lower_char of_upper_char Let_def by auto

lemma case_fixed:
  "lower_char (CHR '' '') = CHR '' ''" "lower_char (CHR ''='') = CHR ''=''" "lower_char (CHR ''<'') = CHR ''<''"
  "lower_char (CHR ''>'') = CHR ''>''" "lower_char (CHR '':'') = CHR '':''" "lower_char (CHR '','') = CHR '',''"
  "lower_char (CHR ''('') = CHR ''(''" "lower_char (CHR '')'') = CHR '')''"
  "upper_char (CHR '' '') = CHR '' ''" "upper_char (CHR ''='') = CHR ''=''" "upper_char (CHR ''<'') = CHR ''<''"
  "upper_char (CHR ''>'') = CHR ''>''" "upper_char (CHR '':'') = CHR '':''"
  by (simp_all add: lower_char_def upper_char_def is_ascii_uppercase_def)

lemma words_case: "list_all word_char s \<Longrightarrow> list_all word_char (map lower_char s)" "list_all word_char s \<Longrightarrow> list_all word_char (map upper_char s)"
  by (auto simp: list_all_iff word_char_case)

lemma op_case: "map lower_char (op_text op) = op_text op" "map upper_char (op_text op) = op_text op"
  by (cases op; simp add: case_fixed)+

lemma paren_lower: "paren_depth (lower_char c) d = paren_depth c d"
proof -
  have "lower_char c = CHR ''('' \<longleftrightarrow> c = CHR ''(''" "lower_char c = CHR '')'' \<longleftrightarrow> c = CHR '')''"
    unfolding char_eq_of of_lower_char by auto
  then show ?thesis by (simp add: paren_depth_def)
qed

section \<open>Splitting at AND\<close>

lemma split_loop_scan:
  assumes "ascii expr"
  shows "start \<le> i \<Longrightarrow> i \<le> length expr \<Longrightarrow>
    split_top_level_and_loop expr d start i =
      (case scan '' and '' d (map lower_char (drop i expr)) of
         None \<Rightarrow> Some [drop start expr]
       | Some k \<Rightarrow> map_option (Cons (take (i + k - start) (drop start expr))) (split_top_level_and_loop expr 0 (i + k + 5) (i + k + 5)))"
proof (induction "length expr - i" arbitrary: i d)
  case 0
  then show ?case
    using ascii_slice [OF assms, of start "length expr"] by (subst split_top_level_and_loop.simps) simp
next
  case (Suc m)
  then have i: "i < length expr" by simp
  let ?c = "expr ! i" and ?r = "drop (Suc i) expr"
  let ?d = "paren_depth ?c d"
  have dr: "drop i expr = ?c # ?r" using i by (rule Cons_nth_drop_Suc [symmetric])
  have IH: "split_top_level_and_loop expr ?d start (i + 1) =
      (case scan '' and '' ?d (map lower_char ?r) of
         None \<Rightarrow> Some [drop start expr]
       | Some k \<Rightarrow> map_option (Cons (take (i + 1 + k - start) (drop start expr))) (split_top_level_and_loop expr 0 (i + 1 + k + 5) (i + 1 + k + 5)))"
    using Suc.hyps(1) [of "i + 1" ?d] Suc.hyps(2) Suc.prems i by simp
  have s1: "str_slice expr i (length expr) = Some (drop i expr)" using ascii_slice [OF assms, of i "length expr"] i by simp
  have s2: "str_slice (drop i expr) 0 5 = Some (take 5 (drop i expr))" if "5 \<le> length (drop i expr)"
    using ascii_slice [OF ascii_take_drop(2) [OF assms], of 0 5 i] that by simp
  have s3: "str_slice expr start i = Some (take (i - start) (drop start expr))"
    using ascii_slice [OF assms, of start i] Suc.prems i by simp
  have hit: "starts_with (map lower_char (drop i expr)) '' and '' \<longleftrightarrow>
      5 \<le> length (drop i expr) \<and> eq_ignore_ascii_case (take 5 (drop i expr)) '' AND ''"
  proof -
    have "map lower_char '' AND '' = '' and ''" by code_simp
    moreover have "length (take 5 (drop i expr)) = 5 \<or> length (drop i expr) < 5" by auto
    ultimately show ?thesis
      by (auto simp: starts_with_def eq_ignore_ascii_case_def case_map take_map eval_nat_numeral dest: arg_cong [of _ _ length])
  qed
  show ?case
  proof (cases "?d = 0 \<and> starts_with (map lower_char (drop i expr)) '' and ''")
    case True
    then have "scan '' and '' d (map lower_char (drop i expr)) = Some 0" by (simp add: dr paren_lower)
    moreover have "split_top_level_and_loop expr d start i =
        map_option (Cons (take (i - start) (drop start expr))) (split_top_level_and_loop expr 0 (i + 5) (i + 5))"
      using True hit s1 s2 s3 i by (subst split_top_level_and_loop.simps) (simp add: Let_def)
    ultimately show ?thesis by simp
  next
    case False
    then have sc: "scan '' and '' d (map lower_char (drop i expr)) = shift 1 (scan '' and '' ?d (map lower_char ?r))"
      by (auto simp: dr paren_lower)
    have "split_top_level_and_loop expr d start i = split_top_level_and_loop expr ?d start (i + 1)"
      using False hit s1 s2 i by (subst split_top_level_and_loop.simps) (auto simp: Let_def)
    then show ?thesis unfolding sc IH by (cases "scan '' and '' ?d (map lower_char ?r)") simp_all
  qed
qed

text \<open>Texts that the search for the connective passes over.\<close>

definition no_and :: "string \<Rightarrow> bool" where
  "no_and s \<longleftrightarrow> (\<forall>r. scan '' and '' 0 (map lower_char s @ r) = shift (length s) (scan '' and '' 0 r))"

lemma op_not_and: "\<not> starts_with (op_text op @ r) ''and ''"
  by (cases op) (simp_all add: starts_with_Cons)

lemma op_skip: "list_all (\<lambda>c. c \<noteq> CHR '' '' \<and> c \<noteq> CHR ''('' \<and> c \<noteq> CHR '')'') (op_text op)"
  by (cases op) simp_all

lemma scan_comparison:
  assumes "list_all word_char n" "list_all word_char v"
    and "\<not> starts_with (op_text op @ CHR '' '' # v @ r) k" "\<not> starts_with (v @ r) k"
  shows "scan (CHR '' '' # k) 0 (n @ CHR '' '' # op_text op @ CHR '' '' # v @ r) =
    shift (length n + (1 + (length (op_text op) + (1 + length v)))) (scan (CHR '' '' # k) 0 r)"
  by (simp only: scan_word [OF words_all(2) [OF assms(1)]] scan_space [OF assms(3)] scan_word [OF op_skip]
      scan_space [OF assms(4)] scan_word [OF words_all(2) [OF assms(2)]] shift_simps)

lemma no_and_comparison:
  assumes "list_all word_char n" "ref_ok v"
  shows "no_and (n @ '' '' @ op_text op @ '' '' @ v)"
  unfolding no_and_def
proof
  fix r
  let ?n = "map lower_char n" and ?v = "map lower_char v"
  have n: "list_all word_char ?n" and v: "list_all word_char ?v"
    using assms ref_word [of v] by (simp_all add: words_case)
  have hv: "\<not> starts_with (?v @ r) ''and ''"
    using assms(2) by (cases v) (auto simp: ref_ok_def starts_with_Cons case_fixed)
  have "scan '' and '' 0 (?n @ CHR '' '' # op_text op @ CHR '' '' # ?v @ r) =
      shift (length ?n + (1 + (length (op_text op) + (1 + length ?v)))) (scan '' and '' 0 r)"
    by (rule scan_comparison [OF n v op_not_and hv])
  then show "scan '' and '' 0 (map lower_char (n @ '' '' @ op_text op @ '' '' @ v) @ r) =
      shift (length (n @ '' '' @ op_text op @ '' '' @ v)) (scan '' and '' 0 r)"
    by (simp add: case_fixed op_case)
qed

lemma no_and_begins:
  assumes "list_all word_char n" "list_all word_char v"
  shows "no_and (''begins_with('' @ n @ '', '' @ v @ '')'')"
  unfolding no_and_def
proof
  fix r
  have u: "list_all (\<lambda>c. c \<noteq> CHR ''('' \<and> c \<noteq> CHR '')'') (map lower_char n @ '', '' @ map lower_char v)"
    using words_all(3) [OF words_case(1) [OF assms(1)]] words_all(3) [OF words_case(1) [OF assms(2)]] by simp
  have b: "map lower_char ''begins_with'' = ''begins_with''" by code_simp
  have "map lower_char (''begins_with('' @ n @ '', '' @ v @ '')'') =
      ''begins_with'' @ CHR ''('' # (map lower_char n @ '', '' @ map lower_char v) @ '')''"
    using b by (simp add: case_fixed)
  then show "scan '' and '' 0 (map lower_char (''begins_with('' @ n @ '', '' @ v @ '')'') @ r) =
      shift (length (''begins_with('' @ n @ '', '' @ v @ '')'')) (scan '' and '' 0 r)"
    using scan_call [of "''begins_with''", OF _ u, of "''and ''" r] by (simp add: add.commute)
qed

lemma split_one: "ascii a \<Longrightarrow> no_and a \<Longrightarrow> split_top_level_and a = Some [a]"
proof -
  assume a: "ascii a" "no_and a"
  have "scan '' and '' 0 (map lower_char a) = None" using a(2) [unfolded no_and_def, THEN spec, of "[]"] by simp
  then show ?thesis using split_loop_scan [OF a(1), of 0 0 0] by (simp add: split_top_level_and_def)
qed

lemma split_two:
  assumes "ascii a" "ascii b" "no_and a" "no_and b"
  shows "split_top_level_and (a @ '' AND '' @ b) = Some [a, b]"
proof -
  let ?e = "a @ '' AND '' @ b" and ?i = "length a + 5"
  have e: "ascii ?e" using assms(1,2) by simp
  have "scan '' and '' 0 (map lower_char a @ '' and '' @ map lower_char b) = Some (length a)"
    using assms(3) [unfolded no_and_def, THEN spec, of "'' and '' @ map lower_char b"] scan_hit [of "''and ''"] by simp
  moreover have "map lower_char '' AND '' = '' and ''" by code_simp
  then have "map lower_char ?e = map lower_char a @ '' and '' @ map lower_char b" by (simp only: map_append)
  ultimately have 1: "split_top_level_and ?e = map_option (Cons a) (split_top_level_and_loop ?e 0 ?i ?i)"
    using split_loop_scan [OF e, of 0 0 0] by (simp add: split_top_level_and_def)
  have "scan '' and '' 0 (map lower_char b) = None" using assms(4) [unfolded no_and_def, THEN spec, of "[]"] by simp
  moreover have "drop ?i ?e = b" by simp
  ultimately have "split_top_level_and_loop ?e 0 ?i ?i = Some [b]"
    using split_loop_scan [OF e, of ?i ?i 0] by simp
  with 1 show ?thesis by simp
qed

section \<open>One part\<close>

lemma find_keyword_pos_eq: "find_keyword_pos s kw = find_top_level s kw"
proof -
  have "find_keyword_pos_loop s kw d is = find_top_level_loop s kw d is" for d "is"
    by (induction s kw d "is" rule: find_top_level_loop.induct) (auto simp: Let_def split: option.split)
  then show ?thesis by (simp add: find_keyword_pos_def find_top_level_def)
qed

lemma ascii_upper: "list_all word_char s \<Longrightarrow> ascii (map upper_char s)"
  by (rule words_all(1)) (rule words_case)

fun range_of :: "cmp_op \<Rightarrow> AttributeValue \<Rightarrow> RangeCondition" where
  "range_of Op_le x = RC_Lte x" | "range_of Op_ge x = RC_Gte x" | "range_of Op_lt x = RC_Lt x"
| "range_of Op_gt x = RC_Gt x" | "range_of Op_eq x = RC_Eq x" | "range_of Op_ne x = RC_Eq x"

lemma key_comparison_op:
  assumes "list_all word_char n" "list_all word_char v" "op \<noteq> Op_ne"
  shows "key_comparison (n @ '' '' @ op_text op @ '' '' @ v) rk names vals key_operators acc =
    (if resolve_attr_name n names = rk then (fst acc, Some (range_of op (resolve_attr_value v vals)))
     else if op = Op_eq then (av_to_string (resolve_attr_value v vals), snd acc) else acc)"
proof -
  note w = words_all(6-8) [OF assms(1)] words_all(6-8) [OF assms(2)]
  have find: "str_find (n @ CHR '' '' # t) (x # p) = shift (length n + 1) (str_find t (x # p))"
    if "x \<in> {CHR ''<'', CHR ''>'', CHR ''=''}" for x p t
    using that w str_find_skip [of x "n @ '' ''" t p] by auto
  note t = trim_spaces(1) [OF assms(1)] trim_spaces(2) [OF assms(2)]
  show ?thesis
    unfolding key_operators_def
    by (cases op) (use assms(3) w t in \<open>simp_all add: find str_find_none starts_with_Cons map_Suc_shift Let_def set_range_def\<close>)
qed

lemma key_part_comparison:
  assumes "list_all word_char n" "n \<noteq> []" "ref_ok v" "op \<noteq> Op_ne"
  shows "key_part rk names vals (n @ '' '' @ op_text op @ '' '' @ v) acc =
    Some (if resolve_attr_name n names = rk then (fst acc, Some (range_of op (resolve_attr_value v vals)))
      else if op = Op_eq then (av_to_string (resolve_attr_value v vals), snd acc) else acc)"
proof -
  let ?p = "n @ '' '' @ op_text op @ '' '' @ v"
  have v: "v \<noteq> []" "list_all word_char v" using ref_word [OF assms(3)] by simp_all
  have t: "trim ?p = ?p"
    using clean_append [OF clean_word [OF assms(2,1)] clean_word [OF v], of "'' '' @ op_text op @ '' ''"] by (simp add: clean_trim)
  have e: "\<not> ends_with ?p '')''" using v word_charD by (auto simp: ends_with_char list_all_iff)
  have hv: "\<not> starts_with (map upper_char v) ''BETWEEN ''"
    using assms(3) by (cases v) (auto simp: ref_ok_def starts_with_Cons case_fixed)
  have ho: "\<not> starts_with (op_text op @ r) ''BETWEEN ''" for r by (cases op) (simp_all add: starts_with_Cons)
  have "scan '' BETWEEN '' 0 (map upper_char n @ CHR '' '' # op_text op @ CHR '' '' # map upper_char v) = None"
    using scan_comparison [OF words_case(2) [OF assms(1)] words_case(2) [OF v(2)] ho, of "[]"] hv by simp
  then have "scan '' BETWEEN '' 0 (map upper_char ?p) = None" by (simp add: case_fixed op_case)
  moreover have "ascii (map upper_char ?p)"
    using ascii_upper [OF assms(1)] ascii_upper [OF v(2)] ascii_op [of op] by (simp add: case_fixed op_case)
  ultimately have b: "find_keyword_pos (to_ascii_uppercase ?p) '' BETWEEN '' = Some None"
    by (simp add: find_keyword_pos_eq find_top_level_scan case_map)
  show ?thesis
    unfolding key_part_def Let_def t using e b key_comparison_op [OF assms(1) v(2) assms(4)] by simp
qed

lemma key_part_begins:
  assumes "list_all word_char n" "list_all word_char v"
  shows "key_part rk names vals (''begins_with('' @ n @ '', '' @ v @ '')'') acc =
    Some (set_range (RC_BeginsWith (string_or_empty (resolve_attr_value v vals))) (resolve_attr_name n names = rk) acc)"
proof -
  let ?p = "''begins_with('' @ n @ '', '' @ v @ '')''"
  have t: "trim ?p = ?p" by (rule trim_id) (simp add: is_whitespace_def)
  have l: "starts_with (to_ascii_lowercase ?p) ''begins_with(''"
    by (simp add: case_map starts_with_Cons lower_char_def is_ascii_uppercase_def)
  have i: "drop 12 (take (length ?p - 1) ?p) = n @ '', '' @ v" by (simp add: eval_nat_numeral)
  show ?thesis
    unfolding key_part_def Let_def t i splitn_pair [OF assms(1)]
    using l trim_word [OF assms(1)] trim_spaces(2) [OF assms(2)] by (simp add: ends_with_char)
qed

section \<open>Key conditions\<close>

lemma part_ascii: "list_all word_char n \<Longrightarrow> ref_ok v \<Longrightarrow> ascii (n @ '' '' @ op_text op @ '' '' @ v)"
  using words_all(1) ref_word by (simp add: ascii_op)

lemma parse_two:
  assumes "list_all word_char n" "n \<noteq> []" "ref_ok v" "resolve_attr_name n names \<noteq> rk"
    and "ascii b" "no_and b" "clean b"
  shows "parse_key_condition (n @ '' '' @ op_text Op_eq @ '' '' @ v @ '' AND '' @ b) rk names vals =
    key_part rk names vals b (av_to_string (resolve_attr_value v vals), None)"
proof -
  let ?a = "n @ '' '' @ op_text Op_eq @ '' '' @ v"
  have v: "v \<noteq> []" "list_all word_char v" using ref_word [OF assms(3)] by simp_all
  have "clean ?a"
    using clean_append [OF clean_word [OF assms(2,1)] clean_word [OF v], of "'' '' @ op_text Op_eq @ '' ''"] by simp
  then have t: "trim (?a @ '' AND '' @ b) = ?a @ '' AND '' @ b"
    using clean_append [OF _ assms(7), of ?a "'' AND ''"] by (intro clean_trim)
  have "split_top_level_and (?a @ '' AND '' @ b) = Some [?a, b]"
    by (rule split_two [OF part_ascii [OF assms(1,3)] assms(5) no_and_comparison [OF assms(1,3)] assms(6)])
  then have "parse_key_condition (?a @ '' AND '' @ b) rk names vals =
      Option.bind (key_part rk names vals ?a (None, None)) (key_part rk names vals b)"
    unfolding parse_key_condition_def t by simp
  also have "\<dots> = key_part rk names vals b (av_to_string (resolve_attr_value v vals), None)"
    using key_part_comparison [OF assms(1-3), of Op_eq rk names vals "(None, None)"] assms(4)
    by (simp only: bind.bind_lunit if_False if_True snd_conv simp_thms cmp_op.distinct)
  finally show ?thesis by simp
qed

text \<open>A key condition that equates the partition key and compares the sort key, or tests its prefix, is
  parsed to that partition and that range condition, with names and values taken through their
  placeholders.\<close>

theorem key_condition_correct:
  assumes "name_ok n" "ref_ok v" "name_ok m" "ref_ok u" "op \<noteq> Op_ne"
    and "resolve_attr_name n names \<noteq> rk" "resolve_attr_name m names = rk"
  shows "parse_key_condition (n @ '' = '' @ v @ '' AND '' @ m @ '' '' @ op_text op @ '' '' @ u) rk names vals =
      Some (av_to_string (resolve_attr_value v vals), Some (range_of op (resolve_attr_value u vals))) \<and>
    parse_key_condition (n @ '' = '' @ v @ '' AND begins_with('' @ m @ '', '' @ u @ '')'') rk names vals =
      Some (av_to_string (resolve_attr_value v vals), Some (RC_BeginsWith (string_or_empty (resolve_attr_value u vals))))"
proof
  have n: "list_all word_char n" "n \<noteq> []" and m: "list_all word_char m" "m \<noteq> []" and u: "list_all word_char u" "u \<noteq> []"
    using assms name_word ref_word by auto
  have c: "clean (m @ '' '' @ op_text op @ '' '' @ u)"
    using clean_append [OF clean_word [OF m(2,1)] clean_word [OF u(2,1)], of "'' '' @ op_text op @ '' ''"] by simp
  show "parse_key_condition (n @ '' = '' @ v @ '' AND '' @ m @ '' '' @ op_text op @ '' '' @ u) rk names vals =
      Some (av_to_string (resolve_attr_value v vals), Some (range_of op (resolve_attr_value u vals)))"
    using parse_two [OF n assms(2,6) part_ascii [OF m(1) assms(4)] no_and_comparison [OF m(1) assms(4)] c, of vals]
      key_part_comparison [OF m assms(4,5), of rk names vals] assms(7) by simp
  have b: "ascii (''begins_with('' @ m @ '', '' @ u @ '')'')" "clean (''begins_with('' @ m @ '', '' @ u @ '')'')"
    using words_all(1) [OF m(1)] words_all(1) [OF u(1)] by (simp_all add: clean_def is_whitespace_def)
  show "parse_key_condition (n @ '' = '' @ v @ '' AND begins_with('' @ m @ '', '' @ u @ '')'') rk names vals =
      Some (av_to_string (resolve_attr_value v vals), Some (RC_BeginsWith (string_or_empty (resolve_attr_value u vals))))"
    using parse_two [OF n assms(2,6) b(1) no_and_begins [OF m(1) u(1)] b(2), of vals]
      key_part_begins [OF m(1) u(1), of rk names vals] assms(7) by (simp add: set_range_def)
qed

theorem key_condition_correct_witness:
  "parse_key_condition ''#p = :p AND sk >= :lo'' ''sk'' [(''#p'', ''pk'')] [('':p'', AV_S ''x''), ('':lo'', AV_N ''3'')] =
     Some (Some ''x'', Some (RC_Gte (AV_N ''3'')))"
proof -
  have a: "name_ok ''#p''" "ref_ok '':p''" "name_ok ''sk''" "ref_ok '':lo''" by code_simp+
  have r: "resolve_attr_name ''#p'' [(''#p'', ''pk'')] \<noteq> ''sk''" "resolve_attr_name ''sk'' [(''#p'', ''pk'')] = ''sk''"
    by code_simp+
  have "Op_ge \<noteq> Op_ne" by simp
  from key_condition_correct [OF a this r, of "[('':p'', AV_S ''x''), ('':lo'', AV_N ''3'')]"] show ?thesis
    by (simp add: resolve_attr_value_def)
qed

text \<open>A BETWEEN condition is cut at its own AND before it is recognised: no range condition results,
  whatever the bounds, and a query returns items outside them.\<close>

theorem between_is_ignored:
  "parse_key_condition ''pk = :p AND sk BETWEEN :lo AND :hi'' ''sk'' []
     [('':p'', AV_S ''x''), ('':lo'', AV_S ''b''), ('':hi'', AV_S ''c'')] = Some (Some ''x'', None)"
  by code_simp

end
