(* ===== verification/Service_World.thy ===== *)
theory Service_World
  imports Json_Service
begin

text \<open>
  The surroundings of the services that draw identifiers with \<^verbatim>\<open>Uuid::new_v4()\<close> and read the clock with
  \<^verbatim>\<open>Utc::now()\<close>: both are sequences of values, of which the record says how many have been taken. The
  readers of a scope that draw an identifier for their answer extend the operations of \<open>Json_Service\<close>.
\<close>

record svc_world =
  sw_clock :: "nat \<Rightarrow> int"
  sw_reads :: nat
  sw_uuid :: "nat \<Rightarrow> string"
  sw_drawn :: nat

definition sw_now :: "'x svc_world_scheme \<Rightarrow> int \<times> 'x svc_world_scheme" where
  "sw_now w = (sw_clock w (sw_reads w), w\<lparr>sw_reads := sw_reads w + 1\<rparr>)"

definition new_uuid :: "'x svc_world_scheme \<Rightarrow> string \<times> 'x svc_world_scheme" where
  "new_uuid w = (sw_uuid w (sw_drawn w), w\<lparr>sw_drawn := sw_drawn w + 1\<rparr>)"

lemmas svc_world_defs = sw_now_def new_uuid_def

section \<open>Scopes\<close>

definition reading_in ::
  "RequestContext \<Rightarrow> ('w \<Rightarrow> DispatchResponse \<times> 'w) \<Rightarrow> ('s \<Rightarrow> 'w \<Rightarrow> DispatchResponse \<times> 'w) \<Rightarrow> ('s, 'w) bundle_op" where
  "reading_in ctx missing f b w =
     (let (r, w) = (case bundle_get b (ctx_account_id ctx) (ctx_region ctx) of None \<Rightarrow> missing w | Some s \<Rightarrow> f s w)
      in Some (r, b, w))"

lemma stays_in_scope_reading_in: "stays_in_scope ctx (reading_in ctx missing f)"
  by (auto simp: stays_in_scope_def reading_in_def split: prod.splits)

context scope_invariant
begin

lemma kept: "bundle_keeps f \<Longrightarrow> f b w = Some (r, b', w') \<Longrightarrow> all_scopes b \<Longrightarrow> all_scopes b'"
  unfolding bundle_keeps_def by blast

lemma bundle_keeps_reading_in: "bundle_keeps (reading_in ctx missing f)"
  by (auto simp: bundle_keeps_def reading_in_def split: prod.splits)

end

end
