(* ===== verification/Sns_Service.thy ===== *)
theory Sns_Service
  imports Service_World Sqs_Service
begin

text \<open>
  The SNS service: the store of \<^verbatim>\<open>services/sns/src/store.rs\<close> and the provider of
  \<^verbatim>\<open>services/sns/src/provider.rs\<close>, in the order of the files. A call of the cross-service dispatcher is
  recorded in the field \<open>sw_sent\<close> of the surroundings: the provider only logs what such a call answers.
\<close>

section \<open>Store\<close>

record MessageAttribute =
  ma_data_type :: string
  ma_string_value :: "string option"
  ma_binary_value :: "string option"

type_synonym FilterPolicy = "(string, Value list) hash_map"

definition all_some :: "'a option list \<Rightarrow> 'a list option" where
  "all_some xs = (if None \<in> set xs then None else Some (map the xs))"

fun policy_of_json :: "Value \<Rightarrow> FilterPolicy option" where
  "policy_of_json (JObject m) = all_some (map (\<lambda>(k, v). map_option (Pair k) (as_array v)) m)"
| "policy_of_json _ = None"

definition filter_from_json :: "externs \<Rightarrow> string \<Rightarrow> FilterPolicy option" where
  "filter_from_json ext json = Option.bind (json_from_slice ext json) policy_of_json"

fun filter_matches :: "FilterPolicy \<Rightarrow> (string, MessageAttribute) hash_map \<Rightarrow> bool" where
  "filter_matches [] attributes = True"
| "filter_matches ((attr_name, allowed_values) # rest) attributes =
     (case hm_get attributes attr_name of
        None \<Rightarrow> False
      | Some attr \<Rightarrow>
          (let attr_val_str = unwrap_str (ma_string_value attr);
               passes = list_ex (\<lambda>v. case as_str v of Some s \<Rightarrow> s = attr_val_str | None \<Rightarrow> False) allowed_values
           in if \<not> passes then False else filter_matches rest attributes))"

datatype Protocol = Sqs | Http | Https | Lambda | Email | EmailJson | Sms | Application | Firehose

definition protocol_parse :: "string \<Rightarrow> Protocol option" where
  "protocol_parse s =
     (if s = ''sqs'' then Some Sqs
      else if s = ''http'' then Some Http
      else if s = ''https'' then Some Https
      else if s = ''lambda'' then Some Lambda
      else if s = ''email'' then Some Email
      else if s = ''email-json'' then Some EmailJson
      else if s = ''sms'' then Some Sms
      else if s = ''application'' then Some Application
      else if s = ''firehose'' then Some Firehose
      else None)"

fun protocol_as_str :: "Protocol \<Rightarrow> string" where
  "protocol_as_str Sqs = ''sqs''"
| "protocol_as_str Http = ''http''"
| "protocol_as_str Https = ''https''"
| "protocol_as_str Lambda = ''lambda''"
| "protocol_as_str Email = ''email''"
| "protocol_as_str EmailJson = ''email-json''"
| "protocol_as_str Sms = ''sms''"
| "protocol_as_str Application = ''application''"
| "protocol_as_str Firehose = ''firehose''"

record Subscription =
  sub_arn :: string
  sub_topic_arn :: string
  sub_protocol :: Protocol
  sub_endpoint :: string
  sub_owner :: string
  sub_raw_message_delivery :: bool
  sub_filter_policy :: "FilterPolicy option"
  sub_confirmation_was_authenticated :: bool
  sub_pending_confirmation :: bool
  sub_created :: int

record Topic =
  tp_arn :: string
  tp_name :: string
  tp_display_name :: string
  tp_owner :: string
  tp_region :: string
  tp_created :: int
  tp_fifo :: bool
  tp_content_based_deduplication :: bool
  tp_policy :: "string option"
  tp_delivery_policy :: "string option"
  tp_kms_master_key_id :: "string option"

text \<open>The calls made to the dispatcher, in their order.\<close>

record sns_world = svc_world +
  sw_sent :: "RequestContext list"

definition Subscription_new ::
  "string \<Rightarrow> Protocol \<Rightarrow> string \<Rightarrow> string \<Rightarrow> sns_world \<Rightarrow> Subscription \<times> sns_world" where
  "Subscription_new topic_arn protocol endpoint owner w =
     (let (sub_id, w) = new_uuid w; (now, w) = sw_now w
      in (\<lparr>sub_arn = topic_arn @ '':'' @ sub_id, sub_topic_arn = topic_arn, sub_protocol = protocol,
           sub_endpoint = endpoint, sub_owner = owner, sub_raw_message_delivery = False, sub_filter_policy = None,
           sub_confirmation_was_authenticated = True, sub_pending_confirmation = False, sub_created = now\<rparr>, w))"

definition topic_arn_of :: "string \<Rightarrow> string \<Rightarrow> string \<Rightarrow> string" where
  "topic_arn_of name account_id region = ''arn:aws:sns:'' @ region @ '':'' @ account_id @ '':'' @ name"

definition Topic_new :: "string \<Rightarrow> string \<Rightarrow> string \<Rightarrow> sns_world \<Rightarrow> Topic \<times> sns_world" where
  "Topic_new name account_id region w =
     (let (now, w) = sw_now w
      in (\<lparr>tp_arn = topic_arn_of name account_id region, tp_name = name, tp_display_name = name, tp_owner = account_id,
           tp_region = region, tp_created = now, tp_fifo = ends_with name ''.fifo'',
           tp_content_based_deduplication = False, tp_policy = None, tp_delivery_policy = None,
           tp_kms_master_key_id = None\<rparr>, w))"

record SnsStore =
  sns_topics :: "(string, Topic) hash_map"
  sns_subscriptions :: "(string, Subscription) hash_map"

definition SnsStore_new :: SnsStore where
  "SnsStore_new = \<lparr>sns_topics = [], sns_subscriptions = []\<rparr>"

definition topic_from_attrs :: "params \<Rightarrow> Topic \<Rightarrow> Topic" where
  "topic_from_attrs attrs topic =
     (let topic = (case hm_get attrs ''DisplayName'' of Some v \<Rightarrow> topic\<lparr>tp_display_name := v\<rparr> | None \<Rightarrow> topic);
          topic = (case hm_get attrs ''Policy'' of Some v \<Rightarrow> topic\<lparr>tp_policy := Some v\<rparr> | None \<Rightarrow> topic);
          topic = (case hm_get attrs ''KmsMasterKeyId'' of Some v \<Rightarrow> topic\<lparr>tp_kms_master_key_id := Some v\<rparr> | None \<Rightarrow> topic)
      in case hm_get attrs ''ContentBasedDeduplication'' of
           Some v \<Rightarrow> topic\<lparr>tp_content_based_deduplication := (v = ''true'')\<rparr>
         | None \<Rightarrow> topic)"

definition create_topic ::
  "SnsStore \<Rightarrow> string \<Rightarrow> string \<Rightarrow> string \<Rightarrow> params \<Rightarrow> sns_world \<Rightarrow> Topic \<times> SnsStore \<times> sns_world" where
  "create_topic st name account_id region attrs w =
     (let arn = topic_arn_of name account_id region in
      case hm_get (sns_topics st) arn of
        Some topic \<Rightarrow> (topic, st, w)
      | None \<Rightarrow>
          (let (topic, w) = Topic_new name account_id region w;
               topic = topic_from_attrs attrs topic
           in (topic, st\<lparr>sns_topics := hm_insert arn topic (sns_topics st)\<rparr>, w)))"

definition delete_topic :: "SnsStore \<Rightarrow> string \<Rightarrow> bool \<times> SnsStore" where
  "delete_topic st topic_arn =
     (if contains_key (sns_topics st) topic_arn
      then (True, st\<lparr>sns_topics := hm_remove topic_arn (sns_topics st),
                     sns_subscriptions := filter (\<lambda>(_, s). sub_topic_arn s \<noteq> topic_arn) (sns_subscriptions st)\<rparr>)
      else (False, st))"

definition list_topics :: "SnsStore \<Rightarrow> Topic list" where
  "list_topics st = hm_values (sns_topics st)"

definition subscribe ::
  "SnsStore \<Rightarrow> string \<Rightarrow> Protocol \<Rightarrow> string \<Rightarrow> string \<Rightarrow> sns_world \<Rightarrow> string option \<times> SnsStore \<times> sns_world" where
  "subscribe st topic_arn protocol endpoint account_id w =
     (if \<not> contains_key (sns_topics st) topic_arn then (None, st, w)
      else let (sub, w) = Subscription_new topic_arn protocol endpoint account_id w;
               arn = sub_arn sub
           in (Some arn, st\<lparr>sns_subscriptions := hm_insert arn sub (sns_subscriptions st)\<rparr>, w))"

definition unsubscribe :: "SnsStore \<Rightarrow> string \<Rightarrow> bool \<times> SnsStore" where
  "unsubscribe st subscription_arn =
     (contains_key (sns_subscriptions st) subscription_arn,
      st\<lparr>sns_subscriptions := hm_remove subscription_arn (sns_subscriptions st)\<rparr>)"

definition list_subscriptions :: "SnsStore \<Rightarrow> Subscription list" where
  "list_subscriptions st = hm_values (sns_subscriptions st)"

definition list_subscriptions_by_topic :: "SnsStore \<Rightarrow> string \<Rightarrow> Subscription list" where
  "list_subscriptions_by_topic st topic_arn =
     filter (\<lambda>s. sub_topic_arn s = topic_arn) (hm_values (sns_subscriptions st))"

text \<open>The function is named after MD5 and computes a prefix of SHA-256, here the argument \<open>sha256\<close>.\<close>

definition sns_md5_hex :: "externs \<Rightarrow> (string \<Rightarrow> string) \<Rightarrow> string \<Rightarrow> string" where
  "sns_md5_hex ext sha256 data = hex_encode ext (take 16 (sha256 data))"

section \<open>Responses\<close>

definition sns_xmlns :: string where
  "sns_xmlns = '' xmlns='' @ quoted ''https://sns.amazonaws.com/doc/2010-03-31/'' @ ''>''"

definition sns_xml :: "nat \<Rightarrow> string \<Rightarrow> DispatchResponse" where
  "sns_xml status xml = \<lparr>status_code = status, resp_body = Buffered xml, content_type = ''text/xml'', resp_headers = []\<rparr>"

definition sns_xml_wrap :: "string \<Rightarrow> string \<Rightarrow> string \<Rightarrow> DispatchResponse" where
  "sns_xml_wrap action request_id inner =
     sns_xml 200 (xml_decl @ ''<'' @ action @ ''Response'' @ sns_xmlns @
       ''<'' @ action @ ''Result>'' @ inner @ ''</'' @ action @ ''Result>'' @
       ''<ResponseMetadata><RequestId>'' @ request_id @ ''</RequestId></ResponseMetadata>'' @
       ''</'' @ action @ ''Response>'')"

definition sns_xml_no_result :: "string \<Rightarrow> string \<Rightarrow> DispatchResponse" where
  "sns_xml_no_result action request_id =
     sns_xml 200 (xml_decl @ ''<'' @ action @ ''Response'' @ sns_xmlns @
       ''<ResponseMetadata><RequestId>'' @ request_id @ ''</RequestId></ResponseMetadata>'' @
       ''</'' @ action @ ''Response>'')"

definition sns_error :: "string \<Rightarrow> string \<Rightarrow> nat \<Rightarrow> DispatchResponse" where
  "sns_error code message status =
     sns_xml status (xml_decl @ ''<ErrorResponse'' @ sns_xmlns @
       ''<Error><Type>Sender</Type><Code>'' @ code @ ''</Code><Message>'' @ message @ ''</Message></Error>'' @
       ''</ErrorResponse>'')"

definition sns_escape_xml :: "string \<Rightarrow> string" where
  "sns_escape_xml s =
     replace_char (CHR 0x22) ''&quot;'' (replace_char (CHR ''>'') ''&gt;''
       (replace_char (CHR ''<'') ''&lt;'' (replace_char (CHR ''&'') ''&amp;'' s)))"

section \<open>Parameters\<close>

definition sns_form_pair :: "string \<Rightarrow> (string \<times> string) option" where
  "sns_form_pair kv =
     (let it = splitn 2 (CHR ''='') kv; k = it ! 0; v = (if 1 < length it then it ! 1 else [])
      in if k = [] then None else Some (url_decode_from k, url_decode_from v))"

definition sns_parse_params :: "RequestContext \<Rightarrow> params" where
  "sns_parse_params ctx =
     (let body_str = (case from_utf8 (raw_body_bytes ctx) of Some s \<Rightarrow> s | None \<Rightarrow> []);
          ps = fold (\<lambda>(k, v). hm_insert k v) (List.map_filter sns_form_pair (split_char (CHR ''&'') body_str)) []
      in fold (\<lambda>(k, v) ps. if contains_key ps k then ps else hm_insert k v ps) (ctx_query_params ctx) ps)"

function sns_attributes_loop ::
  "params \<Rightarrow> nat \<Rightarrow> (string, MessageAttribute) hash_map \<Rightarrow> (string, MessageAttribute) hash_map" where
  "sns_attributes_loop ps i result =
     (case hm_get ps (indexed_key ''MessageAttributes.entry'' i ''.Name'') of
        None \<Rightarrow> result
      | Some name \<Rightarrow>
          (let dt = unwrap_str (hm_get ps (indexed_key ''MessageAttributes.entry'' i ''.Value.DataType''));
               sv = hm_get ps (indexed_key ''MessageAttributes.entry'' i ''.Value.StringValue'')
           in sns_attributes_loop ps (Suc i)
                (hm_insert name \<lparr>ma_data_type = dt, ma_string_value = sv, ma_binary_value = None\<rparr> result)))"
  by pat_completeness auto
termination
  by (relation "measure (\<lambda>(ps, i, _). keys_from ps ''MessageAttributes.entry'' ''.Name'' i)")
     (auto intro: keys_from_less [OF sym])

declare sns_attributes_loop.simps [simp del]

definition sns_extract_message_attributes :: "params \<Rightarrow> (string, MessageAttribute) hash_map" where
  "sns_extract_message_attributes ps = sns_attributes_loop ps 1 []"

section \<open>Handlers\<close>

type_synonym sns_result = "DispatchResponse \<times> SnsStore \<times> sns_world"

text \<open>A missing parameter ends a handler with an error.\<close>

definition sns_need :: "params \<Rightarrow> string \<Rightarrow> (DispatchResponse \<Rightarrow> 'a) \<Rightarrow> (string \<Rightarrow> 'a) \<Rightarrow> 'a" where
  "sns_need ps key fail k =
     (case hm_get ps key of
        None \<Rightarrow> fail (sns_error ''InvalidParameter'' (key @ '' is required'') 400)
      | Some v \<Rightarrow> k v)"

text \<open>The responses that end by drawing a request identifier.\<close>

definition sns_reply :: "(string \<Rightarrow> DispatchResponse) \<Rightarrow> sns_world \<Rightarrow> DispatchResponse \<times> sns_world" where
  "sns_reply mk w = (let (rid, w) = new_uuid w in (mk rid, w))"

definition sns_reply_with :: "(string \<Rightarrow> DispatchResponse) \<Rightarrow> SnsStore \<Rightarrow> sns_world \<Rightarrow> sns_result" where
  "sns_reply_with mk st w = (let (r, w) = sns_reply mk w in (r, st, w))"

definition handle_create_topic :: "SnsStore \<Rightarrow> RequestContext \<Rightarrow> params \<Rightarrow> sns_world \<Rightarrow> sns_result" where
  "handle_create_topic st ctx ps w =
     sns_need ps ''Name'' (\<lambda>e. (e, st, w)) (\<lambda>name.
       let attrs = extract_indexed_kv ps ''Attributes.entry'';
           (topic, st, w) = create_topic st name (ctx_account_id ctx) (ctx_region ctx) attrs w;
           arn = tp_arn topic
       in sns_reply_with (\<lambda>rid. sns_xml_wrap ''CreateTopic'' rid (''<TopicArn>'' @ sns_escape_xml arn @ ''</TopicArn>'')) st w)"

definition handle_delete_topic :: "SnsStore \<Rightarrow> params \<Rightarrow> sns_world \<Rightarrow> sns_result" where
  "handle_delete_topic st ps w =
     sns_need ps ''TopicArn'' (\<lambda>e. (e, st, w)) (\<lambda>arn.
       let (_, st) = delete_topic st arn in sns_reply_with (sns_xml_no_result ''DeleteTopic'') st w)"

definition handle_list_topics :: "SnsStore \<Rightarrow> sns_world \<Rightarrow> DispatchResponse \<times> sns_world" where
  "handle_list_topics st w =
     (let inner = ''<Topics>'' @
            concat (map (\<lambda>t. ''<member><TopicArn>'' @ sns_escape_xml (tp_arn t) @ ''</TopicArn></member>'') (list_topics st)) @
            ''</Topics>''
      in sns_reply (\<lambda>rid. sns_xml_wrap ''ListTopics'' rid inner) w)"

definition sns_entry :: "string \<times> string \<Rightarrow> string" where
  "sns_entry kv = ''<entry><key>'' @ fst kv @ ''</key><value>'' @ sns_escape_xml (snd kv) @ ''</value></entry>''"

definition handle_get_topic_attributes :: "SnsStore \<Rightarrow> params \<Rightarrow> sns_world \<Rightarrow> DispatchResponse \<times> sns_world" where
  "handle_get_topic_attributes st ps w =
     sns_need ps ''TopicArn'' (\<lambda>e. (e, w)) (\<lambda>arn.
       case hm_get (sns_topics st) arn of
         None \<Rightarrow> (sns_error ''NotFound'' ''Topic does not exist'' 404, w)
       | Some topic \<Rightarrow>
           (let sub_count = length (list_subscriptions_by_topic st arn);
                attrs = [(''TopicArn'', tp_arn topic), (''DisplayName'', tp_display_name topic), (''Owner'', tp_owner topic),
                  (''SubscriptionsConfirmed'', nat_to_string sub_count), (''SubscriptionsPending'', ''0''),
                  (''SubscriptionsDeleted'', ''0''), (''FifoTopic'', bool_to_string (tp_fifo topic)),
                  (''ContentBasedDeduplication'', bool_to_string (tp_content_based_deduplication topic))];
                policy = (case tp_policy topic of Some p \<Rightarrow> sns_entry (''Policy'', p) | None \<Rightarrow> []);
                inner = ''<Attributes>'' @ concat (map sns_entry attrs) @ policy @ ''</Attributes>''
            in sns_reply (\<lambda>rid. sns_xml_wrap ''GetTopicAttributes'' rid inner) w))"

definition set_topic_attribute :: "string \<Rightarrow> string \<Rightarrow> Topic \<Rightarrow> Topic" where
  "set_topic_attribute attr_name attr_value topic =
     (if attr_name = ''DisplayName'' then topic\<lparr>tp_display_name := attr_value\<rparr>
      else if attr_name = ''Policy'' then topic\<lparr>tp_policy := Some attr_value\<rparr>
      else if attr_name = ''DeliveryPolicy'' then topic\<lparr>tp_delivery_policy := Some attr_value\<rparr>
      else if attr_name = ''KmsMasterKeyId'' then topic\<lparr>tp_kms_master_key_id := Some attr_value\<rparr>
      else if attr_name = ''ContentBasedDeduplication'' then topic\<lparr>tp_content_based_deduplication := (attr_value = ''true'')\<rparr>
      else topic)"

definition handle_set_topic_attributes :: "SnsStore \<Rightarrow> params \<Rightarrow> sns_world \<Rightarrow> sns_result" where
  "handle_set_topic_attributes st ps w =
     sns_need ps ''TopicArn'' (\<lambda>e. (e, st, w)) (\<lambda>arn.
     sns_need ps ''AttributeName'' (\<lambda>e. (e, st, w)) (\<lambda>attr_name.
       let attr_value = unwrap_str (hm_get ps ''AttributeValue'') in
       case hm_get (sns_topics st) arn of
         None \<Rightarrow> (sns_error ''NotFound'' ''Topic not found'' 404, st, w)
       | Some topic \<Rightarrow>
           sns_reply_with (sns_xml_no_result ''SetTopicAttributes'')
             (st\<lparr>sns_topics := hm_insert arn (set_topic_attribute attr_name attr_value topic) (sns_topics st)\<rparr>) w))"

definition handle_subscribe :: "SnsStore \<Rightarrow> RequestContext \<Rightarrow> params \<Rightarrow> sns_world \<Rightarrow> sns_result" where
  "handle_subscribe st ctx ps w =
     sns_need ps ''TopicArn'' (\<lambda>e. (e, st, w)) (\<lambda>topic_arn.
     sns_need ps ''Protocol'' (\<lambda>e. (e, st, w)) (\<lambda>protocol_str.
       let endpoint = unwrap_str (hm_get ps ''Endpoint'') in
       case protocol_parse protocol_str of
         None \<Rightarrow> (sns_error ''InvalidParameter'' ''Unsupported protocol'' 400, st, w)
       | Some protocol \<Rightarrow>
           (case subscribe st topic_arn protocol endpoint (ctx_account_id ctx) w of
              (None, st, w) \<Rightarrow> (sns_error ''NotFound'' ''Topic not found'' 404, st, w)
            | (Some arn, st, w) \<Rightarrow>
                sns_reply_with (\<lambda>rid. sns_xml_wrap ''Subscribe'' rid
                  (''<SubscriptionArn>'' @ sns_escape_xml arn @ ''</SubscriptionArn>'')) st w)))"

definition handle_unsubscribe :: "SnsStore \<Rightarrow> params \<Rightarrow> sns_world \<Rightarrow> sns_result" where
  "handle_unsubscribe st ps w =
     sns_need ps ''SubscriptionArn'' (\<lambda>e. (e, st, w)) (\<lambda>arn.
       let (removed, st) = unsubscribe st arn in
       if removed then sns_reply_with (sns_xml_no_result ''Unsubscribe'') st w
       else (sns_error ''NotFound'' ''Subscription not found'' 404, st, w))"

definition subscription_member :: "Subscription \<Rightarrow> string" where
  "subscription_member s =
     ''<member><SubscriptionArn>'' @ sns_escape_xml (sub_arn s) @ ''</SubscriptionArn>'' @
     ''<Owner>'' @ sns_escape_xml (sub_owner s) @ ''</Owner>'' @
     ''<Protocol>'' @ sns_escape_xml (protocol_as_str (sub_protocol s)) @ ''</Protocol>'' @
     ''<Endpoint>'' @ sns_escape_xml (sub_endpoint s) @ ''</Endpoint>'' @
     ''<TopicArn>'' @ sns_escape_xml (sub_topic_arn s) @ ''</TopicArn></member>''"

definition handle_list_subscriptions :: "SnsStore \<Rightarrow> sns_world \<Rightarrow> DispatchResponse \<times> sns_world" where
  "handle_list_subscriptions st w =
     (let inner = ''<Subscriptions>'' @ concat (map subscription_member (list_subscriptions st)) @ ''</Subscriptions>''
      in sns_reply (\<lambda>rid. sns_xml_wrap ''ListSubscriptions'' rid inner) w)"

definition handle_list_subscriptions_by_topic ::
  "SnsStore \<Rightarrow> params \<Rightarrow> sns_world \<Rightarrow> DispatchResponse \<times> sns_world" where
  "handle_list_subscriptions_by_topic st ps w =
     sns_need ps ''TopicArn'' (\<lambda>e. (e, w)) (\<lambda>topic_arn.
       if \<not> contains_key (sns_topics st) topic_arn then (sns_error ''NotFound'' ''Topic not found'' 404, w)
       else let inner = ''<Subscriptions>'' @
                  concat (map subscription_member (list_subscriptions_by_topic st topic_arn)) @ ''</Subscriptions>''
            in sns_reply (\<lambda>rid. sns_xml_wrap ''ListSubscriptionsByTopic'' rid inner) w)"

definition handle_get_subscription_attributes ::
  "SnsStore \<Rightarrow> params \<Rightarrow> sns_world \<Rightarrow> DispatchResponse \<times> sns_world" where
  "handle_get_subscription_attributes st ps w =
     sns_need ps ''SubscriptionArn'' (\<lambda>e. (e, w)) (\<lambda>arn.
       case hm_get (sns_subscriptions st) arn of
         None \<Rightarrow> (sns_error ''NotFound'' ''Subscription not found'' 404, w)
       | Some sub \<Rightarrow>
           (let attrs = [(''SubscriptionArn'', sub_arn sub), (''TopicArn'', sub_topic_arn sub),
                  (''Protocol'', protocol_as_str (sub_protocol sub)), (''Endpoint'', sub_endpoint sub),
                  (''Owner'', sub_owner sub), (''RawMessageDelivery'', bool_to_string (sub_raw_message_delivery sub)),
                  (''PendingConfirmation'', bool_to_string (sub_pending_confirmation sub))];
                inner = ''<Attributes>'' @ concat (map sns_entry attrs) @ ''</Attributes>''
            in sns_reply (\<lambda>rid. sns_xml_wrap ''GetSubscriptionAttributes'' rid inner) w))"

definition set_subscription_attribute :: "externs \<Rightarrow> string \<Rightarrow> string \<Rightarrow> Subscription \<Rightarrow> Subscription" where
  "set_subscription_attribute ext attr_name attr_value sub =
     (if attr_name = ''RawMessageDelivery'' then sub\<lparr>sub_raw_message_delivery := (attr_value = ''true'')\<rparr>
      else if attr_name = ''FilterPolicy'' then sub\<lparr>sub_filter_policy := filter_from_json ext attr_value\<rparr>
      else sub)"

definition handle_set_subscription_attributes :: "externs \<Rightarrow> SnsStore \<Rightarrow> params \<Rightarrow> sns_world \<Rightarrow> sns_result" where
  "handle_set_subscription_attributes ext st ps w =
     sns_need ps ''SubscriptionArn'' (\<lambda>e. (e, st, w)) (\<lambda>arn.
     sns_need ps ''AttributeName'' (\<lambda>e. (e, st, w)) (\<lambda>attr_name.
       let attr_value = unwrap_str (hm_get ps ''AttributeValue'') in
       case hm_get (sns_subscriptions st) arn of
         None \<Rightarrow> (sns_error ''NotFound'' ''Subscription not found'' 404, st, w)
       | Some sub \<Rightarrow>
           sns_reply_with (sns_xml_no_result ''SetSubscriptionAttributes'')
             (st\<lparr>sns_subscriptions := hm_insert arn (set_subscription_attribute ext attr_name attr_value sub)
                    (sns_subscriptions st)\<rparr>) w))"

section \<open>Publishing\<close>

record delivery_task =
  dt_sub_arn :: string
  dt_protocol :: string
  dt_endpoint :: string
  dt_raw :: bool
  dt_filter :: "FilterPolicy option"

record PublishPayload =
  pp_delivery_tasks :: "delivery_task list"
  pp_message :: string
  pp_subject :: string
  pp_topic_arn :: string
  pp_message_id :: string
  pp_message_attributes :: "(string, MessageAttribute) hash_map"
  pp_dispatcher :: bool
  pp_region :: string
  pp_account_id :: string

text \<open>The functions of other packages: those of \<open>externs\<close> and the timestamp printer of \<^verbatim>\<open>chrono\<close>.\<close>

record sns_libs =
  sl_ext :: externs
  sl_rfc3339 :: "int \<Rightarrow> string"

definition format_sns_notification ::
  "sns_libs \<Rightarrow> string \<Rightarrow> string \<Rightarrow> string \<Rightarrow> string \<Rightarrow> sns_world \<Rightarrow> string \<times> sns_world" where
  "format_sns_notification libs topic_arn message_id message subject w =
     (let (now, w) = sw_now w
      in (json_to_string (sl_ext libs) (json_object
            [(''Type'', JString ''Notification''), (''MessageId'', JString message_id), (''TopicArn'', JString topic_arn),
             (''Subject'', JString subject), (''Message'', JString message), (''Timestamp'', JString (sl_rfc3339 libs now)),
             (''SignatureVersion'', JString ''1''), (''Signature'', JString ''EXAMPLE''), (''SigningCertURL'', JString []),
             (''UnsubscribeURL'', JString [])]), w))"

text \<open>The parts of a queue ARN that address the queue: the fifth, or the account of the publisher, and the last.\<close>

definition queue_account :: "string \<Rightarrow> string \<Rightarrow> string" where
  "queue_account endpoint account_id =
     (let parts = split_char (CHR '':'') endpoint in if 4 < length parts then parts ! 4 else account_id)"

definition queue_name_of :: "string \<Rightarrow> string" where
  "queue_name_of endpoint = last (split_char (CHR '':'') endpoint)"

definition sqs_delivery :: "string \<Rightarrow> string \<Rightarrow> string \<Rightarrow> string \<Rightarrow> RequestContext" where
  "sqs_delivery region queue_account_id queue_name payload =
     (let body = ''Action=SendMessage&QueueUrl=http%3A%2F%2Flocalhost%3A4566%2F'' @ queue_account_id @ ''%2F'' @ queue_name @
            ''&MessageBody='' @ url_encode payload
      in (RequestContext_new ''sqs'' ''SendMessage'' region queue_account_id)
           \<lparr>ctx_method := ''POST'', ctx_path := ''/'' @ queue_account_id @ ''/'' @ queue_name, ctx_raw_body := Some body\<rparr>)"

definition deliver_one :: "sns_libs \<Rightarrow> PublishPayload \<Rightarrow> delivery_task \<Rightarrow> sns_world \<Rightarrow> sns_world" where
  "deliver_one libs p t w =
     (if (case dt_filter t of Some fp \<Rightarrow> \<not> filter_matches fp (pp_message_attributes p) | None \<Rightarrow> False) then w
      else if dt_protocol t = ''sqs'' then
        (let (payload, w) =
               (if dt_raw t then (pp_message p, w)
                else format_sns_notification libs (pp_topic_arn p) (pp_message_id p) (pp_message p) (pp_subject p) w)
         in if pp_dispatcher p
            then let ctx = sqs_delivery (pp_region p) (queue_account (dt_endpoint t) (pp_account_id p))
                       (queue_name_of (dt_endpoint t)) payload
                 in w\<lparr>sw_sent := sw_sent w @ [ctx]\<rparr>
            else w)
      else if dt_protocol t = ''http'' \<or> dt_protocol t = ''https'' then
        snd (format_sns_notification libs (pp_topic_arn p) (pp_message_id p) (pp_message p) (pp_subject p) w)
      else w)"

definition dispatch_publish_deliveries :: "sns_libs \<Rightarrow> PublishPayload \<Rightarrow> sns_world \<Rightarrow> sns_world" where
  "dispatch_publish_deliveries libs p w = fold (deliver_one libs p) (pp_delivery_tasks p) w"

definition sns_publish_ok :: "string \<Rightarrow> sns_world \<Rightarrow> DispatchResponse \<times> sns_world" where
  "sns_publish_ok message_id w =
     sns_reply (\<lambda>rid. sns_xml_wrap ''Publish'' rid (''<MessageId>'' @ message_id @ ''</MessageId>'')) w"

definition task_of :: "Subscription \<Rightarrow> delivery_task" where
  "task_of s = \<lparr>dt_sub_arn = sub_arn s, dt_protocol = protocol_as_str (sub_protocol s), dt_endpoint = sub_endpoint s,
     dt_raw = sub_raw_message_delivery s, dt_filter = sub_filter_policy s\<rparr>"

definition handle_publish ::
  "sns_libs \<Rightarrow> bool \<Rightarrow> SnsStore \<Rightarrow> RequestContext \<Rightarrow> params \<Rightarrow> sns_world \<Rightarrow> sns_result" where
  "handle_publish libs dispatcher st ctx ps w =
     sns_need ps ''TopicArn'' (\<lambda>e. (e, st, w)) (\<lambda>topic_arn.
       if \<not> contains_key (sns_topics st) topic_arn then (sns_error ''NotFound'' ''Topic not found'' 404, st, w)
       else sns_need ps ''Message'' (\<lambda>e. (e, st, w)) (\<lambda>message.
         let subject = unwrap_str (hm_get ps ''Subject'');
             (message_id, w) = new_uuid w;
             attributes = sns_extract_message_attributes ps;
             tasks = map task_of (list_subscriptions_by_topic st topic_arn);
             (response, w) = sns_publish_ok message_id w;
             payload = \<lparr>pp_delivery_tasks = tasks, pp_message = message, pp_subject = subject, pp_topic_arn = topic_arn,
               pp_message_id = message_id, pp_message_attributes = attributes, pp_dispatcher = dispatcher,
               pp_region = ctx_region ctx, pp_account_id = ctx_account_id ctx\<rparr>
         in (response, st, dispatch_publish_deliveries libs payload w)))"

function publish_batch_loop :: "params \<Rightarrow> nat \<Rightarrow> string \<Rightarrow> sns_world \<Rightarrow> string \<times> sns_world" where
  "publish_batch_loop ps i successful w =
     (case (hm_get ps (indexed_key ''PublishBatchRequestEntries.member'' i ''.Id''),
            hm_get ps (indexed_key ''PublishBatchRequestEntries.member'' i ''.Message'')) of
        (Some entry_id, Some msg) \<Rightarrow>
          (let (message_id, w) = new_uuid w
           in publish_batch_loop ps (Suc i)
                (successful @ ''<member><Id>'' @ sns_escape_xml entry_id @ ''</Id><MessageId>'' @ sns_escape_xml message_id @
                 ''</MessageId></member>'') w)
      | _ \<Rightarrow> (successful, w))"
  by pat_completeness auto
termination
  by (relation "measure (\<lambda>(ps, i, _). keys_from ps ''PublishBatchRequestEntries.member'' ''.Id'' i)")
     (auto intro: keys_from_less [OF sym])

declare publish_batch_loop.simps [simp del]

definition handle_publish_batch :: "SnsStore \<Rightarrow> params \<Rightarrow> sns_world \<Rightarrow> sns_result" where
  "handle_publish_batch st ps w =
     sns_need ps ''TopicArn'' (\<lambda>e. (e, st, w)) (\<lambda>topic_arn.
       if \<not> contains_key (sns_topics st) topic_arn then (sns_error ''NotFound'' ''Topic not found'' 404, st, w)
       else let (successful, w) = publish_batch_loop ps 1 [] w
            in sns_reply_with (\<lambda>rid. sns_xml_wrap ''PublishBatch'' rid
                 (''<Successful>'' @ successful @ ''</Successful><Failed></Failed>'')) st w)"

section \<open>Dispatch\<close>

definition sns_needs_key :: "params \<Rightarrow> string \<Rightarrow> (SnsStore, sns_world) bundle_op \<Rightarrow> (SnsStore, sns_world) bundle_op" where
  "sns_needs_key ps key f =
     (if \<not> contains_key ps key then answering (sns_error ''InvalidParameter'' (key @ '' is required'') 400) else f)"

definition sns_missing :: "string \<Rightarrow> sns_world \<Rightarrow> DispatchResponse \<times> sns_world" where
  "sns_missing message w = (sns_error ''NotFound'' message 404, w)"

definition sns_read_action :: "RequestContext \<Rightarrow> string \<Rightarrow> params \<Rightarrow> (SnsStore, sns_world) bundle_op option" where
  "sns_read_action ctx action ps =
     (if action = ''ListTopics'' then Some (reading_in ctx
          (sns_reply (\<lambda>rid. sns_xml_wrap ''ListTopics'' rid ''<Topics></Topics>'')) handle_list_topics)
      else if action = ''GetTopicAttributes'' then Some (sns_needs_key ps ''TopicArn'' (reading_in ctx
          (sns_missing ''Topic does not exist'') (\<lambda>st. handle_get_topic_attributes st ps)))
      else if action = ''ListSubscriptions'' then Some (reading_in ctx
          (sns_reply (\<lambda>rid. sns_xml_wrap ''ListSubscriptions'' rid ''<Subscriptions></Subscriptions>''))
          handle_list_subscriptions)
      else if action = ''ListSubscriptionsByTopic'' then Some (sns_needs_key ps ''TopicArn'' (reading_in ctx
          (sns_missing ''Topic not found'') (\<lambda>st. handle_list_subscriptions_by_topic st ps)))
      else if action = ''GetSubscriptionAttributes'' then Some (sns_needs_key ps ''SubscriptionArn'' (reading_in ctx
          (sns_missing ''Subscription not found'') (\<lambda>st. handle_get_subscription_attributes st ps)))
      else None)"

definition sns_write_action ::
  "sns_libs \<Rightarrow> bool \<Rightarrow> RequestContext \<Rightarrow> string \<Rightarrow> params \<Rightarrow> (SnsStore \<Rightarrow> sns_world \<Rightarrow> sns_result) option" where
  "sns_write_action libs dispatcher ctx action ps =
     (if action = ''Publish'' then Some (\<lambda>st. handle_publish libs dispatcher st ctx ps)
      else if action = ''CreateTopic'' then Some (\<lambda>st. handle_create_topic st ctx ps)
      else if action = ''DeleteTopic'' then Some (\<lambda>st. handle_delete_topic st ps)
      else if action = ''SetTopicAttributes'' then Some (\<lambda>st. handle_set_topic_attributes st ps)
      else if action = ''Subscribe'' then Some (\<lambda>st. handle_subscribe st ctx ps)
      else if action = ''Unsubscribe'' then Some (\<lambda>st. handle_unsubscribe st ps)
      else if action = ''SetSubscriptionAttributes'' then Some (\<lambda>st. handle_set_subscription_attributes (sl_ext libs) st ps)
      else if action = ''PublishBatch'' then Some (\<lambda>st. handle_publish_batch st ps)
      else None)"

type_synonym sns_bundle = "SnsStore AccountRegionBundle"

definition sns_dispatch ::
  "sns_libs \<Rightarrow> bool \<Rightarrow> RequestContext \<Rightarrow> sns_bundle \<Rightarrow> sns_world \<Rightarrow>
   ((DispatchError + DispatchResponse) \<times> sns_bundle \<times> sns_world) option" where
  "sns_dispatch libs dispatcher ctx b w =
     (let ps = sns_parse_params ctx in
      case (case hm_get ps ''Action'' of Some a \<Rightarrow> Some a | None \<Rightarrow> hm_get (ctx_query_params ctx) ''Action'') of
        None \<Rightarrow> Some (Inl (NotImplemented ''(missing Action)''), b, w)
      | Some action \<Rightarrow>
          (case sns_read_action ctx action ps of
             Some f \<Rightarrow> map_option (\<lambda>(r, b, w). (Inr r, b, w)) (f b w)
           | None \<Rightarrow>
          (case sns_write_action libs dispatcher ctx action ps of
             Some f \<Rightarrow> map_option (\<lambda>(r, b, w). (Inr r, b, w)) (on_created SnsStore_new ctx (\<lambda>st w. Some (f st w)) b w)
           | None \<Rightarrow>
               Some (Inl (NotImplemented action), snd (get_or_create SnsStore_new b (ctx_account_id ctx) (ctx_region ctx)), w))))"

definition sns_storage_snapshot :: "sns_bundle \<Rightarrow> Value" where
  "sns_storage_snapshot b =
     (let attr = (\<lambda>k v. json_object [(''key'', JString k), (''value'', JString v)]);
          topics = concat (map (\<lambda>(_, st).
            let sub_counts = fold (\<lambda>sub m. hm_insert (sub_topic_arn sub)
                    ((case hm_get m (sub_topic_arn sub) of Some n \<Rightarrow> n | None \<Rightarrow> 0) + 1) m)
                  (hm_values (sns_subscriptions st)) []
            in map (\<lambda>topic. json_object
                 [(''id'', JString (tp_arn topic)), (''kind'', JString ''topic''),
                  (''attributes'', JArray [attr ''name'' (tp_name topic), attr ''subscription_count''
                     (nat_to_string (case hm_get sub_counts (tp_arn topic) of Some n \<Rightarrow> n | None \<Rightarrow> 0))])])
                 (hm_values (sns_topics st))) (bundle_iter b))
      in json_object [(''kind'', JString ''sns''), (''topics'', JArray topics)])"

end
