(* ===== verification/Sns_Topics.thy ===== *)
theory Sns_Topics
  imports Sns_Service
begin

text \<open>
  What holds of the SNS stores after any sequence of requests: topics and subscriptions are filed under
  their names, and no subscription outlives its topic. The escaping routine of the provider and the
  protocol names meet the contracts of their kind.
\<close>

section \<open>Escaping and protocols\<close>

lemma sns_escape_xml_eq: "sns_escape_xml s = concat (map sqs_escape_char s)"
  by (induction s) (auto simp: sns_escape_xml_def replace_char_def sqs_escape_char_def)

interpretation sns_xml: xml_escaper sns_escape_xml "{CHR ''&'', CHR ''<'', CHR ''>'', CHR 0x22}" xml_entity
  by unfold_locales (auto simp: sns_escape_xml_eq sqs_escape_char_def xml_entity_def inj_on_def split: if_splits)

lemma protocol_roundtrip: "protocol_parse (protocol_as_str p) = Some p"
  by (cases p) (simp_all add: protocol_parse_def)

lemma filter_matches_iff:
  "filter_matches fp attrs \<longleftrightarrow>
     (\<forall>(name, allowed) \<in> set fp. \<exists>a. hm_get attrs name = Some a \<and> JString (unwrap_str (ma_string_value a)) \<in> set allowed)"
proof (induction fp attrs rule: filter_matches.induct)
  case (2 name allowed rest attrs)
  have "list_ex (\<lambda>v. case as_str v of Some s \<Rightarrow> s = x | None \<Rightarrow> False) allowed \<longleftrightarrow> JString x \<in> set allowed" for x
    by (induction allowed) (auto split: option.splits elim!: as_str.elims)
  with 2 show ?case by (auto simp: Let_def split: option.splits)
qed simp

section \<open>Topics and subscriptions\<close>

definition sns_topics_ok :: "(string, Topic) hash_map \<Rightarrow> bool" where
  "sns_topics_ok ts \<longleftrightarrow>
     (\<forall>k t. hm_get ts k = Some t \<longrightarrow> tp_arn t = k \<and> k = topic_arn_of (tp_name t) (tp_owner t) (tp_region t))"

definition sns_subs_ok :: "(string, Topic) hash_map \<Rightarrow> (string, Subscription) hash_map \<Rightarrow> bool" where
  "sns_subs_ok ts ss \<longleftrightarrow> hm_wf ss \<and>
     (\<forall>k s. hm_get ss k = Some s \<longrightarrow>
        sub_arn s = k \<and> starts_with k (sub_topic_arn s @ '':'') \<and> hm_get ts (sub_topic_arn s) \<noteq> None)"

definition sns_store_ok :: "SnsStore \<Rightarrow> bool" where
  "sns_store_ok st \<longleftrightarrow> sns_topics_ok (sns_topics st) \<and> sns_subs_ok (sns_topics st) (sns_subscriptions st)"

lemma sns_topics_ok_insert:
  "sns_topics_ok ts \<Longrightarrow> tp_arn t = k \<Longrightarrow> k = topic_arn_of (tp_name t) (tp_owner t) (tp_region t) \<Longrightarrow>
   sns_topics_ok (hm_insert k t ts)"
  by (auto simp: sns_topics_ok_def update_conv')

lemma sns_subs_ok_topic_insert: "sns_subs_ok ts ss \<Longrightarrow> sns_subs_ok (hm_insert k t ts) ss"
  by (auto simp: sns_subs_ok_def update_conv')

lemma sns_subs_ok_insert:
  "sns_subs_ok ts ss \<Longrightarrow> sub_arn s = k \<Longrightarrow> starts_with k (sub_topic_arn s @ '':'') \<Longrightarrow>
   hm_get ts (sub_topic_arn s) \<noteq> None \<Longrightarrow> sns_subs_ok ts (hm_insert k s ss)"
  by (auto simp: sns_subs_ok_def update_conv' hm.wf_insert split: if_splits)

lemma sns_subs_ok_remove: "sns_subs_ok ts ss \<Longrightarrow> sns_subs_ok ts (hm_remove k ss)"
  by (auto simp: sns_subs_ok_def delete_conv' hm.wf_remove split: if_splits)

lemma hm_wf_filter: "hm_wf m \<Longrightarrow> hm_wf (filter P m)"
  by (induction m) (auto simp: hm_wf_def)

lemma hm_get_filter: "hm_wf m \<Longrightarrow> hm_get (filter (\<lambda>(k, v). P v) m) k = (case hm_get m k of Some v \<Rightarrow> if P v then Some v else None | None \<Rightarrow> None)"
proof (induction m)
  case (Cons p m)
  obtain a v where p: "p = (a, v)" by fastforce
  have "a \<notin> fst ` set m" using Cons.prems p by (auto simp: hm_wf_def)
  then have "hm_get m a = None" by (simp add: map_of_eq_None_iff)
  moreover have "hm_wf m" using Cons.prems by (simp add: hm_wf_def)
  ultimately show ?case using Cons.IH p by auto
qed simp

lemma delete_topic_ok: "sns_store_ok st \<Longrightarrow> sns_store_ok (snd (delete_topic st arn))"
proof (cases "contains_key (sns_topics st) arn")
  case True
  assume ok: "sns_store_ok st"
  then have wf: "hm_wf (sns_subscriptions st)" by (simp add: sns_store_ok_def sns_subs_ok_def)
  from ok True show ?thesis
    by (auto simp: delete_topic_def sns_store_ok_def sns_topics_ok_def sns_subs_ok_def delete_conv' hm_wf_filter
        hm_get_filter [OF wf] split: option.splits if_splits)
qed (simp add: delete_topic_def)

lemma set_topic_attribute_fields [simp]:
  "tp_arn (set_topic_attribute n v t) = tp_arn t" "tp_name (set_topic_attribute n v t) = tp_name t"
  "tp_owner (set_topic_attribute n v t) = tp_owner t" "tp_region (set_topic_attribute n v t) = tp_region t"
  by (simp_all add: set_topic_attribute_def)

lemma set_subscription_attribute_fields [simp]:
  "sub_arn (set_subscription_attribute ext n v s) = sub_arn s"
  "sub_topic_arn (set_subscription_attribute ext n v s) = sub_topic_arn s"
  by (simp_all add: set_subscription_attribute_def)

lemma topic_from_attrs_fields [simp]:
  "tp_arn (topic_from_attrs a t) = tp_arn t" "tp_name (topic_from_attrs a t) = tp_name t"
  "tp_owner (topic_from_attrs a t) = tp_owner t" "tp_region (topic_from_attrs a t) = tp_region t"
  by (simp_all add: topic_from_attrs_def Let_def split: option.splits)

section \<open>The handlers keep the store in order\<close>

definition sns_keeps :: "(SnsStore \<Rightarrow> sns_world \<Rightarrow> sns_result) \<Rightarrow> bool" where
  "sns_keeps f \<longleftrightarrow> (\<forall>st w r st' w'. sns_store_ok st \<longrightarrow> f st w = (r, st', w') \<longrightarrow> sns_store_ok st')"

lemma sns_keepsI: "(\<And>st w. sns_store_ok st \<Longrightarrow> sns_store_ok (fst (snd (f st w)))) \<Longrightarrow> sns_keeps f"
  unfolding sns_keeps_def by (metis fst_conv snd_conv)

lemma sns_reply_with_store [simp]: "fst (snd (sns_reply_with mk st w)) = st"
  by (simp add: sns_reply_with_def sns_reply_def new_uuid_def)

lemma create_topic_ok:
  assumes "sns_store_ok st" "create_topic st name acc reg attrs w = (t, st', w')"
  shows "sns_store_ok st'"
proof (cases "hm_get (sns_topics st) (topic_arn_of name acc reg)")
  case None
  with assms show ?thesis
    by (auto simp: create_topic_def Topic_new_def sw_now_def sns_store_ok_def Let_def
        intro!: sns_topics_ok_insert sns_subs_ok_topic_insert)
qed (use assms in \<open>simp add: create_topic_def Let_def\<close>)

lemma handle_create_topic_keeps: "sns_keeps (\<lambda>st. handle_create_topic st ctx ps)"
proof (rule sns_keepsI)
  fix st w
  assume ok: "sns_store_ok st"
  show "sns_store_ok (fst (snd (handle_create_topic st ctx ps w)))"
    using create_topic_ok [OF ok]
    by (auto simp: handle_create_topic_def sns_need_def ok split: option.splits prod.splits)
qed

lemma handle_delete_topic_keeps: "sns_keeps (\<lambda>st. handle_delete_topic st ps)"
proof (rule sns_keepsI)
  fix st w
  assume ok: "sns_store_ok st"
  show "sns_store_ok (fst (snd (handle_delete_topic st ps w)))"
    using delete_topic_ok [OF ok]
    by (auto simp: handle_delete_topic_def sns_need_def ok case_prod_beta Let_def split: option.splits)
qed

lemma handle_set_topic_attributes_keeps: "sns_keeps (\<lambda>st. handle_set_topic_attributes st ps)"
  by (rule sns_keepsI) (auto simp: handle_set_topic_attributes_def sns_need_def Let_def sns_store_ok_def
      intro!: sns_topics_ok_insert sns_subs_ok_topic_insert split: option.splits; simp add: sns_topics_ok_def)

lemma subscribe_ok:
  assumes "sns_store_ok st" "subscribe st arn p e acc w = (r, st', w')"
  shows "sns_store_ok st'"
proof (cases "contains_key (sns_topics st) arn")
  case True
  with assms show ?thesis
    by (auto simp: subscribe_def Subscription_new_def svc_world_defs Let_def sns_store_ok_def contains_key_def starts_with_def
        intro!: sns_subs_ok_insert)
qed (use assms in \<open>simp add: subscribe_def\<close>)

lemma handle_subscribe_keeps: "sns_keeps (\<lambda>st. handle_subscribe st ctx ps)"
proof (rule sns_keepsI)
  fix st w
  assume ok: "sns_store_ok st"
  show "sns_store_ok (fst (snd (handle_subscribe st ctx ps w)))"
    using subscribe_ok [OF ok]
    by (auto simp: handle_subscribe_def sns_need_def ok Let_def split: option.splits prod.splits)
qed

lemma handle_unsubscribe_keeps: "sns_keeps (\<lambda>st. handle_unsubscribe st ps)"
  by (rule sns_keepsI) (auto simp: handle_unsubscribe_def unsubscribe_def sns_need_def Let_def sns_store_ok_def
      intro!: sns_subs_ok_remove split: option.splits)

lemma handle_set_subscription_attributes_keeps: "sns_keeps (\<lambda>st. handle_set_subscription_attributes ext st ps)"
  by (rule sns_keepsI) (auto simp: handle_set_subscription_attributes_def sns_need_def Let_def sns_store_ok_def
      intro!: sns_subs_ok_insert split: option.splits; auto simp: sns_subs_ok_def)

lemma handle_publish_keeps: "sns_keeps (\<lambda>st. handle_publish libs d st ctx ps)"
  by (rule sns_keepsI) (auto simp: handle_publish_def sns_need_def split: option.splits prod.splits)

lemma handle_publish_batch_keeps: "sns_keeps (\<lambda>st. handle_publish_batch st ps)"
  by (rule sns_keepsI) (auto simp: handle_publish_batch_def sns_need_def split: option.splits prod.splits)

lemmas sns_handlers_keep = handle_create_topic_keeps handle_delete_topic_keeps handle_set_topic_attributes_keeps
  handle_subscribe_keeps handle_unsubscribe_keeps handle_set_subscription_attributes_keeps handle_publish_keeps
  handle_publish_batch_keeps

interpretation sns_scopes: scope_invariant sns_store_ok SnsStore_new
  by unfold_locales (simp add: sns_store_ok_def SnsStore_new_def sns_topics_ok_def sns_subs_ok_def)

lemma sns_write_action_keeps:
  "sns_write_action libs d ctx action ps = Some f \<Longrightarrow> sns_scopes.bundle_keeps (on_created SnsStore_new ctx (\<lambda>st w. Some (f st w)))"
proof (rule sns_scopes.bundle_keeps_created)
  assume "sns_write_action libs d ctx action ps = Some f"
  then have "sns_keeps f" by (auto simp: sns_write_action_def sns_handlers_keep split: if_splits)
  then show "sns_scopes.scope_keeps (\<lambda>st w. Some (f st w))"
    by (auto simp: sns_keeps_def sns_scopes.scope_keeps_def)
qed

lemma sns_needs_key_keeps: "sns_scopes.bundle_keeps f \<Longrightarrow> sns_scopes.bundle_keeps (sns_needs_key ps key f)"
  by (simp add: sns_needs_key_def sns_scopes.bundle_keeps_answering)

lemma sns_read_action_keeps: "sns_read_action ctx action ps = Some f \<Longrightarrow> sns_scopes.bundle_keeps f"
  by (auto simp: sns_read_action_def sns_needs_key_keeps sns_scopes.bundle_keeps_reading_in split: if_splits)

lemma sns_dispatch_keeps:
  assumes "sns_scopes.all_scopes b" "sns_dispatch libs d ctx b w = Some (r, b', w')"
  shows "sns_scopes.all_scopes b'"
proof -
  let ?ps = "sns_parse_params ctx"
  consider "b' = b" | action f where "sns_read_action ctx action ?ps = Some f" "\<exists>r. f b w = Some (r, b', w')"
    | action f where "sns_write_action libs d ctx action ?ps = Some f"
        "\<exists>r. on_created SnsStore_new ctx (\<lambda>st w. Some (f st w)) b w = Some (r, b', w')"
    | "b' = snd (get_or_create SnsStore_new b (ctx_account_id ctx) (ctx_region ctx))"
    using assms(2) by (auto simp: sns_dispatch_def Let_def split: option.splits)
  then show ?thesis
  proof cases
    case (2 action f)
    then show ?thesis using sns_read_action_keeps assms(1) unfolding sns_scopes.bundle_keeps_def by blast
  next
    case (3 action f)
    then show ?thesis using sns_write_action_keeps assms(1) unfolding sns_scopes.bundle_keeps_def by blast
  next
    case 4
    then show ?thesis using sns_scopes.get_or_create_all [OF assms(1)] by (metis prod.collapse)
  qed (use assms in simp)
qed

section \<open>Runs of requests\<close>

fun sns_run ::
  "sns_libs \<Rightarrow> bool \<Rightarrow> RequestContext list \<Rightarrow> sns_bundle \<Rightarrow> sns_world \<Rightarrow> (sns_bundle \<times> sns_world) option" where
  "sns_run libs d [] b w = Some (b, w)"
| "sns_run libs d (ctx # ctxs) b w =
     (case sns_dispatch libs d ctx b w of None \<Rightarrow> None | Some (_, b, w) \<Rightarrow> sns_run libs d ctxs b w)"

lemma sns_run_keeps:
  "sns_run libs d ctxs b w = Some (b', w') \<Longrightarrow> sns_scopes.all_scopes b \<Longrightarrow> sns_scopes.all_scopes b'"
  by (induction ctxs arbitrary: b w) (auto split: option.splits dest: sns_dispatch_keeps)

lemma sns_dispatch_answers: "\<exists>r b' w'. sns_dispatch libs d ctx b w = Some (r, b', w')"
proof -
  have "\<exists>x. f b w = Some x" if "sns_read_action ctx a ps = Some f" for a ps f
    using that by (auto simp: sns_read_action_def sns_needs_key_def answering_def reading_in_def
        case_prod_beta Let_def split: if_splits)
  moreover have "\<exists>x. on_created SnsStore_new ctx (\<lambda>st w. Some (f st w)) b w = Some x" for f
    by (simp add: on_created_def case_prod_beta Let_def)
  ultimately show ?thesis by (fastforce simp: sns_dispatch_def Let_def split: option.splits)
qed

lemma sns_run_answers: "\<exists>b' w'. sns_run libs d ctxs b w = Some (b', w')"
proof (induction ctxs arbitrary: b w)
  case (Cons ctx ctxs)
  from sns_dispatch_answers [of libs d ctx b w] Cons show ?case by fastforce
qed simp

text \<open>C10: Every sequence of SNS requests is served, and afterwards in every scope each topic is filed under
  the ARN made of its region, owner and name, each subscription under its own ARN, which extends its
  topic's, and the topic of each subscription exists.\<close>

theorem sns_references:
  "\<exists>b w. sns_run libs d ctxs bundle_new w0 = Some (b, w) \<and>
     (\<forall>acc reg st. bundle_get b acc reg = Some st \<longrightarrow>
        (\<forall>k t. hm_get (sns_topics st) k = Some t \<longrightarrow> tp_arn t = k \<and> k = topic_arn_of (tp_name t) (tp_owner t) (tp_region t)) \<and>
        (\<forall>k s. hm_get (sns_subscriptions st) k = Some s \<longrightarrow>
           sub_arn s = k \<and> starts_with k (sub_topic_arn s @ '':'') \<and> hm_get (sns_topics st) (sub_topic_arn s) \<noteq> None))"
proof -
  obtain b w where r: "sns_run libs d ctxs bundle_new w0 = Some (b, w)" using sns_run_answers by blast
  with sns_run_keeps [OF r sns_scopes.all_scopes_new] sns_scopes.all_scopes_get
  show ?thesis unfolding sns_store_ok_def sns_topics_ok_def sns_subs_ok_def by blast
qed

end
