(* ===== verification/Sns_Delivery.thy ===== *)
theory Sns_Delivery
  imports Sns_Topics Platform
begin

text \<open>
  Publishing end to end: the calls a publication makes to the dispatcher are exactly one per SQS
  subscription of the topic whose filter accepts the message, and, when the manager serves them, each
  appends its payload to the queue the subscription names.
\<close>

section \<open>The queue at the other end\<close>

definition queue_bodies :: "sqs_bundle \<Rightarrow> string \<times> string \<times> string \<Rightarrow> string list option" where
  "queue_bodies b x =
     (case x of (acc, reg, name) \<Rightarrow>
        Option.bind (bundle_get b acc reg) (\<lambda>st. map_option (\<lambda>q. map m_body (q_messages q)) (get_queue_by_name st name)))"

text \<open>How SQS reads the bytes of a form value: each byte as the character of that number.\<close>

definition latin1 :: "string \<Rightarrow> string" where
  "latin1 s = concat (map push_byte_as_char s)"

definition plain :: "string \<Rightarrow> bool" where
  "plain s \<longleftrightarrow> list_all is_unreserved s"

lemma unreserved_not_special:
  "is_unreserved c \<Longrightarrow> c \<notin> {CHR ''&'', CHR ''='', CHR ''%'', CHR ''+'', CHR ''/'', CHR '':'', CHR 0x00}"
  by (auto simp: is_unreserved_def)

lemma unreserved_ascii: "is_unreserved c \<Longrightarrow> (of_char c :: nat) < 128"
  by (auto simp: is_unreserved_def Let_def)

lemma plain_encode: "plain s \<Longrightarrow> url_encode s = s"
  by (induction s) (auto simp: plain_def url_encode_def url_encode_byte_def)

lemma url_encode_append: "url_encode (s @ t) = url_encode s @ url_encode t"
  by (simp add: url_encode_def)

lemma url_encode_chars: "c \<in> set (url_encode s) \<Longrightarrow> is_unreserved c \<or> c = CHR ''%''"
proof -
  assume "c \<in> set (url_encode s)"
  then obtain d where d: "c \<in> set (url_encode_byte d)" by (auto simp: url_encode_def)
  have hex: "is_unreserved (upper_hex_digit n)" if "n < 16" for n
    using that by (auto simp: is_unreserved_def upper_hex_digit_def Let_def)
  show ?thesis using d byte_halves [of d] hex by (auto simp: url_encode_byte_def split: if_splits)
qed

definition delivered_url :: "string \<Rightarrow> string \<Rightarrow> string" where
  "delivered_url a n = ''http://localhost:4566/'' @ a @ ''/'' @ n"

lemma delivered_url_encoded:
  "plain a \<Longrightarrow> plain n \<Longrightarrow>
   ''http%3A%2F%2Flocalhost%3A4566%2F'' @ a @ ''%2F'' @ n = url_encode (delivered_url a n)"
proof -
  assume p: "plain a" "plain n"
  have c: "url_encode ''http://localhost:4566/'' = ''http%3A%2F%2Flocalhost%3A4566%2F''" "url_encode ''/'' = ''%2F''"
    by code_simp+
  show ?thesis unfolding delivered_url_def url_encode_append plain_encode [OF p(1)] plain_encode [OF p(2)] c by simp
qed

lemma form_pair_encoded:
  assumes "CHR ''='' \<notin> set k" "k \<noteq> []" "plain k"
  shows "form_pair (k @ CHR ''='' # url_encode v) = Some (k, latin1 v)"
proof -
  have "url_decode k = k" using assms(3) unreserved_not_special
    by (force simp: url_decode_def list_ex_iff plain_def list_all_iff)
  then show ?thesis
    using assms url_decode_encoded [of v]
    by (simp add: form_pair_def numeral_2_eq_2 split_once_sep latin1_def Let_def)
qed

lemma from_utf8_ascii: "\<forall>c \<in> set s. (of_char c :: nat) < 128 \<Longrightarrow> from_utf8 s = Some s"
proof -
  assume "\<forall>c \<in> set s. (of_char c :: nat) < 128"
  then have "utf8_valid (map of_char s)" by (induction s) auto
  then show ?thesis by (simp add: from_utf8_def)
qed

lemma delivery_params:
  assumes "plain a" "plain n"
  shows "params_of ext (sqs_delivery r a n p) =
    [(''Action'', ''SendMessage''), (''QueueUrl'', latin1 (delivered_url a n)), (''MessageBody'', latin1 p)]"
proof -
  let ?u = "url_encode (delivered_url a n)" and ?p = "url_encode p"
  let ?body = "''Action='' @ url_encode ''SendMessage'' @ CHR ''&'' # ''QueueUrl='' @ ?u @ CHR ''&'' # ''MessageBody='' @ ?p"
  have enc: "url_encode ''SendMessage'' = ''SendMessage''" by (rule plain_encode) (simp add: plain_def is_unreserved_def)
  have body: "raw_body_bytes (sqs_delivery r a n p) = ?body"
    using delivered_url_encoded [OF assms] enc by (simp add: sqs_delivery_def RequestContext_new_def raw_body_bytes_def)
  have ascii: "from_utf8 ?body = Some ?body"
  proof -
    have "\<forall>c \<in> set ?body. (of_char c :: nat) < 128" using url_encode_ascii by auto
    then show ?thesis using from_utf8_ascii by blast
  qed
  have amp: "CHR ''&'' \<notin> set (url_encode s)" for s using url_encode_chars unreserved_not_special by fastforce
  have split: "split_char (CHR ''&'') ?body =
      [''Action='' @ url_encode ''SendMessage'', ''QueueUrl='' @ ?u, ''MessageBody='' @ ?p]"
    using amp by (simp add: split_char_append split_char_no_sep enc)
  have keys: "plain ''Action''" "plain ''QueueUrl''" "plain ''MessageBody''" by (simp_all add: plain_def is_unreserved_def)
  have pairs: "form_pair (''Action='' @ url_encode ''SendMessage'') = Some (''Action'', latin1 ''SendMessage'')"
    "form_pair (''QueueUrl='' @ ?u) = Some (''QueueUrl'', latin1 (delivered_url a n))"
    "form_pair (''MessageBody='' @ ?p) = Some (''MessageBody'', latin1 p)"
    using form_pair_encoded [OF _ _ keys(1), of "''SendMessage''"] form_pair_encoded [OF _ _ keys(2), of "delivered_url a n"]
      form_pair_encoded [OF _ _ keys(3), of p] by simp_all
  have lat: "latin1 ''SendMessage'' = ''SendMessage''" by (simp add: latin1_def push_byte_as_char_def)
  have mf: "List.map_filter form_pair [''Action='' @ url_encode ''SendMessage'', ''QueueUrl='' @ ?u, ''MessageBody='' @ ?p] =
      [(''Action'', ''SendMessage''), (''QueueUrl'', latin1 (delivered_url a n)), (''MessageBody'', latin1 p)]"
    by (simp only: map_filter_simps pairs option.case lat)
  have rest: "ctx_query_params (sqs_delivery r a n p) = []" "ctx_headers (sqs_delivery r a n p) = []"
    by (simp_all add: sqs_delivery_def RequestContext_new_def)
  show ?thesis
    unfolding params_of_def parse_params_def Let_def body ascii option.case split mf apply_transport_compat_def header_def rest
    by (simp add: contains_key_def)
qed

text \<open>A call of the dispatcher appends its payload to the queue it names, if there is one, and to no other.\<close>

lemma latin1_plain: "plain s \<Longrightarrow> latin1 s = s"
  unfolding latin1_def plain_def list_all_iff by (rule push_ascii) (auto dest: unreserved_ascii)

lemma delivered_url_name: "plain a \<Longrightarrow> plain n \<Longrightarrow> queue_name_from_url (latin1 (delivered_url a n)) = n"
proof -
  assume n: "plain a" "plain n"
  have "latin1 (delivered_url a n) = (''http://localhost:4566/'' @ a) @ CHR ''/'' # n"
    using latin1_plain [OF n(1)] latin1_plain [OF n(2)] by (simp add: latin1_def delivered_url_def push_byte_as_char_def)
  moreover have "CHR ''/'' \<notin> set n" using n(2) unreserved_not_special by (force simp: plain_def list_all_iff)
  ultimately show ?thesis unfolding queue_name_from_url_def using rsplit_first_sep by metis
qed

lemma send_message_bodies:
  "send_message ext w q body d attrs g None = (res, q', w') \<Longrightarrow> map m_body (q_messages q') = map m_body (q_messages q) @ [body]"
  by (auto simp: send_message_def SqsMessage_new_def Let_def split: prod.splits)

lemma sqs_delivery_scope [simp]:
  "ctx_account_id (sqs_delivery r a n p) = a" "ctx_region (sqs_delivery r a n p) = r"
  "ctx_service (sqs_delivery r a n p) = ''sqs''" "ctx_headers (sqs_delivery r a n p) = []"
  by (simp_all add: sqs_delivery_def RequestContext_new_def)

lemma delivery_dispatch:
  assumes "plain a" "plain n"
  shows "dispatch ext (sqs_delivery r a n p) b w =
    ok (with_store_mut nonexistent_queue (\<lambda>st. handle_send_message ext st
      [(''Action'', ''SendMessage''), (''QueueUrl'', latin1 (delivered_url a n)), (''MessageBody'', latin1 p)])
      (sqs_delivery r a n p) b w)"
  using delivery_params [OF assms, of ext r p] unfolding dispatch_def params_of_def [symmetric]
  by (simp add: dispatch_xml_def Let_def)

lemma delivery_send:
  assumes "plain a" "plain n" and "handle_send_message ext st
      [(''Action'', ''SendMessage''), (''QueueUrl'', latin1 (delivered_url a n)), (''MessageBody'', latin1 p)] w = (r, st', w')"
  shows "map_option (\<lambda>q. map m_body (q_messages q)) (get_queue_by_name st' n') =
    map_option (\<lambda>q. map m_body (q_messages q) @ (if n' = n then [latin1 p] else [])) (get_queue_by_name st n')"
proof (cases "get_queue_by_name st n")
  case None
  with assms show ?thesis by (auto simp: handle_send_message_def delivered_url_name Let_def)
next
  case (Some q)
  obtain res q1 w1 where sm: "send_message ext w q (latin1 p) None (extract_message_attributes
      [(''Action'', ''SendMessage''), (''QueueUrl'', latin1 (delivered_url a n)), (''MessageBody'', latin1 p)]) None None = (res, q1, w1)"
    by (metis prod_cases3)
  have "st' = set_queue st n q1"
    using assms Some sm
    by (auto simp: handle_send_message_def delivered_url_name param_u32_def Let_def reply_with_def split: option.splits prod.splits)
  then show ?thesis using send_message_bodies [OF sm] Some by (auto simp: get_set_queue)
qed

lemma delivery_effect:
  assumes "plain a" "plain n" "CHR 0x00 \<notin> set a'" and "dispatch ext (sqs_delivery r a n p) b w = (res, b', w')"
  shows "queue_bodies b' (a', r', n') =
    map_option (\<lambda>bs. bs @ (if (a', r', n') = (a, r, n) then [latin1 p] else [])) (queue_bodies b (a', r', n'))"
proof -
  have nul: "CHR 0x00 \<notin> set a" using assms(1) unreserved_not_special by (force simp: plain_def list_all_iff)
  show ?thesis
  proof (cases "(a, r) = (a', r')")
    case False
    then have "bundle_get b' a' r' = bundle_get b a' r'"
      using dispatch_scope_local [of "sqs_delivery r a n p" ext] assms(3,4) nul
      unfolding scope_local_def by (metis fst_conv snd_conv sqs_delivery_scope(1,2))
    then show ?thesis using False by (auto simp: queue_bodies_def option.map_comp comp_def split: option.splits bind_splits)
  next
    case True
    show ?thesis
    proof (cases "bundle_get b a r")
      case None
      with assms(4) True show ?thesis
        by (auto simp: delivery_dispatch [OF assms(1,2)] with_store_mut_def bundle_get_mut_eq bundle_get_eq ok_def queue_bodies_def)
    next
      case (Some st)
      let ?ps = "[(''Action'', ''SendMessage''), (''QueueUrl'', latin1 (delivered_url a n)), (''MessageBody'', latin1 p)]"
      obtain r1 st1 w1 where h: "handle_send_message ext st ?ps w = (r1, st1, w1)" by (metis prod_cases3)
      with Some assms(4) have "b' = write_back b a r st1"
        by (auto simp: delivery_dispatch [OF assms(1,2)] with_store_mut_def bundle_get_mut_eq bundle_get_eq ok_def)
      then show ?thesis
        using delivery_send [OF assms(1,2) h] Some True
        by (auto simp: queue_bodies_def option.map_comp comp_def)
    qed
  qed
qed

section \<open>The manager in between\<close>

text \<open>A registered service that is running, or that the next request starts.\<close>

definition serving :: "string \<Rightarrow> 's ServiceProvider \<Rightarrow> 's \<Rightarrow> 's ServicePluginManager \<Rightarrow> bool" where
  "serving k p s m \<longleftrightarrow>
     (\<exists>c. hm_get (containers m) k = Some (c, p, s) \<and> c_init_lock c = None \<and> (needs_start c \<or> ensure_load c = E_Done (Inr ())))"

lemma manager_serves:
  assumes "serving (service_key (ctx_service ctx)) p s m" "sp_start p s = (Inr (), s)" "sp_dispatch p ctx s = Some (r, s')"
  shows "\<exists>m'. manager_dispatch ms ctx m = Some (r, m') \<and> serving (service_key (ctx_service ctx)) p s' m'"
proof -
  let ?k = "service_key (ctx_service ctx)"
  obtain c where c: "hm_get (containers m) ?k = Some (c, p, s)" "c_init_lock c = None"
    "needs_start c \<or> ensure_load c = E_Done (Inr ())"
    using assms(1) by (auto simp: serving_def)
  have "\<exists>c'. ensure_running (Inr (), ms) c = (c', E_Done (Inr ())) \<and> c_init_lock c' = None \<and> ensure_load c' = E_Done (Inr ())"
  proof (cases "needs_start c")
    case True
    then show ?thesis using ensure_running_starts(1) [OF True c(2), of ms] c(2) by (simp add: ensure_load_def)
  next
    case False
    with c have "ensure_load c = E_Done (Inr ())" by simp
    then show ?thesis using c(2) by (simp add: ensure_running_def numeral_eq_Suc)
  qed
  then obtain c' where c': "ensure_running (Inr (), ms) c = (c', E_Done (Inr ()))" "c_init_lock c' = None"
    "ensure_load c' = E_Done (Inr ())" by blast
  show ?thesis
    using assms(2,3) c c' by (auto simp: manager_dispatch_def Let_def serving_def update_conv')
qed

text \<open>What the dispatcher receives: queue account, queue name and payload, for the region of the publisher.\<close>

type_synonym addressed = "string \<times> string \<times> string"

definition calls_of :: "string \<Rightarrow> addressed list \<Rightarrow> RequestContext list" where
  "calls_of reg ds = map (\<lambda>(a, n, p). sqs_delivery reg a n p) ds"

lemma deliveries_arrive:
  assumes "serving ''sqs'' (sqs_provider ext f) (Sqs_State (b, w)) m" "\<forall>(a, n, p) \<in> set ds. plain a \<and> plain n"
  shows "\<exists>m' b' w'. manager_run (map (Pair ms) (calls_of reg ds)) m = Some m' \<and>
    serving ''sqs'' (sqs_provider ext f) (Sqs_State (b', w')) m' \<and>
    (\<forall>a' r' n'. CHR 0x00 \<notin> set a' \<longrightarrow> queue_bodies b' (a', r', n') =
       map_option (\<lambda>bs. bs @ concat (map (\<lambda>(a, n, p). if (a', r', n') = (a, reg, n) then [latin1 p] else []) ds))
         (queue_bodies b (a', r', n')))"
  using assms
proof (induction ds arbitrary: b w m)
  case Nil
  then show ?case by (force simp: calls_of_def option.map_ident)
next
  case (Cons d ds)
  obtain a n p where d: "d = (a, n, p)" by (metis prod_cases3)
  then have pl: "plain a" "plain n" using Cons.prems(2) by auto
  obtain r b1 w1 where x: "dispatch ext (sqs_delivery reg a n p) b w = (r, b1, w1)" by (metis prod_cases3)
  have key: "service_key (ctx_service (sqs_delivery reg a n p)) = ''sqs''" by (simp add: service_key_def is_ascii_uppercase_def)
  have sp: "sp_start (sqs_provider ext f) s = (Inr (), s)"
    "sp_dispatch (sqs_provider ext f) (sqs_delivery reg a n p) (Sqs_State (b, w)) = Some (r, Sqs_State (b1, w1))" for s
    using x by (simp_all add: sqs_provider_def provider_defaults_def)
  obtain m1 where m1: "manager_dispatch ms (sqs_delivery reg a n p) m = Some (r, m1)"
    "serving ''sqs'' (sqs_provider ext f) (Sqs_State (b1, w1)) m1"
    using manager_serves [OF _ sp] Cons.prems(1) key by metis
  obtain m' b' w' where IH: "manager_run (map (Pair ms) (calls_of reg ds)) m1 = Some m'"
    "serving ''sqs'' (sqs_provider ext f) (Sqs_State (b', w')) m'"
    "\<And>a' r' n'. CHR 0x00 \<notin> set a' \<Longrightarrow> queue_bodies b' (a', r', n') =
       map_option (\<lambda>bs. bs @ concat (map (\<lambda>(a, n, p). if (a', r', n') = (a, reg, n) then [latin1 p] else []) ds))
         (queue_bodies b1 (a', r', n'))"
    using Cons.IH [OF m1(2)] Cons.prems(2) by fastforce
  show ?case
    using m1 IH delivery_effect [OF pl _ x] d
    by (intro exI [of _ m'] exI [of _ b'] exI [of _ w']) (simp add: calls_of_def option.map_comp comp_def)
qed

section \<open>The calls of a publication\<close>

definition accepts :: "(string, MessageAttribute) hash_map \<Rightarrow> Subscription \<Rightarrow> bool" where
  "accepts attrs s \<longleftrightarrow>
     sub_protocol s = Sqs \<and> (case sub_filter_policy s of None \<Rightarrow> True | Some fp \<Rightarrow> filter_matches fp attrs)"

definition notification :: "sns_libs \<Rightarrow> PublishPayload \<Rightarrow> int \<Rightarrow> string" where
  "notification libs p now =
     json_to_string (sl_ext libs) (json_object
       [(''Type'', JString ''Notification''), (''MessageId'', JString (pp_message_id p)), (''TopicArn'', JString (pp_topic_arn p)),
        (''Subject'', JString (pp_subject p)), (''Message'', JString (pp_message p)), (''Timestamp'', JString (sl_rfc3339 libs now)),
        (''SignatureVersion'', JString ''1''), (''Signature'', JString ''EXAMPLE''), (''SigningCertURL'', JString []),
        (''UnsubscribeURL'', JString [])])"

definition addressed_to :: "sns_libs \<Rightarrow> PublishPayload \<Rightarrow> Subscription \<times> int \<Rightarrow> addressed" where
  "addressed_to libs p x =
     (case x of (s, now) \<Rightarrow>
        (queue_account (sub_endpoint s) (pp_account_id p), queue_name_of (sub_endpoint s),
         if sub_raw_message_delivery s then pp_message p else notification libs p now))"

lemma format_notification: "fst (format_sns_notification libs (pp_topic_arn p) (pp_message_id p) (pp_message p) (pp_subject p) w)
    = notification libs p (sw_clock w (sw_reads w))"
  by (simp add: format_sns_notification_def notification_def sw_now_def)

lemma format_sent: "sw_sent (snd (format_sns_notification libs t i m s w)) = sw_sent w"
  by (simp add: format_sns_notification_def sw_now_def)

lemma protocol_text [simp]: "protocol_as_str p = ''sqs'' \<longleftrightarrow> p = Sqs"
  by (cases p) simp_all

lemma deliver_one_sent:
  assumes "pp_dispatcher p"
  shows "\<exists>now. sw_sent (deliver_one libs p (task_of s) w) = sw_sent w @
    (if accepts (pp_message_attributes p) s then calls_of (pp_region p) [addressed_to libs p (s, now)] else [])"
proof -
  let ?f = "format_sns_notification libs (pp_topic_arn p) (pp_message_id p) (pp_message p) (pp_subject p) w"
  show ?thesis
    using assms format_notification [of libs p w] format_sent
    by (cases "sub_filter_policy s")
      (auto simp: deliver_one_def task_of_def accepts_def calls_of_def addressed_to_def case_prod_beta Let_def
        intro!: exI [of _ "sw_clock w (sw_reads w)"])
qed

lemma deliveries_sent:
  assumes "pp_dispatcher p"
  shows "\<exists>times. length times = length (filter (accepts (pp_message_attributes p)) subs) \<and>
    sw_sent (fold (deliver_one libs p) (map task_of subs) w) = sw_sent w @
      calls_of (pp_region p) (map (addressed_to libs p) (zip (filter (accepts (pp_message_attributes p)) subs) times))"
proof (induction subs arbitrary: w)
  case Nil
  then show ?case by (simp add: calls_of_def)
next
  case (Cons s subs)
  let ?A = "accepts (pp_message_attributes p)"
  obtain now where now: "sw_sent (deliver_one libs p (task_of s) w) = sw_sent w @
      (if ?A s then calls_of (pp_region p) [addressed_to libs p (s, now)] else [])"
    using deliver_one_sent [OF assms] by blast
  obtain times where t: "length times = length (filter ?A subs)"
    "sw_sent (fold (deliver_one libs p) (map task_of subs) (deliver_one libs p (task_of s) w)) =
      sw_sent (deliver_one libs p (task_of s) w) @
      calls_of (pp_region p) (map (addressed_to libs p) (zip (filter ?A subs) times))"
    using Cons by blast
  show ?case
  proof (cases "?A s")
    case True
    with now t show ?thesis by (intro exI [of _ "now # times"]) (simp add: calls_of_def)
  next
    case False
    with now t show ?thesis by (intro exI [of _ times]) simp
  qed
qed

section \<open>Publishing end to end\<close>

definition publication :: "RequestContext \<Rightarrow> SnsStore \<Rightarrow> string \<Rightarrow> string \<Rightarrow> sns_world \<Rightarrow> PublishPayload" where
  "publication ctx st arn msg w =
     \<lparr>pp_delivery_tasks = map task_of (list_subscriptions_by_topic st arn), pp_message = msg,
      pp_subject = unwrap_str (hm_get (sns_parse_params ctx) ''Subject''), pp_topic_arn = arn,
      pp_message_id = sw_uuid w (sw_drawn w), pp_message_attributes = sns_extract_message_attributes (sns_parse_params ctx),
      pp_dispatcher = True, pp_region = ctx_region ctx, pp_account_id = ctx_account_id ctx\<rparr>"

definition recipients :: "RequestContext \<Rightarrow> SnsStore \<Rightarrow> string \<Rightarrow> Subscription list" where
  "recipients ctx st arn =
     filter (accepts (sns_extract_message_attributes (sns_parse_params ctx))) (list_subscriptions_by_topic st arn)"

lemma publish_dispatch:
  assumes "hm_get (sns_parse_params ctx) ''Action'' = Some ''Publish''" "hm_get (sns_parse_params ctx) ''TopicArn'' = Some arn"
    and "hm_get (sns_parse_params ctx) ''Message'' = Some msg"
    and "bundle_get b (ctx_account_id ctx) (ctx_region ctx) = Some st" "hm_get (sns_topics st) arn \<noteq> None" "sw_sent w = []"
  shows "\<exists>times resp b' w'. sns_dispatch libs True ctx b w = Some (Inr resp, b', w') \<and> status_code resp = 200 \<and>
    length times = length (recipients ctx st arn) \<and>
    sw_sent w' = calls_of (ctx_region ctx) (map (addressed_to libs (publication ctx st arn msg w)) (zip (recipients ctx st arn) times))"
proof -
  let ?p = "publication ctx st arn msg w"
  have sel: "pp_dispatcher ?p" "pp_region ?p = ctx_region ctx"
    "pp_message_attributes ?p = sns_extract_message_attributes (sns_parse_params ctx)"
    "pp_delivery_tasks ?p = map task_of (list_subscriptions_by_topic st arn)"
    by (simp_all add: publication_def)
  obtain resp w1 where ok: "sns_publish_ok (sw_uuid w (sw_drawn w)) (snd (new_uuid w)) = (resp, w1)" by fastforce
  have w1: "sw_sent w1 = []" "status_code resp = 200"
    using ok assms(6) by (auto simp: sns_publish_ok_def sns_reply_def new_uuid_def sns_xml_wrap_def sns_xml_def)
  have h: "handle_publish libs True st ctx (sns_parse_params ctx) w = (resp, st, dispatch_publish_deliveries libs ?p w1)"
    using assms(2,3,5) ok by (auto simp: handle_publish_def sns_need_def contains_key_def new_uuid_def Let_def publication_def)
  have gc: "get_or_create SnsStore_new b (ctx_account_id ctx) (ctx_region ctx) = (st, b)"
    using assms(4) by (simp add: get_or_create_def bundle_get_eq)
  obtain times where t: "length times = length (recipients ctx st arn)"
    "sw_sent (dispatch_publish_deliveries libs ?p w1) = calls_of (ctx_region ctx) (map (addressed_to libs ?p) (zip (recipients ctx st arn) times))"
    using deliveries_sent [OF sel(1), of "list_subscriptions_by_topic st arn" libs w1]
    unfolding dispatch_publish_deliveries_def recipients_def sel w1 by auto
  show ?thesis
    using assms(1) h gc t w1(2)
    by (intro exI [of _ times]) (simp add: sns_dispatch_def sns_read_action_def sns_write_action_def on_created_def Let_def)
qed

text \<open>C9: A publication on an existing topic is answered with success, and once the manager has served the calls
  it made, every SQS queue holds exactly the messages it held before, followed by one message per
  subscription of the topic that names the queue and whose filter policy accepts the attributes, in the
  order of the subscriptions: the message itself for raw delivery, the JSON envelope otherwise. The queue is looked up in the
  region of the publisher, whatever region the subscribed ARN names.\<close>

theorem publish_reaches_queues:
  assumes "serving ''sqs'' (sqs_provider ext f) (Sqs_State (qb, qw)) m"
    and "hm_get (sns_parse_params ctx) ''Action'' = Some ''Publish''" "hm_get (sns_parse_params ctx) ''TopicArn'' = Some arn"
    and "hm_get (sns_parse_params ctx) ''Message'' = Some msg"
    and "bundle_get b (ctx_account_id ctx) (ctx_region ctx) = Some st" "hm_get (sns_topics st) arn \<noteq> None" "sw_sent w = []"
    and "\<forall>s \<in> set (recipients ctx st arn).
      plain (queue_account (sub_endpoint s) (ctx_account_id ctx)) \<and> plain (queue_name_of (sub_endpoint s))"
  shows "\<exists>resp b' w' times m' qb' qw'.
    sns_dispatch libs True ctx b w = Some (Inr resp, b', w') \<and> status_code resp = 200 \<and>
    manager_run (map (Pair ms) (sw_sent w')) m = Some m' \<and>
    serving ''sqs'' (sqs_provider ext f) (Sqs_State (qb', qw')) m' \<and>
    length times = length (recipients ctx st arn) \<and>
    (\<forall>a' r' n'. CHR 0x00 \<notin> set a' \<longrightarrow> queue_bodies qb' (a', r', n') =
       map_option (\<lambda>bs. bs @ concat (map (\<lambda>x.
           let (a, n, p) = addressed_to libs (publication ctx st arn msg w) x
           in if (a', r', n') = (a, ctx_region ctx, n) then [latin1 p] else []) (zip (recipients ctx st arn) times)))
         (queue_bodies qb (a', r', n')))"
proof -
  let ?p = "publication ctx st arn msg w"
  obtain times resp b' w' where d: "sns_dispatch libs True ctx b w = Some (Inr resp, b', w')" "status_code resp = 200"
    "length times = length (recipients ctx st arn)"
    "sw_sent w' = calls_of (ctx_region ctx) (map (addressed_to libs ?p) (zip (recipients ctx st arn) times))"
    using publish_dispatch [OF assms(2-7)] by blast
  have "\<forall>(a, n, q) \<in> set (map (addressed_to libs ?p) (zip (recipients ctx st arn) times)). plain a \<and> plain n"
    using assms(8) by (auto simp: addressed_to_def publication_def dest!: set_zip_leftD)
  from deliveries_arrive [OF assms(1) this, of ms "ctx_region ctx"] d show ?thesis
    by (simp add: comp_def Let_def case_prod_beta) blast
qed

definition demo_topic_arn :: string where
  "demo_topic_arn = ''arn:aws:sns:us-east-1:000000000000:news''"

definition sns_demo_libs :: sns_libs where
  "sns_demo_libs = \<lparr>sl_ext = demo_externs, sl_rfc3339 = (\<lambda>_. [])\<rparr>"

definition demo_sns_world :: sns_world where
  "demo_sns_world = \<lparr>sw_clock = (\<lambda>n. int n), sw_reads = 0, sw_uuid = (\<lambda>n. ''u'' @ nat_to_string n), sw_drawn = 0, sw_sent = []\<rparr>"

definition demo_subscription :: Subscription where
  "demo_subscription = (fst (Subscription_new demo_topic_arn Sqs ''arn:aws:sqs:us-east-1:000000000000:jobs'' ''000000000000'' demo_sns_world))
     \<lparr>sub_raw_message_delivery := True\<rparr>"

definition demo_sns_store :: SnsStore where
  "demo_sns_store = \<lparr>sns_topics = [(demo_topic_arn, fst (Topic_new ''news'' ''000000000000'' ''us-east-1'' demo_sns_world))],
     sns_subscriptions = [(sub_arn demo_subscription, demo_subscription)]\<rparr>"

definition demo_publish :: RequestContext where
  "demo_publish = demo_ctx ''Publish'' [(''TopicArn'', demo_topic_arn), (''Message'', ''hi'')]"

lemma demo_publish_params: "sns_parse_params demo_publish = [(''Action'', ''Publish''), (''TopicArn'', demo_topic_arn), (''Message'', ''hi'')]"
  by (simp add: sns_parse_params_def demo_publish_def from_utf8_def sns_form_pair_def split_once_def numeral_2_eq_2
      map_filter_simps contains_key_def Let_def)

theorem publish_reaches_queues_witness:
  "\<exists>resp b' w' m' qb' qw'.
    sns_dispatch sns_demo_libs True demo_publish (write_back bundle_new ''000000000000'' ''us-east-1'' demo_sns_store) demo_sns_world =
      Some (Inr resp, b', w') \<and>
    manager_run (map (Pair 0) (sw_sent w')) (register ''sqs'' (sqs_provider demo_externs (\<lambda>_. [])) (Sqs_State (demo_bundle, demo_world)) manager_new) = Some m' \<and>
    service_state_of ''sqs'' m' = Some (Sqs_State (qb', qw')) \<and>
    queue_bodies qb' (''000000000000'', ''us-east-1'', ''jobs'') =
      map_option (\<lambda>bs. bs @ [''hi'']) (queue_bodies demo_bundle (''000000000000'', ''us-east-1'', ''jobs''))"
proof -
  let ?m = "register ''sqs'' (sqs_provider demo_externs (\<lambda>_. [])) (Sqs_State (demo_bundle, demo_world)) manager_new"
  let ?b = "write_back bundle_new ''000000000000'' ''us-east-1'' demo_sns_store"
  have sv: "serving ''sqs'' (sqs_provider demo_externs (\<lambda>_. [])) (Sqs_State (demo_bundle, demo_world)) ?m"
    by (simp add: serving_def register_def manager_new_def ServiceContainer_new_def to_ascii_lowercase_def is_ascii_uppercase_def
        needs_start_def ensure_load_def ensure_check_def ATOMIC_AVAILABLE_def ATOMIC_STOPPED_def)
  have ps: "hm_get (sns_parse_params demo_publish) ''Action'' = Some ''Publish''"
    "hm_get (sns_parse_params demo_publish) ''TopicArn'' = Some demo_topic_arn"
    "hm_get (sns_parse_params demo_publish) ''Message'' = Some ''hi''" by (simp_all add: demo_publish_params)
  have st: "bundle_get ?b (ctx_account_id demo_publish) (ctx_region demo_publish) = Some demo_sns_store"
    "hm_get (sns_topics demo_sns_store) demo_topic_arn \<noteq> None" "sw_sent demo_sns_world = []"
    by (simp_all add: demo_publish_def demo_sns_store_def demo_sns_world_def)
  have rec: "recipients demo_publish demo_sns_store demo_topic_arn = [demo_subscription]"
    by (simp add: recipients_def list_subscriptions_by_topic_def hm_values_def demo_sns_store_def demo_subscription_def
        Subscription_new_def accepts_def svc_world_defs)
  have ep: "queue_account (sub_endpoint demo_subscription) x = ''000000000000''" "queue_name_of (sub_endpoint demo_subscription) = ''jobs''" for x
    by (simp_all add: demo_subscription_def Subscription_new_def svc_world_defs queue_account_def queue_name_of_def)
  have pl: "\<forall>s \<in> set (recipients demo_publish demo_sns_store demo_topic_arn).
      plain (queue_account (sub_endpoint s) (ctx_account_id demo_publish)) \<and> plain (queue_name_of (sub_endpoint s))"
    unfolding rec by (simp add: ep plain_def is_unreserved_def)
  have raw: "sub_raw_message_delivery demo_subscription" by (simp add: demo_subscription_def)
  have reg: "ctx_region demo_publish = ''us-east-1''" by (simp add: demo_publish_def)
  have lat: "latin1 ''hi'' = ''hi''" by (simp add: latin1_def push_byte_as_char_def)
  have nul: "CHR 0x00 \<notin> set ''000000000000''" by simp
  from publish_reaches_queues [OF sv ps st pl, of sns_demo_libs 0] obtain resp b' w' times m' qb' qw' where
    d: "sns_dispatch sns_demo_libs True demo_publish ?b demo_sns_world = Some (Inr resp, b', w')"
    "manager_run (map (Pair 0) (sw_sent w')) ?m = Some m'"
    "serving ''sqs'' (sqs_provider demo_externs (\<lambda>_. [])) (Sqs_State (qb', qw')) m'" "length times = 1"
    "queue_bodies qb' (''000000000000'', ''us-east-1'', ''jobs'') = map_option (\<lambda>bs. bs @ concat (map (\<lambda>x.
         let (a, n, p) = addressed_to sns_demo_libs (publication demo_publish demo_sns_store demo_topic_arn ''hi'' demo_sns_world) x
         in if (''000000000000'', ''us-east-1'', ''jobs'') = (a, ctx_region demo_publish, n) then [latin1 p] else []) (zip [demo_subscription] times)))
       (queue_bodies demo_bundle (''000000000000'', ''us-east-1'', ''jobs''))"
    unfolding rec using nul by (metis length_Cons list.size(3) One_nat_def)
  obtain now where "times = [now]" using d(4) by (cases times) auto
  then have q: "queue_bodies qb' (''000000000000'', ''us-east-1'', ''jobs'') =
      map_option (\<lambda>bs. bs @ [''hi'']) (queue_bodies demo_bundle (''000000000000'', ''us-east-1'', ''jobs''))"
    using d(5) by (simp add: addressed_to_def ep raw reg lat publication_def)
  have "service_state_of ''sqs'' m' = Some (Sqs_State (qb', qw'))" using d(3) by (auto simp: serving_def service_state_of_def)
  with d(1,2) q show ?thesis by blast
qed

theorem sns_references_witness:
  "\<exists>st t. bundle_get (fst (the (sns_run sns_demo_libs True [demo_ctx ''CreateTopic'' [(''Name'', ''news'')]] bundle_new demo_sns_world)))
      ''000000000000'' ''us-east-1'' = Some st \<and>
     hm_get (sns_topics st) demo_topic_arn = Some t \<and> tp_arn t = demo_topic_arn \<and>
     demo_topic_arn = topic_arn_of (tp_name t) (tp_owner t) (tp_region t)"
proof -
  let ?c = "demo_ctx ''CreateTopic'' [(''Name'', ''news'')]"
  obtain b w where r: "sns_run sns_demo_libs True [?c] bundle_new demo_sns_world = Some (b, w)"
    and t: "\<And>acc reg st k t. bundle_get b acc reg = Some st \<Longrightarrow> hm_get (sns_topics st) k = Some t \<Longrightarrow>
      tp_arn t = k \<and> k = topic_arn_of (tp_name t) (tp_owner t) (tp_region t)"
    using sns_references [of sns_demo_libs True "[?c]" demo_sns_world] by blast
  have ps: "sns_parse_params ?c = [(''Action'', ''CreateTopic''), (''Name'', ''news'')]"
    by (simp add: sns_parse_params_def from_utf8_def sns_form_pair_def split_once_def numeral_2_eq_2
        map_filter_simps contains_key_def Let_def)
  have "\<exists>st t. bundle_get b ''000000000000'' ''us-east-1'' = Some st \<and> hm_get (sns_topics st) demo_topic_arn = Some t"
    using r
    by (auto simp: sns_dispatch_def ps sns_read_action_def sns_write_action_def on_created_def handle_create_topic_def sns_need_def
        create_topic_def get_or_create_def bundle_new_def SnsStore_new_def Topic_new_def sw_now_def topic_arn_of_def demo_topic_arn_def
        sns_reply_with_def sns_reply_def new_uuid_def Let_def)
  then show ?thesis using r t by fastforce
qed

end
