(* ===== verification/S3_Store.thy ===== *)
theory S3_Store
  imports Service_World
begin

text \<open>
  The S3 store, \<^verbatim>\<open>services/s3/src/store.rs\<close>: buckets, versioned objects and multipart uploads of one
  account and region. Object bytes are held in memory or named by a path; sizes are lengths of such data.
\<close>

section \<open>Data\<close>

datatype ObjectDataRef = Inline string | FileRef string

fun as_inline :: "ObjectDataRef \<Rightarrow> string option" where
  "as_inline (Inline v) = Some v"
| "as_inline (FileRef _) = None"

fun as_file_ref :: "ObjectDataRef \<Rightarrow> string option" where
  "as_file_ref (Inline _) = None"
| "as_file_ref (FileRef p) = Some p"

definition is_file_ref :: "ObjectDataRef \<Rightarrow> bool" where
  "is_file_ref d = (as_file_ref d \<noteq> None)"

definition data_ref_to_json :: "base64_lib \<Rightarrow> ObjectDataRef \<Rightarrow> Value" where
  "data_ref_to_json b64 d =
     (case d of Inline bytes \<Rightarrow> JString (b64_encode b64 bytes) | FileRef path \<Rightarrow> json_object [(''file_ref'', JString path)])"

fun data_ref_of_json :: "base64_lib \<Rightarrow> Value \<Rightarrow> ObjectDataRef option" where
  "data_ref_of_json b64 (JString s) = map_option Inline (b64_decode b64 s)"
| "data_ref_of_json b64 (JObject m) = (case map_of m ''file_ref'' of Some (JString path) \<Rightarrow> Some (FileRef path) | _ \<Rightarrow> None)"
| "data_ref_of_json b64 _ = None"

record NotificationConfig =
  nc_id :: string
  nc_destination_arn :: string
  nc_destination_type :: string
  nc_events :: "string list"
  nc_prefix_filter :: "string option"
  nc_suffix_filter :: "string option"

record Bucket =
  bk_name :: string
  bk_creation_date :: int
  bk_region :: string
  bk_versioning :: string
  bk_policy :: "string option"
  bk_acl :: string
  bk_notifications :: "NotificationConfig list"

definition Bucket_new :: "int \<Rightarrow> string \<Rightarrow> string \<Rightarrow> Bucket" where
  "Bucket_new now name region =
     \<lparr>bk_name = name, bk_creation_date = now, bk_region = region, bk_versioning = [], bk_policy = None,
      bk_acl = ''private'', bk_notifications = []\<rparr>"

record ObjectVersion =
  ov_version_id :: string
  ov_last_modified :: int
  ov_etag :: string
  ov_content_type :: string
  ov_content_encoding :: "string option"
  ov_content_disposition :: "string option"
  ov_cache_control :: "string option"
  ov_size :: nat
  ov_metadata :: "(string, string) hash_map"
  ov_acl :: string
  ov_data :: ObjectDataRef
  ov_delete_marker :: bool

definition plain_version ::
  "string \<Rightarrow> int \<Rightarrow> string \<Rightarrow> string \<Rightarrow> nat \<Rightarrow> (string, string) hash_map \<Rightarrow> ObjectDataRef \<Rightarrow> ObjectVersion" where
  "plain_version version_id now etag ctype sz metadata data =
     \<lparr>ov_version_id = version_id, ov_last_modified = now, ov_etag = etag, ov_content_type = ctype,
      ov_content_encoding = None, ov_content_disposition = None, ov_cache_control = None, ov_size = sz,
      ov_metadata = metadata, ov_acl = ''private'', ov_data = data, ov_delete_marker = False\<rparr>"

definition new_version_id :: "bool \<Rightarrow> 'x svc_world_scheme \<Rightarrow> string \<times> 'x svc_world_scheme" where
  "new_version_id versioning_enabled w = (if versioning_enabled then new_uuid w else (''null'', w))"

definition md5_etag :: "externs \<Rightarrow> string \<Rightarrow> string" where
  "md5_etag ext data = CHR 0x22 # hex_encode ext (md5_digest ext data) @ [CHR 0x22]"

definition ObjectVersion_new ::
  "externs \<Rightarrow> string \<Rightarrow> string \<Rightarrow> (string, string) hash_map \<Rightarrow> bool \<Rightarrow> 'x svc_world_scheme \<Rightarrow> ObjectVersion \<times> 'x svc_world_scheme" where
  "ObjectVersion_new ext data ctype metadata versioning_enabled w =
     (let (version_id, w) = new_version_id versioning_enabled w; (now, w) = sw_now w
      in (plain_version version_id now (md5_etag ext data) ctype (length data) metadata (Inline data), w))"

definition new_with_file_ref ::
  "string \<Rightarrow> nat \<Rightarrow> string \<Rightarrow> string \<Rightarrow> (string, string) hash_map \<Rightarrow> bool \<Rightarrow> 'x svc_world_scheme \<Rightarrow> ObjectVersion \<times> 'x svc_world_scheme" where
  "new_with_file_ref file_path sz etag ctype metadata versioning_enabled w =
     (let (version_id, w) = new_version_id versioning_enabled w; (now, w) = sw_now w
      in (plain_version version_id now etag ctype sz metadata (FileRef file_path), w))"

text \<open>The versions of an object, the newest first.\<close>

record S3Object =
  so_key :: string
  so_versions :: "ObjectVersion list"

definition S3Object_new :: "string \<Rightarrow> ObjectVersion \<Rightarrow> S3Object" where
  "S3Object_new key v = \<lparr>so_key = key, so_versions = [v]\<rparr>"

definition latest :: "S3Object \<Rightarrow> ObjectVersion option" where
  "latest obj = (case so_versions obj of [] \<Rightarrow> None | v # _ \<Rightarrow> Some v)"

definition current :: "S3Object \<Rightarrow> ObjectVersion option" where
  "current obj = (case so_versions obj of [] \<Rightarrow> None | v # _ \<Rightarrow> if \<not> ov_delete_marker v then Some v else None)"

record UploadPart =
  pt_part_number :: u32
  pt_etag :: string
  pt_size :: nat
  pt_data :: ObjectDataRef
  pt_last_modified :: int

record MultipartUpload =
  mu_upload_id :: string
  mu_bucket :: string
  mu_key :: string
  mu_initiated :: int
  mu_content_type :: string
  mu_metadata :: "(string, string) hash_map"
  mu_parts :: "(u32, UploadPart) hash_map"

type_synonym object_map = "(string, S3Object) btree_map"

record S3Store =
  s3_buckets :: "(string, Bucket) hash_map"
  s3_objects :: "(string, object_map) hash_map"
  s3_uploads :: "(string, MultipartUpload) hash_map"

definition S3Store_new :: S3Store where
  "S3Store_new = \<lparr>s3_buckets = [], s3_objects = [], s3_uploads = []\<rparr>"

section \<open>Buckets\<close>

definition bucket_exists :: "S3Store \<Rightarrow> string \<Rightarrow> bool" where
  "bucket_exists st name = contains_key (s3_buckets st) name"

definition entry_or_default :: "S3Store \<Rightarrow> string \<Rightarrow> object_map" where
  "entry_or_default st bucket = (case hm_get (s3_objects st) bucket of Some m \<Rightarrow> m | None \<Rightarrow> [])"

definition set_objects :: "S3Store \<Rightarrow> string \<Rightarrow> object_map \<Rightarrow> S3Store" where
  "set_objects st bucket m = st\<lparr>s3_objects := hm_insert bucket m (s3_objects st)\<rparr>"

definition create_bucket :: "S3Store \<Rightarrow> string \<Rightarrow> string \<Rightarrow> 'x svc_world_scheme \<Rightarrow> S3Store \<times> 'x svc_world_scheme" where
  "create_bucket st name region w =
     (let (now, w) = sw_now w;
          st = st\<lparr>s3_buckets := hm_insert name (Bucket_new now name region) (s3_buckets st)\<rparr>
      in (set_objects st name (entry_or_default st name), w))"

definition delete_bucket :: "S3Store \<Rightarrow> string \<Rightarrow> bool \<times> S3Store" where
  "delete_bucket st name =
     (if contains_key (s3_buckets st) name
      then (True, st\<lparr>s3_buckets := hm_remove name (s3_buckets st), s3_objects := hm_remove name (s3_objects st)\<rparr>)
      else (False, st))"

definition is_bucket_empty :: "S3Store \<Rightarrow> string \<Rightarrow> bool" where
  "is_bucket_empty st name = (case hm_get (s3_objects st) name of Some m \<Rightarrow> m = [] | None \<Rightarrow> True)"

definition has_incomplete_multipart_uploads :: "S3Store \<Rightarrow> string \<Rightarrow> bool" where
  "has_incomplete_multipart_uploads st bucket = list_ex (\<lambda>u. mu_bucket u = bucket) (hm_values (s3_uploads st))"

definition versioning_of :: "S3Store \<Rightarrow> string \<Rightarrow> bool" where
  "versioning_of st bucket = (case hm_get (s3_buckets st) bucket of Some b \<Rightarrow> bk_versioning b = ''Enabled'' | None \<Rightarrow> False)"

section \<open>Objects\<close>

text \<open>A version with the identifier \<^verbatim>\<open>null\<close> replaces all others; any other one becomes the newest.\<close>

definition push_version :: "ObjectVersion \<Rightarrow> S3Object \<Rightarrow> S3Object" where
  "push_version v obj = obj\<lparr>so_versions := (if ov_version_id v = ''null'' then [v] else v # so_versions obj)\<rparr>"

definition insert_version :: "object_map \<Rightarrow> string \<Rightarrow> ObjectVersion \<Rightarrow> ObjectDataRef option \<times> object_map" where
  "insert_version m key v =
     (case bt_get m key of
        Some obj \<Rightarrow> (map_option ov_data (latest obj), bt_insert key (push_version v obj) m)
      | None \<Rightarrow> (None, bt_insert key (S3Object_new key v) m))"

definition put_object ::
  "externs \<Rightarrow> S3Store \<Rightarrow> string \<Rightarrow> string \<Rightarrow> ObjectDataRef \<Rightarrow> string \<Rightarrow> (string, string) hash_map \<Rightarrow> 'x svc_world_scheme \<Rightarrow>
   ObjectDataRef option \<times> S3Store \<times> 'x svc_world_scheme" where
  "put_object ext st bucket key data ctype metadata w =
     (let versioning = versioning_of st bucket;
          (version, w) =
            (case data of
               Inline bytes \<Rightarrow> ObjectVersion_new ext bytes ctype metadata versioning w
             | FileRef path \<Rightarrow> new_with_file_ref path 0 [] ctype metadata versioning w);
          (prev, m) = insert_version (entry_or_default st bucket) key version
      in (prev, set_objects st bucket m, w))"

definition put_object_version :: "S3Store \<Rightarrow> string \<Rightarrow> string \<Rightarrow> ObjectVersion \<Rightarrow> ObjectDataRef option \<times> S3Store" where
  "put_object_version st bucket key version =
     (case hm_get (s3_objects st) bucket of
        Some m \<Rightarrow> (let (prev, m) = insert_version m key version in (prev, set_objects st bucket m))
      | None \<Rightarrow> (None, set_objects st bucket (bt_insert key (S3Object_new key version) [])))"

definition get_object :: "S3Store \<Rightarrow> string \<Rightarrow> string \<Rightarrow> ObjectVersion option" where
  "get_object st bucket key = Option.bind (hm_get (s3_objects st) bucket) (\<lambda>m. Option.bind (bt_get m key) current)"

definition get_object_version :: "S3Store \<Rightarrow> string \<Rightarrow> string \<Rightarrow> string \<Rightarrow> ObjectVersion option" where
  "get_object_version st bucket key version_id =
     Option.bind (hm_get (s3_objects st) bucket) (\<lambda>m. Option.bind (bt_get m key)
       (\<lambda>obj. find (\<lambda>v. ov_version_id v = version_id) (so_versions obj)))"

definition delete_marker :: "string \<Rightarrow> int \<Rightarrow> ObjectVersion" where
  "delete_marker version_id now =
     \<lparr>ov_version_id = version_id, ov_last_modified = now, ov_etag = [], ov_content_type = [],
      ov_content_encoding = None, ov_content_disposition = None, ov_cache_control = None, ov_size = 0,
      ov_metadata = [], ov_acl = [], ov_data = Inline [], ov_delete_marker = True\<rparr>"

definition delete_object ::
  "S3Store \<Rightarrow> string \<Rightarrow> string \<Rightarrow> 'x svc_world_scheme \<Rightarrow> ObjectVersion option \<times> S3Store \<times> 'x svc_world_scheme" where
  "delete_object st bucket key w =
     (case hm_get (s3_objects st) bucket of
        None \<Rightarrow> (None, st, w)
      | Some m \<Rightarrow>
          (if versioning_of st bucket then
             (let (vid, w) = new_uuid w; (now, w) = sw_now w; marker = delete_marker vid now;
                  obj = (case bt_get m key of Some obj \<Rightarrow> obj | None \<Rightarrow> \<lparr>so_key = key, so_versions = []\<rparr>);
                  obj = obj\<lparr>so_versions := marker # so_versions obj\<rparr>
              in (Some marker, set_objects st bucket (bt_insert key obj m), w))
           else (Option.bind (bt_get m key) latest, set_objects st bucket (bt_remove key m), w)))"

text \<open>\<^verbatim>\<open>position\<close> and \<^verbatim>\<open>Vec::remove\<close>: the first version with the identifier leaves the list.\<close>

fun remove_version :: "string \<Rightarrow> ObjectVersion list \<Rightarrow> (ObjectVersion \<times> ObjectVersion list) option" where
  "remove_version version_id [] = None"
| "remove_version version_id (v # vs) =
     (if ov_version_id v = version_id then Some (v, vs)
      else map_option (\<lambda>(r, vs). (r, v # vs)) (remove_version version_id vs))"

definition delete_object_version :: "S3Store \<Rightarrow> string \<Rightarrow> string \<Rightarrow> string \<Rightarrow> ObjectVersion option \<times> S3Store" where
  "delete_object_version st bucket key version_id =
     (case hm_get (s3_objects st) bucket of
        None \<Rightarrow> (None, st)
      | Some m \<Rightarrow>
     (case bt_get m key of
        None \<Rightarrow> (None, st)
      | Some obj \<Rightarrow>
     (case remove_version version_id (so_versions obj) of
        None \<Rightarrow> (None, st)
      | Some (removed, vs) \<Rightarrow>
          (Some removed, set_objects st bucket
             (if vs = [] then bt_remove key m else bt_insert key (obj\<lparr>so_versions := vs\<rparr>) m)))))"

definition list_objects :: "S3Store \<Rightarrow> string \<Rightarrow> S3Object list" where
  "list_objects st bucket = (case hm_get (s3_objects st) bucket of Some m \<Rightarrow> map snd m | None \<Rightarrow> [])"

section \<open>Listing\<close>

type_synonym content_item = "string \<times> int \<times> string \<times> nat"

record ListPagedResult =
  lp_contents :: "content_item list"
  lp_common_prefixes :: "(string, string) btree_map"

datatype bound = Included string | Excluded string | Unbounded

fun above :: "bound \<Rightarrow> string \<Rightarrow> bool" where
  "above (Included b) k = (b \<le> k)"
| "above (Excluded b) k = (b < k)"
| "above Unbounded k = True"

definition lower_bound :: "string \<Rightarrow> string option \<Rightarrow> bound" where
  "lower_bound prefix start_after_exclusive =
     (case start_after_exclusive of
        Some s \<Rightarrow> (if s \<noteq> [] \<and> prefix \<le> s then Excluded s else if prefix \<noteq> [] then Included prefix else Unbounded)
      | None \<Rightarrow> (if prefix \<noteq> [] then Included prefix else Unbounded))"

text \<open>
  The loop of \<^verbatim>\<open>list_objects_paged\<close>. Its state: the results so far, their number, the common prefix whose
  last key is sought once the number is reached, and the last key found below it.
\<close>

record paging =
  pg_result :: ListPagedResult
  pg_count :: nat
  pg_last_new_cp :: "string option"
  pg_cursor_update :: "string option"

definition grouped :: "string \<Rightarrow> string \<Rightarrow> string \<Rightarrow> string option" where
  "grouped prefix delimiter key =
     (if delimiter \<noteq> [] then
        (let suffix = drop (length prefix) key
         in map_option (\<lambda>pos. prefix @ take pos suffix @ delimiter) (str_find suffix delimiter))
      else None)"

fun paging_loop :: "string \<Rightarrow> nat \<Rightarrow> string \<Rightarrow> (string \<times> S3Object) list \<Rightarrow> paging \<Rightarrow> paging" where
  "paging_loop prefix max_results delimiter [] p = p"
| "paging_loop prefix max_results delimiter ((key, obj) # rest) p =
     (case pg_last_new_cp p of
        Some lcp \<Rightarrow>
          (if \<not> starts_with key lcp then p
           else paging_loop prefix max_results delimiter rest (p\<lparr>pg_cursor_update := Some key\<rparr>))
      | None \<Rightarrow>
     (case current obj of
        None \<Rightarrow> paging_loop prefix max_results delimiter rest p
      | Some v \<Rightarrow>
     (case grouped prefix delimiter key of
        Some cp \<Rightarrow>
          (let r = pg_result p;
               is_new = (\<not> contains_key (lp_common_prefixes r) cp);
               r = r\<lparr>lp_common_prefixes := bt_insert cp key (lp_common_prefixes r)\<rparr>;
               count = (if is_new then pg_count p + 1 else pg_count p);
               lcp = (if is_new \<and> max_results \<le> count then Some cp else None)
           in paging_loop prefix max_results delimiter rest (p\<lparr>pg_result := r, pg_count := count, pg_last_new_cp := lcp\<rparr>))
      | None \<Rightarrow>
          (let r = pg_result p;
               r = r\<lparr>lp_contents := lp_contents r @ [(key, ov_last_modified v, ov_etag v, ov_size v)]\<rparr>;
               count = pg_count p + 1;
               p = p\<lparr>pg_result := r, pg_count := count\<rparr>
           in if max_results \<le> count then p else paging_loop prefix max_results delimiter rest p))))"

definition ListPagedResult_default :: ListPagedResult where
  "ListPagedResult_default = \<lparr>lp_contents = [], lp_common_prefixes = []\<rparr>"

definition list_objects_paged :: "S3Store \<Rightarrow> string \<Rightarrow> string \<Rightarrow> string option \<Rightarrow> nat \<Rightarrow> string \<Rightarrow> ListPagedResult" where
  "list_objects_paged st bucket prefix start_after_exclusive max_results delimiter =
     (case hm_get (s3_objects st) bucket of
        None \<Rightarrow> ListPagedResult_default
      | Some m \<Rightarrow>
          (let range = filter (\<lambda>(k, _). above (lower_bound prefix start_after_exclusive) k) m;
               range = takeWhile (\<lambda>(k, _). prefix = [] \<or> starts_with k prefix) range;
               p = paging_loop prefix max_results delimiter range
                     \<lparr>pg_result = ListPagedResult_default, pg_count = 0, pg_last_new_cp = None, pg_cursor_update = None\<rparr>;
               result = pg_result p
           in case (pg_last_new_cp p, pg_cursor_update p) of
                (Some lcp, Some last_key) \<Rightarrow>
                  result\<lparr>lp_common_prefixes := bt_insert lcp last_key (lp_common_prefixes result)\<rparr>
              | _ \<Rightarrow> result))"

section \<open>Multipart uploads\<close>

definition create_multipart_upload ::
  "S3Store \<Rightarrow> string \<Rightarrow> string \<Rightarrow> string \<Rightarrow> (string, string) hash_map \<Rightarrow> 'x svc_world_scheme \<Rightarrow> string \<times> S3Store \<times> 'x svc_world_scheme" where
  "create_multipart_upload st bucket key ctype metadata w =
     (let (upload_id, w) = new_uuid w; (now, w) = sw_now w;
          upload = \<lparr>mu_upload_id = upload_id, mu_bucket = bucket, mu_key = key, mu_initiated = now, mu_content_type = ctype,
            mu_metadata = metadata, mu_parts = []\<rparr>
      in (upload_id, st\<lparr>s3_uploads := hm_insert upload_id upload (s3_uploads st)\<rparr>, w))"

definition upload_part_with_etag ::
  "S3Store \<Rightarrow> string \<Rightarrow> u32 \<Rightarrow> ObjectDataRef \<Rightarrow> string \<Rightarrow> nat \<Rightarrow> 'x svc_world_scheme \<Rightarrow>
   string option \<times> S3Store \<times> 'x svc_world_scheme" where
  "upload_part_with_etag st upload_id part_number data etag sz w =
     (case hm_get (s3_uploads st) upload_id of
        None \<Rightarrow> (None, st, w)
      | Some upload \<Rightarrow>
          (let (now, w) = sw_now w;
               part = \<lparr>pt_part_number = part_number, pt_etag = etag, pt_size = sz, pt_data = data, pt_last_modified = now\<rparr>;
               upload = upload\<lparr>mu_parts := hm_insert part_number part (mu_parts upload)\<rparr>
           in (Some etag, st\<lparr>s3_uploads := hm_insert upload_id upload (s3_uploads st)\<rparr>, w)))"

definition upload_part ::
  "externs \<Rightarrow> S3Store \<Rightarrow> string \<Rightarrow> u32 \<Rightarrow> ObjectDataRef \<Rightarrow> 'x svc_world_scheme \<Rightarrow> string option \<times> S3Store \<times> 'x svc_world_scheme" where
  "upload_part ext st upload_id part_number data w =
     (let (etag, sz) = (case data of Inline bytes \<Rightarrow> (md5_etag ext bytes, length bytes) | FileRef _ \<Rightarrow> ([], 0))
      in upload_part_with_etag st upload_id part_number data etag sz w)"

text \<open>The decoder of the package \<^verbatim>\<open>hex\<close> is an argument. An entity tag counts when it decodes to sixteen bytes.\<close>

definition etag_digest :: "(string \<Rightarrow> string option) \<Rightarrow> string \<Rightarrow> string option" where
  "etag_digest hex_decode etag =
     (case hex_decode (trim_end_matches (CHR 0x22) (trim_start_matches (CHR 0x22) etag)) of
        Some bytes \<Rightarrow> (if length bytes = 16 then Some bytes else None)
      | None \<Rightarrow> None)"

definition multipart_tag :: "externs \<Rightarrow> string \<Rightarrow> nat \<Rightarrow> string" where
  "multipart_tag ext digests n = CHR 0x22 # hex_encode ext (md5_digest ext digests) @ ''-'' @ nat_to_string n @ [CHR 0x22]"

definition complete_multipart_upload ::
  "externs \<Rightarrow> (string \<Rightarrow> string option) \<Rightarrow> S3Store \<Rightarrow> string \<Rightarrow> (u32 \<times> string) list \<Rightarrow> 'x svc_world_scheme \<Rightarrow>
   ObjectVersion option \<times> S3Store \<times> 'x svc_world_scheme" where
  "complete_multipart_upload ext hex_decode st upload_id parts w =
     (case hm_get (s3_uploads st) upload_id of
        None \<Rightarrow> (None, st, w)
      | Some upload \<Rightarrow>
          (let st = st\<lparr>s3_uploads := hm_remove upload_id (s3_uploads st)\<rparr>;
               sorted_parts = List.map_filter (hm_get (mu_parts upload)) (sort (map fst parts));
               combined = concat (List.map_filter (\<lambda>p. as_inline (pt_data p)) sorted_parts);
               (version, w) = ObjectVersion_new ext combined (mu_content_type upload) (mu_metadata upload)
                 (versioning_of st (mu_bucket upload)) w;
               digests = List.map_filter (\<lambda>p. etag_digest hex_decode (pt_etag p)) sorted_parts;
               version = (if digests \<noteq> [] then version\<lparr>ov_etag := multipart_tag ext (concat digests) (length digests)\<rparr> else version);
               (prev, m) = insert_version (entry_or_default st (mu_bucket upload)) (mu_key upload) version
           in (Option.bind (bt_get m (mu_key upload)) latest, set_objects st (mu_bucket upload) m, w)))"

definition complete_multipart_upload_with_version ::
  "S3Store \<Rightarrow> string \<Rightarrow> ObjectVersion \<Rightarrow> ObjectDataRef option \<times> S3Store" where
  "complete_multipart_upload_with_version st upload_id version =
     (case hm_get (s3_uploads st) upload_id of
        None \<Rightarrow> (None, st)
      | Some upload \<Rightarrow>
          (let st = st\<lparr>s3_uploads := hm_remove upload_id (s3_uploads st)\<rparr>;
               (prev, m) = insert_version (entry_or_default st (mu_bucket upload)) (mu_key upload) version
           in (prev, set_objects st (mu_bucket upload) m)))"

definition abort_multipart_upload :: "S3Store \<Rightarrow> string \<Rightarrow> bool \<times> S3Store" where
  "abort_multipart_upload st upload_id =
     (contains_key (s3_uploads st) upload_id, st\<lparr>s3_uploads := hm_remove upload_id (s3_uploads st)\<rparr>)"

definition list_multipart_uploads :: "S3Store \<Rightarrow> string \<Rightarrow> MultipartUpload list" where
  "list_multipart_uploads st bucket = filter (\<lambda>u. mu_bucket u = bucket) (hm_values (s3_uploads st))"

end
