(* ===== verification/S3_Files.thy ===== *)
theory S3_Files
  imports S3_Store
begin

text \<open>
  The files behind large objects, \<^verbatim>\<open>services/s3/src/object_store.rs\<close>, over a model of the file system:
  directory entries name inodes, and inodes hold bytes, so that two hard links share their contents. Every
  operation of the file system may fail; a record of the surroundings says which ones do, and a failed
  operation changes nothing. The hashes of keys (packages \<^verbatim>\<open>xxhash-rust\<close> and \<^verbatim>\<open>sha2\<close>) are arguments.
\<close>

section \<open>File system\<close>

datatype io_error = NotFound | OtherError

record file_system =
  fs_names :: "(string, nat) hash_map"
  fs_inodes :: "(nat, string) hash_map"
  fs_next :: nat
  fs_dirs :: "string list"
  fs_fault :: "nat \<Rightarrow> bool"
  fs_ops :: nat

type_synonym 'a io = "file_system \<Rightarrow> (io_error + 'a) \<times> file_system"

definition io_step :: "'a io \<Rightarrow> 'a io" where
  "io_step f fs =
     (let fs' = fs\<lparr>fs_ops := fs_ops fs + 1\<rparr> in if fs_fault fs (fs_ops fs) then (Inl OtherError, fs') else f fs')"

definition io_return :: "'a \<Rightarrow> 'a io" where
  "io_return x fs = (Inr x, fs)"

text \<open>The operator \<^verbatim>\<open>?\<close>.\<close>

definition io_bind :: "'a io \<Rightarrow> ('a \<Rightarrow> 'b io) \<Rightarrow> 'b io" where
  "io_bind m f fs = (case m fs of (Inl e, fs) \<Rightarrow> (Inl e, fs) | (Inr x, fs) \<Rightarrow> f x fs)"

definition contents :: "file_system \<Rightarrow> string \<Rightarrow> string option" where
  "contents fs path = Option.bind (hm_get (fs_names fs) path) (hm_get (fs_inodes fs))"

definition put_inode :: "string \<Rightarrow> string \<Rightarrow> file_system \<Rightarrow> file_system" where
  "put_inode path bytes fs =
     (case hm_get (fs_names fs) path of
        Some i \<Rightarrow> fs\<lparr>fs_inodes := hm_insert i bytes (fs_inodes fs)\<rparr>
      | None \<Rightarrow> fs\<lparr>fs_names := hm_insert path (fs_next fs) (fs_names fs),
                   fs_inodes := hm_insert (fs_next fs) bytes (fs_inodes fs), fs_next := fs_next fs + 1\<rparr>)"

definition create_dir_all :: "string \<Rightarrow> unit io" where
  "create_dir_all dir = io_step (\<lambda>fs. (Inr (), fs\<lparr>fs_dirs := List.insert dir (fs_dirs fs)\<rparr>))"

definition file_create :: "string \<Rightarrow> string \<Rightarrow> unit io" where
  "file_create dir path = io_step (\<lambda>fs. if dir \<in> set (fs_dirs fs) then (Inr (), put_inode path [] fs) else (Inl NotFound, fs))"

text \<open>Writing through an open file changes its inode.\<close>

definition file_write :: "string \<Rightarrow> string \<Rightarrow> unit io" where
  "file_write path bytes = io_step (\<lambda>fs. (Inr (), put_inode path bytes fs))"

definition fs_rename :: "string \<Rightarrow> string \<Rightarrow> unit io" where
  "fs_rename src dst = io_step (\<lambda>fs.
     case hm_get (fs_names fs) src of
       None \<Rightarrow> (Inl NotFound, fs)
     | Some i \<Rightarrow> (Inr (), if src = dst then fs else fs\<lparr>fs_names := hm_insert dst i (hm_remove src (fs_names fs))\<rparr>))"

definition remove_file :: "string \<Rightarrow> unit io" where
  "remove_file path = io_step (\<lambda>fs.
     if contains_key (fs_names fs) path then (Inr (), fs\<lparr>fs_names := hm_remove path (fs_names fs)\<rparr>) else (Inl NotFound, fs))"

definition fs_read :: "string \<Rightarrow> string io" where
  "fs_read path = io_step (\<lambda>fs. case contents fs path of None \<Rightarrow> (Inl NotFound, fs) | Some bytes \<Rightarrow> (Inr bytes, fs))"

definition hard_link :: "string \<Rightarrow> string \<Rightarrow> unit io" where
  "hard_link src dst = io_step (\<lambda>fs.
     case hm_get (fs_names fs) src of
       None \<Rightarrow> (Inl NotFound, fs)
     | Some i \<Rightarrow> (if contains_key (fs_names fs) dst then (Inl OtherError, fs)
                  else (Inr (), fs\<lparr>fs_names := hm_insert dst i (fs_names fs)\<rparr>)))"

text \<open>
  \<^verbatim>\<open>fs::copy\<close> opens the source, then opens the destination and truncates it, then copies what the source
  holds: nothing is left to copy when both names are links of one inode.
\<close>

definition fs_copy :: "string \<Rightarrow> string \<Rightarrow> unit io" where
  "fs_copy src dst = io_step (\<lambda>fs.
     case contents fs src of
       None \<Rightarrow> (Inl NotFound, fs)
     | Some _ \<Rightarrow>
         (let fs = put_inode dst [] fs
          in (Inr (), put_inode dst (case contents fs src of Some bytes \<Rightarrow> bytes | None \<Rightarrow> []) fs)))"

definition dir_exists :: "file_system \<Rightarrow> string \<Rightarrow> bool" where
  "dir_exists fs dir = list_ex (\<lambda>d. d = dir \<or> starts_with d (dir @ ''/'')) (fs_dirs fs)"

definition remove_dir_all :: "string \<Rightarrow> unit io" where
  "remove_dir_all dir = io_step (\<lambda>fs.
     if \<not> dir_exists fs dir then (Inl NotFound, fs)
     else (Inr (), fs\<lparr>fs_names := filter (\<lambda>(p, _). \<not> starts_with p (dir @ ''/'')) (fs_names fs),
                      fs_dirs := filter (\<lambda>d. d \<noteq> dir \<and> \<not> starts_with d (dir @ ''/'')) (fs_dirs fs)\<rparr>))"

definition remove_dir :: "string \<Rightarrow> unit io" where
  "remove_dir dir = io_step (\<lambda>fs.
     if \<not> dir_exists fs dir then (Inl NotFound, fs)
     else if list_ex (\<lambda>(p, _). starts_with p (dir @ ''/'')) (fs_names fs) \<or>
             list_ex (\<lambda>d. starts_with d (dir @ ''/'')) (fs_dirs fs) then (Inl OtherError, fs)
     else (Inr (), fs\<lparr>fs_dirs := filter (\<lambda>d. d \<noteq> dir) (fs_dirs fs)\<rparr>))"

section \<open>The object file store\<close>

text \<open>The cached directories and the counter of temporary names, with the clock and the identifiers.\<close>

record s3_world = svc_world +
  sw_fs :: file_system
  sw_known_dirs :: "string list"
  sw_tmp :: u64
  sw_notified :: "RequestContext list"

type_synonym 'a fio = "s3_world \<Rightarrow> (io_error + 'a) \<times> s3_world"

definition lift_io :: "'a io \<Rightarrow> 'a fio" where
  "lift_io m w = (let (r, fs) = m (sw_fs w) in (r, w\<lparr>sw_fs := fs\<rparr>))"

definition fio_bind :: "'a fio \<Rightarrow> ('a \<Rightarrow> 'b fio) \<Rightarrow> 'b fio" where
  "fio_bind m f w = (case m w of (Inl e, w) \<Rightarrow> (Inl e, w) | (Inr x, w) \<Rightarrow> f x w)"

definition fio_return :: "'a \<Rightarrow> 'a fio" where
  "fio_return x w = (Inr x, w)"

text \<open>\<^verbatim>\<open>PathBuf::join\<close>\<close>

definition path_join :: "string \<Rightarrow> string \<Rightarrow> string" where
  "path_join p s =
     (if starts_with s ''/'' then s
      else if p = [] \<or> last p = CHR ''/'' then p @ s
      else p @ ''/'' @ s)"

record file_libs =
  fl_base_dir :: string
  fl_key_hash :: "string \<Rightarrow> string"
  fl_key_hash_legacy :: "string \<Rightarrow> string"

record ObjectLocation =
  ol_account_id :: string
  ol_region :: string
  ol_bucket :: string
  ol_key :: string
  ol_version_id :: string

definition bucket_dir :: "file_libs \<Rightarrow> string \<Rightarrow> string \<Rightarrow> string \<Rightarrow> string" where
  "bucket_dir fl account_id region bucket = path_join (path_join (path_join (fl_base_dir fl) account_id) region) bucket"

definition object_dir :: "file_libs \<Rightarrow> ObjectLocation \<Rightarrow> string" where
  "object_dir fl loc = path_join (bucket_dir fl (ol_account_id loc) (ol_region loc) (ol_bucket loc)) (fl_key_hash fl (ol_key loc))"

definition object_dir_legacy :: "file_libs \<Rightarrow> ObjectLocation \<Rightarrow> string" where
  "object_dir_legacy fl loc =
     path_join (bucket_dir fl (ol_account_id loc) (ol_region loc) (ol_bucket loc)) (fl_key_hash_legacy fl (ol_key loc))"

definition object_path :: "file_libs \<Rightarrow> ObjectLocation \<Rightarrow> string" where
  "object_path fl loc = path_join (object_dir fl loc) (ol_version_id loc)"

definition object_path_legacy :: "file_libs \<Rightarrow> ObjectLocation \<Rightarrow> string" where
  "object_path_legacy fl loc = path_join (object_dir_legacy fl loc) (ol_version_id loc)"

definition ensure_dir_exists :: "string \<Rightarrow> unit fio" where
  "ensure_dir_exists dir w =
     (if dir \<in> set (sw_known_dirs w) then (Inr (), w)
      else fio_bind (lift_io (create_dir_all dir)) (\<lambda>_ w. (Inr (), w\<lparr>sw_known_dirs := List.insert dir (sw_known_dirs w)\<rparr>)) w)"

definition resolve_existing_object_path :: "file_libs \<Rightarrow> ObjectLocation \<Rightarrow> string fio" where
  "resolve_existing_object_path fl loc w =
     (let cur = object_path fl loc; legacy = object_path_legacy fl loc
      in if contains_key (fs_names (sw_fs w)) cur then (Inr cur, w)
         else if contains_key (fs_names (sw_fs w)) legacy then (Inr legacy, w)
         else (Inl NotFound, w))"

definition next_tmp :: "string \<Rightarrow> string \<Rightarrow> string fio" where
  "next_tmp dir version_id w =
     (Inr (path_join dir (version_id @ ''-'' @ nat_to_string (unat (sw_tmp w)) @ ''.tmp'')), w\<lparr>sw_tmp := sw_tmp w + 1\<rparr>)"

text \<open>A file set to a length before it is written keeps that length when less is written.\<close>

definition preallocated :: "nat option \<Rightarrow> string \<Rightarrow> string" where
  "preallocated len bytes = bytes @ replicate (case len of Some n \<Rightarrow> n - length bytes | None \<Rightarrow> 0) (CHR 0x00)"

text \<open>
  The three writers end in the same steps: a temporary file is created, written and renamed. They differ in
  the buffers they use and in whether the length is set first. The result is the path with the bytes read,
  which the callers count and hash while they are read.
\<close>

definition write_and_rename :: "file_libs \<Rightarrow> ObjectLocation \<Rightarrow> string fio \<Rightarrow> nat option \<Rightarrow> (string \<times> string) fio" where
  "write_and_rename fl loc source len =
     (let dir = object_dir fl loc; final_path = path_join dir (ol_version_id loc)
      in fio_bind (ensure_dir_exists dir) (\<lambda>_.
         fio_bind (next_tmp dir (ol_version_id loc)) (\<lambda>tmp_path.
         fio_bind (lift_io (file_create dir tmp_path)) (\<lambda>_.
         fio_bind source (\<lambda>bytes.
         fio_bind (lift_io (file_write tmp_path (preallocated len bytes))) (\<lambda>_.
         fio_bind (lift_io (fs_rename tmp_path final_path)) (\<lambda>_.
         fio_return (final_path, bytes))))))))"

definition write_object :: "file_libs \<Rightarrow> ObjectLocation \<Rightarrow> string \<Rightarrow> string fio" where
  "write_object fl loc data =
     fio_bind (write_and_rename fl loc (fio_return data) None) (\<lambda>(final_path, _). fio_return final_path)"

definition write_object_from_reader :: "file_libs \<Rightarrow> ObjectLocation \<Rightarrow> string fio \<Rightarrow> nat option \<Rightarrow> (string \<times> string) fio" where
  "write_object_from_reader fl loc reader content_length = write_and_rename fl loc reader content_length"

definition write_object_from_sync_reader :: "file_libs \<Rightarrow> ObjectLocation \<Rightarrow> string fio \<Rightarrow> nat option \<Rightarrow> (string \<times> string) fio" where
  "write_object_from_sync_reader fl loc reader content_length = write_and_rename fl loc reader content_length"

definition read_object :: "file_libs \<Rightarrow> ObjectLocation \<Rightarrow> string fio" where
  "read_object fl loc = fio_bind (resolve_existing_object_path fl loc) (\<lambda>path. lift_io (fs_read path))"

definition read_object_at :: "string \<Rightarrow> string fio" where
  "read_object_at path = lift_io (fs_read path)"

text \<open>Emptied directories leave the cache with the disk.\<close>

definition forget_if_gone :: "string \<Rightarrow> s3_world \<Rightarrow> s3_world" where
  "forget_if_gone dir w =
     (let w = snd (lift_io (remove_dir dir) w)
      in if dir_exists (sw_fs w) dir then w else w\<lparr>sw_known_dirs := removeAll dir (sw_known_dirs w)\<rparr>)"

definition delete_object_file :: "file_libs \<Rightarrow> ObjectLocation \<Rightarrow> unit fio" where
  "delete_object_file fl loc w =
     (let (r, w) =
        (case lift_io (remove_file (object_path fl loc)) w of
           (Inl NotFound, w) \<Rightarrow>
             (case lift_io (remove_file (object_path_legacy fl loc)) w of (Inl NotFound, w) \<Rightarrow> (Inr (), w) | x \<Rightarrow> x)
         | x \<Rightarrow> x)
      in case r of
           Inl e \<Rightarrow> (Inl e, w)
         | Inr _ \<Rightarrow>
             (let w = forget_if_gone (object_dir fl loc) w;
                  w = (if object_dir_legacy fl loc \<noteq> object_dir fl loc then forget_if_gone (object_dir_legacy fl loc) w else w)
              in (Inr (), w)))"

definition delete_bucket_dir :: "file_libs \<Rightarrow> string \<Rightarrow> string \<Rightarrow> string \<Rightarrow> unit fio" where
  "delete_bucket_dir fl account_id region bucket w =
     (let dir = bucket_dir fl account_id region bucket
      in case lift_io (remove_dir_all dir) w of
           (Inr _, w) \<Rightarrow>
             (Inr (), w\<lparr>sw_known_dirs := filter (\<lambda>d. d \<noteq> dir \<and> \<not> starts_with d (dir @ ''/'')) (sw_known_dirs w)\<rparr>)
         | (Inl NotFound, w) \<Rightarrow> (Inr (), w)
         | (Inl e, w) \<Rightarrow> (Inl e, w))"

definition copy_object :: "file_libs \<Rightarrow> ObjectLocation \<Rightarrow> ObjectLocation \<Rightarrow> string fio" where
  "copy_object fl src dst =
     fio_bind (resolve_existing_object_path fl src) (\<lambda>src_path.
     let dst_dir = object_dir fl dst; dst_path = path_join dst_dir (ol_version_id dst)
     in fio_bind (ensure_dir_exists dst_dir) (\<lambda>_.
        if src_path = dst_path then fio_return dst_path
        else (\<lambda>w. case lift_io (hard_link src_path dst_path) w of
                    (Inr _, w) \<Rightarrow> (Inr dst_path, w)
                  | (Inl _, w) \<Rightarrow> fio_bind (lift_io (fs_copy src_path dst_path)) (\<lambda>_. fio_return dst_path) w)))"

text \<open>\<^verbatim>\<open>let _ = tokio::fs::remove_file(path).await\<close>\<close>

definition discard_file :: "string \<Rightarrow> s3_world \<Rightarrow> s3_world" where
  "discard_file path w = snd (lift_io (remove_file path) w)"

text \<open>Removal of the files of aborted writes when the service starts; the first step is the walk over the directories.\<close>

definition cleanup_orphaned_temps :: "file_libs \<Rightarrow> nat fio" where
  "cleanup_orphaned_temps fl =
     fio_bind (lift_io (io_step (\<lambda>fs. (Inr (map fst (fs_names fs)), fs)))) (\<lambda>paths w.
       let orphans = filter (\<lambda>p. starts_with p (fl_base_dir fl @ ''/'') \<and> ends_with p ''.tmp'') paths;
           (n, w) = fold (\<lambda>p (n, w). case lift_io (remove_file p) w of (Inr _, w) \<Rightarrow> (n + 1, w) | (Inl _, w) \<Rightarrow> (n, w)) orphans (0, w)
       in (Inr n, w))"

lemmas fio_defs = fio_bind_def fio_return_def lift_io_def

end
