(* ===== verification/S3_Provider.thy ===== *)
theory S3_Provider
  imports S3_Files Sqs_Provider Aws_Protocol
begin

text \<open>
  The S3 provider, \<^verbatim>\<open>services/s3/src/provider.rs\<close>: responses and paths, one handler per operation in
  the order of the file, the derivation of the operation and the dispatcher. The handlers that touch files
  work on the bundle of all scopes and on the surroundings, whose file system may fail; the others on the
  store of the caller's scope. A background task that emits notifications is run at the end of the request.
\<close>

section \<open>Functions of other packages and configuration\<close>

text \<open>The date formats of \<^verbatim>\<open>chrono\<close>, the decoder of \<^verbatim>\<open>hex\<close>, the threshold of inline objects and the presence of a dispatcher.\<close>

record s3_libs =
  s3_ext :: externs
  s3_fl :: file_libs
  s3_iso :: "int \<Rightarrow> string"
  s3_http_date :: "int \<Rightarrow> string"
  s3_rfc3339 :: "int \<Rightarrow> string"
  s3_hex_decode :: "string \<Rightarrow> string option"
  s3_threshold :: nat
  s3_dispatcher :: bool

definition GET_OBJECT_STREAM_READ_BUF_SMALL :: nat where
  "GET_OBJECT_STREAM_READ_BUF_SMALL = 1024 * 1024"

definition GET_OBJECT_STREAM_READ_BUF_LARGE :: nat where
  "GET_OBJECT_STREAM_READ_BUF_LARGE = 4 * 1024 * 1024"

definition GET_OBJECT_STREAM_LARGE_CUTOFF :: nat where
  "GET_OBJECT_STREAM_LARGE_CUTOFF = 50 * 1024 * 1024"

definition get_object_stream_read_buf :: "nat \<Rightarrow> nat" where
  "get_object_stream_read_buf n =
     (if n \<le> GET_OBJECT_STREAM_LARGE_CUTOFF then GET_OBJECT_STREAM_READ_BUF_SMALL else GET_OBJECT_STREAM_READ_BUF_LARGE)"

section \<open>Responses and paths\<close>

definition s3_xmlns :: string where
  "s3_xmlns = '' xmlns='' @ quoted ''http://s3.amazonaws.com/doc/2006-03-01/'' @ ''>''"

definition format_etag :: "string \<Rightarrow> string" where
  "format_etag digest = quoted (concat (map (\<lambda>b. hex_pad 2 (of_char b)) digest))"

definition s3_xml_response :: "nat \<Rightarrow> string \<Rightarrow> DispatchResponse" where
  "s3_xml_response status xml =
     \<lparr>status_code = status, resp_body = Buffered xml, content_type = ''application/xml'', resp_headers = []\<rparr>"

definition s3_error :: "string \<Rightarrow> string \<Rightarrow> nat \<Rightarrow> DispatchResponse" where
  "s3_error code message status =
     s3_xml_response status (xml_decl @ ''<Error><Code>'' @ code @ ''</Code><Message>'' @ message @ ''</Message></Error>'')"

definition s3_bucket_error :: "string \<Rightarrow> string \<Rightarrow> string \<Rightarrow> nat \<Rightarrow> DispatchResponse" where
  "s3_bucket_error code message bucket status =
     s3_xml_response status (xml_decl @ ''<Error><Code>'' @ code @ ''</Code><Message>'' @ message @
       ''</Message><RequestId>00000000-0000-0000-0000-000000000000</RequestId><BucketName>'' @ xml_escape bucket @
       ''</BucketName></Error>'')"

definition s3_empty :: "nat \<Rightarrow> (string \<times> string) list \<Rightarrow> DispatchResponse" where
  "s3_empty status hs = \<lparr>status_code = status, resp_body = Buffered [], content_type = [], resp_headers = hs\<rparr>"

definition no_such_bucket :: DispatchResponse where
  "no_such_bucket = s3_error ''NoSuchBucket'' ''The specified bucket does not exist'' 404"

definition no_such_key :: DispatchResponse where
  "no_such_key = s3_error ''NoSuchKey'' ''The specified key does not exist'' 404"

definition no_such_upload :: DispatchResponse where
  "no_such_upload = s3_error ''NoSuchUpload'' ''The specified upload does not exist'' 404"

definition bucket_name_required :: DispatchResponse where
  "bucket_name_required = s3_error ''InvalidBucketName'' ''Bucket name is required'' 400"

definition bucket_from_path :: "string \<Rightarrow> string option" where
  "bucket_from_path path =
     (let seg = hd (split_char (CHR ''/'') (trim_start_matches (CHR ''/'') path)) in if seg = [] then None else Some seg)"

definition key_from_path :: "string \<Rightarrow> string" where
  "key_from_path path =
     (let path = trim_start_matches (CHR ''/'') path;
          slash = (case str_find path ''/'' of Some i \<Rightarrow> i | None \<Rightarrow> length path)
      in trim_start_matches (CHR ''/'') (drop slash path))"

definition path_has_key :: "string \<Rightarrow> bool" where
  "path_has_key path =
     (let path = trim_start_matches (CHR ''/'') path;
          slash = (case str_find path ''/'' of Some i \<Rightarrow> i | None \<Rightarrow> length path)
      in trim_start_matches (CHR ''/'') (drop slash path) \<noteq> [])"

definition path_has_bucket :: "string \<Rightarrow> bool" where
  "path_has_bucket path = (hd (split_char (CHR ''/'') (trim_start_matches (CHR ''/'') path)) \<noteq> [])"

text \<open>The handlers start by reading the bucket from the path.\<close>

definition with_bucket :: "RequestContext \<Rightarrow> (DispatchResponse \<Rightarrow> 'a) \<Rightarrow> (string \<Rightarrow> 'a) \<Rightarrow> 'a" where
  "with_bucket ctx fail k = (case bucket_from_path (ctx_path ctx) of None \<Rightarrow> fail bucket_name_required | Some b \<Rightarrow> k b)"

section \<open>Buckets\<close>

type_synonym s3_bundle = "S3Store AccountRegionBundle"
type_synonym s3_result = "DispatchResponse \<times> S3Store \<times> s3_world"
type_synonym s3_bundle_result = "DispatchResponse \<times> s3_bundle \<times> s3_world"

definition scope_store :: "RequestContext \<Rightarrow> s3_bundle \<Rightarrow> S3Store option" where
  "scope_store ctx b = bundle_get b (ctx_account_id ctx) (ctx_region ctx)"

text \<open>A step on the store of the scope, created on demand.\<close>

definition in_store :: "RequestContext \<Rightarrow> (S3Store \<Rightarrow> 'a \<times> S3Store) \<Rightarrow> s3_bundle \<Rightarrow> 'a \<times> s3_bundle" where
  "in_store ctx f b =
     (let (st, b) = get_or_create S3Store_new b (ctx_account_id ctx) (ctx_region ctx); (x, st) = f st
      in (x, write_back b (ctx_account_id ctx) (ctx_region ctx) st))"

definition handle_create_bucket :: "RequestContext \<Rightarrow> S3Store \<Rightarrow> s3_world \<Rightarrow> s3_result" where
  "handle_create_bucket ctx st w =
     with_bucket ctx (\<lambda>e. (e, st, w)) (\<lambda>bucket.
       if bucket_exists st bucket then (s3_error ''BucketAlreadyOwnedByYou'' ''Bucket already owned by you'' 409, st, w)
       else let (st, w) = create_bucket st bucket (ctx_region ctx) w
            in (s3_empty 200 [(''Location'', ''/'' @ bucket)], st, w))"

definition handle_delete_bucket :: "s3_libs \<Rightarrow> RequestContext \<Rightarrow> s3_bundle \<Rightarrow> s3_world \<Rightarrow> s3_bundle_result" where
  "handle_delete_bucket libs ctx b w =
     with_bucket ctx (\<lambda>e. (e, b, w)) (\<lambda>bucket.
       case scope_store ctx b of
         None \<Rightarrow> (no_such_bucket, b, w)
       | Some st \<Rightarrow>
           (if \<not> bucket_exists st bucket then (no_such_bucket, b, w)
            else if \<not> (is_bucket_empty st bucket \<and> \<not> has_incomplete_multipart_uploads st bucket)
            then (s3_error ''BucketNotEmpty'' ''The bucket is not empty'' 409, b, w)
            else let (_, b) = in_store ctx (\<lambda>st. delete_bucket st bucket) b;
                     (_, w) = delete_bucket_dir (s3_fl libs) (ctx_account_id ctx) (ctx_region ctx) bucket w
                 in (s3_empty 204 [], b, w)))"

definition handle_head_bucket :: "RequestContext \<Rightarrow> S3Store \<Rightarrow> DispatchResponse" where
  "handle_head_bucket ctx st =
     with_bucket ctx id (\<lambda>bucket. if bucket_exists st bucket then s3_empty 200 [] else no_such_bucket)"

definition list_buckets_open :: string where
  "list_buckets_open = xml_decl @ ''<ListAllMyBucketsResult'' @ s3_xmlns @
     ''<Owner><ID>000000000000</ID><DisplayName>localstack</DisplayName></Owner><Buckets>''"

definition handle_list_buckets :: "s3_libs \<Rightarrow> S3Store \<Rightarrow> DispatchResponse" where
  "handle_list_buckets libs st =
     ok_xml (list_buckets_open @
       concat (map (\<lambda>b. ''<Bucket><Name>'' @ xml_escape (bk_name b) @ ''</Name><CreationDate>'' @
                 s3_iso libs (bk_creation_date b) @ ''</CreationDate></Bucket>'')
               (sort_key bk_name (hm_values (s3_buckets st)))) @
       ''</Buckets></ListAllMyBucketsResult>'')"

definition handle_get_bucket_location :: "RequestContext \<Rightarrow> S3Store \<Rightarrow> DispatchResponse" where
  "handle_get_bucket_location ctx st =
     with_bucket ctx id (\<lambda>bucket.
       case hm_get (s3_buckets st) bucket of
         None \<Rightarrow> s3_bucket_error ''NoSuchBucket'' ''The specified bucket does not exist'' bucket 404
       | Some b \<Rightarrow>
           (let location = (if bk_region b = ''us-east-1'' then [] else bk_region b)
            in ok_xml (xml_decl @ ''<LocationConstraint'' @ s3_xmlns @ location @ ''</LocationConstraint>'')))"

section \<open>Reading XML and percent codes\<close>

text \<open>\<^verbatim>\<open>str::replace\<close>\<close>

function replace_all :: "string \<Rightarrow> string \<Rightarrow> string \<Rightarrow> string" where
  "replace_all pat rep s =
     (if pat = [] \<or> s = [] then s
      else if starts_with s pat then rep @ replace_all pat rep (drop (length pat) s)
      else hd s # replace_all pat rep (tl s))"
  by pat_completeness auto
termination by (relation "measure (\<lambda>(pat, rep, s). length s)") auto

declare replace_all.simps [simp del]

definition unescape_xml :: "string \<Rightarrow> string" where
  "unescape_xml s =
     replace_all ''&amp;'' ''&'' (replace_all ''&quot;'' [CHR 0x22] (replace_all ''&apos;'' [CHR 0x27]
       (replace_all ''&gt;'' ''>'' (replace_all ''&lt;'' ''<'' s))))"

definition extract_xml_text :: "string \<Rightarrow> string \<Rightarrow> string option" where
  "extract_xml_text xml tag =
     (let opn = ''<'' @ tag @ ''>''; cls = ''</'' @ tag @ ''>'' in
      case str_find xml opn of
        None \<Rightarrow> None
      | Some i \<Rightarrow>
          (let rest = drop (i + length opn) xml
           in map_option (\<lambda>e. unescape_xml (take e rest)) (str_find rest cls)))"

text \<open>The texts between the occurrences of an opening tag and the next closing tag, or the end of the input.\<close>

function xml_blocks :: "string \<Rightarrow> string \<Rightarrow> string \<Rightarrow> string list" where
  "xml_blocks opn cls s =
     (if opn = [] then []
      else case str_find s opn of
             None \<Rightarrow> []
           | Some i \<Rightarrow>
               (let rest = drop (i + length opn) s;
                    e = (case str_find rest cls of Some e \<Rightarrow> e | None \<Rightarrow> length rest)
                in take e rest # xml_blocks opn cls (drop e rest)))"
  by pat_completeness auto
termination
  by (relation "measure (\<lambda>(opn, cls, s). length s)") (auto simp: neq_Nil_conv dest!: str_find_SomeD split: option.splits, metis Suc_le_length_iff)

declare xml_blocks.simps [simp del]

definition parse_copy_source :: "string \<Rightarrow> string \<times> string" where
  "parse_copy_source source =
     (let s = trim_start_matches (CHR ''/'') source;
          slash = (case str_find s ''/'' of Some i \<Rightarrow> i | None \<Rightarrow> length s)
      in (take slash s, trim_start_matches (CHR ''/'') (drop slash s)))"

function urlencoding_decode :: "string \<Rightarrow> string" where
  "urlencoding_decode bytes =
     (case bytes of
        [] \<Rightarrow> []
      | b # rest \<Rightarrow>
          (case (if b = CHR ''%'' \<and> 2 < length bytes then Option.bind (from_utf8 (take 2 rest)) (parse_uint 16 8) else None) of
             Some byte \<Rightarrow> push_byte_as_char (char_of byte) @ urlencoding_decode (drop 2 rest)
           | None \<Rightarrow> push_byte_as_char b @ urlencoding_decode rest))"
  by pat_completeness auto
termination by (relation "measure length") auto

declare urlencoding_decode.simps [simp del]

section \<open>Notifications\<close>

definition find_filter_rule :: "string \<Rightarrow> string \<Rightarrow> string option" where
  "find_filter_rule block name =
     (case find (\<lambda>rule. case extract_xml_text rule ''Name'' of Some n \<Rightarrow> eq_ignore_ascii_case (trim n) name | None \<Rightarrow> False)
             (xml_blocks ''<FilterRule>'' ''</FilterRule>'' block) of
        Some rule \<Rightarrow> extract_xml_text rule ''Value''
      | None \<Rightarrow> None)"

function event_names :: "string \<Rightarrow> string list" where
  "event_names s =
     (case str_find s ''<Event>'' of
        None \<Rightarrow> []
      | Some i \<Rightarrow>
          (let rest = drop (i + 7) s in
           case str_find rest ''</Event>'' of
             Some e \<Rightarrow> trim (take e rest) # event_names (drop e rest)
           | None \<Rightarrow> event_names rest))"
  by pat_completeness auto
termination by (relation "measure length") (auto dest!: str_find_SomeD)

declare event_names.simps [simp del]

definition notification_config :: "string \<Rightarrow> string \<Rightarrow> string \<Rightarrow> s3_world \<Rightarrow> NotificationConfig \<times> s3_world" where
  "notification_config arn_tag dest_type block w =
     (let (cid, w) = (case extract_xml_text block ''Id'' of Some i \<Rightarrow> (i, w) | None \<Rightarrow> new_uuid w);
          filter_rule = (\<lambda>name. Option.bind (extract_xml_text block ''Filter'') (\<lambda>fb. find_filter_rule fb name))
      in (\<lparr>nc_id = cid, nc_destination_arn = unwrap_str (extract_xml_text block arn_tag), nc_destination_type = dest_type,
           nc_events = event_names block, nc_prefix_filter = filter_rule ''prefix'', nc_suffix_filter = filter_rule ''suffix''\<rparr>, w))"

definition parse_notification_configs ::
  "string \<Rightarrow> string \<Rightarrow> string \<Rightarrow> string \<Rightarrow> NotificationConfig list \<times> s3_world \<Rightarrow> NotificationConfig list \<times> s3_world" where
  "parse_notification_configs body outer_tag arn_tag dest_type acc =
     fold (\<lambda>block (out, w).
       let (nc, w) = notification_config arn_tag dest_type block w
       in (if nc_destination_arn nc \<noteq> [] then out @ [nc] else out, w))
       (xml_blocks (''<'' @ outer_tag @ ''>'') (''</'' @ outer_tag @ ''>'') body) acc"

definition event_matches :: "string \<Rightarrow> string \<Rightarrow> bool" where
  "event_matches event_name e \<longleftrightarrow>
     e = event_name \<or> e = ''s3:*'' \<or> (ends_with e ''*'' \<and> starts_with event_name (butlast e))"

definition build_notification_dispatch_ctx :: "string \<Rightarrow> string \<Rightarrow> string \<Rightarrow> string \<Rightarrow> string \<Rightarrow> RequestContext" where
  "build_notification_dispatch_ctx account_id region dest_type dest_arn payload =
     (let name = last (split_char (CHR '':'') dest_arn);
          text = (case from_utf8 payload of Some s \<Rightarrow> s | None \<Rightarrow> [])
      in if dest_type = ''sqs'' then
           (RequestContext_new ''sqs'' ''SendMessage'' region account_id)
             \<lparr>ctx_method := ''POST'', ctx_path := ''/'' @ account_id @ ''/'' @ name,
              ctx_raw_body := Some (''Action=SendMessage&QueueUrl=http%3A%2F%2Flocalhost%3A4566%2F'' @ account_id @ ''%2F'' @ name @
                ''&MessageBody='' @ url_encode text)\<rparr>
         else if dest_type = ''sns'' then
           (RequestContext_new ''sns'' ''Publish'' region account_id)
             \<lparr>ctx_method := ''POST'', ctx_path := ''/'',
              ctx_raw_body := Some (''Action=Publish&TopicArn='' @ url_encode dest_arn @ ''&Message='' @ url_encode text)\<rparr>
         else if dest_type = ''lambda'' then
           (RequestContext_new ''lambda'' ''Invoke'' region account_id)
             \<lparr>ctx_method := ''POST'', ctx_path := ''/2015-03-31/functions/'' @ name @ ''/invocations'', ctx_raw_body := Some payload\<rparr>
         else (RequestContext_new dest_type ''Notify'' region account_id)\<lparr>ctx_raw_body := Some payload\<rparr>)"

definition event_payload :: "s3_libs \<Rightarrow> string \<Rightarrow> string \<Rightarrow> string \<Rightarrow> string \<Rightarrow> int \<Rightarrow> string" where
  "event_payload libs region bucket key event_name now =
     json_to_string (s3_ext libs) (json_object [(''Records'', JArray [json_object
       [(''eventVersion'', JString ''2.1''), (''eventSource'', JString ''aws:s3''), (''awsRegion'', JString region),
        (''eventTime'', JString (s3_rfc3339 libs now)),
        (''eventName'', JString (replace_all '':*'' '':Put'' (case strip_prefix event_name ''s3:'' of Some n \<Rightarrow> n | None \<Rightarrow> event_name))),
        (''s3'', json_object [(''s3SchemaVersion'', JString ''1.0''),
           (''bucket'', json_object [(''name'', JString bucket), (''arn'', JString (''arn:aws:s3:::'' @ bucket))]),
           (''object'', json_object [(''key'', JString key)])])]])])"

definition emit_s3_notification ::
  "s3_libs \<Rightarrow> string \<Rightarrow> string \<Rightarrow> string \<Rightarrow> string \<Rightarrow> string \<Rightarrow> s3_bundle \<Rightarrow> s3_world \<Rightarrow> s3_world" where
  "emit_s3_notification libs account_id region bucket key event_name b w =
     (if \<not> s3_dispatcher libs then w
      else case Option.bind (bundle_get b account_id region) (\<lambda>st. hm_get (s3_buckets st) bucket) of
             None \<Rightarrow> w
           | Some bk \<Rightarrow>
               fold (\<lambda>nc w.
                 if \<not> list_ex (event_matches event_name) (nc_events nc) then w
                 else if (case nc_prefix_filter nc of Some p \<Rightarrow> \<not> starts_with key p | None \<Rightarrow> False) then w
                 else if (case nc_suffix_filter nc of Some p \<Rightarrow> \<not> ends_with key p | None \<Rightarrow> False) then w
                 else let (now, w) = sw_now w
                      in w\<lparr>sw_notified := sw_notified w @ [build_notification_dispatch_ctx account_id region
                             (nc_destination_type nc) (nc_destination_arn nc) (event_payload libs region bucket key event_name now)]\<rparr>)
                 (bk_notifications bk) w)"

section \<open>Objects\<close>

definition location_of :: "RequestContext \<Rightarrow> string \<Rightarrow> string \<Rightarrow> string \<Rightarrow> ObjectLocation" where
  "location_of ctx bucket key version_id =
     \<lparr>ol_account_id = ctx_account_id ctx, ol_region = ctx_region ctx, ol_bucket = bucket, ol_key = key, ol_version_id = version_id\<rparr>"

definition content_type_of :: "externs \<Rightarrow> RequestContext \<Rightarrow> string" where
  "content_type_of ext ctx = (case header ext ctx ''content-type'' of Some t \<Rightarrow> t | None \<Rightarrow> ''application/octet-stream'')"

definition metadata_of :: "externs \<Rightarrow> RequestContext \<Rightarrow> (string, string) hash_map" where
  "metadata_of ext ctx =
     fold (\<lambda>(k, v) m. case (strip_prefix k ''x-amz-meta-'', header_to_str ext v) of
              (Some mk, Some mv) \<Rightarrow> hm_insert mk mv m | _ \<Rightarrow> m) (ctx_headers ctx) []"

definition content_length_of :: "externs \<Rightarrow> RequestContext \<Rightarrow> nat option" where
  "content_length_of ext ctx = Option.bind (header ext ctx ''content-length'') (parse_uint 10 64)"

text \<open>Reading a request body to its end, which may fail.\<close>

definition read_to_end :: "string \<Rightarrow> string fio" where
  "read_to_end bytes = lift_io (io_step (\<lambda>fs. (Inr bytes, fs)))"

text \<open>
  Where the body of a request goes: from the network stream, from the spooled body or from the buffered
  body, to memory or to the file of the location. The result is the entity tag, the number of bytes and
  the reference to them.
\<close>

definition take_body ::
  "s3_libs \<Rightarrow> RequestContext \<Rightarrow> ObjectLocation \<Rightarrow> string \<Rightarrow> s3_world \<Rightarrow>
   (DispatchResponse + string \<times> nat \<times> ObjectDataRef) \<times> s3_world" where
  "take_body libs ctx loc failed w =
     (let ext = s3_ext libs;
          unread = s3_error ''InternalError'' ''Failed to read request body'' 500;
          unstored = s3_error ''InternalError'' failed 500;
          etag = (\<lambda>bytes. format_etag (md5_digest ext bytes));
          inline = (\<lambda>bytes w. case read_to_end bytes w of
             (Inl _, w) \<Rightarrow> (Inl unread, w) | (Inr bytes, w) \<Rightarrow> (Inr (etag bytes, length bytes, Inline bytes), w));
          filed = (\<lambda>r. case r of (Inl _, w) \<Rightarrow> (Inl unstored, w) | (Inr (path, bytes), w) \<Rightarrow> (Inr (etag bytes, length bytes, FileRef path), w))
      in case ctx_body_reader ctx of
           Some bytes \<Rightarrow>
             (let len = content_length_of ext ctx in
              if (case len of Some n \<Rightarrow> n \<le> s3_threshold libs | None \<Rightarrow> False) then inline bytes w
              else filed (write_object_from_reader (s3_fl libs) loc (read_to_end bytes) len w))
         | None \<Rightarrow>
         (case ctx_spooled_body ctx of
           Some bytes \<Rightarrow>
             (if length bytes \<le> s3_threshold libs then inline bytes w
              else filed (write_object_from_sync_reader (s3_fl libs) loc (read_to_end bytes) (Some (length bytes)) w))
         | None \<Rightarrow>
             (let bytes = raw_body_bytes ctx in
              if length bytes \<le> s3_threshold libs then (Inr (etag bytes, length bytes, Inline bytes), w)
              else case write_object (s3_fl libs) loc bytes w of
                     (Inl _, w) \<Rightarrow> (Inl unstored, w)
                   | (Inr path, w) \<Rightarrow> (Inr (etag bytes, length bytes, FileRef path), w))))"

text \<open>The file of the version that an unversioned write replaced, unless the new version has the same path.\<close>

definition replaced_file :: "string \<Rightarrow> ObjectDataRef \<Rightarrow> ObjectDataRef option \<Rightarrow> string option" where
  "replaced_file version_id new_data prev =
     (if version_id = ''null'' then
        (case prev of
           Some (FileRef path) \<Rightarrow> (if as_file_ref new_data = Some path then None else Some path)
         | _ \<Rightarrow> None)
      else None)"

definition discard_opt :: "string option \<Rightarrow> s3_world \<Rightarrow> s3_world" where
  "discard_opt path w = (case path of Some p \<Rightarrow> discard_file p w | None \<Rightarrow> w)"

definition handle_put_object :: "s3_libs \<Rightarrow> RequestContext \<Rightarrow> s3_bundle \<Rightarrow> s3_world \<Rightarrow> s3_bundle_result" where
  "handle_put_object libs ctx b w =
     with_bucket ctx (\<lambda>e. (e, b, w)) (\<lambda>bucket.
       let key = key_from_path (ctx_path ctx) in
       case Option.bind (scope_store ctx b) (\<lambda>st. hm_get (s3_buckets st) bucket) of
         None \<Rightarrow> (no_such_bucket, b, w)
       | Some bk \<Rightarrow>
           (let (version_id, w) = new_version_id (bk_versioning bk = ''Enabled'') w
            in case take_body libs ctx (location_of ctx bucket key version_id) ''Failed to store object'' w of
                 (Inl e, w) \<Rightarrow> (e, b, w)
               | (Inr (etag, n, data), w) \<Rightarrow>
                   (let (now, w) = sw_now w;
                        version = plain_version version_id now etag (content_type_of (s3_ext libs) ctx) n
                          (metadata_of (s3_ext libs) ctx) data
                    in case scope_store ctx b of
                         None \<Rightarrow> (no_such_bucket, b, discard_opt (as_file_ref data) w)
                       | Some st \<Rightarrow>
                           (if \<not> bucket_exists st bucket then (no_such_bucket, b, discard_opt (as_file_ref data) w)
                            else let (prev, st) = put_object_version st bucket key version;
                                     b = write_back b (ctx_account_id ctx) (ctx_region ctx) st;
                                     w = discard_opt (replaced_file version_id data prev) w
                                 in (s3_empty 200 ((''ETag'', etag) #
                                       (if version_id \<noteq> ''null'' then [(''x-amz-version-id'', version_id)] else [])), b, w)))))"

text \<open>The chunks a reader with a buffer of the given size yields.\<close>

function read_chunks :: "nat \<Rightarrow> string \<Rightarrow> string list" where
  "read_chunks n bs = (if n = 0 \<or> bs = [] then [] else take n bs # read_chunks n (drop n bs))"
  by pat_completeness auto
termination by (relation "measure (\<lambda>(n, bs). length bs)") auto

declare read_chunks.simps [simp del]

definition version_headers :: "s3_libs \<Rightarrow> ObjectVersion \<Rightarrow> (string \<times> string) list" where
  "version_headers libs v =
     [(''ETag'', ov_etag v), (''Last-Modified'', s3_http_date libs (ov_last_modified v)),
      (''Content-Length'', nat_to_string (ov_size v))] @
     (if ov_version_id v \<noteq> ''null'' then [(''x-amz-version-id'', ov_version_id v)] else []) @
     map (\<lambda>(mk, mv). (''x-amz-meta-'' @ mk, mv)) (ov_metadata v)"

definition object_body :: "s3_libs \<Rightarrow> ObjectVersion \<Rightarrow> s3_world \<Rightarrow> (io_error + ResponseBody) \<times> s3_world" where
  "object_body libs v w =
     (case ov_data v of
        Inline bytes \<Rightarrow> (Inr (Buffered bytes), w)
      | FileRef path \<Rightarrow>
          (if ov_size v \<le> s3_threshold libs then fio_bind (lift_io (fs_read path)) (\<lambda>bytes. fio_return (Buffered bytes)) w
           else fio_bind (read_object_at path)
                  (\<lambda>bytes. fio_return (Streaming (map Inr (read_chunks (get_object_stream_read_buf (ov_size v)) bytes)) (Some (ov_size v)))) w))"

definition handle_get_object :: "s3_libs \<Rightarrow> RequestContext \<Rightarrow> s3_bundle \<Rightarrow> s3_world \<Rightarrow> s3_bundle_result" where
  "handle_get_object libs ctx b w =
     with_bucket ctx (\<lambda>e. (e, b, w)) (\<lambda>bucket.
       let key = key_from_path (ctx_path ctx) in
       case scope_store ctx b of
         None \<Rightarrow> (no_such_bucket, b, w)
       | Some st \<Rightarrow>
           (if \<not> bucket_exists st bucket then (no_such_bucket, b, w)
            else case (case hm_get (ctx_query_params ctx) ''versionId'' of
                         Some vid \<Rightarrow> get_object_version st bucket key vid
                       | None \<Rightarrow> get_object st bucket key) of
                   None \<Rightarrow> (no_such_key, b, w)
                 | Some v \<Rightarrow>
                     (let headers = version_headers libs v @
                            [(''Content-Encoding'', case ov_content_encoding v of Some e \<Rightarrow> e | None \<Rightarrow> ''identity'')]
                      in case object_body libs v w of
                           (Inl _, w) \<Rightarrow> (s3_error ''InternalError'' ''Failed to read object'' 500, b, w)
                         | (Inr body, w) \<Rightarrow>
                             (\<lparr>status_code = 200, resp_body = body, content_type = ov_content_type v, resp_headers = headers\<rparr>, b, w))))"

definition handle_head_object :: "s3_libs \<Rightarrow> RequestContext \<Rightarrow> S3Store \<Rightarrow> DispatchResponse" where
  "handle_head_object libs ctx st =
     with_bucket ctx id (\<lambda>bucket.
       if \<not> bucket_exists st bucket then no_such_bucket
       else case get_object st bucket (key_from_path (ctx_path ctx)) of
              None \<Rightarrow> no_such_key
            | Some v \<Rightarrow> \<lparr>status_code = 200, resp_body = Buffered [], content_type = ov_content_type v, resp_headers = version_headers libs v\<rparr>)"

definition handle_delete_object :: "RequestContext \<Rightarrow> s3_bundle \<Rightarrow> s3_world \<Rightarrow> s3_bundle_result" where
  "handle_delete_object ctx b w =
     with_bucket ctx (\<lambda>e. (e, b, w)) (\<lambda>bucket.
       let key = key_from_path (ctx_path ctx) in
       if \<not> (case scope_store ctx b of Some st \<Rightarrow> bucket_exists st bucket | None \<Rightarrow> False) then (no_such_bucket, b, w)
       else case hm_get (ctx_query_params ctx) ''versionId'' of
              Some vid \<Rightarrow>
                (let (removed, b) = in_store ctx (\<lambda>st. delete_object_version st bucket key vid) b;
                     w = discard_opt (Option.bind removed (\<lambda>v. as_file_ref (ov_data v))) w
                 in (s3_empty 204 [(''x-amz-version-id'', vid)], b, w))
            | None \<Rightarrow>
                (let ((deleted, w), b) = in_store ctx (\<lambda>st. case delete_object st bucket key w of (d, st, w) \<Rightarrow> ((d, w), st)) b
                 in case deleted of
                      None \<Rightarrow> (s3_empty 204 [], b, w)
                    | Some v \<Rightarrow>
                        (if ov_delete_marker v
                         then (s3_empty 204 [(''x-amz-delete-marker'', ''true''), (''x-amz-version-id'', ov_version_id v)], b, w)
                         else (s3_empty 204 [], b, discard_opt (as_file_ref (ov_data v)) w))))"

text \<open>The batch: each named version or object is deleted, then its file; notifications follow.\<close>

definition delete_keys_of :: "string \<Rightarrow> (string \<times> string option) list" where
  "delete_keys_of body =
     List.map_filter (\<lambda>obj_xml.
       let key = unwrap_str (extract_xml_text obj_xml ''Key'');
           vid = Option.bind (extract_xml_text obj_xml ''VersionId'') (\<lambda>v. if trim v = [] then None else Some (trim v))
       in if key \<noteq> [] then Some (key, vid) else None)
       (xml_blocks ''<Object>'' ''</Object>'' body)"

definition delete_one :: "string \<Rightarrow> string \<times> string option \<Rightarrow> (string \<times> string list) \<times> S3Store \<times> s3_world \<Rightarrow>
    (string \<times> string list) \<times> S3Store \<times> s3_world" where
  "delete_one bucket kv acc =
     (case (kv, acc) of
        ((key, Some vid), (xml, files), st, w) \<Rightarrow>
          (let (removed, st) = delete_object_version st bucket key vid;
               files = files @ (case Option.bind removed (\<lambda>v. as_file_ref (ov_data v)) of Some p \<Rightarrow> [p] | None \<Rightarrow> [])
           in ((xml @ ''<Deleted><Key>'' @ xml_escape key @ ''</Key><VersionId>'' @ xml_escape vid @ ''</VersionId></Deleted>'', files), st, w))
      | ((key, None), (xml, files), st, w) \<Rightarrow>
          (let (removed, st, w) = delete_object st bucket key w;
               files = files @ (case removed of
                  Some v \<Rightarrow> (if \<not> ov_delete_marker v then (case as_file_ref (ov_data v) of Some p \<Rightarrow> [p] | None \<Rightarrow> []) else [])
                | None \<Rightarrow> [])
           in ((xml @ ''<Deleted><Key>'' @ xml_escape key @ ''</Key></Deleted>'', files), st, w)))"

definition handle_delete_objects :: "s3_libs \<Rightarrow> RequestContext \<Rightarrow> s3_bundle \<Rightarrow> s3_world \<Rightarrow> s3_bundle_result" where
  "handle_delete_objects libs ctx b w =
     with_bucket ctx (\<lambda>e. (e, b, w)) (\<lambda>bucket.
       if \<not> (case scope_store ctx b of Some st \<Rightarrow> bucket_exists st bucket | None \<Rightarrow> False) then (no_such_bucket, b, w)
       else let body = (case from_utf8 (raw_body_bytes ctx) of Some s \<Rightarrow> s | None \<Rightarrow> []);
                keys = delete_keys_of body;
                (((xml, files), w), b) = in_store ctx (\<lambda>st. case fold (delete_one bucket) keys (([], []), st, w) of (r, st, w) \<Rightarrow> ((r, w), st)) b;
                w = fold discard_file files w;
                w = fold (\<lambda>(key, _). emit_s3_notification libs (ctx_account_id ctx) (ctx_region ctx) bucket key ''s3:ObjectRemoved:Delete'' b) keys w
            in (ok_xml (xml_decl @ ''<DeleteResult'' @ s3_xmlns @ xml @ ''</DeleteResult>''), b, w))"

text \<open>The data of a copy: inline below the threshold, otherwise written or copied as a file.\<close>

definition copy_data ::
  "s3_libs \<Rightarrow> ObjectLocation \<Rightarrow> ObjectLocation \<Rightarrow> ObjectVersion \<Rightarrow> ObjectDataRef fio" where
  "copy_data libs src dst v =
     (case ov_data v of
        Inline bytes \<Rightarrow>
          (if ov_size v \<le> s3_threshold libs then fio_return (Inline bytes)
           else fio_bind (write_object (s3_fl libs) dst bytes) (\<lambda>p. fio_return (FileRef p)))
      | FileRef path \<Rightarrow>
          (if ov_size v \<le> s3_threshold libs then fio_bind (lift_io (fs_read path)) (\<lambda>bytes. fio_return (Inline bytes))
           else fio_bind (copy_object (s3_fl libs) src dst) (\<lambda>p. fio_return (FileRef p))))"

definition handle_copy_object :: "s3_libs \<Rightarrow> RequestContext \<Rightarrow> s3_bundle \<Rightarrow> s3_world \<Rightarrow> s3_bundle_result" where
  "handle_copy_object libs ctx b w =
     (case bucket_from_path (ctx_path ctx) of
        None \<Rightarrow> (s3_error ''InvalidBucketName'' ''Destination bucket required'' 400, b, w)
      | Some dest_bucket \<Rightarrow>
     (case header (s3_ext libs) ctx ''x-amz-copy-source'' of
        None \<Rightarrow> (s3_error ''InvalidRequest'' ''Missing x-amz-copy-source header'' 400, b, w)
      | Some copy_source \<Rightarrow>
          (let dest_key = key_from_path (ctx_path ctx);
               (src_bucket, src_key) = parse_copy_source (urlencoding_decode copy_source);
               no_dest = s3_error ''NoSuchBucket'' ''Destination bucket does not exist'' 404
           in case scope_store ctx b of
                None \<Rightarrow> (no_dest, b, w)
              | Some st \<Rightarrow>
                  (if \<not> bucket_exists st dest_bucket then (no_dest, b, w)
                   else case get_object st src_bucket src_key of
                          None \<Rightarrow> (s3_error ''NoSuchKey'' ''Source key does not exist'' 404, b, w)
                        | Some v \<Rightarrow>
                            (let (dest_version_id, w) = new_version_id (versioning_of st dest_bucket) w
                             in case copy_data libs (location_of ctx src_bucket src_key (ov_version_id v))
                                       (location_of ctx dest_bucket dest_key dest_version_id) v w of
                                  (Inl _, w) \<Rightarrow> (s3_error ''InternalError'' ''Failed to copy object'' 500, b, w)
                                | (Inr data, w) \<Rightarrow>
                                    (let (now, w) = sw_now w;
                                         version = plain_version dest_version_id now (ov_etag v) (ov_content_type v) (ov_size v) (ov_metadata v) data;
                                         ((prev, copied), b) = in_store ctx (\<lambda>st. let (prev, st) = put_object_version st dest_bucket dest_key version
                                            in ((prev, get_object st dest_bucket dest_key), st)) b;
                                         (etag, modified) = (case copied of Some c \<Rightarrow> (ov_etag c, ov_last_modified c) | None \<Rightarrow> (ov_etag v, ov_last_modified v));
                                         w = discard_opt (replaced_file dest_version_id data prev) w
                                     in (ok_xml (xml_decl @ ''<CopyObjectResult'' @ s3_xmlns @ ''<LastModified>'' @ s3_iso libs modified @
                                           ''</LastModified><ETag>'' @ xml_escape etag @ ''</ETag></CopyObjectResult>''), b, w)))))))"

section \<open>Listings\<close>

record listing =
  li_contents :: "content_item list"
  li_prefixes :: "string list"
  li_truncated :: bool
  li_next :: "string option"

definition max_keys_of :: "RequestContext \<Rightarrow> nat" where
  "max_keys_of ctx = min 1000 (case Option.bind (hm_get (ctx_query_params ctx) ''max-keys'') parse_usize of Some n \<Rightarrow> n | None \<Rightarrow> 1000)"

text \<open>The page that ListObjectsV2 prints. Common prefixes take their share of the page before the contents.\<close>

definition list_v2_page :: "S3Store \<Rightarrow> string \<Rightarrow> string \<Rightarrow> string \<Rightarrow> nat \<Rightarrow> string option \<Rightarrow> listing" where
  "list_v2_page st bucket pfx delimiter max_keys skip_after =
     (let r = list_objects_paged st bucket pfx skip_after (max_keys + 1) delimiter;
          cp_map = lp_common_prefixes r;
          truncated = max_keys < length (lp_contents r) + length cp_map;
          cp_count_kept = min (length cp_map) max_keys;
          content_items = take (max_keys - cp_count_kept) (lp_contents r);
          cp_vec = take cp_count_kept (map fst cp_map);
          next_token =
            (if truncated then
               (if content_items \<noteq> [] then Some (fst (last content_items))
                else if cp_vec \<noteq> [] then bt_get cp_map (last cp_vec)
                else None)
             else None)
      in \<lparr>li_contents = content_items, li_prefixes = cp_vec, li_truncated = truncated, li_next = next_token\<rparr>)"

definition content_xml :: "s3_libs \<Rightarrow> content_item \<Rightarrow> string" where
  "content_xml libs item =
     (case item of (key, lm, etag, n) \<Rightarrow>
        ''<Contents><Key>'' @ xml_escape key @ ''</Key><LastModified>'' @ s3_iso libs lm @ ''</LastModified><ETag>'' @ xml_escape etag @
        ''</ETag><Size>'' @ nat_to_string n @ ''</Size><StorageClass>STANDARD</StorageClass></Contents>'')"

definition prefix_xml :: "string \<Rightarrow> string" where
  "prefix_xml cp = ''<CommonPrefixes><Prefix>'' @ xml_escape cp @ ''</Prefix></CommonPrefixes>''"

definition query_or_empty :: "RequestContext \<Rightarrow> string \<Rightarrow> string" where
  "query_or_empty ctx key = unwrap_str (hm_get (ctx_query_params ctx) key)"

definition handle_list_objects_v2 :: "s3_libs \<Rightarrow> RequestContext \<Rightarrow> S3Store \<Rightarrow> DispatchResponse" where
  "handle_list_objects_v2 libs ctx st =
     with_bucket ctx id (\<lambda>bucket.
       if \<not> bucket_exists st bucket then no_such_bucket
       else let pfx = query_or_empty ctx ''prefix''; delimiter = query_or_empty ctx ''delimiter''; max_keys = max_keys_of ctx;
                skip_after = (case hm_get (ctx_query_params ctx) ''continuation-token'' of
                  Some t \<Rightarrow> Some t | None \<Rightarrow> hm_get (ctx_query_params ctx) ''start-after'');
                page = list_v2_page st bucket pfx delimiter max_keys skip_after
            in ok_xml (xml_decl @ ''<ListBucketResult'' @ s3_xmlns @
                 ''<Name>'' @ xml_escape bucket @ ''</Name><Prefix>'' @ xml_escape pfx @ ''</Prefix><MaxKeys>'' @ nat_to_string max_keys @
                 ''</MaxKeys><KeyCount>'' @ nat_to_string (length (li_contents page) + length (li_prefixes page)) @
                 ''</KeyCount><IsTruncated>'' @ bool_to_string (li_truncated page) @ ''</IsTruncated>'' @
                 (case li_next page of Some t \<Rightarrow> ''<NextContinuationToken>'' @ xml_escape t @ ''</NextContinuationToken>'' | None \<Rightarrow> []) @
                 concat (map (content_xml libs) (li_contents page)) @ concat (map prefix_xml (li_prefixes page)) @
                 ''</ListBucketResult>''))"

definition list_v1_page :: "S3Store \<Rightarrow> string \<Rightarrow> string \<Rightarrow> string \<Rightarrow> nat \<Rightarrow> string \<Rightarrow> listing" where
  "list_v1_page st bucket pfx delimiter max_keys marker =
     (let all_items = List.map_filter (\<lambda>obj. case current obj of
              None \<Rightarrow> None
            | Some v \<Rightarrow> (if starts_with (so_key obj) pfx then Some (so_key obj, ov_last_modified v, ov_etag v, ov_size v) else None))
            (list_objects st bucket);
          all_items = (if marker \<noteq> [] then filter (\<lambda>(k, _). marker < k) all_items else all_items);
          common_prefixes = fold (\<lambda>(k, _) cps. case grouped pfx delimiter k of Some cp \<Rightarrow> bt_insert cp () cps | None \<Rightarrow> cps) all_items [];
          content_items = filter (\<lambda>(k, _). grouped pfx delimiter k = None) all_items;
          truncated = max_keys < length content_items + length common_prefixes;
          cp_vec = take max_keys (map fst common_prefixes);
          content_items = take (max_keys - length cp_vec) content_items;
          next_marker =
            (if truncated then
               (if content_items \<noteq> [] then fst (last content_items)
                else if cp_vec \<noteq> [] then
                  (case find (\<lambda>(k, _). starts_with k (last cp_vec)) (rev (if delimiter = [] then [] else all_items)) of Some (k, _) \<Rightarrow> k | None \<Rightarrow> [])
                else [])
             else [])
      in \<lparr>li_contents = content_items, li_prefixes = cp_vec, li_truncated = truncated,
          li_next = (if truncated \<and> next_marker \<noteq> [] then Some next_marker else None)\<rparr>)"

definition handle_list_objects :: "s3_libs \<Rightarrow> RequestContext \<Rightarrow> S3Store \<Rightarrow> DispatchResponse" where
  "handle_list_objects libs ctx st =
     with_bucket ctx id (\<lambda>bucket.
       if \<not> bucket_exists st bucket then no_such_bucket
       else let pfx = query_or_empty ctx ''prefix''; max_keys = max_keys_of ctx;
                page = list_v1_page st bucket pfx (query_or_empty ctx ''delimiter'') max_keys (query_or_empty ctx ''marker'')
            in ok_xml (xml_decl @ ''<ListBucketResult'' @ s3_xmlns @
                 ''<Name>'' @ xml_escape bucket @ ''</Name><Prefix>'' @ xml_escape pfx @ ''</Prefix><MaxKeys>'' @ nat_to_string max_keys @
                 ''</MaxKeys><IsTruncated>'' @ bool_to_string (li_truncated page) @ ''</IsTruncated>'' @
                 (case li_next page of Some t \<Rightarrow> ''<NextMarker>'' @ xml_escape t @ ''</NextMarker>'' | None \<Rightarrow> []) @
                 concat (map (content_xml libs) (li_contents page)) @ concat (map prefix_xml (li_prefixes page)) @
                 ''</ListBucketResult>''))"

definition version_xml :: "s3_libs \<Rightarrow> S3Object \<Rightarrow> ObjectVersion \<Rightarrow> string" where
  "version_xml libs obj v =
     (let is_latest = (case latest obj of Some fv \<Rightarrow> ov_version_id fv = ov_version_id v | None \<Rightarrow> False);
          common = ''<Key>'' @ xml_escape (so_key obj) @ ''</Key><VersionId>'' @ xml_escape (ov_version_id v) @ ''</VersionId><IsLatest>'' @
            bool_to_string is_latest @ ''</IsLatest><LastModified>'' @ s3_iso libs (ov_last_modified v) @ ''</LastModified>''
      in if ov_delete_marker v then ''<DeleteMarker>'' @ common @ ''</DeleteMarker>''
         else ''<Version>'' @ common @ ''<ETag>'' @ xml_escape (ov_etag v) @ ''</ETag><Size>'' @ nat_to_string (ov_size v) @
              ''</Size><StorageClass>STANDARD</StorageClass></Version>'')"

definition handle_list_object_versions :: "s3_libs \<Rightarrow> RequestContext \<Rightarrow> S3Store \<Rightarrow> DispatchResponse" where
  "handle_list_object_versions libs ctx st =
     with_bucket ctx id (\<lambda>bucket.
       if \<not> bucket_exists st bucket then no_such_bucket
       else let pfx = query_or_empty ctx ''prefix'';
                objects = filter (\<lambda>o'. starts_with (so_key o') pfx) (list_objects st bucket)
            in ok_xml (xml_decl @ ''<ListVersionsResult'' @ s3_xmlns @ ''<Name>'' @ xml_escape bucket @ ''</Name><Prefix>'' @
                 xml_escape pfx @ ''</Prefix><IsTruncated>false</IsTruncated>'' @
                 concat (map (\<lambda>obj. concat (map (version_xml libs obj) (so_versions obj))) objects) @ ''</ListVersionsResult>''))"

end
