(* ===== verification/S3_Service.thy ===== *)
theory S3_Service
  imports S3_Provider
begin

text \<open>
  The rest of the S3 provider, \<^verbatim>\<open>services/s3/src/provider.rs\<close>: multipart uploads, access control lists, policies,
  versioning and notification settings, the derivation of the operation from method, path and query, and the dispatcher.
\<close>

section \<open>Multipart uploads\<close>

definition handle_create_multipart_upload :: "s3_libs \<Rightarrow> RequestContext \<Rightarrow> S3Store \<Rightarrow> s3_world \<Rightarrow> s3_result" where
  "handle_create_multipart_upload libs ctx st w =
     with_bucket ctx (\<lambda>e. (e, st, w)) (\<lambda>bucket.
       let key = key_from_path (ctx_path ctx) in
       if \<not> bucket_exists st bucket then (no_such_bucket, st, w)
       else let (upload_id, st, w) = create_multipart_upload st bucket key (content_type_of (s3_ext libs) ctx) (metadata_of (s3_ext libs) ctx) w
            in (ok_xml (xml_decl @ ''<InitiateMultipartUploadResult'' @ s3_xmlns @ ''<Bucket>'' @ xml_escape bucket @ ''</Bucket><Key>'' @
                  xml_escape key @ ''</Key><UploadId>'' @ xml_escape upload_id @ ''</UploadId></InitiateMultipartUploadResult>''), st, w))"

definition part_location :: "RequestContext \<Rightarrow> string \<Rightarrow> string \<Rightarrow> string \<Rightarrow> u32 \<Rightarrow> ObjectLocation" where
  "part_location ctx bucket key upload_id part_number =
     location_of ctx bucket (''__multipart/'' @ upload_id @ ''/'' @ key) (''part-'' @ nat_to_string (unat part_number))"

definition handle_upload_part :: "s3_libs \<Rightarrow> RequestContext \<Rightarrow> s3_bundle \<Rightarrow> s3_world \<Rightarrow> s3_bundle_result" where
  "handle_upload_part libs ctx b w =
     with_bucket ctx (\<lambda>e. (e, b, w)) (\<lambda>request_bucket.
       let request_key = key_from_path (ctx_path ctx) in
       case hm_get (ctx_query_params ctx) ''uploadId'' of
         None \<Rightarrow> (s3_error ''InvalidRequest'' ''uploadId required'' 400, b, w)
       | Some upload_id \<Rightarrow>
       (case Option.bind (hm_get (ctx_query_params ctx) ''partNumber'') parse_u32 of
         None \<Rightarrow> (s3_error ''InvalidRequest'' ''partNumber required'' 400, b, w)
       | Some part_number \<Rightarrow>
       (case Option.bind (scope_store ctx b) (\<lambda>st. hm_get (s3_uploads st) upload_id) of
         None \<Rightarrow> (no_such_upload, b, w)
       | Some u \<Rightarrow>
           (if mu_bucket u \<noteq> request_bucket \<or> mu_key u \<noteq> request_key then (no_such_upload, b, w)
            else case take_body libs ctx (part_location ctx (mu_bucket u) (mu_key u) upload_id part_number) ''Failed to store part'' w of
                   (Inl e, w) \<Rightarrow> (e, b, w)
                 | (Inr (etag, n, data), w) \<Rightarrow>
                     (let (w, b) = in_store ctx (\<lambda>st. case upload_part_with_etag st upload_id part_number data etag n w of (_, st, w) \<Rightarrow> (w, st)) b
                      in (s3_empty 200 [(''ETag'', etag)], b, w))))))"

text \<open>The parts a completion names: the search goes on right after each opening tag.\<close>

function part_blocks :: "string \<Rightarrow> string list" where
  "part_blocks s =
     (case str_find s ''<Part>'' of
        None \<Rightarrow> []
      | Some i \<Rightarrow>
          (let rest = drop (i + 6) s;
               e = (case str_find rest ''</Part>'' of Some e \<Rightarrow> e | None \<Rightarrow> length rest)
           in take e rest # part_blocks rest))"
  by pat_completeness auto
termination by (relation "measure length") (auto dest!: str_find_SomeD)

declare part_blocks.simps [simp del]

definition requested_parts :: "string \<Rightarrow> (u32 \<times> string) list" where
  "requested_parts body =
     filter (\<lambda>(n, _). 0 < n) (map (\<lambda>part_xml.
       (case Option.bind (extract_xml_text part_xml ''PartNumber'') (\<lambda>v. parse_u32 (trim v)) of Some n \<Rightarrow> n | None \<Rightarrow> 0,
        unwrap_str (map_option trim (extract_xml_text part_xml ''ETag'')))) (part_blocks body))"

definition listed_parts :: "MultipartUpload \<Rightarrow> (u32 \<times> string) list \<Rightarrow> UploadPart list" where
  "listed_parts u parts = List.map_filter (hm_get (mu_parts u)) (sort (map fst parts))"

text \<open>The entity tag of the assembled object, from the tags the client sent; empty when one of them is no MD5 digest.\<close>

definition assembled_etag :: "s3_libs \<Rightarrow> (u32 \<times> string) list \<Rightarrow> u32 list \<Rightarrow> string" where
  "assembled_etag libs parts numbers =
     (let digests = concat (List.map_filter (\<lambda>pn. Option.bind (map_of parts pn) (etag_digest (s3_hex_decode libs))) numbers)
      in if length digests = length numbers * 16 then multipart_tag (s3_ext libs) digests (length numbers) else [])"

fun read_parts :: "UploadPart list \<Rightarrow> string fio" where
  "read_parts [] = fio_return []"
| "read_parts (p # ps) =
     fio_bind (case pt_data p of Inline bytes \<Rightarrow> fio_return bytes | FileRef path \<Rightarrow> lift_io (fs_read path)) (\<lambda>bytes.
     fio_bind (read_parts ps) (\<lambda>rest. fio_return (bytes @ rest)))"

definition part_files :: "UploadPart list \<Rightarrow> string list" where
  "part_files ps = List.map_filter (\<lambda>p. as_file_ref (pt_data p)) ps"

definition assemble ::
  "s3_libs \<Rightarrow> ObjectLocation \<Rightarrow> string \<Rightarrow> UploadPart list \<Rightarrow> s3_world \<Rightarrow>
   (DispatchResponse + string \<times> nat \<times> ObjectDataRef) \<times> s3_world" where
  "assemble libs loc multipart_etag ps w =
     (let estimated_size = sum_list (map pt_size ps);
          etag = (\<lambda>bytes. if multipart_etag = [] then format_etag (md5_digest (s3_ext libs) bytes) else multipart_etag)
      in if estimated_size \<le> s3_threshold libs then
           (case read_parts ps w of
              (Inl _, w) \<Rightarrow> (Inl (s3_error ''InternalError'' ''Failed to read part'' 500), w)
            | (Inr combined, w) \<Rightarrow>
                (Inr (etag combined, length combined, Inline combined), fold discard_file (part_files ps) w))
         else
           (case write_object_from_sync_reader (s3_fl libs) loc (read_parts ps) (Some estimated_size) w of
              (Inl _, w) \<Rightarrow> (Inl (s3_error ''InternalError'' ''Failed to store object'' 500), w)
            | (Inr (path, bytes), w) \<Rightarrow> (Inr (etag bytes, length bytes, FileRef path), fold discard_file (part_files ps) w)))"

definition handle_complete_multipart_upload :: "s3_libs \<Rightarrow> RequestContext \<Rightarrow> s3_bundle \<Rightarrow> s3_world \<Rightarrow> s3_bundle_result" where
  "handle_complete_multipart_upload libs ctx b w =
     with_bucket ctx (\<lambda>e. (e, b, w)) (\<lambda>bucket.
       let key = key_from_path (ctx_path ctx) in
       case hm_get (ctx_query_params ctx) ''uploadId'' of
         None \<Rightarrow> (s3_error ''InvalidRequest'' ''uploadId required'' 400, b, w)
       | Some upload_id \<Rightarrow>
       (case scope_store ctx b of
         None \<Rightarrow> (no_such_upload, b, w)
       | Some st \<Rightarrow>
       (case hm_get (s3_uploads st) upload_id of
         None \<Rightarrow> (no_such_upload, b, w)
       | Some u \<Rightarrow>
           (if mu_bucket u \<noteq> bucket \<or> mu_key u \<noteq> key then (no_such_upload, b, w)
            else let parts = requested_parts (case from_utf8 (raw_body_bytes ctx) of Some s \<Rightarrow> s | None \<Rightarrow> []);
                     ps = listed_parts u parts;
                     (version_id, w) = new_version_id (versioning_of st bucket) w;
                     multipart_etag = assembled_etag libs parts (filter (contains_key (mu_parts u)) (sort (map fst parts)))
                 in case assemble libs (location_of ctx bucket key version_id) multipart_etag ps w of
                      (Inl e, w) \<Rightarrow> (e, b, w)
                    | (Inr (etag, n, data), w) \<Rightarrow>
                        (let (now, w) = sw_now w;
                             version = plain_version version_id now etag (mu_content_type u) n (mu_metadata u) data;
                             (prev, b) = in_store ctx (\<lambda>st. complete_multipart_upload_with_version st upload_id version) b;
                             w = discard_opt (replaced_file version_id data prev) w;
                             location = ''http://localhost:4566/'' @ bucket @ ''/'' @ key
                         in (ok_xml (xml_decl @ ''<CompleteMultipartUploadResult'' @ s3_xmlns @ ''<Location>'' @ xml_escape location @
                               ''</Location><Bucket>'' @ xml_escape bucket @ ''</Bucket><Key>'' @ xml_escape key @ ''</Key><ETag>'' @
                               xml_escape etag @ ''</ETag></CompleteMultipartUploadResult>''), b, w))))))"

definition handle_abort_multipart_upload :: "RequestContext \<Rightarrow> S3Store \<Rightarrow> s3_world \<Rightarrow> s3_result" where
  "handle_abort_multipart_upload ctx st w =
     (case hm_get (ctx_query_params ctx) ''uploadId'' of
        None \<Rightarrow> (s3_error ''InvalidRequest'' ''uploadId required'' 400, st, w)
      | Some upload_id \<Rightarrow>
          (let (found, st) = abort_multipart_upload st upload_id in (if found then s3_empty 204 [] else no_such_upload, st, w)))"

definition handle_list_multipart_uploads :: "s3_libs \<Rightarrow> RequestContext \<Rightarrow> S3Store \<Rightarrow> DispatchResponse" where
  "handle_list_multipart_uploads libs ctx st =
     with_bucket ctx id (\<lambda>bucket.
       if \<not> bucket_exists st bucket then no_such_bucket
       else ok_xml (xml_decl @ ''<ListMultipartUploadsResult'' @ s3_xmlns @ ''<Bucket>'' @ xml_escape bucket @
              ''</Bucket><KeyMarker></KeyMarker><UploadIdMarker></UploadIdMarker><IsTruncated>false</IsTruncated>'' @
              concat (map (\<lambda>u. ''<Upload><Key>'' @ xml_escape (mu_key u) @ ''</Key><UploadId>'' @ xml_escape (mu_upload_id u) @
                ''</UploadId><Initiated>'' @ s3_iso libs (mu_initiated u) @ ''</Initiated></Upload>'') (list_multipart_uploads st bucket)) @
              ''</ListMultipartUploadsResult>''))"

section \<open>Access control lists, policies and versioning\<close>

definition default_acl_xml :: "string \<Rightarrow> string" where
  "default_acl_xml owner =
     xml_decl @ ''<AccessControlPolicy'' @ s3_xmlns @ ''<Owner><ID>'' @ owner @
     ''</ID><DisplayName>localstack</DisplayName></Owner><AccessControlList><Grant><Grantee xmlns:xsi='' @
     quoted ''http://www.w3.org/2001/XMLSchema-instance'' @ '' xsi:type='' @ quoted ''CanonicalUser'' @ ''><ID>'' @ owner @
     ''</ID><DisplayName>localstack</DisplayName></Grantee><Permission>FULL_CONTROL</Permission></Grant></AccessControlList></AccessControlPolicy>''"

definition handle_get_bucket_acl :: "RequestContext \<Rightarrow> S3Store \<Rightarrow> DispatchResponse" where
  "handle_get_bucket_acl ctx st =
     with_bucket ctx id (\<lambda>bucket. if \<not> bucket_exists st bucket then no_such_bucket else ok_xml (default_acl_xml (ctx_account_id ctx)))"

text \<open>A change of the settings of an existing bucket.\<close>

definition update_bucket :: "string \<Rightarrow> (Bucket \<Rightarrow> Bucket) \<Rightarrow> S3Store \<Rightarrow> S3Store" where
  "update_bucket bucket f st =
     (case hm_get (s3_buckets st) bucket of
        Some b \<Rightarrow> st\<lparr>s3_buckets := hm_insert bucket (f b) (s3_buckets st)\<rparr>
      | None \<Rightarrow> st)"

definition change_bucket :: "RequestContext \<Rightarrow> nat \<Rightarrow> (Bucket \<Rightarrow> Bucket) \<Rightarrow> S3Store \<Rightarrow> s3_world \<Rightarrow> s3_result" where
  "change_bucket ctx status f st w =
     with_bucket ctx (\<lambda>e. (e, st, w)) (\<lambda>bucket.
       if \<not> bucket_exists st bucket then (no_such_bucket, st, w) else (s3_empty status [], update_bucket bucket f st, w))"

definition handle_put_bucket_acl :: "s3_libs \<Rightarrow> RequestContext \<Rightarrow> S3Store \<Rightarrow> s3_world \<Rightarrow> s3_result" where
  "handle_put_bucket_acl libs ctx =
     change_bucket ctx 200 (\<lambda>b. b\<lparr>bk_acl := (case header (s3_ext libs) ctx ''x-amz-acl'' of Some a \<Rightarrow> a | None \<Rightarrow> ''private'')\<rparr>)"

definition handle_get_object_acl :: "RequestContext \<Rightarrow> S3Store \<Rightarrow> DispatchResponse" where
  "handle_get_object_acl ctx st =
     with_bucket ctx id (\<lambda>bucket.
       if \<not> bucket_exists st bucket then no_such_bucket
       else if get_object st bucket (key_from_path (ctx_path ctx)) = None then no_such_key
       else ok_xml (default_acl_xml (ctx_account_id ctx)))"

definition handle_put_object_acl :: "RequestContext \<Rightarrow> S3Store \<Rightarrow> DispatchResponse" where
  "handle_put_object_acl ctx st =
     with_bucket ctx id (\<lambda>bucket.
       if \<not> bucket_exists st bucket then no_such_bucket
       else if get_object st bucket (key_from_path (ctx_path ctx)) = None then no_such_key
       else s3_empty 200 [])"

definition handle_get_bucket_policy :: "RequestContext \<Rightarrow> S3Store \<Rightarrow> DispatchResponse" where
  "handle_get_bucket_policy ctx st =
     with_bucket ctx id (\<lambda>bucket.
       case hm_get (s3_buckets st) bucket of
         None \<Rightarrow> no_such_bucket
       | Some b \<Rightarrow>
           (case bk_policy b of
              None \<Rightarrow> s3_error ''NoSuchBucketPolicy'' ''The bucket policy does not exist'' 404
            | Some policy \<Rightarrow> \<lparr>status_code = 200, resp_body = Buffered policy, content_type = ''application/json'', resp_headers = []\<rparr>))"

definition handle_put_bucket_policy :: "RequestContext \<Rightarrow> S3Store \<Rightarrow> s3_world \<Rightarrow> s3_result" where
  "handle_put_bucket_policy ctx = change_bucket ctx 204 (\<lambda>b. b\<lparr>bk_policy := Some (from_utf8_lossy (raw_body_bytes ctx))\<rparr>)"

definition handle_delete_bucket_policy :: "RequestContext \<Rightarrow> S3Store \<Rightarrow> s3_world \<Rightarrow> s3_result" where
  "handle_delete_bucket_policy ctx = change_bucket ctx 204 (\<lambda>b. b\<lparr>bk_policy := None\<rparr>)"

definition handle_get_bucket_versioning :: "RequestContext \<Rightarrow> S3Store \<Rightarrow> DispatchResponse" where
  "handle_get_bucket_versioning ctx st =
     with_bucket ctx id (\<lambda>bucket.
       case hm_get (s3_buckets st) bucket of
         None \<Rightarrow> no_such_bucket
       | Some b \<Rightarrow>
           (let status_xml = (if bk_versioning b = [] then [] else ''<Status>'' @ bk_versioning b @ ''</Status>'')
            in ok_xml (xml_decl @ ''<VersioningConfiguration'' @ s3_xmlns @ status_xml @ ''</VersioningConfiguration>'')))"

definition handle_put_bucket_versioning :: "RequestContext \<Rightarrow> S3Store \<Rightarrow> s3_world \<Rightarrow> s3_result" where
  "handle_put_bucket_versioning ctx =
     change_bucket ctx 200 (\<lambda>b. b\<lparr>bk_versioning := unwrap_str (map_option trim
       (extract_xml_text (case from_utf8 (raw_body_bytes ctx) of Some s \<Rightarrow> s | None \<Rightarrow> []) ''Status''))\<rparr>)"

section \<open>Notification settings\<close>

definition notification_xml :: "NotificationConfig \<Rightarrow> string" where
  "notification_xml nc =
     (let (tag, arn_tag) =
            (if nc_destination_type nc = ''sns'' then (''TopicConfiguration'', ''Topic'')
             else if nc_destination_type nc = ''lambda'' then (''CloudFunctionConfiguration'', ''CloudFunction'')
             else (''QueueConfiguration'', ''Queue''));
          rule = (\<lambda>name v. case v of
             Some x \<Rightarrow> ''<FilterRule><Name>'' @ name @ ''</Name><Value>'' @ xml_escape x @ ''</Value></FilterRule>'' | None \<Rightarrow> []);
          filters =
            (if nc_prefix_filter nc \<noteq> None \<or> nc_suffix_filter nc \<noteq> None
             then ''<Filter><S3Key>'' @ rule ''prefix'' (nc_prefix_filter nc) @ rule ''suffix'' (nc_suffix_filter nc) @ ''</S3Key></Filter>''
             else [])
      in ''<'' @ tag @ ''><Id>'' @ xml_escape (nc_id nc) @ ''</Id><'' @ arn_tag @ ''>'' @ xml_escape (nc_destination_arn nc) @ ''</'' @ arn_tag @ ''>'' @
         concat (map (\<lambda>ev. ''<Event>'' @ xml_escape ev @ ''</Event>'') (nc_events nc)) @ filters @ ''</'' @ tag @ ''>'')"

definition handle_get_bucket_notification :: "RequestContext \<Rightarrow> S3Store \<Rightarrow> DispatchResponse" where
  "handle_get_bucket_notification ctx st =
     with_bucket ctx id (\<lambda>bucket.
       case hm_get (s3_buckets st) bucket of
         None \<Rightarrow> no_such_bucket
       | Some b \<Rightarrow> ok_xml (xml_decl @ ''<NotificationConfiguration'' @ s3_xmlns @ concat (map notification_xml (bk_notifications b)) @
                      ''</NotificationConfiguration>''))"

definition handle_put_bucket_notification :: "RequestContext \<Rightarrow> S3Store \<Rightarrow> s3_world \<Rightarrow> s3_result" where
  "handle_put_bucket_notification ctx st w =
     with_bucket ctx (\<lambda>e. (e, st, w)) (\<lambda>bucket.
       if \<not> bucket_exists st bucket then (no_such_bucket, st, w)
       else case from_utf8 (raw_body_bytes ctx) of
              None \<Rightarrow> (s3_error ''MalformedXML'' ''The XML you provided was not valid UTF-8'' 400, st, w)
            | Some body \<Rightarrow>
                (let (configs, w) = parse_notification_configs body ''CloudFunctionConfiguration'' ''CloudFunction'' ''lambda''
                       (parse_notification_configs body ''TopicConfiguration'' ''Topic'' ''sns''
                         (parse_notification_configs body ''QueueConfiguration'' ''Queue'' ''sqs'' ([], w)));
                     body_has_configs = (str_contains body ''QueueConfiguration'' \<or> str_contains body ''TopicConfiguration'' \<or>
                       str_contains body ''CloudFunctionConfiguration'')
                 in if body_has_configs \<and> configs = []
                    then (s3_error ''MalformedXML''
                            ''The XML you provided was ill-formed or did not validate against our published schema'' 400, st, w)
                    else (s3_empty 200 [], update_bucket bucket (\<lambda>b. b\<lparr>bk_notifications := configs\<rparr>) st, w)))"

section \<open>Operations\<close>

definition derive_s3_operation :: "RequestContext \<Rightarrow> string" where
  "derive_s3_operation ctx =
     (let method = ctx_method ctx;
          has_key = path_has_key (ctx_path ctx);
          has_bucket = path_has_bucket (ctx_path ctx);
          q = contains_key (ctx_query_params ctx)
      in if method = ''GET'' \<and> \<not> has_bucket then ''ListBuckets''
         else if method = ''GET'' \<and> \<not> has_key then
           (if q ''location'' then ''GetBucketLocation''
            else if q ''acl'' then ''GetBucketAcl''
            else if q ''policy'' then ''GetBucketPolicy''
            else if q ''versioning'' then ''GetBucketVersioning''
            else if q ''versions'' then ''ListObjectVersions''
            else if q ''notification'' then ''GetBucketNotificationConfiguration''
            else if q ''uploads'' then ''ListMultipartUploads''
            else if hm_get (ctx_query_params ctx) ''list-type'' = Some ''2'' then ''ListObjectsV2''
            else ''ListObjects'')
         else if method = ''GET'' then
           (if q ''acl'' then ''GetObjectAcl''
            else if q ''X-Amz-Signature'' \<or> q ''x-amz-signature'' then ''PresignedGetObject''
            else ''GetObject'')
         else if method = ''HEAD'' \<and> has_bucket then (if has_key then ''HeadObject'' else ''HeadBucket'')
         else if method = ''PUT'' \<and> has_bucket \<and> \<not> has_key then
           (if q ''acl'' then ''PutBucketAcl''
            else if q ''policy'' then ''PutBucketPolicy''
            else if q ''versioning'' then ''PutBucketVersioning''
            else if q ''notification'' then ''PutBucketNotificationConfiguration''
            else ''CreateBucket'')
         else if method = ''PUT'' \<and> has_bucket then
           (if contains_key (ctx_headers ctx) ''x-amz-copy-source'' then ''CopyObject''
            else if q ''uploadId'' \<and> q ''partNumber'' then ''UploadPart''
            else if q ''acl'' then ''PutObjectAcl''
            else ''PutObject'')
         else if method = ''DELETE'' \<and> has_bucket \<and> \<not> has_key then
           (if q ''policy'' then ''DeleteBucketPolicy'' else ''DeleteBucket'')
         else if method = ''DELETE'' \<and> has_bucket then
           (if q ''uploadId'' then ''AbortMultipartUpload'' else ''DeleteObject'')
         else if method = ''POST'' \<and> has_bucket \<and> \<not> has_key then
           (if q ''delete'' then ''DeleteObjects'' else if q ''uploads'' then ''CreateMultipartUpload'' else ''PostObject'')
         else if method = ''POST'' \<and> has_bucket then
           (if q ''uploadId'' then ''CompleteMultipartUpload'' else if q ''uploads'' then ''CreateMultipartUpload'' else ''PostObject'')
         else ''Unknown('' @ method @ '')'')"

definition derive_s3_operation_static :: "RequestContext \<Rightarrow> string" where
  "derive_s3_operation_static ctx =
     (let op = derive_s3_operation ctx in if op = ''Unknown('' @ ctx_method ctx @ '')'' then ''Unknown'' else op)"

section \<open>Dispatch\<close>

type_synonym s3_bundle_op = "(S3Store, s3_world) bundle_op"

definition s3_missing_bucket :: "RequestContext \<Rightarrow> DispatchResponse" where
  "s3_missing_bucket ctx =
     s3_bucket_error ''NoSuchBucket'' ''The specified bucket does not exist'' (unwrap_str (bucket_from_path (ctx_path ctx))) 404"

text \<open>The operations that only read the store of the scope, with the answer when there is none.\<close>

definition s3_read_op :: "s3_libs \<Rightarrow> RequestContext \<Rightarrow> string \<Rightarrow> (DispatchResponse \<times> (S3Store \<Rightarrow> DispatchResponse)) option" where
  "s3_read_op libs ctx op =
     (if op = ''ListBuckets'' then Some (ok_xml (list_buckets_open @ ''</Buckets></ListAllMyBucketsResult>''), handle_list_buckets libs)
      else if op = ''HeadBucket'' then Some (s3_missing_bucket ctx, handle_head_bucket ctx)
      else if op = ''GetBucketLocation'' then Some (s3_missing_bucket ctx, handle_get_bucket_location ctx)
      else if op = ''HeadObject'' then Some (no_such_bucket, handle_head_object libs ctx)
      else if op = ''ListObjectsV2'' then Some (no_such_bucket, handle_list_objects_v2 libs ctx)
      else if op = ''ListObjects'' then Some (no_such_bucket, handle_list_objects libs ctx)
      else if op = ''ListMultipartUploads'' then Some (no_such_bucket, handle_list_multipart_uploads libs ctx)
      else if op = ''GetBucketAcl'' then Some (no_such_bucket, handle_get_bucket_acl ctx)
      else if op = ''GetObjectAcl'' then Some (no_such_bucket, handle_get_object_acl ctx)
      else if op = ''PutObjectAcl'' then Some (no_such_bucket, handle_put_object_acl ctx)
      else if op = ''GetBucketPolicy'' then Some (no_such_bucket, handle_get_bucket_policy ctx)
      else if op = ''GetBucketVersioning'' then Some (no_such_bucket, handle_get_bucket_versioning ctx)
      else if op = ''ListObjectVersions'' then Some (no_such_bucket, handle_list_object_versions libs ctx)
      else if op = ''GetBucketNotificationConfiguration'' then Some (no_such_bucket, handle_get_bucket_notification ctx)
      else None)"

text \<open>The operations that change the store of the scope under its lock.\<close>

definition s3_store_op :: "s3_libs \<Rightarrow> RequestContext \<Rightarrow> string \<Rightarrow> (S3Store \<Rightarrow> s3_world \<Rightarrow> s3_result) option" where
  "s3_store_op libs ctx op =
     (if op = ''CreateBucket'' then Some (handle_create_bucket ctx)
      else if op = ''CreateMultipartUpload'' then Some (handle_create_multipart_upload libs ctx)
      else if op = ''AbortMultipartUpload'' then Some (handle_abort_multipart_upload ctx)
      else if op = ''PutBucketAcl'' then Some (handle_put_bucket_acl libs ctx)
      else if op = ''PutBucketPolicy'' then Some (handle_put_bucket_policy ctx)
      else if op = ''DeleteBucketPolicy'' then Some (handle_delete_bucket_policy ctx)
      else if op = ''PutBucketVersioning'' then Some (handle_put_bucket_versioning ctx)
      else if op = ''PutBucketNotificationConfiguration'' then Some (handle_put_bucket_notification ctx)
      else None)"

text \<open>An operation that emits an event when it succeeds.\<close>

definition notifying ::
  "s3_libs \<Rightarrow> RequestContext \<Rightarrow> nat \<Rightarrow> string \<Rightarrow> (s3_bundle \<Rightarrow> s3_world \<Rightarrow> s3_bundle_result) \<Rightarrow> s3_bundle \<Rightarrow> s3_world \<Rightarrow> s3_bundle_result" where
  "notifying libs ctx status event_name f b w =
     (let (resp, b, w) = f b w
      in if status_code resp = status
         then (resp, b, emit_s3_notification libs (ctx_account_id ctx) (ctx_region ctx) (unwrap_str (bucket_from_path (ctx_path ctx)))
                          (key_from_path (ctx_path ctx)) event_name b w)
         else (resp, b, w))"

text \<open>The operations that take the lock of the store only for parts of their work.\<close>

definition s3_async_op :: "s3_libs \<Rightarrow> RequestContext \<Rightarrow> string \<Rightarrow> (s3_bundle \<Rightarrow> s3_world \<Rightarrow> s3_bundle_result) option" where
  "s3_async_op libs ctx op =
     (if op = ''DeleteBucket'' then Some (handle_delete_bucket libs ctx)
      else if op = ''PutObject'' then Some (notifying libs ctx 200 ''s3:ObjectCreated:Put'' (handle_put_object libs ctx))
      else if op = ''GetObject'' \<or> op = ''PresignedGetObject'' then Some (handle_get_object libs ctx)
      else if op = ''DeleteObject'' then Some (notifying libs ctx 204 ''s3:ObjectRemoved:Delete'' (handle_delete_object ctx))
      else if op = ''DeleteObjects'' then Some (handle_delete_objects libs ctx)
      else if op = ''CopyObject'' then Some (notifying libs ctx 200 ''s3:ObjectCreated:Copy'' (handle_copy_object libs ctx))
      else if op = ''UploadPart'' then Some (handle_upload_part libs ctx)
      else if op = ''CompleteMultipartUpload''
        then Some (notifying libs ctx 200 ''s3:ObjectCreated:CompleteMultipartUpload'' (handle_complete_multipart_upload libs ctx))
      else None)"

definition s3_op :: "s3_libs \<Rightarrow> RequestContext \<Rightarrow> string \<Rightarrow> s3_bundle_op option" where
  "s3_op libs ctx op =
     (case s3_read_op libs ctx op of
        Some (missing, f) \<Rightarrow> Some (reading ctx missing f)
      | None \<Rightarrow>
     (case s3_store_op libs ctx op of
        Some f \<Rightarrow> Some (on_created S3Store_new ctx (\<lambda>st w. Some (f st w)))
      | None \<Rightarrow> map_option (\<lambda>f b w. Some (f b w)) (s3_async_op libs ctx op)))"

definition s3_dispatch ::
  "s3_libs \<Rightarrow> RequestContext \<Rightarrow> s3_bundle \<Rightarrow> s3_world \<Rightarrow> ((DispatchError + DispatchResponse) \<times> s3_bundle \<times> s3_world) option" where
  "s3_dispatch libs ctx b w =
     (let op = derive_s3_operation ctx in
      case s3_op libs ctx op of
        None \<Rightarrow> Some (Inl (NotImplemented op), b, w)
      | Some f \<Rightarrow> map_option (\<lambda>(r, b, w). (Inr r, b, w)) (f b w))"

definition s3_storage_snapshot :: "s3_libs \<Rightarrow> s3_bundle \<Rightarrow> Value" where
  "s3_storage_snapshot libs b =
     (let attr = (\<lambda>k v. json_object [(''key'', JString k), (''value'', JString v)]);
          buckets = concat (map (\<lambda>(key, st). map (\<lambda>(name, bk).
            let object_count = (case hm_get (s3_objects st) name of
                  Some m \<Rightarrow> length (filter (\<lambda>obj. case current obj of Some v \<Rightarrow> \<not> ov_delete_marker v | None \<Rightarrow> False) (map snd m))
                | None \<Rightarrow> 0)
            in json_object [(''id'', JString (key_account_id key @ '':'' @ key_region key @ '':'' @ name)), (''kind'', JString ''bucket''),
                 (''created_at'', JString (s3_rfc3339 libs (bk_creation_date bk))),
                 (''attributes'', JArray [attr ''name'' name, attr ''account'' (key_account_id key), attr ''region'' (key_region key),
                    attr ''object_count'' (nat_to_string object_count), attr ''versioning'' (bk_versioning bk)])])
            (s3_buckets st)) (bundle_iter b))
      in json_object [(''kind'', JString ''s3''), (''buckets'', JArray buckets)])"

text \<open>\<^verbatim>\<open>start\<close>: the base directory is created and orphaned files are removed.\<close>

definition s3_start :: "s3_libs \<Rightarrow> unit fio" where
  "s3_start libs =
     fio_bind (lift_io (create_dir_all (fl_base_dir (s3_fl libs)))) (\<lambda>_ w. (Inr (), snd (cleanup_orphaned_temps (s3_fl libs) w)))"

end
