(* ===== verification/S3_Invariant.thy ===== *)
theory S3_Invariant
  imports S3_Service
begin

text \<open>
  What holds of the S3 stores after any sequence of requests, whatever the file system does: the objects of a
  bucket are sorted by key and filed under it, every object has a version, buckets and object maps belong
  together and every upload belongs to an existing bucket.
\<close>

definition objects_ok :: "object_map \<Rightarrow> bool" where
  "objects_ok m \<longleftrightarrow> bt_wf m \<and> (\<forall>k obj. bt_get m k = Some obj \<longrightarrow> so_key obj = k \<and> k \<noteq> [] \<and> so_versions obj \<noteq> [])"

definition s3_store_ok :: "S3Store \<Rightarrow> bool" where
  "s3_store_ok st \<longleftrightarrow>
     (\<forall>name b. hm_get (s3_buckets st) name = Some b \<longrightarrow> bk_name b = name) \<and>
     (\<forall>name. bucket_exists st name \<longleftrightarrow> hm_get (s3_objects st) name \<noteq> None) \<and>
     (\<forall>name m. hm_get (s3_objects st) name = Some m \<longrightarrow> objects_ok m) \<and>
     (\<forall>u \<in> snd ` set (s3_uploads st). bucket_exists st (mu_bucket u))"

section \<open>Object maps\<close>

lemma objects_ok_Nil [simp]: "objects_ok []"
  by (simp add: objects_ok_def)

lemma objects_ok_insert:
  "objects_ok m \<Longrightarrow> so_key obj = k \<Longrightarrow> k \<noteq> [] \<Longrightarrow> so_versions obj \<noteq> [] \<Longrightarrow> objects_ok (bt_insert k obj m)"
  by (auto simp: objects_ok_def bt_wf_insert map_of_bt_insert)

lemma objects_ok_remove: "objects_ok m \<Longrightarrow> objects_ok (bt_remove k m)"
  by (auto simp: objects_ok_def bt_wf_def delete_conv' sorted_wrt_map_fst_delete split: if_splits)

lemma insert_version_ok:
  assumes "objects_ok m" "k \<noteq> []"
  shows "objects_ok (snd (insert_version m k v))"
  using assms
  by (auto simp: insert_version_def S3Object_new_def push_version_def objects_ok_def [of m] split: option.splits intro!: objects_ok_insert)

section \<open>Stores\<close>

lemma uploads_subset:
  "snd ` set (hm_insert k u us) \<subseteq> insert u (snd ` set us)" "snd ` set (hm_remove k us) \<subseteq> snd ` set us"
proof -
  show "snd ` set (hm_insert k u us) \<subseteq> insert u (snd ` set us)"
    by (induction us) auto
  show "snd ` set (hm_remove k us) \<subseteq> snd ` set us"
    by (auto simp: delete_eq_filter_fst)
qed

lemma bucket_exists_set [simp]:
  "bucket_exists (set_objects st b m) n = bucket_exists st n"
  "bucket_exists (s3_uploads_update f st) n = bucket_exists st n"
  by (simp_all add: bucket_exists_def set_objects_def)

lemma s3_store_ok_objects: "s3_store_ok st \<Longrightarrow> bucket_exists st b \<Longrightarrow> objects_ok m \<Longrightarrow> s3_store_ok (set_objects st b m)"
  unfolding s3_store_ok_def bucket_exists_set by (auto simp: set_objects_def update_conv' split: if_splits)

lemma s3_store_ok_uploads:
  "s3_store_ok st \<Longrightarrow> \<forall>u \<in> snd ` set us. bucket_exists st (mu_bucket u) \<Longrightarrow> s3_store_ok (st\<lparr>s3_uploads := us\<rparr>)"
  by (auto simp: s3_store_ok_def bucket_exists_def)

lemma s3_store_ok_remove_upload: "s3_store_ok st \<Longrightarrow> s3_store_ok (st\<lparr>s3_uploads := hm_remove k (s3_uploads st)\<rparr>)"
  using uploads_subset(2) by (intro s3_store_ok_uploads) (fastforce simp: s3_store_ok_def)+

lemma s3_store_ok_insert_upload:
  "s3_store_ok st \<Longrightarrow> bucket_exists st (mu_bucket u) \<Longrightarrow> s3_store_ok (st\<lparr>s3_uploads := hm_insert k u (s3_uploads st)\<rparr>)"
  using uploads_subset(1) by (intro s3_store_ok_uploads) (fastforce simp: s3_store_ok_def)+

lemma s3_store_ok_entry: "s3_store_ok st \<Longrightarrow> objects_ok (entry_or_default st b)"
  by (auto simp: s3_store_ok_def entry_or_default_def split: option.splits)

lemma s3_store_ok_get: "s3_store_ok st \<Longrightarrow> hm_get (s3_objects st) b = Some m \<Longrightarrow> objects_ok m \<and> bucket_exists st b"
  by (auto simp: s3_store_ok_def)

lemma create_bucket_ok:
  assumes "s3_store_ok st" "create_bucket st name reg w = (st', w')"
  shows "s3_store_ok st'"
proof -
  have "st' = set_objects (st\<lparr>s3_buckets := hm_insert name (Bucket_new (fst (sw_now w)) name reg) (s3_buckets st)\<rparr>) name (entry_or_default st name)"
    using assms(2) by (auto simp: create_bucket_def sw_now_def Let_def entry_or_default_def)
  then show ?thesis
    using assms(1) s3_store_ok_entry [OF assms(1), of name]
    by (auto simp: s3_store_ok_def set_objects_def bucket_exists_def contains_key_def update_conv' Bucket_new_def split: if_splits)
qed

lemma delete_bucket_ok:
  assumes "s3_store_ok st" "\<not> has_incomplete_multipart_uploads st name"
  shows "s3_store_ok (snd (delete_bucket st name))"
  using assms
  by (auto simp: s3_store_ok_def delete_bucket_def bucket_exists_def contains_key_def delete_conv' has_incomplete_multipart_uploads_def
      list_ex_iff hm_values_def split: if_splits)

lemma put_object_version_ok:
  assumes "s3_store_ok st" "bucket_exists st b" "k \<noteq> []"
  shows "s3_store_ok (snd (put_object_version st b k v))"
proof -
  obtain m where m: "hm_get (s3_objects st) b = Some m" using assms by (auto simp: s3_store_ok_def)
  then have "objects_ok (snd (insert_version m k v))"
    using s3_store_ok_get [OF assms(1) m] insert_version_ok assms(3) by blast
  then show ?thesis
    using s3_store_ok_objects [OF assms(1,2)] m by (simp add: put_object_version_def case_prod_beta Let_def)
qed

lemma delete_object_ok:
  assumes "s3_store_ok st" "k \<noteq> []"
  shows "s3_store_ok (fst (snd (delete_object st b k w)))"
proof (cases "hm_get (s3_objects st) b")
  case (Some m)
  note m = s3_store_ok_get [OF assms(1) Some]
  then have "objects_ok (bt_insert k ((case bt_get m k of Some obj \<Rightarrow> obj | None \<Rightarrow> \<lparr>so_key = k, so_versions = []\<rparr>)
      \<lparr>so_versions := v # vs\<rparr>) m)" for v vs
    using assms(2) by (auto simp: objects_ok_def [of m] split: option.splits intro!: objects_ok_insert)
  with m Some show ?thesis
    using s3_store_ok_objects [OF assms(1)] objects_ok_remove
    by (simp add: delete_object_def svc_world_defs Let_def)
qed (use assms in \<open>simp add: delete_object_def\<close>)

lemma delete_object_version_ok:
  assumes "s3_store_ok st"
  shows "s3_store_ok (snd (delete_object_version st b k vid))"
proof (cases "hm_get (s3_objects st) b")
  case (Some m)
  note m = s3_store_ok_get [OF assms Some]
  have "objects_ok (bt_insert k (obj\<lparr>so_versions := vs\<rparr>) m)" if "bt_get m k = Some obj" "vs \<noteq> []" for obj vs
    using m that by (auto simp: objects_ok_def [of m] intro!: objects_ok_insert)
  with m Some show ?thesis
    using s3_store_ok_objects [OF assms] objects_ok_remove assms
    by (auto simp: delete_object_version_def split: option.splits prod.splits)
qed (use assms in \<open>simp add: delete_object_version_def\<close>)

lemma complete_ok:
  assumes "s3_store_ok st" "\<And>u. hm_get (s3_uploads st) uid = Some u \<Longrightarrow> mu_key u \<noteq> []"
  shows "s3_store_ok (snd (complete_multipart_upload_with_version st uid v))"
proof (cases "hm_get (s3_uploads st) uid")
  case (Some u)
  let ?st = "st\<lparr>s3_uploads := hm_remove uid (s3_uploads st)\<rparr>"
  have ok: "s3_store_ok ?st" using s3_store_ok_remove_upload [OF assms(1)] .
  have "u \<in> snd ` set (s3_uploads st)" using map_of_SomeD [OF Some] by force
  then have "bucket_exists ?st (mu_bucket u)" using assms(1) by (auto simp: s3_store_ok_def)
  with ok Some assms(2) [OF Some] show ?thesis
    by (simp add: complete_multipart_upload_with_version_def case_prod_beta Let_def s3_store_ok_objects s3_store_ok_entry insert_version_ok)
qed (use assms in \<open>simp add: complete_multipart_upload_with_version_def\<close>)

lemma upload_part_ok:
  assumes "s3_store_ok st"
  shows "s3_store_ok (fst (snd (upload_part_with_etag st uid n d e sz w)))"
proof (cases "hm_get (s3_uploads st) uid")
  case (Some u)
  have "u \<in> snd ` set (s3_uploads st)" using map_of_SomeD [OF Some] by force
  then have "bucket_exists st (mu_bucket u)" using assms(1) by (auto simp: s3_store_ok_def)
  with Some assms show ?thesis
    by (simp add: upload_part_with_etag_def sw_now_def Let_def s3_store_ok_insert_upload)
qed (use assms in \<open>simp add: upload_part_with_etag_def\<close>)

lemma update_bucket_ok: "s3_store_ok st \<Longrightarrow> (\<And>b. bk_name (f b) = bk_name b) \<Longrightarrow> s3_store_ok (update_bucket n f st)"
  by (auto simp: update_bucket_def s3_store_ok_def bucket_exists_def contains_key_def update_conv' split: option.splits if_splits)

interpretation s3_scopes: scope_invariant s3_store_ok S3Store_new
  by unfold_locales (simp add: s3_store_ok_def S3Store_new_def bucket_exists_def contains_key_def)

section \<open>Handlers on the store of a scope\<close>

definition s3_keeps :: "(S3Store \<Rightarrow> s3_world \<Rightarrow> s3_result) \<Rightarrow> bool" where
  "s3_keeps f \<longleftrightarrow> (\<forall>st w. s3_store_ok st \<longrightarrow> s3_store_ok (fst (snd (f st w))))"

lemma with_bucket_split: "P (with_bucket ctx fail k) \<longleftrightarrow>
  (bucket_from_path (ctx_path ctx) = None \<longrightarrow> P (fail bucket_name_required)) \<and>
  (\<forall>b. bucket_from_path (ctx_path ctx) = Some b \<longrightarrow> P (k b))"
  by (auto simp: with_bucket_def split: option.splits)

lemma s3_store_op_keeps:
  assumes "s3_store_op libs ctx op = Some f"
  shows "s3_keeps f"
proof -
  have "s3_keeps (handle_create_bucket ctx)"
    using create_bucket_ok [OF _ prod.collapse [symmetric]]
    by (auto simp: s3_keeps_def handle_create_bucket_def Let_def case_prod_beta split: with_bucket_split)
  moreover have "s3_keeps (handle_create_multipart_upload libs ctx)"
    by (auto simp: s3_keeps_def handle_create_multipart_upload_def create_multipart_upload_def svc_world_defs Let_def
        s3_store_ok_insert_upload split: with_bucket_split)
  moreover have "s3_keeps (handle_abort_multipart_upload ctx)"
    by (auto simp: s3_keeps_def handle_abort_multipart_upload_def abort_multipart_upload_def s3_store_ok_remove_upload split: option.splits)
  moreover have "s3_keeps (change_bucket ctx n g)" if "\<And>b. bk_name (g b) = bk_name b" for n g
    using that by (auto simp: s3_keeps_def change_bucket_def update_bucket_ok split: with_bucket_split)
  moreover have "s3_keeps (handle_put_bucket_notification ctx)"
    by (auto simp: s3_keeps_def handle_put_bucket_notification_def Let_def case_prod_beta update_bucket_ok
        split: with_bucket_split option.splits)
  ultimately show ?thesis
    using assms
    by (auto simp: s3_store_op_def handle_put_bucket_acl_def handle_put_bucket_policy_def handle_delete_bucket_policy_def
        handle_put_bucket_versioning_def split: if_splits)
qed

section \<open>Handlers on all scopes\<close>

lemma in_store_keeps:
  assumes "s3_scopes.all_scopes b" "in_store ctx f b = (x, b')" "\<And>st. s3_store_ok st \<Longrightarrow> s3_store_ok (snd (f st))"
  shows "s3_scopes.all_scopes b'"
proof -
  obtain st b1 where g: "get_or_create S3Store_new b (ctx_account_id ctx) (ctx_region ctx) = (st, b1)" by fastforce
  then have "b' = write_back b1 (ctx_account_id ctx) (ctx_region ctx) (snd (f st))"
    using assms(2) by (auto simp: in_store_def case_prod_beta Let_def)
  with s3_scopes.get_or_create_all [OF assms(1) g] assms(3) s3_scopes.all_scopes_write show ?thesis by blast
qed

lemma in_store_existing:
  assumes "scope_store ctx b = Some st"
  shows "in_store ctx f b = (fst (f st), write_back b (ctx_account_id ctx) (ctx_region ctx) (snd (f st)))"
  using assms by (simp add: in_store_def scope_store_def get_or_create_def bundle_get_eq Let_def case_prod_beta)

lemma scope_store_ok: "s3_scopes.all_scopes b \<Longrightarrow> scope_store ctx b = Some st \<Longrightarrow> s3_store_ok st"
  unfolding scope_store_def by (rule s3_scopes.all_scopes_get)

definition s3_bundle_keeps :: "(s3_bundle \<Rightarrow> s3_world \<Rightarrow> s3_bundle_result) \<Rightarrow> bool" where
  "s3_bundle_keeps f \<longleftrightarrow> (\<forall>b w. s3_scopes.all_scopes b \<longrightarrow> s3_scopes.all_scopes (fst (snd (f b w))))"

lemma s3_bundle_keepsI: "(\<And>b w. s3_scopes.all_scopes b \<Longrightarrow> s3_scopes.all_scopes (fst (snd (f b w)))) \<Longrightarrow> s3_bundle_keeps f"
  by (simp add: s3_bundle_keeps_def)

lemma handle_delete_bucket_keeps: "s3_bundle_keeps (handle_delete_bucket libs ctx)"
proof (rule s3_bundle_keepsI)
  fix b w
  assume b: "s3_scopes.all_scopes b"
  show "s3_scopes.all_scopes (fst (snd (handle_delete_bucket libs ctx b w)))"
    using b s3_scopes.all_scopes_write [OF b delete_bucket_ok] scope_store_ok [OF b]
    by (auto simp: handle_delete_bucket_def in_store_existing case_prod_beta Let_def split: with_bucket_split option.splits)
qed

lemma handle_put_object_keeps:
  assumes "key_from_path (ctx_path ctx) \<noteq> []"
  shows "s3_bundle_keeps (handle_put_object libs ctx)"
proof (rule s3_bundle_keepsI)
  fix b w
  assume b: "s3_scopes.all_scopes b"
  show "s3_scopes.all_scopes (fst (snd (handle_put_object libs ctx b w)))"
    using b s3_scopes.all_scopes_write [OF b put_object_version_ok] scope_store_ok [OF b] assms
    by (auto simp: handle_put_object_def case_prod_beta Let_def split: with_bucket_split option.splits sum.splits prod.splits)
qed

lemma handle_get_object_keeps: "s3_bundle_keeps (handle_get_object libs ctx)"
  by (rule s3_bundle_keepsI) (auto simp: handle_get_object_def Let_def split: with_bucket_split option.splits sum.splits prod.splits)

lemma handle_delete_object_keeps:
  assumes "key_from_path (ctx_path ctx) \<noteq> []"
  shows "s3_bundle_keeps (handle_delete_object ctx)"
proof (rule s3_bundle_keepsI)
  fix b and w :: s3_world
  assume b: "s3_scopes.all_scopes b"
  have d: "s3_store_ok (snd (case delete_object st bk (key_from_path (ctx_path ctx)) w of (d, st, w) \<Rightarrow> ((d, w), st)))"
    if "s3_store_ok st" for st bk using delete_object_ok [OF that assms, of bk w] by (simp add: case_prod_beta)
  show "s3_scopes.all_scopes (fst (snd (handle_delete_object ctx b w)))"
    using b s3_scopes.all_scopes_write [OF b d] s3_scopes.all_scopes_write [OF b delete_object_version_ok] scope_store_ok [OF b]
    by (auto simp: handle_delete_object_def in_store_existing case_prod_beta Let_def split: with_bucket_split option.splits)
qed

lemma delete_one_ok:
  "s3_store_ok (fst (snd acc)) \<Longrightarrow> fst kv \<noteq> [] \<Longrightarrow> s3_store_ok (fst (snd (delete_one bucket kv acc)))"
  using delete_object_ok delete_object_version_ok
  by (cases kv; cases acc; cases "snd kv") (auto simp: delete_one_def case_prod_beta Let_def)

lemma delete_keys_nonempty: "kv \<in> set (delete_keys_of body) \<Longrightarrow> fst kv \<noteq> []"
  by (auto simp: delete_keys_of_def List.map_filter_def Let_def split: if_splits)

lemma delete_all_ok:
  assumes "\<forall>kv \<in> set keys. fst kv \<noteq> []"
  shows "s3_store_ok (fst (snd acc)) \<Longrightarrow> s3_store_ok (fst (snd (fold (delete_one bucket) keys acc)))"
  using assms by (induction keys arbitrary: acc) (auto simp: delete_one_ok)

lemma handle_delete_objects_keeps: "s3_bundle_keeps (handle_delete_objects libs ctx)"
proof (rule s3_bundle_keepsI)
  fix b w
  assume b: "s3_scopes.all_scopes b"
  have d: "s3_store_ok (snd (case fold (delete_one bk) (delete_keys_of body) (([], []), st, w) of (r, st, w) \<Rightarrow> ((r, w), st)))"
    if "s3_store_ok st" for st bk body
    using delete_all_ok [of "delete_keys_of body" "(([], []), st, w)" bk] delete_keys_nonempty that by (simp add: case_prod_beta)
  show "s3_scopes.all_scopes (fst (snd (handle_delete_objects libs ctx b w)))"
    using b s3_scopes.all_scopes_write [OF b d] scope_store_ok [OF b]
    by (auto simp: handle_delete_objects_def in_store_existing case_prod_beta Let_def split: with_bucket_split option.splits)
qed

lemma handle_copy_object_keeps:
  assumes "key_from_path (ctx_path ctx) \<noteq> []"
  shows "s3_bundle_keeps (handle_copy_object libs ctx)"
proof (rule s3_bundle_keepsI)
  fix b w
  assume b: "s3_scopes.all_scopes b"
  show "s3_scopes.all_scopes (fst (snd (handle_copy_object libs ctx b w)))"
    using b s3_scopes.all_scopes_write [OF b put_object_version_ok] scope_store_ok [OF b] assms
    by (auto simp: handle_copy_object_def in_store_existing case_prod_beta Let_def split: option.splits sum.splits prod.splits)
qed

lemma handle_upload_part_keeps: "s3_bundle_keeps (handle_upload_part libs ctx)"
proof (rule s3_bundle_keepsI)
  fix b w
  assume b: "s3_scopes.all_scopes b"
  have d: "s3_store_ok (snd (case upload_part_with_etag st uid n dt e k v of (_, st, w) \<Rightarrow> (w, st)))" if "s3_store_ok st" for st uid n dt e k and v :: s3_world
    using upload_part_ok [OF that, of uid n dt e k v] by (simp add: case_prod_beta)
  show "s3_scopes.all_scopes (fst (snd (handle_upload_part libs ctx b w)))"
    using b s3_scopes.all_scopes_write [OF b d] scope_store_ok [OF b]
    by (auto simp: handle_upload_part_def in_store_existing case_prod_beta Let_def bind_eq_Some_conv
        split: with_bucket_split option.splits sum.splits prod.splits)
qed

lemma handle_complete_keeps:
  assumes "key_from_path (ctx_path ctx) \<noteq> []"
  shows "s3_bundle_keeps (handle_complete_multipart_upload libs ctx)"
proof (rule s3_bundle_keepsI)
  fix b w
  assume b: "s3_scopes.all_scopes b"
  have d: "s3_scopes.all_scopes (write_back b a r (snd (complete_multipart_upload_with_version st uid v)))"
    if "s3_store_ok st" "hm_get (s3_uploads st) uid = Some u" "mu_key u \<noteq> []" for a r st uid u v
    by (rule s3_scopes.all_scopes_write [OF b complete_ok [OF that(1)]]) (use that(2,3) in simp)
  show "s3_scopes.all_scopes (fst (snd (handle_complete_multipart_upload libs ctx b w)))"
    using b d scope_store_ok [OF b] assms
    by (auto simp: handle_complete_multipart_upload_def in_store_existing case_prod_beta Let_def
        split: with_bucket_split option.splits sum.splits prod.splits)
qed

lemma notifying_bundle [simp]: "fst (snd (notifying libs ctx n ev f b w)) = fst (snd (f b w))"
  by (simp add: notifying_def case_prod_beta Let_def)

lemma notifying_keeps: "s3_bundle_keeps f \<Longrightarrow> s3_bundle_keeps (notifying libs ctx n ev f)"
  by (simp add: s3_bundle_keeps_def)

lemma key_of_operation: "path_has_key (ctx_path ctx) = (key_from_path (ctx_path ctx) \<noteq> [])"
  by (simp add: path_has_key_def key_from_path_def Let_def)

lemma operation_has_key:
  "derive_s3_operation ctx \<in> {''PutObject'', ''DeleteObject'', ''CopyObject'', ''CompleteMultipartUpload''} \<Longrightarrow>
   key_from_path (ctx_path ctx) \<noteq> []"
  by (auto simp: derive_s3_operation_def key_of_operation Let_def split: if_splits)

lemma s3_async_op_keeps:
  assumes "s3_async_op libs ctx (derive_s3_operation ctx) = Some f"
  shows "s3_bundle_keeps f"
  using assms operation_has_key [of ctx]
  by (auto simp: s3_async_op_def handle_delete_bucket_keeps handle_get_object_keeps handle_delete_objects_keeps handle_upload_part_keeps
      split: if_splits intro!: notifying_keeps handle_put_object_keeps handle_delete_object_keeps handle_copy_object_keeps handle_complete_keeps)

section \<open>Runs of requests\<close>

lemma s3_dispatch_keeps:
  assumes "s3_scopes.all_scopes b" "s3_dispatch libs ctx b w = Some (r, b', w')"
  shows "s3_scopes.all_scopes b'"
proof -
  let ?op = "derive_s3_operation ctx"
  consider "b' = b" | f where "s3_store_op libs ctx ?op = Some f"
      "\<exists>r. on_created S3Store_new ctx (\<lambda>st w. Some (f st w)) b w = Some (r, b', w')"
    | f where "s3_async_op libs ctx ?op = Some f" "b' = fst (snd (f b w))"
    using assms(2) by (auto simp: s3_dispatch_def s3_op_def reading_def Let_def split: option.splits prod.splits)
  then show ?thesis
  proof cases
    case (2 f)
    have "s3_scopes.scope_keeps (\<lambda>st w. Some (f st w))"
      using s3_store_op_keeps [OF 2(1)] by (auto simp: s3_keeps_def s3_scopes.scope_keeps_def) (metis fst_conv snd_conv)
    then show ?thesis using s3_scopes.bundle_keeps_created 2(2) assms(1) unfolding s3_scopes.bundle_keeps_def by blast
  next
    case (3 f)
    then show ?thesis using s3_async_op_keeps assms(1) by (auto simp: s3_bundle_keeps_def)
  qed (use assms in simp)
qed

lemma s3_dispatch_answers: "\<exists>r b' w'. s3_dispatch libs ctx b w = Some (r, b', w')"
proof (cases "s3_op libs ctx (derive_s3_operation ctx)")
  case (Some f)
  then have "f b w \<noteq> None"
    by (auto simp: s3_op_def reading_def on_created_def case_prod_beta Let_def split: option.splits) (metis prod_cases3)
  then obtain r b' w' where "f b w = Some (r, b', w')" by (metis option.exhaust prod_cases3)
  with Some show ?thesis by (simp add: s3_dispatch_def)
qed (simp add: s3_dispatch_def)

fun s3_run :: "s3_libs \<Rightarrow> RequestContext list \<Rightarrow> s3_bundle \<Rightarrow> s3_world \<Rightarrow> (s3_bundle \<times> s3_world) option" where
  "s3_run libs [] b w = Some (b, w)"
| "s3_run libs (ctx # ctxs) b w =
     (case s3_dispatch libs ctx b w of None \<Rightarrow> None | Some (_, b, w) \<Rightarrow> s3_run libs ctxs b w)"

lemma s3_run_keeps: "s3_run libs ctxs b w = Some (b', w') \<Longrightarrow> s3_scopes.all_scopes b \<Longrightarrow> s3_scopes.all_scopes b'"
  by (induction ctxs arbitrary: b w) (auto split: option.splits dest: s3_dispatch_keeps)

lemma s3_reachable_ok: "s3_run libs ctxs bundle_new w = Some (b, w') \<Longrightarrow> bundle_get b acc reg = Some st \<Longrightarrow> s3_store_ok st"
  using s3_run_keeps s3_scopes.all_scopes_new s3_scopes.all_scopes_get by blast

lemma s3_run_answers: "\<exists>b' w'. s3_run libs ctxs b w = Some (b', w')"
proof (induction ctxs arbitrary: b w)
  case (Cons ctx ctxs)
  from s3_dispatch_answers [of libs ctx b w] Cons show ?case by fastforce
qed simp

section \<open>A concrete service\<close>

text \<open>Files below \<^verbatim>\<open>d\<close> in directories named like the keys, no faults, and two objects in the bucket \<^verbatim>\<open>pics\<close>.\<close>

definition demo_s3 :: "nat \<Rightarrow> s3_libs" where
  "demo_s3 threshold =
     \<lparr>s3_ext = demo_externs, s3_fl = \<lparr>fl_base_dir = ''d'', fl_key_hash = id, fl_key_hash_legacy = (\<lambda>k. ''l'' @ k)\<rparr>,
      s3_iso = (\<lambda>_. []), s3_http_date = (\<lambda>_. []), s3_rfc3339 = (\<lambda>_. []), s3_hex_decode = (\<lambda>_. None),
      s3_threshold = threshold, s3_dispatcher = False\<rparr>"

definition demo_s3_world :: s3_world where
  "demo_s3_world =
     \<lparr>sw_clock = int, sw_reads = 0, sw_uuid = nat_to_string, sw_drawn = 0,
      sw_fs = \<lparr>fs_names = [], fs_inodes = [], fs_next = 0, fs_dirs = [], fs_fault = (\<lambda>_. False), fs_ops = 0\<rparr>,
      sw_known_dirs = [], sw_tmp = 0, sw_notified = []\<rparr>"

definition s3_request :: "string \<Rightarrow> string \<Rightarrow> string \<Rightarrow> RequestContext" where
  "s3_request method path body =
     (RequestContext_new ''s3'' [] ''us-east-1'' ''000000000000'')\<lparr>ctx_method := method, ctx_path := path, ctx_raw_body := Some body\<rparr>"

definition demo_puts :: "RequestContext list" where
  "demo_puts = [s3_request ''PUT'' ''/pics'' [], s3_request ''PUT'' ''/pics/b/1'' ''x'', s3_request ''PUT'' ''/pics/a'' ''y'']"

definition s3_demo_store :: "s3_libs \<Rightarrow> RequestContext list \<Rightarrow> S3Store" where
  "s3_demo_store libs ctxs =
     (case s3_run libs ctxs bundle_new demo_s3_world of
        Some (b, _) \<Rightarrow> (case bundle_get b ''000000000000'' ''us-east-1'' of Some st \<Rightarrow> st | None \<Rightarrow> S3Store_new)
      | None \<Rightarrow> S3Store_new)"

lemma s3_demo_reachable:
  assumes "\<not> Option.is_none (hm_get (s3_objects (s3_demo_store libs ctxs)) bucket)"
  obtains b w where "s3_run libs ctxs bundle_new demo_s3_world = Some (b, w)"
    "bundle_get b ''000000000000'' ''us-east-1'' = Some (s3_demo_store libs ctxs)"
proof -
  obtain b w where r: "s3_run libs ctxs bundle_new demo_s3_world = Some (b, w)" using s3_run_answers by blast
  with assms have "bundle_get b ''000000000000'' ''us-east-1'' = Some (s3_demo_store libs ctxs)"
    by (auto simp: s3_demo_store_def S3Store_new_def split: option.splits)
  with r that show thesis by blast
qed

text \<open>C5: Every sequence of S3 requests, whatever the file system does meanwhile, is answered and leaves every
  store well formed: buckets and their settings are filed under their names, the objects of a bucket are sorted by key with
  no duplicates, each is filed under its nonempty key and has a version, there are objects only for existing buckets
  and every multipart upload belongs to an existing bucket.\<close>

theorem s3_invariant_all_requests:
  "\<exists>b w'. s3_run libs ctxs bundle_new w = Some (b, w') \<and>
    (\<forall>acc reg. case bundle_get b acc reg of Some st \<Rightarrow> s3_store_ok st | None \<Rightarrow> True)"
proof -
  obtain b w' where "s3_run libs ctxs bundle_new w = Some (b, w')" using s3_run_answers by blast
  with s3_reachable_ok show ?thesis by (fastforce split: option.split)
qed

end
