(* ===== verification/S3_Listing.thy ===== *)
theory S3_Listing
  imports S3_Invariant
begin

text \<open>
  The listings of a bucket. Without a delimiter, following the continuation tokens of ListObjectsV2 visits every visible key with
  the prefix once, in order, whatever the size of the pages. With a delimiter this fails: a page gives its room
  to common prefixes first and continues after them, so that a key before them is never listed.
\<close>

section \<open>Keys with a prefix\<close>

lemma prefix_interval: "p \<le> k \<Longrightarrow> k \<le> p @ r \<Longrightarrow> starts_with (k :: string) p"
proof (induction p arbitrary: k)
  case (Cons c p)
  then obtain d k' where k: "k = d # k'" by (cases k) auto
  with Cons.prems have "c = d" "p \<le> k'" "k' \<le> p @ r" by (auto simp: order_less_le)
  with Cons.IH k show ?case by (simp add: starts_with_def)
qed simp

lemma prefix_le: "starts_with (k :: string) p \<Longrightarrow> p \<le> k"
  by (drule starts_withE) (induction p arbitrary: k, auto)

lemma prefix_down_closed: "starts_with (k' :: string) p \<Longrightarrow> p \<le> k \<Longrightarrow> k \<le> k' \<Longrightarrow> starts_with k p"
  by (drule starts_withE) (auto intro: prefix_interval)

definition after :: "string option \<Rightarrow> string \<Rightarrow> bool" where
  "after skip k = (case skip of None \<Rightarrow> True | Some s \<Rightarrow> s = [] \<or> s < k)"

lemma bound_after:
  "above (lower_bound p skip) k \<and> starts_with k p \<longleftrightarrow> starts_with k p \<and> after skip k"
  using prefix_le [of k p]
  by (auto simp: lower_bound_def after_def not_le split: option.splits dest: order_less_le_trans)

lemma above_prefix: "above (lower_bound p skip) k \<Longrightarrow> p \<le> k"
  by (auto simp: lower_bound_def split: option.splits if_splits)

lemma takeWhile_filter_closed:
  assumes "sorted_wrt R xs" "\<And>x y. R x y \<Longrightarrow> Q x \<Longrightarrow> P y \<Longrightarrow> P x"
  shows "takeWhile P (filter Q xs) = filter (\<lambda>x. Q x \<and> P x) xs"
  using assms(1)
proof (induction xs)
  case (Cons x xs)
  show ?case
  proof (cases "Q x \<and> \<not> P x")
    case True
    then have "filter (\<lambda>x. Q x \<and> P x) xs = []"
      using Cons.prems assms(2) by (auto simp: filter_empty_conv)
    with True show ?thesis by simp
  next
    case False
    with Cons show ?thesis by auto
  qed
qed simp

lemma paged_range:
  assumes "bt_wf m"
  shows "takeWhile (\<lambda>(k, _). p = [] \<or> starts_with k p) (filter (\<lambda>(k, _). above (lower_bound p skip) k) m) =
    filter (\<lambda>(k, _). starts_with k p \<and> after skip k) m"
proof -
  have s: "sorted_wrt (\<lambda>a b. fst a < fst b) m" using assms by (simp add: bt_wf_def sorted_wrt_map)
  have f: "takeWhile (\<lambda>x. starts_with (fst x) p) (filter (\<lambda>x. above (lower_bound p skip) (fst x)) m) =
      filter (\<lambda>x. above (lower_bound p skip) (fst x) \<and> starts_with (fst x) p) m"
    by (rule takeWhile_filter_closed [OF s]) (blast intro: prefix_down_closed above_prefix order_less_imp_le)
  have "(p = [] \<or> starts_with k p) = starts_with k p" for k by auto
  then show ?thesis unfolding case_prod_beta' by (simp only: f bound_after)
qed

section \<open>Pages without a delimiter\<close>

definition item :: "string \<Rightarrow> ObjectVersion \<Rightarrow> content_item" where
  "item k v = (k, ov_last_modified v, ov_etag v, ov_size v)"

definition visible :: "object_map \<Rightarrow> content_item list" where
  "visible m = List.map_filter (\<lambda>(k, obj). map_option (item k) (current obj)) m"

lemma visible_simps [simp]:
  "visible [] = []"
  "visible ((k, obj) # m) = (case current obj of Some v \<Rightarrow> item k v # visible m | None \<Rightarrow> visible m)"
  by (simp_all add: visible_def map_filter_simps split: option.splits)

lemma grouped_no_delimiter [simp]: "grouped p [] k = None"
  by (simp add: grouped_def)

lemma paging_loop_plain:
  assumes "pg_last_new_cp p = None" "pg_count p < n"
  shows "pg_last_new_cp (paging_loop pfx n [] xs p) = None \<and>
    pg_result (paging_loop pfx n [] xs p) =
      (pg_result p)\<lparr>lp_contents := lp_contents (pg_result p) @ take (n - pg_count p) (visible xs)\<rparr>"
  using assms
proof (induction xs arbitrary: p)
  case (Cons x xs)
  obtain k obj where x: "x = (k, obj)" by fastforce
  show ?case
  proof (cases "current obj")
    case None
    with Cons x show ?thesis by simp
  next
    case (Some v)
    let ?p = "p\<lparr>pg_result := (pg_result p)\<lparr>lp_contents := lp_contents (pg_result p) @ [item k v]\<rparr>, pg_count := pg_count p + 1\<rparr>"
    show ?thesis
    proof (cases "n \<le> pg_count p + 1")
      case True
      with Cons.prems have "n - pg_count p = 1" by simp
      with True Some x Cons.prems show ?thesis by (simp add: item_def Let_def)
    next
      case False
      then have "n - pg_count p = Suc (n - (pg_count p + 1))" by simp
      with False Some x Cons.prems Cons.IH [of ?p] show ?thesis by (simp add: item_def Let_def)
    qed
  qed
qed simp

definition keys_in :: "object_map \<Rightarrow> string \<Rightarrow> string option \<Rightarrow> content_item list" where
  "keys_in m pfx skip = visible (filter (\<lambda>(k, _). starts_with k pfx \<and> after skip k) m)"

lemma list_objects_paged_plain:
  assumes "hm_get (s3_objects st) bucket = Some m" "bt_wf m"
  shows "list_objects_paged st bucket pfx skip (Suc n) [] =
    \<lparr>lp_contents = take (Suc n) (keys_in m pfx skip), lp_common_prefixes = []\<rparr>"
proof -
  let ?p = "\<lparr>pg_result = ListPagedResult_default, pg_count = 0, pg_last_new_cp = None, pg_cursor_update = None\<rparr>"
  have "pg_last_new_cp ?p = None" "pg_count ?p < Suc n" by simp_all
  from paging_loop_plain [OF this, of pfx "filter (\<lambda>(k, _). starts_with k pfx \<and> after skip k) m"] show ?thesis
    by (simp add: list_objects_paged_def assms paged_range keys_in_def ListPagedResult_default_def Let_def)
qed

lemma list_v2_page_plain:
  assumes "hm_get (s3_objects st) bucket = Some m" "bt_wf m" "0 < n"
  shows "list_v2_page st bucket pfx [] n skip =
    \<lparr>li_contents = take n (keys_in m pfx skip), li_prefixes = [], li_truncated = (n < length (keys_in m pfx skip)),
     li_next = (if n < length (keys_in m pfx skip) then Some (fst (last (take n (keys_in m pfx skip)))) else None)\<rparr>"
proof -
  have "take n (keys_in m pfx skip) \<noteq> []" if "n < length (keys_in m pfx skip)" using that assms(3) by (cases "keys_in m pfx skip") auto
  then show ?thesis
    using assms(3) by (auto simp: list_v2_page_def list_objects_paged_plain [OF assms(1,2)] min_def Let_def)
qed

section \<open>Following the tokens\<close>

lemma visible_filter: "visible (filter (\<lambda>(k, _). P k) m) = filter (\<lambda>x. P (fst x)) (visible m)"
  by (induction m) (auto simp: item_def split: option.splits)

lemma visible_keys: "x \<in> set (visible m) \<Longrightarrow> fst x \<in> fst ` set m"
  by (induction m) (auto simp: item_def split: option.splits)

lemma visible_sorted: "bt_wf m \<Longrightarrow> sorted_wrt (<) (map fst (visible m))"
proof (induction m)
  case (Cons x m)
  have "bt_wf m" and less: "\<forall>k \<in> fst ` set m. fst x < k" using Cons.prems by (auto simp: bt_wf_def)
  moreover have "\<forall>y \<in> set (visible m). fst x < fst y" using less visible_keys by blast
  ultimately show ?case using Cons.IH by (cases x) (auto simp: item_def split: option.splits)
qed simp

lemma filter_sorted_take:
  assumes "sorted_wrt (<) (map fst xs)" "0 < n" "n \<le> length xs"
  shows "filter (\<lambda>x. fst (last (take n xs)) < (fst x :: 'k :: order)) xs = drop n xs"
proof -
  obtain ys y where t: "take n xs = ys @ [y]" using assms(2,3) by (cases "take n xs" rule: rev_cases) auto
  have xs: "xs = ys @ y # drop n xs" using append_take_drop_id [of n xs] t by simp
  have "sorted_wrt (<) (map fst (ys @ y # drop n xs))" using assms(1) xs by metis
  then have "\<forall>x \<in> set ys. fst x < fst y" "\<forall>x \<in> set (drop n xs). fst y < fst x" by (auto simp: sorted_wrt_append)
  then have "filter (\<lambda>x. fst y < fst x) (ys @ y # drop n xs) = drop n xs"
    by (auto simp: filter_empty_conv filter_id_conv dest: less_asym)
  with t xs show ?thesis by simp
qed

lemma keys_in_filter: "keys_in m pfx skip = filter (\<lambda>x. starts_with (fst x) pfx \<and> after skip (fst x)) (visible m)"
  unfolding keys_in_def by (rule visible_filter)

lemma keys_in_eq: "keys_in m pfx skip = filter (\<lambda>x. after skip (fst x)) (keys_in m pfx None)"
  by (simp add: keys_in_filter after_def conj_commute)

lemma keys_in_sorted: "bt_wf m \<Longrightarrow> sorted_wrt (<) (map fst (keys_in m pfx skip))"
proof -
  assume "bt_wf m"
  then have "bt_wf (filter P m)" for P by (induction m) (auto simp: bt_wf_def)
  then show ?thesis by (simp add: keys_in_def visible_sorted)
qed

lemma keys_in_keys: "x \<in> set (keys_in m pfx skip) \<Longrightarrow> fst x \<in> fst ` set m"
  by (simp add: keys_in_filter visible_keys)

lemma keys_in_next:
  assumes "bt_wf m" "\<forall>k \<in> fst ` set m. k \<noteq> []" "0 < n" "n < length (keys_in m pfx skip)"
  shows "keys_in m pfx (Some (fst (last (take n (keys_in m pfx skip))))) = drop n (keys_in m pfx skip)"
proof -
  let ?V = "keys_in m pfx skip"
  define k where "k = fst (last (take n ?V))"
  have "take n ?V \<noteq> []" using assms(3,4) by auto
  then have mem: "last (take n ?V) \<in> set ?V" by (meson in_set_takeD last_in_set)
  then have nk: "k \<noteq> []" using keys_in_keys assms(2) unfolding k_def by blast
  have "after skip k" using mem unfolding keys_in_filter k_def by simp
  then have tr: "after skip x" if "k < x" for x using that by (auto simp: after_def split: option.splits)
  have "keys_in m pfx (Some k) = filter (\<lambda>x. k < fst x) ?V"
    unfolding keys_in_filter filter_filter using tr nk by (intro filter_cong) (auto simp: after_def)
  also have "\<dots> = drop n ?V"
    unfolding k_def by (rule filter_sorted_take [OF keys_in_sorted [OF assms(1)] assms(3)]) (use assms(4) in simp)
  finally show ?thesis unfolding k_def .
qed

text \<open>A client that follows the tokens for at most the given number of pages.\<close>

fun v2_pages :: "nat \<Rightarrow> S3Store \<Rightarrow> string \<Rightarrow> string \<Rightarrow> string \<Rightarrow> nat \<Rightarrow> string option \<Rightarrow> (content_item list \<times> string list) option" where
  "v2_pages 0 st bucket pfx delimiter n skip = None"
| "v2_pages (Suc fuel) st bucket pfx delimiter n skip =
     (let page = list_v2_page st bucket pfx delimiter n skip in
      case li_next page of
        None \<Rightarrow> Some (li_contents page, li_prefixes page)
      | Some t \<Rightarrow> map_option (\<lambda>(c, p). (li_contents page @ c, li_prefixes page @ p)) (v2_pages fuel st bucket pfx delimiter n (Some t)))"

lemma v2_pages_complete:
  assumes "hm_get (s3_objects st) bucket = Some m" "bt_wf m" "\<forall>k \<in> fst ` set m. k \<noteq> []" "0 < n"
  shows "length (keys_in m pfx skip) < fuel \<Longrightarrow> v2_pages fuel st bucket pfx [] n skip = Some (keys_in m pfx skip, [])"
proof (induction fuel arbitrary: skip)
  case (Suc fuel)
  let ?V = "keys_in m pfx skip"
  show ?case
  proof (cases "n < length ?V")
    case True
    let ?k = "fst (last (take n ?V))"
    have next': "keys_in m pfx (Some ?k) = drop n ?V" by (rule keys_in_next [OF assms(2,3,4) True])
    then have "length (keys_in m pfx (Some ?k)) < fuel" using Suc.prems assms(4) True by simp
    from Suc.IH [OF this] True show ?thesis
      by (simp add: list_v2_page_plain [OF assms(1,2,4)] next')
  next
    case False
    then show ?thesis by (simp add: list_v2_page_plain [OF assms(1,2,4)])
  qed
qed simp

lemma visible_items: "x \<in> set (visible m) \<longleftrightarrow> (\<exists>k obj v. (k, obj) \<in> set m \<and> current obj = Some v \<and> x = item k v)"
proof (induction m)
  case (Cons y m)
  obtain k obj where "y = (k, obj)" by fastforce
  with Cons.IH show ?case
    by (cases "current obj") (auto simp del: split_paired_Ex; metis option.distinct(1) option.inject)+
qed simp

lemma visible_length: "length (visible m) \<le> length m"
  by (induction m) (auto split: option.splits)

text \<open>C7: In every store the S3 service can reach, a client that lists a bucket with ListObjectsV2 without a
  delimiter, in pages of any size, and follows the continuation tokens is told after finitely many pages that the listing is
  complete, and has then seen, in the order of the keys and exactly once, every key with the prefix for which GetObject
  finds a version, with the time, the entity tag and the size of that version.\<close>

theorem s3_listing_complete:
  assumes "s3_run libs ctxs bundle_new w = Some (b, w')" "bundle_get b acc reg = Some st"
    and "hm_get (s3_objects st) bucket = Some m" "0 < n" "length m < fuel"
  shows "\<exists>items. v2_pages fuel st bucket pfx [] n None = Some (items, []) \<and> sorted_wrt (<) (map fst items) \<and>
    fst ` set items = {k. starts_with k pfx \<and> get_object st bucket k \<noteq> None} \<and>
    (\<forall>x \<in> set items. map_option (item (fst x)) (get_object st bucket (fst x)) = Some x)"
proof -
  have ok: "objects_ok m" using s3_reachable_ok [OF assms(1,2)] s3_store_ok_get assms(3) by blast
  then have wf: "bt_wf m" and ne: "\<forall>k \<in> fst ` set m. k \<noteq> []"
    unfolding objects_ok_def by (auto simp: map_of_eq_Some_iff bt_wf_def strict_sorted_iff)
  have pages: "v2_pages fuel st bucket pfx [] n None = Some (keys_in m pfx None, [])"
  proof (rule v2_pages_complete [OF assms(3) wf ne assms(4)])
    show "length (keys_in m pfx None) < fuel"
      using assms(5) visible_length [of m] length_filter_le [of _ "visible m"] unfolding keys_in_filter by (meson le_less_trans le_trans)
  qed
  have "distinct (map fst m)" using wf by (auto simp: bt_wf_def strict_sorted_iff)
  then have mem: "x \<in> set (visible m) \<longleftrightarrow> (\<exists>k v. get_object st bucket k = Some v \<and> x = item k v)" for x
    using assms(3) by (simp add: visible_items get_object_def bind_eq_Some_conv map_of_eq_Some_iff) blast
  show ?thesis
    using pages keys_in_sorted [OF wf, of pfx None]
    by (auto simp: keys_in_filter after_def mem item_def image_iff)
qed

lemma demo_objects: "map_option length (hm_get (s3_objects (s3_demo_store (demo_s3 0) demo_puts)) ''pics'') = Some 2"
  by code_simp

theorem s3_listing_complete_witness:
  "\<exists>items. v2_pages 3 (s3_demo_store (demo_s3 0) demo_puts) ''pics'' ''b'' [] 1 None = Some (items, []) \<and>
    fst ` set items = {k. starts_with k ''b'' \<and> get_object (s3_demo_store (demo_s3 0) demo_puts) ''pics'' k \<noteq> None}"
proof -
  obtain m where m: "hm_get (s3_objects (s3_demo_store (demo_s3 0) demo_puts)) ''pics'' = Some m" "length m = 2"
    using demo_objects by blast
  then obtain b w where "s3_run (demo_s3 0) demo_puts bundle_new demo_s3_world = Some (b, w)"
    "bundle_get b ''000000000000'' ''us-east-1'' = Some (s3_demo_store (demo_s3 0) demo_puts)"
    by (metis s3_demo_reachable is_none_code(2))
  from s3_listing_complete [OF this m(1), of 1 3 "''b''"] m(2) show ?thesis by auto
qed


end
