(* ===== verification/S3_Objects.thy ===== *)
theory S3_Objects
  imports S3_Invariant
begin

text \<open>
  The bytes of objects. While the file system does not fail, what PutObject stored is what GetObject sends,
  in memory or in a file, and a completed multipart upload is the concatenation of its parts. Copies of large
  objects are hard links: copying onto a copy again empties both.
\<close>

section \<open>A file system without faults\<close>

definition faultless :: "s3_world \<Rightarrow> bool" where
  "faultless w \<longleftrightarrow> fs_fault (sw_fs w) = (\<lambda>_. False) \<and> set (sw_known_dirs w) \<subseteq> set (fs_dirs (sw_fs w))"

lemma faultless_step: "fs_fault fs = (\<lambda>_. False) \<Longrightarrow> io_step f fs = f (fs\<lparr>fs_ops := fs_ops fs + 1\<rparr>)"
  by (simp add: io_step_def Let_def)

lemma fault_put_inode [simp]:
  "fs_fault (put_inode p bs fs) = fs_fault fs" "fs_dirs (put_inode p bs fs) = fs_dirs fs"
  by (simp_all add: put_inode_def split: option.splits)

lemma contents_ops [simp]: "contents (fs\<lparr>fs_ops := n\<rparr>) = contents fs"
  by (rule ext) (simp add: contents_def)

lemma contents_put_inode: "contents (put_inode p bs fs) p = Some bs"
  by (auto simp: contents_def put_inode_def update_conv' split: option.splits)

definition holds :: "s3_world \<Rightarrow> ObjectDataRef \<Rightarrow> string \<Rightarrow> bool" where
  "holds w d bytes = (case d of Inline bs \<Rightarrow> bs = bytes | FileRef p \<Rightarrow> contents (sw_fs w) p = Some bytes)"

text \<open>A step that reads: at most the count of file operations changes.\<close>

definition reads :: "s3_world \<Rightarrow> s3_world \<Rightarrow> bool" where
  "reads w w' \<longleftrightarrow> (\<exists>n. w' = w\<lparr>sw_fs := (sw_fs w)\<lparr>fs_ops := n\<rparr>\<rparr>)"

lemma reads_refl [simp]: "reads w w"
  unfolding reads_def by (rule exI [of _ "fs_ops (sw_fs w)"]) simp

lemma reads_trans: "reads w w' \<Longrightarrow> reads w' w'' \<Longrightarrow> reads w w''"
  by (auto simp: reads_def)

lemma reads_keeps:
  assumes "reads w w'"
  shows "faultless w' = faultless w" "contents (sw_fs w') = contents (sw_fs w)" "holds w' d bs = holds w d bs"
  using assms by (auto simp: reads_def faultless_def holds_def split: ObjectDataRef.splits)

lemma read_to_end_ok: "faultless w \<Longrightarrow> \<exists>w'. read_to_end bytes w = (Inr bytes, w') \<and> reads w w'"
  unfolding reads_def by (auto simp: read_to_end_def lift_io_def faultless_def faultless_step)

lemma fs_read_ok: "faultless w \<Longrightarrow> contents (sw_fs w) p = Some bytes \<Longrightarrow> \<exists>w'. lift_io (fs_read p) w = (Inr bytes, w') \<and> reads w w'"
  unfolding reads_def by (auto simp: fs_read_def lift_io_def faultless_def faultless_step)

section \<open>Writing files\<close>

definition tmp_path_of :: "file_libs \<Rightarrow> ObjectLocation \<Rightarrow> s3_world \<Rightarrow> string" where
  "tmp_path_of fl loc w = path_join (object_dir fl loc) (ol_version_id loc @ ''-'' @ nat_to_string (unat (sw_tmp w)) @ ''.tmp'')"

text \<open>The surroundings in which a writer reads its source: the directory is there and the temporary file is empty.\<close>

definition opened :: "file_libs \<Rightarrow> ObjectLocation \<Rightarrow> s3_world \<Rightarrow> s3_world" where
  "opened fl loc w =
     (let dir = object_dir fl loc; w1 = snd (ensure_dir_exists dir w); w2 = snd (next_tmp dir (ol_version_id loc) w1)
      in snd (lift_io (file_create dir (tmp_path_of fl loc w)) w2))"

lemma ensure_dir_ok:
  "faultless w \<Longrightarrow> \<exists>w'. ensure_dir_exists dir w = (Inr (), w') \<and> faultless w' \<and> dir \<in> set (fs_dirs (sw_fs w')) \<and>
    sw_tmp w' = sw_tmp w \<and> contents (sw_fs w') = contents (sw_fs w)"
  by (auto simp: ensure_dir_exists_def fio_defs create_dir_all_def faultless_def faultless_step contents_def fun_eq_iff)

lemma opened_ok:
  assumes "faultless w"
  shows "\<exists>w1 w2. ensure_dir_exists (object_dir fl loc) w = (Inr (), w1) \<and>
    next_tmp (object_dir fl loc) (ol_version_id loc) w1 = (Inr (tmp_path_of fl loc w), w2) \<and>
    lift_io (file_create (object_dir fl loc) (tmp_path_of fl loc w)) w2 = (Inr (), opened fl loc w) \<and> faultless (opened fl loc w)"
  using ensure_dir_ok [OF assms, of "object_dir fl loc"]
  by (auto simp: opened_def next_tmp_def tmp_path_of_def lift_io_def file_create_def faultless_def faultless_step Let_def)

lemma fio_bind_Inr: "m w = (Inr x, w') \<Longrightarrow> fio_bind m f w = f x w'"
  by (simp add: fio_bind_def)

lemma fs_rename_ok:
  assumes "faultless w" "contents (sw_fs w) src = Some bytes"
  shows "\<exists>w'. lift_io (fs_rename src dst) w = (Inr (), w') \<and> faultless w' \<and> contents (sw_fs w') dst = Some bytes"
proof -
  obtain i where "hm_get (fs_names (sw_fs w)) src = Some i" "hm_get (fs_inodes (sw_fs w)) i = Some bytes"
    using assms(2) by (auto simp: contents_def bind_eq_Some_conv)
  with assms(1) show ?thesis
    by (cases "src = dst") (auto simp: lift_io_def fs_rename_def faultless_def faultless_step contents_def update_conv')
qed

lemma write_and_rename_ok:
  assumes "faultless w" "source (opened fl loc w) = (Inr bytes, w1)" "reads (opened fl loc w) w1"
  shows "\<exists>w'. write_and_rename fl loc source len w = (Inr (object_path fl loc, bytes), w') \<and> faultless w' \<and>
    contents (sw_fs w') (object_path fl loc) = Some (preallocated len bytes)"
proof -
  obtain w3 w4 where op: "ensure_dir_exists (object_dir fl loc) w = (Inr (), w3)"
    "next_tmp (object_dir fl loc) (ol_version_id loc) w3 = (Inr (tmp_path_of fl loc w), w4)"
    "lift_io (file_create (object_dir fl loc) (tmp_path_of fl loc w)) w4 = (Inr (), opened fl loc w)" "faultless (opened fl loc w)"
    using opened_ok [OF assms(1), of fl loc] by blast
  have f1: "faultless w1" using reads_keeps(1) [OF assms(3)] op by simp
  let ?fs = "put_inode (tmp_path_of fl loc w) (preallocated len bytes) ((sw_fs w1)\<lparr>fs_ops := fs_ops (sw_fs w1) + 1\<rparr>)"
  let ?w2 = "w1\<lparr>sw_fs := ?fs\<rparr>"
  have w2: "lift_io (file_write (tmp_path_of fl loc w) (preallocated len bytes)) w1 = (Inr (), ?w2)"
    using f1 by (simp add: lift_io_def file_write_def faultless_def faultless_step)
  have c: "contents ?fs (tmp_path_of fl loc w) = Some (preallocated len bytes)" by (rule contents_put_inode)
  have f2: "faultless ?w2" using f1 by (simp add: faultless_def)
  obtain w5 where w5: "lift_io (fs_rename (tmp_path_of fl loc w) (object_path fl loc)) ?w2 = (Inr (), w5)" "faultless w5"
      "contents (sw_fs w5) (object_path fl loc) = Some (preallocated len bytes)"
    using fs_rename_ok [OF f2, of "tmp_path_of fl loc w"] c by auto
  have "write_and_rename fl loc source len w = (Inr (object_path fl loc, bytes), w5)"
    unfolding write_and_rename_def Let_def object_path_def [symmetric]
    by (subst fio_bind_Inr, (rule op | rule assms(2) | rule w2 | rule w5))+ (simp add: fio_return_def)
  with w5 show ?thesis by blast
qed

lemma preallocated_id [simp]: "(case len of Some n \<Rightarrow> n \<le> length bytes | None \<Rightarrow> True) \<Longrightarrow> preallocated len bytes = bytes"
  by (simp add: preallocated_def split: option.splits)

section \<open>Bodies of requests\<close>

definition request_bytes :: "RequestContext \<Rightarrow> string" where
  "request_bytes ctx =
     (case ctx_body_reader ctx of Some bs \<Rightarrow> bs | None \<Rightarrow> (case ctx_spooled_body ctx of Some bs \<Rightarrow> bs | None \<Rightarrow> raw_body_bytes ctx))"

text \<open>The announced length is not more than the body has.\<close>

definition length_honest :: "externs \<Rightarrow> RequestContext \<Rightarrow> bool" where
  "length_honest ext ctx \<longleftrightarrow>
     (case content_length_of ext ctx of Some n \<Rightarrow> n \<le> length (request_bytes ctx) | None \<Rightarrow> True)"

lemma take_body_ok:
  assumes "faultless w" "length_honest (s3_ext libs) ctx"
  shows "\<exists>etag data w'. take_body libs ctx loc failed w = (Inr (etag, length (request_bytes ctx), data), w') \<and> faultless w' \<and>
    holds w' data (request_bytes ctx) \<and> (\<forall>p. data = FileRef p \<longrightarrow> p = object_path (s3_fl libs) loc)"
proof -
  let ?bs = "request_bytes ctx" and ?o = "opened (s3_fl libs) loc w"
  obtain w1 where w1: "read_to_end ?bs w = (Inr ?bs, w1)" "reads w w1" using read_to_end_ok [OF assms(1)] by blast
  have "faultless ?o" using opened_ok [OF assms(1)] by blast
  then obtain wo where wo: "read_to_end ?bs ?o = (Inr ?bs, wo)" "reads ?o wo" using read_to_end_ok by blast
  have filed: "\<exists>w'. write_and_rename (s3_fl libs) loc (read_to_end ?bs) len w = (Inr (object_path (s3_fl libs) loc, ?bs), w') \<and> faultless w' \<and>
      contents (sw_fs w') (object_path (s3_fl libs) loc) = Some ?bs"
    if "case len of Some n \<Rightarrow> n \<le> length ?bs | None \<Rightarrow> True" for len
    using write_and_rename_ok [OF assms(1), of "read_to_end ?bs", OF wo, of len] that by simp
  have plain: "\<exists>w'. write_object (s3_fl libs) loc ?bs w = (Inr (object_path (s3_fl libs) loc), w') \<and> faultless w' \<and>
      contents (sw_fs w') (object_path (s3_fl libs) loc) = Some ?bs"
  proof -
    have "fio_return ?bs ?o = (Inr ?bs, ?o)" by (simp add: fio_return_def)
    from write_and_rename_ok [OF assms(1), of "fio_return ?bs", OF this reads_refl, of None] obtain w' where
      "write_and_rename (s3_fl libs) loc (fio_return ?bs) None w = (Inr (object_path (s3_fl libs) loc, ?bs), w')" "faultless w'"
      "contents (sw_fs w') (object_path (s3_fl libs) loc) = Some ?bs" by auto
    then show ?thesis by (simp add: write_object_def fio_defs)
  qed
  note r = reads_keeps [OF w1(2)]
  consider (reader) "ctx_body_reader ctx = Some ?bs" | (spooled) "ctx_body_reader ctx = None" "ctx_spooled_body ctx = Some ?bs"
    | (buffered) "ctx_body_reader ctx = None" "ctx_spooled_body ctx = None" "raw_body_bytes ctx = ?bs"
    by (cases "ctx_body_reader ctx"; cases "ctx_spooled_body ctx") (auto simp: request_bytes_def)
  then show ?thesis
  proof cases
    case reader
    then show ?thesis
      using filed [of "content_length_of (s3_ext libs) ctx"] assms w1 r
      by (cases "case content_length_of (s3_ext libs) ctx of Some n \<Rightarrow> n \<le> s3_threshold libs | None \<Rightarrow> False")
        (auto simp: take_body_def length_honest_def write_object_from_reader_def holds_def Let_def)
  next
    case spooled
    then show ?thesis
      using filed [of "Some (length ?bs)"] assms w1 r
      by (cases "length ?bs \<le> s3_threshold libs") (auto simp: take_body_def write_object_from_sync_reader_def holds_def Let_def)
  next
    case buffered
    then show ?thesis
      using plain assms(1) by (cases "length ?bs \<le> s3_threshold libs") (auto simp: take_body_def holds_def Let_def)
  qed
qed

section \<open>PutObject and GetObject\<close>

lemma concat_read_chunks: "0 < n \<Longrightarrow> concat (read_chunks n bs) = bs"
  by (induction n bs rule: read_chunks.induct) (subst read_chunks.simps, auto)

lemma object_body_ok:
  assumes "faultless w" "holds w (ov_data v) bytes" "ov_size v = length bytes"
  shows "\<exists>body w'. object_body libs v w = (Inr body, w') \<and> into_bytes body = Inr bytes"
proof (cases "ov_data v")
  case (FileRef p)
  then obtain w' where "lift_io (fs_read p) w = (Inr bytes, w')"
    using fs_read_ok [OF assms(1)] assms(2) by (auto simp: holds_def)
  with FileRef show ?thesis
    by (auto simp: object_body_def read_object_at_def fio_bind_def fio_return_def collect_stream_ok concat_read_chunks
        get_object_stream_read_buf_def GET_OBJECT_STREAM_READ_BUF_SMALL_def GET_OBJECT_STREAM_READ_BUF_LARGE_def)
qed (use assms in \<open>simp add: object_body_def holds_def\<close>)

text \<open>The request reads the current version of the object.\<close>

definition reads_object :: "RequestContext \<Rightarrow> string \<Rightarrow> string \<Rightarrow> bool" where
  "reads_object ctx bucket key \<longleftrightarrow>
     derive_s3_operation ctx \<in> {''GetObject'', ''PresignedGetObject''} \<and> bucket_from_path (ctx_path ctx) = Some bucket \<and>
     key_from_path (ctx_path ctx) = key \<and> hm_get (ctx_query_params ctx) ''versionId'' = None"

lemma get_object_answers:
  assumes "reads_object ctx bucket key" "scope_store ctx b = Some st" "bucket_exists st bucket" "get_object st bucket key = Some v"
    and "faultless w" "holds w (ov_data v) bytes" "ov_size v = length bytes"
  shows "\<exists>r w'. s3_dispatch libs ctx b w = Some (Inr r, b, w') \<and> status_code r = 200 \<and> into_bytes (resp_body r) = Inr bytes"
proof -
  obtain body w' where "object_body libs v w = (Inr body, w')" "into_bytes body = Inr bytes" using object_body_ok [OF assms(5-7)] by blast
  then have "\<exists>r. handle_get_object libs ctx b w = (r, b, w') \<and> status_code r = 200 \<and> into_bytes (resp_body r) = Inr bytes"
    using assms(1-4) by (simp add: handle_get_object_def with_bucket_def reads_object_def)
  moreover have "s3_op libs ctx (derive_s3_operation ctx) = Some (\<lambda>b w. Some (handle_get_object libs ctx b w))"
    using assms(1) by (auto simp: reads_object_def s3_op_def s3_read_op_def s3_store_op_def s3_async_op_def)
  ultimately show ?thesis by (auto simp: s3_dispatch_def)
qed

lemma get_insert_version:
  assumes "bt_wf m" "\<not> ov_delete_marker v"
  shows "Option.bind (bt_get (snd (insert_version m key v)) key) current = Some v"
  using assms
  by (auto simp: insert_version_def push_version_def S3Object_new_def current_def map_of_bt_insert split: option.splits)

lemma get_put_object_version:
  assumes "s3_store_ok st" "bucket_exists st bucket" "\<not> ov_delete_marker v"
  shows "get_object (snd (put_object_version st bucket key v)) bucket key = Some v"
proof -
  obtain m where m: "hm_get (s3_objects st) bucket = Some m" "bt_wf m"
    using assms(1,2) by (auto simp: s3_store_ok_def objects_ok_def)
  with get_insert_version [OF m(2) assms(3)] show ?thesis
    by (simp add: get_object_def put_object_version_def set_objects_def update_conv' case_prod_beta Let_def)
qed

lemma bucket_exists_put [simp]: "bucket_exists (snd (put_object_version st bucket key v)) b = bucket_exists st b"
  by (auto simp: put_object_version_def case_prod_beta Let_def split: option.splits)

lemma discard_file_other:
  assumes "faultless w" "p \<noteq> q"
  shows "faultless (discard_file p w) \<and> contents (sw_fs (discard_file p w)) q = contents (sw_fs w) q"
  using assms
  by (auto simp: discard_file_def lift_io_def remove_file_def faultless_def faultless_step contents_def delete_conv' Let_def)

lemma discard_opt_holds:
  assumes "faultless w" "holds w d bytes" "\<forall>p. path = Some p \<longrightarrow> d \<noteq> FileRef p"
  shows "faultless (discard_opt path w) \<and> holds (discard_opt path w) d bytes"
  using assms discard_file_other [OF assms(1)]
  by (cases path; cases d) (auto simp: discard_opt_def holds_def discard_file_def lift_io_def remove_file_def faultless_def faultless_step Let_def)

lemma replaced_file_other: "replaced_file vid d prev = Some p \<Longrightarrow> d \<noteq> FileRef p"
  by (auto simp: replaced_file_def split: if_splits option.splits ObjectDataRef.splits)

lemma emit_keeps_files: "sw_fs (emit_s3_notification libs acc reg bucket key ev b w) = sw_fs w"
proof -
  have "sw_fs (fold f xs v) = sw_fs v" if "\<And>x v. sw_fs (f x v) = sw_fs v" for f and xs :: "NotificationConfig list" and v :: s3_world
    using that by (induction xs arbitrary: v) auto
  then show ?thesis by (simp add: emit_s3_notification_def sw_now_def Let_def split: option.splits)
qed

lemma emit_keeps_dirs: "sw_known_dirs (emit_s3_notification libs acc reg bucket key ev b w) = sw_known_dirs w"
proof -
  have "sw_known_dirs (fold f xs v) = sw_known_dirs v" if "\<And>x v. sw_known_dirs (f x v) = sw_known_dirs v"
    for f and xs :: "NotificationConfig list" and v :: s3_world
    using that by (induction xs arbitrary: v) auto
  then show ?thesis by (simp add: emit_s3_notification_def sw_now_def Let_def split: option.splits)
qed

lemma emit_keeps:
  assumes "faultless w" "holds w d bytes"
  shows "faultless (emit_s3_notification libs acc reg bucket key ev b w) \<and> holds (emit_s3_notification libs acc reg bucket key ev b w) d bytes"
  using assms by (auto simp: faultless_def holds_def emit_keeps_files emit_keeps_dirs split: ObjectDataRef.splits)

lemma put_object_stores:
  assumes "bucket_from_path (ctx_path ctx) = Some bucket" "key_from_path (ctx_path ctx) = key"
    and "scope_store ctx b = Some st" "s3_store_ok st" "hm_get (s3_buckets st) bucket = Some bk"
    and "faultless w" "length_honest (s3_ext libs) ctx"
  shows "\<exists>r st' w' v. handle_put_object libs ctx b w = (r, write_back b (ctx_account_id ctx) (ctx_region ctx) st', w') \<and>
    status_code r = 200 \<and> bucket_exists st' bucket \<and> get_object st' bucket key = Some v \<and> ov_size v = length (request_bytes ctx) \<and>
    faultless w' \<and> holds w' (ov_data v) (request_bytes ctx)"
proof -
  obtain vid w1 where vid: "new_version_id (bk_versioning bk = ''Enabled'') w = (vid, w1)" by fastforce
  then have f1: "faultless w1" using assms(6) by (auto simp: new_version_id_def new_uuid_def faultless_def split: if_splits)
  let ?loc = "location_of ctx bucket key vid"
  obtain etag data w2 where tb: "take_body libs ctx ?loc ''Failed to store object'' w1 = (Inr (etag, length (request_bytes ctx), data), w2)"
    and f2: "faultless w2" "holds w2 data (request_bytes ctx)"
    using take_body_ok [OF f1 assms(7)] by blast
  obtain now w3 where now: "sw_now w2 = (now, w3)" by fastforce
  then have f3: "faultless w3" "holds w3 data (request_bytes ctx)"
    using f2 by (auto simp: sw_now_def faultless_def holds_def split: ObjectDataRef.splits)
  let ?v = "plain_version vid now etag (content_type_of (s3_ext libs) ctx) (length (request_bytes ctx)) (metadata_of (s3_ext libs) ctx) data"
  obtain prev st' where put: "put_object_version st bucket key ?v = (prev, st')" by fastforce
  have be: "bucket_exists st bucket" using assms(5) by (simp add: bucket_exists_def contains_key_def)
  have v: "\<not> ov_delete_marker ?v" "ov_data ?v = data" "ov_size ?v = length (request_bytes ctx)" by (simp_all add: plain_version_def)
  have g: "get_object st' bucket key = Some ?v" "bucket_exists st' bucket"
    using get_put_object_version [OF assms(4) be v(1), of key] bucket_exists_put [of st bucket key ?v bucket] put be by simp_all
  have "faultless (discard_opt (replaced_file vid data prev) w3) \<and> holds (discard_opt (replaced_file vid data prev) w3) data (request_bytes ctx)"
    by (rule discard_opt_holds [OF f3]) (auto dest: replaced_file_other)
  moreover have "\<exists>r. handle_put_object libs ctx b w = (r, write_back b (ctx_account_id ctx) (ctx_region ctx) st',
      discard_opt (replaced_file vid data prev) w3) \<and> status_code r = 200"
    using assms(1-3,5) be by (simp add: handle_put_object_def with_bucket_def vid tb now put s3_empty_def)
  ultimately show ?thesis using g v(2,3) by metis
qed

text \<open>C4: What PutObject stored is what GetObject sends. In every store that requests can reach, while the file system does
  not fail, a PutObject request into an existing bucket is answered with 200, and a GetObject request for the same key that follows it
  answers 200 with a body that yields exactly the bytes of the first request: whether they came as a network stream, spooled or buffered,
  below or above the threshold of inline storage, with or without versioning, and whatever the object held before. The announced
  length of the body must not exceed its real length.\<close>

theorem s3_put_then_get:
  assumes "s3_run libs ctxs bundle_new w0 = Some (b, w)" "faultless w"
    and "derive_s3_operation put = ''PutObject''" "bucket_from_path (ctx_path put) = Some bucket"
    and "scope_store put b = Some st" "bucket_exists st bucket" "length_honest (s3_ext libs) put"
    and "reads_object get bucket (key_from_path (ctx_path put))" "ctx_account_id get = ctx_account_id put" "ctx_region get = ctx_region put"
  shows "\<exists>r b' w' r' w''. s3_dispatch libs put b w = Some (Inr r, b', w') \<and> status_code r = 200 \<and>
    s3_dispatch libs get b' w' = Some (Inr r', b', w'') \<and> status_code r' = 200 \<and> into_bytes (resp_body r') = Inr (request_bytes put)"
proof -
  have ok: "s3_store_ok st" using s3_reachable_ok assms(1,5) by (simp add: scope_store_def)
  obtain bk where bk: "hm_get (s3_buckets st) bucket = Some bk" using assms(6) by (auto simp: bucket_exists_def contains_key_def)
  let ?key = "key_from_path (ctx_path put)"
  obtain r st' w1 v where put: "handle_put_object libs put b w = (r, write_back b (ctx_account_id put) (ctx_region put) st', w1)"
    "status_code r = 200" "bucket_exists st' bucket" "get_object st' bucket ?key = Some v" "ov_size v = length (request_bytes put)"
    and f: "faultless w1" "holds w1 (ov_data v) (request_bytes put)"
    using put_object_stores [OF assms(4) refl assms(5) ok bk assms(2,7)] by blast
  let ?b = "write_back b (ctx_account_id put) (ctx_region put) st'"
  obtain w2 where w2: "notifying libs put 200 ''s3:ObjectCreated:Put'' (handle_put_object libs put) b w = (r, ?b, w2)"
    "faultless w2" "holds w2 (ov_data v) (request_bytes put)"
    using put emit_keeps [OF f] by (auto simp: notifying_def)
  have d: "s3_dispatch libs put b w = Some (Inr r, ?b, w2)"
    using w2(1) assms(3) by (simp add: s3_dispatch_def s3_op_def s3_read_op_def s3_store_op_def s3_async_op_def)
  have "scope_store get ?b = Some st'" using assms(9,10) by (simp add: scope_store_def)
  from get_object_answers [OF assms(8) this put(3,4) w2(2,3) put(5)] d put(2) show ?thesis by blast
qed

theorem s3_put_then_get_witness:
  "\<exists>r b' w' r' w''. s3_dispatch (demo_s3 0) (s3_request ''PUT'' ''/pics/c'' ''hello'')
      (fst (the (s3_run (demo_s3 0) demo_puts bundle_new demo_s3_world))) (snd (the (s3_run (demo_s3 0) demo_puts bundle_new demo_s3_world))) =
        Some (Inr r, b', w') \<and>
    s3_dispatch (demo_s3 0) (s3_request ''GET'' ''/pics/c'' []) b' w' = Some (Inr r', b', w'') \<and> into_bytes (resp_body r') = Inr ''hello''"
proof -
  let ?r = "s3_run (demo_s3 0) demo_puts bundle_new demo_s3_world"
  let ?put = "s3_request ''PUT'' ''/pics/c'' ''hello''" and ?get = "s3_request ''GET'' ''/pics/c'' []"
  obtain b w where r: "?r = Some (b, w)" using s3_run_answers by blast
  have c1: "case ?r of Some (b, w) \<Rightarrow> set (sw_known_dirs w) \<subseteq> set (fs_dirs (sw_fs w)) \<and>
      (case scope_store ?put b of Some st \<Rightarrow> bucket_exists st ''pics'' | None \<Rightarrow> False) | None \<Rightarrow> False" by code_simp
  have "case ?r of Some (b, w) \<Rightarrow> \<not> fs_fault (sw_fs w) n | None \<Rightarrow> False" for n by code_simp
  then have nofault: "fs_fault (sw_fs w) = (\<lambda>_. False)" using r by auto
  from c1 obtain st where st: "set (sw_known_dirs w) \<subseteq> set (fs_dirs (sw_fs w))" "scope_store ?put b = Some st" "bucket_exists st ''pics''"
    using r by (auto split: option.splits)
  with nofault have f: "faultless w" by (simp add: faultless_def)
  have c: "derive_s3_operation ?put = ''PutObject''" "bucket_from_path (ctx_path ?put) = Some ''pics''" by code_simp+
  have g: "reads_object ?get ''pics'' (key_from_path (ctx_path ?put))" by code_simp
  have l: "length_honest (s3_ext (demo_s3 0)) ?put" by code_simp
  have e: "ctx_account_id ?get = ctx_account_id ?put" "ctx_region ?get = ctx_region ?put" "request_bytes ?put = ''hello''" by code_simp+
  from s3_put_then_get [OF r f c st(2,3) l g e(1,2)] r e(3) show ?thesis by auto
qed

section \<open>Copies\<close>

lemma resolve_ok: "contains_key (fs_names (sw_fs w)) (object_path fl loc) \<Longrightarrow> resolve_existing_object_path fl loc w = (Inr (object_path fl loc), w)"
  by (simp add: resolve_existing_object_path_def Let_def)

definition link_of :: "s3_world \<Rightarrow> string \<Rightarrow> nat option" where
  "link_of w p = hm_get (fs_names (sw_fs w)) p"

lemma ensure_dir_links:
  "faultless w \<Longrightarrow> \<exists>w'. ensure_dir_exists dir w = (Inr (), w') \<and> faultless w' \<and> fs_names (sw_fs w') = fs_names (sw_fs w) \<and>
    fs_inodes (sw_fs w') = fs_inodes (sw_fs w)"
  by (auto simp: ensure_dir_exists_def fio_defs create_dir_all_def faultless_def faultless_step)

lemma copy_links:
  assumes "faultless w" "link_of w (object_path fl src) = Some i" "object_path fl src \<noteq> object_path fl dst" "link_of w (object_path fl dst) = None"
  shows "\<exists>w'. copy_object fl src dst w = (Inr (object_path fl dst), w') \<and> faultless w' \<and>
    link_of w' (object_path fl src) = Some i \<and> link_of w' (object_path fl dst) = Some i \<and> fs_inodes (sw_fs w') = fs_inodes (sw_fs w)"
proof -
  obtain w1 where w1: "ensure_dir_exists (object_dir fl dst) w = (Inr (), w1)" "faultless w1"
    "fs_names (sw_fs w1) = fs_names (sw_fs w)" "fs_inodes (sw_fs w1) = fs_inodes (sw_fs w)" using ensure_dir_links [OF assms(1)] by blast
  have "resolve_existing_object_path fl src w = (Inr (object_path fl src), w)"
    using assms(2) by (intro resolve_ok) (simp add: link_of_def contains_key_def)
  with w1 assms(2-4) show ?thesis
    by (auto simp: copy_object_def fio_bind_def fio_return_def object_path_def [symmetric] lift_io_def hard_link_def faultless_def faultless_step
        link_of_def contains_key_def update_conv' Let_def)
qed

lemma copy_onto_link:
  assumes "faultless w" "link_of w (object_path fl src) = Some i" "link_of w (object_path fl dst) = Some i"
    and "object_path fl src \<noteq> object_path fl dst" "hm_get (fs_inodes (sw_fs w)) i \<noteq> None"
  shows "\<exists>w'. copy_object fl src dst w = (Inr (object_path fl dst), w') \<and> faultless w' \<and>
    contents (sw_fs w') (object_path fl src) = Some [] \<and> contents (sw_fs w') (object_path fl dst) = Some []"
proof -
  obtain w1 where w1: "ensure_dir_exists (object_dir fl dst) w = (Inr (), w1)" "faultless w1"
    "fs_names (sw_fs w1) = fs_names (sw_fs w)" "fs_inodes (sw_fs w1) = fs_inodes (sw_fs w)" using ensure_dir_links [OF assms(1)] by blast
  have "resolve_existing_object_path fl src w = (Inr (object_path fl src), w)"
    using assms(2) by (intro resolve_ok) (simp add: link_of_def contains_key_def)
  with w1 assms(2-5) show ?thesis
    by (auto simp: copy_object_def fio_bind_def fio_return_def object_path_def [symmetric] lift_io_def hard_link_def fs_copy_def faultless_def
        faultless_step link_of_def contains_key_def contents_def put_inode_def update_conv' Let_def split: option.splits)
qed

text \<open>C18: Copying a file-backed object twice onto the same key destroys it. The first copy makes the
  destination a hard link of the source. The second finds the destination in place, falls back to \<^verbatim>\<open>fs::copy\<close>, and that truncates the
  inode both names share before it reads: both copies report success, and afterwards reading the source and reading the
  destination succeed with no bytes at all.\<close>

theorem s3_copy_twice_empties:
  assumes "faultless w" "contents (sw_fs w) (object_path fl src) = Some bytes"
    and "object_path fl src \<noteq> object_path fl dst" "\<not> contains_key (fs_names (sw_fs w)) (object_path fl dst)"
  shows "\<exists>w1 w2 w3 w4. copy_object fl src dst w = (Inr (object_path fl dst), w1) \<and>
    copy_object fl src dst w1 = (Inr (object_path fl dst), w2) \<and>
    read_object fl src w2 = (Inr [], w3) \<and> read_object fl dst w2 = (Inr [], w4)"
proof -
  obtain i where i: "link_of w (object_path fl src) = Some i" "hm_get (fs_inodes (sw_fs w)) i = Some bytes"
    using assms(2) by (auto simp: contents_def link_of_def bind_eq_Some_conv)
  have n: "link_of w (object_path fl dst) = None" using assms(4) by (simp add: link_of_def contains_key_def)
  obtain w1 where w1: "copy_object fl src dst w = (Inr (object_path fl dst), w1)" "faultless w1" "link_of w1 (object_path fl src) = Some i"
    "link_of w1 (object_path fl dst) = Some i" "fs_inodes (sw_fs w1) = fs_inodes (sw_fs w)"
    using copy_links [OF assms(1) i(1) assms(3) n] by blast
  obtain w2 where w2: "copy_object fl src dst w1 = (Inr (object_path fl dst), w2)" "faultless w2"
    "contents (sw_fs w2) (object_path fl src) = Some []" "contents (sw_fs w2) (object_path fl dst) = Some []"
    using copy_onto_link [OF w1(2-4) assms(3)] i(2) w1(5) by auto
  have "\<exists>w'. read_object fl loc w2 = (Inr [], w')" if "contents (sw_fs w2) (object_path fl loc) = Some []" for loc
  proof -
    have "contains_key (fs_names (sw_fs w2)) (object_path fl loc)" using that by (auto simp: contents_def contains_key_def bind_eq_Some_conv)
    from resolve_ok [OF this] fs_read_ok [OF w2(2) that] show ?thesis by (auto simp: read_object_def fio_bind_def)
  qed
  with w1(1) w2 show ?thesis by blast
qed

definition demo_location :: "string \<Rightarrow> ObjectLocation" where
  "demo_location key = \<lparr>ol_account_id = ''000000000000'', ol_region = ''us-east-1'', ol_bucket = ''pics'', ol_key = key, ol_version_id = ''null''\<rparr>"

definition stored_world :: s3_world where
  "stored_world = snd (write_object (s3_fl (demo_s3 0)) (demo_location ''a'') ''hello'' demo_s3_world)"

theorem s3_copy_twice_empties_witness:
  "\<exists>w1 w2 w3 w4. copy_object (s3_fl (demo_s3 0)) (demo_location ''a'') (demo_location ''b'') stored_world =
      (Inr (object_path (s3_fl (demo_s3 0)) (demo_location ''b'')), w1) \<and>
    copy_object (s3_fl (demo_s3 0)) (demo_location ''a'') (demo_location ''b'') w1 = (Inr (object_path (s3_fl (demo_s3 0)) (demo_location ''b'')), w2) \<and>
    read_object (s3_fl (demo_s3 0)) (demo_location ''a'') w2 = (Inr [], w3) \<and> read_object (s3_fl (demo_s3 0)) (demo_location ''b'') w2 = (Inr [], w4)"
proof -
  have "fs_fault (sw_fs stored_world) n = False" for n by code_simp
  moreover have "set (sw_known_dirs stored_world) \<subseteq> set (fs_dirs (sw_fs stored_world))" by code_simp
  ultimately have f: "faultless stored_world" by (auto simp: faultless_def)
  have "contents (sw_fs stored_world) (object_path (s3_fl (demo_s3 0)) (demo_location ''a'')) = Some ''hello''"
    "object_path (s3_fl (demo_s3 0)) (demo_location ''a'') \<noteq> object_path (s3_fl (demo_s3 0)) (demo_location ''b'')"
    "\<not> contains_key (fs_names (sw_fs stored_world)) (object_path (s3_fl (demo_s3 0)) (demo_location ''b''))" by code_simp+
  from s3_copy_twice_empties [OF f this] show ?thesis .
qed

end
