(* ===== verification/S3_Multipart.thy ===== *)
theory S3_Multipart
  imports S3_Objects
begin

text \<open>
  Multipart uploads: completing an upload stores the concatenation of the parts the request lists, in the order
  of their numbers, and GetObject sends it.
\<close>

section \<open>Reading the parts\<close>

definition part_bytes :: "s3_world \<Rightarrow> UploadPart \<Rightarrow> string" where
  "part_bytes w p = (case pt_data p of Inline bs \<Rightarrow> bs | FileRef path \<Rightarrow> (case contents (sw_fs w) path of Some bs \<Rightarrow> bs | None \<Rightarrow> []))"

text \<open>The file of a part is there and has the recorded size.\<close>

definition part_stored :: "s3_world \<Rightarrow> UploadPart \<Rightarrow> bool" where
  "part_stored w p \<longleftrightarrow> holds w (pt_data p) (part_bytes w p) \<and> pt_size p = length (part_bytes w p)"

lemma same_files:
  assumes "sw_fs w' = sw_fs w"
  shows "part_bytes w' = part_bytes w" "holds w' = holds w" "part_stored w' = part_stored w"
proof -
  show b: "part_bytes w' = part_bytes w" and h: "holds w' = holds w"
    using assms by (auto simp: fun_eq_iff part_bytes_def holds_def split: ObjectDataRef.splits)
  show "part_stored w' = part_stored w" by (simp add: fun_eq_iff part_stored_def b h)
qed

lemma read_parts_ok:
  assumes "faultless w" "\<forall>p \<in> set ps. holds w (pt_data p) (f p)"
  shows "\<exists>w'. read_parts ps w = (Inr (concat (map f ps)), w') \<and> reads w w'"
  using assms
proof (induction ps arbitrary: w)
  case Nil
  then show ?case by (simp add: fio_return_def)
next
  case (Cons p ps)
  have "\<exists>w1. (case pt_data p of Inline bytes \<Rightarrow> fio_return bytes | FileRef path \<Rightarrow> lift_io (fs_read path)) w = (Inr (f p), w1) \<and> reads w w1"
    using Cons.prems fs_read_ok [OF Cons.prems(1)] by (cases "pt_data p") (auto simp: holds_def fio_return_def)
  then obtain w1 where w1: "(case pt_data p of Inline bytes \<Rightarrow> fio_return bytes | FileRef path \<Rightarrow> lift_io (fs_read path)) w = (Inr (f p), w1)"
    "reads w w1" by blast
  with Cons.prems obtain w2 where "read_parts ps w1 = (Inr (concat (map f ps)), w2)" "reads w1 w2"
    using Cons.IH [of w1] reads_keeps [OF w1(2)] by auto
  with w1 reads_trans show ?case by (auto simp: fio_bind_def fio_return_def)
qed

text \<open>Names of temporary files are not in use, and new inodes are new.\<close>

definition no_leftovers :: "file_libs \<Rightarrow> ObjectLocation \<Rightarrow> s3_world \<Rightarrow> bool" where
  "no_leftovers fl loc w \<longleftrightarrow>
     \<not> contains_key (fs_names (sw_fs w)) (tmp_path_of fl loc w) \<and> (\<forall>i \<in> snd ` set (fs_names (sw_fs w)). i < fs_next (sw_fs w))"

lemma opened_contents:
  assumes "faultless w" "no_leftovers fl loc w" "contents (sw_fs w) p = Some bs"
  shows "contents (sw_fs (opened fl loc w)) p = Some bs"
proof -
  let ?t = "tmp_path_of fl loc w"
  obtain w1 where w1: "ensure_dir_exists (object_dir fl loc) w = (Inr (), w1)" "faultless w1"
    "object_dir fl loc \<in> set (fs_dirs (sw_fs w1))" using ensure_dir_ok [OF assms(1)] by blast
  then have same: "fs_names (sw_fs w1) = fs_names (sw_fs w)" "fs_inodes (sw_fs w1) = fs_inodes (sw_fs w)" "fs_next (sw_fs w1) = fs_next (sw_fs w)"
    using assms(1) by (auto simp: ensure_dir_exists_def fio_defs create_dir_all_def faultless_def faultless_step split: if_splits)
  obtain i where i: "hm_get (fs_names (sw_fs w)) p = Some i" "hm_get (fs_inodes (sw_fs w)) i = Some bs"
    using assms(3) by (auto simp: contents_def bind_eq_Some_conv)
  have "i \<in> snd ` set (fs_names (sw_fs w))" using map_of_SomeD [OF i(1)] by force
  then have "i < fs_next (sw_fs w)" "p \<noteq> ?t" "hm_get (fs_names (sw_fs w)) ?t = None"
    using assms(2) i(1) by (auto simp: no_leftovers_def contains_key_def)
  with i same w1 show ?thesis
    by (auto simp: opened_def next_tmp_def lift_io_def file_create_def faultless_def faultless_step put_inode_def contents_def update_conv' Let_def)
qed

lemma opened_holds: "faultless w \<Longrightarrow> no_leftovers fl loc w \<Longrightarrow> holds w d bs \<Longrightarrow> holds (opened fl loc w) d bs"
  by (cases d) (simp_all add: holds_def opened_contents)

lemma discard_all_holds:
  "faultless w \<Longrightarrow> holds w d bytes \<Longrightarrow> \<forall>p \<in> set ps. d \<noteq> FileRef p \<Longrightarrow>
   faultless (fold discard_file ps w) \<and> holds (fold discard_file ps w) d bytes"
proof (induction ps arbitrary: w)
  case (Cons p ps)
  have "faultless (discard_opt (Some p) w) \<and> holds (discard_opt (Some p) w) d bytes"
    by (rule discard_opt_holds) (use Cons.prems in auto)
  with Cons show ?case by (simp add: discard_opt_def)
qed simp

section \<open>Assembly\<close>

lemma assemble_ok:
  assumes "faultless w" "no_leftovers (s3_fl libs) loc w" "\<forall>p \<in> set ps. part_stored w p"
    and "object_path (s3_fl libs) loc \<notin> set (part_files ps)"
  shows "\<exists>etag data w'. assemble libs loc tag ps w = (Inr (etag, length (concat (map (part_bytes w) ps)), data), w') \<and>
    faultless w' \<and> holds w' data (concat (map (part_bytes w) ps))"
proof -
  let ?bs = "concat (map (part_bytes w) ps)" and ?fl = "s3_fl libs" and ?est = "sum_list (map pt_size ps)"
  have sz: "?est = length ?bs" using assms(3) by (induction ps) (auto simp: part_stored_def)
  have h: "\<forall>p \<in> set ps. holds w (pt_data p) (part_bytes w p)" using assms(3) by (simp add: part_stored_def)
  show ?thesis
  proof (cases "?est \<le> s3_threshold libs")
    case True
    obtain w1 where w1: "read_parts ps w = (Inr ?bs, w1)" "reads w w1" using read_parts_ok [OF assms(1) h] by blast
    have "faultless (fold discard_file (part_files ps) w1) \<and> holds (fold discard_file (part_files ps) w1) (Inline ?bs) ?bs"
      by (rule discard_all_holds) (use reads_keeps [OF w1(2)] assms(1) in \<open>auto simp: holds_def\<close>)
    with True w1(1) show ?thesis by (auto simp: assemble_def Let_def)
  next
    case False
    have fo: "faultless (opened ?fl loc w)" using opened_ok [OF assms(1)] by blast
    have "\<forall>p \<in> set ps. holds (opened ?fl loc w) (pt_data p) (part_bytes w p)" using h opened_holds [OF assms(1,2)] by blast
    then obtain w1 where "read_parts ps (opened ?fl loc w) = (Inr ?bs, w1)" "reads (opened ?fl loc w) w1"
      using read_parts_ok [OF fo] by blast
    then obtain w2 where w2: "write_and_rename ?fl loc (read_parts ps) (Some ?est) w = (Inr (object_path ?fl loc, ?bs), w2)" "faultless w2"
      "contents (sw_fs w2) (object_path ?fl loc) = Some ?bs"
      using write_and_rename_ok [OF assms(1), of "read_parts ps" ?fl loc ?bs w1 "Some ?est"] sz by auto
    have "faultless (fold discard_file (part_files ps) w2) \<and> holds (fold discard_file (part_files ps) w2) (FileRef (object_path ?fl loc)) ?bs"
      by (rule discard_all_holds) (use w2 assms(4) in \<open>auto simp: holds_def\<close>)
    with False w2(1) show ?thesis by (auto simp: assemble_def write_object_from_sync_reader_def Let_def)
  qed
qed

lemma get_completed:
  assumes "s3_store_ok st" "hm_get (s3_uploads st) uid = Some u" "\<not> ov_delete_marker v"
  shows "get_object (snd (complete_multipart_upload_with_version st uid v)) (mu_bucket u) (mu_key u) = Some v"
    and "bucket_exists (snd (complete_multipart_upload_with_version st uid v)) n = bucket_exists st n"
proof -
  have "bt_wf (entry_or_default st (mu_bucket u))" using s3_store_ok_entry [OF assms(1)] by (simp add: objects_ok_def)
  from get_insert_version [OF this assms(3)] assms(2)
  show "get_object (snd (complete_multipart_upload_with_version st uid v)) (mu_bucket u) (mu_key u) = Some v"
    by (simp add: complete_multipart_upload_with_version_def get_object_def set_objects_def entry_or_default_def update_conv' case_prod_beta Let_def)
  show "bucket_exists (snd (complete_multipart_upload_with_version st uid v)) n = bucket_exists st n"
    using assms(2) by (simp add: complete_multipart_upload_with_version_def case_prod_beta Let_def)
qed

section \<open>CompleteMultipartUpload\<close>

definition completes :: "RequestContext \<Rightarrow> string \<Rightarrow> S3Store \<Rightarrow> MultipartUpload \<Rightarrow> bool" where
  "completes ctx uid st u \<longleftrightarrow>
     derive_s3_operation ctx = ''CompleteMultipartUpload'' \<and> hm_get (ctx_query_params ctx) ''uploadId'' = Some uid \<and>
     hm_get (s3_uploads st) uid = Some u \<and> bucket_from_path (ctx_path ctx) = Some (mu_bucket u) \<and> key_from_path (ctx_path ctx) = mu_key u"

text \<open>The parts a completion names, among those the upload has, in ascending order of their numbers.\<close>

definition asked_parts :: "RequestContext \<Rightarrow> MultipartUpload \<Rightarrow> UploadPart list" where
  "asked_parts ctx u = List.map_filter (hm_get (mu_parts u))
     (sort (map fst (requested_parts (case from_utf8 (raw_body_bytes ctx) of Some s \<Rightarrow> s | None \<Rightarrow> []))))"

lemma asked_parts_listed:
  "asked_parts ctx u = listed_parts u (requested_parts (case from_utf8 (raw_body_bytes ctx) of Some s \<Rightarrow> s | None \<Rightarrow> []))"
  by (simp add: asked_parts_def listed_parts_def)

lemma complete_stores:
  assumes "completes ctx uid st u" "scope_store ctx b = Some st" "s3_store_ok st" "faultless w"
    and "\<forall>p \<in> set (asked_parts ctx u). part_stored w p"
    and "\<forall>vid. no_leftovers (s3_fl libs) (location_of ctx (mu_bucket u) (mu_key u) vid) w \<and>
      object_path (s3_fl libs) (location_of ctx (mu_bucket u) (mu_key u) vid) \<notin> set (part_files (asked_parts ctx u))"
  shows "\<exists>r st' w' v. handle_complete_multipart_upload libs ctx b w = (r, write_back b (ctx_account_id ctx) (ctx_region ctx) st', w') \<and>
    status_code r = 200 \<and> bucket_exists st' (mu_bucket u) \<and> get_object st' (mu_bucket u) (mu_key u) = Some v \<and>
    ov_size v = length (concat (map (part_bytes w) (asked_parts ctx u))) \<and>
    faultless w' \<and> holds w' (ov_data v) (concat (map (part_bytes w) (asked_parts ctx u)))"
proof -
  let ?ps = "asked_parts ctx u" and ?bs = "concat (map (part_bytes w) (asked_parts ctx u))"
  let ?req = "requested_parts (case from_utf8 (raw_body_bytes ctx) of Some s \<Rightarrow> s | None \<Rightarrow> [])"
  let ?tag = "assembled_etag libs ?req (filter (contains_key (mu_parts u)) (sort (map fst ?req)))"
  obtain vid w1 where vid: "new_version_id (versioning_of st (mu_bucket u)) w = (vid, w1)" by fastforce
  let ?loc = "location_of ctx (mu_bucket u) (mu_key u) vid"
  have fs1: "sw_fs w1 = sw_fs w" "sw_known_dirs w1 = sw_known_dirs w" "sw_tmp w1 = sw_tmp w"
    using vid by (auto simp: new_version_id_def new_uuid_def split: if_splits)
  have f1: "faultless w1" "no_leftovers (s3_fl libs) ?loc w1" "part_bytes w1 = part_bytes w" "\<forall>p \<in> set ?ps. part_stored w1 p"
    using assms(4,5,6) fs1 same_files [OF fs1(1)] by (simp_all add: faultless_def no_leftovers_def tmp_path_of_def)
  obtain etag data w2 where as: "assemble libs ?loc ?tag ?ps w1 = (Inr (etag, length ?bs, data), w2)" "faultless w2" "holds w2 data ?bs"
    using assemble_ok [OF f1(1,2,4)] assms(6) f1(3) by metis
  obtain now w3 where now: "sw_now w2 = (now, w3)" by fastforce
  then have f3: "faultless w3" "holds w3 data ?bs"
    using as(2,3) by (auto simp: sw_now_def faultless_def holds_def split: ObjectDataRef.splits)
  let ?v = "plain_version vid now etag (mu_content_type u) (length ?bs) (mu_metadata u) data"
  obtain prev st' where cp: "complete_multipart_upload_with_version st uid ?v = (prev, st')" by fastforce
  have v: "\<not> ov_delete_marker ?v" "ov_data ?v = data" "ov_size ?v = length ?bs" by (simp_all add: plain_version_def)
  have up: "hm_get (s3_uploads st) uid = Some u" using assms(1) by (simp add: completes_def)
  then have be: "bucket_exists st (mu_bucket u)" using assms(3) map_of_SomeD [OF up] by (force simp: s3_store_ok_def)
  have g: "get_object st' (mu_bucket u) (mu_key u) = Some ?v" "bucket_exists st' (mu_bucket u)"
    using get_completed [OF assms(3) up v(1)] cp be by (metis snd_conv)+
  have "faultless (discard_opt (replaced_file vid data prev) w3) \<and> holds (discard_opt (replaced_file vid data prev) w3) data ?bs"
    by (rule discard_opt_holds [OF f3]) (auto dest: replaced_file_other)
  moreover have "\<exists>r. handle_complete_multipart_upload libs ctx b w = (r, write_back b (ctx_account_id ctx) (ctx_region ctx) st',
      discard_opt (replaced_file vid data prev) w3) \<and> status_code r = 200"
    using assms(1,2) as(1) cp
    by (simp add: handle_complete_multipart_upload_def with_bucket_def completes_def asked_parts_listed vid now in_store_existing ok_xml_def Let_def)
  ultimately show ?thesis using g v(2,3) by metis
qed

text \<open>C6: A completed multipart upload is the concatenation of its parts. In every store that requests can reach, while the
  file system does not fail, completing an upload is answered with 200, and a GetObject request for the key that follows it
  answers 200 with exactly the bytes of the parts the completion listed and the upload had, in ascending order of their
  numbers: whether the parts or the whole are kept in memory or in files.\<close>

theorem s3_multipart_concatenates:
  assumes "s3_run libs ctxs bundle_new w0 = Some (b, w)" "faultless w" "scope_store ctx b = Some st" "completes ctx uid st u"
    and "\<forall>p \<in> set (asked_parts ctx u). part_stored w p"
    and "\<forall>vid. no_leftovers (s3_fl libs) (location_of ctx (mu_bucket u) (mu_key u) vid) w \<and>
      object_path (s3_fl libs) (location_of ctx (mu_bucket u) (mu_key u) vid) \<notin> set (part_files (asked_parts ctx u))"
    and "reads_object get (mu_bucket u) (mu_key u)" "ctx_account_id get = ctx_account_id ctx" "ctx_region get = ctx_region ctx"
  shows "\<exists>r b' w' r' w''. s3_dispatch libs ctx b w = Some (Inr r, b', w') \<and> status_code r = 200 \<and>
    s3_dispatch libs get b' w' = Some (Inr r', b', w'') \<and> status_code r' = 200 \<and>
    into_bytes (resp_body r') = Inr (concat (map (part_bytes w) (asked_parts ctx u)))"
proof -
  have ok: "s3_store_ok st" using s3_reachable_ok assms(1,3) by (simp add: scope_store_def)
  let ?bs = "concat (map (part_bytes w) (asked_parts ctx u))"
  obtain r st' w1 v where c: "handle_complete_multipart_upload libs ctx b w = (r, write_back b (ctx_account_id ctx) (ctx_region ctx) st', w1)"
    "status_code r = 200" "bucket_exists st' (mu_bucket u)" "get_object st' (mu_bucket u) (mu_key u) = Some v" "ov_size v = length ?bs"
    and f: "faultless w1" "holds w1 (ov_data v) ?bs"
    using complete_stores [OF assms(4,3) ok assms(2,5,6)] by blast
  let ?b = "write_back b (ctx_account_id ctx) (ctx_region ctx) st'"
  obtain w2 where w2: "notifying libs ctx 200 ''s3:ObjectCreated:CompleteMultipartUpload'' (handle_complete_multipart_upload libs ctx) b w = (r, ?b, w2)"
    "faultless w2" "holds w2 (ov_data v) ?bs"
    using c emit_keeps [OF f] by (auto simp: notifying_def)
  have d: "s3_dispatch libs ctx b w = Some (Inr r, ?b, w2)"
    using w2(1) assms(4) by (simp add: completes_def s3_dispatch_def s3_op_def s3_read_op_def s3_store_op_def s3_async_op_def)
  have "scope_store get ?b = Some st'" using assms(8,9) by (simp add: scope_store_def)
  from get_object_answers [OF assms(7) this c(3,4) w2(2,3) c(5)] d c(2) show ?thesis by blast
qed

text \<open>Two parts of two bytes, in memory, listed in the wrong order; the whole goes to a file.\<close>

definition part_request :: "string \<Rightarrow> string \<Rightarrow> RequestContext" where
  "part_request n body = (s3_request ''PUT'' ''/pics/big'' body)\<lparr>ctx_query_params := [(''uploadId'', ''0''), (''partNumber'', n)]\<rparr>"

definition demo_upload :: "RequestContext list" where
  "demo_upload = [s3_request ''PUT'' ''/pics'' [], (s3_request ''POST'' ''/pics/big'' [])\<lparr>ctx_query_params := [(''uploads'', [])]\<rparr>,
     part_request ''2'' ''cd'', part_request ''1'' ''ab'']"

definition demo_complete :: RequestContext where
  "demo_complete = (s3_request ''POST'' ''/pics/big''
     ''<Part><PartNumber>2</PartNumber></Part><Part><PartNumber>1</PartNumber></Part>'')\<lparr>ctx_query_params := [(''uploadId'', ''0'')]\<rparr>"

definition demo_mu :: MultipartUpload where
  "demo_mu = the (hm_get (s3_uploads (s3_demo_store (demo_s3 3) demo_upload)) ''0'')"

theorem s3_multipart_concatenates_witness:
  "\<exists>r b' w' r' w''. s3_dispatch (demo_s3 3) demo_complete
      (fst (the (s3_run (demo_s3 3) demo_upload bundle_new demo_s3_world))) (snd (the (s3_run (demo_s3 3) demo_upload bundle_new demo_s3_world))) =
        Some (Inr r, b', w') \<and>
    s3_dispatch (demo_s3 3) (s3_request ''GET'' ''/pics/big'' []) b' w' = Some (Inr r', b', w'') \<and> into_bytes (resp_body r') = Inr ''abcd''"
proof -
  let ?r = "s3_run (demo_s3 3) demo_upload bundle_new demo_s3_world" and ?st = "s3_demo_store (demo_s3 3) demo_upload"
  have "\<not> Option.is_none (hm_get (s3_objects ?st) ''pics'')" by code_simp
  then obtain b w where r: "?r = Some (b, w)" "bundle_get b ''000000000000'' ''us-east-1'' = Some ?st" using s3_demo_reachable by blast
  have "case ?r of Some (b, w) \<Rightarrow> set (sw_known_dirs w) \<subseteq> set (fs_dirs (sw_fs w)) \<and> fs_names (sw_fs w) = [] \<and>
      (\<forall>p \<in> set (asked_parts demo_complete demo_mu). part_stored w p) \<and>
      concat (map (part_bytes w) (asked_parts demo_complete demo_mu)) = ''abcd'' | None \<Rightarrow> False" by code_simp
  then have w: "set (sw_known_dirs w) \<subseteq> set (fs_dirs (sw_fs w))" "fs_names (sw_fs w) = []"
    "\<forall>p \<in> set (asked_parts demo_complete demo_mu). part_stored w p"
    "concat (map (part_bytes w) (asked_parts demo_complete demo_mu)) = ''abcd''" using r by simp_all
  have "case ?r of Some (b, w) \<Rightarrow> \<not> fs_fault (sw_fs w) n | None \<Rightarrow> False" for n by code_simp
  then have f: "faultless w" using r w(1) by (auto simp: faultless_def)
  have ss: "scope_store demo_complete b = Some ?st" using r by (simp add: scope_store_def demo_complete_def s3_request_def RequestContext_new_def)
  have files: "part_files (asked_parts demo_complete demo_mu) = []" by code_simp
  have "\<not> Option.is_none (hm_get (s3_uploads ?st) ''0'')" "mu_bucket demo_mu = ''pics''" "mu_key demo_mu = ''big''"
    "derive_s3_operation demo_complete = ''CompleteMultipartUpload''" "bucket_from_path (ctx_path demo_complete) = Some ''pics''"
    "key_from_path (ctx_path demo_complete) = ''big''" "hm_get (ctx_query_params demo_complete) ''uploadId'' = Some ''0''" by code_simp+
  then have c: "completes demo_complete ''0'' ?st demo_mu" by (auto simp: completes_def demo_mu_def Option.is_none_def)
  have g: "reads_object (s3_request ''GET'' ''/pics/big'' []) (mu_bucket demo_mu) (mu_key demo_mu)"
    "ctx_account_id (s3_request ''GET'' ''/pics/big'' []) = ctx_account_id demo_complete"
    "ctx_region (s3_request ''GET'' ''/pics/big'' []) = ctx_region demo_complete" by code_simp+
  have l: "\<forall>vid. no_leftovers (s3_fl (demo_s3 3)) (location_of demo_complete (mu_bucket demo_mu) (mu_key demo_mu) vid) w \<and>
      object_path (s3_fl (demo_s3 3)) (location_of demo_complete (mu_bucket demo_mu) (mu_key demo_mu) vid) \<notin> set (part_files (asked_parts demo_complete demo_mu))"
    using w(2) files by (simp add: no_leftovers_def contains_key_def)
  from s3_multipart_concatenates [OF r(1) f ss c w(3) l g] r(1) w(4) show ?thesis by auto
qed

end
