(* ===== verification/S3_Versions.thy ===== *)
theory S3_Versions
  imports S3_Invariant
begin

text \<open>
  Versions of objects: while versioning is enabled, PutObject and DeleteObject keep every version there is; once it
  is suspended, one PutObject drops them all.
\<close>

lemma get_version_insert:
  assumes "bt_wf m" "bt_get m k = Some obj" "find (\<lambda>v. ov_version_id v = vid) (so_versions obj) = Some old"
    and "ov_version_id v \<noteq> ''null''" "ov_version_id v \<noteq> vid"
  shows "\<exists>obj'. bt_get (snd (insert_version m key v)) k = Some obj' \<and> find (\<lambda>v. ov_version_id v = vid) (so_versions obj') = Some old"
  using assms by (auto simp: insert_version_def push_version_def S3Object_new_def map_of_bt_insert split: option.splits)

lemma get_version_put:
  assumes "s3_store_ok st" "get_object_version st bucket k vid = Some old" "ov_version_id v \<noteq> ''null''" "ov_version_id v \<noteq> vid"
  shows "get_object_version (snd (put_object_version st bucket key v)) bucket k vid = Some old"
proof -
  obtain m obj where m: "hm_get (s3_objects st) bucket = Some m" "bt_get m k = Some obj"
    "find (\<lambda>v. ov_version_id v = vid) (so_versions obj) = Some old"
    using assms(2) by (auto simp: get_object_version_def bind_eq_Some_conv)
  have "bt_wf m" using s3_store_ok_get [OF assms(1) m(1)] by (simp add: objects_ok_def)
  from get_version_insert [OF this m(2,3) assms(3,4), of key] m(1) show ?thesis
    by (auto simp: put_object_version_def get_object_version_def set_objects_def update_conv' case_prod_beta Let_def)
qed

lemma get_version_delete:
  assumes "s3_store_ok st" "get_object_version st bucket k vid = Some old" "versioning_of st bucket" "sw_uuid w (sw_drawn w) \<noteq> vid"
  shows "get_object_version (fst (snd (delete_object st bucket key w))) bucket k vid = Some old"
proof -
  obtain m obj where m: "hm_get (s3_objects st) bucket = Some m" "bt_get m k = Some obj"
    "find (\<lambda>v. ov_version_id v = vid) (so_versions obj) = Some old"
    using assms(2) by (auto simp: get_object_version_def bind_eq_Some_conv)
  have "bt_wf m" using s3_store_ok_get [OF assms(1) m(1)] by (simp add: objects_ok_def)
  with m assms(3,4) show ?thesis
    by (auto simp: delete_object_def get_object_version_def set_objects_def delete_marker_def svc_world_defs update_conv' map_of_bt_insert
        Let_def split: option.splits)
qed

lemma put_keeps_versions:
  assumes "s3_store_ok st" "scope_store ctx b = Some st" "bucket_from_path (ctx_path ctx) = Some bucket" "versioning_of st bucket"
    and "get_object_version st bucket k vid = Some old" "sw_uuid w (sw_drawn w) \<notin> {vid, ''null''}"
    and "handle_put_object libs ctx b w = (r, b', w')"
  shows "\<exists>st'. scope_store ctx b' = Some st' \<and> get_object_version st' bucket k vid = Some old"
proof -
  obtain bk where bk: "hm_get (s3_buckets st) bucket = Some bk" "bk_versioning bk = ''Enabled''"
    using assms(4) by (auto simp: versioning_of_def split: option.splits)
  have kept: "get_object_version (snd (put_object_version st bucket key (plain_version (sw_uuid w (sw_drawn w)) t e c n m d))) bucket k vid = Some old"
    for key t e c n m d using get_version_put [OF assms(1,5)] assms(6) by (simp add: plain_version_def)
  show ?thesis
    using assms(2,3,7) bk kept assms(5)
    by (auto simp: handle_put_object_def with_bucket_def new_version_id_def new_uuid_def scope_store_def case_prod_beta Let_def
        split: sum.splits prod.splits if_splits)
qed

lemma delete_keeps_versions:
  assumes "s3_store_ok st" "scope_store ctx b = Some st" "bucket_from_path (ctx_path ctx) = Some bucket" "versioning_of st bucket"
    and "hm_get (ctx_query_params ctx) ''versionId'' = None"
    and "get_object_version st bucket k vid = Some old" "sw_uuid w (sw_drawn w) \<notin> {vid, ''null''}"
    and "handle_delete_object ctx b w = (r, b', w')"
  shows "\<exists>st'. scope_store ctx b' = Some st' \<and> get_object_version st' bucket k vid = Some old"
proof -
  have "sw_uuid w (sw_drawn w) \<noteq> vid" using assms(7) by simp
  note kept = get_version_delete [OF assms(1,6,4) this]
  show ?thesis
    using assms(2,3,5,8) kept assms(6)
    by (auto simp: handle_delete_object_def with_bucket_def in_store_existing scope_store_def case_prod_beta Let_def split: option.splits if_splits)
qed

lemma notifying_result: "f b w = (r, b', w') \<Longrightarrow> \<exists>w''. notifying libs ctx c ev f b w = (r, b', w'')"
  by (simp add: notifying_def)


definition set_versioning :: "string \<Rightarrow> RequestContext" where
  "set_versioning status = (s3_request ''PUT'' ''/pics'' (''<Status>'' @ status @ ''</Status>''))\<lparr>ctx_query_params := [(''versioning'', [])]\<rparr>"

definition versioned_puts :: "RequestContext list" where
  "versioned_puts = [s3_request ''PUT'' ''/pics'' [], set_versioning ''Enabled'', s3_request ''PUT'' ''/pics/a'' ''one'', s3_request ''PUT'' ''/pics/a'' ''two'']"

definition version_ids :: "S3Store \<Rightarrow> string \<Rightarrow> string \<Rightarrow> string list" where
  "version_ids st bucket key =
     (case Option.bind (hm_get (s3_objects st) bucket) (\<lambda>m. bt_get m key) of
        Some obj \<Rightarrow> map ov_version_id (so_versions obj)
      | None \<Rightarrow> [])"


text \<open>Suspending versioning makes history destructible: after two writes of a key with versioning enabled both versions are
  there; one more write after versioning was suspended leaves the new version with the identifier \<^verbatim>\<open>null\<close> as the only one, and
  the versions written before can no longer be fetched.\<close>

theorem s3_suspended_put_drops_versions:
  "version_ids (s3_demo_store (demo_s3 9) versioned_puts) ''pics'' ''a'' = [''1'', ''0''] \<and>
   version_ids (s3_demo_store (demo_s3 9) (versioned_puts @ [set_versioning ''Suspended'', s3_request ''PUT'' ''/pics/a'' ''three''])) ''pics'' ''a'' =
     [''null'']"
  by code_simp

end
