(* ===== verification/Sfn_Interpreter.thy ===== *)
theory Sfn_Interpreter
  imports Service_World
begin

text \<open>
  The interpreter of state machines in \<^verbatim>\<open>services/stepfunctions/src/provider.rs\<close>: \<^verbatim>\<open>run_asl\<close>, the
  choice rules and the JSON paths. A result is the output text with an optional error and cause;
  \<^term>\<open>None\<close> is a panic. How two numbers compare as \<^verbatim>\<open>f64\<close> is an argument, since the conversion is the one of \<^verbatim>\<open>serde_json\<close>.
\<close>

section \<open>Paths and choice rules\<close>

record sfn_libs =
  sf_ext :: externs
  sf_f64_cmp :: "Number \<Rightarrow> Number \<Rightarrow> ordering option"
  sf_rfc3339 :: "int \<Rightarrow> string"

fun walk_path :: "Value \<Rightarrow> string list \<Rightarrow> Value option" where
  "walk_path v [] = Some v"
| "walk_path v (part # parts) = Option.bind (value_get v part) (\<lambda>v. walk_path v parts)"

definition get_json_path :: "Value \<Rightarrow> string \<Rightarrow> Value option" where
  "get_json_path value path =
     (if path = ''$'' then Some value
      else case strip_prefix path ''$.'' of None \<Rightarrow> None | Some p \<Rightarrow> walk_path value (split_char (CHR ''.'') p))"

fun as_number :: "Value \<Rightarrow> Number option" where
  "as_number (JNumber n) = Some n"
| "as_number _ = None"

definition f64_eq :: "sfn_libs \<Rightarrow> Number option \<Rightarrow> Number option \<Rightarrow> bool" where
  "f64_eq libs a b =
     (case (a, b) of (Some x, Some y) \<Rightarrow> sf_f64_cmp libs x y = Some Equal | (None, None) \<Rightarrow> True | _ \<Rightarrow> False)"

text \<open>Slicing \<^verbatim>\<open>[1..len - 1]\<close> of a single asterisk panics.\<close>

definition string_matches :: "string \<Rightarrow> string \<Rightarrow> bool option" where
  "string_matches s pattern =
     (if starts_with pattern ''*'' \<and> ends_with pattern ''*'' then
        (if length pattern < 2 then None else Some (str_contains s (take (length pattern - 2) (drop 1 pattern))))
      else if ends_with pattern ''*'' then Some (starts_with s (butlast pattern))
      else if starts_with pattern ''*'' then Some (ends_with s (tl pattern))
      else Some (s = pattern))"

text \<open>
  The comparisons of a rule with a variable, in the order of the code. The outer option is \<^term>\<open>None\<close> when no
  comparison returns and the logical combinators are tried.
\<close>

definition variable_test :: "sfn_libs \<Rightarrow> Value \<Rightarrow> Value option \<Rightarrow> bool option option" where
  "variable_test libs rule field_val =
     (let number = Option.bind field_val as_number;
          compared = (\<lambda>k result. case (Option.bind (value_get rule k) as_number, number) of
             (Some y, Some x) \<Rightarrow> Some (Some (sf_f64_cmp libs x y = Some result)) | _ \<Rightarrow> None)
      in case value_get rule ''StringEquals'' of
           Some eq \<Rightarrow> Some (Some (Option.bind field_val as_str = as_str eq))
         | None \<Rightarrow>
        (case value_get rule ''NumericEquals'' of
           Some eq \<Rightarrow> Some (Some (f64_eq libs number (as_number eq)))
         | None \<Rightarrow>
        (case compared ''NumericGreaterThan'' Greater of
           Some r \<Rightarrow> Some r
         | None \<Rightarrow>
        (case compared ''NumericLessThan'' Less of
           Some r \<Rightarrow> Some r
         | None \<Rightarrow>
        (case value_get rule ''BooleanEquals'' of
           Some expected \<Rightarrow> Some (Some (Option.bind field_val as_bool = as_bool expected))
         | None \<Rightarrow>
        (case (Option.bind (value_get rule ''StringMatches'') as_str, Option.bind field_val as_str) of
           (Some pattern, Some s) \<Rightarrow> Some (string_matches s pattern)
         | _ \<Rightarrow> None))))))"

lemma map_of_size: "map_of m k = Some x \<Longrightarrow> size x < Suc (size_list (size_prod (\<lambda>_. 0) size) m)"
  by (induction m) (auto split: if_splits)

lemma value_get_smaller: "value_get v k = Some x \<Longrightarrow> size x < size v"
  by (cases v) (auto dest: map_of_size)

lemma as_array_size: "as_array v = Some xs \<Longrightarrow> size_list size xs < size v"
  by (cases v) auto

lemma array_member_size: "Option.bind (value_get v k) as_array = Some xs \<Longrightarrow> size_list size xs < size v"
  using value_get_smaller as_array_size by (force simp: bind_eq_Some_conv)

function eval_choice_rule :: "sfn_libs \<Rightarrow> Value \<Rightarrow> Value \<Rightarrow> bool option"
  and eval_all :: "sfn_libs \<Rightarrow> Value list \<Rightarrow> Value \<Rightarrow> bool option"
  and eval_any :: "sfn_libs \<Rightarrow> Value list \<Rightarrow> Value \<Rightarrow> bool option" where
  "eval_choice_rule libs rule input =
     (case Option.bind (Option.bind (value_get rule ''Variable'') as_str) (\<lambda>var. variable_test libs rule (get_json_path input var)) of
        Some r \<Rightarrow> r
      | None \<Rightarrow>
     (case Option.bind (value_get rule ''And'') as_array of
        Some rules \<Rightarrow> eval_all libs rules input
      | None \<Rightarrow>
     (case Option.bind (value_get rule ''Or'') as_array of
        Some rules \<Rightarrow> eval_any libs rules input
      | None \<Rightarrow>
     (case value_get rule ''Not'' of
        Some r \<Rightarrow> map_option Not (eval_choice_rule libs r input)
      | None \<Rightarrow> Some False))))"
| "eval_all libs [] input = Some True"
| "eval_all libs (r # rs) input =
     (case eval_choice_rule libs r input of None \<Rightarrow> None | Some b \<Rightarrow> if b then eval_all libs rs input else Some False)"
| "eval_any libs [] input = Some False"
| "eval_any libs (r # rs) input =
     (case eval_choice_rule libs r input of None \<Rightarrow> None | Some b \<Rightarrow> if b then Some True else eval_any libs rs input)"
  by pat_completeness auto
termination
  by (relation "measure (\<lambda>x. case x of Inl (libs, rule, input) \<Rightarrow> size rule | Inr (Inl (libs, rs, input)) \<Rightarrow> size_list size rs
      | Inr (Inr (libs, rs, input)) \<Rightarrow> size_list size rs)")
    (auto dest: value_get_smaller array_member_size)

declare eval_choice_rule.simps [simp del]

section \<open>States\<close>

type_synonym asl_result = "string \<times> string option \<times> string option"

definition text_of :: "sfn_libs \<Rightarrow> Value \<Rightarrow> string" where
  "text_of libs v = json_to_string (sf_ext libs) v"

definition value_of :: "sfn_libs \<Rightarrow> Value \<Rightarrow> string \<Rightarrow> Value" where
  "value_of libs dflt s = (case json_from_slice (sf_ext libs) s of Some v \<Rightarrow> v | None \<Rightarrow> dflt)"

definition MAX_ITER :: nat where
  "MAX_ITER = 1000"

definition asl_str :: "Value \<Rightarrow> string \<Rightarrow> string option" where
  "asl_str v k = Option.bind (value_get v k) as_str"

definition state_type_of :: "Value \<Rightarrow> string" where
  "state_type_of state = (case asl_str state ''Type'' of Some t \<Rightarrow> t | None \<Rightarrow> ''Pass'')"

definition is_end_of :: "Value \<Rightarrow> bool" where
  "is_end_of state = (case Option.bind (value_get state ''End'') as_bool of Some b \<Rightarrow> b | None \<Rightarrow> False)"

text \<open>The result replaces the input first; a result path other than \<^verbatim>\<open>$\<close> then adds the result to that.\<close>

definition pass_state :: "Value \<Rightarrow> Value \<Rightarrow> Value" where
  "pass_state state input =
     (let input = (case value_get state ''Result'' of Some r \<Rightarrow> r | None \<Rightarrow> input)
      in case asl_str state ''ResultPath'' of
           Some path \<Rightarrow>
             (if path = ''$'' then input
              else case (strip_prefix path ''$.'', input, value_get state ''Result'') of
                     (Some key, JObject m, Some r) \<Rightarrow> JObject (bt_insert key r m)
                   | _ \<Rightarrow> input)
         | None \<Rightarrow> input)"

definition fail_state :: "sfn_libs \<Rightarrow> Value \<Rightarrow> Value \<Rightarrow> asl_result" where
  "fail_state libs state input =
     (text_of libs input, Some (case asl_str state ''Error'' of Some e \<Rightarrow> e | None \<Rightarrow> ''States.TaskFailed''),
      Some (case asl_str state ''Cause'' of Some c \<Rightarrow> c | None \<Rightarrow> []))"

text \<open>The next state of the first choice that holds and names one; the default otherwise.\<close>

fun find_choice :: "sfn_libs \<Rightarrow> Value list \<Rightarrow> Value \<Rightarrow> string option option" where
  "find_choice libs [] input = Some None"
| "find_choice libs (c # cs) input =
     (case eval_choice_rule libs c input of
        None \<Rightarrow> None
      | Some b \<Rightarrow> (case (b, asl_str c ''Next'') of (True, Some n) \<Rightarrow> Some (Some n) | _ \<Rightarrow> find_choice libs cs input))"

definition choice_state :: "sfn_libs \<Rightarrow> Value \<Rightarrow> Value \<Rightarrow> string option option" where
  "choice_state libs state input =
     (case find_choice libs (case Option.bind (value_get state ''Choices'') as_array of Some cs \<Rightarrow> cs | None \<Rightarrow> []) input of
        None \<Rightarrow> None
      | Some (Some n) \<Rightarrow> Some (Some n)
      | Some None \<Rightarrow> Some (asl_str state ''Default''))"

definition map_items :: "Value \<Rightarrow> Value \<Rightarrow> Value list" where
  "map_items state input =
     (let path = (case asl_str state ''ItemsPath'' of Some p \<Rightarrow> p | None \<Rightarrow> ''$'');
          items = (if path = ''$'' then as_array input
                   else Option.bind (strip_prefix path ''$.'') (\<lambda>key. Option.bind (value_get input key) as_array))
      in case items of Some xs \<Rightarrow> xs | None \<Rightarrow> [])"

section \<open>The interpreter\<close>

lemma as_object_size: "Option.bind (value_get v k) as_object = Some m \<Longrightarrow> size (JObject m) < size v"
proof -
  assume "Option.bind (value_get v k) as_object = Some m"
  then have "value_get v k = Some (JObject m)" by (auto simp: bind_eq_Some_conv elim: as_object.elims)
  then show ?thesis by (rule value_get_smaller)
qed

lemma iterator_size: "state_type_of state = ''Map'' \<Longrightarrow> size (JObject []) < size state"
proof -
  assume "state_type_of state = ''Map''"
  then obtain m where "state = JObject m" "m \<noteq> []"
    by (cases state) (force simp: state_type_of_def asl_str_def split: option.splits)+
  then show ?thesis by (cases m) auto
qed

lemma branches_size:
  assumes "map_of states nm = Some state" "Option.bind (value_get state ''Branches'') as_array = Some bs"
  shows "size_list size bs < size (JObject states)"
  using map_of_size [OF assms(1)] array_member_size [OF assms(2)] by simp

lemma items_size:
  assumes "map_of states nm = Some state" "''Map'' = state_type_of state"
  shows "size (case value_get state ''Iterator'' of Some it \<Rightarrow> it | None \<Rightarrow> JObject []) < size (JObject states)"
proof -
  have "size (case value_get state ''Iterator'' of Some it \<Rightarrow> it | None \<Rightarrow> JObject []) < size state"
    using iterator_size [OF assms(2) [symmetric]] value_get_smaller by (auto split: option.splits)
  also have "size state < size (JObject states)" using map_of_size [OF assms(1)] by simp
  finally show ?thesis .
qed

definition asl_size :: "((sfn_libs \<times> Value \<times> string) + (sfn_libs \<times> nat \<times> (string \<times> Value) list \<times> string \<times> Value)) +
    (sfn_libs \<times> Value list \<times> string \<times> Value list) + (sfn_libs \<times> Value \<times> Value list \<times> Value list) \<Rightarrow> nat \<times> nat" where
  "asl_size x =
     (case x of
        Inl (Inl (libs, defn, s)) \<Rightarrow> (size defn, 0)
      | Inl (Inr (libs, n, states, nm, v)) \<Rightarrow> (size (JObject states), n)
      | Inr (Inl (libs, bs, s, rs)) \<Rightarrow> (size_list size bs, 0)
      | Inr (Inr (libs, it, xs, rs)) \<Rightarrow> (size it, Suc (length xs)))"

text \<open>
  \<open>run_asl\<close> starts the loop; \<open>asl_loop\<close> is the loop with the number of iterations left; \<open>run_branches\<close> and
  \<open>run_items\<close> are the loops of the states Parallel and Map, which run nested machines and stop at the first error.
\<close>

function run_asl :: "sfn_libs \<Rightarrow> Value \<Rightarrow> string \<Rightarrow> asl_result option"
  and asl_loop :: "sfn_libs \<Rightarrow> nat \<Rightarrow> (string \<times> Value) list \<Rightarrow> string \<Rightarrow> Value \<Rightarrow> asl_result option"
  and run_branches :: "sfn_libs \<Rightarrow> Value list \<Rightarrow> string \<Rightarrow> Value list \<Rightarrow> (asl_result + Value list) option"
  and run_items :: "sfn_libs \<Rightarrow> Value \<Rightarrow> Value list \<Rightarrow> Value list \<Rightarrow> (asl_result + Value list) option" where
  "run_asl libs defn input_str =
     (case Option.bind (value_get defn ''States'') as_object of
        None \<Rightarrow> Some (input_str, Some ''NoStates'', None)
      | Some states \<Rightarrow>
     (case asl_str defn ''StartAt'' of
        None \<Rightarrow> Some (input_str, Some ''NoStartAt'', None)
      | Some start_at \<Rightarrow> asl_loop libs MAX_ITER states start_at (value_of libs (JObject []) input_str)))"
| "asl_loop libs 0 states name input = Some (text_of libs input, Some ''TooManyIterations'', None)"
| "asl_loop libs (Suc n) states name input =
     (case map_of states name of
        None \<Rightarrow> Some (text_of libs input, Some ''StateNotFound'', Some (''State '' @ name @ '' not found''))
      | Some state \<Rightarrow>
          (let t = state_type_of state;
               proceed = (\<lambda>input.
                 if is_end_of state then Some (text_of libs input, None, None)
                 else case asl_str state ''Next'' of
                        Some nm \<Rightarrow> asl_loop libs n states nm input
                      | None \<Rightarrow> Some (text_of libs input, None, None))
           in if t = ''Pass'' then proceed (pass_state state input)
              else if t = ''Succeed'' then Some (text_of libs input, None, None)
              else if t = ''Fail'' then Some (fail_state libs state input)
              else if t = ''Choice'' then
                (case choice_state libs state input of
                   None \<Rightarrow> None
                 | Some None \<Rightarrow> Some (text_of libs input, Some ''NoChoiceMatched'', None)
                 | Some (Some nm) \<Rightarrow> asl_loop libs n states nm input)
              else if t = ''Parallel'' then
                (case Option.bind (value_get state ''Branches'') as_array of
                   None \<Rightarrow> proceed (JArray [])
                 | Some branches \<Rightarrow>
                     (case run_branches libs branches (text_of libs input) [] of
                        None \<Rightarrow> None
                      | Some (Inl e) \<Rightarrow> Some e
                      | Some (Inr results) \<Rightarrow> proceed (JArray results)))
              else if t = ''Map'' then
                (case run_items libs (case value_get state ''Iterator'' of Some it \<Rightarrow> it | None \<Rightarrow> JObject []) (map_items state input) [] of
                   None \<Rightarrow> None
                 | Some (Inl e) \<Rightarrow> Some e
                 | Some (Inr results) \<Rightarrow> proceed (JArray results))
              else proceed input))"
| "run_branches libs [] input_str results = Some (Inr results)"
| "run_branches libs (b # bs) input_str results =
     (case run_asl libs b input_str of
        None \<Rightarrow> None
      | Some (out, Some e, c) \<Rightarrow> Some (Inl (out, Some e, c))
      | Some (out, None, c) \<Rightarrow> run_branches libs bs input_str (results @ [value_of libs JNull out]))"
| "run_items libs iter [] results = Some (Inr results)"
| "run_items libs iter (x # xs) results =
     (case run_asl libs iter (text_of libs x) of
        None \<Rightarrow> None
      | Some (out, Some e, c) \<Rightarrow> Some (Inl (out, Some e, c))
      | Some (out, None, c) \<Rightarrow> run_items libs iter xs (results @ [value_of libs JNull out]))"
  by pat_completeness auto
termination
proof (relation "inv_image (less_than <*lex*> less_than) asl_size", goal_cases)
  case 1
  then show ?case by (auto intro: wf_inv_image)
qed (use as_object_size branches_size items_size in \<open>auto simp: asl_size_def\<close>)

declare run_asl.simps [simp del]

end
