(* ===== verification/Sfn_Machines.thy ===== *)
theory Sfn_Machines
  imports Sfn_Interpreter
begin

text \<open>
  What the interpreter of state machines does: a reference semantics as a step relation that the loop follows, that
  executions always end, which documents abort the process, and how a result path is misread.
\<close>

section \<open>Reference semantics\<close>

text \<open>
  Configurations are a state name and the current data. \<open>asl_step\<close> is a transition, \<open>asl_halt\<close> the end of an execution in a
  configuration, with its result. Nested machines run as executions of their own.
\<close>

definition data_after :: "sfn_libs \<Rightarrow> Value \<Rightarrow> Value \<Rightarrow> (asl_result + Value) option" where
  "data_after libs state input =
     (let t = state_type_of state in
      if t = ''Pass'' then Some (Inr (pass_state state input))
      else if t = ''Parallel'' then
        map_option (map_sum id JArray) (run_branches libs
          (case Option.bind (value_get state ''Branches'') as_array of Some bs \<Rightarrow> bs | None \<Rightarrow> []) (text_of libs input) [])
      else if t = ''Map'' then
        map_option (map_sum id JArray) (run_items libs
          (case value_get state ''Iterator'' of Some it \<Rightarrow> it | None \<Rightarrow> JObject []) (map_items state input) [])
      else Some (Inr input))"

definition ends_at :: "Value \<Rightarrow> bool" where
  "ends_at state \<longleftrightarrow> is_end_of state \<or> asl_str state ''Next'' = None"

inductive asl_step :: "sfn_libs \<Rightarrow> (string \<times> Value) list \<Rightarrow> string \<times> Value \<Rightarrow> string \<times> Value \<Rightarrow> bool" for libs states where
  choose: "map_of states name = Some state \<Longrightarrow> state_type_of state = ''Choice'' \<Longrightarrow> choice_state libs state v = Some (Some n) \<Longrightarrow>
     asl_step libs states (name, v) (n, v)"
| advance: "map_of states name = Some state \<Longrightarrow> state_type_of state \<notin> {''Succeed'', ''Fail'', ''Choice''} \<Longrightarrow>
     data_after libs state v = Some (Inr v') \<Longrightarrow> \<not> is_end_of state \<Longrightarrow> asl_str state ''Next'' = Some n \<Longrightarrow>
     asl_step libs states (name, v) (n, v')"

inductive asl_halt :: "sfn_libs \<Rightarrow> (string \<times> Value) list \<Rightarrow> string \<times> Value \<Rightarrow> asl_result \<Rightarrow> bool" for libs states where
  missing: "map_of states name = None \<Longrightarrow>
     asl_halt libs states (name, v) (text_of libs v, Some ''StateNotFound'', Some (''State '' @ name @ '' not found''))"
| succeed: "map_of states name = Some state \<Longrightarrow> state_type_of state = ''Succeed'' \<Longrightarrow> asl_halt libs states (name, v) (text_of libs v, None, None)"
| failing: "map_of states name = Some state \<Longrightarrow> state_type_of state = ''Fail'' \<Longrightarrow> asl_halt libs states (name, v) (fail_state libs state v)"
| no_choice: "map_of states name = Some state \<Longrightarrow> state_type_of state = ''Choice'' \<Longrightarrow> choice_state libs state v = Some None \<Longrightarrow>
     asl_halt libs states (name, v) (text_of libs v, Some ''NoChoiceMatched'', None)"
| nested: "map_of states name = Some state \<Longrightarrow> state_type_of state \<notin> {''Succeed'', ''Fail'', ''Choice''} \<Longrightarrow>
     data_after libs state v = Some (Inl e) \<Longrightarrow> asl_halt libs states (name, v) e"
| finish: "map_of states name = Some state \<Longrightarrow> state_type_of state \<notin> {''Succeed'', ''Fail'', ''Choice''} \<Longrightarrow>
     data_after libs state v = Some (Inr v') \<Longrightarrow> ends_at state \<Longrightarrow> asl_halt libs states (name, v) (text_of libs v', None, None)"


text \<open>Executions of a given number of transitions.\<close>

inductive asl_steps :: "sfn_libs \<Rightarrow> (string \<times> Value) list \<Rightarrow> nat \<Rightarrow> string \<times> Value \<Rightarrow> string \<times> Value \<Rightarrow> bool" for libs states where
  stay: "asl_steps libs states 0 c c"
| more: "asl_step libs states c c' \<Longrightarrow> asl_steps libs states k c' c'' \<Longrightarrow> asl_steps libs states (Suc k) c c''"


section \<open>One iteration of the loop\<close>

definition proceeds :: "sfn_libs \<Rightarrow> nat \<Rightarrow> (string \<times> Value) list \<Rightarrow> Value \<Rightarrow> Value \<Rightarrow> asl_result option" where
  "proceeds libs n states state v =
     (if is_end_of state then Some (text_of libs v, None, None)
      else case asl_str state ''Next'' of Some nm \<Rightarrow> asl_loop libs n states nm v | None \<Rightarrow> Some (text_of libs v, None, None))"

lemma loop_unfold:
  assumes "map_of states name = Some state" "state_type_of state \<notin> {''Succeed'', ''Fail'', ''Choice''}"
  shows "asl_loop libs (Suc n) states name v =
    (case data_after libs state v of None \<Rightarrow> None | Some (Inl e) \<Rightarrow> Some e | Some (Inr v') \<Rightarrow> proceeds libs n states state v')"
proof -
  consider "state_type_of state = ''Pass''" | "state_type_of state = ''Parallel''" | "state_type_of state = ''Map''"
    | "state_type_of state \<notin> {''Pass'', ''Succeed'', ''Fail'', ''Choice'', ''Parallel'', ''Map''}" using assms(2) by auto
  then show ?thesis
  proof cases
    case 2
    then show ?thesis using assms(1) by (simp add: data_after_def proceeds_def [symmetric] split: option.split sum.split)
  next
    case 3
    then show ?thesis using assms(1) by (simp add: data_after_def proceeds_def [symmetric] split: option.split sum.split)
  qed (use assms in \<open>simp_all add: data_after_def proceeds_def [symmetric]\<close>)
qed

lemma loop_cases:
  assumes "asl_loop libs (Suc n) states name v = Some r"
  shows "asl_halt libs states (name, v) r \<or> (\<exists>name' v'. asl_step libs states (name, v) (name', v') \<and> asl_loop libs n states name' v' = Some r)"
proof (cases "map_of states name")
  case None
  with assms missing [OF None, of libs v] show ?thesis by simp
next
  case (Some state)
  consider (succ) "state_type_of state = ''Succeed''" | (fail) "state_type_of state = ''Fail''" | (choice) "state_type_of state = ''Choice''"
    | (plain) "state_type_of state \<notin> {''Succeed'', ''Fail'', ''Choice''}" by auto
  then show ?thesis
  proof cases
    case succ
    with Some assms show ?thesis by (auto intro: succeed)
  next
    case fail
    with Some assms show ?thesis by (auto intro: failing)
  next
    case choice
    with Some assms show ?thesis by (auto intro: no_choice choose split: option.splits)
  next
    case plain
    then obtain d where d: "data_after libs state v = Some d"
      and r: "(case d of Inl e \<Rightarrow> Some e | Inr v' \<Rightarrow> proceeds libs n states state v') = Some r"
      using assms unfolding loop_unfold [OF Some plain] by (auto split: option.splits)
    show ?thesis
    proof (cases d)
      case (Inl e)
      with Some plain d r show ?thesis by (auto intro: nested)
    next
      case (Inr v')
      with r have p: "proceeds libs n states state v' = Some r" by simp
      show ?thesis
      proof (cases "ends_at state")
        case True
        with p have "r = (text_of libs v', None, None)" by (auto simp: proceeds_def ends_at_def split: if_splits)
        with Some plain d Inr True finish show ?thesis by fastforce
      next
        case False
        then obtain nm where nm: "\<not> is_end_of state" "asl_str state ''Next'' = Some nm" by (auto simp: ends_at_def)
        with p have "asl_loop libs n states nm v' = Some r" by (simp add: proceeds_def)
        with advance [OF Some plain _ nm, of libs v v'] d Inr show ?thesis by blast
      qed
    qed
  qed
qed

lemma loop_step: "asl_step libs states c c' \<Longrightarrow> asl_loop libs (Suc n) states (fst c) (snd c) = asl_loop libs n states (fst c') (snd c')"
proof (induction rule: asl_step.induct)
  case (advance name state v v' nm)
  then show ?case by (simp add: loop_unfold [OF advance(1,2)] proceeds_def del: asl_loop.simps)
qed simp

lemma loop_halt: "asl_halt libs states c r \<Longrightarrow> asl_loop libs (Suc n) states (fst c) (snd c) = Some r"
proof (induction rule: asl_halt.induct)
  case (nested name state v e)
  then show ?case by (simp add: loop_unfold [OF nested(1,2)] del: asl_loop.simps)
next
  case (finish name state v v')
  then show ?case by (auto simp: loop_unfold [OF finish(1,2)] proceeds_def ends_at_def simp del: asl_loop.simps split: option.splits)
qed simp_all

lemma loop_sound:
  "asl_loop libs n states name v = Some r \<Longrightarrow>
   (\<exists>k c. k < n \<and> asl_steps libs states k (name, v) c \<and> asl_halt libs states c r) \<or>
   (\<exists>nm v'. asl_steps libs states n (name, v) (nm, v') \<and> r = (text_of libs v', Some ''TooManyIterations'', None))"
proof (induction n arbitrary: name v)
  case 0
  then show ?case by (auto intro: stay)
next
  case (Suc n)
  from loop_cases [OF Suc.prems] show ?case
  proof (elim disjE exE conjE)
    assume "asl_halt libs states (name, v) r"
    then show ?thesis by (blast intro: stay)
  next
    fix name' v'
    assume s: "asl_step libs states (name, v) (name', v')" "asl_loop libs n states name' v' = Some r"
    from Suc.IH [OF s(2)] show ?thesis
      by (elim disjE exE conjE) (use s(1) more in \<open>fastforce+\<close>)
  qed
qed

lemma loop_complete:
  "asl_steps libs states k c c' \<Longrightarrow> asl_loop libs (k + n) states (fst c) (snd c) = asl_loop libs n states (fst c') (snd c')"
proof (induction rule: asl_steps.induct)
  case (more c c' k c'')
  then show ?case using loop_step [OF more(1), of "k + n"] by simp
qed simp

lemma loop_iff:
  "asl_loop libs n states name v = Some r \<longleftrightarrow>
   (\<exists>k c. k < n \<and> asl_steps libs states k (name, v) c \<and> asl_halt libs states c r) \<or>
   (\<exists>nm v'. asl_steps libs states n (name, v) (nm, v') \<and> r = (text_of libs v', Some ''TooManyIterations'', None))"
proof
  assume "(\<exists>k c. k < n \<and> asl_steps libs states k (name, v) c \<and> asl_halt libs states c r) \<or>
    (\<exists>nm v'. asl_steps libs states n (name, v) (nm, v') \<and> r = (text_of libs v', Some ''TooManyIterations'', None))"
  then show "asl_loop libs n states name v = Some r"
  proof (elim disjE exE conjE)
    fix k c
    assume k: "k < n" "asl_steps libs states k (name, v) c" "asl_halt libs states c r"
    from k(1) obtain j where n: "n = k + Suc j" using less_iff_Suc_add by auto
    have "asl_loop libs (Suc j) states (fst c) (snd c) = Some r" using loop_halt [OF k(3)] .
    with loop_complete [OF k(2), of "Suc j"] n show ?thesis by simp
  next
    fix nm v'
    assume "asl_steps libs states n (name, v) (nm, v')" "r = (text_of libs v', Some ''TooManyIterations'', None)"
    with loop_complete [of libs states n "(name, v)" "(nm, v')" 0] show ?thesis by simp
  qed
qed (rule loop_sound)

section \<open>Panics\<close>

text \<open>No object of the document has a lone asterisk as its pattern.\<close>

function star_free :: "Value \<Rightarrow> bool" where
  "star_free (JArray xs) = (\<forall>x \<in> set xs. star_free x)"
| "star_free (JObject m) = (map_of m ''StringMatches'' \<noteq> Some (JString ''*'') \<and> (\<forall>p \<in> set m. star_free (snd p)))"
| "star_free JNull = True"
| "star_free (JBool b) = True"
| "star_free (JNumber n) = True"
| "star_free (JString s) = True"
  by pat_completeness auto
termination
  by (relation "measure size") (auto simp: less_Suc_eq_le intro!: size_list_estimation' intro: le_trans [OF _ size_list_estimation'])

lemma star_free_get: "star_free v \<Longrightarrow> value_get v k = Some x \<Longrightarrow> star_free x"
  by (cases v) (auto dest!: map_of_SomeD)

lemma star_free_array: "star_free v \<Longrightarrow> Option.bind (value_get v k) as_array = Some xs \<Longrightarrow> x \<in> set xs \<Longrightarrow> star_free x"
proof -
  assume v: "star_free v" and a: "Option.bind (value_get v k) as_array = Some xs" and x: "x \<in> set xs"
  from a have "value_get v k = Some (JArray xs)" by (auto simp: bind_eq_Some_conv elim: as_array.elims)
  with star_free_get [OF v this] x show ?thesis by simp
qed

lemma star_pattern: "starts_with p ''*'' \<Longrightarrow> length p < 2 \<Longrightarrow> p = ''*''"
  by (cases p) (auto simp: starts_with_def)

lemma star_free_test: "star_free rule \<Longrightarrow> variable_test libs rule v \<noteq> Some None"
proof -
  assume "star_free rule"
  then have "asl_str rule ''StringMatches'' \<noteq> Some ''*''" by (cases rule) (auto simp: asl_str_def bind_eq_Some_conv elim: as_str.elims)
  then have "string_matches s p \<noteq> None" if "Option.bind (value_get rule ''StringMatches'') as_str = Some p" for s p
    using that star_pattern by (auto simp: string_matches_def asl_str_def)
  then show ?thesis by (auto simp: variable_test_def Let_def split: option.splits prod.splits)
qed

lemma star_free_choice:
  "star_free rule \<Longrightarrow> eval_choice_rule libs rule input \<noteq> None"
  "(\<And>r. r \<in> set rs \<Longrightarrow> star_free r) \<Longrightarrow> eval_all libs rs input \<noteq> None"
  "(\<And>r. r \<in> set rs \<Longrightarrow> star_free r) \<Longrightarrow> eval_any libs rs input \<noteq> None"
proof (induction libs rule input and libs rs input and libs rs input rule: eval_choice_rule_eval_all_eval_any.induct)
  case (1 libs rule input)
  note sf = star_free_test [OF 1(4)] star_free_get [OF 1(4)] star_free_array [OF 1(4)]
  let ?t = "Option.bind (Option.bind (value_get rule ''Variable'') as_str) (\<lambda>var. variable_test libs rule (get_json_path input var))"
  have t: "?t \<noteq> Some None" using sf(1) by (auto simp: bind_eq_Some_conv)
  show ?case
  proof (cases ?t)
    case None
    then show ?thesis
      using 1(1-3) sf(2,3) by (subst eval_choice_rule.simps) (auto split: option.splits)
  next
    case (Some r)
    with t show ?thesis by (subst eval_choice_rule.simps) auto
  qed
qed (auto split: option.splits)

lemma find_choice_total: "(\<And>c. c \<in> set cs \<Longrightarrow> star_free c) \<Longrightarrow> find_choice libs cs input \<noteq> None"
proof (induction cs)
  case (Cons c cs)
  from star_free_choice(1) [of c libs input] Cons show ?case by (auto split: option.splits bool.splits)
qed simp

lemma choice_state_total: "star_free state \<Longrightarrow> choice_state libs state input \<noteq> None"
  using find_choice_total [of _ libs input] star_free_array [of state]
  by (auto simp: choice_state_def split: option.splits)

lemma star_free_states: "star_free (JObject states) \<Longrightarrow> map_of states name = Some state \<Longrightarrow> star_free state"
  by (auto dest!: map_of_SomeD)

lemma data_after_total:
  assumes "star_free state"
    and "\<And>bs. (\<And>b. b \<in> set bs \<Longrightarrow> star_free b) \<Longrightarrow> size_list size bs < size state \<Longrightarrow> run_branches libs bs (text_of libs v) [] \<noteq> None"
    and "\<And>it. star_free it \<Longrightarrow> size it < size state \<Longrightarrow> run_items libs it (map_items state v) [] \<noteq> None"
  shows "data_after libs state v \<noteq> None"
proof -
  have "run_branches libs (case Option.bind (value_get state ''Branches'') as_array of Some bs \<Rightarrow> bs | None \<Rightarrow> []) (text_of libs v) [] \<noteq> None"
    using assms(2) star_free_array [OF assms(1)] array_member_size [of state "''Branches''"]
    by (cases "Option.bind (value_get state ''Branches'') as_array") auto
  moreover have "run_items libs (case value_get state ''Iterator'' of Some it \<Rightarrow> it | None \<Rightarrow> JObject []) (map_items state v) [] \<noteq> None"
    if "state_type_of state = ''Map''"
    using assms(3) star_free_get [OF assms(1)] value_get_smaller [of state] iterator_size [OF that]
    by (cases "value_get state ''Iterator''") auto
  ultimately show ?thesis by (simp add: data_after_def Let_def)
qed

lemma loop_total:
  assumes "star_free (JObject states)"
    and "\<And>state v. star_free state \<Longrightarrow> size state < size (JObject states) \<Longrightarrow> data_after libs state v \<noteq> None"
  shows "asl_loop libs n states name v \<noteq> None"
proof (induction n arbitrary: name v)
  case (Suc n)
  show ?case
  proof (cases "map_of states name")
    case (Some state)
    have sf: "star_free state" "size state < size (JObject states)"
      using star_free_states [OF assms(1) Some] map_of_size [OF Some] by simp_all
    show ?thesis
    proof (cases "state_type_of state \<in> {''Succeed'', ''Fail'', ''Choice''}")
      case True
      then consider "state_type_of state = ''Succeed''" | "state_type_of state = ''Fail''" | "state_type_of state = ''Choice''" by auto
      then show ?thesis
      proof cases
        case 3
        with Some choice_state_total [OF sf(1), of libs v] Suc show ?thesis by (auto split: option.split)
      qed (use Some in simp_all)
    next
      case False
      with assms(2) [OF sf, of v] Suc show ?thesis
        unfolding loop_unfold [OF Some False] by (auto simp: proceeds_def split: option.splits sum.splits)
    qed
  qed simp
qed simp

lemma machine_total:
  "star_free defn \<Longrightarrow> run_asl libs defn s \<noteq> None"
proof (induction "size defn" arbitrary: defn s rule: less_induct)
  case less
  have branches: "run_branches libs bs t rs \<noteq> None" if "\<And>b. b \<in> set bs \<Longrightarrow> star_free b" "size_list size bs < size defn" for bs t rs
    using that
  proof (induction bs arbitrary: rs)
    case (Cons b bs)
    then have "run_asl libs b t \<noteq> None" using less.hyps [of b t] by simp
    with Cons show ?case by (auto split: option.splits)
  qed simp
  have items: "run_items libs it xs rs \<noteq> None" if "star_free it" "size it < size defn" for it xs rs
  proof (induction xs arbitrary: rs)
    case (Cons x xs)
    have "run_asl libs it (text_of libs x) \<noteq> None" using less.hyps that by blast
    with Cons show ?case by (auto split: option.splits)
  qed simp
  show ?case
  proof (cases "Option.bind (value_get defn ''States'') as_object")
    case (Some states)
    then have sf: "star_free (JObject states)" "size (JObject states) < size defn"
      using star_free_get [OF less.prems, of "''States''" "JObject states"] as_object_size [OF Some]
      by (auto simp: bind_eq_Some_conv elim: as_object.elims)
    have "asl_loop libs n states name v \<noteq> None" for n name v
    proof (rule loop_total [OF sf(1)])
      fix state v
      assume "star_free state" "size state < size (JObject states)"
      then show "data_after libs state v \<noteq> None"
        using branches items sf(2) by (intro data_after_total) auto
    qed
    with Some show ?thesis by (simp add: run_asl.simps split: option.splits)
  qed (simp add: run_asl.simps)
qed

section \<open>Properties\<close>

text \<open>C11: An execution of a state machine is a run of its transitions. For a document with states and a start, the
  interpreter answers a result exactly when fewer than a thousand transitions of the reference semantics lead from the start to a configuration
  that halts with that result, or when a thousand transitions lead on and the result is the data there with the error \<^verbatim>\<open>TooManyIterations\<close>.\<close>

theorem asl_executions_follow_transitions:
  assumes "value_get defn ''States'' = Some (JObject states)" "asl_str defn ''StartAt'' = Some start"
  shows "run_asl libs defn s = Some r \<longleftrightarrow>
    (\<exists>k c. k < 1000 \<and> asl_steps libs states k (start, value_of libs (JObject []) s) c \<and> asl_halt libs states c r) \<or>
    (\<exists>name v. asl_steps libs states 1000 (start, value_of libs (JObject []) s) (name, v) \<and>
       r = (text_of libs v, Some ''TooManyIterations'', None))"
  using loop_iff [of libs MAX_ITER states start] assms by (simp add: run_asl.simps MAX_ITER_def)

definition sfn_demo_libs :: sfn_libs where
  "sfn_demo_libs = \<lparr>sf_ext = \<lparr>md5_digest = id, hex_encode = id,
      json_from_slice = (\<lambda>s. Some (JObject [(''x'', JString s)])), json_to_string = (\<lambda>v. unwrap_str (asl_str v ''x'')), header_to_str = Some\<rparr>,
     sf_f64_cmp = (\<lambda>_ _. None), sf_rfc3339 = (\<lambda>_. [])\<rparr>"

text \<open>A choice on the member \<^verbatim>\<open>x\<close> of the input, by the given pattern.\<close>

definition demo_states :: "string \<Rightarrow> (string \<times> Value) list" where
  "demo_states pattern =
     [(''Pick'', JObject [(''Type'', JString ''Choice''), (''Choices'', JArray [JObject [(''Variable'', JString ''$.x''),
         (''StringMatches'', JString pattern), (''Next'', JString ''Done'')]]), (''Default'', JString ''Bad'')]),
      (''Done'', JObject [(''Type'', JString ''Succeed'')]),
      (''Bad'', JObject [(''Type'', JString ''Fail''), (''Error'', JString ''no'')])]"

definition demo_machine :: "string \<Rightarrow> Value" where
  "demo_machine pattern = JObject [(''StartAt'', JString ''Pick''), (''States'', JObject (demo_states pattern))]"

theorem asl_executions_follow_transitions_witness:
  "\<exists>k c. k < 1000 \<and> asl_steps sfn_demo_libs (demo_states ''a*'') k (''Pick'', value_of sfn_demo_libs (JObject []) ''abc'') c \<and>
     asl_halt sfn_demo_libs (demo_states ''a*'') c (''abc'', None, None)"
proof -
  have "value_get (demo_machine ''a*'') ''States'' = Some (JObject (demo_states ''a*''))" "asl_str (demo_machine ''a*'') ''StartAt'' = Some ''Pick''"
    by (simp_all add: demo_machine_def asl_str_def)
  note eq = asl_executions_follow_transitions [OF this, of sfn_demo_libs "''abc''" "(''abc'', None, None)"]
  have "run_asl sfn_demo_libs (demo_machine ''a*'') ''abc'' = Some (''abc'', None, None)" by code_simp
  with eq show ?thesis by auto
qed

text \<open>C12: Every execution ends. A document in which no rule has the lone asterisk as its pattern has a result for every
  input, however its states refer to one another and however machines are nested in the states Parallel and Map.\<close>

theorem asl_executions_end:
  assumes "star_free defn"
  shows "\<exists>r. run_asl libs defn s = Some r"
  using machine_total [OF assms] by auto

theorem asl_executions_end_witness:
  "\<exists>r. run_asl sfn_demo_libs (demo_machine ''*b'') ''abc'' = Some r"
proof -
  have "star_free (demo_machine ''*b'')" by (simp add: demo_machine_def demo_states_def)
  from asl_executions_end [OF this] show ?thesis .
qed

text \<open>A client can stop the process: a choice rule whose pattern is a lone asterisk slices it from 1 to 0, and starting an
  execution that reaches it with a text for its variable panics.\<close>

theorem asl_lone_star_aborts:
  "run_asl sfn_demo_libs (demo_machine ''*'') s = None"
  by code_simp

text \<open>The result of a state Pass with a result path is added to itself; the input is lost.\<close>

lemma pass_loses_input:
  assumes "value_get state ''Result'' = Some (JObject m)" "asl_str state ''ResultPath'' = Some (''$.'' @ key)"
  shows "pass_state state v = JObject (bt_insert key (JObject m) m)"
  using assms by (simp add: pass_state_def strip_prefix_def starts_with_def)

end
