(* ===== verification/Sfn_Service.thy ===== *)
theory Sfn_Service
  imports Sfn_Machines
begin

text \<open>
  The rest of \<^verbatim>\<open>services/stepfunctions/src/{store,provider}.rs\<close>: state machines and executions of a scope, one
  handler per operation and the dispatcher, and what every sequence of requests keeps.
\<close>

section \<open>Store\<close>

record StateMachine =
  sm_state_machine_arn :: string
  sm_name :: string
  sm_definition :: Value
  sm_role_arn :: string
  sm_status :: string
  sm_machine_type :: string
  sm_created :: int

datatype ExecutionStatus = Ex_Running | Ex_Succeeded | Ex_Failed | Ex_TimedOut | Ex_Aborted

fun execution_status_str :: "ExecutionStatus \<Rightarrow> string" where
  "execution_status_str Ex_Running = ''RUNNING''"
| "execution_status_str Ex_Succeeded = ''SUCCEEDED''"
| "execution_status_str Ex_Failed = ''FAILED''"
| "execution_status_str Ex_TimedOut = ''TIMED_OUT''"
| "execution_status_str Ex_Aborted = ''ABORTED''"

record Execution =
  ex_execution_arn :: string
  ex_state_machine_arn :: string
  ex_name :: string
  ex_status :: ExecutionStatus
  ex_input :: string
  ex_output :: "string option"
  ex_error :: "string option"
  ex_cause :: "string option"
  ex_started_at :: int
  ex_stopped_at :: "int option"

record StepFunctionsStore =
  sfn_machines :: "(string, StateMachine) hash_map"
  sfn_executions :: "(string, Execution) hash_map"

definition StepFunctionsStore_default :: StepFunctionsStore where
  "StepFunctionsStore_default = \<lparr>sfn_machines = [], sfn_executions = []\<rparr>"

section \<open>Handlers\<close>

definition sfn_ok :: "sfn_libs \<Rightarrow> (string \<times> Value) list \<Rightarrow> DispatchResponse" where
  "sfn_ok libs kvs = json_reply (sf_ext libs) ''application/json'' 200 (json_object kvs)"

definition sfn_error :: "sfn_libs \<Rightarrow> string \<Rightarrow> string \<Rightarrow> nat \<Rightarrow> DispatchResponse" where
  "sfn_error libs = json_failure (sf_ext libs)"

definition sfn_required :: "sfn_libs \<Rightarrow> string \<Rightarrow> DispatchResponse" where
  "sfn_required libs p = sfn_error libs ''ValidationException'' (p @ '' is required'') 400"

definition no_machine :: "sfn_libs \<Rightarrow> string \<Rightarrow> DispatchResponse" where
  "no_machine libs arn = sfn_error libs ''StateMachineDoesNotExist'' (''State Machine Does Not Exist: '' @ [CHR 0x27] @ arn @ [CHR 0x27]) 400"

definition no_execution :: "sfn_libs \<Rightarrow> string \<Rightarrow> DispatchResponse" where
  "no_execution libs arn = sfn_error libs ''ExecutionDoesNotExist'' (''Execution '' @ arn @ '' not found'') 404"

definition machine_arn :: "RequestContext \<Rightarrow> string \<Rightarrow> string" where
  "machine_arn ctx name = ''arn:aws:states:'' @ ctx_region ctx @ '':'' @ ctx_account_id ctx @ '':stateMachine:'' @ name"

type_synonym sfn_op = "(StepFunctionsStore, svc_world) bundle_op"

definition sfn_store :: "RequestContext \<Rightarrow> (StepFunctionsStore \<Rightarrow> svc_world \<Rightarrow> DispatchResponse \<times> StepFunctionsStore \<times> svc_world) \<Rightarrow> sfn_op" where
  "sfn_store ctx f = on_created StepFunctionsStore_default ctx (\<lambda>st w. Some (f st w))"

definition create_state_machine :: "sfn_libs \<Rightarrow> RequestContext \<Rightarrow> sfn_op" where
  "create_state_machine libs ctx =
     (case str_param ctx ''name'' of
        None \<Rightarrow> answering (sfn_required libs ''name'')
      | Some name \<Rightarrow>
     (case str_param ctx ''definition'' of
        None \<Rightarrow> answering (sfn_required libs ''definition'')
      | Some definition_str \<Rightarrow>
     (case json_from_slice (sf_ext libs) definition_str of
        None \<Rightarrow> answering (sfn_error libs ''InvalidDefinition'' ''Invalid JSON in definition'' 400)
      | Some defn \<Rightarrow>
          sfn_store ctx (\<lambda>st w.
            let arn = machine_arn ctx name; (now, w) = sw_now w;
                sm = \<lparr>sm_state_machine_arn = arn, sm_name = name, sm_definition = defn, sm_role_arn = unwrap_str (str_param ctx ''roleArn''),
                  sm_status = ''ACTIVE'', sm_machine_type = (case str_param ctx ''type'' of Some t \<Rightarrow> t | None \<Rightarrow> ''STANDARD''), sm_created = now\<rparr>
            in (sfn_ok libs [(''stateMachineArn'', JString arn), (''creationDate'', json_i64 (timestamp_secs now))],
                st\<lparr>sfn_machines := hm_insert arn sm (sfn_machines st)\<rparr>, w)))))"

definition delete_state_machine :: "sfn_libs \<Rightarrow> RequestContext \<Rightarrow> sfn_op" where
  "delete_state_machine libs ctx =
     (case str_param ctx ''stateMachineArn'' of
        None \<Rightarrow> answering (sfn_required libs ''stateMachineArn'')
      | Some arn \<Rightarrow> sfn_store ctx (\<lambda>st w. (sfn_ok libs [], st\<lparr>sfn_machines := hm_remove arn (sfn_machines st)\<rparr>, w)))"

definition describe_state_machine :: "sfn_libs \<Rightarrow> RequestContext \<Rightarrow> sfn_op" where
  "describe_state_machine libs ctx =
     (case str_param ctx ''stateMachineArn'' of
        None \<Rightarrow> answering (sfn_required libs ''stateMachineArn'')
      | Some arn \<Rightarrow>
          reading ctx (no_machine libs arn) (\<lambda>st.
            case hm_get (sfn_machines st) arn of
              None \<Rightarrow> no_machine libs arn
            | Some sm \<Rightarrow> sfn_ok libs [(''stateMachineArn'', JString (sm_state_machine_arn sm)), (''name'', JString (sm_name sm)),
                (''status'', JString (sm_status sm)), (''definition'', JString (text_of libs (sm_definition sm))),
                (''roleArn'', JString (sm_role_arn sm)), (''type'', JString (sm_machine_type sm)),
                (''creationDate'', json_i64 (timestamp_secs (sm_created sm)))]))"

definition list_state_machines :: "sfn_libs \<Rightarrow> RequestContext \<Rightarrow> sfn_op" where
  "list_state_machines libs ctx =
     reading ctx (sfn_ok libs [(''stateMachines'', JArray [])]) (\<lambda>st.
       sfn_ok libs [(''stateMachines'', JArray (map (\<lambda>sm. json_object [(''stateMachineArn'', JString (sm_state_machine_arn sm)),
         (''name'', JString (sm_name sm)), (''type'', JString (sm_machine_type sm)),
         (''creationDate'', json_i64 (timestamp_secs (sm_created sm)))]) (hm_values (sfn_machines st))))])"

definition update_state_machine :: "sfn_libs \<Rightarrow> RequestContext \<Rightarrow> sfn_op" where
  "update_state_machine libs ctx =
     (case str_param ctx ''stateMachineArn'' of
        None \<Rightarrow> answering (sfn_required libs ''stateMachineArn'')
      | Some arn \<Rightarrow>
          sfn_store ctx (\<lambda>st w.
            case hm_get (sfn_machines st) arn of
              None \<Rightarrow> (no_machine libs arn, st, w)
            | Some sm \<Rightarrow>
                (let sm = (case Option.bind (str_param ctx ''definition'') (json_from_slice (sf_ext libs)) of
                       Some d \<Rightarrow> sm\<lparr>sm_definition := d\<rparr> | None \<Rightarrow> sm);
                     sm = (case str_param ctx ''roleArn'' of Some r \<Rightarrow> sm\<lparr>sm_role_arn := r\<rparr> | None \<Rightarrow> sm);
                     (now, w) = sw_now w
                 in (sfn_ok libs [(''updateDate'', json_i64 (timestamp_secs now))],
                     st\<lparr>sfn_machines := hm_insert arn sm (sfn_machines st)\<rparr>, w))))"

definition execution_arn_of :: "RequestContext \<Rightarrow> string \<Rightarrow> string \<Rightarrow> string" where
  "execution_arn_of ctx sm_arn name =
     ''arn:aws:states:'' @ ctx_region ctx @ '':'' @ ctx_account_id ctx @ '':execution:'' @ last (split_char (CHR '':'') sm_arn) @ '':'' @ name"

definition execution_of :: "string \<Rightarrow> string \<Rightarrow> string \<Rightarrow> string \<Rightarrow> asl_result \<Rightarrow> int \<Rightarrow> Execution" where
  "execution_of exec_arn sm_arn name input r now =
     (case r of (out, err, cause) \<Rightarrow>
        \<lparr>ex_execution_arn = exec_arn, ex_state_machine_arn = sm_arn, ex_name = name,
         ex_status = (if err \<noteq> None then Ex_Failed else Ex_Succeeded), ex_input = input, ex_output = Some out,
         ex_error = err, ex_cause = cause, ex_started_at = now, ex_stopped_at = Some now\<rparr>)"

text \<open>The machine runs between two accesses to the store, which sees the execution when it is over.\<close>

definition record_execution ::
  "sfn_libs \<Rightarrow> Execution \<Rightarrow> StepFunctionsStore \<Rightarrow> svc_world \<Rightarrow> DispatchResponse \<times> StepFunctionsStore \<times> svc_world" where
  "record_execution libs e st w =
     (if \<not> contains_key (sfn_machines st) (ex_state_machine_arn e) then (no_machine libs (ex_state_machine_arn e), st, w)
      else (sfn_ok libs [(''executionArn'', JString (ex_execution_arn e)), (''startDate'', json_i64 (timestamp_secs (ex_started_at e)))],
            st\<lparr>sfn_executions := hm_insert (ex_execution_arn e) e (sfn_executions st)\<rparr>, w))"

definition start_execution :: "sfn_libs \<Rightarrow> RequestContext \<Rightarrow> sfn_op" where
  "start_execution libs ctx b w =
     (case str_param ctx ''stateMachineArn'' of
        None \<Rightarrow> Some (sfn_required libs ''stateMachineArn'', b, w)
      | Some sm_arn \<Rightarrow>
          (let input = (case str_param ctx ''input'' of Some s \<Rightarrow> s | None \<Rightarrow> ''{}'');
               (name, w) = (case str_param ctx ''name'' of Some n \<Rightarrow> (n, w) | None \<Rightarrow> new_uuid w)
           in case Option.bind (bundle_get b (ctx_account_id ctx) (ctx_region ctx)) (\<lambda>st. hm_get (sfn_machines st) sm_arn) of
                None \<Rightarrow> Some (no_machine libs sm_arn, b, w)
              | Some sm \<Rightarrow>
             (case run_asl libs (sm_definition sm) input of
                None \<Rightarrow> None
              | Some r \<Rightarrow>
                  (let exec_arn = execution_arn_of ctx sm_arn name; (now, w) = sw_now w
                   in sfn_store ctx (record_execution libs (execution_of exec_arn sm_arn name input r now)) b w))))"

definition optional :: "string \<Rightarrow> 'a option \<Rightarrow> ('a \<Rightarrow> Value) \<Rightarrow> (string \<times> Value) list" where
  "optional k v f = (case v of Some x \<Rightarrow> [(k, f x)] | None \<Rightarrow> [])"

definition execution_json :: "Execution \<Rightarrow> (string \<times> Value) list" where
  "execution_json e =
     [(''executionArn'', JString (ex_execution_arn e)), (''stateMachineArn'', JString (ex_state_machine_arn e)),
      (''name'', JString (ex_name e)), (''status'', JString (execution_status_str (ex_status e))), (''input'', JString (ex_input e)),
      (''startDate'', json_i64 (timestamp_secs (ex_started_at e)))] @
     optional ''output'' (ex_output e) JString @ optional ''error'' (ex_error e) JString @ optional ''cause'' (ex_cause e) JString @
     optional ''stopDate'' (ex_stopped_at e) (\<lambda>t. json_i64 (timestamp_secs t))"

definition describe_execution :: "sfn_libs \<Rightarrow> RequestContext \<Rightarrow> sfn_op" where
  "describe_execution libs ctx =
     (case str_param ctx ''executionArn'' of
        None \<Rightarrow> answering (sfn_required libs ''executionArn'')
      | Some arn \<Rightarrow>
          reading ctx (no_execution libs arn) (\<lambda>st.
            case hm_get (sfn_executions st) arn of None \<Rightarrow> no_execution libs arn | Some e \<Rightarrow> sfn_ok libs (execution_json e)))"

definition list_executions :: "sfn_libs \<Rightarrow> RequestContext \<Rightarrow> sfn_op" where
  "list_executions libs ctx =
     reading ctx (sfn_ok libs [(''executions'', JArray [])]) (\<lambda>st.
       let wanted = (\<lambda>k v. case str_param ctx k of Some s \<Rightarrow> s = v | None \<Rightarrow> True);
           es = filter (\<lambda>e. wanted ''stateMachineArn'' (ex_state_machine_arn e) \<and> wanted ''statusFilter'' (execution_status_str (ex_status e)))
                  (hm_values (sfn_executions st))
       in sfn_ok libs [(''executions'', JArray (map (\<lambda>e. json_object [(''executionArn'', JString (ex_execution_arn e)),
            (''stateMachineArn'', JString (ex_state_machine_arn e)), (''name'', JString (ex_name e)),
            (''status'', JString (execution_status_str (ex_status e))), (''startDate'', json_i64 (timestamp_secs (ex_started_at e)))]) es))])"

definition stop_execution :: "sfn_libs \<Rightarrow> RequestContext \<Rightarrow> sfn_op" where
  "stop_execution libs ctx =
     (case str_param ctx ''executionArn'' of
        None \<Rightarrow> answering (sfn_required libs ''executionArn'')
      | Some arn \<Rightarrow>
          sfn_store ctx (\<lambda>st w.
            case hm_get (sfn_executions st) arn of
              None \<Rightarrow> (no_execution libs arn, st, w)
            | Some e \<Rightarrow>
                (let (now, w) = sw_now w; e = e\<lparr>ex_status := Ex_Aborted, ex_stopped_at := Some now\<rparr>; (answered, w) = sw_now w
                 in (sfn_ok libs [(''stopDate'', json_i64 (timestamp_secs answered))],
                     st\<lparr>sfn_executions := hm_insert arn e (sfn_executions st)\<rparr>, w))))"

section \<open>Dispatch\<close>

definition sfn_handler :: "sfn_libs \<Rightarrow> RequestContext \<Rightarrow> sfn_op option" where
  "sfn_handler libs ctx =
     (let op = ctx_operation ctx in
      if op = ''CreateStateMachine'' then Some (create_state_machine libs ctx)
      else if op = ''DeleteStateMachine'' then Some (delete_state_machine libs ctx)
      else if op = ''DescribeStateMachine'' then Some (describe_state_machine libs ctx)
      else if op = ''ListStateMachines'' then Some (list_state_machines libs ctx)
      else if op = ''UpdateStateMachine'' then Some (update_state_machine libs ctx)
      else if op = ''StartExecution'' then Some (start_execution libs ctx)
      else if op = ''DescribeExecution'' then Some (describe_execution libs ctx)
      else if op = ''ListExecutions'' then Some (list_executions libs ctx)
      else if op = ''StopExecution'' then Some (stop_execution libs ctx)
      else None)"

definition sfn_dispatch :: "sfn_libs \<Rightarrow> RequestContext \<Rightarrow> StepFunctionsStore AccountRegionBundle \<Rightarrow> svc_world \<Rightarrow>
    ((DispatchError + DispatchResponse) \<times> StepFunctionsStore AccountRegionBundle \<times> svc_world) option" where
  "sfn_dispatch libs ctx b w =
     (case sfn_handler libs ctx of
        None \<Rightarrow> Some (Inl (NotImplemented (ctx_operation ctx)), b, w)
      | Some f \<Rightarrow> map_option (\<lambda>(r, b, w). (Inr r, b, w)) (f b w))"

definition sfn_storage_snapshot :: "sfn_libs \<Rightarrow> StepFunctionsStore AccountRegionBundle \<Rightarrow> Value" where
  "sfn_storage_snapshot libs b =
     (let attr = (\<lambda>k v. json_object [(''key'', JString k), (''value'', JString v)]);
          machines = concat (map (\<lambda>(_, st). map (\<lambda>sm.
            let n = length (filter (\<lambda>e. ex_state_machine_arn e = sm_state_machine_arn sm) (hm_values (sfn_executions st)))
            in json_object [(''id'', JString (sm_state_machine_arn sm)), (''kind'', JString ''state_machine''),
                 (''created_at'', JString (sf_rfc3339 libs (sm_created sm))),
                 (''attributes'', JArray [attr ''name'' (sm_name sm), attr ''status'' (sm_status sm), attr ''type'' (sm_machine_type sm),
                    attr ''execution_count'' (nat_to_string n)])]) (hm_values (sfn_machines st))) (bundle_iter b))
      in json_object [(''kind'', JString ''step_functions''), (''state_machines'', JArray machines)])"

end
