(* ===== verification/Sfn_Executions.thy ===== *)
theory Sfn_Executions
  imports Sfn_Service
begin

text \<open>
  What every sequence of Step Functions requests keeps, and what a client reads of an execution it started.
\<close>

section \<open>Executions are runs\<close>

text \<open>An execution that was recorded is over: its output, error and cause are the result of a run on its input.\<close>

definition execution_ok :: "sfn_libs \<Rightarrow> string \<Rightarrow> Execution \<Rightarrow> bool" where
  "execution_ok libs k e \<longleftrightarrow>
     ex_execution_arn e = k \<and> ex_stopped_at e \<noteq> None \<and>
     (\<exists>defn out. ex_output e = Some out \<and> run_asl libs defn (ex_input e) = Some (out, ex_error e, ex_cause e)) \<and>
     (ex_status e = Ex_Succeeded \<and> ex_error e = None \<or> ex_status e = Ex_Failed \<and> ex_error e \<noteq> None \<or> ex_status e = Ex_Aborted)"

definition sfn_store_ok :: "sfn_libs \<Rightarrow> StepFunctionsStore \<Rightarrow> bool" where
  "sfn_store_ok libs st \<longleftrightarrow>
     (\<forall>k sm. hm_get (sfn_machines st) k = Some sm \<longrightarrow> sm_state_machine_arn sm = k \<and> sm_status sm = ''ACTIVE'') \<and>
     (\<forall>k e. hm_get (sfn_executions st) k = Some e \<longrightarrow> execution_ok libs k e)"

lemma sfn_ok_machine:
  "sfn_store_ok libs st \<Longrightarrow> sm_state_machine_arn sm = k \<Longrightarrow> sm_status sm = ''ACTIVE'' \<Longrightarrow>
   sfn_store_ok libs (st\<lparr>sfn_machines := hm_insert k sm (sfn_machines st)\<rparr>)"
  by (auto simp: sfn_store_ok_def update_conv' split: if_splits)

lemma sfn_ok_execution:
  "sfn_store_ok libs st \<Longrightarrow> execution_ok libs k e \<Longrightarrow>
   sfn_store_ok libs (st\<lparr>sfn_executions := hm_insert k e (sfn_executions st)\<rparr>)"
  by (auto simp: sfn_store_ok_def update_conv' split: if_splits)

lemma sfn_ok_remove: "sfn_store_ok libs st \<Longrightarrow> sfn_store_ok libs (st\<lparr>sfn_machines := hm_remove k (sfn_machines st)\<rparr>)"
  by (auto simp: sfn_store_ok_def delete_conv' split: if_splits)

lemma execution_of_ok: "run_asl libs defn input = Some r \<Longrightarrow> execution_ok libs arn (execution_of arn sm_arn name input r now)"
  by (auto simp: execution_ok_def execution_of_def split: prod.splits)

lemma execution_ok_stopped: "execution_ok libs k e \<Longrightarrow> execution_ok libs k (e\<lparr>ex_status := Ex_Aborted, ex_stopped_at := Some t\<rparr>)"
  by (auto simp: execution_ok_def)

interpretation sfn_scopes: scope_invariant "sfn_store_ok libs" StepFunctionsStore_default for libs
  by unfold_locales (simp add: sfn_store_ok_def StepFunctionsStore_default_def)

lemma sfn_store_keeps:
  assumes "\<And>st w r st' w'. sfn_store_ok libs st \<Longrightarrow> f st w = (r, st', w') \<Longrightarrow> sfn_store_ok libs st'"
  shows "sfn_scopes.bundle_keeps libs (sfn_store ctx f)"
  unfolding sfn_store_def
proof (rule sfn_scopes.bundle_keeps_created)
  show "sfn_scopes.scope_keeps libs (\<lambda>st w. Some (f st w))" using assms by (auto simp: sfn_scopes.scope_keeps_def)
qed

lemma record_execution_keeps:
  assumes "execution_ok libs (ex_execution_arn e) e"
  shows "sfn_scopes.bundle_keeps libs (sfn_store ctx (record_execution libs e))"
  by (rule sfn_store_keeps) (use assms in \<open>auto simp: record_execution_def intro!: sfn_ok_execution split: if_splits\<close>)

lemma execution_of_arn [simp]: "ex_execution_arn (execution_of arn sm_arn name input r now) = arn"
  by (simp add: execution_of_def split: prod.splits)

lemma start_execution_keeps: "sfn_scopes.bundle_keeps libs (start_execution libs ctx)"
  unfolding sfn_scopes.bundle_keeps_def
proof (intro allI impI)
  fix b w r b' w'
  assume b: "sfn_scopes.all_scopes libs b" and run: "start_execution libs ctx b w = Some (r, b', w')"
  consider "b' = b" | e w1 where "execution_ok libs (ex_execution_arn e) e" "sfn_store ctx (record_execution libs e) b w1 = Some (r, b', w')"
    using run execution_of_ok [of libs]
    by (auto simp: start_execution_def Let_def case_prod_beta split: option.splits) (metis execution_of_arn)+
  then show "sfn_scopes.all_scopes libs b'"
    using b by cases (auto intro: sfn_scopes.kept [OF record_execution_keeps])
qed

lemma sfn_ok_get:
  "sfn_store_ok libs st \<Longrightarrow> hm_get (sfn_machines st) k = Some sm \<Longrightarrow> sm_state_machine_arn sm = k \<and> sm_status sm = ''ACTIVE''"
  "sfn_store_ok libs st \<Longrightarrow> hm_get (sfn_executions st) k = Some e \<Longrightarrow> execution_ok libs k e"
  by (auto simp: sfn_store_ok_def)

lemma create_state_machine_keeps: "sfn_scopes.bundle_keeps libs (create_state_machine libs ctx)"
  unfolding create_state_machine_def Let_def case_prod_beta
  by (intro sfn_scopes.bundle_keeps_case sfn_scopes.bundle_keeps_answering sfn_store_keeps) (auto intro!: sfn_ok_machine)

lemma delete_state_machine_keeps: "sfn_scopes.bundle_keeps libs (delete_state_machine libs ctx)"
  unfolding delete_state_machine_def
  by (intro sfn_scopes.bundle_keeps_case sfn_scopes.bundle_keeps_answering sfn_store_keeps) (auto intro!: sfn_ok_remove)

lemma update_state_machine_keeps: "sfn_scopes.bundle_keeps libs (update_state_machine libs ctx)"
  unfolding update_state_machine_def Let_def case_prod_beta
  by (intro sfn_scopes.bundle_keeps_case sfn_scopes.bundle_keeps_answering sfn_store_keeps)
    (auto intro!: sfn_ok_machine dest: sfn_ok_get split: option.splits)

lemma stop_execution_keeps: "sfn_scopes.bundle_keeps libs (stop_execution libs ctx)"
  unfolding stop_execution_def Let_def case_prod_beta
  by (intro sfn_scopes.bundle_keeps_case sfn_scopes.bundle_keeps_answering sfn_store_keeps)
    (auto intro!: sfn_ok_execution execution_ok_stopped dest: sfn_ok_get split: option.splits)

lemma sfn_readers_keep:
  "sfn_scopes.bundle_keeps libs (describe_state_machine libs ctx)" "sfn_scopes.bundle_keeps libs (list_state_machines libs ctx)"
  "sfn_scopes.bundle_keeps libs (describe_execution libs ctx)" "sfn_scopes.bundle_keeps libs (list_executions libs ctx)"
  unfolding describe_state_machine_def list_state_machines_def describe_execution_def list_executions_def
  by (intro sfn_scopes.bundle_keeps_case sfn_scopes.bundle_keeps_answering sfn_scopes.bundle_keeps_reading)+

lemma sfn_handler_keeps: "sfn_handler libs ctx = Some f \<Longrightarrow> sfn_scopes.bundle_keeps libs f"
  by (auto simp: sfn_handler_def Let_def sfn_readers_keep create_state_machine_keeps delete_state_machine_keeps
      update_state_machine_keeps stop_execution_keeps start_execution_keeps split: if_splits)

lemma sfn_dispatch_keeps:
  "sfn_dispatch libs ctx b w = Some (r, b', w') \<Longrightarrow> sfn_scopes.all_scopes libs b \<Longrightarrow> sfn_scopes.all_scopes libs b'"
  using sfn_handler_keeps [of libs ctx] by (fastforce simp: sfn_dispatch_def sfn_scopes.bundle_keeps_def split: option.splits)

fun sfn_run :: "sfn_libs \<Rightarrow> RequestContext list \<Rightarrow> StepFunctionsStore AccountRegionBundle \<Rightarrow> svc_world \<Rightarrow>
    (StepFunctionsStore AccountRegionBundle \<times> svc_world) option" where
  "sfn_run libs [] b w = Some (b, w)"
| "sfn_run libs (ctx # ctxs) b w =
     (case sfn_dispatch libs ctx b w of None \<Rightarrow> None | Some (_, b, w) \<Rightarrow> sfn_run libs ctxs b w)"

lemma sfn_run_keeps: "sfn_run libs ctxs b w = Some (b', w') \<Longrightarrow> sfn_scopes.all_scopes libs b \<Longrightarrow> sfn_scopes.all_scopes libs b'"
  by (induction ctxs arbitrary: b w) (auto split: option.splits dest: sfn_dispatch_keeps)

section \<open>Properties\<close>


definition sfn_request :: "string \<Rightarrow> (string \<times> Value) list \<Rightarrow> RequestContext" where
  "sfn_request op body = (RequestContext_new ''states'' op ''r'' ''1'')\<lparr>ctx_request_body := JObject body\<rparr>"

text \<open>A parser that reads one text as the machine of the example and every other as a document that holds the text.\<close>

definition parsing_libs :: sfn_libs where
  "parsing_libs = sfn_demo_libs\<lparr>sf_ext := (sf_ext sfn_demo_libs)\<lparr>json_from_slice :=
     (\<lambda>s. if s = ''def'' then Some (demo_machine ''a*'') else Some (JObject [(''x'', JString s)]))\<rparr>\<rparr>"

definition sfn_demo_world :: svc_world where
  "sfn_demo_world = \<lparr>sw_clock = (\<lambda>_. 0), sw_reads = 0, sw_uuid = (\<lambda>_. ''u''), sw_drawn = 0\<rparr>"

abbreviation demo_machine_arn :: string where
  "demo_machine_arn \<equiv> ''arn:aws:states:r:1:stateMachine:m''"

abbreviation demo_execution_arn :: string where
  "demo_execution_arn \<equiv> ''arn:aws:states:r:1:execution:m:e''"

definition demo_start :: RequestContext where
  "demo_start = sfn_request ''StartExecution'' [(''stateMachineArn'', JString demo_machine_arn), (''input'', JString ''xyz''), (''name'', JString ''e'')]"

definition sfn_demo_requests :: "RequestContext list" where
  "sfn_demo_requests =
     [sfn_request ''CreateStateMachine'' [(''name'', JString ''m''), (''definition'', JString ''def'')], demo_start]"


text \<open>A client that starts an execution under a name and describes it reads the result of running the machine it named on
  its input: the output, \<^verbatim>\<open>SUCCEEDED\<close> when the run has no error and \<^verbatim>\<open>FAILED\<close> with the error and cause otherwise.\<close>

theorem sfn_start_then_describe:
  assumes "ctx_operation ctx = ''StartExecution''" "str_param ctx ''stateMachineArn'' = Some sm_arn" "str_param ctx ''name'' = Some name"
    and "str_param ctx ''input'' = Some input"
    and "bundle_get b (ctx_account_id ctx) (ctx_region ctx) = Some st" "hm_get (sfn_machines st) sm_arn = Some sm"
    and "run_asl libs (sm_definition sm) input = Some (out, err, cause)"
    and "ctx_operation ctx' = ''DescribeExecution''" "str_param ctx' ''executionArn'' = Some (execution_arn_of ctx sm_arn name)"
    and "ctx_account_id ctx' = ctx_account_id ctx" "ctx_region ctx' = ctx_region ctx"
  shows "\<exists>b' w' t. sfn_dispatch libs ctx b w =
      Some (Inr (sfn_ok libs [(''executionArn'', JString (execution_arn_of ctx sm_arn name)), (''startDate'', json_i64 t)]), b', w') \<and>
    sfn_dispatch libs ctx' b' w' = Some (Inr (sfn_ok libs
      ([(''executionArn'', JString (execution_arn_of ctx sm_arn name)), (''stateMachineArn'', JString sm_arn), (''name'', JString name),
        (''status'', JString (if err = None then ''SUCCEEDED'' else ''FAILED'')), (''input'', JString input), (''startDate'', json_i64 t),
        (''output'', JString out)] @
       (case err of None \<Rightarrow> [] | Some e \<Rightarrow> [(''error'', JString e)]) @ (case cause of None \<Rightarrow> [] | Some c \<Rightarrow> [(''cause'', JString c)]) @
       [(''stopDate'', json_i64 t)])), b', w')"
  using assms
  by (auto simp: sfn_dispatch_def sfn_handler_def start_execution_def record_execution_def describe_execution_def sfn_store_def on_created_def reading_def
      get_or_create_def bundle_get_eq write_back_def update_conv' contains_key_def execution_json_def execution_of_def optional_def
      svc_world_defs Let_def split: option.splits)

theorem sfn_start_then_describe_witness:
  "\<exists>b w b' w' t. sfn_run parsing_libs (take 1 sfn_demo_requests) bundle_new sfn_demo_world = Some (b, w) \<and>
     sfn_dispatch parsing_libs demo_start b w = Some (Inr (sfn_ok parsing_libs
       [(''executionArn'', JString demo_execution_arn), (''startDate'', json_i64 t)]), b', w') \<and>
     sfn_dispatch parsing_libs (sfn_request ''DescribeExecution'' [(''executionArn'', JString demo_execution_arn)]) b' w' =
       Some (Inr (sfn_ok parsing_libs [(''executionArn'', JString demo_execution_arn), (''stateMachineArn'', JString demo_machine_arn),
         (''name'', JString ''e''), (''status'', JString ''FAILED''), (''input'', JString ''xyz''), (''startDate'', json_i64 t),
         (''output'', JString ''xyz''), (''error'', JString ''no''), (''cause'', JString []), (''stopDate'', json_i64 t)]), b', w')"
proof -
  let ?d = "sfn_request ''DescribeExecution'' [(''executionArn'', JString demo_execution_arn)]"
  have "(case sfn_run parsing_libs (take 1 sfn_demo_requests) bundle_new sfn_demo_world of None \<Rightarrow> False | Some (b, _) \<Rightarrow>
      (case bundle_get b ''1'' ''r'' of None \<Rightarrow> False | Some st \<Rightarrow> (case hm_get (sfn_machines st) demo_machine_arn of None \<Rightarrow> False
        | Some sm \<Rightarrow> run_asl parsing_libs (sm_definition sm) ''xyz'' = Some (''xyz'', Some ''no'', Some []))))"
    by code_simp
  then obtain b w st sm where r: "sfn_run parsing_libs (take 1 sfn_demo_requests) bundle_new sfn_demo_world = Some (b, w)"
    "bundle_get b ''1'' ''r'' = Some st" "hm_get (sfn_machines st) demo_machine_arn = Some sm"
    "run_asl parsing_libs (sm_definition sm) ''xyz'' = Some (''xyz'', Some ''no'', Some [])"
    by (auto split: option.splits)
  have d: "ctx_account_id demo_start = ''1''" "ctx_region demo_start = ''r''" "ctx_operation demo_start = ''StartExecution''"
    "str_param demo_start ''stateMachineArn'' = Some demo_machine_arn" "str_param demo_start ''name'' = Some ''e''"
    "str_param demo_start ''input'' = Some ''xyz''"
    by (simp_all add: demo_start_def sfn_request_def RequestContext_new_def str_param_def)
  moreover have "execution_arn_of demo_start demo_machine_arn ''e'' = demo_execution_arn" by code_simp
  moreover have "ctx_account_id ?d = ''1''" "ctx_region ?d = ''r''" "ctx_operation ?d = ''DescribeExecution''"
    "str_param ?d ''executionArn'' = Some demo_execution_arn"
    by (simp_all add: sfn_request_def RequestContext_new_def str_param_def)
  ultimately show ?thesis
    using r sfn_start_then_describe [of demo_start demo_machine_arn "''e''" "''xyz''" b st sm parsing_libs "''xyz''" "Some ''no''" "Some []" ?d w]
    by auto
qed

end
