(* ===== verification/Secrets_Service.thy ===== *)
theory Secrets_Service
  imports Service_World
begin

text \<open>
  Secrets Manager: \<^verbatim>\<open>services/secretsmanager/src/store.rs\<close> and \<^verbatim>\<open>provider.rs\<close>. A scope keeps secrets by name, an index from
  ARNs to names, and the bytes of the last listing until a change drops them. A struct that is written field by field
  is an object with its members in that order.
\<close>

section \<open>Store\<close>

record SecretVersion =
  sv_version_id :: string
  sv_secret_string :: "string option"
  sv_secret_binary :: "string option"
  sv_created :: int
  sv_version_stages :: "string list"

record Secret =
  sc_arn :: string
  sc_name :: string
  sc_description :: string
  sc_created :: int
  sc_last_changed :: int
  sc_deleted :: bool
  sc_deletion_date :: "int option"
  sc_versions :: "SecretVersion list"
  sc_tags :: "(string, string) hash_map"

definition is_current :: "SecretVersion \<Rightarrow> bool" where
  "is_current v \<longleftrightarrow> ''AWSCURRENT'' \<in> set (sv_version_stages v)"

definition current_version :: "Secret \<Rightarrow> SecretVersion option" where
  "current_version s = List.find is_current (sc_versions s)"

record SecretsManagerStore =
  sec_secrets :: "(string, Secret) hash_map"
  sec_arn_index :: "(string, string) hash_map"
  sec_list_cache :: "string option"

definition SecretsManagerStore_new :: SecretsManagerStore where
  "SecretsManagerStore_new = \<lparr>sec_secrets = [], sec_arn_index = [], sec_list_cache = None\<rparr>"

section \<open>Answers\<close>

definition sec_ok_bytes :: "string \<Rightarrow> DispatchResponse" where
  "sec_ok_bytes bytes =
     \<lparr>status_code = 200, resp_body = Buffered bytes, content_type = ''application/x-amz-json-1.1'', resp_headers = []\<rparr>"

definition sec_ok :: "externs \<Rightarrow> (string \<times> Value) list \<Rightarrow> DispatchResponse" where
  "sec_ok ext kvs = sec_ok_bytes (json_to_string ext (json_object kvs))"

definition sec_error :: "externs \<Rightarrow> string \<Rightarrow> string \<Rightarrow> nat \<Rightarrow> DispatchResponse" where
  "sec_error ext code message status =
     json_reply ext ''application/json'' status (json_object [(''__type'', JString code), (''Message'', JString message)])"

definition sec_required :: "externs \<Rightarrow> string \<Rightarrow> DispatchResponse" where
  "sec_required ext p = sec_error ext ''ValidationException'' (p @ '' is required'') 400"

definition secret_not_found :: "externs \<Rightarrow> string \<Rightarrow> DispatchResponse" where
  "secret_not_found ext secret_id = sec_error ext ''ResourceNotFoundException'' (''Secret '' @ secret_id @ '' not found'') 400"

definition cannot_find_secret :: "externs \<Rightarrow> DispatchResponse" where
  "cannot_find_secret ext =
     sec_error ext ''ResourceNotFoundException'' (''Secrets Manager can'' @ [CHR 0x27] @ ''t find the specified secret.'') 400"

definition secret_summary :: "Secret \<Rightarrow> Value" where
  "secret_summary s = JObject ([(''ARN'', JString (sc_arn s)), (''Name'', JString (sc_name s)),
     (''Description'', JString (sc_description s)), (''CreatedDate'', json_i64 (timestamp_secs (sc_created s))),
     (''LastChangedDate'', json_i64 (timestamp_secs (sc_last_changed s)))] @
     (case sc_deletion_date s of Some d \<Rightarrow> [(''DeletedDate'', json_i64 (timestamp_secs d))] | None \<Rightarrow> []))"

definition resolve_secret_name :: "SecretsManagerStore \<Rightarrow> string \<Rightarrow> string option" where
  "resolve_secret_name st secret_id =
     (if contains_key (sec_secrets st) secret_id then Some secret_id
      else case hm_get (sec_arn_index st) secret_id of
             Some n \<Rightarrow> Some n
           | None \<Rightarrow> map_option sc_name (List.find (\<lambda>s. sc_arn s = secret_id) (hm_values (sec_secrets st))))"

definition secret_listing :: "externs \<Rightarrow> SecretsManagerStore \<Rightarrow> string" where
  "secret_listing ext st =
     json_to_string ext (JObject [(''SecretList'',
       JArray (map secret_summary (filter (\<lambda>s. \<not> sc_deleted s) (hm_values (sec_secrets st)))))])"

definition rebuild_list_cache :: "externs \<Rightarrow> SecretsManagerStore \<Rightarrow> SecretsManagerStore" where
  "rebuild_list_cache ext st = st\<lparr>sec_list_cache := Some (secret_listing ext st)\<rparr>"

section \<open>Handlers\<close>

type_synonym sec_op = "(SecretsManagerStore, svc_world) bundle_op"

definition sec_store :: "RequestContext \<Rightarrow> (SecretsManagerStore \<Rightarrow> svc_world \<Rightarrow> DispatchResponse \<times> SecretsManagerStore \<times> svc_world) \<Rightarrow> sec_op" where
  "sec_store ctx f = on_created SecretsManagerStore_new ctx (\<lambda>st w. Some (f st w))"

definition find_secret :: "SecretsManagerStore \<Rightarrow> string \<Rightarrow> Secret option" where
  "find_secret st secret_id = Option.bind (resolve_secret_name st secret_id) (hm_get (sec_secrets st))"

text \<open>The operations that change a secret find it by its name or ARN; the listing is dropped.\<close>

definition change_secret ::
  "externs \<Rightarrow> string \<Rightarrow> (Secret \<Rightarrow> svc_world \<Rightarrow> DispatchResponse \<times> Secret \<times> svc_world) \<Rightarrow>
   SecretsManagerStore \<Rightarrow> svc_world \<Rightarrow> DispatchResponse \<times> SecretsManagerStore \<times> svc_world" where
  "change_secret ext secret_id f st w =
     (case resolve_secret_name st secret_id of
        None \<Rightarrow> (secret_not_found ext secret_id, st, w)
      | Some resolved_name \<Rightarrow>
     (case hm_get (sec_secrets st) resolved_name of
        None \<Rightarrow> (secret_not_found ext secret_id, st, w)
      | Some s \<Rightarrow>
          (let (r, s, w) = f s w
           in (r, st\<lparr>sec_secrets := hm_insert resolved_name s (sec_secrets st), sec_list_cache := None\<rparr>, w))))"

definition new_secret_version :: "string \<Rightarrow> string option \<Rightarrow> int \<Rightarrow> SecretVersion" where
  "new_secret_version version_id secret_string now =
     \<lparr>sv_version_id = version_id, sv_secret_string = secret_string, sv_secret_binary = None, sv_created = now,
      sv_version_stages = [''AWSCURRENT'']\<rparr>"

definition insert_secret ::
  "externs \<Rightarrow> Secret \<Rightarrow> string \<Rightarrow> SecretsManagerStore \<Rightarrow> svc_world \<Rightarrow> DispatchResponse \<times> SecretsManagerStore \<times> svc_world" where
  "insert_secret ext secret version_id st w =
     (let name = sc_name secret; old = hm_get (sec_secrets st) name
      in if (case old of Some s \<Rightarrow> \<not> sc_deleted s | None \<Rightarrow> False)
         then (sec_error ext ''ResourceExistsException'' (''Secret '' @ name @ '' already exists'') 400, st, w)
         else
           let index = (case old of Some s \<Rightarrow> hm_remove (sc_arn s) (sec_arn_index st) | None \<Rightarrow> sec_arn_index st)
           in (sec_ok ext [(''ARN'', JString (sc_arn secret)), (''Name'', JString name), (''VersionId'', JString version_id)],
               st\<lparr>sec_secrets := hm_insert name secret (sec_secrets st), sec_arn_index := hm_insert (sc_arn secret) name index,
                  sec_list_cache := None\<rparr>, w))"

definition new_secret :: "RequestContext \<Rightarrow> string \<Rightarrow> string \<Rightarrow> SecretVersion \<Rightarrow> int \<Rightarrow> int \<Rightarrow> Secret" where
  "new_secret ctx arn name version created changed =
     \<lparr>sc_arn = arn, sc_name = name, sc_description = unwrap_str (str_param ctx ''Description''), sc_created = created,
      sc_last_changed = changed, sc_deleted = False, sc_deletion_date = None, sc_versions = [version], sc_tags = []\<rparr>"

text \<open>Slicing \<^verbatim>\<open>[..6]\<close> of an identifier panics when it is shorter.\<close>

definition create_secret :: "externs \<Rightarrow> RequestContext \<Rightarrow> sec_op" where
  "create_secret ext ctx b w =
     (case str_param ctx ''Name'' of
        None \<Rightarrow> Some (sec_required ext ''Name'', b, w)
      | Some name \<Rightarrow>
          (let (u, w) = new_uuid w
           in if length u < 6 then None
              else
                let arn = ''arn:aws:secretsmanager:'' @ ctx_region ctx @ '':'' @ ctx_account_id ctx @ '':secret:'' @ name @ ''-'' @ take 6 u;
                    (version_id, w) = new_uuid w; (t1, w) = sw_now w; (t2, w) = sw_now w; (t3, w) = sw_now w;
                    secret = new_secret ctx arn name (new_secret_version version_id (str_param ctx ''SecretString'') t1) t2 t3
                in sec_store ctx (insert_secret ext secret version_id) b w))"

definition secret_value :: "externs \<Rightarrow> Secret \<Rightarrow> SecretVersion \<Rightarrow> DispatchResponse" where
  "secret_value ext s v =
     sec_ok ext ([(''ARN'', JString (sc_arn s)), (''Name'', JString (sc_name s)), (''VersionId'', JString (sv_version_id v)),
        (''VersionStages'', JArray (map JString (sv_version_stages v))), (''CreatedDate'', json_i64 (timestamp_secs (sv_created v)))] @
       (case sv_secret_string v of Some ss \<Rightarrow> [(''SecretString'', JString ss)] | None \<Rightarrow> []))"

definition get_secret_value :: "externs \<Rightarrow> RequestContext \<Rightarrow> sec_op" where
  "get_secret_value ext ctx =
     (case str_param ctx ''SecretId'' of
        None \<Rightarrow> answering (sec_required ext ''SecretId'')
      | Some secret_id \<Rightarrow>
          reading ctx (cannot_find_secret ext) (\<lambda>st.
            case find_secret st secret_id of
              None \<Rightarrow> cannot_find_secret ext
            | Some s \<Rightarrow>
                if sc_deleted s then sec_error ext ''InvalidRequestException'' ''Secret is scheduled for deletion'' 400
                else case current_version s of
                       None \<Rightarrow> sec_error ext ''ResourceNotFoundException'' ''No current version'' 400
                     | Some v \<Rightarrow> secret_value ext s v))"

definition without_current :: "SecretVersion \<Rightarrow> SecretVersion" where
  "without_current v = v\<lparr>sv_version_stages := filter (\<lambda>st. st \<noteq> ''AWSCURRENT'') (sv_version_stages v)\<rparr>"

definition demote :: "SecretVersion \<Rightarrow> SecretVersion" where
  "demote v =
     (if is_current v then (without_current v)\<lparr>sv_version_stages := sv_version_stages (without_current v) @ [''AWSPREVIOUS'']\<rparr> else v)"

definition put_version :: "externs \<Rightarrow> SecretVersion \<Rightarrow> Secret \<Rightarrow> svc_world \<Rightarrow> DispatchResponse \<times> Secret \<times> svc_world" where
  "put_version ext new_version s w =
     (let (changed, w) = sw_now w
      in (sec_ok ext [(''ARN'', JString (sc_arn s)), (''Name'', JString (sc_name s)), (''VersionId'', JString (sv_version_id new_version)),
            (''VersionStages'', JArray [JString ''AWSCURRENT''])],
          s\<lparr>sc_versions := map demote (sc_versions s) @ [new_version], sc_last_changed := changed\<rparr>, w))"

definition put_secret_value :: "externs \<Rightarrow> RequestContext \<Rightarrow> sec_op" where
  "put_secret_value ext ctx b w =
     (case str_param ctx ''SecretId'' of
        None \<Rightarrow> Some (sec_required ext ''SecretId'', b, w)
      | Some secret_id \<Rightarrow>
          (let (version_id, w) = new_uuid w; (now, w) = sw_now w;
               new_version = new_secret_version version_id (str_param ctx ''SecretString'') now
           in sec_store ctx (change_secret ext secret_id (put_version ext new_version)) b w))"

definition update_fields :: "externs \<Rightarrow> RequestContext \<Rightarrow> Secret \<Rightarrow> svc_world \<Rightarrow> DispatchResponse \<times> Secret \<times> svc_world" where
  "update_fields ext ctx s w =
     (let s = (case str_param ctx ''Description'' of Some d \<Rightarrow> s\<lparr>sc_description := d\<rparr> | None \<Rightarrow> s);
          (s, w) = (case str_param ctx ''SecretString'' of
              Some ss \<Rightarrow>
                (let (version_id, w) = new_uuid w; (now, w) = sw_now w
                 in (s\<lparr>sc_versions := map without_current (sc_versions s) @ [new_secret_version version_id (Some ss) now]\<rparr>, w))
            | None \<Rightarrow> (s, w));
          (changed, w) = sw_now w
      in (sec_ok ext [(''ARN'', JString (sc_arn s)), (''Name'', JString (sc_name s))], s\<lparr>sc_last_changed := changed\<rparr>, w))"

definition update_secret :: "externs \<Rightarrow> RequestContext \<Rightarrow> sec_op" where
  "update_secret ext ctx =
     (case str_param ctx ''SecretId'' of
        None \<Rightarrow> answering (sec_required ext ''SecretId'')
      | Some secret_id \<Rightarrow> sec_store ctx (change_secret ext secret_id (update_fields ext ctx)))"

definition describe_secret :: "externs \<Rightarrow> RequestContext \<Rightarrow> sec_op" where
  "describe_secret ext ctx =
     (case str_param ctx ''SecretId'' of
        None \<Rightarrow> answering (sec_required ext ''SecretId'')
      | Some secret_id \<Rightarrow>
          reading ctx (secret_not_found ext secret_id) (\<lambda>st.
            case find_secret st secret_id of
              None \<Rightarrow> secret_not_found ext secret_id
            | Some s \<Rightarrow> sec_ok_bytes (json_to_string ext (secret_summary s))))"

definition empty_listing :: string where
  "empty_listing = ''{'' @ [CHR 0x22] @ ''SecretList'' @ [CHR 0x22] @ '':[]}''"

definition cached_listing :: "externs \<Rightarrow> (SecretsManagerStore, svc_world) scope_op" where
  "cached_listing ext st w =
     (let st = (if sec_list_cache st = None then rebuild_list_cache ext st else st)
      in Some (sec_ok_bytes (case sec_list_cache st of Some c \<Rightarrow> c | None \<Rightarrow> empty_listing), st, w))"

definition list_secrets :: "externs \<Rightarrow> RequestContext \<Rightarrow> sec_op" where
  "list_secrets ext ctx b w =
     (case Option.bind (bundle_get b (ctx_account_id ctx) (ctx_region ctx)) sec_list_cache of
        Some cached \<Rightarrow> Some (sec_ok_bytes cached, b, w)
      | None \<Rightarrow>
          on_existing ctx (sec_ok_bytes empty_listing) (cached_listing ext) b w)"

definition remove_secret ::
  "externs \<Rightarrow> string \<Rightarrow> SecretsManagerStore \<Rightarrow> svc_world \<Rightarrow> DispatchResponse \<times> SecretsManagerStore \<times> svc_world" where
  "remove_secret ext secret_id st w =
     (case resolve_secret_name st secret_id of
        None \<Rightarrow> (secret_not_found ext secret_id, st, w)
      | Some resolved_name \<Rightarrow>
     (case hm_get (sec_secrets st) resolved_name of
        None \<Rightarrow> (secret_not_found ext secret_id, st, w)
      | Some s \<Rightarrow>
          (sec_ok ext [(''ARN'', JString (sc_arn s)), (''Name'', JString (sc_name s))],
           st\<lparr>sec_secrets := hm_remove resolved_name (sec_secrets st), sec_arn_index := hm_remove (sc_arn s) (sec_arn_index st),
              sec_list_cache := None\<rparr>, w)))"

definition schedule_deletion :: "externs \<Rightarrow> Secret \<Rightarrow> svc_world \<Rightarrow> DispatchResponse \<times> Secret \<times> svc_world" where
  "schedule_deletion ext s w =
     (let (now, w) = sw_now w; deletion_date = now + 30 * 86400 * 1000000000
      in (sec_ok ext [(''ARN'', JString (sc_arn s)), (''Name'', JString (sc_name s)),
            (''DeletionDate'', json_i64 (timestamp_secs deletion_date))],
          s\<lparr>sc_deleted := True, sc_deletion_date := Some deletion_date\<rparr>, w))"

definition delete_secret :: "externs \<Rightarrow> RequestContext \<Rightarrow> sec_op" where
  "delete_secret ext ctx =
     (case str_param ctx ''SecretId'' of
        None \<Rightarrow> answering (sec_required ext ''SecretId'')
      | Some secret_id \<Rightarrow>
          (let force_delete = (case Option.bind (value_get (ctx_request_body ctx) ''ForceDeleteWithoutRecovery'') as_bool of
                 Some f \<Rightarrow> f | None \<Rightarrow> False)
           in sec_store ctx (if force_delete then remove_secret ext secret_id else change_secret ext secret_id (schedule_deletion ext))))"

definition restore_secret :: "externs \<Rightarrow> RequestContext \<Rightarrow> sec_op" where
  "restore_secret ext ctx =
     (case str_param ctx ''SecretId'' of
        None \<Rightarrow> answering (sec_required ext ''SecretId'')
      | Some secret_id \<Rightarrow>
          sec_store ctx (change_secret ext secret_id (\<lambda>s w.
            (sec_ok ext [(''ARN'', JString (sc_arn s)), (''Name'', JString (sc_name s))],
             s\<lparr>sc_deleted := False, sc_deletion_date := None\<rparr>, w))))"

section \<open>Dispatch\<close>

definition sec_handler :: "externs \<Rightarrow> RequestContext \<Rightarrow> sec_op" where
  "sec_handler ext ctx =
     (let op = ctx_operation ctx in
      if op = ''CreateSecret'' then create_secret ext ctx
      else if op = ''GetSecretValue'' then get_secret_value ext ctx
      else if op = ''PutSecretValue'' then put_secret_value ext ctx
      else if op = ''UpdateSecret'' then update_secret ext ctx
      else if op = ''DescribeSecret'' then describe_secret ext ctx
      else if op = ''ListSecrets'' then list_secrets ext ctx
      else if op = ''DeleteSecret'' then delete_secret ext ctx
      else if op = ''RestoreSecret'' then restore_secret ext ctx
      else answering (sec_error ext ''NotImplementedException'' (''Operation not implemented: '' @ op) 501))"

definition sec_dispatch :: "externs \<Rightarrow> RequestContext \<Rightarrow> SecretsManagerStore AccountRegionBundle \<Rightarrow> svc_world \<Rightarrow>
    ((DispatchError + DispatchResponse) \<times> SecretsManagerStore AccountRegionBundle \<times> svc_world) option" where
  "sec_dispatch ext ctx b w = map_option (\<lambda>(r, b, w). (Inr r, b, w)) (sec_handler ext ctx b w)"

definition sec_storage_snapshot :: "SecretsManagerStore AccountRegionBundle \<Rightarrow> Value" where
  "sec_storage_snapshot b =
     (let attr = (\<lambda>k v. json_object [(''key'', JString k), (''value'', JString v)]);
          secrets = concat (map (\<lambda>(_, st). map (\<lambda>s.
            json_object [(''id'', JString (sc_arn s)), (''kind'', JString ''secret''),
              (''attributes'', JArray [attr ''name'' (sc_name s), attr ''description'' (sc_description s)])])
            (filter (\<lambda>s. \<not> sc_deleted s) (hm_values (sec_secrets st)))) (bundle_iter b))
      in json_object [(''kind'', JString ''secrets_manager''), (''secrets'', JArray secrets)])"

end
