(* ===== verification/Secrets_Versions.thy ===== *)
theory Secrets_Versions
  imports Secrets_Service
begin

text \<open>
  What every sequence of Secrets Manager requests keeps: one current version per secret, the last one; an index of ARNs
  that points to the secrets that have them; and a cached listing that is the listing of the store.
\<close>

section \<open>Invariant\<close>

definition secret_ok :: "string \<Rightarrow> Secret \<Rightarrow> bool" where
  "secret_ok k s \<longleftrightarrow> sc_name s = k \<and> (sc_deleted s \<longleftrightarrow> sc_deletion_date s \<noteq> None) \<and>
     (\<exists>vs v. sc_versions s = vs @ [v] \<and> is_current v \<and> (\<forall>v' \<in> set vs. \<not> is_current v'))"

definition sec_store_ok :: "externs \<Rightarrow> SecretsManagerStore \<Rightarrow> bool" where
  "sec_store_ok ext st \<longleftrightarrow> hm_wf (sec_secrets st) \<and>
     (\<forall>k s. hm_get (sec_secrets st) k = Some s \<longrightarrow> secret_ok k s) \<and>
     (\<forall>a n. hm_get (sec_arn_index st) a = Some n \<longrightarrow> (\<exists>s. hm_get (sec_secrets st) n = Some s \<and> sc_arn s = a)) \<and>
     (\<forall>c. sec_list_cache st = Some c \<longrightarrow> c = secret_listing ext st)"

lemma sec_store_okD:
  assumes "sec_store_ok ext st"
  shows "hm_wf (sec_secrets st)" "hm_get (sec_secrets st) k = Some s \<Longrightarrow> secret_ok k s"
    "hm_get (sec_secrets st) k = Some s \<Longrightarrow> sc_name s = k"
    "hm_get (sec_arn_index st) a = Some n \<Longrightarrow> \<exists>s. hm_get (sec_secrets st) n = Some s \<and> sc_arn s = a"
    "sec_list_cache st = Some c \<Longrightarrow> c = secret_listing ext st"
  using assms by (auto simp: sec_store_ok_def secret_ok_def)

lemma sec_store_okI:
  assumes "hm_wf (sec_secrets st)" "\<And>k s. hm_get (sec_secrets st) k = Some s \<Longrightarrow> secret_ok k s"
    and "\<And>a n. hm_get (sec_arn_index st) a = Some n \<Longrightarrow> \<exists>s. hm_get (sec_secrets st) n = Some s \<and> sc_arn s = a"
    and "sec_list_cache st = None"
  shows "sec_store_ok ext st"
  using assms by (auto simp: sec_store_ok_def)

lemma without_current_not [simp]: "\<not> is_current (without_current v)"
  by (simp add: is_current_def without_current_def)

lemma demote_not [simp]: "\<not> is_current (demote v)"
  by (auto simp: demote_def is_current_def without_current_def)

lemma new_version_current [simp]: "is_current (new_secret_version i s t)"
  by (simp add: new_secret_version_def is_current_def)

text \<open>A change of one secret that keeps its ARN keeps the invariant.\<close>

lemma sec_store_ok_insert:
  assumes "sec_store_ok ext st" "hm_get (sec_secrets st) k = Some s" "secret_ok k s'" "sc_arn s' = sc_arn s"
  shows "sec_store_ok ext (st\<lparr>sec_secrets := hm_insert k s' (sec_secrets st), sec_list_cache := None\<rparr>)"
  using assms by (fastforce simp: sec_store_ok_def hm_wf_def distinct_update update_conv')

lemma change_secret_keeps:
  assumes "sec_store_ok ext st" "change_secret ext i f st w = (r, st', w')"
    and "\<And>k s w r s' w'. secret_ok k s \<Longrightarrow> f s w = (r, s', w') \<Longrightarrow> secret_ok k s' \<and> sc_arn s' = sc_arn s"
  shows "sec_store_ok ext st'"
proof (cases "find_secret st i")
  case None
  with assms(1,2) show ?thesis by (auto simp: change_secret_def find_secret_def split: option.splits)
next
  case (Some s)
  then obtain k where k: "resolve_secret_name st i = Some k" "hm_get (sec_secrets st) k = Some s"
    by (auto simp: find_secret_def bind_eq_Some_conv)
  then have "secret_ok k s" using assms(1) by (auto simp: sec_store_ok_def)
  moreover obtain r1 s1 w1 where f: "f s w = (r1, s1, w1)" by (metis prod.exhaust)
  ultimately have "secret_ok k s1 \<and> sc_arn s1 = sc_arn s" using assms(3) by blast
  with sec_store_ok_insert [OF assms(1) k(2)] have "sec_store_ok ext (st\<lparr>sec_secrets := hm_insert k s1 (sec_secrets st), sec_list_cache := None\<rparr>)"
    by blast
  with assms(2) k f show ?thesis by (simp add: change_secret_def)
qed

interpretation sec_scopes: scope_invariant "sec_store_ok ext" SecretsManagerStore_new for ext
  by unfold_locales (simp add: sec_store_ok_def SecretsManagerStore_new_def)

lemma sec_store_keeps:
  assumes "\<And>st w r st' w'. sec_store_ok ext st \<Longrightarrow> f st w = (r, st', w') \<Longrightarrow> sec_store_ok ext st'"
  shows "sec_scopes.bundle_keeps ext (sec_store ctx f)"
  unfolding sec_store_def
proof (rule sec_scopes.bundle_keeps_created)
  show "sec_scopes.scope_keeps ext (\<lambda>st w. Some (f st w))" using assms by (auto simp: sec_scopes.scope_keeps_def)
qed

lemma sec_change_keeps:
  assumes "\<And>k s w r s' w'. secret_ok k s \<Longrightarrow> f s w = (r, s', w') \<Longrightarrow> secret_ok k s' \<and> sc_arn s' = sc_arn s"
  shows "sec_scopes.bundle_keeps ext (sec_store ctx (change_secret ext i f))"
  by (rule sec_store_keeps) (use assms in \<open>blast intro: change_secret_keeps\<close>)

lemma insert_secret_keeps:
  assumes "sec_store_ok ext st" "secret_ok (sc_name s) s" "insert_secret ext s v st w = (r, st', w')"
  shows "sec_store_ok ext st'"
proof (cases "st' = st")
  case False
  note ok = sec_store_okD [OF assms(1)]
  define index where
    "index = (case hm_get (sec_secrets st) (sc_name s) of Some s \<Rightarrow> hm_remove (sc_arn s) (sec_arn_index st) | None \<Rightarrow> sec_arn_index st)"
  then have index: "hm_get index a = Some n \<Longrightarrow> hm_get (sec_arn_index st) a = Some n \<and>
      (\<forall>old. hm_get (sec_secrets st) (sc_name s) = Some old \<longrightarrow> a \<noteq> sc_arn old)" for a n
    by (auto simp: delete_conv' split: if_splits option.splits)
  from False assms(3) have st': "sec_secrets st' = hm_insert (sc_name s) s (sec_secrets st)" "sec_list_cache st' = None"
      "sec_arn_index st' = hm_insert (sc_arn s) (sc_name s) index"
    by (auto simp: insert_secret_def Let_def index_def split: if_splits)
  show ?thesis
  proof (rule sec_store_okI)
    show "\<exists>s'. hm_get (sec_secrets st') n = Some s' \<and> sc_arn s' = a" if "hm_get (sec_arn_index st') a = Some n" for a n
      using that index [of a n] ok(4) [of a n] by (auto simp: st' update_conv' split: if_splits)
  qed (use st' ok assms(2) in \<open>auto simp: hm_wf_def distinct_update update_conv' split: if_splits\<close>)
qed (use assms in simp)

lemma new_secret_ok [simp]:
  "is_current v \<Longrightarrow> secret_ok (sc_name (new_secret ctx arn name v t u)) (new_secret ctx arn name v t u)"
  by (simp add: new_secret_def secret_ok_def)

lemma create_secret_keeps: "sec_scopes.bundle_keeps ext (create_secret ext ctx)"
proof -
  have "sec_scopes.bundle_keeps ext (sec_store ctx (insert_secret ext s v))" if "secret_ok (sc_name s) s" for s v
    by (rule sec_store_keeps) (rule insert_secret_keeps [OF _ that])
  note * = sec_scopes.kept [OF this [OF new_secret_ok [OF new_version_current]]]
  show ?thesis
    unfolding sec_scopes.bundle_keeps_def create_secret_def Let_def case_prod_beta by (auto split: option.splits if_splits intro: *)
qed

lemma put_version_keeps: "is_current v \<Longrightarrow> sec_scopes.bundle_keeps ext (sec_store ctx (change_secret ext i (put_version ext v)))"
  by (rule sec_change_keeps) (auto simp: put_version_def secret_ok_def Let_def case_prod_beta)

lemma put_secret_value_keeps: "sec_scopes.bundle_keeps ext (put_secret_value ext ctx)"
  using put_version_keeps [OF new_version_current, of ext ctx]
  unfolding sec_scopes.bundle_keeps_def put_secret_value_def Let_def case_prod_beta
  by (simp split: option.split)

lemma update_secret_keeps: "sec_scopes.bundle_keeps ext (update_secret ext ctx)"
  unfolding update_secret_def
  by (intro sec_scopes.bundle_keeps_case sec_scopes.bundle_keeps_answering sec_change_keeps)
    (auto simp: update_fields_def Let_def case_prod_beta secret_ok_def split: option.splits)

lemma remove_secret_keeps:
  assumes "sec_store_ok ext st" "remove_secret ext i st w = (r, st', w')"
  shows "sec_store_ok ext st'"
proof (cases "st' = st")
  case False
  note ok = sec_store_okD [OF assms(1)]
  from False assms(2) obtain n s where s: "hm_get (sec_secrets st) n = Some s"
    and st': "sec_secrets st' = hm_remove n (sec_secrets st)" "sec_list_cache st' = None" "sec_arn_index st' = hm_remove (sc_arn s) (sec_arn_index st)"
    by (auto simp: remove_secret_def split: option.splits)
  show ?thesis
  proof (rule sec_store_okI)
    show "\<exists>s'. hm_get (sec_secrets st') m = Some s' \<and> sc_arn s' = a" if "hm_get (sec_arn_index st') a = Some m" for a m
      using that s ok(4) [of a m] by (auto simp: st' delete_conv' split: if_splits)
  qed (use st' ok in \<open>auto simp: hm_wf_def distinct_delete delete_conv' split: if_splits\<close>)
qed (use assms in simp)

lemma delete_secret_keeps: "sec_scopes.bundle_keeps ext (delete_secret ext ctx)"
proof -
  have "sec_scopes.bundle_keeps ext (sec_store ctx (change_secret ext i (schedule_deletion ext)))" for i
    by (rule sec_change_keeps) (auto simp: schedule_deletion_def secret_ok_def Let_def case_prod_beta)
  moreover have "sec_scopes.bundle_keeps ext (sec_store ctx (remove_secret ext i))" for i
    by (rule sec_store_keeps) (rule remove_secret_keeps)
  ultimately show ?thesis
    unfolding delete_secret_def by (auto simp: Let_def sec_scopes.bundle_keeps_answering split: option.split)
qed

lemma list_secrets_keeps: "sec_scopes.bundle_keeps ext (list_secrets ext ctx)"
proof -
  have "sec_scopes.bundle_keeps ext (on_existing ctx (sec_ok_bytes empty_listing) (cached_listing ext))"
    by (rule sec_scopes.bundle_keeps_existing)
      (auto simp: sec_scopes.scope_keeps_def cached_listing_def sec_store_ok_def rebuild_list_cache_def secret_listing_def Let_def)
  then show ?thesis unfolding sec_scopes.bundle_keeps_def list_secrets_def by (simp split: option.split)
qed

lemma sec_handler_keeps: "sec_scopes.bundle_keeps ext (sec_handler ext ctx)"
proof -
  have "sec_scopes.bundle_keeps ext (get_secret_value ext ctx)" "sec_scopes.bundle_keeps ext (describe_secret ext ctx)"
    by (auto simp: get_secret_value_def describe_secret_def sec_scopes.bundle_keeps_reading sec_scopes.bundle_keeps_answering split: option.splits)
  moreover have "sec_scopes.bundle_keeps ext (restore_secret ext ctx)"
    by (auto simp: restore_secret_def secret_ok_def split: option.splits intro!: sec_change_keeps sec_scopes.bundle_keeps_answering)
  ultimately show ?thesis
    by (simp add: sec_handler_def Let_def create_secret_keeps put_secret_value_keeps update_secret_keeps delete_secret_keeps
        list_secrets_keeps sec_scopes.bundle_keeps_answering)
qed

lemma sec_dispatch_keeps:
  "sec_dispatch ext ctx b w = Some (r, b', w') \<Longrightarrow> sec_scopes.all_scopes ext b \<Longrightarrow> sec_scopes.all_scopes ext b'"
  by (auto simp: sec_dispatch_def intro: sec_scopes.kept [OF sec_handler_keeps])

section \<open>Answers\<close>

text \<open>The operations keep the supply of identifiers, and answer when the identifiers are long enough to be cut.\<close>

lemma change_secret_uuid:
  assumes "\<And>s w. sw_uuid (snd (snd (f s w))) = sw_uuid w"
  shows "sw_uuid (snd (snd (change_secret ext i f st w))) = sw_uuid w"
  using assms by (simp add: change_secret_def case_prod_beta split: option.split)

lemma sec_store_answers:
  assumes "\<And>st w. sw_uuid (snd (snd (f st w))) = sw_uuid w"
  shows "\<exists>r b' w'. sec_store ctx f b w = Some (r, b', w') \<and> sw_uuid w' = sw_uuid w"
  using assms by (simp add: sec_store_def on_created_def case_prod_beta)

lemma sw_uuid_kept [simp]: "sw_uuid (snd (sw_now w)) = sw_uuid w" "sw_uuid (snd (new_uuid w)) = sw_uuid w"
  by (simp_all add: svc_world_defs)

lemma sec_handler_answers:
  assumes "\<And>n. length (sw_uuid w n) = 36"
  shows "\<exists>r b' w'. sec_handler ext ctx b w = Some (r, b', w') \<and> sw_uuid w' = sw_uuid w"
proof -
  have answering: "\<exists>r' b' w'. answering r b w = Some (r', b', w') \<and> sw_uuid w' = sw_uuid w" for r by (simp add: answering_def)
  have reading: "\<exists>r' b' w'. reading ctx m f b w = Some (r', b', w') \<and> sw_uuid w' = sw_uuid w" for m f
    by (simp add: reading_def split: option.split)
  have inserting: "\<exists>r b' w'. sec_store ctx (insert_secret ext s v) b w1 = Some (r, b', w') \<and> sw_uuid w' = sw_uuid w"
    if "sw_uuid w1 = sw_uuid w" for s v w1
    using sec_store_answers [of "insert_secret ext s v" ctx b w1] that by (simp add: insert_secret_def Let_def)
  have "\<not> length (fst (new_uuid w)) < 6" using assms by (simp add: new_uuid_def)
  then have "\<exists>r b' w'. create_secret ext ctx b w = Some (r, b', w') \<and> sw_uuid w' = sw_uuid w"
    unfolding create_secret_def Let_def case_prod_beta by (cases "str_param ctx ''Name''") (simp_all add: inserting)
  moreover have "\<exists>r b' w'. put_secret_value ext ctx b w = Some (r, b', w') \<and> sw_uuid w' = sw_uuid w"
  proof -
    have "\<exists>r b' w'. sec_store ctx (change_secret ext i (put_version ext v)) b w1 = Some (r, b', w') \<and> sw_uuid w' = sw_uuid w"
      if "sw_uuid w1 = sw_uuid w" for i v w1
      using sec_store_answers [of "change_secret ext i (put_version ext v)" ctx b w1] change_secret_uuid [of "put_version ext v" ext i] that
      by (simp add: put_version_def Let_def case_prod_beta)
    then show ?thesis unfolding put_secret_value_def Let_def case_prod_beta by (cases "str_param ctx ''SecretId''") simp_all
  qed
  moreover have "\<exists>r b' w'. update_secret ext ctx b w = Some (r, b', w') \<and> sw_uuid w' = sw_uuid w"
    unfolding update_secret_def
    by (cases "str_param ctx ''SecretId''") (auto simp: answering update_fields_def Let_def case_prod_beta split: option.split intro!: sec_store_answers change_secret_uuid)
  moreover have "\<exists>r b' w'. delete_secret ext ctx b w = Some (r, b', w') \<and> sw_uuid w' = sw_uuid w"
    unfolding delete_secret_def Let_def
    by (cases "str_param ctx ''SecretId''") (auto simp: answering remove_secret_def schedule_deletion_def Let_def case_prod_beta
        split: option.split intro!: sec_store_answers change_secret_uuid)
  moreover have "\<exists>r b' w'. restore_secret ext ctx b w = Some (r, b', w') \<and> sw_uuid w' = sw_uuid w"
    unfolding restore_secret_def
    by (cases "str_param ctx ''SecretId''") (auto simp: answering intro!: sec_store_answers change_secret_uuid)
  moreover have "\<exists>r b' w'. list_secrets ext ctx b w = Some (r, b', w') \<and> sw_uuid w' = sw_uuid w"
    by (auto simp: list_secrets_def on_existing_def cached_listing_def Let_def split: option.split)
  moreover have "\<exists>r b' w'. get_secret_value ext ctx b w = Some (r, b', w') \<and> sw_uuid w' = sw_uuid w"
    "\<exists>r b' w'. describe_secret ext ctx b w = Some (r, b', w') \<and> sw_uuid w' = sw_uuid w"
    by (auto simp: get_secret_value_def describe_secret_def answering reading split: option.split)
  ultimately show ?thesis using answering by (simp add: sec_handler_def Let_def)
qed

fun sec_run :: "externs \<Rightarrow> RequestContext list \<Rightarrow> SecretsManagerStore AccountRegionBundle \<Rightarrow> svc_world \<Rightarrow>
    (SecretsManagerStore AccountRegionBundle \<times> svc_world) option" where
  "sec_run ext [] b w = Some (b, w)"
| "sec_run ext (ctx # ctxs) b w =
     (case sec_dispatch ext ctx b w of None \<Rightarrow> None | Some (_, b, w) \<Rightarrow> sec_run ext ctxs b w)"

lemma sec_run_keeps: "sec_run ext ctxs b w = Some (b', w') \<Longrightarrow> sec_scopes.all_scopes ext b \<Longrightarrow> sec_scopes.all_scopes ext b'"
  by (induction ctxs arbitrary: b w) (auto split: option.splits dest: sec_dispatch_keeps)

lemma sec_run_answers: "(\<And>n. length (sw_uuid w n) = 36) \<Longrightarrow> \<exists>b' w'. sec_run ext ctxs b w = Some (b', w')"
proof (induction ctxs arbitrary: b w)
  case (Cons ctx ctxs)
  then show ?case using sec_handler_answers [of w ext ctx b] by (auto simp: sec_dispatch_def)
qed simp

section \<open>Finding a secret\<close>

lemma hm_values_iff: "hm_wf m \<Longrightarrow> s \<in> set (hm_values m) \<longleftrightarrow> (\<exists>k. hm_get m k = Some s)"
  unfolding hm_values_def hm_wf_def by (auto dest: map_of_SomeD intro: map_of_is_SomeI) (force dest: map_of_SomeD)

text \<open>A secret is found exactly by its name and, when no secret is named so, by its ARN.\<close>

lemma find_secret_some:
  assumes "sec_store_ok ext st" "find_secret st i = Some s"
  shows "hm_get (sec_secrets st) (sc_name s) = Some s \<and> (sc_name s = i \<or> sc_arn s = i)"
proof -
  note ok = sec_store_okD [OF assms(1)]
  from assms(2) obtain n where n: "resolve_secret_name st i = Some n" "hm_get (sec_secrets st) n = Some s"
    by (auto simp: find_secret_def bind_eq_Some_conv)
  let ?f = "List.find (\<lambda>s. sc_arn s = i) (hm_values (sec_secrets st))"
  have "n = i \<or> hm_get (sec_arn_index st) i = Some n \<or> map_option sc_name ?f = Some n"
    using n(1) by (simp add: resolve_secret_name_def split: if_splits option.splits)
  then consider "n = i" | "hm_get (sec_arn_index st) i = Some n" | s' where "?f = Some s'" "n = sc_name s'"
    by (metis (no_types) map_option_eq_Some)
  then show ?thesis
  proof cases
    case 2
    with n ok(3) ok(4) [of i n] show ?thesis by auto
  next
    case (3 s')
    then have s': "s' \<in> set (hm_values (sec_secrets st))" "sc_arn s' = i" by (auto simp: find_Some_iff)
    then obtain k where "hm_get (sec_secrets st) k = Some s'" using ok(1) hm_values_iff by metis
    with 3 s' n ok(3) show ?thesis by auto
  qed (use n ok(3) in auto)
qed

lemma find_secret_none:
  assumes "sec_store_ok ext st" "find_secret st i = None" "hm_get (sec_secrets st) k = Some s"
  shows "sc_name s \<noteq> i \<and> sc_arn s \<noteq> i"
proof -
  note ok = sec_store_okD [OF assms(1)]
  let ?f = "List.find (\<lambda>s. sc_arn s = i) (hm_values (sec_secrets st))"
  from assms(2) have i: "hm_get (sec_secrets st) i = None" and "hm_get (sec_arn_index st) i = None"
    using ok(4) [of i] by (auto simp: find_secret_def resolve_secret_name_def contains_key_def split: if_splits option.splits)
  with assms(2) have f: "?f = Some s' \<Longrightarrow> hm_get (sec_secrets st) (sc_name s') = None" for s'
    by (auto simp: find_secret_def resolve_secret_name_def contains_key_def)
  have "?f = None"
  proof (rule ccontr)
    assume "?f \<noteq> None"
    then obtain s' where s': "?f = Some s'" by blast
    then have "s' \<in> set (hm_values (sec_secrets st))" by (auto simp: find_Some_iff)
    then obtain k where "hm_get (sec_secrets st) k = Some s'" using ok(1) hm_values_iff by metis
    with ok(3) f [OF s'] show False by auto
  qed
  moreover have "s \<in> set (hm_values (sec_secrets st))" using assms(3) ok(1) hm_values_iff by metis
  ultimately show ?thesis using i ok(3) [OF assms(3)] assms(3) by (auto simp: find_None_iff)
qed

text \<open>A change that keeps name and ARN of a secret keeps how secrets are found.\<close>

lemma find_values_update:
  assumes "hm_get m k = Some s" "sc_arn s' = sc_arn s" "sc_name s' = sc_name s"
  shows "map_option sc_name (List.find (\<lambda>s. sc_arn s = i) (hm_values (hm_insert k s' m))) =
    map_option sc_name (List.find (\<lambda>s. sc_arn s = i) (hm_values m))"
  using assms by (induction m) (auto simp: hm_values_def split: if_splits)

lemma resolve_changed:
  assumes "hm_get (sec_secrets st) k = Some s" "sc_arn s' = sc_arn s" "sc_name s' = sc_name s"
  shows "resolve_secret_name (st\<lparr>sec_secrets := hm_insert k s' (sec_secrets st), sec_list_cache := c\<rparr>) i = resolve_secret_name st i"
  using assms find_values_update [OF assms]
  by (auto simp: resolve_secret_name_def contains_key_def update_conv' split: option.splits)

lemma change_secret_found:
  assumes "find_secret st i = Some s" "f s w = (r, s', w')" "sc_arn s' = sc_arn s" "sc_name s' = sc_name s"
  shows "\<exists>st'. change_secret ext i f st w = (r, st', w') \<and> find_secret st' i = Some s'"
proof -
  from assms(1) obtain k where k: "resolve_secret_name st i = Some k" "hm_get (sec_secrets st) k = Some s"
    by (auto simp: find_secret_def bind_eq_Some_conv)
  with assms(2) resolve_changed [OF k(2) assms(3,4)] show ?thesis by (simp add: change_secret_def find_secret_def update_conv')
qed

lemma sec_store_run:
  assumes "bundle_get b (ctx_account_id ctx) (ctx_region ctx) = Some st" "f st w = (r, st', w')"
  shows "\<exists>b'. sec_store ctx f b w = Some (r, b', w') \<and> bundle_get b' (ctx_account_id ctx) (ctx_region ctx) = Some st'"
  using assms by (auto simp: sec_store_def on_created_def get_or_create_def bundle_get_eq write_back_def update_conv' Let_def split: option.splits)

lemma current_version_last: "sc_versions s = vs @ [v] \<Longrightarrow> is_current v \<Longrightarrow> (\<And>v'. v' \<in> set vs \<Longrightarrow> \<not> is_current v') \<Longrightarrow> current_version s = Some v"
  unfolding current_version_def by (induction vs arbitrary: s) (simp_all, metis Secret.select_convs(8))

text \<open>The two operations that store a value leave a secret whose current version holds it.\<close>

definition holds_value :: "Secret \<Rightarrow> Secret \<Rightarrow> string \<Rightarrow> string \<Rightarrow> int \<Rightarrow> bool" where
  "holds_value s s' v vid t \<longleftrightarrow> sc_arn s' = sc_arn s \<and> sc_name s' = sc_name s \<and> sc_deleted s' = sc_deleted s \<and>
     current_version s' = Some (new_secret_version vid (Some v) t)"

lemma put_version_holds:
  "\<exists>r s' w'. put_version ext (new_secret_version vid (Some v) t) s w = (r, s', w') \<and> status_code r = 200 \<and> holds_value s s' v vid t"
  by (auto simp: put_version_def Let_def case_prod_beta holds_value_def sec_ok_def sec_ok_bytes_def intro!: current_version_last)

lemma update_fields_holds:
  assumes "str_param ctx ''SecretString'' = Some v"
  shows "\<exists>vid t r s' w'. update_fields ext ctx s w = (r, s', w') \<and> status_code r = 200 \<and> holds_value s s' v vid t"
  unfolding update_fields_def assms Let_def case_prod_beta
  by (intro exI [of _ "fst (new_uuid w)"] exI [of _ "fst (sw_now (snd (new_uuid w)))"])
    (auto simp: holds_value_def sec_ok_def sec_ok_bytes_def split: option.split intro!: current_version_last)

lemma stored_value:
  assumes "bundle_get b (ctx_account_id ctx) (ctx_region ctx) = Some st" "find_secret st i = Some s"
    and "ctx_operation ctx \<in> {''PutSecretValue'', ''UpdateSecret''}" "str_param ctx ''SecretId'' = Some i" "str_param ctx ''SecretString'' = Some v"
  shows "\<exists>r b' w' st' s' vid t. sec_dispatch ext ctx b w = Some (Inr r, b', w') \<and> status_code r = 200 \<and>
    bundle_get b' (ctx_account_id ctx) (ctx_region ctx) = Some st' \<and> find_secret st' i = Some s' \<and> holds_value s s' v vid t"
proof -
  have run: "\<exists>r b' w' st' s'. sec_store ctx (change_secret ext i f) b w1 = Some (r, b', w') \<and> status_code r = 200 \<and>
      bundle_get b' (ctx_account_id ctx) (ctx_region ctx) = Some st' \<and> find_secret st' i = Some s' \<and> holds_value s s' v vid t"
    if "\<exists>r s' w'. f s w1 = (r, s', w') \<and> status_code r = 200 \<and> holds_value s s' v vid t" for f w1 vid t
  proof -
    from that obtain r s' w' where f: "f s w1 = (r, s', w')" "status_code r = 200" and s': "holds_value s s' v vid t" by blast
    from change_secret_found [OF assms(2), of f, OF f(1)] s' obtain st' where
      c: "change_secret ext i f st w1 = (r, st', w')" "find_secret st' i = Some s'" by (auto simp: holds_value_def)
    from sec_store_run [OF assms(1), of "change_secret ext i f", OF c(1)] c(2) f(2) s' show ?thesis by blast
  qed
  consider "ctx_operation ctx = ''PutSecretValue''" | "ctx_operation ctx = ''UpdateSecret''" using assms(3) by blast
  then show ?thesis
  proof cases
    case 1
    let ?vid = "fst (new_uuid w)" and ?now = "sw_now (snd (new_uuid w))"
    from run [of "put_version ext (new_secret_version ?vid (Some v) (fst ?now))" "snd ?now", OF put_version_holds] 1 assms(4,5) show ?thesis
      by (auto simp: sec_dispatch_def sec_handler_def put_secret_value_def Let_def case_prod_beta) blast
  next
    case 2
    obtain vid t where "\<exists>r s' w'. update_fields ext ctx s w = (r, s', w') \<and> status_code r = 200 \<and> holds_value s s' v vid t"
      using update_fields_holds [OF assms(5)] by blast
    from run [of "update_fields ext ctx" w, OF this] 2 assms(4) show ?thesis
      by (auto simp: sec_dispatch_def sec_handler_def update_secret_def) blast
  qed
qed

section \<open>Properties\<close>

text \<open>C16: Every sequence of Secrets Manager requests is answered. Afterwards every secret of every scope is filed under its
  name, is scheduled for deletion exactly when it has a deletion date, and has exactly one version with the label \<^verbatim>\<open>AWSCURRENT\<close>, the last one; a
  name or ARN finds a secret exactly when one has it; and a cached listing is the listing of the secrets there are.\<close>

theorem secrets_invariant_all_requests:
  assumes "\<And>n. length (sw_uuid w0 n) = 36"
  shows "\<exists>b w. sec_run ext ctxs bundle_new w0 = Some (b, w) \<and>
    (\<forall>acc reg st. bundle_get b acc reg = Some st \<longrightarrow>
      (\<forall>k s. hm_get (sec_secrets st) k = Some s \<longrightarrow> sc_name s = k \<and> (sc_deleted s \<longleftrightarrow> sc_deletion_date s \<noteq> None) \<and>
         (\<exists>vs v. sc_versions s = vs @ [v] \<and> is_current v \<and> (\<forall>v' \<in> set vs. \<not> is_current v'))) \<and>
      (\<forall>i. find_secret st i \<noteq> None \<longleftrightarrow> (\<exists>k s. hm_get (sec_secrets st) k = Some s \<and> (sc_name s = i \<or> sc_arn s = i))) \<and>
      (\<forall>c. sec_list_cache st = Some c \<longrightarrow> c = secret_listing ext st))"
proof -
  obtain b w where r: "sec_run ext ctxs bundle_new w0 = Some (b, w)" using sec_run_answers [OF assms] by blast
  have ok: "sec_store_ok ext st" if "bundle_get b acc reg = Some st" for acc reg st
    using sec_scopes.all_scopes_get [OF sec_run_keeps [OF r sec_scopes.all_scopes_new] that] .
  have "find_secret st i \<noteq> None \<longleftrightarrow> (\<exists>k s. hm_get (sec_secrets st) k = Some s \<and> (sc_name s = i \<or> sc_arn s = i))"
    if "sec_store_ok ext st" for st i
    using find_secret_some [OF that] find_secret_none [OF that] by (metis option.exhaust option.distinct(1))
  with r ok sec_store_okD(5) sec_store_okD(2) [OF ok, unfolded secret_ok_def] show ?thesis
    by (intro exI [of _ b] exI [of _ w] conjI allI impI) blast+
qed

text \<open>C17: A value stored with PutSecretValue or UpdateSecret under the name or ARN of a secret that is not scheduled for
  deletion is the value GetSecretValue answers under the same name or ARN, as the version with the label \<^verbatim>\<open>AWSCURRENT\<close>.\<close>

theorem secret_put_then_get:
  assumes "bundle_get b (ctx_account_id ctx) (ctx_region ctx) = Some st" "find_secret st i = Some s" "\<not> sc_deleted s"
    and "ctx_operation ctx \<in> {''PutSecretValue'', ''UpdateSecret''}" "str_param ctx ''SecretId'' = Some i" "str_param ctx ''SecretString'' = Some v"
    and "ctx_operation ctx' = ''GetSecretValue''" "str_param ctx' ''SecretId'' = Some i"
    and "ctx_account_id ctx' = ctx_account_id ctx" "ctx_region ctx' = ctx_region ctx"
  shows "\<exists>r b' w' vid t. sec_dispatch ext ctx b w = Some (Inr r, b', w') \<and> status_code r = 200 \<and>
    sec_dispatch ext ctx' b' w' = Some (Inr (sec_ok ext [(''ARN'', JString (sc_arn s)), (''Name'', JString (sc_name s)), (''VersionId'', JString vid),
      (''VersionStages'', JArray [JString ''AWSCURRENT'']), (''CreatedDate'', json_i64 t), (''SecretString'', JString v)]), b', w')"
proof -
  from stored_value [OF assms(1,2,4,5,6), of ext w] obtain r b' w' st' s' vid t where
    put: "sec_dispatch ext ctx b w = Some (Inr r, b', w')" "status_code r = 200"
    and s': "bundle_get b' (ctx_account_id ctx) (ctx_region ctx) = Some st'" "find_secret st' i = Some s'" "holds_value s s' v vid t" by blast
  have "sec_dispatch ext ctx' b' w' = Some (Inr (secret_value ext s' (new_secret_version vid (Some v) t)), b', w')"
    using s' assms(3,7-) by (simp add: sec_dispatch_def sec_handler_def get_secret_value_def reading_def holds_value_def)
  with put s'(3) show ?thesis by (auto simp: secret_value_def new_secret_version_def holds_value_def)
qed

section \<open>Examples\<close>

definition sec_request :: "string \<Rightarrow> (string \<times> Value) list \<Rightarrow> RequestContext" where
  "sec_request op body = (RequestContext_new ''secretsmanager'' op ''r'' ''1'')\<lparr>ctx_request_body := JObject body\<rparr>"

definition sec_demo_world :: svc_world where
  "sec_demo_world = \<lparr>sw_clock = (\<lambda>_. 0), sw_reads = 0, sw_uuid = (\<lambda>n. replicate 36 (CHR ''u'')), sw_drawn = 0\<rparr>"

definition sec_demo_ext :: externs where
  "sec_demo_ext = \<lparr>md5_digest = id, hex_encode = id, json_from_slice = (\<lambda>_. None), json_to_string = (\<lambda>_. []), header_to_str = Some\<rparr>"

definition demo_create_secret :: RequestContext where
  "demo_create_secret = sec_request ''CreateSecret'' [(''Name'', JString ''db''), (''SecretString'', JString ''one'')]"

definition demo_put_secret :: RequestContext where
  "demo_put_secret = sec_request ''PutSecretValue'' [(''SecretId'', JString ''db''), (''SecretString'', JString ''two'')]"

definition demo_secrets :: "RequestContext list \<Rightarrow> SecretsManagerStore" where
  "demo_secrets ctxs =
     (case Option.bind (sec_run sec_demo_ext ctxs bundle_new sec_demo_world) (\<lambda>(b, _). bundle_get b ''1'' ''r'') of
        Some st \<Rightarrow> st | None \<Rightarrow> SecretsManagerStore_new)"

theorem secrets_invariant_all_requests_witness:
  "\<exists>s vs v. hm_get (sec_secrets (demo_secrets [demo_create_secret, demo_put_secret])) ''db'' = Some s \<and> sc_versions s = vs @ [v] \<and> is_current v"
proof -
  let ?ctxs = "[demo_create_secret, demo_put_secret]"
  have "length (sw_uuid sec_demo_world n) = 36" for n by (simp add: sec_demo_world_def)
  note inv = secrets_invariant_all_requests [of sec_demo_world sec_demo_ext ?ctxs, OF this]
  have d: "(case sec_run sec_demo_ext ?ctxs bundle_new sec_demo_world of None \<Rightarrow> False | Some (b, _) \<Rightarrow> bundle_get b ''1'' ''r'' \<noteq> None)"
    "hm_get (sec_secrets (demo_secrets ?ctxs)) ''db'' \<noteq> None" by code_simp+
  from inv show ?thesis
    apply (elim exE conjE)
    subgoal premises p for b w
    proof -
      from d p(1) obtain st where st: "bundle_get b ''1'' ''r'' = Some st" "demo_secrets ?ctxs = st"
        by (auto simp del: sec_run.simps simp: demo_secrets_def)
      with d(2) obtain s where s: "hm_get (sec_secrets st) ''db'' = Some s" by auto
      from p(2) [rule_format, OF st(1), THEN conjunct1, rule_format, OF s] s st(2) show ?thesis by auto
    qed
    done
qed

theorem secret_put_then_get_witness:
  "\<exists>b w r b' w' vid t (s :: Secret). sec_run sec_demo_ext [demo_create_secret] bundle_new sec_demo_world = Some (b, w) \<and>
     sec_dispatch sec_demo_ext demo_put_secret b w = Some (Inr r, b', w') \<and> status_code r = 200 \<and>
     sec_dispatch sec_demo_ext (sec_request ''GetSecretValue'' [(''SecretId'', JString ''db'')]) b' w' =
       Some (Inr (sec_ok sec_demo_ext [(''ARN'', JString (sc_arn s)), (''Name'', JString (sc_name s)), (''VersionId'', JString vid),
         (''VersionStages'', JArray [JString ''AWSCURRENT'']), (''CreatedDate'', json_i64 t), (''SecretString'', JString ''two'')]), b', w')"
proof -
  have "(case sec_run sec_demo_ext [demo_create_secret] bundle_new sec_demo_world of None \<Rightarrow> False | Some (b, _) \<Rightarrow>
      (case bundle_get b ''1'' ''r'' of None \<Rightarrow> False | Some st \<Rightarrow> (case find_secret st ''db'' of None \<Rightarrow> False | Some s \<Rightarrow> \<not> sc_deleted s)))"
    by code_simp
  then obtain b w st s where r: "sec_run sec_demo_ext [demo_create_secret] bundle_new sec_demo_world = Some (b, w)"
    "bundle_get b ''1'' ''r'' = Some st" "find_secret st ''db'' = Some s" "\<not> sc_deleted s"
    by (auto split: option.splits)
  have d: "ctx_account_id demo_put_secret = ''1''" "ctx_region demo_put_secret = ''r''"
    "ctx_operation demo_put_secret \<in> {''PutSecretValue'', ''UpdateSecret''}"
    "str_param demo_put_secret ''SecretId'' = Some ''db''" "str_param demo_put_secret ''SecretString'' = Some ''two''"
    by (simp_all add: demo_put_secret_def sec_request_def RequestContext_new_def str_param_def)
  let ?g = "sec_request ''GetSecretValue'' [(''SecretId'', JString ''db'')]"
  have g: "ctx_operation ?g = ''GetSecretValue''" "str_param ?g ''SecretId'' = Some ''db''" "ctx_account_id ?g = ctx_account_id demo_put_secret"
    "ctx_region ?g = ctx_region demo_put_secret"
    by (simp_all add: d sec_request_def RequestContext_new_def str_param_def)
  have "bundle_get b (ctx_account_id demo_put_secret) (ctx_region demo_put_secret) = Some st" using r d by simp
  from secret_put_then_get [OF this r(3,4) d(3-5) g, of sec_demo_ext w] r(1) show ?thesis by (elim exE conjE) (intro exI conjI, assumption+)
qed

text \<open>Replacing a value twice leaves two versions with the label \<^verbatim>\<open>AWSPREVIOUS\<close>.\<close>

theorem secrets_two_previous:
  "map_option (map sv_version_stages \<circ> sc_versions)
     (hm_get (sec_secrets (demo_secrets [demo_create_secret, demo_put_secret, demo_put_secret])) ''db'') =
   Some [[''AWSPREVIOUS''], [''AWSPREVIOUS''], [''AWSCURRENT'']]"
  by code_simp

end
