(* ===== verification/Ssm_Service.thy ===== *)
theory Ssm_Service
  imports Service_World
begin

text \<open>
  The parameter store of Systems Manager: \<^verbatim>\<open>services/ssm/src/store.rs\<close> and \<^verbatim>\<open>provider.rs\<close>, what a client reads after it
  wrote a parameter, and which names a path finds.
\<close>

section \<open>Store\<close>

datatype ParameterType = Pt_String | Pt_StringList | Pt_SecureString

fun parameter_type_str :: "ParameterType \<Rightarrow> string" where
  "parameter_type_str Pt_String = ''String''"
| "parameter_type_str Pt_StringList = ''StringList''"
| "parameter_type_str Pt_SecureString = ''SecureString''"

definition parameter_type_from_str :: "string \<Rightarrow> ParameterType" where
  "parameter_type_from_str s = (if s = ''StringList'' then Pt_StringList else if s = ''SecureString'' then Pt_SecureString else Pt_String)"

record Parameter =
  pm_name :: string
  pm_type :: ParameterType
  pm_value :: string
  pm_description :: string
  pm_version :: "64 word"
  pm_last_modified :: int
  pm_arn :: string
  pm_overwrite :: bool

record SsmStore =
  ssm_parameters :: "(string, Parameter) hash_map"

definition SsmStore_new :: SsmStore where
  "SsmStore_new = \<lparr>ssm_parameters = []\<rparr>"

section \<open>Handlers\<close>

definition ssm_ok :: "externs \<Rightarrow> (string \<times> Value) list \<Rightarrow> DispatchResponse" where
  "ssm_ok ext kvs = json_reply ext ''application/x-amz-json-1.1'' 200 (json_object kvs)"

definition ssm_error :: "externs \<Rightarrow> string \<Rightarrow> string \<Rightarrow> nat \<Rightarrow> DispatchResponse" where
  "ssm_error ext = json_failure ext"

definition ssm_required :: "externs \<Rightarrow> string \<Rightarrow> DispatchResponse" where
  "ssm_required ext p = ssm_error ext ''ValidationException'' (p @ '' is required'') 400"

definition param_to_json :: "Parameter \<Rightarrow> Value" where
  "param_to_json p = json_object [(''Name'', JString (pm_name p)), (''Type'', JString (parameter_type_str (pm_type p))),
     (''Value'', JString (pm_value p)), (''Version'', json_i64 (sint (pm_version p))),
     (''LastModifiedDate'', json_i64 (timestamp_secs (pm_last_modified p))), (''ARN'', JString (pm_arn p)), (''DataType'', JString ''text'')]"

definition bool_param :: "RequestContext \<Rightarrow> string \<Rightarrow> bool" where
  "bool_param ctx k = (case Option.bind (value_get (ctx_request_body ctx) k) as_bool of Some b \<Rightarrow> b | None \<Rightarrow> False)"

definition names_param :: "RequestContext \<Rightarrow> string list" where
  "names_param ctx = (case Option.bind (value_get (ctx_request_body ctx) ''Names'') as_array of
     Some ns \<Rightarrow> List.map_filter as_str ns | None \<Rightarrow> [])"

type_synonym ssm_op = "(SsmStore, svc_world) bundle_op"

definition ssm_store :: "RequestContext \<Rightarrow> (SsmStore \<Rightarrow> svc_world \<Rightarrow> DispatchResponse \<times> SsmStore \<times> svc_world) \<Rightarrow> ssm_op" where
  "ssm_store ctx f = on_created SsmStore_new ctx (\<lambda>st w. Some (f st w))"

definition parameter_arn :: "RequestContext \<Rightarrow> string \<Rightarrow> string" where
  "parameter_arn ctx name = ''arn:aws:ssm:'' @ ctx_region ctx @ '':'' @ ctx_account_id ctx @ '':parameter'' @ name"

definition put_parameter_in ::
  "externs \<Rightarrow> RequestContext \<Rightarrow> string \<Rightarrow> string \<Rightarrow> SsmStore \<Rightarrow> svc_world \<Rightarrow> DispatchResponse \<times> SsmStore \<times> svc_world" where
  "put_parameter_in ext ctx name val st w =
     (let overwrite = bool_param ctx ''Overwrite'' in
      if contains_key (ssm_parameters st) name \<and> \<not> overwrite
      then (ssm_error ext ''ParameterAlreadyExists'' (''Parameter '' @ name @ '' already exists'') 400, st, w)
      else
        let version = (case hm_get (ssm_parameters st) name of Some p \<Rightarrow> pm_version p + 1 | None \<Rightarrow> 1);
            (now, w) = sw_now w;
            param = \<lparr>pm_name = name,
              pm_type = parameter_type_from_str (case str_param ctx ''Type'' of Some t \<Rightarrow> t | None \<Rightarrow> ''String''), pm_value = val,
              pm_description = unwrap_str (str_param ctx ''Description''), pm_version = version, pm_last_modified = now,
              pm_arn = parameter_arn ctx name, pm_overwrite = overwrite\<rparr>
        in (ssm_ok ext [(''Version'', json_i64 (sint version)), (''Tier'', JString ''Standard'')],
            st\<lparr>ssm_parameters := hm_insert name param (ssm_parameters st)\<rparr>, w))"

definition put_parameter :: "externs \<Rightarrow> RequestContext \<Rightarrow> ssm_op" where
  "put_parameter ext ctx =
     (case str_param ctx ''Name'' of
        None \<Rightarrow> answering (ssm_required ext ''Name'')
      | Some name \<Rightarrow>
     (case str_param ctx ''Value'' of
        None \<Rightarrow> answering (ssm_required ext ''Value'')
      | Some val \<Rightarrow> ssm_store ctx (put_parameter_in ext ctx name val)))"

definition get_parameter :: "externs \<Rightarrow> RequestContext \<Rightarrow> ssm_op" where
  "get_parameter ext ctx =
     (case str_param ctx ''Name'' of
        None \<Rightarrow> answering (ssm_required ext ''Name'')
      | Some name \<Rightarrow>
          (let missing = ssm_error ext ''ParameterNotFound'' (''Parameter '' @ name @ '' not found.'') 400
           in reading ctx missing (\<lambda>st.
                case hm_get (ssm_parameters st) name of None \<Rightarrow> missing | Some p \<Rightarrow> ssm_ok ext [(''Parameter'', param_to_json p)])))"

definition get_parameters :: "externs \<Rightarrow> RequestContext \<Rightarrow> ssm_op" where
  "get_parameters ext ctx =
     (let names = names_param ctx;
          answer = (\<lambda>ps invalid. ssm_ok ext [(''Parameters'', JArray ps), (''InvalidParameters'', JArray (map JString invalid))])
      in reading ctx (answer [] names) (\<lambda>st.
           answer (map param_to_json (List.map_filter (hm_get (ssm_parameters st)) names))
             (filter (\<lambda>n. hm_get (ssm_parameters st) n = None) names)))"

definition in_path :: "string \<Rightarrow> bool \<Rightarrow> string \<Rightarrow> bool" where
  "in_path path recursive name \<longleftrightarrow>
     starts_with name path \<and> (recursive \<or> \<not> str_contains (trim_start_matches (CHR ''/'') (drop (length path) name)) ''/'')"

definition get_parameters_by_path :: "externs \<Rightarrow> RequestContext \<Rightarrow> ssm_op" where
  "get_parameters_by_path ext ctx =
     (case str_param ctx ''Path'' of
        None \<Rightarrow> answering (ssm_required ext ''Path'')
      | Some path \<Rightarrow>
          reading ctx (ssm_ok ext [(''Parameters'', JArray [])]) (\<lambda>st.
            ssm_ok ext [(''Parameters'', JArray (map param_to_json
              (filter (\<lambda>p. in_path path (bool_param ctx ''Recursive'') (pm_name p)) (hm_values (ssm_parameters st)))))]))"

definition delete_parameter :: "externs \<Rightarrow> RequestContext \<Rightarrow> ssm_op" where
  "delete_parameter ext ctx =
     (case str_param ctx ''Name'' of
        None \<Rightarrow> answering (ssm_required ext ''Name'')
      | Some name \<Rightarrow>
          ssm_store ctx (\<lambda>st w.
            if hm_get (ssm_parameters st) name = None
            then (ssm_error ext ''ParameterNotFound'' (''Parameter '' @ name @ '' not found'') 400, st, w)
            else (ssm_ok ext [], st\<lparr>ssm_parameters := hm_remove name (ssm_parameters st)\<rparr>, w)))"

fun delete_names :: "string list \<Rightarrow> (string, Parameter) hash_map \<Rightarrow> string list \<times> string list \<times> (string, Parameter) hash_map" where
  "delete_names [] m = ([], [], m)"
| "delete_names (n # ns) m =
     (case hm_get m n of
        Some _ \<Rightarrow> (let (deleted, invalid, m') = delete_names ns (hm_remove n m) in (n # deleted, invalid, m'))
      | None \<Rightarrow> (let (deleted, invalid, m') = delete_names ns m in (deleted, n # invalid, m')))"

definition delete_parameters :: "externs \<Rightarrow> RequestContext \<Rightarrow> ssm_op" where
  "delete_parameters ext ctx =
     ssm_store ctx (\<lambda>st w.
       let (deleted, invalid, m) = delete_names (names_param ctx) (ssm_parameters st)
       in (ssm_ok ext [(''DeletedParameters'', JArray (map JString deleted)), (''InvalidParameters'', JArray (map JString invalid))],
           st\<lparr>ssm_parameters := m\<rparr>, w))"

definition describe_parameters :: "externs \<Rightarrow> RequestContext \<Rightarrow> ssm_op" where
  "describe_parameters ext ctx =
     reading ctx (ssm_ok ext [(''Parameters'', JArray [])]) (\<lambda>st.
       ssm_ok ext [(''Parameters'', JArray (map (\<lambda>p. json_object [(''Name'', JString (pm_name p)),
         (''Type'', JString (parameter_type_str (pm_type p))), (''Description'', JString (pm_description p)),
         (''Version'', json_i64 (sint (pm_version p))), (''LastModifiedDate'', json_i64 (timestamp_secs (pm_last_modified p))),
         (''ARN'', JString (pm_arn p))]) (hm_values (ssm_parameters st))))])"

section \<open>Dispatch\<close>

definition ssm_handler :: "externs \<Rightarrow> RequestContext \<Rightarrow> ssm_op" where
  "ssm_handler ext ctx =
     (let op = ctx_operation ctx in
      if op = ''PutParameter'' then put_parameter ext ctx
      else if op = ''GetParameter'' then get_parameter ext ctx
      else if op = ''GetParameters'' then get_parameters ext ctx
      else if op = ''GetParametersByPath'' then get_parameters_by_path ext ctx
      else if op = ''DeleteParameter'' then delete_parameter ext ctx
      else if op = ''DeleteParameters'' then delete_parameters ext ctx
      else if op = ''DescribeParameters'' then describe_parameters ext ctx
      else answering (ssm_error ext ''NotImplementedException'' (''Operation not implemented: '' @ op) 501))"

definition ssm_dispatch :: "externs \<Rightarrow> RequestContext \<Rightarrow> SsmStore AccountRegionBundle \<Rightarrow> svc_world \<Rightarrow>
    ((DispatchError + DispatchResponse) \<times> SsmStore AccountRegionBundle \<times> svc_world) option" where
  "ssm_dispatch ext ctx b w = map_option (\<lambda>(r, b, w). (Inr r, b, w)) (ssm_handler ext ctx b w)"

definition ssm_storage_snapshot :: "SsmStore AccountRegionBundle \<Rightarrow> Value" where
  "ssm_storage_snapshot b =
     (let attr = (\<lambda>k v. json_object [(''key'', JString k), (''value'', JString v)]);
          ps = concat (map (\<lambda>(_, st). map (\<lambda>p.
            json_object [(''id'', JString (pm_arn p)), (''kind'', JString ''parameter''),
              (''attributes'', JArray [attr ''name'' (pm_name p), attr ''type'' (parameter_type_str (pm_type p)),
                 attr ''version'' (int_to_string (sint (pm_version p)))])]) (hm_values (ssm_parameters st))) (bundle_iter b))
      in json_object [(''kind'', JString ''ssm''), (''parameters'', JArray ps)])"

section \<open>Properties\<close>

lemma delete_names_spec:
  "delete_names ns m = (deleted, invalid, m') \<Longrightarrow>
     map_of m' = (map_of m) |` (- set ns) \<and> set deleted = set ns \<inter> dom (map_of m) \<and> distinct deleted \<and>
     length deleted + length invalid = length ns"
proof (induction ns arbitrary: m deleted invalid)
  case (Cons n ns)
  show ?case
  proof (cases "hm_get m n")
    case None
    then obtain i where "delete_names ns m = (deleted, i, m')" "invalid = n # i" using Cons.prems by (auto split: prod.splits)
    with Cons.IH [of m deleted i] None show ?thesis by (auto simp: restrict_map_def fun_eq_iff)
  next
    case (Some p)
    then obtain d where "delete_names ns (hm_remove n m) = (d, invalid, m')" "deleted = n # d" using Cons.prems by (auto split: prod.splits)
    with Cons.IH [of "hm_remove n m" d invalid] Some show ?thesis by (auto simp: restrict_map_def fun_eq_iff delete_conv' dom_def split: if_splits)
  qed
qed auto

text \<open>A parameter that is new or may be overwritten reads back with the value, type and ARN it was put with and a version one
  above the one it replaces (wrapping at 64 bits), or 1; a put without \<^verbatim>\<open>Overwrite\<close> to an existing name is refused and changes nothing.\<close>

theorem ssm_put_then_get:
  assumes "bundle_get b (ctx_account_id ctx) (ctx_region ctx) = Some st" "ctx_operation ctx = ''PutParameter''"
    and "str_param ctx ''Name'' = Some name" "str_param ctx ''Value'' = Some v" "str_param ctx ''Type'' = Some ty"
    and "ctx_operation ctx' = ''GetParameter''" "str_param ctx' ''Name'' = Some name"
    and "ctx_account_id ctx' = ctx_account_id ctx" "ctx_region ctx' = ctx_region ctx"
    and "version = (case hm_get (ssm_parameters st) name of Some p \<Rightarrow> pm_version p + 1 | None \<Rightarrow> 1)"
  shows "\<exists>r b' w'. ssm_dispatch ext ctx b w = Some (Inr r, b', w') \<and>
    (if hm_get (ssm_parameters st) name \<noteq> None \<and> \<not> bool_param ctx ''Overwrite''
     then status_code r = 400 \<and> bundle_get b' (ctx_account_id ctx) (ctx_region ctx) = Some st
     else \<exists>t. r = ssm_ok ext [(''Version'', json_i64 (sint version)), (''Tier'', JString ''Standard'')] \<and>
       ssm_dispatch ext ctx' b' w' = Some (Inr (ssm_ok ext [(''Parameter'', json_object [(''Name'', JString name),
         (''Type'', JString (parameter_type_str (parameter_type_from_str ty))), (''Value'', JString v), (''Version'', json_i64 (sint version)),
         (''LastModifiedDate'', json_i64 t), (''ARN'', JString (parameter_arn ctx name)), (''DataType'', JString ''text'')])]), b', w'))"
  using assms
  by (auto simp: ssm_dispatch_def ssm_handler_def put_parameter_def put_parameter_in_def get_parameter_def ssm_store_def on_created_def
      reading_def get_or_create_def bundle_get_eq write_back_def update_conv' contains_key_def param_to_json_def svc_world_defs Let_def
      ssm_error_def json_failure_def json_reply_def case_prod_beta split: option.splits)

definition ssm_request :: "string \<Rightarrow> (string \<times> Value) list \<Rightarrow> RequestContext" where
  "ssm_request op body = (RequestContext_new ''ssm'' op ''r'' ''1'')\<lparr>ctx_request_body := JObject body\<rparr>"

definition ssm_demo_ext :: externs where
  "ssm_demo_ext = \<lparr>md5_digest = id, hex_encode = id, json_from_slice = (\<lambda>_. None), json_to_string = (\<lambda>_. []), header_to_str = Some\<rparr>"

definition ssm_demo_world :: svc_world where
  "ssm_demo_world = \<lparr>sw_clock = (\<lambda>_. 0), sw_reads = 0, sw_uuid = (\<lambda>_. []), sw_drawn = 0\<rparr>"

theorem ssm_put_then_get_witness:
  "\<exists>r b w. ssm_dispatch ssm_demo_ext (ssm_request ''PutParameter'' [(''Name'', JString ''/a''), (''Value'', JString ''v''), (''Type'', JString ''String'')])
       (write_back bundle_new ''1'' ''r'' SsmStore_new) ssm_demo_world = Some (Inr r, b, w) \<and>
     r = ssm_ok ssm_demo_ext [(''Version'', json_i64 1), (''Tier'', JString ''Standard'')]"
proof -
  let ?p = "ssm_request ''PutParameter'' [(''Name'', JString ''/a''), (''Value'', JString ''v''), (''Type'', JString ''String'')]"
    and ?g = "ssm_request ''GetParameter'' [(''Name'', JString ''/a'')]" and ?b = "write_back bundle_new ''1'' ''r'' SsmStore_new"
  have "bundle_get ?b (ctx_account_id ?p) (ctx_region ?p) = Some SsmStore_new"
    by (simp add: bundle_get_eq write_back_def bundle_new_def ssm_request_def RequestContext_new_def)
  from ssm_put_then_get [OF this, of "''/a''" "''v''" "''String''" ?g "1" ssm_demo_ext ssm_demo_world] show ?thesis
    by (auto simp: ssm_request_def RequestContext_new_def str_param_def SsmStore_new_def)
qed

text \<open>A path also finds the names that only begin with the same characters.\<close>

lemma in_path_siblings: "in_path ''/app'' False ''/apple''"
  by code_simp

end
