(* ===== verification/Events_Service.thy ===== *)
theory Events_Service
  imports Service_World
begin

text \<open>
  EventBridge: \<^verbatim>\<open>services/eventbridge/src/store.rs\<close> and \<^verbatim>\<open>provider.rs\<close>. Event patterns, buses, rules and targets of a scope,
  and \<^verbatim>\<open>PutEvents\<close>, which starts one task per target of each rule an event matches. A started task is kept in the world
  until it runs: the runtime orders the tasks as it likes.
\<close>

section \<open>Store\<close>

record EventBus =
  eb_name :: string
  eb_arn :: string

record RuleTarget =
  rt_id :: string
  rt_arn :: string
  rt_input :: "string option"
  rt_input_path :: "string option"

record EventRule =
  er_name :: string
  er_event_bus_name :: string
  er_event_pattern :: "Value option"
  er_schedule_expression :: "string option"
  er_state :: string
  er_description :: string
  er_targets :: "(string, RuleTarget) hash_map"
  er_arn :: string
  er_created :: int

record EventBridgeStore =
  eb_buses :: "(string, EventBus) hash_map"
  eb_rules :: "(string, EventRule) hash_map"

definition EventBridgeStore_default :: EventBridgeStore where
  "EventBridgeStore_default = \<lparr>eb_buses = [], eb_rules = []\<rparr>"

record event_libs =
  el_ext :: externs
  el_rfc3339 :: "int \<Rightarrow> string"

record event_task =
  et_target_arn :: string
  et_account_id :: string
  et_region :: string
  et_input :: Value

record event_world = svc_world +
  ew_spawned :: "event_task list"

section \<open>Event patterns\<close>

text \<open>One alternative of an array in a pattern: a condition on the value, or a value to be equal to.\<close>

definition alternative_matches :: "Value \<Rightarrow> Value \<Rightarrow> bool" where
  "alternative_matches ev_val alt =
     (case alt of
        JObject condition \<Rightarrow>
          (case Option.bind (map_of condition ''prefix'') as_str of
             Some prefix \<Rightarrow> (case as_str ev_val of Some s \<Rightarrow> starts_with s prefix | None \<Rightarrow> False)
           | None \<Rightarrow>
          (case Option.bind (map_of condition ''exists'') as_bool of
             Some exists \<Rightarrow> (if exists then ev_val \<noteq> JNull else ev_val = JNull)
           | None \<Rightarrow> False))
      | _ \<Rightarrow> (case ev_val of JArray ev_arr \<Rightarrow> list_ex (\<lambda>elem. elem = alt) ev_arr | _ \<Rightarrow> ev_val = alt))"

definition member_or_null :: "(string \<times> Value) list \<Rightarrow> string \<Rightarrow> Value" where
  "member_or_null m k = (case map_of m k of Some v \<Rightarrow> v | None \<Rightarrow> JNull)"

function matches_value :: "Value \<Rightarrow> Value \<Rightarrow> bool"
  and matches_members :: "(string \<times> Value) list \<Rightarrow> (string \<times> Value) list \<Rightarrow> bool" where
  "matches_value event pattern =
     (case (event, pattern) of
        (JObject ev_map, JObject pat_map) \<Rightarrow> matches_members ev_map pat_map
      | (ev_val, JArray alternatives) \<Rightarrow> list_ex (alternative_matches ev_val) alternatives
      | _ \<Rightarrow> event = pattern)"
| "matches_members ev_map [] = True"
| "matches_members ev_map ((key, pat_val) # rest) =
     (matches_value (member_or_null ev_map key) pat_val \<and> matches_members ev_map rest)"
  by pat_completeness auto
termination
  by (relation "measure (\<lambda>x. case x of Inl (e, p) \<Rightarrow> size p | Inr (m, ps) \<Rightarrow> size_list (size_prod (\<lambda>_. 0) size) ps)") auto

declare matches_value.simps [simp del]

definition event_matches_pattern :: "Value \<Rightarrow> Value option \<Rightarrow> bool" where
  "event_matches_pattern event pattern = (case pattern of None \<Rightarrow> False | Some pat \<Rightarrow> matches_value event pat)"

section \<open>Targets\<close>

text \<open>The request a task hands to the dispatcher, whose failure is only logged.\<close>

definition dispatch_to_target :: "event_libs \<Rightarrow> event_task \<Rightarrow> RequestContext option" where
  "dispatch_to_target libs t =
     (let parts = split_char (CHR '':'') (et_target_arn t); account_id = et_account_id t; region = et_region t;
          text = json_to_string (el_ext libs) (et_input t)
      in if length parts < 6 then None
         else
           let service = parts ! 2; resource = last parts in
           if service = ''sqs'' then
             Some ((RequestContext_new ''sqs'' ''SendMessage'' region account_id)
               \<lparr>ctx_method := ''POST'', ctx_path := ''/'' @ account_id @ ''/'' @ resource,
                ctx_raw_body := Some (''Action=SendMessage&QueueUrl=http%3A%2F%2Flocalhost%3A4566%2F'' @ account_id @ ''%2F'' @ resource @
                  ''&MessageBody='' @ url_encode text)\<rparr>)
           else if service = ''sns'' then
             Some ((RequestContext_new ''sns'' ''Publish'' region account_id)
               \<lparr>ctx_method := ''POST'', ctx_path := ''/'',
                ctx_raw_body := Some (''Action=Publish&TopicArn='' @ url_encode (et_target_arn t) @ ''&Message='' @ url_encode text)\<rparr>)
           else if service = ''lambda'' then
             Some ((RequestContext_new ''lambda'' ''Invoke'' region account_id)
               \<lparr>ctx_method := ''POST'', ctx_path := ''/2015-03-31/functions/'' @ resource @ ''/invocations'',
                ctx_raw_body := Some text\<rparr>)
           else None)"

section \<open>Handlers\<close>

definition event_ok :: "event_libs \<Rightarrow> (string \<times> Value) list \<Rightarrow> DispatchResponse" where
  "event_ok libs kvs = json_reply (el_ext libs) ''application/x-amz-json-1.1'' 200 (json_object kvs)"

definition event_error :: "event_libs \<Rightarrow> string \<Rightarrow> string \<Rightarrow> nat \<Rightarrow> DispatchResponse" where
  "event_error libs code message status =
     json_reply (el_ext libs) ''application/x-amz-json-1.1'' status (json_object [(''__type'', JString code), (''message'', JString message)])"

definition event_required :: "event_libs \<Rightarrow> string \<Rightarrow> DispatchResponse" where
  "event_required libs p = event_error libs ''ValidationError'' (p @ '' is required'') 400"

definition rule_not_found :: "event_libs \<Rightarrow> string \<Rightarrow> DispatchResponse" where
  "rule_not_found libs name = event_error libs ''ResourceNotFoundException'' (''Rule '' @ name @ '' not found'') 404"

type_synonym event_op = "(EventBridgeStore, event_world) bundle_op"

definition event_store ::
  "RequestContext \<Rightarrow> (EventBridgeStore \<Rightarrow> event_world \<Rightarrow> DispatchResponse \<times> EventBridgeStore \<times> event_world) \<Rightarrow> event_op" where
  "event_store ctx f = on_created EventBridgeStore_default ctx (\<lambda>st w. Some (f st w))"

definition bus_arn :: "RequestContext \<Rightarrow> string \<Rightarrow> string" where
  "bus_arn ctx name = ''arn:aws:events:'' @ ctx_region ctx @ '':'' @ ctx_account_id ctx @ '':event-bus/'' @ name"

definition create_event_bus :: "event_libs \<Rightarrow> RequestContext \<Rightarrow> event_op" where
  "create_event_bus libs ctx =
     (case str_param ctx ''Name'' of
        None \<Rightarrow> answering (event_required libs ''Name'')
      | Some name \<Rightarrow>
          event_store ctx (\<lambda>st w.
            (event_ok libs [(''EventBusArn'', JString (bus_arn ctx name))],
             st\<lparr>eb_buses := hm_insert name \<lparr>eb_name = name, eb_arn = bus_arn ctx name\<rparr> (eb_buses st)\<rparr>, w)))"

definition delete_event_bus :: "event_libs \<Rightarrow> RequestContext \<Rightarrow> event_op" where
  "delete_event_bus libs ctx =
     (case str_param ctx ''Name'' of
        None \<Rightarrow> answering (event_required libs ''Name'')
      | Some name \<Rightarrow>
          (if name = ''default'' then answering (event_error libs ''ValidationError'' ''Cannot delete default event bus'' 400)
           else event_store ctx (\<lambda>st w. (event_ok libs [], st\<lparr>eb_buses := hm_remove name (eb_buses st)\<rparr>, w))))"

definition bus_json :: "string \<Rightarrow> string \<Rightarrow> (string \<times> Value) list" where
  "bus_json name arn = [(''Name'', JString name), (''Arn'', JString arn)]"

definition list_event_buses :: "event_libs \<Rightarrow> RequestContext \<Rightarrow> event_op" where
  "list_event_buses libs ctx =
     (let default_bus = json_object (bus_json ''default'' (bus_arn ctx ''default''));
          answer = (\<lambda>buses. event_ok libs [(''EventBuses'', JArray buses)])
      in reading ctx (answer [default_bus]) (\<lambda>st.
           answer (map (\<lambda>b. json_object (bus_json (eb_name b) (eb_arn b))) (hm_values (eb_buses st)) @
             (if contains_key (eb_buses st) ''default'' then [] else [default_bus]))))"

definition describe_event_bus :: "event_libs \<Rightarrow> RequestContext \<Rightarrow> event_op" where
  "describe_event_bus libs ctx =
     (let name = (case str_param ctx ''Name'' of Some n \<Rightarrow> n | None \<Rightarrow> ''default'') in
      if name = ''default'' then answering (event_ok libs (bus_json ''default'' (bus_arn ctx ''default'')))
      else
        let missing = event_error libs ''ResourceNotFoundException'' (''Event bus '' @ name @ '' does not exist.'') 404
        in reading ctx missing (\<lambda>st.
             case hm_get (eb_buses st) name of Some bus \<Rightarrow> event_ok libs (bus_json (eb_name bus) (eb_arn bus)) | None \<Rightarrow> missing))"

definition rule_arn :: "RequestContext \<Rightarrow> string \<Rightarrow> string" where
  "rule_arn ctx name = ''arn:aws:events:'' @ ctx_region ctx @ '':'' @ ctx_account_id ctx @ '':rule/'' @ name"

text \<open>The clock is read only for a rule that is new.\<close>

definition put_rule_in ::
  "event_libs \<Rightarrow> RequestContext \<Rightarrow> string \<Rightarrow> EventBridgeStore \<Rightarrow> event_world \<Rightarrow> DispatchResponse \<times> EventBridgeStore \<times> event_world" where
  "put_rule_in libs ctx name st w =
     (let bus = (case str_param ctx ''EventBusName'' of Some n \<Rightarrow> n | None \<Rightarrow> ''default'');
          (rule, w) = (case hm_get (eb_rules st) name of
              Some r \<Rightarrow> (r, w)
            | None \<Rightarrow>
                (let (now, w) = sw_now w
                 in (\<lparr>er_name = name, er_event_bus_name = bus, er_event_pattern = None, er_schedule_expression = None,
                     er_state = ''ENABLED'', er_description = [], er_targets = [], er_arn = rule_arn ctx name, er_created = now\<rparr>, w)));
          rule = rule\<lparr>er_event_pattern := Option.bind (str_param ctx ''EventPattern'') (json_from_slice (el_ext libs)),
            er_schedule_expression := str_param ctx ''ScheduleExpression'',
            er_state := (case str_param ctx ''State'' of Some s \<Rightarrow> s | None \<Rightarrow> ''ENABLED''),
            er_description := unwrap_str (str_param ctx ''Description''), er_event_bus_name := bus\<rparr>
      in (event_ok libs [(''RuleArn'', JString (rule_arn ctx name))], st\<lparr>eb_rules := hm_insert name rule (eb_rules st)\<rparr>, w))"

definition put_rule :: "event_libs \<Rightarrow> RequestContext \<Rightarrow> event_op" where
  "put_rule libs ctx =
     (case str_param ctx ''Name'' of
        None \<Rightarrow> answering (event_required libs ''Name'')
      | Some name \<Rightarrow> event_store ctx (put_rule_in libs ctx name))"

definition delete_rule :: "event_libs \<Rightarrow> RequestContext \<Rightarrow> event_op" where
  "delete_rule libs ctx =
     (case str_param ctx ''Name'' of
        None \<Rightarrow> answering (event_required libs ''Name'')
      | Some name \<Rightarrow> event_store ctx (\<lambda>st w. (event_ok libs [], st\<lparr>eb_rules := hm_remove name (eb_rules st)\<rparr>, w)))"

definition rule_json :: "event_libs \<Rightarrow> EventRule \<Rightarrow> (string \<times> Value) list" where
  "rule_json libs r =
     [(''Name'', JString (er_name r)), (''Arn'', JString (er_arn r)), (''State'', JString (er_state r)),
      (''Description'', JString (er_description r)), (''EventBusName'', JString (er_event_bus_name r))] @
     (case er_event_pattern r of Some ep \<Rightarrow> [(''EventPattern'', JString (json_to_string (el_ext libs) ep))] | None \<Rightarrow> []) @
     (case er_schedule_expression r of Some se \<Rightarrow> [(''ScheduleExpression'', JString se)] | None \<Rightarrow> [])"

definition list_rules :: "event_libs \<Rightarrow> RequestContext \<Rightarrow> event_op" where
  "list_rules libs ctx =
     (let bus = (case str_param ctx ''EventBusName'' of Some n \<Rightarrow> n | None \<Rightarrow> ''default'')
      in reading ctx (event_ok libs [(''Rules'', JArray [])]) (\<lambda>st.
           event_ok libs [(''Rules'', JArray (map (\<lambda>r. json_object (rule_json libs r))
             (filter (\<lambda>r. er_event_bus_name r = bus) (hm_values (eb_rules st)))))]))"

definition field_text :: "Value \<Rightarrow> string \<Rightarrow> string" where
  "field_text v k = unwrap_str (Option.bind (value_get v k) as_str)"

definition target_of_json :: "Value \<Rightarrow> RuleTarget" where
  "target_of_json v = \<lparr>rt_id = field_text v ''Id'', rt_arn = field_text v ''Arn'',
     rt_input = Option.bind (value_get v ''Input'') as_str, rt_input_path = Option.bind (value_get v ''InputPath'') as_str\<rparr>"

definition no_failures :: "event_libs \<Rightarrow> DispatchResponse" where
  "no_failures libs = event_ok libs [(''FailedEntryCount'', json_i64 0), (''FailedEntries'', JArray [])]"

definition put_targets :: "event_libs \<Rightarrow> RequestContext \<Rightarrow> event_op" where
  "put_targets libs ctx =
     (case str_param ctx ''Rule'' of
        None \<Rightarrow> answering (event_required libs ''Rule'')
      | Some rule \<Rightarrow>
          (let targets = (case Option.bind (value_get (ctx_request_body ctx) ''Targets'') as_array of Some ts \<Rightarrow> ts | None \<Rightarrow> [])
           in event_store ctx (\<lambda>st w.
                case hm_get (eb_rules st) rule of
                  None \<Rightarrow> (rule_not_found libs rule, st, w)
                | Some r \<Rightarrow>
                    (no_failures libs,
                     st\<lparr>eb_rules := hm_insert rule
                       (r\<lparr>er_targets := fold (\<lambda>t. hm_insert (rt_id t) t) (map target_of_json targets) (er_targets r)\<rparr>) (eb_rules st)\<rparr>, w))))"

definition remove_targets :: "event_libs \<Rightarrow> RequestContext \<Rightarrow> event_op" where
  "remove_targets libs ctx =
     (case str_param ctx ''Rule'' of
        None \<Rightarrow> answering (event_required libs ''Rule'')
      | Some rule \<Rightarrow>
          (let ids = (case Option.bind (value_get (ctx_request_body ctx) ''Ids'') as_array of Some a \<Rightarrow> List.map_filter as_str a | None \<Rightarrow> [])
           in event_store ctx (\<lambda>st w.
                (no_failures libs,
                 (case hm_get (eb_rules st) rule of
                    None \<Rightarrow> st
                  | Some r \<Rightarrow> st\<lparr>eb_rules := hm_insert rule (r\<lparr>er_targets := fold hm_remove ids (er_targets r)\<rparr>) (eb_rules st)\<rparr>), w))))"

definition list_targets_by_rule :: "event_libs \<Rightarrow> RequestContext \<Rightarrow> event_op" where
  "list_targets_by_rule libs ctx =
     (case str_param ctx ''Rule'' of
        None \<Rightarrow> answering (event_required libs ''Rule'')
      | Some rule \<Rightarrow>
          reading ctx (event_ok libs [(''Targets'', JArray [])]) (\<lambda>st.
            event_ok libs [(''Targets'', JArray (case hm_get (eb_rules st) rule of
                Some r \<Rightarrow> map (\<lambda>t. json_object [(''Id'', JString (rt_id t)), (''Arn'', JString (rt_arn t))]) (hm_values (er_targets r))
              | None \<Rightarrow> []))]))"

definition describe_rule :: "event_libs \<Rightarrow> RequestContext \<Rightarrow> event_op" where
  "describe_rule libs ctx =
     (case str_param ctx ''Name'' of
        None \<Rightarrow> answering (event_required libs ''Name'')
      | Some name \<Rightarrow>
          reading ctx (rule_not_found libs name) (\<lambda>st.
            case hm_get (eb_rules st) name of Some r \<Rightarrow> event_ok libs (rule_json libs r) | None \<Rightarrow> rule_not_found libs name))"

definition set_rule_state :: "event_libs \<Rightarrow> RequestContext \<Rightarrow> string \<Rightarrow> event_op" where
  "set_rule_state libs ctx state =
     (let name = unwrap_str (str_param ctx ''Name'')
      in event_store ctx (\<lambda>st w.
           (event_ok libs [],
            (case hm_get (eb_rules st) name of
               Some r \<Rightarrow> st\<lparr>eb_rules := hm_insert name (r\<lparr>er_state := state\<rparr>) (eb_rules st)\<rparr>
             | None \<Rightarrow> st), w)))"

section \<open>PutEvents\<close>

definition event_bus_of :: "Value \<Rightarrow> string" where
  "event_bus_of entry = (case Option.bind (value_get entry ''EventBusName'') as_str of Some n \<Rightarrow> n | None \<Rightarrow> ''default'')"

definition event_envelope :: "event_libs \<Rightarrow> RequestContext \<Rightarrow> string \<Rightarrow> int \<Rightarrow> Value \<Rightarrow> Value" where
  "event_envelope libs ctx event_id now entry =
     (let detail = (case Option.bind (Option.bind (value_get entry ''Detail'') as_str) (json_from_slice (el_ext libs)) of
            Some d \<Rightarrow> d | None \<Rightarrow> JObject [])
      in json_object [(''id'', JString event_id), (''version'', JString ''0''), (''account'', JString (ctx_account_id ctx)),
           (''region'', JString (ctx_region ctx)), (''source'', JString (field_text entry ''Source'')),
           (''detail-type'', JString (field_text entry ''DetailType'')), (''detail'', detail), (''time'', JString (el_rfc3339 libs now))])"

definition target_input :: "event_libs \<Rightarrow> Value \<Rightarrow> RuleTarget \<Rightarrow> Value" where
  "target_input libs envelope t =
     (case rt_input t of
        Some literal \<Rightarrow> (case json_from_slice (el_ext libs) literal of Some v \<Rightarrow> v | None \<Rightarrow> JString literal)
      | None \<Rightarrow> envelope)"

fun rule_targets :: "event_libs \<Rightarrow> string \<Rightarrow> Value \<Rightarrow> EventRule list \<Rightarrow> (string \<times> string \<times> Value) list" where
  "rule_targets libs bus_name envelope [] = []"
| "rule_targets libs bus_name envelope (rule # rules) =
     (if er_state rule \<noteq> ''ENABLED'' then rule_targets libs bus_name envelope rules
      else if er_event_bus_name rule \<noteq> bus_name then rule_targets libs bus_name envelope rules
      else if \<not> event_matches_pattern envelope (er_event_pattern rule) then rule_targets libs bus_name envelope rules
      else map (\<lambda>t. (rt_arn t, rt_id t, target_input libs envelope t)) (hm_values (er_targets rule)) @
           rule_targets libs bus_name envelope rules)"

fun put_entries :: "event_libs \<Rightarrow> RequestContext \<Rightarrow> EventRule list \<Rightarrow> Value list \<Rightarrow> event_world \<Rightarrow>
    string list \<times> (string \<times> string \<times> Value) list \<times> event_world" where
  "put_entries libs ctx rules [] w = ([], [], w)"
| "put_entries libs ctx rules (entry # entries) w =
     (let (event_id, w) = new_uuid w; (now, w) = sw_now w;
          targets = rule_targets libs (event_bus_of entry) (event_envelope libs ctx event_id now entry) rules;
          (ids, more, w) = put_entries libs ctx rules entries w
      in (event_id # ids, targets @ more, w))"

fun fresh_ids :: "Value list \<Rightarrow> event_world \<Rightarrow> string list \<times> event_world" where
  "fresh_ids [] w = ([], w)"
| "fresh_ids (_ # es) w = (let (i, w) = new_uuid w; (is, w) = fresh_ids es w in (i # is, w))"

definition events_accepted :: "event_libs \<Rightarrow> string list \<Rightarrow> DispatchResponse" where
  "events_accepted libs ids = event_ok libs [(''FailedEntryCount'', json_i64 0),
     (''Entries'', JArray (map (\<lambda>i. json_object [(''EventId'', JString i)]) ids))]"

definition spawn_targets :: "RequestContext \<Rightarrow> bool \<Rightarrow> (string \<times> string \<times> Value) list \<Rightarrow> event_world \<Rightarrow> event_world" where
  "spawn_targets ctx has_dispatcher targets w =
     (if has_dispatcher
      then w\<lparr>ew_spawned := ew_spawned w @ map (\<lambda>(arn, _, input).
             \<lparr>et_target_arn = arn, et_account_id = ctx_account_id ctx, et_region = ctx_region ctx, et_input = input\<rparr>) targets\<rparr>
      else w)"

definition put_events :: "event_libs \<Rightarrow> bool \<Rightarrow> RequestContext \<Rightarrow> event_op" where
  "put_events libs has_dispatcher ctx b w =
     (case Option.bind (value_get (ctx_request_body ctx) ''Entries'') as_array of
        None \<Rightarrow> Some (event_required libs ''Entries'', b, w)
      | Some entries \<Rightarrow>
     (case bundle_get b (ctx_account_id ctx) (ctx_region ctx) of
        None \<Rightarrow> (let (ids, w) = fresh_ids entries w in Some (events_accepted libs ids, b, w))
      | Some st \<Rightarrow>
          (let (ids, targets, w) = put_entries libs ctx (hm_values (eb_rules st)) entries w
           in Some (events_accepted libs ids, b, spawn_targets ctx has_dispatcher targets w))))"

section \<open>Dispatch\<close>

definition event_handler :: "event_libs \<Rightarrow> bool \<Rightarrow> RequestContext \<Rightarrow> event_op option" where
  "event_handler libs has_dispatcher ctx =
     (let op = ctx_operation ctx in
      if op = ''CreateEventBus'' then Some (create_event_bus libs ctx)
      else if op = ''DeleteEventBus'' then Some (delete_event_bus libs ctx)
      else if op = ''ListEventBuses'' then Some (list_event_buses libs ctx)
      else if op = ''DescribeEventBus'' then Some (describe_event_bus libs ctx)
      else if op = ''PutRule'' then Some (put_rule libs ctx)
      else if op = ''DeleteRule'' then Some (delete_rule libs ctx)
      else if op = ''ListRules'' then Some (list_rules libs ctx)
      else if op = ''PutTargets'' then Some (put_targets libs ctx)
      else if op = ''RemoveTargets'' then Some (remove_targets libs ctx)
      else if op = ''ListTargetsByRule'' then Some (list_targets_by_rule libs ctx)
      else if op = ''PutEvents'' then Some (put_events libs has_dispatcher ctx)
      else if op = ''DescribeRule'' then Some (describe_rule libs ctx)
      else if op = ''EnableRule'' then Some (set_rule_state libs ctx ''ENABLED'')
      else if op = ''DisableRule'' then Some (set_rule_state libs ctx ''DISABLED'')
      else None)"

definition event_dispatch :: "event_libs \<Rightarrow> bool \<Rightarrow> RequestContext \<Rightarrow> EventBridgeStore AccountRegionBundle \<Rightarrow> event_world \<Rightarrow>
    ((DispatchError + DispatchResponse) \<times> EventBridgeStore AccountRegionBundle \<times> event_world) option" where
  "event_dispatch libs has_dispatcher ctx b w =
     (case event_handler libs has_dispatcher ctx of
        None \<Rightarrow> Some (Inl (NotImplemented (ctx_operation ctx)), b, w)
      | Some f \<Rightarrow> map_option (\<lambda>(r, b, w). (Inr r, b, w)) (f b w))"

definition event_storage_snapshot :: "EventBridgeStore AccountRegionBundle \<Rightarrow> Value" where
  "event_storage_snapshot b =
     (let attr = (\<lambda>k v. json_object [(''key'', JString k), (''value'', JString v)]);
          buses = concat (map (\<lambda>(_, st). map (\<lambda>bus.
            let n = length (filter (\<lambda>r. er_event_bus_name r = eb_name bus) (hm_values (eb_rules st)))
            in json_object [(''id'', JString (eb_arn bus)), (''kind'', JString ''event_bus''),
                 (''attributes'', JArray [attr ''name'' (eb_name bus), attr ''rule_count'' (nat_to_string n)])])
            (hm_values (eb_buses st))) (bundle_iter b))
      in json_object [(''kind'', JString ''event_bridge''), (''buses'', JArray buses)])"

end
