(* ===== verification/Events_Routing.thy ===== *)
theory Events_Routing
  imports Events_Service Sns_Delivery "HOL-Library.Multiset"
begin

text \<open>
  What event patterns mean, and where \<^verbatim>\<open>PutEvents\<close> sends events: to the queues of the matching rules, through the plugin
  manager and the SQS provider, in whatever order the started tasks run.
\<close>

section \<open>The meaning of patterns\<close>

text \<open>The leaves of a pattern with their paths, and the paths at which it has an object.\<close>

function pattern_leaves :: "Value \<Rightarrow> (string list \<times> Value) list"
  and member_leaves :: "(string \<times> Value) list \<Rightarrow> (string list \<times> Value) list" where
  "pattern_leaves v = (case v of JObject m \<Rightarrow> member_leaves m | _ \<Rightarrow> [([], v)])"
| "member_leaves [] = []"
| "member_leaves ((k, v) # m) = map (\<lambda>(p, l). (k # p, l)) (pattern_leaves v) @ member_leaves m"
  by pat_completeness auto
termination
  by (relation "measure (\<lambda>x. case x of Inl p \<Rightarrow> size p | Inr ps \<Rightarrow> size_list (size_prod (\<lambda>_. 0) size) ps)") auto

function pattern_objects :: "Value \<Rightarrow> string list list"
  and member_objects :: "(string \<times> Value) list \<Rightarrow> string list list" where
  "pattern_objects v = (case v of JObject m \<Rightarrow> [] # member_objects m | _ \<Rightarrow> [])"
| "member_objects [] = []"
| "member_objects ((k, v) # m) = map (Cons k) (pattern_objects v) @ member_objects m"
  by pat_completeness auto
termination
  by (relation "measure (\<lambda>x. case x of Inl p \<Rightarrow> size p | Inr ps \<Rightarrow> size_list (size_prod (\<lambda>_. 0) size) ps)") auto

declare pattern_leaves.simps [simp del] pattern_objects.simps [simp del]

fun value_at :: "Value \<Rightarrow> string list \<Rightarrow> Value" where
  "value_at v [] = v"
| "value_at v (k # ks) = value_at (case v of JObject m \<Rightarrow> member_or_null m k | _ \<Rightarrow> JNull) ks"

definition is_object :: "Value \<Rightarrow> bool" where
  "is_object v = (case v of JObject _ \<Rightarrow> True | _ \<Rightarrow> False)"

definition leaf_accepts :: "Value \<Rightarrow> Value \<Rightarrow> bool" where
  "leaf_accepts v leaf = (case leaf of JArray alternatives \<Rightarrow> list_ex (alternative_matches v) alternatives | _ \<Rightarrow> v = leaf)"

lemma matches_leaves:
  "matches_value ev pat \<longleftrightarrow> (\<forall>p \<in> set (pattern_objects pat). is_object (value_at ev p)) \<and>
     (\<forall>(p, l) \<in> set (pattern_leaves pat). leaf_accepts (value_at ev p) l)"
  "matches_members em pm \<longleftrightarrow> (\<forall>p \<in> set (member_objects pm). is_object (value_at (JObject em) p)) \<and>
     (\<forall>(p, l) \<in> set (member_leaves pm). leaf_accepts (value_at (JObject em) p) l)"
proof (induction ev pat and em pm rule: matches_value_matches_members.induct)
  case (1 event pattern)
  show ?case
  proof (cases pattern)
    case (JObject pm)
    show ?thesis
    proof (cases event)
      case (JObject em)
      with \<open>pattern = JObject pm\<close> 1 show ?thesis
        by (auto simp: matches_value.simps pattern_objects.simps pattern_leaves.simps is_object_def)
    qed (use JObject in \<open>auto simp: matches_value.simps pattern_objects.simps is_object_def\<close>)
  qed (auto simp: matches_value.simps pattern_objects.simps pattern_leaves.simps leaf_accepts_def split: Value.splits)
next
  case (3 em key pat_val rest)
  then show ?case by (auto simp: ball_Un)
qed simp


definition demo_pattern :: Value where
  "demo_pattern = JObject [(''source'', JArray [JString ''shop'']), (''detail'', JObject [(''state'', JArray [JObject [(''prefix'', JString ''pa'')]])])]"

definition demo_event :: "string \<Rightarrow> Value" where
  "demo_event state = JObject [(''source'', JString ''shop''), (''detail'', JObject [(''state'', JString state)])]"


section \<open>Where events go\<close>

definition applies :: "EventRule \<Rightarrow> string \<Rightarrow> Value \<Rightarrow> bool" where
  "applies r bus envelope \<longleftrightarrow> er_state r = ''ENABLED'' \<and> er_event_bus_name r = bus \<and> event_matches_pattern envelope (er_event_pattern r)"

text \<open>The targets of an entry that was given an identifier and a time, with what they receive.\<close>

definition routed :: "event_libs \<Rightarrow> RequestContext \<Rightarrow> EventRule list \<Rightarrow> Value \<times> string \<times> int \<Rightarrow> (string \<times> Value) list" where
  "routed libs ctx rules x =
     (case x of (entry, event_id, now) \<Rightarrow>
        let envelope = event_envelope libs ctx event_id now entry
        in concat (map (\<lambda>r. map (\<lambda>t. (rt_arn t, target_input libs envelope t)) (hm_values (er_targets r)))
             (filter (\<lambda>r. applies r (event_bus_of entry) envelope) rules)))"

lemma rule_targets_routed:
  "map (\<lambda>(arn, _, input). (arn, input)) (rule_targets libs (event_bus_of entry) (event_envelope libs ctx i t entry) rules) =
   routed libs ctx rules (entry, i, t)"
  by (induction rules) (auto simp: routed_def applies_def Let_def)

lemma put_entries_routed:
  "put_entries libs ctx rules entries w = (ids, ts, w') \<Longrightarrow> ew_spawned w' = ew_spawned w \<and> length ids = length entries \<and>
   (\<exists>times. length times = length entries \<and>
      map (\<lambda>(arn, _, input). (arn, input)) ts = concat (map (routed libs ctx rules) (zip entries (zip ids times))))"
proof (induction entries arbitrary: w ids ts)
  case (Cons entry entries)
  let ?w = "snd (sw_now (snd (new_uuid w)))" and ?i = "fst (new_uuid w)" and ?t = "fst (sw_now (snd (new_uuid w)))"
  obtain ids' ts' w1 where r: "put_entries libs ctx rules entries ?w = (ids', ts', w1)" by (metis prod_cases3)
  with Cons.prems have p: "ids = ?i # ids'" "w1 = w'"
    "ts = rule_targets libs (event_bus_of entry) (event_envelope libs ctx ?i ?t entry) rules @ ts'"
    by (auto simp: Let_def case_prod_beta)
  note r = r [unfolded p(2)]
  from Cons.IH [OF r] obtain times where "length times = length entries"
    "map (\<lambda>(arn, _, input). (arn, input)) ts' = concat (map (routed libs ctx rules) (zip entries (zip ids' times)))" by blast
  then have "length (?t # times) = length (entry # entries) \<and> map (\<lambda>(arn, _, input). (arn, input)) ts =
      concat (map (routed libs ctx rules) (zip (entry # entries) (zip ids (?t # times))))"
    by (simp add: p rule_targets_routed)
  moreover have "ew_spawned ?w = ew_spawned w" by (simp add: svc_world_defs)
  ultimately show ?case using Cons.IH [OF r] p by fastforce
qed auto

definition arn_resource :: "string \<Rightarrow> string" where
  "arn_resource arn = last (split_char (CHR '':'') arn)"

definition queue_arn :: "string \<Rightarrow> bool" where
  "queue_arn arn \<longleftrightarrow> 6 \<le> length (split_char (CHR '':'') arn) \<and> split_char (CHR '':'') arn ! 2 = ''sqs'' \<and> plain (arn_resource arn)"

lemma queue_target_request:
  "queue_arn (et_target_arn t) \<Longrightarrow> dispatch_to_target libs t =
     Some (sqs_delivery (et_region t) (et_account_id t) (arn_resource (et_target_arn t)) (json_to_string (el_ext libs) (et_input t)))"
  by (simp add: queue_arn_def dispatch_to_target_def sqs_delivery_def arn_resource_def Let_def)

definition task_for :: "RequestContext \<Rightarrow> string \<times> Value \<Rightarrow> event_task" where
  "task_for ctx x = \<lparr>et_target_arn = fst x, et_account_id = ctx_account_id ctx, et_region = ctx_region ctx, et_input = snd x\<rparr>"

lemma queue_requests:
  assumes "\<forall>t \<in> set ts. queue_arn (et_target_arn t) \<and> et_region t = reg"
  shows "List.map_filter (dispatch_to_target libs) ts =
    calls_of reg (map (\<lambda>t. (et_account_id t, arn_resource (et_target_arn t), json_to_string (el_ext libs) (et_input t))) ts)"
  using assms by (induction ts) (auto simp: map_filter_simps calls_of_def queue_target_request)

lemma put_events_spawns:
  assumes "ctx_operation ctx = ''PutEvents''" "value_get (ctx_request_body ctx) ''Entries'' = Some (JArray entries)"
    and "bundle_get b (ctx_account_id ctx) (ctx_region ctx) = Some st" "ew_spawned w = []"
  shows "\<exists>ids times w'. event_dispatch libs True ctx b w = Some (Inr (events_accepted libs ids), b, w') \<and>
    length ids = length entries \<and> length times = length entries \<and>
    ew_spawned w' = map (task_for ctx) (concat (map (routed libs ctx (hm_values (eb_rules st))) (zip entries (zip ids times))))"
proof -
  obtain ids ts w1 where p: "put_entries libs ctx (hm_values (eb_rules st)) entries w = (ids, ts, w1)" by (metis prod_cases3)
  from put_entries_routed [OF p] obtain times where t: "ew_spawned w1 = []" "length ids = length entries" "length times = length entries"
    "map (\<lambda>(arn, _, input). (arn, input)) ts = concat (map (routed libs ctx (hm_values (eb_rules st))) (zip entries (zip ids times)))"
    using assms(4) by auto
  have "event_dispatch libs True ctx b w = Some (Inr (events_accepted libs ids), b, spawn_targets ctx True ts w1)"
    using assms p by (simp add: event_dispatch_def event_handler_def put_events_def)
  moreover have "ew_spawned (spawn_targets ctx True ts w1) = map (task_for ctx) (map (\<lambda>(arn, _, input). (arn, input)) ts)"
    using t(1) by (simp add: spawn_targets_def task_for_def comp_def case_prod_beta)
  ultimately show ?thesis using t by metis
qed

text \<open>The order of the tasks does not matter for what a queue receives as a multiset.\<close>

lemma mset_concat_perm: "mset ts = mset ts' \<Longrightarrow> mset (concat (map g ts)) = mset (concat (map g ts'))"
proof -
  have "mset (concat (map g xs)) = sum_mset (image_mset (\<lambda>t. mset (g t)) (mset xs))" for xs
    by (induction xs) auto
  then show "mset ts = mset ts' \<Longrightarrow> mset (concat (map g ts)) = mset (concat (map g ts'))" by simp
qed

definition received :: "event_libs \<Rightarrow> string \<Rightarrow> (string \<times> Value) list \<Rightarrow> string list" where
  "received libs name ds = map (\<lambda>(_, input). latin1 (json_to_string (el_ext libs) input)) (filter (\<lambda>(arn, _). name = arn_resource arn) ds)"

lemma received_tasks:
  "concat (map (\<lambda>t. if (a', r', n') = (et_account_id t, reg, arn_resource (et_target_arn t))
      then [latin1 (json_to_string (el_ext libs) (et_input t))] else []) (map (task_for ctx) ds)) =
   (if (a', r') = (ctx_account_id ctx, reg) then received libs n' ds else [])"
proof (cases "a' = ctx_account_id ctx \<and> r' = reg")
  case True
  then show ?thesis by (induction ds) (simp_all add: received_def task_for_def case_prod_beta)
next
  case False
  then show ?thesis by (auto simp: task_for_def)
qed

lemma routed_arn:
  "(arn, v) \<in> set (routed libs ctx rules x) \<Longrightarrow> \<exists>r \<in> set rules. \<exists>t \<in> set (hm_values (er_targets r)). arn = rt_arn t"
  unfolding routed_def Let_def by (cases x) auto

text \<open>C14: PutEvents answers one identifier per entry. When the targets of the rules are queues, then in whatever order the tasks it
  started run, the manager serves them and each queue of the account and region holds, besides the messages it held, exactly one message per
  entry, per enabled rule of the entry's bus whose pattern the event matches, and per target of that rule that names the queue; no other
  queue changes. The region and account in the target's ARN are not looked at.\<close>

theorem events_reach_queues:
  assumes "serving ''sqs'' (sqs_provider ext f) (Sqs_State (qb, qw)) m"
    and "ctx_operation ctx = ''PutEvents''" "value_get (ctx_request_body ctx) ''Entries'' = Some (JArray entries)"
    and "bundle_get b (ctx_account_id ctx) (ctx_region ctx) = Some st" "ew_spawned w = []" "plain (ctx_account_id ctx)"
    and "\<forall>r \<in> set (hm_values (eb_rules st)). \<forall>t \<in> set (hm_values (er_targets r)). queue_arn (rt_arn t)"
  shows "\<exists>ids times w'. event_dispatch libs True ctx b w = Some (Inr (events_accepted libs ids), b, w') \<and>
    length ids = length entries \<and> length times = length entries \<and>
    (\<forall>tasks. mset tasks = mset (ew_spawned w') \<longrightarrow>
      (\<exists>m' qb' qw'. manager_run (map (Pair ms) (List.map_filter (dispatch_to_target libs) tasks)) m = Some m' \<and>
        serving ''sqs'' (sqs_provider ext f) (Sqs_State (qb', qw')) m' \<and>
        (\<forall>a' r' n'. CHR 0x00 \<notin> set a' \<longrightarrow> map_option mset (queue_bodies qb' (a', r', n')) =
           map_option (\<lambda>bs. mset bs + mset (if (a', r') = (ctx_account_id ctx, ctx_region ctx)
             then received libs n' (concat (map (routed libs ctx (hm_values (eb_rules st))) (zip entries (zip ids times)))) else []))
           (queue_bodies qb (a', r', n')))))"
proof -
  obtain ids times w' where p: "event_dispatch libs True ctx b w = Some (Inr (events_accepted libs ids), b, w')"
    "length ids = length entries" "length times = length entries"
    and sp: "ew_spawned w' = map (task_for ctx) (concat (map (routed libs ctx (hm_values (eb_rules st))) (zip entries (zip ids times))))"
    using put_events_spawns [OF assms(2-5)] by blast
  let ?D = "concat (map (routed libs ctx (hm_values (eb_rules st))) (zip entries (zip ids times)))"
  have "\<exists>m' qb' qw'. manager_run (map (Pair ms) (List.map_filter (dispatch_to_target libs) tasks)) m = Some m' \<and>
      serving ''sqs'' (sqs_provider ext f) (Sqs_State (qb', qw')) m' \<and>
      (\<forall>a' r' n'. CHR 0x00 \<notin> set a' \<longrightarrow> map_option mset (queue_bodies qb' (a', r', n')) =
         map_option (\<lambda>bs. mset bs + mset (if (a', r') = (ctx_account_id ctx, ctx_region ctx) then received libs n' ?D else []))
         (queue_bodies qb (a', r', n')))"
    if tasks: "mset tasks = mset (ew_spawned w')" for tasks
  proof -
    let ?a = "\<lambda>t. (et_account_id t, arn_resource (et_target_arn t), json_to_string (el_ext libs) (et_input t))"
    have "set tasks = task_for ctx ` set ?D" using arg_cong [OF tasks, of set_mset] by (simp add: sp)
    then have t: "\<forall>t \<in> set tasks. queue_arn (et_target_arn t) \<and> et_region t = ctx_region ctx \<and> et_account_id t = ctx_account_id ctx"
      using assms(7) by (fastforce simp: task_for_def dest: routed_arn)
    then have "\<forall>(a, n, p) \<in> set (map ?a tasks). plain a \<and> plain n" using assms(6) by (auto simp: queue_arn_def)
    moreover have "List.map_filter (dispatch_to_target libs) tasks = calls_of (ctx_region ctx) (map ?a tasks)"
      using t by (intro queue_requests) auto
    ultimately obtain m' qb' qw' where d: "manager_run (map (Pair ms) (List.map_filter (dispatch_to_target libs) tasks)) m = Some m'"
      "serving ''sqs'' (sqs_provider ext f) (Sqs_State (qb', qw')) m'"
      and q: "\<And>a' r' n'. CHR 0x00 \<notin> set a' \<Longrightarrow> queue_bodies qb' (a', r', n') = map_option (\<lambda>bs. bs @ concat (map (\<lambda>t.
          if (a', r', n') = (et_account_id t, ctx_region ctx, arn_resource (et_target_arn t))
          then [latin1 (json_to_string (el_ext libs) (et_input t))] else []) tasks)) (queue_bodies qb (a', r', n'))"
      using deliveries_arrive [OF assms(1), of "map ?a tasks" ms "ctx_region ctx"] by (auto simp: comp_def)
    have "map_option mset (queue_bodies qb' (a', r', n')) =
        map_option (\<lambda>bs. mset bs + mset (if (a', r') = (ctx_account_id ctx, ctx_region ctx) then received libs n' ?D else []))
          (queue_bodies qb (a', r', n'))" if "CHR 0x00 \<notin> set a'" for a' r' n'
      unfolding q [OF that] option.map_comp comp_def mset_append mset_concat_perm [OF tasks] sp received_tasks by (rule refl)
    with d show ?thesis by blast
  qed
  with p show ?thesis by blast
qed

definition event_demo_libs :: event_libs where
  "event_demo_libs = \<lparr>el_ext = demo_externs, el_rfc3339 = (\<lambda>_. [])\<rparr>"

definition event_demo_world :: event_world where
  "event_demo_world = \<lparr>sw_clock = (\<lambda>n. int n), sw_reads = 0, sw_uuid = (\<lambda>n. ''u'' @ nat_to_string n), sw_drawn = 0, ew_spawned = []\<rparr>"

definition demo_rule :: EventRule where
  "demo_rule = \<lparr>er_name = ''r'', er_event_bus_name = ''default'', er_event_pattern = Some (JObject [(''source'', JArray [JString ''shop''])]),
     er_schedule_expression = None, er_state = ''ENABLED'', er_description = [],
     er_targets = [(''t'', \<lparr>rt_id = ''t'', rt_arn = ''arn:aws:sqs:us-east-1:000000000000:jobs'', rt_input = None, rt_input_path = None\<rparr>)],
     er_arn = ''a'', er_created = 0\<rparr>"

definition demo_put_events :: RequestContext where
  "demo_put_events = (RequestContext_new ''events'' ''PutEvents'' ''us-east-1'' ''000000000000'')
     \<lparr>ctx_request_body := JObject [(''Entries'', JArray [JObject [(''Source'', JString ''shop'')], JObject [(''Source'', JString ''other'')]])]\<rparr>"

definition demo_events :: "EventBridgeStore AccountRegionBundle" where
  "demo_events = write_back bundle_new ''000000000000'' ''us-east-1'' \<lparr>eb_buses = [], eb_rules = [(''r'', demo_rule)]\<rparr>"

theorem events_reach_queues_witness:
  "\<exists>ids w' m' qb' qw'. event_dispatch event_demo_libs True demo_put_events demo_events event_demo_world =
      Some (Inr (events_accepted event_demo_libs ids), demo_events, w') \<and> length ids = 2 \<and>
    manager_run (map (Pair 0) (List.map_filter (dispatch_to_target event_demo_libs) (ew_spawned w')))
      (register ''sqs'' (sqs_provider demo_externs (\<lambda>_. [])) (Sqs_State (demo_bundle, demo_world)) manager_new) = Some m' \<and>
    service_state_of ''sqs'' m' = Some (Sqs_State (qb', qw')) \<and>
    queue_bodies qb' (''000000000000'', ''eu-west-1'', ''jobs'') = queue_bodies demo_bundle (''000000000000'', ''eu-west-1'', ''jobs'')"
proof -
  let ?m = "register ''sqs'' (sqs_provider demo_externs (\<lambda>_. [])) (Sqs_State (demo_bundle, demo_world)) manager_new"
    and ?st = "\<lparr>eb_buses = [], eb_rules = [(''r'', demo_rule)]\<rparr>"
  have sv: "serving ''sqs'' (sqs_provider demo_externs (\<lambda>_. [])) (Sqs_State (demo_bundle, demo_world)) ?m"
    by (simp add: serving_def register_def manager_new_def ServiceContainer_new_def to_ascii_lowercase_def is_ascii_uppercase_def
        needs_start_def ensure_load_def ensure_check_def ATOMIC_AVAILABLE_def ATOMIC_STOPPED_def)
  have c: "ctx_operation demo_put_events = ''PutEvents''" "value_get (ctx_request_body demo_put_events) ''Entries'' =
      Some (JArray [JObject [(''Source'', JString ''shop'')], JObject [(''Source'', JString ''other'')]])"
    "bundle_get demo_events (ctx_account_id demo_put_events) (ctx_region demo_put_events) = Some ?st"
    "ew_spawned event_demo_world = []" "plain (ctx_account_id demo_put_events)"
    by (simp_all add: demo_put_events_def demo_events_def RequestContext_new_def event_demo_world_def plain_def is_unreserved_def)
  have q: "\<forall>r \<in> set (hm_values (eb_rules ?st)). \<forall>t \<in> set (hm_values (er_targets r)). queue_arn (rt_arn t)"
    by (simp add: hm_values_def demo_rule_def queue_arn_def arn_resource_def plain_def is_unreserved_def)
  have reg: "ctx_region demo_put_events = ''us-east-1''" by (simp add: demo_put_events_def RequestContext_new_def)
  from events_reach_queues [OF sv c q, of event_demo_libs 0] show ?thesis
    apply (elim exE conjE)
    subgoal premises p for ids times w'
    proof -
      from p(4) obtain m' qb' qw' where d:
        "manager_run (map (Pair 0) (List.map_filter (dispatch_to_target event_demo_libs) (ew_spawned w'))) ?m = Some m'"
        "serving ''sqs'' (sqs_provider demo_externs (\<lambda>_. [])) (Sqs_State (qb', qw')) m'"
        "map_option mset (queue_bodies qb' (''000000000000'', ''eu-west-1'', ''jobs'')) =
         map_option mset (queue_bodies demo_bundle (''000000000000'', ''eu-west-1'', ''jobs''))"
        by (auto simp: reg)
      have "queue_bodies demo_bundle (''000000000000'', ''eu-west-1'', ''jobs'') = None" by code_simp
      with d(3) have "queue_bodies qb' (''000000000000'', ''eu-west-1'', ''jobs'') = queue_bodies demo_bundle (''000000000000'', ''eu-west-1'', ''jobs'')"
        by simp
      moreover have "service_state_of ''sqs'' m' = Some (Sqs_State (qb', qw'))" using d(2) by (auto simp: serving_def service_state_of_def)
      ultimately show ?thesis using p(1,2) d(1) by auto
    qed
    done
qed

end
