(* ===== verification/Spec2Isabelle.thy ===== *)
theory Spec2Isabelle
  imports Gateway_Requests Dynamo_Pages Dynamo_Keys Sns_Delivery S3_Listing S3_Multipart S3_Versions Sfn_Executions Secrets_Versions Ssm_Service Events_Routing
begin

text \<open>
  Verification of the core of \<^verbatim>\<open>openstack\<close>, a local reimplementation of AWS services in Rust.

  \<^bold>\<open>The program.\<close> A gateway receives HTTP requests, derives a service name, an operation, an
  account and a region from each, and hands the resulting \<^verbatim>\<open>RequestContext\<close> to the
  \<^verbatim>\<open>ServicePluginManager\<close>. The manager keeps a \<^verbatim>\<open>ServiceContainer\<close> per registered service, starts the
  service on its first request and calls the \<^verbatim>\<open>dispatch\<close> of its provider. A provider keeps one store per
  account and region in an \<^verbatim>\<open>AccountRegionBundle\<close>, decodes the request, works on the store of
  the request's scope and builds the response. The model follows that path from the HTTP request to the stores and
  back: the gateway, the wire protocols, the manager and its containers, the bundles, and the providers with their stores.

  \<^bold>\<open>Conventions.\<close> Strings are lists of bytes in UTF-8; \<^verbatim>\<open>HashMap\<close> and \<^verbatim>\<open>DashMap\<close> are association lists
  with distinct keys in an order that no theorem depends on, and \<^verbatim>\<open>BTreeMap\<close> is sorted by key;
  machine integers are words. The release profile aborts on a panic: an operation that can panic answers an
  option and \<^term>\<open>None\<close> is the abort. State is passed explicitly. What time and the process-wide counters yield is a
  world that the operations read and advance. Functions of other packages (the JSON parser and printer, MD5,
  base64, decimal arithmetic, the hash of partition keys) are arguments; a theorem that needs
  a law of one states it as a hypothesis, and its witness has an instance.

  \<^bold>\<open>Theories.\<close>
  \<^item> \<open>Prelude\<close> has strings, numbers in decimal and hexadecimal, UTF-8 and word facts;
    \<open>Rust_Collections\<close> has the maps and the stable sort, and the locales \<open>map_contract\<close>,
    \<open>total_comparator\<close> and \<open>invariant_machine\<close>.
  \<^item> \<open>Service_Framework\<close> models \<^verbatim>\<open>service-framework/src/{traits,skeleton,xml,arn}.rs\<close> and the JSON
    values; the locale \<open>xml_escaper\<close> is the contract of the escaping routines. \<open>Account_Bundle\<close>
    models \<^verbatim>\<open>state/src/{scoping,bundle}.rs\<close>; the locale \<open>scoped_store\<close> gives the separation of tenants.
  \<^item> \<open>Service_Container\<close> models \<^verbatim>\<open>lifecycle.rs\<close> and \<^verbatim>\<open>container.rs\<close>: \<open>task_step\<close> is one step of a call of
    \<^verbatim>\<open>ensure_running\<close> or \<^verbatim>\<open>stop\<close>, and \<open>exec_event\<close> interleaves calls, provider answers and
    cancellations. \<open>Container_Runs\<close> has the invariants of these runs. \<open>Service_Manager\<close> models \<^verbatim>\<open>manager.rs\<close>;
    its locale \<open>provider_invariant\<close> is what the manager needs of a provider.
  \<^item> \<open>Sqs_Store\<close> and \<open>Sqs_Provider\<close> model \<^verbatim>\<open>services/sqs/src/{store,provider}.rs\<close>. \<open>Sqs_Queue\<close> shows what one
    queue does under runs of operations, \<open>Sqs_Service\<close> that the handlers act as such
    runs and stay in their scope, \<open>Sqs_Invariant\<close> what sequences of requests keep.
  \<^item> \<open>Dynamo_Value\<close>, \<open>Dynamo_Table\<close> and \<open>Dynamo_Expr\<close> model \<^verbatim>\<open>services/dynamodb/src/store.rs\<close>: attribute
    values and number comparison, tables with materialized indexes and streams, filter and update
    expressions. \<open>Dynamo_Index\<close>, \<open>Dynamo_Filter\<close> and \<open>Dynamo_Update\<close> have their properties.
    \<open>Dynamo_Provider\<close> and \<open>Dynamo_Service\<close> model \<^verbatim>\<open>provider.rs\<close>, one \<open>op_\<close> definition per arm of its dispatch;
    \<open>Dynamo_Requests\<close>, \<open>Dynamo_Pages\<close> and \<open>Dynamo_Keys\<close> have the properties of requests, of
    paging and stream readers, and of key conditions.
  \<^item> \<open>Json_Service\<close> has what the JSON providers share, with the locale \<open>scope_invariant\<close>;
    \<open>Kinesis_Service\<close> models \<^verbatim>\<open>services/kinesis/src/{store,provider}.rs\<close> and \<open>Kinesis_Streams\<close> proves its
    properties.
  \<^item> \<open>Service_World\<close> has the clock and the identifiers that the newer providers draw from. \<open>Sns_Service\<close> models
    \<^verbatim>\<open>services/sns/src/{store,provider}.rs\<close>, \<open>Sns_Topics\<close> has its invariant, and \<open>Sns_Delivery\<close> follows a publication through
    the manager into the queues of SQS.
  \<^item> \<open>S3_Store\<close>, \<open>S3_Files\<close>, \<open>S3_Provider\<close> and \<open>S3_Service\<close> model \<^verbatim>\<open>services/s3/src/{store,object_store,provider}.rs\<close>. \<open>S3_Files\<close>
    has the file system the objects live in: names of inodes, so that hard links share their bytes, and
    operations that may fail. \<open>S3_Invariant\<close> has what all requests keep; \<open>S3_Objects\<close>, \<open>S3_Multipart\<close>, \<open>S3_Versions\<close> and
    \<open>S3_Listing\<close> have the properties of object bytes, uploads, versions and listings.
  \<^item> \<open>Sfn_Interpreter\<close> and \<open>Sfn_Service\<close> model \<^verbatim>\<open>services/stepfunctions/src/{store,provider}.rs\<close>. \<open>Sfn_Machines\<close> gives state
    machines a reference semantics of transitions and relates the interpreter to it; \<open>Sfn_Executions\<close> has the properties of requests.
  \<^item> \<open>Secrets_Service\<close> and \<open>Secrets_Versions\<close> have Secrets Manager, \<open>Ssm_Service\<close> the parameter store (\<^verbatim>\<open>services/secretsmanager\<close>,
    \<^verbatim>\<open>services/ssm\<close>). \<open>Events_Service\<close> models \<^verbatim>\<open>services/eventbridge/src/{store,provider}.rs\<close>; \<open>Events_Routing\<close> says what patterns
    mean and follows events through the manager into queues.
  \<^item> \<open>Aws_Protocol\<close> models the crate \<^verbatim>\<open>aws-protocol\<close>: parsers and serializers of the five wire protocols.
    \<open>Gateway_Auth\<close> models \<^verbatim>\<open>gateway/src/sigv4.rs\<close> and, as a step relation, \<^verbatim>\<open>port_allocator.rs\<close>;
    \<open>Gateway_Routing\<close> the functions of \<^verbatim>\<open>server.rs\<close> that find the service, the operation and the
    parameters of a request; \<open>Gateway\<close> the request handler with \<^verbatim>\<open>cors.rs\<close> and \<^verbatim>\<open>context.rs\<close>. \<open>Gateway_Requests\<close>
    lifts the properties of the services to sequences of HTTP requests.
  \<^item> \<open>Platform\<close> registers the three services with one manager, as \<^verbatim>\<open>register_services\<close> in
    \<^verbatim>\<open>openstack/src/main.rs\<close> does, and combines their invariants.

  \<^bold>\<open>What is shown.\<close>
  \<^item> Invariants of all request sequences: identifiers of SQS messages are unique and ordered, DynamoDB tables
    agree with their indexes and file items under their keys, Kinesis shards and records are
    numbered without gaps; together, behind the gateway, for any mix of HTTP requests. SNS subscriptions name
    existing topics; S3 objects and uploads belong to existing buckets, whatever the file system does; executions of state machines
    record runs; secrets have one current version and their cached listing is up to date.
  \<^item> Isolation: a request neither changes nor reads the store of another account and region, and the account and
    region are those of the credential that signed it.
  \<^item> The gateway: every request is routed to a canonical service, failed dispatches are answered in the protocol
    of the service, account identifiers have twelve digits, bodies with a limit are cut off there, and concurrent calls of the
    port allocator receive distinct ports and return.
  \<^item> Behaviour of operations: receiving, deleting, visibility, ordering and deduplication in SQS; reads after
    writes, queries through indexes, conditional writes and all-or-nothing transactions in DynamoDB; routing of
    Kinesis records; what S3 stored is what it sends, completed uploads are their parts in order, enabled
    versioning keeps every version; an SNS publication reaches exactly the subscribed queues and an event exactly the queues of
    the rules it matches, in whatever order the tasks run.
  \<^item> Equivalence with a specification: number strings are compared as the numbers, filter and update texts
    mean their clauses, key conditions are parsed to the condition they state, event patterns mean what their leaves say,
    and the interpreter of state machines follows the transitions of a reference semantics.
  \<^item> Round trips: URL encoding, the wire form of attribute values, iterator tokens, the bytes of objects, values of secrets and parameters.
  \<^item> Progress: the pages of table names, of stream records and of bucket listings end and are complete; calls on a container
    exclude each other while starting, cannot deadlock and return; every state machine has a result unless it hits the panic of a lone
    asterisk.
  \<^item> Where the code departs from its intent, the theorems of kind error say how.

  \<^bold>\<open>Bounds.\<close> No definition of the models uses fuel except \<open>run_task\<close>, which runs a single call of a
  container; ten steps are the longest path of \<^verbatim>\<open>ensure_running\<close> (\<open>task_rank\<close>). Loops that walk an
  index have termination proofs, as has the interpreter of state machines, whose own bound of a thousand iterations is the code's. Hypotheses of the form \<open>\<dots> < 2 ^ 64\<close> exclude the wrap of 64-bit counters.

  \<^bold>\<open>Not modelled.\<close> The TCP and TLS listeners, the internal API and the embedded pages of Studio (the gateway's answer
  names what it asks of them), persistence to files, temporary files of spooled bodies, the other service providers, configuration, DNS, the Studio interface and the command line.
  Log output and latency metrics have no effect on the modelled state. Requests to the other services
  are atomic in the model: in the code a request holds the lock of its store or table while it works. An S3 request gives up
  the lock of its store while it reads or writes a file, and StartExecution while the machine runs; the model serves such requests one after
  the other. The tasks PutEvents starts run in any order.
\<close>

end
